(* ===== verification/Py_Prelude.thy ===== *)
theory Py_Prelude
  imports Complex_Main "HOL-Library.List_Lexorder" "HOL-Library.Char_ord" "HOL-Library.Sublist"
begin

text \<open>
  What the components share: the Python values their functions take and return, exceptions as
  values of a sum type, and the few builtins they use on them (membership in a set of strings,
  conversion to float, the canonical form that \<open>json.dumps(sort_keys=True)\<close> prints).

  A finite float is a real number: rounding is not modelled, while NaN and the infinities are
  values of their own because the code tests for them. A string is a list of 8-bit characters.
  The mappings of the program have string keys, so a dict is an association list from strings,
  in insertion order. An exception is its class, with the code the program attaches to it; the
  message text is left out, except where the program stores it in a result.
\<close>

section \<open>Collections of facts\<close>

named_theorems res_inv \<open>what a successful result says of the calls it came from\<close>
named_theorems model_eval \<open>definitions unfolded to evaluate the model on a concrete input\<close>

section \<open>Values\<close>

datatype pyfloat = FNan | FInf bool | FFin real

datatype pyval =
    PNone
  | PBool bool
  | PInt int
  | PFloat pyfloat
  | PStr string
  | PList "pyval list"
  | PTuple "pyval list"
  | PDict "(string \<times> pyval) list"

type_synonym pydict = "(string \<times> pyval) list"

section \<open>Exceptions and results\<close>

datatype checkpoint_code =
    Checkpoint_state_invalid | Evidence_incomplete | Evidence_pair_binding_mismatch
  | Evidence_invalid | Evidence_not_current | Repository_not_pushed | Repository_dirty
  | Repository_detached | Repository_unverified | Upstream_missing | Remote_unverified
  | Checkpoint_race | Journal_prefix_invalid | Journal_prefix_changed | No_completed_pair

datatype meminfo_code = Meminfo_malformed | Meminfo_inconsistent | Meminfo_missing

datatype exn =
    ValueError | TypeError | OverflowError | KeyError | IndexError | AttributeError
  | OSError | RuntimeError | AssertionError | KeyboardInterrupt | SystemExit
  | AutoresearchError | TransitionError
  | CheckpointError checkpoint_code
  | MeminfoError meminfo_code
  | MetricsDeltaError
  | CacheMetricsError
  | SpeculativeAuditError
  | AgenticScenarioError
  | SGLangSpeculativeAuditError
  | HTTPException
  | ManifestError
  | EvidenceError
  | AutoresearchV2Error
  | AutoresearchV2ExecutionFailure string pydict
  | SM121CachePerformanceError
  | SM121CachePerformanceRequestError
  | PreflightError
  | HostSafetyError
  | SM121StorageQualityGateError

type_synonym 'a res = "exn + 'a"

text \<open>\<open>except Exception\<close> and \<open>except ValueError\<close>: the classes they catch.\<close>

definition is_exception :: "exn \<Rightarrow> bool" where
  "is_exception e \<longleftrightarrow> e \<notin> {KeyboardInterrupt, SystemExit}"

definition is_value_error :: "exn \<Rightarrow> bool" where
  "is_value_error e = (case e of
       ValueError \<Rightarrow> True | AutoresearchError \<Rightarrow> True | TransitionError \<Rightarrow> True | MeminfoError _ \<Rightarrow> True
     | MetricsDeltaError \<Rightarrow> True | ManifestError \<Rightarrow> True | AutoresearchV2Error \<Rightarrow> True
     | AutoresearchV2ExecutionFailure _ _ \<Rightarrow> True | SM121CachePerformanceError \<Rightarrow> True | _ \<Rightarrow> False)"

definition andThen :: "'e + 'a \<Rightarrow> ('a \<Rightarrow> 'e + 'b) \<Rightarrow> 'e + 'b" where
  "andThen m f = (case m of Inl e \<Rightarrow> Inl e | Inr x \<Rightarrow> f x)"

definition check :: "bool \<Rightarrow> 'e \<Rightarrow> 'e + unit" where
  "check b e = (if b then Inr () else Inl e)"

text \<open>\<open>except C as error: raise e from error\<close>, with \<open>p\<close> the test for the class \<open>C\<close>.\<close>

definition reraise :: "(exn \<Rightarrow> bool) \<Rightarrow> exn \<Rightarrow> 'a res \<Rightarrow> 'a res" where
  "reraise p e m = (case m of Inl x \<Rightarrow> (if p x then Inl e else Inl x) | Inr y \<Rightarrow> Inr y)"

text \<open>A comprehension or loop that applies a fallible function to each item, in order.\<close>

fun traverse :: "('a \<Rightarrow> 'e + 'b) \<Rightarrow> 'a list \<Rightarrow> 'e + 'b list" where
  "traverse f [] = Inr []"
| "traverse f (x # xs) =
     andThen (f x) (\<lambda>y. andThen (traverse f xs) (\<lambda>ys. Inr (y # ys)))"

text \<open>A loop that threads a state through a fallible body and stops at the first exception.\<close>

fun fold_res :: "('s \<Rightarrow> 'a \<Rightarrow> 'e + 's) \<Rightarrow> 's \<Rightarrow> 'a list \<Rightarrow> 'e + 's" where
  "fold_res f s [] = Inr s"
| "fold_res f s (x # xs) = andThen (f s x) (\<lambda>s'. fold_res f s' xs)"

lemma andThen_simps [simp]:
  "andThen (Inl e) f = Inl e"
  "andThen (Inr x) f = f x"
  by (simp_all add: andThen_def)

lemma andThen_Inr [simp]: "andThen m Inr = m"
  by (cases m) simp_all

lemma andThen_eq_Inr [res_inv]:
  "andThen m f = Inr y \<longleftrightarrow> (\<exists>x. m = Inr x \<and> f x = Inr y)"
  by (cases m) auto

lemma andThen_eq_Inl:
  "andThen m f = Inl e \<longleftrightarrow> m = Inl e \<or> (\<exists>x. m = Inr x \<and> f x = Inl e)"
  by (cases m) auto

lemma check_simps [simp]:
  "check True e = Inr ()"
  "check False e = Inl e"
  by (simp_all add: check_def)

lemma check_eq_Inr [simp]: "check b e = Inr u \<longleftrightarrow> b"
  by (simp add: check_def)

lemma check_eq_Inl [simp]: "check b e = Inl e' \<longleftrightarrow> \<not> b \<and> e' = e"
  by (auto simp: check_def)

text \<open>A guard of the form \<open>if \<dots>: raise\<close> passes exactly when its test says so.\<close>

lemma guard_eq_Inr [simp]:
  "((if b then Inl e else m) = Inr y) \<longleftrightarrow> \<not> b \<and> m = Inr y"
  "((if b then m else Inl e) = Inr y) \<longleftrightarrow> b \<and> m = Inr y"
  by auto

text \<open>A test for one kind of value passes for that kind alone.\<close>

lemma object_Inr:
  "(case v of PDict d \<Rightarrow> f d | _ \<Rightarrow> Inl e) = Inr y \<longleftrightarrow> (\<exists>d. v = PDict d \<and> f d = Inr y)"
  by (cases v) auto

lemma array_Inr:
  "(case v of PList xs \<Rightarrow> f xs | _ \<Rightarrow> Inl e) = Inr y \<longleftrightarrow> (\<exists>xs. v = PList xs \<and> f xs = Inr y)"
  by (cases v) auto

lemma text_Inr:
  "(case v of PStr s \<Rightarrow> f s | _ \<Rightarrow> Inl e) = Inr y \<longleftrightarrow> (\<exists>s. v = PStr s \<and> f s = Inr y)"
  by (cases v) auto

lemma reraise_Inr [simp]: "reraise p e m = Inr y \<longleftrightarrow> m = Inr y"
  by (auto simp: reraise_def split: sum.splits)

lemma reraise_value [simp]:
  "reraise p e (Inr y) = Inr y"
  "reraise p e (Inl x) = (if p x then Inl e else Inl x)"
  by (simp_all add: reraise_def)

lemma traverse_eq_Inr [res_inv]:
  "traverse f xs = Inr ys \<longleftrightarrow> list_all2 (\<lambda>x y. f x = Inr y) xs ys"
proof (induction xs arbitrary: ys)
  case Nil
  then show ?case by auto
next
  case (Cons x xs)
  then show ?case by (cases ys) (auto simp: andThen_eq_Inr)
qed

lemma list_all2_map_iff [simp]:
  "list_all2 (\<lambda>x y. x = g y \<and> P y) xs ys \<longleftrightarrow> xs = map g ys \<and> list_all P ys"
proof (induction ys arbitrary: xs)
  case Nil
  then show ?case by auto
next
  case (Cons y ys)
  then show ?case by (cases xs) auto
qed

lemma traverse_map_Inr:
  assumes "\<And>x. x \<in> set xs \<Longrightarrow> f (g x) = Inr x"
  shows "traverse f (map g xs) = Inr xs"
  using assms by (induction xs) auto

lemma traverse_length: "traverse f xs = Inr ys \<Longrightarrow> length ys = length xs"
  by (simp add: traverse_eq_Inr list_all2_lengthD)

lemma traverse_prop:
  assumes "traverse f xs = Inr ys" and "\<And>x y. f x = Inr y \<Longrightarrow> P y"
  shows "\<forall>y \<in> set ys. P y"
proof
  fix y
  assume "y \<in> set ys"
  with assms(1) obtain x where "f x = Inr y"
    by (auto simp: traverse_eq_Inr in_set_conv_nth list_all2_conv_all_nth)
  then show "P y" by (rule assms(2))
qed

lemma fold_res_append:
  "fold_res f s (xs @ ys) = andThen (fold_res f s xs) (\<lambda>t. fold_res f t ys)"
proof (induction xs arbitrary: s)
  case Nil
  then show ?case by simp
next
  case (Cons x xs)
  then show ?case by (cases "f s x") auto
qed

text \<open>The loop rule: an invariant of the body holds after the loop.\<close>

lemma fold_res_inv:
  assumes "fold_res f s xs = Inr t" and "I s"
    and "\<And>u x v. x \<in> set xs \<Longrightarrow> I u \<Longrightarrow> f u x = Inr v \<Longrightarrow> I v"
  shows "I t"
  using assms
proof (induction xs arbitrary: s)
  case Nil
  then show ?case by simp
next
  case (Cons x xs)
  from Cons.prems(1) obtain u where u: "f s x = Inr u" "fold_res f u xs = Inr t"
    by (auto simp: andThen_eq_Inr)
  from Cons.prems(2,3) u(1) have "I u" by auto
  then show ?case
    using Cons.IH [OF u(2)] Cons.prems(3) by auto
qed

text \<open>Which exceptions a call can raise: one rule per construct, collected for \<open>intro\<close>.\<close>

named_theorems raises \<open>which exceptions a construct or function can raise\<close>

definition raises_only :: "'e set \<Rightarrow> 'e + 'a \<Rightarrow> bool" where
  "raises_only E m \<longleftrightarrow> (\<forall>e. m = Inl e \<longrightarrow> e \<in> E)"

lemma raises_only_value [simp]:
  "raises_only E (Inr x)"
  "raises_only E (Inl e) \<longleftrightarrow> e \<in> E"
  by (simp_all add: raises_only_def)

lemma raises_only_check [simp]: "raises_only E (check b e) \<longleftrightarrow> b \<or> e \<in> E"
  by (auto simp: raises_only_def)

lemma raises_only_andThen [raises]:
  assumes "raises_only E m" and "\<And>x. m = Inr x \<Longrightarrow> raises_only E (f x)"
  shows "raises_only E (andThen m f)"
  using assms by (cases m) auto

lemma raises_only_if [raises]:
  assumes "b \<Longrightarrow> raises_only E m" and "\<not> b \<Longrightarrow> raises_only E n"
  shows "raises_only E (if b then m else n)"
  using assms by simp

lemma raises_only_reraise [raises]:
  assumes "raises_only F m" and "\<And>x. x \<in> F \<Longrightarrow> p x \<Longrightarrow> e \<in> E"
    and "\<And>x. x \<in> F \<Longrightarrow> \<not> p x \<Longrightarrow> x \<in> E"
  shows "raises_only E (reraise p e m)"
  using assms by (cases m) auto

lemma raises_only_reraise_all: "e \<in> E \<Longrightarrow> raises_only E (reraise (\<lambda>_. True) e m)"
  by (cases m) simp_all

lemma raises_only_traverse [raises]:
  assumes "\<And>x. x \<in> set xs \<Longrightarrow> raises_only E (f x)"
  shows "raises_only E (traverse f xs)"
  using assms by (induction xs) (auto intro!: raises_only_andThen)

lemma raises_only_fold_res:
  assumes "I s" and "\<And>u x. I u \<Longrightarrow> raises_only E (f u x)"
    and "\<And>u x v. I u \<Longrightarrow> f u x = Inr v \<Longrightarrow> I v"
  shows "raises_only E (fold_res f s xs)"
  using assms(1) by (induction xs arbitrary: s) (auto intro!: raises_only_andThen assms)

lemma raises_only_mono: "raises_only E m \<Longrightarrow> E \<subseteq> F \<Longrightarrow> raises_only F m"
  by (auto simp: raises_only_def)

section \<open>Builtins\<close>

definition dict_keys :: "pydict \<Rightarrow> string set" where
  "dict_keys d = fst ` set d"

text \<open>\<open>d[k]\<close> raises \<open>KeyError\<close>; \<open>d.get(k)\<close> is \<open>None\<close> for a missing key.\<close>

definition getitem :: "pydict \<Rightarrow> string \<Rightarrow> pyval res" where
  "getitem d k = (case map_of d k of Some v \<Rightarrow> Inr v | None \<Rightarrow> Inl KeyError)"

definition dict_get :: "pydict \<Rightarrow> string \<Rightarrow> pyval" where
  "dict_get d k = (case map_of d k of Some v \<Rightarrow> v | None \<Rightarrow> PNone)"

lemma dict_keys_simps [simp]:
  "dict_keys [] = {}"
  "dict_keys ((k, v) # d) = insert k (dict_keys d)"
  by (simp_all add: dict_keys_def)

lemma getitem_simps [simp]:
  "getitem [] k = Inl KeyError"
  "getitem ((k', v) # d) k = (if k' = k then Inr v else getitem d k)"
  by (simp_all add: getitem_def)

lemma dict_get_simps [simp]:
  "dict_get [] k = PNone"
  "dict_get ((k', v) # d) k = (if k' = k then v else dict_get d k)"
  by (simp_all add: dict_get_def)

lemma getitem_Inr: "getitem d k = Inr v \<longleftrightarrow> map_of d k = Some v"
  by (auto simp: getitem_def split: option.splits)

lemma getitem_total: "k \<in> dict_keys d \<Longrightarrow> \<exists>v. getitem d k = Inr v"
  by (auto simp: getitem_def dict_keys_def map_of_eq_None_iff split: option.splits)

text \<open>A value can be looked up in a set or dict only when it is hashable.\<close>

fun hashable :: "pyval \<Rightarrow> bool" where
  "hashable (PList _) = False"
| "hashable (PDict _) = False"
| "hashable (PTuple xs) = list_all hashable xs"
| "hashable _ = True"

definition in_strings :: "pyval \<Rightarrow> string set \<Rightarrow> bool res" where
  "in_strings v S =
     (if hashable v then Inr (case v of PStr s \<Rightarrow> s \<in> S | _ \<Rightarrow> False) else Inl TypeError)"

lemma raises_only_getitem [raises]:
  "k \<in> dict_keys d \<or> KeyError \<in> E \<Longrightarrow> raises_only E (getitem d k)"
  by (auto simp: raises_only_def getitem_def dict_keys_def map_of_eq_None_iff split: option.splits)

lemma raises_only_in_strings [raises]: "TypeError \<in> E \<Longrightarrow> raises_only E (in_strings v S)"
  by (simp add: in_strings_def)

lemma in_strings_True: "in_strings v S = Inr True \<longleftrightarrow> (\<exists>s. v = PStr s \<and> s \<in> S)"
  by (auto simp: in_strings_def split: pyval.splits)

lemma in_strings_PStr [simp]: "in_strings (PStr s) S = Inr (s \<in> S)"
  by (simp add: in_strings_def)

text \<open>
  \<open>float(n)\<close> of an integer that rounds past the largest double raises \<open>OverflowError\<close>.
\<close>

definition float_overflow_bound :: int where
  "float_overflow_bound = 2 ^ 1024 - 2 ^ 970"

definition float_of_int :: "int \<Rightarrow> pyfloat res" where
  "float_of_int n =
     (if \<bar>n\<bar> < float_overflow_bound then Inr (FFin (of_int n)) else Inl OverflowError)"

fun is_finite :: "pyfloat \<Rightarrow> bool" where
  "is_finite (FFin _) = True"
| "is_finite _ = False"

fun real_of_pyfloat :: "pyfloat \<Rightarrow> real" where
  "real_of_pyfloat (FFin r) = r"
| "real_of_pyfloat _ = 0"

lemma raises_only_float_of_int [raises]: "OverflowError \<in> E \<Longrightarrow> raises_only E (float_of_int n)"
  by (simp add: float_of_int_def)

text \<open>The comparison \<open>v == n\<close> with an integer: booleans and floats compare by value.\<close>

fun eq_int :: "pyval \<Rightarrow> int \<Rightarrow> bool" where
  "eq_int (PInt m) n = (m = n)"
| "eq_int (PBool b) n = ((if b then 1 else 0) = n)"
| "eq_int (PFloat (FFin r)) n = (r = of_int n)"
| "eq_int _ _ = False"

text \<open>The comparison \<open>v == w\<close> with an expected value: numbers and booleans compare by value.\<close>

fun py_equals :: "pyval \<Rightarrow> pyval \<Rightarrow> bool" where
  "py_equals v (PInt n) = eq_int v n"
| "py_equals v (PBool b) = eq_int v (of_bool b)"
| "py_equals v (PFloat (FFin r)) = (case v of
       PFloat (FFin x) \<Rightarrow> x = r | PInt n \<Rightarrow> of_int n = r | PBool b \<Rightarrow> of_bool b = r | _ \<Rightarrow> False)"
| "py_equals v (PFloat FNan) = False"
| "py_equals v w = (v = w)"

definition is_text_that :: "(string \<Rightarrow> bool) \<Rightarrow> pyval \<Rightarrow> bool" where
  "is_text_that P v = (case v of PStr s \<Rightarrow> P s | _ \<Rightarrow> False)"

text \<open>
  The comparison of two dicts with \<open>==\<close>: numbers and booleans compare by value, dicts without
  regard to the order of their keys.
\<close>

fun by_value :: "pyval \<Rightarrow> pyval" where
  "by_value (PBool b) = PFloat (FFin (of_bool b))"
| "by_value (PInt n) = PFloat (FFin (of_int n))"
| "by_value (PList xs) = PList (map by_value xs)"
| "by_value (PTuple xs) = PTuple (map by_value xs)"
| "by_value (PDict d) = PDict (sort_key fst (map (\<lambda>(k, v). (k, by_value v)) d))"
| "by_value v = v"

definition same_dict :: "pydict \<Rightarrow> pydict \<Rightarrow> bool" where
  "same_dict a b \<longleftrightarrow> by_value (PDict a) = by_value (PDict b)"

text \<open>
  The canonical form of a value: what \<open>json.dumps(value, sort_keys=True, \<dots>)\<close> writes,
  with keys sorted and tuples printed as arrays. Two values have the same canonical text when
  they have the same canonical form.
\<close>

fun canonical :: "pyval \<Rightarrow> pyval" where
  "canonical (PList xs) = PList (map canonical xs)"
| "canonical (PTuple xs) = PList (map canonical xs)"
| "canonical (PDict d) = PDict (sort_key fst (map (\<lambda>(k, v). (k, canonical v)) d))"
| "canonical v = v"

text \<open>First occurrences in order, as \<open>tuple(dict.fromkeys(xs))\<close> keeps them.\<close>

definition dedup_first :: "'a list \<Rightarrow> 'a list" where
  "dedup_first xs = rev (remdups (rev xs))"

lemma set_dedup_first [simp]: "set (dedup_first xs) = set xs"
  by (simp add: dedup_first_def)

lemma distinct_dedup_first [simp]: "distinct (dedup_first xs)"
  by (simp add: dedup_first_def)

lemma dedup_first_Nil [simp]: "dedup_first xs = [] \<longleftrightarrow> xs = []"
  by (simp add: dedup_first_def)

end
