(* ===== verification/Mapping_Codec.thy ===== *)
theory Mapping_Codec
  imports Py_Prelude
begin

text \<open>
  The interface of every class with a \<open>to_mapping\<close> and a \<open>from_mapping\<close>: parsing gives only
  well-formed objects, and what \<open>to_mapping\<close> writes for one parses back to it. The journal, the
  checkpoints and their digests rely on these two laws alone.
\<close>

locale mapping_codec =
  fixes to_map :: "'a \<Rightarrow> pyval" and from_map :: "pyval \<Rightarrow> 'a res" and wf :: "'a \<Rightarrow> bool"
  assumes parse_wf: "from_map v = Inr x \<Longrightarrow> wf x"
    and roundtrip: "wf x \<Longrightarrow> from_map (to_map x) = Inr x"
begin

text \<open>What was parsed once is written and parsed again without change.\<close>

lemma reparse: "from_map v = Inr x \<Longrightarrow> from_map (to_map x) = Inr x"
  by (rule roundtrip) (rule parse_wf)

lemma to_map_inj: "wf x \<Longrightarrow> wf y \<Longrightarrow> to_map x = to_map y \<longleftrightarrow> x = y"
  using roundtrip by (metis sum.inject(2))

lemma range_from_map: "(\<exists>v. from_map v = Inr x) \<longleftrightarrow> wf x"
  using parse_wf roundtrip by blast

lemma list_roundtrip:
  assumes "\<forall>x \<in> set xs. wf x"
  shows "traverse from_map (map to_map xs) = Inr xs"
  using assms by (intro traverse_map_Inr) (auto intro: roundtrip)

lemma list_wf: "traverse from_map vs = Inr xs \<Longrightarrow> \<forall>x \<in> set xs. wf x"
  by (erule traverse_prop) (rule parse_wf)

end

text \<open>
  A codec whose objects are identified by a digest of their canonical JSON: two parsed objects
  with the same digest are equal, as long as the digest does not collide on their two texts.
\<close>

locale digest_codec = mapping_codec to_map from_map wf
  for to_map :: "'a \<Rightarrow> pyval" and from_map wf +
  fixes digest :: "(pyval \<Rightarrow> string) \<Rightarrow> 'a \<Rightarrow> string"
  assumes digest_of: "digest sha x = sha (canonical (to_map x))"
    and canonical_roundtrip: "wf x \<Longrightarrow> from_map (canonical (to_map x)) = Inr x"
begin

lemma canonical_inj: "wf x \<Longrightarrow> wf y \<Longrightarrow> canonical (to_map x) = canonical (to_map y) \<longleftrightarrow> x = y"
  using canonical_roundtrip by (metis sum.inject(2))

lemma digest_identifies:
  assumes "from_map v = Inr x" and "from_map w = Inr y"
    and "inj_on sha {canonical (to_map x), canonical (to_map y)}" and "digest sha x = digest sha y"
  shows "x = y"
proof -
  have "wf x" and "wf y" using assms(1,2) by (auto intro: parse_wf)
  moreover have "canonical (to_map x) = canonical (to_map y)"
    using assms(3,4) unfolding digest_of inj_on_def by blast
  ultimately show ?thesis using canonical_inj by blast
qed

end

section \<open>Canonical forms read like the original\<close>

lemma map_of_sort_key:
  assumes "distinct (map fst d)"
  shows "map_of (sort_key fst d) = map_of d"
proof -
  have "distinct (map fst (sort_key fst d))" using assms by (simp add: distinct_map)
  with assms show ?thesis by (simp add: map_of_inject_set)
qed

text \<open>A dict whose values are canonical is only reordered.\<close>

lemma canonical_reordered:
  assumes "distinct (map fst d)" and "\<forall>(k, v) \<in> set d. canonical v = v"
  obtains d' where "canonical (PDict d) = PDict d'" "getitem d' = getitem d"
    "dict_keys d' = dict_keys d"
proof -
  have same: "map (\<lambda>(k, v). (k, canonical v)) d = d"
    using assms(2) by (auto intro!: map_idI)
  show thesis
  proof (rule that)
    show "canonical (PDict d) = PDict (sort_key fst d)" by (simp add: same)
    show "getitem (sort_key fst d) = getitem d"
      using assms(1) by (auto simp: fun_eq_iff getitem_def map_of_sort_key)
    show "dict_keys (sort_key fst d) = dict_keys d" by (simp add: dict_keys_def)
  qed
qed

lemma canonical_strings [simp]: "canonical (PList (map PStr xs)) = PList (map PStr xs)"
  by simp

end
