(* ===== verification/Autoresearch_Policy.thy ===== *)
theory Autoresearch_Policy
  imports Mapping_Codec
begin

text \<open>
  The validators and the immutable inputs of \<open>bench/autoresearch.py\<close>: the frozen campaign
  policy, the one-axis candidate delta, the eligibility gates, the simplification evidence, the
  timing budgets and the pair observation, each with its \<open>__post_init__\<close> and
  \<open>from_mapping\<close> checks. \<open>sha\<close> stands for SHA-256 of the canonical JSON text of a value.
\<close>

section \<open>Validators\<close>

definition lower_alnum :: "char \<Rightarrow> bool" where
  "lower_alnum c \<longleftrightarrow> (CHR ''a'' \<le> c \<and> c \<le> CHR ''z'') \<or> (CHR ''0'' \<le> c \<and> c \<le> CHR ''9'')"

definition safe_id_char :: "char \<Rightarrow> bool" where
  "safe_id_char c \<longleftrightarrow> lower_alnum c \<or> c \<in> set ''._-''"

definition safe_id :: "string \<Rightarrow> bool" where
  "safe_id s = (case s of [] \<Rightarrow> False
     | c # cs \<Rightarrow> lower_alnum c \<and> length cs \<le> 127 \<and> list_all safe_id_char cs)"

definition lower_hex :: "char \<Rightarrow> bool" where
  "lower_hex c \<longleftrightarrow> (CHR ''0'' \<le> c \<and> c \<le> CHR ''9'') \<or> (CHR ''a'' \<le> c \<and> c \<le> CHR ''f'')"

definition sha256_hex :: "string \<Rightarrow> bool" where
  "sha256_hex s \<longleftrightarrow> length s = 64 \<and> list_all lower_hex s"

definition require_mapping :: "pyval \<Rightarrow> pydict res" where
  "require_mapping v = (case v of PDict d \<Rightarrow> Inr d | _ \<Rightarrow> Inl AutoresearchError)"

definition require_exact_keys :: "pydict \<Rightarrow> string set \<Rightarrow> unit res" where
  "require_exact_keys d expected =
     (if dict_keys d - expected \<noteq> {} then Inl AutoresearchError
      else if expected - dict_keys d \<noteq> {} then Inl AutoresearchError
      else Inr ())"

definition require_bool :: "pyval \<Rightarrow> bool res" where
  "require_bool v = (case v of PBool b \<Rightarrow> Inr b | _ \<Rightarrow> Inl AutoresearchError)"

definition require_int :: "int option \<Rightarrow> pyval \<Rightarrow> int res" where
  "require_int minimum v = (case v of
       PInt n \<Rightarrow> (case minimum of None \<Rightarrow> Inr n
          | Some m \<Rightarrow> if n < m then Inl AutoresearchError else Inr n)
     | _ \<Rightarrow> Inl AutoresearchError)"

definition require_finite :: "bool \<Rightarrow> pyval \<Rightarrow> real res" where
  "require_finite positive v =
     andThen (case v of PInt n \<Rightarrow> float_of_int n | PFloat x \<Rightarrow> Inr x
        | _ \<Rightarrow> Inl AutoresearchError)
       (\<lambda>x. if \<not> is_finite x then Inl AutoresearchError
            else if positive \<and> real_of_pyfloat x \<le> 0 then Inl AutoresearchError
            else Inr (real_of_pyfloat x))"

definition require_id :: "pyval \<Rightarrow> string res" where
  "require_id v = (case v of PStr s \<Rightarrow> if safe_id s then Inr s else Inl AutoresearchError
     | _ \<Rightarrow> Inl AutoresearchError)"

definition require_sha256 :: "pyval \<Rightarrow> string res" where
  "require_sha256 v = (case v of PStr s \<Rightarrow> if sha256_hex s then Inr s else Inl AutoresearchError
     | _ \<Rightarrow> Inl AutoresearchError)"

text \<open>\<open>isinstance(value, (list, tuple))\<close>.\<close>

definition as_array :: "pyval \<Rightarrow> pyval list res" where
  "as_array v = (case v of PList xs \<Rightarrow> Inr xs | PTuple xs \<Rightarrow> Inr xs | _ \<Rightarrow> Inl AutoresearchError)"

definition require_id_tuple :: "pyval \<Rightarrow> string list res" where
  "require_id_tuple v =
     andThen (as_array v) (\<lambda>xs. if xs = [] then Inl AutoresearchError else
     andThen (traverse require_id xs) (\<lambda>parsed.
       if distinct parsed then Inr parsed else Inl AutoresearchError))"

definition valid_flag :: "string \<Rightarrow> bool" where
  "valid_flag s \<longleftrightarrow> s \<noteq> [] \<and> length s \<le> 256 \<and> list_all (\<lambda>c. (32::nat) \<le> of_char c) s"

definition require_flag :: "pyval \<Rightarrow> string res" where
  "require_flag v = (case v of PStr s \<Rightarrow> if valid_flag s then Inr s else Inl AutoresearchError
     | _ \<Rightarrow> Inl AutoresearchError)"

definition require_flags :: "pyval \<Rightarrow> string list res" where
  "require_flags v =
     andThen (as_array v) (\<lambda>xs. andThen (traverse require_flag xs) (\<lambda>flags.
       if distinct flags then Inr flags else Inl AutoresearchError))"

text \<open>\<open>json.dumps(\<dots>, allow_nan=False)\<close> refuses NaN and the infinities at any depth.\<close>

fun json_finite :: "pyval \<Rightarrow> bool" where
  "json_finite (PFloat x) = is_finite x"
| "json_finite (PList xs) = list_all json_finite xs"
| "json_finite (PTuple xs) = list_all json_finite xs"
| "json_finite (PDict d) = list_all (\<lambda>(k, v). json_finite v) d"
| "json_finite _ = True"

definition canonical_json_value :: "pyval \<Rightarrow> pyval res" where
  "canonical_json_value v = (if json_finite v then Inr (canonical v) else Inl AutoresearchError)"

lemma require_mapping_eq [res_inv, simp]: "require_mapping v = Inr d \<longleftrightarrow> v = PDict d"
  by (auto simp: require_mapping_def split: pyval.splits)

text \<open>The validators on values of the right shape.\<close>

lemma validator_values [simp]:
  "require_mapping (PDict d) = Inr d"
  "require_bool (PBool b) = Inr b"
  "require_int None (PInt n) = Inr n"
  "require_int (Some m) (PInt n) = (if n < m then Inl AutoresearchError else Inr n)"
  "require_id (PStr s) = (if safe_id s then Inr s else Inl AutoresearchError)"
  "require_sha256 (PStr s) = (if sha256_hex s then Inr s else Inl AutoresearchError)"
  by (simp_all add: require_mapping_def require_bool_def require_int_def require_id_def
      require_sha256_def)

lemma require_exact_keys_eq [simp]: "require_exact_keys d E = Inr u \<longleftrightarrow> dict_keys d = E"
  by (auto simp: require_exact_keys_def)

lemma require_exact_keys_ok [simp]: "dict_keys d = E \<Longrightarrow> require_exact_keys d E = Inr ()"
  by simp

lemma require_bool_eq [simp]: "require_bool v = Inr b \<longleftrightarrow> v = PBool b"
  by (auto simp: require_bool_def split: pyval.splits)

lemma require_int_eq [simp]:
  "require_int m v = Inr n \<longleftrightarrow> v = PInt n \<and> (\<forall>k. m = Some k \<longrightarrow> k \<le> n)"
  by (auto simp: require_int_def split: pyval.splits option.splits)

lemma require_id_eq [simp]: "require_id v = Inr s \<longleftrightarrow> v = PStr s \<and> safe_id s"
  by (auto simp: require_id_def split: pyval.splits)

lemma require_sha256_eq [simp]: "require_sha256 v = Inr s \<longleftrightarrow> v = PStr s \<and> sha256_hex s"
  by (auto simp: require_sha256_def split: pyval.splits)

lemma as_array_eq: "as_array v = Inr xs \<longleftrightarrow> v = PList xs \<or> v = PTuple xs"
  by (auto simp: as_array_def split: pyval.splits)

lemma as_array_simps [simp]: "as_array (PList xs) = Inr xs" "as_array (PTuple xs) = Inr xs"
  by (simp_all add: as_array_def)

lemma require_finite_float [simp]:
  "require_finite False (PFloat (FFin r)) = Inr r"
  "0 < r \<Longrightarrow> require_finite True (PFloat (FFin r)) = Inr r"
  by (simp_all add: require_finite_def)

lemma require_finite_pos: "require_finite True v = Inr r \<Longrightarrow> 0 < r"
  by (auto simp: require_finite_def andThen_eq_Inr split: if_splits)

lemma require_id_tuple_eq:
  "require_id_tuple v = Inr ids \<longleftrightarrow>
     (v = PList (map PStr ids) \<or> v = PTuple (map PStr ids)) \<and>
     ids \<noteq> [] \<and> list_all safe_id ids \<and> distinct ids"
  by (auto simp: require_id_tuple_def andThen_eq_Inr as_array_eq traverse_eq_Inr)

lemma require_flag_eq [simp]: "require_flag v = Inr s \<longleftrightarrow> v = PStr s \<and> valid_flag s"
  by (auto simp: require_flag_def split: pyval.splits)

lemma require_flags_eq:
  "require_flags v = Inr flags \<longleftrightarrow>
     (v = PList (map PStr flags) \<or> v = PTuple (map PStr flags)) \<and>
     list_all valid_flag flags \<and> distinct flags"
  by (auto simp: require_flags_def andThen_eq_Inr as_array_eq traverse_eq_Inr)

lemmas validator_eqs [res_inv] =
  andThen_eq_Inr require_id_tuple_eq require_flags_eq getitem_Inr

text \<open>
  What the validators raise: the class the module defines, and the \<open>OverflowError\<close> of
  \<open>float(value)\<close> on a huge integer, which no handler turns into the module's class.
\<close>

definition input_errors :: "exn set" where
  "input_errors = {AutoresearchError, OverflowError}"

lemma input_errors_simps [simp]:
  "AutoresearchError \<in> input_errors" "OverflowError \<in> input_errors"
  by (simp_all add: input_errors_def)

lemma validators_raise [raises]:
  "raises_only input_errors (require_mapping v)"
  "raises_only input_errors (require_exact_keys d E)"
  "raises_only input_errors (require_bool v)"
  "raises_only input_errors (require_int m v)"
  "raises_only input_errors (require_finite b v)"
  "raises_only input_errors (require_id v)"
  "raises_only input_errors (require_sha256 v)"
  "raises_only input_errors (as_array v)"
  "raises_only input_errors (require_flag v)"
  "raises_only input_errors (canonical_json_value v)"
  by (auto simp: require_mapping_def require_exact_keys_def require_bool_def require_int_def
      require_finite_def require_id_def require_sha256_def as_array_def require_flag_def
      canonical_json_value_def intro!: raises split: pyval.split option.split)

lemma tuple_validators_raise [raises]:
  "raises_only input_errors (require_id_tuple v)"
  "raises_only input_errors (require_flags v)"
  by (auto simp: require_id_tuple_def require_flags_def intro!: raises)

section \<open>Numbers a validated field may hold\<close>

text \<open>
  \<open>__post_init__\<close> compares a threshold by value, so a field annotated \<open>float\<close> may hold the
  integer \<open>1\<close> where \<open>1.0\<close> is expected; the two print differently in the canonical JSON.
\<close>

datatype pynum = NInt int | NFloat real

fun num_value :: "pynum \<Rightarrow> real" where
  "num_value (NInt n) = of_int n"
| "num_value (NFloat r) = r"

fun pyval_of_num :: "pynum \<Rightarrow> pyval" where
  "pyval_of_num (NInt n) = PInt n"
| "pyval_of_num (NFloat r) = PFloat (FFin r)"

section \<open>The campaign policy\<close>

text \<open>The audited bounds; every policy must carry exactly these.\<close>

definition POLICY_SCHEMA_VERSION :: int where
  "POLICY_SCHEMA_VERSION = 1"

definition CELL_TIMEOUT_S :: int where
  "CELL_TIMEOUT_S = 1800"

definition PAIR_TIMEOUT_S :: int where
  "PAIR_TIMEOUT_S = 3600"

definition CLEANUP_TIMEOUT_S :: int where
  "CLEANUP_TIMEOUT_S = 120"

definition AUDIT_RESERVE_S :: int where
  "AUDIT_RESERVE_S = 900"

definition SCREEN_GEOMEAN_MIN :: real where
  "SCREEN_GEOMEAN_MIN = 103/100"

definition SCREEN_PRIMARY_RATIO_MIN :: real where
  "SCREEN_PRIMARY_RATIO_MIN = 95/100"

definition SCREEN_TTFT_RATIO_MAX :: real where
  "SCREEN_TTFT_RATIO_MAX = 110/100"

definition PROMOTION_PAIR_GEOMEAN_STRICT_MIN :: real where
  "PROMOTION_PAIR_GEOMEAN_STRICT_MIN = 1"

definition PROMOTION_COMBINED_GEOMEAN_MIN :: real where
  "PROMOTION_COMBINED_GEOMEAN_MIN = 103/100"

definition SIMPLIFICATION_COMBINED_GEOMEAN_MIN :: real where
  "SIMPLIFICATION_COMBINED_GEOMEAN_MIN = 99/100"

definition SIMPLIFICATION_MEMAVAILABLE_GAIN_GIB :: real where
  "SIMPLIFICATION_MEMAVAILABLE_GAIN_GIB = 1"

definition CALIBRATION_GEOMEAN_MIN :: real where
  "CALIBRATION_GEOMEAN_MIN = 97/100"

definition CALIBRATION_GEOMEAN_MAX :: real where
  "CALIBRATION_GEOMEAN_MAX = 103/100"

definition CALIBRATION_PRIMARY_RATIO_MIN :: real where
  "CALIBRATION_PRIMARY_RATIO_MIN = 95/100"

definition CALIBRATION_PRIMARY_RATIO_MAX :: real where
  "CALIBRATION_PRIMARY_RATIO_MAX = 105/100"

definition CALIBRATION_TTFT_RATIO_MIN :: real where
  "CALIBRATION_TTFT_RATIO_MIN = 90/100"

definition CALIBRATION_TTFT_RATIO_MAX :: real where
  "CALIBRATION_TTFT_RATIO_MAX = 110/100"

lemmas policy_constants [model_eval] =
  POLICY_SCHEMA_VERSION_def
  CELL_TIMEOUT_S_def
  PAIR_TIMEOUT_S_def
  CLEANUP_TIMEOUT_S_def
  AUDIT_RESERVE_S_def
  SCREEN_GEOMEAN_MIN_def
  SCREEN_PRIMARY_RATIO_MIN_def
  SCREEN_TTFT_RATIO_MAX_def
  PROMOTION_PAIR_GEOMEAN_STRICT_MIN_def
  PROMOTION_COMBINED_GEOMEAN_MIN_def
  SIMPLIFICATION_COMBINED_GEOMEAN_MIN_def
  SIMPLIFICATION_MEMAVAILABLE_GAIN_GIB_def
  CALIBRATION_GEOMEAN_MIN_def
  CALIBRATION_GEOMEAN_MAX_def
  CALIBRATION_PRIMARY_RATIO_MIN_def
  CALIBRATION_PRIMARY_RATIO_MAX_def
  CALIBRATION_TTFT_RATIO_MIN_def
  CALIBRATION_TTFT_RATIO_MAX_def

lemma policy_constant_bounds [simp]:
  "\<bar>SCREEN_GEOMEAN_MIN\<bar> < 2"
  "\<bar>SCREEN_PRIMARY_RATIO_MIN\<bar> < 2"
  "\<bar>SCREEN_TTFT_RATIO_MAX\<bar> < 2"
  "\<bar>PROMOTION_PAIR_GEOMEAN_STRICT_MIN\<bar> < 2"
  "\<bar>PROMOTION_COMBINED_GEOMEAN_MIN\<bar> < 2"
  "\<bar>SIMPLIFICATION_COMBINED_GEOMEAN_MIN\<bar> < 2"
  "\<bar>SIMPLIFICATION_MEMAVAILABLE_GAIN_GIB\<bar> < 2"
  "\<bar>CALIBRATION_GEOMEAN_MIN\<bar> < 2"
  "\<bar>CALIBRATION_GEOMEAN_MAX\<bar> < 2"
  "\<bar>CALIBRATION_PRIMARY_RATIO_MIN\<bar> < 2"
  "\<bar>CALIBRATION_PRIMARY_RATIO_MAX\<bar> < 2"
  "\<bar>CALIBRATION_TTFT_RATIO_MIN\<bar> < 2"
  "\<bar>CALIBRATION_TTFT_RATIO_MAX\<bar> < 2"
  by (simp_all add: policy_constants)

record campaign_policy =
  primary_case_ids :: "string list"
  allowed_axes :: "string list"
  schema_version :: int
  cell_timeout_s :: int
  pair_timeout_s :: int
  cleanup_timeout_s :: int
  audit_reserve_s :: int
  screen_geomean_min :: pynum
  screen_primary_ratio_min :: pynum
  screen_ttft_ratio_max :: pynum
  promotion_pair_geomean_strict_min :: pynum
  promotion_combined_geomean_min :: pynum
  simplification_combined_geomean_min :: pynum
  simplification_memavailable_gain_gib :: pynum
  calibration_geomean_min :: pynum
  calibration_geomean_max :: pynum
  calibration_primary_ratio_min :: pynum
  calibration_primary_ratio_max :: pynum
  calibration_ttft_ratio_min :: pynum
  calibration_ttft_ratio_max :: pynum

definition policy_keys :: "string set" where
  "policy_keys = {''schema_version'', ''primary_case_ids'', ''allowed_axes'',
     ''cell_timeout_s'', ''pair_timeout_s'', ''cleanup_timeout_s'', ''audit_reserve_s'',
     ''screen_geomean_min'', ''screen_primary_ratio_min'', ''screen_ttft_ratio_max'',
     ''promotion_pair_geomean_strict_min'', ''promotion_combined_geomean_min'',
     ''simplification_combined_geomean_min'', ''simplification_memavailable_gain_gib'',
     ''calibration_geomean_min'', ''calibration_geomean_max'',
     ''calibration_primary_ratio_min'', ''calibration_primary_ratio_max'',
     ''calibration_ttft_ratio_min'', ''calibration_ttft_ratio_max''}"

text \<open>\<open>__post_init__\<close>: one field against the constant it must equal.\<close>

definition exact_int :: "int \<Rightarrow> pyval \<Rightarrow> int res" where
  "exact_int expected v = andThen (require_int None v) (\<lambda>n.
     if n \<noteq> expected then Inl AutoresearchError else Inr n)"

definition exact_float :: "real \<Rightarrow> pyval \<Rightarrow> pynum res" where
  "exact_float expected v = andThen (require_finite False v) (\<lambda>r.
     if r \<noteq> expected then Inl AutoresearchError
     else Inr (case v of PInt n \<Rightarrow> NInt n | _ \<Rightarrow> NFloat r))"

definition policy_post_init :: "string list \<Rightarrow> string list \<Rightarrow> pydict \<Rightarrow> campaign_policy res" where
  "policy_post_init case_ids axes d =
     andThen (require_id_tuple (PTuple (map PStr case_ids))) (\<lambda>_.
     andThen (require_id_tuple (PTuple (map PStr axes))) (\<lambda>_.
     andThen (andThen (getitem d ''schema_version'') (exact_int POLICY_SCHEMA_VERSION)) (\<lambda>schema.
     andThen (andThen (getitem d ''cell_timeout_s'') (exact_int CELL_TIMEOUT_S)) (\<lambda>cell.
     andThen (andThen (getitem d ''pair_timeout_s'') (exact_int PAIR_TIMEOUT_S)) (\<lambda>pair.
     andThen (andThen (getitem d ''cleanup_timeout_s'') (exact_int CLEANUP_TIMEOUT_S)) (\<lambda>cleanup.
     andThen (andThen (getitem d ''audit_reserve_s'') (exact_int AUDIT_RESERVE_S)) (\<lambda>reserve.
     andThen (andThen (getitem d ''screen_geomean_min'') (exact_float SCREEN_GEOMEAN_MIN)) (\<lambda>sg.
     andThen (andThen (getitem d ''screen_primary_ratio_min'') (exact_float SCREEN_PRIMARY_RATIO_MIN)) (\<lambda>sp.
     andThen (andThen (getitem d ''screen_ttft_ratio_max'') (exact_float SCREEN_TTFT_RATIO_MAX)) (\<lambda>st.
     andThen (andThen (getitem d ''promotion_pair_geomean_strict_min'') (exact_float PROMOTION_PAIR_GEOMEAN_STRICT_MIN)) (\<lambda>pp.
     andThen (andThen (getitem d ''promotion_combined_geomean_min'') (exact_float PROMOTION_COMBINED_GEOMEAN_MIN)) (\<lambda>pc.
     andThen (andThen (getitem d ''simplification_combined_geomean_min'') (exact_float SIMPLIFICATION_COMBINED_GEOMEAN_MIN)) (\<lambda>sc.
     andThen (andThen (getitem d ''simplification_memavailable_gain_gib'') (exact_float SIMPLIFICATION_MEMAVAILABLE_GAIN_GIB)) (\<lambda>sm.
     andThen (andThen (getitem d ''calibration_geomean_min'') (exact_float CALIBRATION_GEOMEAN_MIN)) (\<lambda>cg.
     andThen (andThen (getitem d ''calibration_geomean_max'') (exact_float CALIBRATION_GEOMEAN_MAX)) (\<lambda>cG.
     andThen (andThen (getitem d ''calibration_primary_ratio_min'') (exact_float CALIBRATION_PRIMARY_RATIO_MIN)) (\<lambda>cp.
     andThen (andThen (getitem d ''calibration_primary_ratio_max'') (exact_float CALIBRATION_PRIMARY_RATIO_MAX)) (\<lambda>cP.
     andThen (andThen (getitem d ''calibration_ttft_ratio_min'') (exact_float CALIBRATION_TTFT_RATIO_MIN)) (\<lambda>ct.
     andThen (andThen (getitem d ''calibration_ttft_ratio_max'') (exact_float CALIBRATION_TTFT_RATIO_MAX)) (\<lambda>cT.
     if pair \<noteq> 2 * cell then Inl AutoresearchError
     else Inr \<lparr>primary_case_ids = case_ids, allowed_axes = axes, schema_version = schema,
       cell_timeout_s = cell, pair_timeout_s = pair, cleanup_timeout_s = cleanup,
       audit_reserve_s = reserve, screen_geomean_min = sg, screen_primary_ratio_min = sp,
       screen_ttft_ratio_max = st, promotion_pair_geomean_strict_min = pp,
       promotion_combined_geomean_min = pc, simplification_combined_geomean_min = sc,
       simplification_memavailable_gain_gib = sm, calibration_geomean_min = cg,
       calibration_geomean_max = cG, calibration_primary_ratio_min = cp,
       calibration_primary_ratio_max = cP, calibration_ttft_ratio_min = ct,
       calibration_ttft_ratio_max = cT\<rparr>))))))))))))))))))))"

definition policy_from_mapping :: "pyval \<Rightarrow> campaign_policy res" where
  "policy_from_mapping v =
     andThen (require_mapping v) (\<lambda>d.
     andThen (require_exact_keys d policy_keys) (\<lambda>_.
     andThen (andThen (getitem d ''primary_case_ids'') require_id_tuple) (\<lambda>case_ids.
     andThen (andThen (getitem d ''allowed_axes'') require_id_tuple) (\<lambda>axes.
     policy_post_init case_ids axes d))))"

definition policy_fields :: "campaign_policy \<Rightarrow> pydict" where
  "policy_fields p = [
     (''schema_version'', PInt (schema_version p)),
     (''primary_case_ids'', PList (map PStr (primary_case_ids p))),
     (''allowed_axes'', PList (map PStr (allowed_axes p))),
     (''cell_timeout_s'', PInt (cell_timeout_s p)),
     (''pair_timeout_s'', PInt (pair_timeout_s p)),
     (''cleanup_timeout_s'', PInt (cleanup_timeout_s p)),
     (''audit_reserve_s'', PInt (audit_reserve_s p)),
     (''screen_geomean_min'', pyval_of_num (screen_geomean_min p)),
     (''screen_primary_ratio_min'', pyval_of_num (screen_primary_ratio_min p)),
     (''screen_ttft_ratio_max'', pyval_of_num (screen_ttft_ratio_max p)),
     (''promotion_pair_geomean_strict_min'', pyval_of_num (promotion_pair_geomean_strict_min p)),
     (''promotion_combined_geomean_min'', pyval_of_num (promotion_combined_geomean_min p)),
     (''simplification_combined_geomean_min'', pyval_of_num (simplification_combined_geomean_min p)),
     (''simplification_memavailable_gain_gib'', pyval_of_num (simplification_memavailable_gain_gib p)),
     (''calibration_geomean_min'', pyval_of_num (calibration_geomean_min p)),
     (''calibration_geomean_max'', pyval_of_num (calibration_geomean_max p)),
     (''calibration_primary_ratio_min'', pyval_of_num (calibration_primary_ratio_min p)),
     (''calibration_primary_ratio_max'', pyval_of_num (calibration_primary_ratio_max p)),
     (''calibration_ttft_ratio_min'', pyval_of_num (calibration_ttft_ratio_min p)),
     (''calibration_ttft_ratio_max'', pyval_of_num (calibration_ttft_ratio_max p))]"

definition policy_to_mapping :: "campaign_policy \<Rightarrow> pyval" where
  "policy_to_mapping p = PDict (policy_fields p)"

definition policy_digest :: "(pyval \<Rightarrow> string) \<Rightarrow> campaign_policy \<Rightarrow> string" where
  "policy_digest sha p = sha (canonical (policy_to_mapping p))"

text \<open>\<open>CampaignPolicy(primary_case_ids, allowed_axes)\<close> with every other field defaulted.\<close>

definition default_policy :: "string list \<Rightarrow> string list \<Rightarrow> campaign_policy" where
  "default_policy case_ids axes = \<lparr>primary_case_ids = case_ids, allowed_axes = axes,
     schema_version = POLICY_SCHEMA_VERSION, cell_timeout_s = CELL_TIMEOUT_S, pair_timeout_s = PAIR_TIMEOUT_S, cleanup_timeout_s = CLEANUP_TIMEOUT_S,
     audit_reserve_s = AUDIT_RESERVE_S, screen_geomean_min = NFloat SCREEN_GEOMEAN_MIN,
     screen_primary_ratio_min = NFloat SCREEN_PRIMARY_RATIO_MIN, screen_ttft_ratio_max = NFloat SCREEN_TTFT_RATIO_MAX,
     promotion_pair_geomean_strict_min = NFloat PROMOTION_PAIR_GEOMEAN_STRICT_MIN,
     promotion_combined_geomean_min = NFloat PROMOTION_COMBINED_GEOMEAN_MIN,
     simplification_combined_geomean_min = NFloat SIMPLIFICATION_COMBINED_GEOMEAN_MIN,
     simplification_memavailable_gain_gib = NFloat SIMPLIFICATION_MEMAVAILABLE_GAIN_GIB,
     calibration_geomean_min = NFloat CALIBRATION_GEOMEAN_MIN, calibration_geomean_max = NFloat CALIBRATION_GEOMEAN_MAX,
     calibration_primary_ratio_min = NFloat CALIBRATION_PRIMARY_RATIO_MIN,
     calibration_primary_ratio_max = NFloat CALIBRATION_PRIMARY_RATIO_MAX,
     calibration_ttft_ratio_min = NFloat CALIBRATION_TTFT_RATIO_MIN, calibration_ttft_ratio_max = NFloat CALIBRATION_TTFT_RATIO_MAX\<rparr>"

text \<open>The policies the constructor accepts: the two lists are free, the rest is fixed.\<close>

definition policy_wf :: "campaign_policy \<Rightarrow> bool" where
  "policy_wf p \<longleftrightarrow>
     primary_case_ids p \<noteq> [] \<and> list_all safe_id (primary_case_ids p) \<and>
     distinct (primary_case_ids p) \<and>
     allowed_axes p \<noteq> [] \<and> list_all safe_id (allowed_axes p) \<and> distinct (allowed_axes p) \<and>
     schema_version p = POLICY_SCHEMA_VERSION \<and> cell_timeout_s p = CELL_TIMEOUT_S \<and> pair_timeout_s p = PAIR_TIMEOUT_S \<and>
     cleanup_timeout_s p = CLEANUP_TIMEOUT_S \<and> audit_reserve_s p = AUDIT_RESERVE_S \<and>
     num_value (screen_geomean_min p) = SCREEN_GEOMEAN_MIN \<and>
     num_value (screen_primary_ratio_min p) = SCREEN_PRIMARY_RATIO_MIN \<and>
     num_value (screen_ttft_ratio_max p) = SCREEN_TTFT_RATIO_MAX \<and>
     num_value (promotion_pair_geomean_strict_min p) = PROMOTION_PAIR_GEOMEAN_STRICT_MIN \<and>
     num_value (promotion_combined_geomean_min p) = PROMOTION_COMBINED_GEOMEAN_MIN \<and>
     num_value (simplification_combined_geomean_min p) = SIMPLIFICATION_COMBINED_GEOMEAN_MIN \<and>
     num_value (simplification_memavailable_gain_gib p) = SIMPLIFICATION_MEMAVAILABLE_GAIN_GIB \<and>
     num_value (calibration_geomean_min p) = CALIBRATION_GEOMEAN_MIN \<and>
     num_value (calibration_geomean_max p) = CALIBRATION_GEOMEAN_MAX \<and>
     num_value (calibration_primary_ratio_min p) = CALIBRATION_PRIMARY_RATIO_MIN \<and>
     num_value (calibration_primary_ratio_max p) = CALIBRATION_PRIMARY_RATIO_MAX \<and>
     num_value (calibration_ttft_ratio_min p) = CALIBRATION_TTFT_RATIO_MIN \<and>
     num_value (calibration_ttft_ratio_max p) = CALIBRATION_TTFT_RATIO_MAX"

lemma policy_pair_timeout: "PAIR_TIMEOUT_S = 2 * CELL_TIMEOUT_S"
  by (simp add: policy_constants)

lemma exact_int_eq [simp]: "exact_int e v = Inr n \<longleftrightarrow> v = PInt e \<and> n = e"
  by (auto simp: exact_int_def andThen_eq_Inr)

text \<open>An integer field this small never overflows the conversion to float.\<close>

lemma require_finite_small:
  "\<bar>n\<bar> < 2 ^ 900 \<Longrightarrow> require_finite False (PInt n) = Inr (of_int n)"
  by (simp add: require_finite_def float_of_int_def float_overflow_bound_def)

lemma exact_float_sound:
  "exact_float e v = Inr x \<Longrightarrow> num_value x = e \<and> v = pyval_of_num x"
  by (auto simp: exact_float_def require_finite_def float_of_int_def andThen_eq_Inr
      split: pyval.splits if_splits pyfloat.splits elim!: is_finite.elims)

lemma exact_float_complete:
  assumes "num_value x = e" and "\<bar>e\<bar> < 2"
  shows "exact_float e (pyval_of_num x) = Inr x"
proof (cases x)
  case (NInt n)
  with assms have "\<bar>n\<bar> < 2" by simp
  then have "\<bar>n\<bar> < 2 ^ 900" by simp
  with NInt assms show ?thesis by (simp add: exact_float_def require_finite_small)
next
  case (NFloat r)
  with assms show ?thesis by (simp add: exact_float_def)
qed

lemma policy_from_mapping_wf:
  "policy_from_mapping v = Inr p \<Longrightarrow> policy_wf p"
  by (clarsimp simp: policy_from_mapping_def policy_post_init_def validator_eqs policy_wf_def
      dest!: exact_float_sound)

text \<open>Decoding what a well-formed policy encodes to gives the policy back.\<close>

lemma policy_fields_keys: "dict_keys (policy_fields p) = policy_keys"
  by (simp add: policy_fields_def policy_keys_def)

lemma require_id_tuple_strings:
  assumes "ids \<noteq> []" and "list_all safe_id ids" and "distinct ids"
  shows "require_id_tuple (PList (map PStr ids)) = Inr ids"
    and "require_id_tuple (PTuple (map PStr ids)) = Inr ids"
  using assms by (auto simp: require_id_tuple_eq)

lemma exact_int_same: "exact_int e (PInt e) = Inr e"
  by simp

lemma policy_post_init_fields:
  assumes "policy_wf p"
  shows "policy_post_init (primary_case_ids p) (allowed_axes p) (policy_fields p) = Inr p"
  using assms unfolding policy_wf_def policy_post_init_def policy_fields_def
  by (simp add: require_id_tuple_strings exact_float_complete exact_int_same policy_pair_timeout)

lemma policy_roundtrip_lemma:
  assumes "policy_wf p"
  shows "policy_from_mapping (policy_to_mapping p) = Inr p"
proof -
  have "getitem (policy_fields p) ''primary_case_ids'' = Inr (PList (map PStr (primary_case_ids p)))"
    "getitem (policy_fields p) ''allowed_axes'' = Inr (PList (map PStr (allowed_axes p)))"
    by (simp_all add: policy_fields_def)
  with policy_post_init_fields [OF assms] assms show ?thesis
    by (simp add: policy_from_mapping_def policy_to_mapping_def policy_wf_def
        require_id_tuple_strings policy_fields_keys)
qed

section \<open>The codec of the policy\<close>

lemma canonical_num [simp]: "canonical (pyval_of_num x) = pyval_of_num x"
  by (cases x) simp_all

lemma policy_canonical_parse:
  assumes "policy_wf p"
  shows "policy_from_mapping (canonical (policy_to_mapping p)) = Inr p"
proof -
  have "distinct (map fst (policy_fields p))" by (simp add: policy_fields_def)
  moreover have "\<forall>(k, v) \<in> set (policy_fields p). canonical v = v"
    by (simp add: policy_fields_def)
  ultimately obtain d' where "canonical (policy_to_mapping p) = PDict d'"
      "getitem d' = getitem (policy_fields p)" "dict_keys d' = dict_keys (policy_fields p)"
    unfolding policy_to_mapping_def by (rule canonical_reordered)
  then have "policy_from_mapping (canonical (policy_to_mapping p))
      = policy_from_mapping (policy_to_mapping p)"
    by (simp add: policy_from_mapping_def policy_to_mapping_def policy_post_init_def
        require_exact_keys_def)
  with policy_roundtrip_lemma [OF assms] show ?thesis by simp
qed

interpretation policy: digest_codec policy_to_mapping policy_from_mapping policy_wf policy_digest
  by unfold_locales
    (fact policy_from_mapping_wf policy_roundtrip_lemma policy_digest_def policy_canonical_parse)+

end
