(* ===== verification/Autoresearch_Inputs.thy ===== *)
theory Autoresearch_Inputs
  imports Autoresearch_Policy
begin

text \<open>
  The inputs of a decision in \<open>bench/autoresearch.py\<close>: \<open>validate_one_axis_delta\<close>,
  \<open>strictly_simpler_flag_bundle\<close>, \<open>EligibilityInputs\<close>, \<open>SimplificationEvidence\<close>,
  \<open>TimingInputs\<close> and \<open>PairObservation\<close>.
\<close>

section \<open>One-axis candidate deltas\<close>

record candidate_delta =
  axis :: string
  champion_value_json :: pyval
  candidate_value_json :: pyval
  champion_config_digest :: string
  candidate_config_digest :: string

text \<open>The values of a configuration, in canonical form, in the order of the sorted keys.\<close>

definition canonical_values :: "pydict \<Rightarrow> string list \<Rightarrow> pyval list res" where
  "canonical_values d keys = traverse (\<lambda>k. andThen (getitem d k) canonical_json_value) keys"

text \<open>\<open>if len(changed) != 1: raise\<close>, then \<open>changed[0]\<close>.\<close>

definition the_only :: "'a list \<Rightarrow> 'a res" where
  "the_only xs = (case xs of [x] \<Rightarrow> Inr x | _ \<Rightarrow> Inl AutoresearchError)"

definition validate_one_axis_delta ::
  "(pyval \<Rightarrow> string) \<Rightarrow> pyval \<Rightarrow> pyval \<Rightarrow> pyval list \<Rightarrow> candidate_delta res" where
  "validate_one_axis_delta sha champion candidate allowed_names =
     andThen (require_mapping champion) (\<lambda>ch.
     andThen (require_mapping candidate) (\<lambda>ca.
     if dict_keys ch \<noteq> dict_keys ca then Inl AutoresearchError
     else if dict_keys ch = {} then Inl AutoresearchError
     else
     andThen (traverse (\<lambda>k. require_id (PStr k)) (map fst ch)) (\<lambda>_.
     if allowed_names = [] then Inl AutoresearchError else
     andThen (traverse require_id allowed_names) (\<lambda>allowed.
     if \<not> distinct allowed then Inl AutoresearchError else
     (let keys = sort (map fst ch) in
     andThen (canonical_values ch keys) (\<lambda>champion_values.
     andThen (canonical_values ca keys) (\<lambda>candidate_values.
     andThen (the_only (filter (\<lambda>(k, v, w). v \<noteq> w)
       (zip keys (zip champion_values candidate_values)))) (\<lambda>(a, v, w).
     if a \<notin> set allowed then Inl AutoresearchError else
     andThen (canonical_json_value (PDict ch)) (\<lambda>champion_json.
     andThen (canonical_json_value (PDict ca)) (\<lambda>candidate_json.
       Inr \<lparr>axis = a, champion_value_json = v, candidate_value_json = w,
         champion_config_digest = sha champion_json,
         candidate_config_digest = sha candidate_json\<rparr>))))))))))"

definition strictly_simpler_flag_bundle :: "pyval \<Rightarrow> pyval \<Rightarrow> bool res" where
  "strictly_simpler_flag_bundle champion_flags candidate_flags =
     andThen (require_flags champion_flags) (\<lambda>champion.
     andThen (require_flags candidate_flags) (\<lambda>candidate.
       Inr (set candidate \<subset> set champion)))"

section \<open>Eligibility gates\<close>

record eligibility_inputs =
  cells_completed :: bool
  measurement_valid :: bool
  validation_passed :: bool
  workload_matched :: bool
  artifact_identity_verified :: bool
  audit_requirement_passed :: bool
  cleanup_verified :: bool
  memory_pressure :: bool
  swap_pressure :: bool
  oom :: bool
  ownership_ambiguous :: bool
  cleanup_breach :: bool

definition eligibility_keys :: "string set" where
  "eligibility_keys = {''artifact_identity_verified'', ''audit_requirement_passed'',
     ''cells_completed'', ''cleanup_breach'', ''cleanup_verified'', ''measurement_valid'',
     ''memory_pressure'', ''oom'', ''ownership_ambiguous'', ''swap_pressure'',
     ''validation_passed'', ''workload_matched''}"

definition eligibility_from_mapping :: "pyval \<Rightarrow> eligibility_inputs res" where
  "eligibility_from_mapping v =
     andThen (require_mapping v) (\<lambda>d.
     andThen (require_exact_keys d eligibility_keys) (\<lambda>_.
     andThen (andThen (getitem d ''cells_completed'') require_bool) (\<lambda>b1.
     andThen (andThen (getitem d ''measurement_valid'') require_bool) (\<lambda>b2.
     andThen (andThen (getitem d ''validation_passed'') require_bool) (\<lambda>b3.
     andThen (andThen (getitem d ''workload_matched'') require_bool) (\<lambda>b4.
     andThen (andThen (getitem d ''artifact_identity_verified'') require_bool) (\<lambda>b5.
     andThen (andThen (getitem d ''audit_requirement_passed'') require_bool) (\<lambda>b6.
     andThen (andThen (getitem d ''cleanup_verified'') require_bool) (\<lambda>b7.
     andThen (andThen (getitem d ''memory_pressure'') require_bool) (\<lambda>b8.
     andThen (andThen (getitem d ''swap_pressure'') require_bool) (\<lambda>b9.
     andThen (andThen (getitem d ''oom'') require_bool) (\<lambda>b10.
     andThen (andThen (getitem d ''ownership_ambiguous'') require_bool) (\<lambda>b11.
     andThen (andThen (getitem d ''cleanup_breach'') require_bool) (\<lambda>b12.
       Inr \<lparr>cells_completed = b1, measurement_valid = b2, validation_passed = b3,
         workload_matched = b4, artifact_identity_verified = b5, audit_requirement_passed = b6,
         cleanup_verified = b7, memory_pressure = b8, swap_pressure = b9, oom = b10,
         ownership_ambiguous = b11, cleanup_breach = b12\<rparr>))))))))))))))"

definition eligibility_to_mapping :: "eligibility_inputs \<Rightarrow> pyval" where
  "eligibility_to_mapping e = PDict [
     (''artifact_identity_verified'', PBool (artifact_identity_verified e)),
     (''audit_requirement_passed'', PBool (audit_requirement_passed e)),
     (''cells_completed'', PBool (cells_completed e)),
     (''cleanup_breach'', PBool (cleanup_breach e)),
     (''cleanup_verified'', PBool (cleanup_verified e)),
     (''measurement_valid'', PBool (measurement_valid e)),
     (''memory_pressure'', PBool (memory_pressure e)),
     (''oom'', PBool (oom e)),
     (''ownership_ambiguous'', PBool (ownership_ambiguous e)),
     (''swap_pressure'', PBool (swap_pressure e)),
     (''validation_passed'', PBool (validation_passed e)),
     (''workload_matched'', PBool (workload_matched e))]"

definition failed_gates :: "eligibility_inputs \<Rightarrow> string list" where
  "failed_gates e = map fst (filter (\<lambda>(g, failed). failed) [
     (''cells_completed'', \<not> cells_completed e),
     (''measurement_valid'', \<not> measurement_valid e),
     (''validation_passed'', \<not> validation_passed e),
     (''workload_matched'', \<not> workload_matched e),
     (''artifact_identity_verified'', \<not> artifact_identity_verified e),
     (''audit_requirement_passed'', \<not> audit_requirement_passed e),
     (''cleanup_verified'', \<not> cleanup_verified e),
     (''memory_pressure'', memory_pressure e),
     (''swap_pressure'', swap_pressure e),
     (''oom'', oom e),
     (''ownership_ambiguous'', ownership_ambiguous e),
     (''cleanup_breach'', cleanup_breach e)])"

definition eligible :: "eligibility_inputs \<Rightarrow> bool" where
  "eligible e \<longleftrightarrow> failed_gates e = []"

definition campaign_terminal_pressure :: "eligibility_inputs \<Rightarrow> bool" where
  "campaign_terminal_pressure e \<longleftrightarrow> memory_pressure e \<or> swap_pressure e \<or> oom e \<or>
     ownership_ambiguous e \<or> cleanup_breach e"

section \<open>Simplification evidence\<close>

record simplification_evidence =
  minimum_memavailable_gain_gib :: real
  champion_flags :: "string list"
  candidate_flags :: "string list"

definition simplification_from_mapping :: "pyval \<Rightarrow> simplification_evidence res" where
  "simplification_from_mapping v =
     andThen (require_mapping v) (\<lambda>d.
     andThen (require_exact_keys d
       {''minimum_memavailable_gain_gib'', ''champion_flags'', ''candidate_flags''}) (\<lambda>_.
     andThen (andThen (getitem d ''minimum_memavailable_gain_gib'') (require_finite False)) (\<lambda>gain.
     andThen (andThen (getitem d ''champion_flags'') require_flags) (\<lambda>champion.
     andThen (andThen (getitem d ''candidate_flags'') require_flags) (\<lambda>candidate.
       Inr \<lparr>minimum_memavailable_gain_gib = gain, champion_flags = champion,
         candidate_flags = candidate\<rparr>)))))"

definition simplification_to_mapping :: "simplification_evidence \<Rightarrow> pyval" where
  "simplification_to_mapping s = PDict [
     (''minimum_memavailable_gain_gib'', PFloat (FFin (minimum_memavailable_gain_gib s))),
     (''champion_flags'', PList (map PStr (champion_flags s))),
     (''candidate_flags'', PList (map PStr (candidate_flags s)))]"

text \<open>
  The property \<open>strictly_simpler\<close>: the bundles were validated at construction, so the
  comparison itself cannot raise.
\<close>

definition strictly_simpler :: "simplification_evidence \<Rightarrow> bool" where
  "strictly_simpler s \<longleftrightarrow> strictly_simpler_flag_bundle
     (PTuple (map PStr (champion_flags s))) (PTuple (map PStr (candidate_flags s))) = Inr True"

definition simplification_wf :: "simplification_evidence \<Rightarrow> bool" where
  "simplification_wf s \<longleftrightarrow>
     list_all valid_flag (champion_flags s) \<and> distinct (champion_flags s) \<and>
     list_all valid_flag (candidate_flags s) \<and> distinct (candidate_flags s)"

section \<open>Timing budgets\<close>

record timing_inputs =
  cell_elapsed_s :: "real \<times> real"
  pair_elapsed_s :: real
  cleanup_elapsed_s :: real
  audit_reserve_remaining_s :: real

text \<open>\<open>len(cells) != 2\<close> raises; otherwise the two items.\<close>

definition the_pair :: "'a list \<Rightarrow> ('a \<times> 'a) res" where
  "the_pair xs = (case xs of [x, y] \<Rightarrow> Inr (x, y) | _ \<Rightarrow> Inl AutoresearchError)"

lemma the_pair_eq [res_inv, simp]: "the_pair xs = Inr (x, y) \<longleftrightarrow> xs = [x, y]"
  by (auto simp: the_pair_def split: list.splits)

lemma the_pair_value [simp]: "the_pair [x, y] = Inr (x, y)"
  by simp

text \<open>\<open>__post_init__\<close>: no observed time is negative.\<close>

definition timing_post_init :: "timing_inputs \<Rightarrow> timing_inputs res" where
  "timing_post_init t =
     (if fst (cell_elapsed_s t) < 0 \<or> snd (cell_elapsed_s t) < 0 \<or> pair_elapsed_s t < 0
         \<or> cleanup_elapsed_s t < 0 \<or> audit_reserve_remaining_s t < 0
      then Inl AutoresearchError else Inr t)"

definition timing_from_mapping :: "pyval \<Rightarrow> timing_inputs res" where
  "timing_from_mapping v =
     andThen (require_mapping v) (\<lambda>d.
     andThen (require_exact_keys d {''cell_elapsed_s'', ''pair_elapsed_s'',
       ''cleanup_elapsed_s'', ''audit_reserve_remaining_s''}) (\<lambda>_.
     andThen (andThen (andThen (getitem d ''cell_elapsed_s'') as_array) the_pair) (\<lambda>(c1, c2).
     andThen (require_finite False c1) (\<lambda>x1.
     andThen (require_finite False c2) (\<lambda>x2.
     andThen (andThen (getitem d ''pair_elapsed_s'') (require_finite False)) (\<lambda>pair.
     andThen (andThen (getitem d ''cleanup_elapsed_s'') (require_finite False)) (\<lambda>cleanup.
     andThen (andThen (getitem d ''audit_reserve_remaining_s'') (require_finite False)) (\<lambda>reserve.
       timing_post_init \<lparr>cell_elapsed_s = (x1, x2), pair_elapsed_s = pair,
         cleanup_elapsed_s = cleanup, audit_reserve_remaining_s = reserve\<rparr>))))))))"

definition timing_to_mapping :: "timing_inputs \<Rightarrow> pyval" where
  "timing_to_mapping t = PDict [
     (''cell_elapsed_s'', PList [PFloat (FFin (fst (cell_elapsed_s t))),
        PFloat (FFin (snd (cell_elapsed_s t)))]),
     (''pair_elapsed_s'', PFloat (FFin (pair_elapsed_s t))),
     (''cleanup_elapsed_s'', PFloat (FFin (cleanup_elapsed_s t))),
     (''audit_reserve_remaining_s'', PFloat (FFin (audit_reserve_remaining_s t)))]"

definition failed_budgets :: "campaign_policy \<Rightarrow> timing_inputs \<Rightarrow> string list" where
  "failed_budgets p t = map fst (filter (\<lambda>(b, failed). failed) [
     (''cell_timeout'', fst (cell_elapsed_s t) > of_int (cell_timeout_s p)
        \<or> snd (cell_elapsed_s t) > of_int (cell_timeout_s p)),
     (''pair_timeout'', pair_elapsed_s t > of_int (pair_timeout_s p)),
     (''cleanup_timeout'', cleanup_elapsed_s t > of_int (cleanup_timeout_s p)),
     (''audit_reserve'', audit_reserve_remaining_s t < of_int (audit_reserve_s p))])"

section \<open>Pair observations\<close>

record pair_observation =
  pair_index :: int
  observed_case_ids :: "string list"
  primary_speed_ratios :: "real list"
  median_ttft_ratio :: real
  timing :: timing_inputs
  eligibility :: eligibility_inputs
  simplification :: simplification_evidence

definition observation_keys :: "string set" where
  "observation_keys = {''pair_index'', ''primary_case_ids'', ''primary_speed_ratios'',
     ''median_ttft_ratio'', ''timing'', ''eligibility'', ''simplification''}"

text \<open>
  \<open>__post_init__\<close>: what is left to check after \<open>from_mapping\<close> has parsed every field is
  that the ratios align with the case identifiers.
\<close>

definition observation_post_init :: "pair_observation \<Rightarrow> pair_observation res" where
  "observation_post_init ob =
     (if length (primary_speed_ratios ob) \<noteq> length (observed_case_ids ob)
      then Inl AutoresearchError else Inr ob)"

definition observation_from_mapping :: "pyval \<Rightarrow> pair_observation res" where
  "observation_from_mapping v =
     andThen (require_mapping v) (\<lambda>d.
     andThen (require_exact_keys d observation_keys) (\<lambda>_.
     andThen (andThen (getitem d ''primary_speed_ratios'') as_array) (\<lambda>ratios_value.
     if ratios_value = [] then Inl AutoresearchError else
     andThen (andThen (getitem d ''pair_index'') (require_int (Some 0))) (\<lambda>index.
     andThen (andThen (getitem d ''primary_case_ids'') require_id_tuple) (\<lambda>ids.
     andThen (traverse (require_finite True) ratios_value) (\<lambda>ratios.
     andThen (andThen (getitem d ''median_ttft_ratio'') (require_finite True)) (\<lambda>ttft.
     andThen (andThen (getitem d ''timing'') timing_from_mapping) (\<lambda>t.
     andThen (andThen (getitem d ''eligibility'') eligibility_from_mapping) (\<lambda>e.
     andThen (andThen (getitem d ''simplification'') simplification_from_mapping) (\<lambda>s.
       observation_post_init \<lparr>pair_index = index, observed_case_ids = ids,
         primary_speed_ratios = ratios, median_ttft_ratio = ttft, timing = t,
         eligibility = e, simplification = s\<rparr>))))))))))"

definition observation_to_mapping :: "pair_observation \<Rightarrow> pyval" where
  "observation_to_mapping ob = PDict [
     (''pair_index'', PInt (pair_index ob)),
     (''primary_case_ids'', PList (map PStr (observed_case_ids ob))),
     (''primary_speed_ratios'', PList (map (\<lambda>r. PFloat (FFin r)) (primary_speed_ratios ob))),
     (''median_ttft_ratio'', PFloat (FFin (median_ttft_ratio ob))),
     (''timing'', timing_to_mapping (timing ob)),
     (''eligibility'', eligibility_to_mapping (eligibility ob)),
     (''simplification'', simplification_to_mapping (simplification ob))]"

definition timing_wf :: "timing_inputs \<Rightarrow> bool" where
  "timing_wf t \<longleftrightarrow> 0 \<le> fst (cell_elapsed_s t) \<and> 0 \<le> snd (cell_elapsed_s t) \<and>
     0 \<le> pair_elapsed_s t \<and> 0 \<le> cleanup_elapsed_s t \<and> 0 \<le> audit_reserve_remaining_s t"

definition observation_wf :: "pair_observation \<Rightarrow> bool" where
  "observation_wf ob \<longleftrightarrow>
     0 \<le> pair_index ob \<and>
     observed_case_ids ob \<noteq> [] \<and> list_all safe_id (observed_case_ids ob) \<and>
     distinct (observed_case_ids ob) \<and>
     length (primary_speed_ratios ob) = length (observed_case_ids ob) \<and>
     (\<forall>r \<in> set (primary_speed_ratios ob). 0 < r) \<and>
     0 < median_ttft_ratio ob \<and> timing_wf (timing ob) \<and>
     simplification_wf (simplification ob)"

section \<open>What an accepted input satisfies\<close>

lemma require_flags_strings:
  assumes "list_all valid_flag flags" and "distinct flags"
  shows "require_flags (PList (map PStr flags)) = Inr flags"
    and "require_flags (PTuple (map PStr flags)) = Inr flags"
  using assms by (auto simp: require_flags_eq)

text \<open>
  The delta that is accepted: the two configurations have the same keys, they differ at the
  axis, they agree everywhere else, and the axis is allowed.
\<close>

lemma canonical_values_eq [res_inv]:
  "canonical_values d keys = Inr vs \<longleftrightarrow>
     list_all2 (\<lambda>k v. \<exists>x. map_of d k = Some x \<and> json_finite x \<and> v = canonical x) keys vs"
  by (auto simp: canonical_values_def traverse_eq_Inr andThen_eq_Inr getitem_Inr
      canonical_json_value_def intro!: list_all2_mono [where P = "\<lambda>k v. _ k v"]
      elim!: list_all2_mono)

lemma the_only_eq [res_inv, simp]: "the_only xs = Inr x \<longleftrightarrow> xs = [x]"
  by (auto simp: the_only_def split: list.splits)

lemma canonical_json_value_eq [simp]:
  "canonical_json_value v = Inr w \<longleftrightarrow> json_finite v \<and> w = canonical v"
  by (auto simp: canonical_json_value_def)

lemma filter_zip_singleton:
  assumes "filter (\<lambda>(k, v, w). v \<noteq> w) (zip ks (zip vs ws)) = [(a, v, w)]"
    and "list_all2 P ks vs" and "list_all2 Q ks ws"
  shows "P a v \<and> Q a w \<and> v \<noteq> w \<and> a \<in> set ks \<and>
    (\<forall>k \<in> set ks. k \<noteq> a \<longrightarrow> (\<exists>x. P k x \<and> Q k x))"
proof -
  have len: "length vs = length ks" "length ws = length ks"
    using assms(2,3) by (auto dest: list_all2_lengthD)
  have "(a, v, w) \<in> set (filter (\<lambda>(k, v, w). v \<noteq> w) (zip ks (zip vs ws)))"
    using assms(1) by simp
  then obtain i where i: "i < length ks" "ks ! i = a" "vs ! i = v" "ws ! i = w" and ne: "v \<noteq> w"
    using len by (auto simp: in_set_zip)
  have others: "\<exists>x. P k x \<and> Q k x" if k: "k \<in> set ks" "k \<noteq> a" for k
  proof -
    obtain j where j: "j < length ks" "ks ! j = k"
      using k(1) by (auto simp: in_set_conv_nth)
    have "vs ! j = ws ! j"
    proof (rule ccontr)
      assume neq: "vs ! j \<noteq> ws ! j"
      have "(k, vs ! j, ws ! j) \<in> set (zip ks (zip vs ws))"
        using j len by (auto simp: in_set_zip intro!: exI [of _ j])
      with neq have "(k, vs ! j, ws ! j) \<in> set (filter (\<lambda>(k, v, w). v \<noteq> w) (zip ks (zip vs ws)))"
        by simp
      with assms(1) k(2) show False by simp
    qed
    moreover have "P k (vs ! j)" "Q k (ws ! j)"
      using assms(2,3) j len by (auto simp: list_all2_conv_all_nth)
    ultimately show ?thesis by auto
  qed
  have "P a v" "Q a w"
    using assms(2,3) i len by (auto simp: list_all2_conv_all_nth)
  with i ne others show ?thesis by auto
qed

lemma validate_one_axis_delta_sound:
  assumes "validate_one_axis_delta sha (PDict ch) (PDict ca) allowed = Inr delta"
  shows "PStr (axis delta) \<in> set allowed"
    and "dict_keys ch = dict_keys ca"
    and "axis delta \<in> dict_keys ch"
    and "champion_value_json delta \<noteq> candidate_value_json delta"
    and "\<exists>x. map_of ch (axis delta) = Some x \<and> champion_value_json delta = canonical x"
    and "\<exists>x. map_of ca (axis delta) = Some x \<and> candidate_value_json delta = canonical x"
    and "\<forall>k \<in> dict_keys ch. k \<noteq> axis delta \<longrightarrow>
      (\<exists>x y. map_of ch k = Some x \<and> map_of ca k = Some y \<and> canonical x = canonical y)"
    and "champion_config_digest delta = sha (canonical (PDict ch))"
    and "candidate_config_digest delta = sha (canonical (PDict ca))"
proof -
  let ?keys = "sort (map fst ch)"
  let ?V = "\<lambda>d k v. \<exists>x. map_of d k = Some x \<and> json_finite x \<and> v = canonical x"
  obtain allow chv cav a v w where parts:
    "dict_keys ch = dict_keys ca" "traverse require_id allowed = Inr allow"
    "canonical_values ch ?keys = Inr chv" "canonical_values ca ?keys = Inr cav"
    "filter (\<lambda>(k, v, w). v \<noteq> w) (zip ?keys (zip chv cav)) = [(a, v, w)]"
    "a \<in> set allow"
    and delta: "delta = \<lparr>axis = a, champion_value_json = v, candidate_value_json = w,
       champion_config_digest = sha (canonical (PDict ch)),
       candidate_config_digest = sha (canonical (PDict ca))\<rparr>"
    using assms unfolding validate_one_axis_delta_def Let_def
    by (clarsimp simp del: canonical.simps json_finite.simps simp: andThen_eq_Inr)
  have single: "?V ch a v \<and> ?V ca a w \<and> v \<noteq> w \<and> a \<in> set ?keys \<and>
      (\<forall>k \<in> set ?keys. k \<noteq> a \<longrightarrow> (\<exists>x. ?V ch k x \<and> ?V ca k x))"
    by (rule filter_zip_singleton [OF parts(5)])
      (use parts(3,4) in \<open>simp_all add: canonical_values_eq\<close>)
  have keys: "set ?keys = dict_keys ch" by (simp add: dict_keys_def)
  from parts(2,6) show "PStr (axis delta) \<in> set allowed"
    by (auto simp: traverse_eq_Inr delta)
  show "dict_keys ch = dict_keys ca" by (rule parts(1))
  show "axis delta \<in> dict_keys ch" "champion_value_json delta \<noteq> candidate_value_json delta"
    "\<exists>x. map_of ch (axis delta) = Some x \<and> champion_value_json delta = canonical x"
    "\<exists>x. map_of ca (axis delta) = Some x \<and> candidate_value_json delta = canonical x"
    using single unfolding keys delta by auto
  show "\<forall>k \<in> dict_keys ch. k \<noteq> axis delta \<longrightarrow>
      (\<exists>x y. map_of ch k = Some x \<and> map_of ca k = Some y \<and> canonical x = canonical y)"
    using single unfolding keys delta by fastforce
  show "champion_config_digest delta = sha (canonical (PDict ch))"
    "candidate_config_digest delta = sha (canonical (PDict ca))"
    by (simp_all add: delta)
qed

text \<open>A flag bundle is simpler exactly when its flags are a strict subset.\<close>

lemma strictly_simpler_eq:
  assumes "simplification_wf s"
  shows "strictly_simpler s \<longleftrightarrow> set (candidate_flags s) \<subset> set (champion_flags s)"
  using assms by (simp add: strictly_simpler_def strictly_simpler_flag_bundle_def
      simplification_wf_def require_flags_strings)

lemma eligible_eq:
  "eligible e \<longleftrightarrow> cells_completed e \<and> measurement_valid e \<and> validation_passed e \<and>
     workload_matched e \<and> artifact_identity_verified e \<and> audit_requirement_passed e \<and>
     cleanup_verified e \<and> \<not> campaign_terminal_pressure e"
  by (simp add: eligible_def failed_gates_def campaign_terminal_pressure_def)

lemma failed_budgets_eq_Nil:
  "failed_budgets p t = [] \<longleftrightarrow>
     fst (cell_elapsed_s t) \<le> of_int (cell_timeout_s p) \<and>
     snd (cell_elapsed_s t) \<le> of_int (cell_timeout_s p) \<and>
     pair_elapsed_s t \<le> of_int (pair_timeout_s p) \<and>
     cleanup_elapsed_s t \<le> of_int (cleanup_timeout_s p) \<and>
     of_int (audit_reserve_s p) \<le> audit_reserve_remaining_s t"
  by (auto simp: failed_budgets_def)

lemma timing_post_init_eq [simp]: "timing_post_init t = Inr u \<longleftrightarrow> timing_wf t \<and> u = t"
  by (auto simp: timing_post_init_def timing_wf_def)

lemma timing_from_mapping_wf: "timing_from_mapping v = Inr t \<Longrightarrow> timing_wf t"
  unfolding timing_from_mapping_def by (clarsimp simp: andThen_eq_Inr)

lemma require_flags_wf: "require_flags v = Inr flags \<Longrightarrow> list_all valid_flag flags \<and> distinct flags"
  by (simp add: require_flags_eq)

lemma require_id_tuple_wf:
  "require_id_tuple v = Inr ids \<Longrightarrow> ids \<noteq> [] \<and> list_all safe_id ids \<and> distinct ids"
  by (simp add: require_id_tuple_eq)

lemma simplification_from_mapping_wf: "simplification_from_mapping v = Inr s \<Longrightarrow> simplification_wf s"
  unfolding simplification_from_mapping_def simplification_wf_def
  by (clarsimp simp: andThen_eq_Inr dest!: require_flags_wf)

lemma traverse_positive:
  "traverse (require_finite True) vs = Inr rs \<Longrightarrow> \<forall>r \<in> set rs. 0 < r"
  by (erule traverse_prop) (rule require_finite_pos)

lemma observation_from_mapping_wf:
  "observation_from_mapping v = Inr ob \<Longrightarrow> observation_wf ob"
  unfolding observation_from_mapping_def observation_post_init_def observation_wf_def
  by (clarsimp simp: andThen_eq_Inr dest!: require_id_tuple_wf traverse_positive require_finite_pos
      timing_from_mapping_wf simplification_from_mapping_wf)

lemma timing_roundtrip: "timing_wf t \<Longrightarrow> timing_from_mapping (timing_to_mapping t) = Inr t"
  by (simp add: timing_from_mapping_def timing_to_mapping_def insert_commute timing_wf_def
      timing_post_init_def)

lemma eligibility_roundtrip: "eligibility_from_mapping (eligibility_to_mapping e) = Inr e"
  by (simp add: eligibility_from_mapping_def eligibility_to_mapping_def eligibility_keys_def)

lemma simplification_roundtrip:
  "simplification_wf s \<Longrightarrow> simplification_from_mapping (simplification_to_mapping s) = Inr s"
  by (simp add: simplification_from_mapping_def simplification_to_mapping_def
      simplification_wf_def require_flags_strings)

lemma observation_roundtrip_lemma:
  assumes "observation_wf ob"
  shows "observation_from_mapping (observation_to_mapping ob) = Inr ob"
proof -
  have ratios: "traverse (require_finite True)
      (map (\<lambda>r. PFloat (FFin r)) (primary_speed_ratios ob)) = Inr (primary_speed_ratios ob)"
    using assms by (intro traverse_map_Inr) (simp add: observation_wf_def)
  have "primary_speed_ratios ob \<noteq> []"
    using assms by (auto simp: observation_wf_def)
  with assms ratios show ?thesis
    by (simp add: observation_from_mapping_def observation_to_mapping_def observation_keys_def
        observation_wf_def require_id_tuple_strings timing_roundtrip eligibility_roundtrip
        simplification_roundtrip observation_post_init_def)
qed


section \<open>What parsing raises\<close>

lemma simplification_raises [raises]: "raises_only input_errors (simplification_from_mapping v)"
  unfolding simplification_from_mapping_def by (intro raises; simp)

lemma eligibility_raises [raises]: "raises_only input_errors (eligibility_from_mapping v)"
  unfolding eligibility_from_mapping_def
  by (intro raises; simp add: eligibility_keys_def)

lemma the_pair_raises [raises]: "raises_only input_errors (the_pair xs)"
  by (auto simp: the_pair_def split: list.split)

lemma timing_raises [raises]: "raises_only input_errors (timing_from_mapping v)"
  unfolding timing_from_mapping_def timing_post_init_def case_prod_unfold
  by (intro raises; simp)

lemma observation_raises [raises]: "raises_only input_errors (observation_from_mapping v)"
  unfolding observation_from_mapping_def observation_post_init_def
  by (intro raises; simp add: observation_keys_def)

section \<open>The codecs of the inputs\<close>

interpretation eligibility: mapping_codec eligibility_to_mapping eligibility_from_mapping "\<lambda>_. True"
  by unfold_locales (rule TrueI, rule eligibility_roundtrip)

interpretation simplification: mapping_codec simplification_to_mapping simplification_from_mapping
  simplification_wf
  by unfold_locales (fact simplification_from_mapping_wf simplification_roundtrip)+

interpretation timing: mapping_codec timing_to_mapping timing_from_mapping timing_wf
  by unfold_locales (fact timing_from_mapping_wf timing_roundtrip)+

interpretation observation: mapping_codec observation_to_mapping observation_from_mapping
  observation_wf
  by unfold_locales (fact observation_from_mapping_wf observation_roundtrip_lemma)+

end
