(* ===== verification/Autoresearch_Scoring.thy ===== *)
theory Autoresearch_Scoring
  imports Autoresearch_Inputs
begin

text \<open>
  The deterministic scoring of \<open>bench/autoresearch.py\<close>: \<open>geometric_mean\<close>,
  \<open>pair_order\<close>, the five \<open>evaluate_*\<close> gates with the reasons they collect, and
  \<open>failure_disposition\<close>. A gate decision keeps its reasons in order, as strings.
\<close>

section \<open>Arithmetic of the scores\<close>

definition geometric_mean :: "real list \<Rightarrow> real res" where
  "geometric_mean parsed =
     (if parsed = [] then Inl AutoresearchError
      else andThen (traverse (\<lambda>v. andThen (require_finite True (PFloat (FFin v))) (\<lambda>x. Inr (ln x)))
        parsed) (\<lambda>logs. Inr (exp (sum_list logs / of_nat (length logs)))))"

definition speed_geomean :: "pair_observation \<Rightarrow> real res" where
  "speed_geomean ob = geometric_mean (primary_speed_ratios ob)"

definition pair_order :: "int \<Rightarrow> string list" where
  "pair_order index = (if index mod 2 = 0 then [''champion'', ''candidate'']
     else [''candidate'', ''champion''])"

text \<open>\<open>min\<close> of an empty sequence raises \<open>ValueError\<close>.\<close>

definition py_min :: "real list \<Rightarrow> real res" where
  "py_min xs = (if xs = [] then Inl ValueError else Inr (Min (set xs)))"

section \<open>Gate decisions\<close>

record gate_decision =
  stage :: string
  passed :: bool
  geometric_mean_ratio :: real
  reasons :: "string list"

definition decide :: "string \<Rightarrow> real \<Rightarrow> string list \<Rightarrow> gate_decision" where
  "decide st score rs =
     \<lparr>stage = st, passed = (rs = []), geometric_mean_ratio = score, reasons = rs\<rparr>"

text \<open>\<open>if b: reasons.append(r)\<close>.\<close>

definition reason_if :: "bool \<Rightarrow> string \<Rightarrow> string list" where
  "reason_if b r = (if b then [r] else [])"

definition pair_reasons :: "campaign_policy \<Rightarrow> pair_observation \<Rightarrow> string list" where
  "pair_reasons p ob =
     reason_if (observed_case_ids ob \<noteq> primary_case_ids p) ''primary_cases_mismatch''
     @ map (\<lambda>g. ''ineligible:'' @ g) (failed_gates (eligibility ob))
     @ map (\<lambda>b. ''timing:'' @ b) (failed_budgets p (timing ob))"

definition screen_guardrail_reasons ::
  "campaign_policy \<Rightarrow> pair_observation \<Rightarrow> string \<Rightarrow> string list res" where
  "screen_guardrail_reasons p ob pre =
     andThen (py_min (primary_speed_ratios ob)) (\<lambda>smallest. Inr (
       reason_if (smallest < num_value (screen_primary_ratio_min p))
         (pre @ ''primary_ratio_below_screen_floor'')
       @ reason_if (median_ttft_ratio ob > num_value (screen_ttft_ratio_max p))
         (pre @ ''ttft_ratio_above_screen_ceiling'')))"

definition evaluate_screen :: "campaign_policy \<Rightarrow> pair_observation \<Rightarrow> gate_decision res" where
  "evaluate_screen p ob =
     andThen (speed_geomean ob) (\<lambda>score.
     andThen (screen_guardrail_reasons p ob []) (\<lambda>guard.
       Inr (decide ''screen'' score (pair_reasons p ob
         @ reason_if (score < num_value (screen_geomean_min p)) ''geomean_below_screen_min''
         @ guard))))"

definition confirmation_reasons ::
  "campaign_policy \<Rightarrow> pair_observation \<Rightarrow> pair_observation \<Rightarrow> string list" where
  "confirmation_reasons p first second =
     pair_reasons p first @ pair_reasons p second
     @ (if pair_index second \<noteq> pair_index first + 1
        then [''confirmation_pair_index_not_consecutive'']
        else reason_if (pair_order (pair_index first) = pair_order (pair_index second))
          ''confirmation_order_not_reversed'')
     @ reason_if (observed_case_ids first \<noteq> observed_case_ids second)
         ''confirmation_primary_cases_mismatch''
     @ reason_if (champion_flags (simplification first) \<noteq> champion_flags (simplification second)
          \<or> candidate_flags (simplification first) \<noteq> candidate_flags (simplification second))
         ''confirmation_flag_bundles_mismatch''"

definition evaluate_promotion ::
  "campaign_policy \<Rightarrow> pair_observation \<Rightarrow> pair_observation \<Rightarrow> gate_decision res" where
  "evaluate_promotion p first second =
     andThen (evaluate_screen p first) (\<lambda>screen.
     andThen (screen_guardrail_reasons p second ''reverse_'') (\<lambda>guard.
     andThen (speed_geomean first) (\<lambda>g1.
     andThen (speed_geomean second) (\<lambda>g2.
     andThen (geometric_mean (primary_speed_ratios first @ primary_speed_ratios second)) (\<lambda>combined.
     (let rs = confirmation_reasons p first second
            @ reason_if (\<not> passed screen) ''first_pair_did_not_pass_screen''
            @ guard
            @ reason_if (\<not> g1 > num_value (promotion_pair_geomean_strict_min p))
                ''first_pair_geomean_not_strictly_above_one''
            @ reason_if (\<not> g2 > num_value (promotion_pair_geomean_strict_min p))
                ''reverse_pair_geomean_not_strictly_above_one''
            @ reason_if (combined < num_value (promotion_combined_geomean_min p))
                ''combined_geomean_below_promotion_min''
      in Inr (decide ''promotion'' combined (dedup_first rs))))))))"

definition evaluate_simplification_screen ::
  "campaign_policy \<Rightarrow> pair_observation \<Rightarrow> gate_decision res" where
  "evaluate_simplification_screen p ob =
     andThen (speed_geomean ob) (\<lambda>score.
     andThen (screen_guardrail_reasons p ob []) (\<lambda>guard.
       Inr (decide ''simplification_screen'' score (pair_reasons p ob
         @ reason_if (score < num_value (simplification_combined_geomean_min p))
             ''geomean_below_simplification_floor''
         @ guard
         @ reason_if (\<not> (minimum_memavailable_gain_gib (simplification ob)
                \<ge> num_value (simplification_memavailable_gain_gib p)
              \<or> strictly_simpler (simplification ob)))
             ''simplification_benefit_missing''))))"

definition evaluate_simplification_promotion ::
  "campaign_policy \<Rightarrow> pair_observation \<Rightarrow> pair_observation \<Rightarrow> gate_decision res" where
  "evaluate_simplification_promotion p first second =
     andThen (geometric_mean (primary_speed_ratios first @ primary_speed_ratios second)) (\<lambda>combined.
     andThen (screen_guardrail_reasons p first ''first_'') (\<lambda>guard1.
     andThen (screen_guardrail_reasons p second ''reverse_'') (\<lambda>guard2.
     (let memory_confirmed = list_all (\<lambda>ob. minimum_memavailable_gain_gib (simplification ob)
            \<ge> num_value (simplification_memavailable_gain_gib p)) [first, second];
          flags_confirmed = list_all (\<lambda>ob. strictly_simpler (simplification ob)) [first, second];
          rs = confirmation_reasons p first second
            @ reason_if (combined < num_value (simplification_combined_geomean_min p))
                ''combined_geomean_below_simplification_floor''
            @ guard1 @ guard2
            @ reason_if (\<not> (memory_confirmed \<or> flags_confirmed))
                ''simplification_benefit_not_confirmed_twice''
      in Inr (decide ''simplification_promotion'' combined (dedup_first rs))))))"

definition evaluate_calibration :: "campaign_policy \<Rightarrow> pair_observation \<Rightarrow> gate_decision res" where
  "evaluate_calibration p ob =
     andThen (speed_geomean ob) (\<lambda>score.
       Inr (decide ''calibration'' score (pair_reasons p ob
         @ reason_if (\<not> (num_value (calibration_geomean_min p) \<le> score
              \<and> score \<le> num_value (calibration_geomean_max p)))
             ''calibration_geomean_out_of_range''
         @ reason_if (list_ex (\<lambda>r. \<not> (num_value (calibration_primary_ratio_min p) \<le> r
              \<and> r \<le> num_value (calibration_primary_ratio_max p))) (primary_speed_ratios ob))
             ''calibration_primary_ratio_out_of_range''
         @ reason_if (\<not> (num_value (calibration_ttft_ratio_min p) \<le> median_ttft_ratio ob
              \<and> median_ttft_ratio ob \<le> num_value (calibration_ttft_ratio_max p)))
             ''calibration_ttft_ratio_out_of_range'')))"

section \<open>Failures\<close>

datatype failure_kind =
    Cutoff | Candidate_syntax | Candidate_startup | Measurement | Validation | Audit
  | Memory_pressure | Swap_pressure | Oom | Ownership_ambiguity | Cleanup_breach

fun failure_kind_value :: "failure_kind \<Rightarrow> string" where
  "failure_kind_value Cutoff = ''cutoff''"
| "failure_kind_value Candidate_syntax = ''candidate_syntax''"
| "failure_kind_value Candidate_startup = ''candidate_startup''"
| "failure_kind_value Measurement = ''measurement''"
| "failure_kind_value Validation = ''validation''"
| "failure_kind_value Audit = ''audit''"
| "failure_kind_value Memory_pressure = ''memory_pressure''"
| "failure_kind_value Swap_pressure = ''swap_pressure''"
| "failure_kind_value Oom = ''oom''"
| "failure_kind_value Ownership_ambiguity = ''ownership_ambiguity''"
| "failure_kind_value Cleanup_breach = ''cleanup_breach''"

definition failure_kinds :: "failure_kind list" where
  "failure_kinds = [Cutoff, Candidate_syntax, Candidate_startup, Measurement, Validation, Audit,
     Memory_pressure, Swap_pressure, Oom, Ownership_ambiguity, Cleanup_breach]"

definition require_failure_kind :: "pyval \<Rightarrow> failure_kind res" where
  "require_failure_kind v = (case v of
       PStr s \<Rightarrow> (case find (\<lambda>k. failure_kind_value k = s) failure_kinds of
          Some k \<Rightarrow> Inr k | None \<Rightarrow> Inl AutoresearchError)
     | _ \<Rightarrow> Inl AutoresearchError)"

datatype disposition = Discard_candidate | Terminate_campaign

definition failure_disposition :: "pyval \<Rightarrow> pyval \<Rightarrow> pyval \<Rightarrow> disposition res" where
  "failure_disposition kind_value cleanup_value preflight_value =
     andThen (require_failure_kind kind_value) (\<lambda>kind.
     andThen (require_bool cleanup_value) (\<lambda>cleanup.
     andThen (require_bool preflight_value) (\<lambda>preflight.
       Inr (if kind \<in> {Candidate_syntax, Candidate_startup} \<and> cleanup \<and> preflight
            then Discard_candidate else Terminate_campaign))))"

section \<open>The geometric mean\<close>

definition all_positive :: "real list \<Rightarrow> bool" where
  "all_positive xs \<longleftrightarrow> (\<forall>x \<in> set xs. 0 < x)"

lemma traverse_ln:
  "traverse (\<lambda>v. andThen (require_finite True (PFloat (FFin v))) (\<lambda>x. Inr (ln x))) xs = Inr ys
     \<longleftrightarrow> all_positive xs \<and> ys = map ln xs"
proof (induction xs arbitrary: ys)
  case Nil
  then show ?case by (auto simp: all_positive_def)
next
  case (Cons x xs)
  then show ?case
    by (auto simp: andThen_eq_Inr all_positive_def require_finite_def)
qed

lemma geometric_mean_eq [res_inv]:
  "geometric_mean xs = Inr g \<longleftrightarrow>
     xs \<noteq> [] \<and> all_positive xs \<and> g = exp (sum_list (map ln xs) / of_nat (length xs))"
  by (auto simp: geometric_mean_def andThen_eq_Inr traverse_ln)

lemma geometric_mean_total:
  "xs \<noteq> [] \<Longrightarrow> all_positive xs \<Longrightarrow> \<exists>g. geometric_mean xs = Inr g"
  by (simp add: geometric_mean_eq)

lemma prod_list_pos: "all_positive xs \<Longrightarrow> 0 < prod_list (xs :: real list)"
  by (induction xs) (auto simp: all_positive_def)

lemma sum_list_ln: "all_positive xs \<Longrightarrow> sum_list (map ln xs) = ln (prod_list xs)"
proof (induction xs)
  case Nil
  then show ?case by simp
next
  case (Cons x xs)
  then have "0 < x" "0 < prod_list xs" "sum_list (map ln xs) = ln (prod_list xs)"
    using prod_list_pos [of xs] by (simp_all add: all_positive_def)
  then show ?case by (simp add: ln_mult)
qed

lemma geometric_mean_pos: "geometric_mean xs = Inr g \<Longrightarrow> 0 < g"
  by (simp add: geometric_mean_eq)

text \<open>The mean is the one number whose \<open>n\<close>-th power is the product.\<close>

lemma geometric_mean_power:
  assumes "geometric_mean xs = Inr g"
  shows "g ^ length xs = prod_list xs"
proof -
  have pos: "all_positive xs" and ne: "xs \<noteq> []"
    and g: "g = exp (ln (prod_list xs) / of_nat (length xs))"
    using assms by (auto simp: geometric_mean_eq sum_list_ln)
  have "g ^ length xs = exp (of_nat (length xs) * (ln (prod_list xs) / of_nat (length xs)))"
    unfolding g exp_of_nat_mult ..
  also have "\<dots> = prod_list xs"
    using ne prod_list_pos [OF pos] by simp
  finally show ?thesis .
qed

text \<open>So a threshold on the mean is a threshold on the product, with no logarithm.\<close>

lemma geometric_mean_less:
  assumes "geometric_mean xs = Inr g" and "0 < c"
  shows "g < c \<longleftrightarrow> prod_list xs < c ^ length xs"
proof -
  have "g < c \<longleftrightarrow> g ^ length xs < c ^ length xs"
    using assms geometric_mean_pos [OF assms(1)]
    by (auto simp: geometric_mean_eq power_strict_mono intro: power_less_imp_less_base)
  then show ?thesis by (simp add: geometric_mean_power [OF assms(1)])
qed

lemma geometric_mean_greater:
  assumes "geometric_mean xs = Inr g" and "0 < c"
  shows "c < g \<longleftrightarrow> c ^ length xs < prod_list xs"
proof -
  have "c < g \<longleftrightarrow> c ^ length xs < g ^ length xs"
    using assms geometric_mean_pos [OF assms(1)]
    by (auto simp: geometric_mean_eq power_strict_mono intro: power_less_imp_less_base)
  then show ?thesis by (simp add: geometric_mean_power [OF assms(1)])
qed

lemma prod_list_le_power:
  fixes xs :: "real list"
  assumes "all_positive xs" and "\<forall>x \<in> set xs. x \<le> M"
  shows "prod_list xs \<le> M ^ length xs"
  using assms
proof (induction xs)
  case Nil
  then show ?case by simp
next
  case (Cons x xs)
  then have "0 < x" "x \<le> M" "prod_list xs \<le> M ^ length xs" "0 < prod_list xs"
    using prod_list_pos [of xs] by (simp_all add: all_positive_def)
  then show ?case by (simp add: mult_mono)
qed

lemma power_le_prod_list:
  fixes xs :: "real list"
  assumes "0 \<le> m" and "\<forall>x \<in> set xs. m \<le> x"
  shows "m ^ length xs \<le> prod_list xs"
  using assms(2)
proof (induction xs)
  case Nil
  then show ?case by simp
next
  case (Cons x xs)
  then have "m \<le> x" "m ^ length xs \<le> prod_list xs" by simp_all
  with assms(1) show ?case
    by (simp add: mult_mono order_trans [OF _ \<open>m \<le> x\<close>])
qed

lemma geometric_mean_bounds_lemma:
  assumes "geometric_mean xs = Inr g"
  shows "Min (set xs) \<le> g \<and> g \<le> Max (set xs)"
proof -
  have ne: "xs \<noteq> []" and pos: "all_positive xs"
    using assms by (simp_all add: geometric_mean_eq)
  then have "0 < Min (set xs)" "0 < Max (set xs)"
    by (auto simp: all_positive_def Min_gr_iff Max_gr_iff neq_Nil_conv)
  moreover have "Min (set xs) ^ length xs \<le> prod_list xs"
    using \<open>0 < Min (set xs)\<close> by (intro power_le_prod_list) auto
  moreover have "prod_list xs \<le> Max (set xs) ^ length xs"
    using pos by (intro prod_list_le_power) auto
  ultimately show ?thesis
    using geometric_mean_less [OF assms] geometric_mean_greater [OF assms] by (meson not_le)
qed

lemma geometric_mean_replicate:
  assumes "0 < r" and "n \<noteq> 0"
  shows "geometric_mean (replicate n r) = Inr r"
  using assms by (simp add: geometric_mean_eq all_positive_def sum_list_replicate)

lemma geometric_mean_inverse_lemma:
  assumes "geometric_mean xs = Inr g"
  shows "geometric_mean (map inverse xs) = Inr (inverse g)"
proof -
  have pos: "all_positive xs" and ne: "xs \<noteq> []"
    using assms by (simp_all add: geometric_mean_eq)
  have "map (ln \<circ> inverse) xs = map (uminus \<circ> ln) xs"
    using pos by (auto simp: all_positive_def ln_inverse)
  then have "sum_list (map ln (map inverse xs)) = sum_list (map (uminus \<circ> ln) xs)"
    by (simp only: map_map)
  then have "sum_list (map ln (map inverse xs)) = - sum_list (map ln xs)"
    by (simp add: uminus_sum_list_map)
  then show ?thesis
    using assms pos ne by (simp add: geometric_mean_eq all_positive_def exp_minus comp_def)
qed

lemma geometric_mean_append_lemma:
  assumes "geometric_mean xs = Inr g" and "geometric_mean ys = Inr h" and "length ys = length xs"
  shows "geometric_mean (xs @ ys) = Inr (sqrt (g * h))"
proof -
  let ?n = "real (length xs)"
  have ne: "xs \<noteq> []" and pos: "all_positive (xs @ ys)"
    and gh: "g = exp (sum_list (map ln xs) / ?n)" "h = exp (sum_list (map ln ys) / ?n)"
    using assms by (auto simp: geometric_mean_eq all_positive_def)
  have "g * h = exp (sum_list (map ln (xs @ ys)) / ?n)"
    by (simp add: gh add_divide_distrib exp_add)
  also have "\<dots> = (exp (sum_list (map ln (xs @ ys)) / (?n + ?n)))\<^sup>2"
    using ne by (simp add: exp_double [symmetric] field_simps)
  finally have "sqrt (g * h) = exp (sum_list (map ln (xs @ ys)) / (?n + ?n))"
    by simp
  then show ?thesis
    using ne pos assms(3) by (simp add: geometric_mean_eq)
qed

section \<open>What each gate decides\<close>

lemma decide_simps [simp]:
  "passed (decide st score rs) \<longleftrightarrow> rs = []"
  "geometric_mean_ratio (decide st score rs) = score"
  "reasons (decide st score rs) = rs"
  "stage (decide st score rs) = st"
  by (simp_all add: decide_def)

lemma reason_if_eq [simp]: "reason_if b r = [] \<longleftrightarrow> \<not> b"
  by (simp add: reason_if_def)

text \<open>A pair with no hard reason against it.\<close>

definition pair_clean :: "campaign_policy \<Rightarrow> pair_observation \<Rightarrow> bool" where
  "pair_clean p ob \<longleftrightarrow> observed_case_ids ob = primary_case_ids p \<and>
     eligible (eligibility ob) \<and> failed_budgets p (timing ob) = []"

lemma pair_reasons_eq_Nil [simp]: "pair_reasons p ob = [] \<longleftrightarrow> pair_clean p ob"
  by (auto simp: pair_reasons_def pair_clean_def eligible_def)

definition guardrails_hold :: "campaign_policy \<Rightarrow> pair_observation \<Rightarrow> bool" where
  "guardrails_hold p ob \<longleftrightarrow>
     (\<forall>r \<in> set (primary_speed_ratios ob). num_value (screen_primary_ratio_min p) \<le> r) \<and>
     median_ttft_ratio ob \<le> num_value (screen_ttft_ratio_max p)"

lemma screen_guardrail_eq:
  assumes "screen_guardrail_reasons p ob pre = Inr rs"
  shows "rs = [] \<longleftrightarrow> guardrails_hold p ob"
  using assms by (auto simp: screen_guardrail_reasons_def andThen_eq_Inr py_min_def
      guardrails_hold_def not_less)

lemma observation_ratios:
  assumes "observation_wf ob"
  shows "primary_speed_ratios ob \<noteq> []" and "all_positive (primary_speed_ratios ob)"
  using assms by (auto simp: observation_wf_def all_positive_def)

lemma screen_guardrail_total:
  assumes "observation_wf ob"
  shows "\<exists>rs. screen_guardrail_reasons p ob pre = Inr rs"
  using observation_ratios [OF assms] by (simp add: screen_guardrail_reasons_def py_min_def)

lemma speed_geomean_total:
  assumes "observation_wf ob"
  shows "\<exists>g. speed_geomean ob = Inr g"
  using observation_ratios [OF assms] by (simp add: speed_geomean_def geometric_mean_eq)

lemma combined_geomean_total:
  assumes "observation_wf a" and "observation_wf b"
  shows "\<exists>g. geometric_mean (primary_speed_ratios a @ primary_speed_ratios b) = Inr g"
  using observation_ratios [OF assms(1)] observation_ratios [OF assms(2)]
  by (auto simp: geometric_mean_eq all_positive_def)

lemma evaluate_screen_passed:
  assumes "evaluate_screen p ob = Inr d"
  shows "passed d \<longleftrightarrow> pair_clean p ob \<and> guardrails_hold p ob \<and>
    num_value (screen_geomean_min p) \<le> geometric_mean_ratio d"
    and "speed_geomean ob = Inr (geometric_mean_ratio d)"
  using assms by (auto simp: evaluate_screen_def andThen_eq_Inr screen_guardrail_eq)

lemma evaluate_screen_total:
  assumes "observation_wf ob"
  shows "\<exists>d. evaluate_screen p ob = Inr d"
  using screen_guardrail_total [OF assms, of p "[]"] speed_geomean_total [OF assms]
  by (auto simp: evaluate_screen_def)

text \<open>Consecutive indices always run in opposite orders, so that reason never fires.\<close>

lemma pair_order_reverse: "pair_order (i + 1) = rev (pair_order i)"
  by (auto simp: pair_order_def mod_add_eq) presburger+

lemma pair_order_distinct: "pair_order i \<noteq> rev (pair_order i)"
  by (simp add: pair_order_def)

definition confirms :: "campaign_policy \<Rightarrow> pair_observation \<Rightarrow> pair_observation \<Rightarrow> bool" where
  "confirms p first second \<longleftrightarrow> pair_clean p first \<and> pair_clean p second \<and>
     pair_index second = pair_index first + 1 \<and>
     champion_flags (simplification first) = champion_flags (simplification second) \<and>
     candidate_flags (simplification first) = candidate_flags (simplification second)"

lemma confirmation_reasons_eq_Nil [simp]:
  "confirmation_reasons p first second = [] \<longleftrightarrow> confirms p first second"
  using pair_order_distinct
  by (auto simp: confirmation_reasons_def confirms_def pair_order_reverse pair_clean_def
      split: if_splits)

lemma evaluate_promotion_passed:
  assumes "evaluate_promotion p first second = Inr d"
  shows "passed d \<longleftrightarrow>
    confirms p first second \<and> guardrails_hold p first \<and> guardrails_hold p second \<and>
    (\<exists>g1 g2. speed_geomean first = Inr g1 \<and> speed_geomean second = Inr g2 \<and>
       num_value (screen_geomean_min p) \<le> g1 \<and>
       num_value (promotion_pair_geomean_strict_min p) < g1 \<and>
       num_value (promotion_pair_geomean_strict_min p) < g2) \<and>
    num_value (promotion_combined_geomean_min p) \<le> geometric_mean_ratio d"
    and "geometric_mean (primary_speed_ratios first @ primary_speed_ratios second)
      = Inr (geometric_mean_ratio d)"
  using assms by (auto simp: evaluate_promotion_def andThen_eq_Inr screen_guardrail_eq Let_def
      evaluate_screen_passed confirms_def)

lemma evaluate_promotion_total:
  assumes "observation_wf first" and "observation_wf second"
  shows "\<exists>d. evaluate_promotion p first second = Inr d"
  using screen_guardrail_total [OF assms(2), of p "''reverse_''"] speed_geomean_total [OF assms(1)]
    speed_geomean_total [OF assms(2)] evaluate_screen_total [OF assms(1), of p]
    combined_geomean_total [OF assms]
  by (auto simp: evaluate_promotion_def Let_def)

definition simplification_benefit :: "campaign_policy \<Rightarrow> pair_observation list \<Rightarrow> bool" where
  "simplification_benefit p obs \<longleftrightarrow>
     (\<forall>ob \<in> set obs. num_value (simplification_memavailable_gain_gib p)
        \<le> minimum_memavailable_gain_gib (simplification ob)) \<or>
     (\<forall>ob \<in> set obs. strictly_simpler (simplification ob))"

lemma evaluate_simplification_screen_passed:
  assumes "evaluate_simplification_screen p ob = Inr d"
  shows "passed d \<longleftrightarrow> pair_clean p ob \<and> guardrails_hold p ob \<and>
    num_value (simplification_combined_geomean_min p) \<le> geometric_mean_ratio d \<and>
    simplification_benefit p [ob]"
    and "speed_geomean ob = Inr (geometric_mean_ratio d)"
  using assms by (auto simp: evaluate_simplification_screen_def andThen_eq_Inr
      screen_guardrail_eq simplification_benefit_def)

lemma evaluate_simplification_promotion_passed:
  assumes "evaluate_simplification_promotion p first second = Inr d"
  shows "passed d \<longleftrightarrow>
    confirms p first second \<and> guardrails_hold p first \<and> guardrails_hold p second \<and>
    num_value (simplification_combined_geomean_min p) \<le> geometric_mean_ratio d \<and>
    simplification_benefit p [first, second]"
    and "geometric_mean (primary_speed_ratios first @ primary_speed_ratios second)
      = Inr (geometric_mean_ratio d)"
  using assms by (auto simp: evaluate_simplification_promotion_def andThen_eq_Inr
      screen_guardrail_eq simplification_benefit_def Let_def)

lemma evaluate_calibration_passed:
  assumes "evaluate_calibration p ob = Inr d"
  shows "passed d \<longleftrightarrow> pair_clean p ob \<and>
    num_value (calibration_geomean_min p) \<le> geometric_mean_ratio d \<and>
    geometric_mean_ratio d \<le> num_value (calibration_geomean_max p) \<and>
    (\<forall>r \<in> set (primary_speed_ratios ob). num_value (calibration_primary_ratio_min p) \<le> r
       \<and> r \<le> num_value (calibration_primary_ratio_max p)) \<and>
    num_value (calibration_ttft_ratio_min p) \<le> median_ttft_ratio ob \<and>
    median_ttft_ratio ob \<le> num_value (calibration_ttft_ratio_max p)"
    and "speed_geomean ob = Inr (geometric_mean_ratio d)"
  using assms by (auto simp: evaluate_calibration_def andThen_eq_Inr list_ex_iff)

lemma find_failure_kind:
  "find (\<lambda>k. failure_kind_value k = s) failure_kinds = Some k \<longleftrightarrow> s = failure_kind_value k"
proof
  assume "find (\<lambda>k. failure_kind_value k = s) failure_kinds = Some k"
  then show "s = failure_kind_value k" by (auto simp: find_Some_iff)
next
  assume "s = failure_kind_value k"
  then show "find (\<lambda>k. failure_kind_value k = s) failure_kinds = Some k"
    by (cases k) (simp_all add: failure_kinds_def)
qed

lemma require_failure_kind_eq [simp]:
  "require_failure_kind v = Inr k \<longleftrightarrow> v = PStr (failure_kind_value k)"
proof (cases "\<exists>s. v = PStr s")
  case True
  then obtain s where v: "v = PStr s" by blast
  have "require_failure_kind v = Inr k \<longleftrightarrow>
      find (\<lambda>k. failure_kind_value k = s) failure_kinds = Some k"
    by (simp add: v require_failure_kind_def split: option.splits)
  also have "\<dots> \<longleftrightarrow> s = failure_kind_value k" by (rule find_failure_kind)
  finally show ?thesis by (simp add: v)
next
  case False
  then show ?thesis by (auto simp: require_failure_kind_def split: pyval.splits)
qed

lemma failure_disposition_eq:
  "failure_disposition v c r = Inr disp \<longleftrightarrow>
     (\<exists>kind cleanup preflight. v = PStr (failure_kind_value kind) \<and> c = PBool cleanup \<and>
       r = PBool preflight \<and>
       disp = (if kind \<in> {Candidate_syntax, Candidate_startup} \<and> cleanup \<and> preflight
               then Discard_candidate else Terminate_campaign))"
  by (auto simp: failure_disposition_def andThen_eq_Inr)


section \<open>What the gates raise\<close>

text \<open>On a parsed observation every gate returns a decision.\<close>

lemma evaluate_simplification_screen_total:
  assumes "observation_wf ob"
  shows "\<exists>d. evaluate_simplification_screen p ob = Inr d"
  using screen_guardrail_total [OF assms, of p "[]"] speed_geomean_total [OF assms]
  by (auto simp: evaluate_simplification_screen_def)

lemma evaluate_simplification_promotion_total:
  assumes "observation_wf first" and "observation_wf second"
  shows "\<exists>d. evaluate_simplification_promotion p first second = Inr d"
  using screen_guardrail_total [OF assms(1), of p "''first_''"]
    screen_guardrail_total [OF assms(2), of p "''reverse_''"] combined_geomean_total [OF assms]
  by (auto simp: evaluate_simplification_promotion_def Let_def)

lemma failure_raises [raises]:
  "raises_only input_errors (require_failure_kind v)"
  "raises_only input_errors (failure_disposition v c r)"
  by (auto simp: failure_disposition_def require_failure_kind_def intro!: raises
      split: pyval.split option.split)

end
