(* ===== verification/Py_Text.thy ===== *)
theory Py_Text
  imports Py_Prelude
begin

text \<open>
  The string methods the components use: \<open>splitlines\<close> of text and of bytes, \<open>strip\<close>,
  \<open>split()\<close>, \<open>partition\<close>, \<open>int(text, 10)\<close> and the decimal text of a number. A character
  is 8 bits wide, so the sets of breaks and spaces are those of Latin-1.
\<close>

section \<open>Lines\<close>

definition LF :: char where "LF = CHR 0x0A"
definition CR :: char where "CR = CHR 0x0D"

text \<open>The breaks of \<open>str.splitlines\<close>, and the fewer ones of \<open>bytes.splitlines\<close>.\<close>

definition text_breaks :: "char set" where
  "text_breaks = {LF, CHR 0x0B, CHR 0x0C, CR, CHR 0x1C, CHR 0x1D, CHR 0x1E, CHR 0x85}"

definition byte_breaks :: "char set" where
  "byte_breaks = {LF, CR}"

text \<open>\<open>\\r\\n\<close> is one break; the accumulator holds the current line, reversed.\<close>

fun drop_LF :: "string \<Rightarrow> string" where
  "drop_LF [] = []"
| "drop_LF (c # cs) = (if c = LF then cs else c # cs)"

lemma drop_LF_length [termination_simp]: "length (drop_LF cs) < Suc (length cs)"
  by (cases cs) auto

fun lines_acc :: "char set \<Rightarrow> string \<Rightarrow> string \<Rightarrow> string list" where
  "lines_acc B acc [] = (if acc = [] then [] else [rev acc])"
| "lines_acc B acc (c # cs) =
     (if c \<in> B then rev acc # lines_acc B [] (if c = CR then drop_LF cs else cs)
      else lines_acc B (c # acc) cs)"

definition splitlines :: "string \<Rightarrow> string list" where
  "splitlines s = lines_acc text_breaks [] s"

definition splitlines_bytes :: "string \<Rightarrow> string list" where
  "splitlines_bytes s = lines_acc byte_breaks [] s"

subsection \<open>Lemmas on lines\<close>

lemma lines_acc_break:
  "LF \<in> B \<Longrightarrow> lines_acc B acc (a @ LF # b) = lines_acc B acc (a @ [LF]) @ lines_acc B [] b"
proof (induction B acc a rule: lines_acc.induct)
  case (1 B acc)
  then show ?case by (simp add: LF_def CR_def)
next
  case (2 B acc c cs)
  show ?case
  proof (cases "c \<in> B")
    case True
    show ?thesis
    proof (cases "c = CR \<and> drop_LF cs \<noteq> cs")
      case True
      then obtain ds where "cs = LF # ds" by (cases cs) (auto split: if_splits)
      with True \<open>c \<in> B\<close> "2.IH"(1) "2.prems" show ?thesis by simp
    next
      case no: False
      show ?thesis
      proof (cases "c = CR \<and> cs = []")
        case True
        with \<open>c \<in> B\<close> show ?thesis by simp
      next
        case False
        with no have "(if c = CR then drop_LF (cs @ LF # b) else cs @ LF # b)
            = (if c = CR then drop_LF cs else cs) @ LF # b"
          "(if c = CR then drop_LF (cs @ [LF]) else cs @ [LF])
            = (if c = CR then drop_LF cs else cs) @ [LF]"
          by (cases cs; auto)+
        with \<open>c \<in> B\<close> "2.IH"(1) "2.prems" show ?thesis by (simp split del: if_split)
      qed
    qed
  next
    case False
    with "2.IH"(2) "2.prems" show ?thesis by simp
  qed
qed

text \<open>A final separator adds at most an empty line.\<close>

lemma lines_acc_snoc_LF:
  "LF \<in> B \<Longrightarrow>
     filter (\<lambda>l. l \<noteq> []) (lines_acc B acc (a @ [LF])) = filter (\<lambda>l. l \<noteq> []) (lines_acc B acc a)"
proof (induction B acc a rule: lines_acc.induct)
  case (1 B acc)
  then show ?case by (simp add: LF_def CR_def)
next
  case (2 B acc c cs)
  show ?case
  proof (cases "c \<in> B")
    case True
    show ?thesis
    proof (cases "c = CR \<and> cs = []")
      case True
      with \<open>c \<in> B\<close> show ?thesis by simp
    next
      case False
      then have "(if c = CR then drop_LF (cs @ [LF]) else cs @ [LF])
          = (if c = CR then drop_LF cs else cs) @ [LF]"
        by (cases cs) auto
      with \<open>c \<in> B\<close> "2.IH"(1) "2.prems" show ?thesis
        by (cases "acc = []") (simp_all split del: if_split)
    qed
  next
    case False
    with "2.IH"(2) "2.prems" show ?thesis by simp
  qed
qed

lemma lines_acc_plain:
  "set s \<inter> B = {} \<Longrightarrow> LF \<in> B \<Longrightarrow> lines_acc B acc (s @ [LF]) = [rev acc @ s]"
  by (induction s arbitrary: acc) (auto simp: LF_def CR_def)

lemma text_breaks_LF [simp]: "LF \<in> text_breaks" "LF \<in> byte_breaks"
  by (simp_all add: text_breaks_def byte_breaks_def)

section \<open>Spaces and words\<close>

definition is_space :: "char \<Rightarrow> bool" where
  "is_space c \<longleftrightarrow> c \<in> {CHR 0x09, LF, CHR 0x0B, CHR 0x0C, CR, CHR 0x1C, CHR 0x1D, CHR 0x1E,
     CHR 0x1F, CHR '' '', CHR 0x85, CHR 0xA0}"

definition py_strip :: "string \<Rightarrow> string" where
  "py_strip s = rev (dropWhile is_space (rev (dropWhile is_space s)))"

text \<open>\<open>s.split()\<close>: the maximal runs of non-space characters.\<close>

fun words_acc :: "string \<Rightarrow> string \<Rightarrow> string list" where
  "words_acc acc [] = (if acc = [] then [] else [rev acc])"
| "words_acc acc (c # cs) =
     (if is_space c then (if acc = [] then [] else [rev acc]) @ words_acc [] cs
      else words_acc (c # acc) cs)"

definition py_split :: "string \<Rightarrow> string list" where
  "py_split s = words_acc [] s"

text \<open>\<open>s.partition(c)\<close>: the text before the first \<open>c\<close>, whether there is one, and the rest.\<close>

definition partition_at :: "char \<Rightarrow> string \<Rightarrow> string \<times> bool \<times> string" where
  "partition_at c s = (takeWhile (\<lambda>x. x \<noteq> c) s, c \<in> set s, tl (dropWhile (\<lambda>x. x \<noteq> c) s))"

lemma words_acc_word:
  "list_all (\<lambda>c. \<not> is_space c) w \<Longrightarrow> words_acc acc (w @ cs) = words_acc (rev w @ acc) cs"
  by (induction w arbitrary: acc) auto

lemma py_split_word:
  assumes "w \<noteq> []" and "list_all (\<lambda>c. \<not> is_space c) w"
  shows "py_split w = [w]" and "is_space c \<Longrightarrow> py_split (w @ c # cs) = w # py_split cs"
  using words_acc_word [OF assms(2), of "[]"] words_acc_word [OF assms(2), of "[]" "[]"] assms(1)
  by (simp_all add: py_split_def)

lemma py_split_space: "is_space c \<Longrightarrow> py_split (c # cs) = py_split cs"
  by (simp add: py_split_def)

lemma py_strip_plain:
  assumes "s \<noteq> []" and "\<not> is_space (hd s)" and "\<not> is_space (last s)"
  shows "py_strip s = s"
proof -
  obtain c cs where "s = c # cs" using assms(1) by (cases s) auto
  with assms(2) have "dropWhile is_space s = s" by simp
  moreover obtain d ds where d: "rev s = d # ds" using assms(1) by (cases "rev s") auto
  have "last s = d" using d by (metis last_rev list.sel(1) rev_rev_ident)
  with assms(3) d have "dropWhile is_space (rev s) = rev s" by simp
  ultimately show ?thesis by (simp add: py_strip_def)
qed

lemma partition_at_first:
  "c \<notin> set a \<Longrightarrow> partition_at c (a @ c # b) = (a, True, b)"
  by (simp add: partition_at_def takeWhile_append dropWhile_append)

section \<open>Decimal numbers\<close>

definition is_digit :: "char \<Rightarrow> bool" where
  "is_digit c \<longleftrightarrow> CHR ''0'' \<le> c \<and> c \<le> CHR ''9''"

definition digit_value :: "char \<Rightarrow> nat" where
  "digit_value c = of_char c - 48"

text \<open>Digits with single underscores between them; the flag says whether the last one is a digit.\<close>

fun digits_acc :: "bool \<Rightarrow> nat \<Rightarrow> string \<Rightarrow> nat option" where
  "digits_acc prev acc [] = (if prev then Some acc else None)"
| "digits_acc prev acc (c # cs) =
     (if is_digit c then digits_acc True (acc * 10 + digit_value c) cs
      else if c = CHR ''_'' \<and> prev then digits_acc False acc cs
      else None)"

text \<open>The interpreter refuses to convert more digits than this.\<close>

definition max_str_digits :: nat where
  "max_str_digits = 4300"

definition parse_digits :: "string \<Rightarrow> nat option" where
  "parse_digits s = (if length (filter is_digit s) > max_str_digits then None
     else digits_acc False 0 s)"

text \<open>\<open>int(s, 10)\<close>; \<open>None\<close> is the \<open>ValueError\<close>.\<close>

definition parse_int :: "string \<Rightarrow> int option" where
  "parse_int s = (case py_strip s of
       [] \<Rightarrow> None
     | c # cs \<Rightarrow>
        if c = CHR ''-'' then map_option (\<lambda>n. - int n) (parse_digits cs)
        else if c = CHR ''+'' then map_option int (parse_digits cs)
        else map_option int (parse_digits (c # cs)))"

definition digit_char :: "nat \<Rightarrow> char" where
  "digit_char n = char_of (48 + n)"

fun show_nat :: "nat \<Rightarrow> string" where
  "show_nat n = (if n < 10 then [digit_char n] else show_nat (n div 10) @ [digit_char (n mod 10)])"

declare show_nat.simps [simp del]

lemma digit_chars: "list_all (\<lambda>n. is_digit (digit_char n) \<and> digit_value (digit_char n) = n \<and>
    \<not> is_space (digit_char n)) [0..<10]"
  by code_simp

lemma digit_char [simp]:
  assumes "n < 10"
  shows "is_digit (digit_char n)" "digit_value (digit_char n) = n" "\<not> is_space (digit_char n)"
  using digit_chars assms by (simp_all only: list_all_iff set_upt atLeastLessThan_iff) auto

lemma show_nat_digits: "list_all is_digit (show_nat n) \<and> list_all (\<lambda>c. \<not> is_space c) (show_nat n)"
  by (induction n rule: show_nat.induct) (subst (1 2) show_nat.simps; simp)

lemma show_nat_Nil [simp]: "show_nat n \<noteq> []"
  by (subst show_nat.simps) simp

lemma digits_acc_all:
  "list_all is_digit s \<Longrightarrow>
     digits_acc prev acc s = (if s = [] \<and> \<not> prev then None
       else Some (foldl (\<lambda>a c. a * 10 + digit_value c) acc s))"
  by (induction s arbitrary: prev acc) auto

lemma foldl_show_nat: "foldl (\<lambda>a c. a * 10 + digit_value c) 0 (show_nat n) = n"
proof (induction n rule: show_nat.induct)
  case (1 n)
  show ?case
    by (subst show_nat.simps) (use 1 in auto)
qed

lemma show_nat_length: "n < 10 ^ k \<Longrightarrow> 0 < k \<Longrightarrow> length (show_nat n) \<le> k"
proof (induction k arbitrary: n)
  case (Suc k)
  show ?case
  proof (cases "n < 10")
    case True
    then show ?thesis by (subst show_nat.simps) simp
  next
    case False
    then have "0 < k" using Suc.prems by (cases k) auto
    moreover from Suc.prems have "n div 10 < 10 ^ k" by (simp add: less_mult_imp_div_less)
    ultimately show ?thesis
      using Suc.IH False by (subst show_nat.simps) simp
  qed
qed simp

text \<open>Printing and parsing a number of at most that many digits gives the number back.\<close>

lemma parse_digits_show:
  assumes "n < 10 ^ max_str_digits"
  shows "parse_digits (show_nat n) = Some n"
proof -
  have "length (filter is_digit (show_nat n)) \<le> max_str_digits"
    using show_nat_length [OF assms] length_filter_le [of is_digit "show_nat n"]
    by (simp only: max_str_digits_def) linarith
  then show ?thesis
    using show_nat_digits [of n] by (simp add: parse_digits_def digits_acc_all foldl_show_nat)
qed

lemma parse_int_show:
  assumes "n < 10 ^ max_str_digits"
  shows "parse_int (show_nat n) = Some (int n)"
proof -
  obtain c cs where shown: "show_nat n = c # cs" by (cases "show_nat n") auto
  have "\<not> is_space c" "\<not> is_space (last (c # cs))" "is_digit c"
    using show_nat_digits [of n] by (auto simp: shown list_all_iff)
  then have "py_strip (show_nat n) = c # cs" "c \<noteq> CHR ''-''" "c \<noteq> CHR ''+''"
    using py_strip_plain [of "c # cs"] by (auto simp: shown is_digit_def less_eq_char_def)
  then show ?thesis
    using parse_digits_show [OF assms] by (simp add: parse_int_def shown)
qed

end
