(* ===== verification/Journal_Log.thy ===== *)
theory Journal_Log
  imports Py_Text
begin

text \<open>
  \<open>bench/journal.py\<close>: the append-only JSONL journal at the level of its bytes. A journal
  file is its metadata and its content. \<open>json.dumps\<close> and \<open>json.loads\<close> are the parameters
  \<open>dump\<close> and \<open>load\<close> (\<open>load\<close> gives \<open>None\<close> for a text it rejects); what the theorems
  use of them is stated as hypotheses. \<open>os.write\<close> is a parameter too: it says how many of the
  remaining bytes one call takes, so a short or failing write is part of the model; \<open>os.fsync\<close> is taken to succeed. A content
  is ASCII, as \<open>json.dumps\<close> writes it, so text and bytes are the same characters.
\<close>

section \<open>The file\<close>

record journal_file =
  is_regular :: bool
  link_count :: nat
  owned :: bool
  file_mode :: nat
  content :: string

definition safe_file :: "journal_file \<Rightarrow> bool" where
  "safe_file f \<longleftrightarrow> is_regular f \<and> link_count f = 1 \<and> owned f"

text \<open>A file created by \<open>O_CREAT | O_EXCL\<close> with mode \<open>0o600\<close>.\<close>

definition new_file :: journal_file where
  "new_file = \<lparr>is_regular = True, link_count = 1, owned = True, file_mode = 384, content = []\<rparr>"

section \<open>Appending\<close>

text \<open>
  The loop that writes the payload: \<open>os_write\<close> is asked how many of the remaining bytes it
  takes; none is an error, and what was written before stays in the file.
\<close>

function write_loop :: "(string \<Rightarrow> nat) \<Rightarrow> string \<Rightarrow> string \<Rightarrow> string \<times> unit res" where
  "write_loop os_write remaining written =
     (if remaining = [] then (written, Inr ())
      else if os_write remaining = 0 then (written, Inl OSError)
      else (let count = min (os_write remaining) (length remaining) in
        write_loop os_write (drop count remaining) (written @ take count remaining)))"
  by pat_completeness auto
termination
  by (relation "measure (\<lambda>(os_write, remaining, written). length remaining)") auto

declare write_loop.simps [simp del]

text \<open>\<open>{"timestamp": utc_now(), **event}\<close>: a timestamp in the event replaces the clock's.\<close>

definition stamped :: "string \<Rightarrow> pydict \<Rightarrow> pydict" where
  "stamped now event =
     (case map_of event ''timestamp'' of
        None \<Rightarrow> (''timestamp'', PStr now) # event
      | Some t \<Rightarrow> (''timestamp'', t) # filter (\<lambda>(k, v). k \<noteq> ''timestamp'') event)"

definition needs_separator :: "string \<Rightarrow> bool" where
  "needs_separator body \<longleftrightarrow> body \<noteq> [] \<and> last body \<noteq> LF"

definition append_payload :: "(pyval \<Rightarrow> string) \<Rightarrow> string \<Rightarrow> pydict \<Rightarrow> string" where
  "append_payload dump body entry =
     (if needs_separator body then [LF] else []) @ dump (PDict entry) @ [LF]"

text \<open>
  \<open>Journal.append\<close>: the file after the call and what the call returned. A missing file is
  created empty first.
\<close>

definition journal_append ::
  "(pyval \<Rightarrow> string) \<Rightarrow> (string \<Rightarrow> nat) \<Rightarrow> string \<Rightarrow> journal_file option \<Rightarrow> pydict
     \<Rightarrow> journal_file \<times> unit res" where
  "journal_append dump os_write now fl event =
     (let f = (case fl of Some g \<Rightarrow> g | None \<Rightarrow> new_file) in
      if \<not> safe_file f then (f, Inl OSError)
      else (let f' = f\<lparr>file_mode := 384\<rparr>;
                (body, outcome) = write_loop os_write
                  (append_payload dump (content f) (stamped now event)) (content f)
            in (f'\<lparr>content := body\<rparr>, outcome)))"

section \<open>Reading\<close>

text \<open>\<open>events\<close>: intact records only; a line that does not parse to an object is skipped.\<close>

definition line_event :: "(string \<Rightarrow> pyval option) \<Rightarrow> string \<Rightarrow> pydict option" where
  "line_event load line = (case load line of Some (PDict d) \<Rightarrow> Some d | _ \<Rightarrow> None)"

definition journal_events :: "(string \<Rightarrow> pyval option) \<Rightarrow> journal_file option \<Rightarrow> pydict list" where
  "journal_events load fl = (case fl of
       None \<Rightarrow> []
     | Some f \<Rightarrow> List.map_filter (line_event load) (splitlines (content f)))"

text \<open>
  \<open>strict_events\<close>: the same file read without filtering. \<open>strict_load\<close> is \<open>json.loads\<close>
  with the hook that refuses a repeated key. The race checks around the read (a file that
  changes size or identity between the two \<open>fstat\<close> calls) are the parameter \<open>unchanged\<close>.
\<close>

definition strict_line :: "(string \<Rightarrow> pyval option) \<Rightarrow> string \<Rightarrow> pydict res" where
  "strict_line strict_load line =
     (if line = [] then Inl ValueError
      else (case strict_load line of Some (PDict d) \<Rightarrow> Inr d | _ \<Rightarrow> Inl ValueError))"

definition strict_events ::
  "(string \<Rightarrow> pyval option) \<Rightarrow> bool \<Rightarrow> int \<Rightarrow> journal_file option \<Rightarrow> pydict list res" where
  "strict_events strict_load unchanged max_bytes fl =
     (if max_bytes \<le> 0 then Inl ValueError
      else case fl of
        None \<Rightarrow> Inr []
      | Some f \<Rightarrow>
         (if \<not> safe_file f then Inl OSError
          else if int (length (content f)) > max_bytes then Inl OSError
          else if \<not> unchanged then Inl OSError
          else if content f = [] then Inr []
          else if last (content f) \<noteq> LF then Inl ValueError
          else traverse (strict_line strict_load) (splitlines_bytes (content f))))"

section \<open>Case bookkeeping\<close>

text \<open>\<open>str(event["case_id"])\<close> of an event; the parameter \<open>str_of\<close> is Python's \<open>str\<close>.\<close>

definition completed_cases :: "(pyval \<Rightarrow> string) \<Rightarrow> pydict list \<Rightarrow> string set res" where
  "completed_cases str_of evs =
     andThen (traverse (\<lambda>e. andThen (getitem e ''case_id'') (\<lambda>v. Inr (str_of v)))
       (filter (\<lambda>e. dict_get e ''event'' = PStr ''case_complete'') evs)) (\<lambda>ids. Inr (set ids))"

definition skipped_event_names :: "string set" where
  "skipped_event_names = {''case_skipped_unsupported'', ''case_skipped_adapter_unimplemented'',
     ''case_skipped_context_limit''}"

definition terminal_cases :: "(pyval \<Rightarrow> string) \<Rightarrow> pydict list \<Rightarrow> string set res" where
  "terminal_cases str_of evs =
     andThen (completed_cases str_of evs) (\<lambda>completed.
     andThen (fold_res (\<lambda>terminal e. andThen (in_strings (dict_get e ''event'') skipped_event_names)
         (\<lambda>skipped. if skipped then andThen (getitem e ''case_id'') (\<lambda>v. Inr (insert (str_of v) terminal))
           else Inr terminal)) completed evs)
       Inr)"

section \<open>Lemmas on the write\<close>

text \<open>Whatever the system writes, the file gains a prefix of the payload, all of it on success.\<close>

lemma write_loop_step:
  assumes "rest \<noteq> []" and "0 < os_write rest"
  shows "write_loop os_write rest written =
    (let c = min (os_write rest) (length rest)
     in write_loop os_write (drop c rest) (written @ take c rest))"
  using assms by (subst write_loop.simps) simp

lemma write_loop_end [simp]:
  "write_loop os_write [] written = (written, Inr ())"
  "rest \<noteq> [] \<Longrightarrow> os_write rest = 0 \<Longrightarrow> write_loop os_write rest written = (written, Inl OSError)"
  by (simp_all add: write_loop.simps)

lemma write_loop_prefix:
  assumes "write_loop os_write rest written = (body, outcome)"
  shows "\<exists>k. body = written @ take k rest \<and>
    (if outcome = Inr () then k = length rest else outcome = Inl OSError \<and> k < length rest)"
  using assms
proof (induction os_write rest written rule: write_loop.induct)
  case (1 os_write rest written)
  let ?c = "min (os_write rest) (length rest)"
  consider "rest = []" | "rest \<noteq> []" "os_write rest = 0" | "rest \<noteq> []" "0 < os_write rest"
    by blast
  then show ?case
  proof cases
    case 3
    with "1.prems" have "write_loop os_write (drop ?c rest) (written @ take ?c rest) = (body, outcome)"
      by (simp add: write_loop_step Let_def)
    with 3 "1.IH" obtain k where "body = (written @ take ?c rest) @ take k (drop ?c rest)"
      and "if outcome = Inr () then k = length (drop ?c rest)
           else outcome = Inl OSError \<and> k < length (drop ?c rest)"
      by (auto simp: Let_def)
    then show ?thesis
      by (intro exI [of _ "?c + k"]) (auto simp: take_add split: if_splits)
  qed (use "1.prems" in \<open>auto intro!: exI [of _ 0]\<close>)
qed

lemma write_loop_complete:
  assumes "\<And>r. r \<noteq> [] \<Longrightarrow> 0 < os_write r"
  shows "write_loop os_write rest written = (written @ rest, Inr ())"
  using assms
proof (induction os_write rest written rule: write_loop.induct)
  case (1 os_write rest written)
  show ?case
  proof (cases "rest = []")
    case True
    then show ?thesis by simp
  next
    case False
    then show ?thesis using 1 by (simp add: write_loop_step Let_def)
  qed
qed

section \<open>Lemmas on the records\<close>

lemma map_filter_empty_lines:
  assumes "f [] = None"
  shows "List.map_filter f (filter (\<lambda>l. l \<noteq> []) xs) = List.map_filter f xs"
  using assms by (induction xs) (auto simp: List.map_filter_def)

lemma map_filter_append: "List.map_filter f (xs @ ys) = List.map_filter f xs @ List.map_filter f ys"
  by (simp add: List.map_filter_def)

lemma ends_LF:
  assumes "body \<noteq> []" and "last body = LF"
  shows "body = butlast body @ [LF]" and "body @ rest = butlast body @ LF # rest"
proof -
  show b: "body = butlast body @ [LF]"
    using assms by (metis append_butlast_last_id)
  show "body @ rest = butlast body @ LF # rest"
    by (subst b) simp
qed

text \<open>The records of a text that is extended by a separator, if it needs one, and a line.\<close>

definition text_records :: "(string \<Rightarrow> pyval option) \<Rightarrow> string \<Rightarrow> pydict list" where
  "text_records load body = List.map_filter (line_event load) (splitlines body)"

lemma text_records_snoc_LF:
  assumes "load [] = None"
  shows "text_records load (body @ [LF]) = text_records load body"
proof -
  have none: "line_event load [] = None" using assms by (simp add: line_event_def)
  show ?thesis
    unfolding text_records_def splitlines_def
    using map_filter_empty_lines [of "line_event load", OF none]
      lines_acc_snoc_LF [of text_breaks "[]" body]
    by (metis text_breaks_LF(1))
qed

lemma text_records_append_line:
  assumes "load [] = None"
  shows "text_records load ((body @ (if needs_separator body then [LF] else [])) @ rest)
    = text_records load body @ text_records load rest"
proof (cases "body = []")
  case True
  then show ?thesis
    by (simp add: needs_separator_def text_records_def splitlines_def List.map_filter_def)
next
  case False
  define start where "start = (if needs_separator body then body else butlast body)"
  with False have t: "body @ (if needs_separator body then [LF] else []) = start @ [LF]"
    using ends_LF(1) [of body] by (auto simp: needs_separator_def)
  have same: "text_records load (start @ [LF]) = text_records load body"
    using text_records_snoc_LF [of load body, OF assms] t by (auto split: if_splits)
  have "text_records load ((start @ [LF]) @ rest)
      = text_records load (start @ [LF]) @ text_records load rest"
    using lines_acc_break [of text_breaks "[]" start rest]
    by (simp add: text_records_def splitlines_def map_filter_append)
  then show ?thesis by (simp add: t same)
qed

lemma text_records_line:
  assumes "set line \<inter> text_breaks = {}"
  shows "text_records load (line @ [LF]) = (case line_event load line of None \<Rightarrow> [] | Some d \<Rightarrow> [d])"
  using lines_acc_plain [OF assms text_breaks_LF(1), of "[]"]
  by (simp add: text_records_def splitlines_def List.map_filter_def split: option.splits)

lemma journal_events_file: "journal_events load (Some f) = text_records load (content f)"
  by (simp add: journal_events_def text_records_def)

lemma journal_append_cases:
  assumes "journal_append dump os_write now fl event = (f, outcome)"
    and "safe_file (case fl of Some g \<Rightarrow> g | None \<Rightarrow> new_file)"
  shows "\<exists>k. content f = (case fl of Some g \<Rightarrow> content g | None \<Rightarrow> [])
      @ take k (append_payload dump (case fl of Some g \<Rightarrow> content g | None \<Rightarrow> []) (stamped now event))
    \<and> (if outcome = Inr () then k = length (append_payload dump
          (case fl of Some g \<Rightarrow> content g | None \<Rightarrow> []) (stamped now event))
       else outcome = Inl OSError)"
  using assms write_loop_prefix
  by (cases fl; fastforce simp: journal_append_def Let_def new_file_def split: prod.splits)

text \<open>What a call of \<open>append\<close> needs of its codec, for the record it writes.\<close>

definition codec_ok :: "(pyval \<Rightarrow> string) \<Rightarrow> (string \<Rightarrow> pyval option) \<Rightarrow> pydict \<Rightarrow> bool" where
  "codec_ok dump load entry \<longleftrightarrow> load [] = None \<and>
     set (dump (PDict entry)) \<inter> text_breaks = {} \<and>
     load (dump (PDict entry)) = Some (PDict entry)"

lemma payload_split:
  "body @ append_payload dump body entry
    = (body @ (if needs_separator body then [LF] else [])) @ (dump (PDict entry) @ [LF])"
  by (simp add: append_payload_def)

lemma text_records_payload:
  assumes "codec_ok dump load entry"
  shows "text_records load (body @ append_payload dump body entry)
    = text_records load body @ [entry]"
  unfolding payload_split
  using assms by (subst text_records_append_line)
    (simp_all add: codec_ok_def text_records_line line_event_def)

text \<open>A prefix of the payload adds at most one record at the end.\<close>

lemma lines_acc_no_break:
  "set s \<inter> B = {} \<Longrightarrow> lines_acc B acc s = (if rev acc @ s = [] then [] else [rev acc @ s])"
  by (induction s arbitrary: acc) auto

lemma text_records_torn:
  assumes "codec_ok dump load entry"
  shows "\<exists>more. text_records load (body @ take k (append_payload dump body entry))
    = text_records load body @ more"
proof -
  let ?sep = "if needs_separator body then [LF] else []"
  have load: "load [] = None" using assms by (simp add: codec_ok_def)
  show ?thesis
  proof (cases "k < length ?sep")
    case True
    then show ?thesis
      by (intro exI [of _ "[]"]) (auto simp: append_payload_def split: if_splits)
  next
    case False
    then have "body @ take k (append_payload dump body entry)
        = (body @ ?sep) @ take (k - length ?sep) (dump (PDict entry) @ [LF])"
      by (simp add: append_payload_def)
    then show ?thesis
      using text_records_append_line [of load body] load by metis
  qed
qed

lemma safe_file_content: "safe_file (f\<lparr>file_mode := m, content := c\<rparr>) = safe_file f"
  by (simp add: safe_file_def)

text \<open>\<open>bytes.splitlines\<close> of a text that ends with a separator, extended by one line.\<close>

lemma splitlines_bytes_append:
  assumes "body = [] \<or> last body = LF" and "set line \<inter> byte_breaks = {}"
  shows "splitlines_bytes (body @ line @ [LF]) = splitlines_bytes body @ [line]"
proof (cases "body = []")
  case True
  then show ?thesis
    using lines_acc_plain [OF assms(2) text_breaks_LF(2), of "[]"]
    by (simp add: splitlines_bytes_def)
next
  case False
  with assms(1) have b: "butlast body @ [LF] = body" "body @ line @ [LF] = butlast body @ LF # line @ [LF]"
    using ends_LF [of body] by auto
  have "lines_acc byte_breaks [] (butlast body @ LF # (line @ [LF]))
      = lines_acc byte_breaks [] (butlast body @ [LF]) @ lines_acc byte_breaks [] (line @ [LF])"
    by (rule lines_acc_break) simp
  then show ?thesis
    unfolding splitlines_bytes_def b
    using lines_acc_plain [OF assms(2) text_breaks_LF(2), of "[]"] by simp
qed

lemma traverse_append:
  "traverse f (xs @ ys) = andThen (traverse f xs) (\<lambda>us. andThen (traverse f ys) (\<lambda>vs. Inr (us @ vs)))"
proof (induction xs)
  case Nil
  then show ?case by (cases "traverse f ys") auto
next
  case (Cons x xs)
  then show ?case by (cases "f x"; cases "traverse f xs"; cases "traverse f ys") auto
qed

text \<open>What \<open>append\<close> does to the records that can be read.\<close>

lemma journal_append_records:
  assumes "journal_append dump os_write now (Some f) event = (f', Inr ())"
    and "codec_ok dump load (stamped now event)"
  shows "journal_events load (Some f') = journal_events load (Some f) @ [stamped now event]"
proof -
  have "safe_file f"
    using assms(1) by (auto simp: journal_append_def Let_def split: if_splits)
  with assms(1) have "content f' = content f @ append_payload dump (content f) (stamped now event)"
    using journal_append_cases [OF assms(1)] by simp
  then show ?thesis
    using text_records_payload [OF assms(2)] by (simp add: journal_events_file)
qed

lemma journal_append_keeps:
  assumes "journal_append dump os_write now (Some f) event = (f', outcome)"
    and "codec_ok dump load (stamped now event)"
  shows "prefix (journal_events load (Some f)) (journal_events load (Some f'))
    \<and> (outcome = Inr () \<or> outcome = Inl OSError)"
proof (cases "safe_file f")
  case True
  with journal_append_cases [OF assms(1)] obtain k
    where "content f' = content f @ take k (append_payload dump (content f) (stamped now event))"
      and out: "outcome = Inr () \<or> outcome = Inl OSError"
    by (auto split: if_splits)
  with text_records_torn [OF assms(2), of "content f" k] show ?thesis
    by (auto simp: journal_events_file prefix_def)
next
  case False
  with assms(1) show ?thesis by (auto simp: journal_append_def Let_def)
qed

section \<open>Properties\<close>

text \<open>
  C28. A durable append: when \<open>append\<close> returns, reading the journal gives the records it held
  before, in order, followed by the stamped record; a torn line left by an earlier crash is
  separated from the new record and never merged with it.
\<close>

theorem journal_append_then_events:
  assumes "journal_append dump os_write now (Some f) event = (f', Inr ())"
    and "codec_ok dump load (stamped now event)"
  shows "journal_events load (Some f') = journal_events load (Some f) @ [stamped now event]"
  using assms by (rule journal_append_records)

text \<open>
  The witness: a codec with one record, a system that takes one byte per call, and a file that
  a crash left with the torn line \<open>to\<close>.
\<close>

definition example_record :: pydict where
  "example_record = [(''timestamp'', PStr ''t'')]"

definition example_dump :: "pyval \<Rightarrow> string" where
  "example_dump v = ''r''"

definition example_load :: "string \<Rightarrow> pyval option" where
  "example_load s = (if s = ''r'' then Some (PDict example_record) else None)"

lemma example_codec: "codec_ok example_dump example_load (stamped now example_record)"
  by (simp add: codec_ok_def example_load_def example_dump_def example_record_def stamped_def
      text_breaks_def LF_def CR_def)

lemma example_append:
  "\<exists>f'. journal_append example_dump (\<lambda>_. 1) ''t'' (Some (new_file\<lparr>content := ''to''\<rparr>))
     example_record = (f', Inr ())"
  by (simp add: journal_append_def new_file_def safe_file_def Let_def write_loop_complete)

theorem journal_append_then_events_witness:
  "\<exists>f'. journal_append example_dump (\<lambda>_. 1) ''t'' (Some (new_file\<lparr>content := ''to''\<rparr>))
      example_record = (f', Inr ()) \<and>
    journal_events example_load (Some f') = [example_record]"
proof -
  obtain f' where f': "journal_append example_dump (\<lambda>_. 1) ''t''
      (Some (new_file\<lparr>content := ''to''\<rparr>)) example_record = (f', Inr ())"
    using example_append by blast
  have "journal_events example_load (Some (new_file\<lparr>content := ''to''\<rparr>)) = []"
    by (simp add: journal_events_def splitlines_def line_event_def example_load_def
        text_breaks_def LF_def CR_def List.map_filter_def)
  with journal_append_then_events [OF f' example_codec] f' show ?thesis
    by (auto simp: stamped_def example_record_def)
qed

text \<open>
  A failed append loses nothing: whatever part of the payload reached the file, the error is
  \<open>OSError\<close> and every record that could be read before is still read, in the same order.
\<close>

theorem journal_failed_append_keeps_events:
  assumes "journal_append dump os_write now (Some f) event = (f', outcome)"
    and "codec_ok dump load (stamped now event)"
  shows "prefix (journal_events load (Some f)) (journal_events load (Some f'))
    \<and> (outcome = Inr () \<or> outcome = Inl OSError)"
  using assms by (rule journal_append_keeps)

theorem journal_failed_append_keeps_events_witness:
  "prefix (journal_events example_load (Some (new_file\<lparr>content := ''r''\<rparr>)))
     (journal_events example_load (Some (fst (journal_append example_dump (\<lambda>r. length r - 1) ''t''
        (Some (new_file\<lparr>content := ''r''\<rparr>)) example_record))))"
  using journal_failed_append_keeps_events
    [of example_dump "\<lambda>r. length r - 1" "''t''" "new_file\<lparr>content := ''r''\<rparr>" example_record
      _ _ example_load, OF surjective_pairing example_codec] by blast

text \<open>
  Strict reading and appending agree: on a file that \<open>strict_events\<close> accepts, a completed
  append is read back strictly as the old records followed by the new one, while it stays under
  the byte bound.
\<close>

theorem strict_events_after_append:
  assumes "strict_events strict_load True bound (Some f) = Inr evs"
    and "journal_append dump os_write now (Some f) event = (f', Inr ())"
    and "codec_ok dump strict_load (stamped now event)"
    and "int (length (content f')) \<le> bound"
  shows "strict_events strict_load True bound (Some f') = Inr (evs @ [stamped now event])"
proof -
  let ?line = "dump (PDict (stamped now event))"
  have safe: "safe_file f" and bound: "0 < bound"
    and ends: "content f = [] \<or> last (content f) = LF"
    and old: "traverse (strict_line strict_load) (splitlines_bytes (content f)) = Inr evs"
    using assms(1) by (auto simp: strict_events_def splitlines_bytes_def split: if_splits)
  have content: "content f' = content f @ ?line @ [LF]"
    using journal_append_cases [OF assms(2)] safe ends
    by (auto simp: append_payload_def needs_separator_def)
  have "safe_file f'"
    using assms(2) safe by (auto simp: journal_append_def Let_def safe_file_content split: prod.splits)
  moreover have "splitlines_bytes (content f') = splitlines_bytes (content f) @ [?line]"
    unfolding content using ends assms(3)
    by (intro splitlines_bytes_append) (auto simp: codec_ok_def byte_breaks_def text_breaks_def)
  moreover have "strict_line strict_load ?line = Inr (stamped now event)"
    using assms(3) by (auto simp: strict_line_def codec_ok_def)
  ultimately show ?thesis
    using old bound assms(4) by (simp add: strict_events_def content traverse_append)
qed

theorem strict_events_after_append_witness:
  "\<exists>f'. strict_events example_load True 100 (Some f') = Inr [example_record]"
proof -
  obtain f' where f': "journal_append example_dump (\<lambda>_. 1) ''t'' (Some new_file) example_record
      = (f', Inr ())"
    by (simp add: journal_append_def new_file_def safe_file_def Let_def write_loop_complete)
  have "content f' = [CHR ''r'', LF]"
    using journal_append_cases [OF f'] by (simp add: new_file_def safe_file_def
        append_payload_def needs_separator_def example_dump_def)
  moreover have "strict_events example_load True 100 (Some new_file) = Inr []"
    by (simp add: strict_events_def new_file_def safe_file_def)
  ultimately have "strict_events example_load True 100 (Some f')
      = Inr ([] @ [stamped ''t'' example_record])"
    using f' example_codec by (intro strict_events_after_append) simp_all
  then show ?thesis by (auto simp: stamped_def example_record_def)
qed

text \<open>
  Appending never hides corruption: when a crash has left a torn line that does not parse,
  a later append completes the file for \<open>events\<close> but \<open>strict_events\<close> still refuses it.
\<close>

theorem strict_events_reports_torn_line:
  assumes "journal_append dump os_write now (Some f) event = (f', Inr ())"
    and "content f \<noteq> []" and "last (content f) \<noteq> LF"
    and "l \<in> set (splitlines_bytes (content f @ [LF]))" and "strict_load l = None"
    and "0 < bound" and "int (length (content f')) \<le> bound"
  shows "strict_events strict_load True bound (Some f') = Inl ValueError"
proof -
  let ?rest = "dump (PDict (stamped now event)) @ [LF]"
  have safe: "safe_file f"
    using assms(1) by (auto simp: journal_append_def Let_def split: if_splits)
  then have content: "content f' = content f @ LF # ?rest"
    using journal_append_cases [OF assms(1)] assms(2,3)
    by (simp add: append_payload_def needs_separator_def)
  have "splitlines_bytes (content f') = splitlines_bytes (content f @ [LF]) @ splitlines_bytes ?rest"
    unfolding content splitlines_bytes_def by (rule lines_acc_break) simp
  with assms(4) have l: "l \<in> set (splitlines_bytes (content f'))" by simp
  have bad: "strict_line strict_load l = Inl ValueError"
    using assms(5) by (simp add: strict_line_def)
  have only: "strict_line strict_load x = Inl e \<Longrightarrow> e = ValueError" for x e
    by (auto simp: strict_line_def split: if_splits option.splits pyval.splits)
  have "traverse (strict_line strict_load) xs = Inl ValueError" if "l \<in> set xs" for xs
    using that
  proof (induction xs)
    case (Cons x xs)
    then show ?case
      using bad only by (cases "strict_line strict_load x") auto
  qed simp
  moreover have "safe_file f'"
    using assms(1) safe by (auto simp: journal_append_def Let_def safe_file_content split: prod.splits)
  ultimately show ?thesis
    using l assms(6,7) content by (simp add: strict_events_def)
qed

theorem strict_events_reports_torn_line_witness:
  "\<exists>f'. journal_append example_dump (\<lambda>_. 1) ''t'' (Some (new_file\<lparr>content := ''to''\<rparr>))
      example_record = (f', Inr ()) \<and>
    strict_events example_load True 100 (Some f') = Inl ValueError"
proof -
  obtain f' where f': "journal_append example_dump (\<lambda>_. 1) ''t''
      (Some (new_file\<lparr>content := ''to''\<rparr>)) example_record = (f', Inr ())"
    using example_append by blast
  have "content f' = ''to'' @ [LF] @ ''r'' @ [LF]"
    using journal_append_cases [OF f'] by (simp add: new_file_def safe_file_def
        append_payload_def needs_separator_def example_dump_def LF_def)
  moreover have "''to'' \<in> set (splitlines_bytes (''to'' @ [LF]))"
    by (simp add: splitlines_bytes_def byte_breaks_def LF_def CR_def)
  ultimately have "strict_events example_load True 100 (Some f') = Inl ValueError"
    by (intro strict_events_reports_torn_line [OF f', of "''to''"])
      (simp_all add: LF_def example_load_def)
  with f' show ?thesis by blast
qed

end
