(* ===== verification/Event_Machine.thy ===== *)
theory Event_Machine
  imports Py_Prelude
begin

text \<open>
  The interfaces of the components that rebuild a state from a sequence of records or calls.
  A machine is a fallible step with a start state and an invariant; its run over a sequence is
  the loop \<open>fold_res\<close>. A machine whose records carry an identity is idempotent when a record
  it has applied is a no-op. The components interpret these locales on their own steps.
\<close>

section \<open>Machines with an invariant\<close>

locale event_machine =
  fixes step :: "'s \<Rightarrow> 'e \<Rightarrow> 's res" and start :: 's and inv :: "'s \<Rightarrow> bool"
  assumes start_inv: "inv start"
    and step_inv: "step s e = Inr t \<Longrightarrow> inv s \<Longrightarrow> inv t"
begin

lemma run_inv: "fold_res step start xs = Inr s \<Longrightarrow> inv s"
  by (erule fold_res_inv) (auto intro: start_inv step_inv)

lemma run_inv_from: "fold_res step s xs = Inr t \<Longrightarrow> inv s \<Longrightarrow> inv t"
  by (erule fold_res_inv) (auto intro: step_inv)

text \<open>A sequence that runs has run on each of its prefixes.\<close>

lemma run_split:
  "fold_res step start (xs @ ys) = Inr t \<longleftrightarrow>
     (\<exists>s. fold_res step start xs = Inr s \<and> fold_res step s ys = Inr t)"
  by (simp add: fold_res_append andThen_eq_Inr)

lemma run_snoc:
  "fold_res step start (xs @ [x]) = Inr t \<longleftrightarrow>
     (\<exists>s. fold_res step start xs = Inr s \<and> step s x = Inr t)"
  by (simp add: run_split andThen_eq_Inr)

text \<open>A run raises only what its steps raise from states of the invariant.\<close>

lemma run_raises:
  assumes "\<And>s e. inv s \<Longrightarrow> raises_only E (step s e)"
  shows "raises_only E (fold_res step start xs)"
  by (rule raises_only_fold_res [where I = inv]) (auto intro: start_inv step_inv assms)

end

section \<open>Machines that never leave a set of states\<close>

locale absorbing_machine = event_machine step start inv
  for step :: "'s \<Rightarrow> 'e \<Rightarrow> 's res" and start inv +
  fixes final :: "'s \<Rightarrow> bool"
  assumes final_step: "final s \<Longrightarrow> step s e = Inr t \<Longrightarrow> t = s"
begin

lemma final_run: "final s \<Longrightarrow> fold_res step s xs = Inr t \<Longrightarrow> t = s"
  by (induction xs) (auto simp: andThen_eq_Inr dest: final_step)

lemma final_stays:
  assumes "fold_res step start xs = Inr s" and "final s"
    and "fold_res step start (xs @ ys) = Inr t"
  shows "t = s"
  using assms by (auto simp: run_split dest: final_run)

end

section \<open>Machines that record what they have applied\<close>

locale idempotent_machine = event_machine step start inv
  for step :: "'s \<Rightarrow> 'e \<Rightarrow> 's res" and start inv +
  fixes recorded :: "'s \<Rightarrow> 'e \<Rightarrow> bool"
  assumes recorded_step: "step s e = Inr t \<Longrightarrow> recorded t e"
    and recorded_mono: "step s e = Inr t \<Longrightarrow> recorded s e' \<Longrightarrow> recorded t e'"
    and recorded_noop: "recorded s e \<Longrightarrow> step s e = Inr s"
begin

lemma recorded_run: "fold_res step s xs = Inr t \<Longrightarrow> recorded s e \<Longrightarrow> recorded t e"
  by (erule fold_res_inv) (auto intro: recorded_mono)

lemma applied_recorded: "fold_res step s xs = Inr t \<Longrightarrow> e \<in> set xs \<Longrightarrow> recorded t e"
  by (induction xs arbitrary: s) (auto simp: andThen_eq_Inr intro: recorded_run recorded_step)

lemma recorded_run_noop: "(\<And>e. e \<in> set xs \<Longrightarrow> recorded s e) \<Longrightarrow> fold_res step s xs = Inr s"
  by (induction xs) (simp_all add: recorded_noop)

text \<open>Replaying any records again, in any order and number, changes nothing.\<close>

lemma replay_again:
  assumes "fold_res step start xs = Inr s" and "set ys \<subseteq> set xs"
  shows "fold_res step start (xs @ ys) = Inr s"
proof -
  have "fold_res step s ys = Inr s"
    using assms by (intro recorded_run_noop) (auto intro: applied_recorded)
  with assms(1) show ?thesis by (auto simp: run_split)
qed

lemma record_again:
  assumes "fold_res step start xs = Inr s" and "recorded s e"
  shows "fold_res step start (xs @ [e]) = Inr s"
  using assms by (simp add: run_snoc recorded_noop)

end

section \<open>Machines that refine a specification\<close>

locale refining_machine = event_machine step start inv
  for step :: "'s \<Rightarrow> 'e \<Rightarrow> 's res" and start inv +
  fixes abs_state :: "'s \<Rightarrow> 'a" and spec :: "'a \<Rightarrow> 'a \<Rightarrow> bool"
  assumes step_simulates: "step s e = Inr t \<Longrightarrow> inv s \<Longrightarrow> spec\<^sup>*\<^sup>* (abs_state s) (abs_state t)"
begin

lemma run_simulates_from:
  "fold_res step s xs = Inr t \<Longrightarrow> inv s \<Longrightarrow> spec\<^sup>*\<^sup>* (abs_state s) (abs_state t)"
proof (induction xs arbitrary: s)
  case Nil
  then show ?case by simp
next
  case (Cons x xs)
  then obtain u where "step s x = Inr u" and "fold_res step u xs = Inr t"
    by (auto simp: andThen_eq_Inr)
  with Cons show ?case by (meson rtranclp_trans step_inv step_simulates)
qed

lemma run_simulates: "fold_res step start xs = Inr s \<Longrightarrow> spec\<^sup>*\<^sup>* (abs_state start) (abs_state s)"
  by (erule run_simulates_from) (rule start_inv)

end

section \<open>Interleaved steps\<close>

text \<open>
  The interface of a component several threads drive: a step relation over the atomic blocks,
  the states it can start in, and an invariant every block keeps. \<open>kept\<close> is what a block may
  never take back, such as a failure once it is recorded.
\<close>

locale stepping_system =
  fixes step :: "'s \<Rightarrow> 's \<Rightarrow> bool" and initial :: "'s \<Rightarrow> bool" and inv :: "'s \<Rightarrow> bool"
    and kept :: "'s \<Rightarrow> 's \<Rightarrow> bool"
  assumes initial_inv: "initial s \<Longrightarrow> inv s"
    and step_inv: "step s t \<Longrightarrow> inv s \<Longrightarrow> inv t"
    and kept_refl: "kept s s"
    and kept_trans: "kept s t \<Longrightarrow> kept t u \<Longrightarrow> kept s u"
    and step_kept: "step s t \<Longrightarrow> inv s \<Longrightarrow> kept s t"
begin

lemma steps_inv: "step\<^sup>*\<^sup>* s t \<Longrightarrow> inv s \<Longrightarrow> inv t"
  by (induction rule: rtranclp_induct) (auto intro: step_inv)

lemma reachable_inv: "step\<^sup>*\<^sup>* s t \<Longrightarrow> initial s \<Longrightarrow> inv t"
  by (rule steps_inv) (auto intro: initial_inv)

lemma steps_kept: "step\<^sup>*\<^sup>* s t \<Longrightarrow> inv s \<Longrightarrow> kept s t"
proof (induction rule: rtranclp_induct)
  case base
  show ?case by (rule kept_refl)
next
  case (step t u)
  then have "inv t" by (blast intro: steps_inv)
  with step show ?case by (blast intro: kept_trans step_kept)
qed

lemma reachable_kept:
  assumes "step\<^sup>*\<^sup>* s t" and "initial s" and "step\<^sup>*\<^sup>* t u"
  shows "kept t u"
  using steps_kept [OF assms(3)] reachable_inv [OF assms(1,2)] .

end

end
