(* ===== verification/Autoresearch_Replay.thy ===== *)
theory Autoresearch_Replay
  imports Autoresearch_Scoring Journal_Log Event_Machine
begin

text \<open>
  The append and replay state machine of \<open>bench/autoresearch.py\<close>: \<open>_validated_event\<close>,
  \<open>replay_transitions\<close> with one definition per transition, and \<open>append_transition\<close> on the
  journal of \<open>Journal_Log\<close>. The loop body of \<open>replay_transitions\<close> is \<open>replay_step\<close> on
  \<open>replay_state\<close>, whose fields are the local variables of the loop.
  Parameters: \<open>aware\<close> tells whether \<open>datetime.fromisoformat\<close> reads a string with a time
  zone, and \<open>sha\<close> is the digest of a canonical value.
\<close>

section \<open>Events\<close>

definition common_event_keys :: "string set" where
  "common_event_keys = {''event'', ''transition_id''}"

definition event_keys :: "(string \<times> string set) list" where
  "event_keys = [
     (''autoresearch_campaign_started'', common_event_keys \<union> {''campaign_id'', ''policy_digest''}),
     (''autoresearch_candidate_started'',
        common_event_keys \<union> {''candidate_id'', ''axis'', ''delta_digest''}),
     (''autoresearch_pair_started'', common_event_keys \<union> {''candidate_id'', ''pair_index'', ''order''}),
     (''autoresearch_cell_completed'', common_event_keys \<union> {''candidate_id'', ''pair_index'', ''arm''}),
     (''autoresearch_pair_scored'',
        common_event_keys \<union> {''candidate_id'', ''pair_index'', ''observation''}),
     (''autoresearch_candidate_decided'', common_event_keys \<union> {''candidate_id'', ''decision''}),
     (''autoresearch_candidate_discarded'', common_event_keys
        \<union> {''candidate_id'', ''failure_kind'', ''cleanup_verified'', ''restored_preflight''}),
     (''autoresearch_campaign_terminated'',
        common_event_keys \<union> {''failure_kind'', ''cleanup_verified'', ''restored_preflight''}),
     (''autoresearch_campaign_completed'', common_event_keys)]"

definition decisions :: "string set" where
  "decisions = {''reject'', ''confirm'', ''confirm_simplification'', ''promote'',
     ''promote_simplification''}"

definition validate_timestamp :: "(string \<Rightarrow> bool) \<Rightarrow> pyval \<Rightarrow> unit res" where
  "validate_timestamp aware v = (case v of
       PStr s \<Rightarrow> if aware s then Inr () else Inl TransitionError
     | _ \<Rightarrow> Inl TransitionError)"

text \<open>\<open>except AutoresearchError\<close> also catches its subclass \<open>TransitionError\<close>.\<close>

definition autoresearch_error :: "exn \<Rightarrow> bool" where
  "autoresearch_error e \<longleftrightarrow> e = AutoresearchError \<or> e = TransitionError"

definition as_transition_error :: "'a res \<Rightarrow> 'a res" where
  "as_transition_error = reraise autoresearch_error TransitionError"

text \<open>\<open>_EVENT_KEYS[str(name)]\<close> of a registered name, and the keys this record has to carry.\<close>

definition registered_keys :: "pyval \<Rightarrow> string set" where
  "registered_keys name = (case name of
       PStr s \<Rightarrow> (case map_of event_keys s of Some ks \<Rightarrow> ks | None \<Rightarrow> {})
     | _ \<Rightarrow> {})"

definition expected_keys :: "(string \<Rightarrow> bool) \<Rightarrow> pydict \<Rightarrow> string set res" where
  "expected_keys aware mapping =
     (let expected = registered_keys (dict_get mapping ''event'') in
      case map_of mapping ''timestamp'' of
        Some t \<Rightarrow> andThen (validate_timestamp aware t) (\<lambda>_. Inr (expected \<union> {''timestamp''}))
      | None \<Rightarrow> Inr expected)"

definition validated_event :: "(string \<Rightarrow> bool) \<Rightarrow> pyval \<Rightarrow> pydict res" where
  "validated_event aware raw =
     andThen (as_transition_error (require_mapping raw)) (\<lambda>mapping.
     andThen (in_strings (dict_get mapping ''event'') (fst ` set event_keys)) (\<lambda>known.
     if \<not> known then Inl TransitionError else
     andThen (expected_keys aware mapping) (\<lambda>expected.
     andThen (as_transition_error (
        andThen (require_exact_keys mapping expected) (\<lambda>_.
        andThen (getitem mapping ''transition_id'') require_id))) (\<lambda>_.
       Inr mapping))))"

definition transition_payload :: "pydict \<Rightarrow> pydict" where
  "transition_payload event = filter (\<lambda>(k, v). k \<noteq> ''timestamp'') event"

text \<open>\<open>canonical_json(_transition_payload(event))\<close>.\<close>

definition payload_json :: "pydict \<Rightarrow> pyval res" where
  "payload_json event = canonical_json_value (PDict (transition_payload event))"

text \<open>\<open>str(event[k])\<close> of a field that validation has shown to be a string.\<close>

definition event_string :: "pydict \<Rightarrow> string \<Rightarrow> string" where
  "event_string event k = (case dict_get event k of PStr s \<Rightarrow> s | _ \<Rightarrow> [])"

section \<open>The replayed state\<close>

datatype phase = Ph_new | Ph_idle | Ph_candidate | Ph_pair | Ph_scored | Ph_terminal

datatype confirm_mode = Mode_standard | Mode_simplification

record replay_state =
  phase :: phase
  campaign_id :: "string option"
  candidate_id :: "string option"
  candidate_axis :: "string option"
  next_pair_index :: int
  active_pair_index :: "int option"
  active_order :: "string list"
  completed_arms :: "string list"
  candidate_observations :: "pair_observation list"
  confirmation_mode :: "confirm_mode option"
  terminal_reason :: "string option"
  seen :: "(string \<times> pyval) list"

definition empty_replay_state :: replay_state where
  "empty_replay_state = \<lparr>phase = Ph_new, campaign_id = None, candidate_id = None,
     candidate_axis = None, next_pair_index = 0, active_pair_index = None, active_order = [],
     completed_arms = [], candidate_observations = [], confirmation_mode = None,
     terminal_reason = None, seen = []\<rparr>"

section \<open>Transitions\<close>

definition campaign_started ::
  "(pyval \<Rightarrow> string) \<Rightarrow> campaign_policy \<Rightarrow> replay_state \<Rightarrow> pydict \<Rightarrow> replay_state res" where
  "campaign_started sha p st ev =
     (if phase st \<noteq> Ph_new then Inl TransitionError else
      andThen (andThen (getitem ev ''campaign_id'') require_id) (\<lambda>cid.
      andThen (andThen (getitem ev ''policy_digest'') require_sha256) (\<lambda>digest.
      if digest \<noteq> policy_digest sha p then Inl TransitionError
      else Inr (st\<lparr>campaign_id := Some cid, phase := Ph_idle\<rparr>))))"

definition candidate_started ::
  "campaign_policy \<Rightarrow> replay_state \<Rightarrow> pydict \<Rightarrow> replay_state res" where
  "candidate_started p st ev =
     (if phase st \<noteq> Ph_idle then Inl TransitionError else
      andThen (andThen (getitem ev ''candidate_id'') require_id) (\<lambda>cid.
      andThen (andThen (getitem ev ''axis'') require_id) (\<lambda>ax.
      if ax \<notin> set (allowed_axes p) then Inl TransitionError else
      andThen (andThen (getitem ev ''delta_digest'') require_sha256) (\<lambda>_.
        Inr (st\<lparr>candidate_id := Some cid, candidate_axis := Some ax,
          candidate_observations := [], confirmation_mode := None, phase := Ph_candidate\<rparr>)))))"

text \<open>\<open>_require_id(event["candidate_id"]) != candidate_id\<close> raises.\<close>

definition same_candidate :: "replay_state \<Rightarrow> pydict \<Rightarrow> unit res" where
  "same_candidate st ev = andThen (andThen (getitem ev ''candidate_id'') require_id) (\<lambda>cid.
     check (candidate_id st = Some cid) TransitionError)"

definition pair_started :: "replay_state \<Rightarrow> pydict \<Rightarrow> replay_state res" where
  "pair_started st ev =
     (if phase st \<noteq> Ph_candidate \<or> candidate_id st = None then Inl TransitionError else
      andThen (same_candidate st ev) (\<lambda>_.
      andThen (andThen (getitem ev ''pair_index'') (require_int (Some 0))) (\<lambda>index.
      if index \<noteq> next_pair_index st then Inl TransitionError else
      andThen (andThen (getitem ev ''order'')
        (\<lambda>v. reraise (\<lambda>_. True) TransitionError (as_array v))) (\<lambda>order_items.
      if order_items \<noteq> map PStr (pair_order index) then Inl TransitionError
      else Inr (st\<lparr>active_pair_index := Some index, active_order := pair_order index,
        completed_arms := [], phase := Ph_pair\<rparr>)))))"

definition cell_completed :: "replay_state \<Rightarrow> pydict \<Rightarrow> replay_state res" where
  "cell_completed st ev =
     (if phase st \<noteq> Ph_pair \<or> candidate_id st = None \<or> active_pair_index st = None
      then Inl TransitionError else
      andThen (same_candidate st ev) (\<lambda>_.
      andThen (andThen (getitem ev ''pair_index'') (require_int (Some 0))) (\<lambda>index.
      if active_pair_index st \<noteq> Some index then Inl TransitionError else
      andThen (getitem ev ''arm'') (\<lambda>arm.
      andThen (in_strings arm {''champion'', ''candidate''}) (\<lambda>known.
      if \<not> known then Inl TransitionError
      else if length (completed_arms st) \<ge> length (active_order st) then Inl TransitionError
      else if arm \<noteq> PStr (active_order st ! length (completed_arms st)) then Inl TransitionError
      else Inr (st\<lparr>completed_arms := completed_arms st
             @ [active_order st ! length (completed_arms st)]\<rparr>))))))"

definition pair_scored :: "replay_state \<Rightarrow> pydict \<Rightarrow> replay_state res" where
  "pair_scored st ev =
     (if phase st \<noteq> Ph_pair \<or> candidate_id st = None \<or> active_pair_index st = None
      then Inl TransitionError
      else if completed_arms st \<noteq> active_order st then Inl TransitionError else
      andThen (same_candidate st ev) (\<lambda>_.
      andThen (andThen (getitem ev ''pair_index'') (require_int (Some 0))) (\<lambda>index.
      if active_pair_index st \<noteq> Some index then Inl TransitionError else
      andThen (andThen (getitem ev ''observation'') observation_from_mapping) (\<lambda>ob.
      if active_pair_index st \<noteq> Some (pair_index ob) then Inl TransitionError
      else if length (candidate_observations st) + 1 > 2 then Inl TransitionError
      else Inr (st\<lparr>candidate_observations := candidate_observations st @ [ob],
        next_pair_index := next_pair_index st + 1, phase := Ph_scored\<rparr>)))))"

text \<open>The state after a first pair is confirmed, and after a candidate is settled.\<close>

definition await_confirmation :: "confirm_mode \<Rightarrow> replay_state \<Rightarrow> replay_state" where
  "await_confirmation mode st = st\<lparr>confirmation_mode := Some mode, phase := Ph_candidate,
     active_pair_index := None, active_order := [], completed_arms := []\<rparr>"

definition settle_candidate :: "replay_state \<Rightarrow> replay_state" where
  "settle_candidate st = st\<lparr>phase := Ph_idle, candidate_id := None, candidate_axis := None,
     active_pair_index := None, active_order := [], completed_arms := [],
     candidate_observations := [], confirmation_mode := None\<rparr>"

text \<open>\<open>gate(\<dots>).passed\<close> of a gate that has to be evaluated.\<close>

definition gate_passed :: "gate_decision res \<Rightarrow> bool res" where
  "gate_passed g = andThen g (\<lambda>d. Inr (passed d))"

text \<open>The decision on a candidate whose latest pair is clean.\<close>

definition apply_decision :: "campaign_policy \<Rightarrow> replay_state \<Rightarrow> pyval \<Rightarrow> replay_state res" where
  "apply_decision p st decision =
     (let obs = candidate_observations st in
      if decision = PStr ''confirm'' then
        (if length obs \<noteq> 1 then Inl TransitionError else
         andThen (gate_passed (evaluate_screen p (last obs))) (\<lambda>ok.
         if ok then Inr (await_confirmation Mode_standard st) else Inl TransitionError))
      else if decision = PStr ''confirm_simplification'' then
        (if length obs \<noteq> 1 then Inl TransitionError else
         andThen (gate_passed (evaluate_simplification_screen p (last obs))) (\<lambda>ok.
         if ok then Inr (await_confirmation Mode_simplification st) else Inl TransitionError))
      else if decision = PStr ''promote'' then
        (if length obs \<noteq> 2 \<or> confirmation_mode st \<noteq> Some Mode_standard then Inl TransitionError else
         andThen (gate_passed (evaluate_promotion p (obs ! 0) (obs ! 1))) (\<lambda>ok.
         if ok then Inr (settle_candidate st) else Inl TransitionError))
      else if decision = PStr ''promote_simplification'' then
        (if length obs \<noteq> 2 \<or> confirmation_mode st \<noteq> Some Mode_simplification
         then Inl TransitionError else
         andThen (gate_passed (evaluate_simplification_promotion p (obs ! 0) (obs ! 1))) (\<lambda>ok.
         if ok then Inr (settle_candidate st) else Inl TransitionError))
      else if decision \<noteq> PStr ''reject'' then Inl TransitionError
      else Inr (settle_candidate st))"

definition candidate_decided ::
  "campaign_policy \<Rightarrow> replay_state \<Rightarrow> pydict \<Rightarrow> replay_state res" where
  "candidate_decided p st ev =
     (if phase st \<noteq> Ph_scored \<or> candidate_id st = None then Inl TransitionError else
      andThen (same_candidate st ev) (\<lambda>_.
      andThen (getitem ev ''decision'') (\<lambda>decision.
      andThen (in_strings decision decisions) (\<lambda>known.
      if \<not> known then Inl TransitionError
      else if candidate_observations st = [] then Inl IndexError
      else if pair_reasons p (last (candidate_observations st)) \<noteq> [] then Inl TransitionError
      else apply_decision p st decision))))"

text \<open>The three fields \<open>failure_disposition\<close> reads from an event.\<close>

definition event_disposition :: "pydict \<Rightarrow> disposition res" where
  "event_disposition ev =
     andThen (getitem ev ''failure_kind'') (\<lambda>kind.
     andThen (getitem ev ''cleanup_verified'') (\<lambda>cleanup.
     andThen (getitem ev ''restored_preflight'') (\<lambda>preflight.
       failure_disposition kind cleanup preflight)))"

definition candidate_discarded :: "replay_state \<Rightarrow> pydict \<Rightarrow> replay_state res" where
  "candidate_discarded st ev =
     (if phase st \<notin> {Ph_candidate, Ph_pair} \<or> candidate_id st = None then Inl TransitionError else
      andThen (same_candidate st ev) (\<lambda>_.
      andThen (event_disposition ev) (\<lambda>disp.
      if disp \<noteq> Discard_candidate then Inl TransitionError
      else Inr (settle_candidate st))))"

definition campaign_terminated :: "replay_state \<Rightarrow> pydict \<Rightarrow> replay_state res" where
  "campaign_terminated st ev =
     (if phase st = Ph_new then Inl TransitionError else
      andThen (event_disposition ev) (\<lambda>disp.
      if disp \<noteq> Terminate_campaign then Inl TransitionError else
      andThen (andThen (getitem ev ''failure_kind'') require_failure_kind) (\<lambda>kind.
        Inr (st\<lparr>terminal_reason := Some (failure_kind_value kind), phase := Ph_terminal\<rparr>))))"

definition campaign_completed :: "replay_state \<Rightarrow> replay_state res" where
  "campaign_completed st =
     (if phase st \<noteq> Ph_idle then Inl TransitionError
      else Inr (st\<lparr>terminal_reason := Some ''completed'', phase := Ph_terminal\<rparr>))"

definition apply_transition ::
  "(pyval \<Rightarrow> string) \<Rightarrow> campaign_policy \<Rightarrow> replay_state \<Rightarrow> string \<Rightarrow> pydict \<Rightarrow> replay_state res" where
  "apply_transition sha p st name ev =
     (if name = ''autoresearch_campaign_started'' then campaign_started sha p st ev
      else if name = ''autoresearch_candidate_started'' then candidate_started p st ev
      else if name = ''autoresearch_pair_started'' then pair_started st ev
      else if name = ''autoresearch_cell_completed'' then cell_completed st ev
      else if name = ''autoresearch_pair_scored'' then pair_scored st ev
      else if name = ''autoresearch_candidate_decided'' then candidate_decided p st ev
      else if name = ''autoresearch_candidate_discarded'' then candidate_discarded st ev
      else if name = ''autoresearch_campaign_terminated'' then campaign_terminated st ev
      else if name = ''autoresearch_campaign_completed'' then campaign_completed st
      else Inl TransitionError)"

text \<open>The body of the loop for one record.\<close>

definition replay_step ::
  "(string \<Rightarrow> bool) \<Rightarrow> (pyval \<Rightarrow> string) \<Rightarrow> campaign_policy \<Rightarrow> replay_state \<Rightarrow> pyval \<Rightarrow> replay_state res" where
  "replay_step aware sha p st raw =
     andThen (validated_event aware raw) (\<lambda>ev.
     andThen (payload_json ev) (\<lambda>payload.
     (let tid = event_string ev ''transition_id'' in
      case map_of (seen st) tid of
        Some prior \<Rightarrow> if prior \<noteq> payload then Inl TransitionError else Inr st
      | None \<Rightarrow>
          (if phase st = Ph_terminal then Inl TransitionError
           else as_transition_error (apply_transition sha p
             (st\<lparr>seen := seen st @ [(tid, payload)]\<rparr>) (event_string ev ''event'') ev)))))"

definition replay_transitions ::
  "(string \<Rightarrow> bool) \<Rightarrow> (pyval \<Rightarrow> string) \<Rightarrow> campaign_policy \<Rightarrow> pyval list \<Rightarrow> replay_state res" where
  "replay_transitions aware sha p events = fold_res (replay_step aware sha p) empty_replay_state events"

section \<open>Appending a transition\<close>

text \<open>The loop over the existing records: is this transition already in the journal?\<close>

fun find_retry :: "(string \<Rightarrow> bool) \<Rightarrow> string \<Rightarrow> pyval \<Rightarrow> pyval list \<Rightarrow> bool res" where
  "find_retry aware tid payload [] = Inr False"
| "find_retry aware tid payload (raw # rest) =
     andThen (validated_event aware raw) (\<lambda>prior.
       if event_string prior ''transition_id'' \<noteq> tid then find_retry aware tid payload rest
       else andThen (payload_json prior) (\<lambda>pj.
         if pj \<noteq> payload then Inl TransitionError else Inr True))"

definition append_transition ::
  "(string \<Rightarrow> bool) \<Rightarrow> (pyval \<Rightarrow> string) \<Rightarrow> (pyval \<Rightarrow> string) \<Rightarrow> (string \<Rightarrow> pyval option)
   \<Rightarrow> (string \<Rightarrow> nat) \<Rightarrow> string \<Rightarrow> campaign_policy \<Rightarrow> journal_file option \<Rightarrow> pyval
   \<Rightarrow> journal_file option \<times> replay_state res" where
  "append_transition aware sha dump load os_write now p fl event =
     (case require_mapping event of
        Inl e \<Rightarrow> (fl, Inl e)
      | Inr candidate \<Rightarrow>
        if map_of candidate ''timestamp'' \<noteq> None then (fl, Inl TransitionError)
        else (let existing = map PDict (journal_events load fl) in
          case replay_transitions aware sha p (existing @ [PDict candidate]) of
            Inl e \<Rightarrow> (fl, Inl e)
          | Inr state \<Rightarrow>
            (case andThen (validated_event aware (PDict candidate)) (\<lambda>validated.
                andThen (payload_json validated) (\<lambda>payload.
                find_retry aware (event_string validated ''transition_id'') payload existing)) of
               Inl e \<Rightarrow> (fl, Inl e)
             | Inr True \<Rightarrow> (fl, Inr state)
             | Inr False \<Rightarrow>
                (let (f, outcome) = journal_append dump os_write now fl candidate
                 in (Some f, andThen outcome (\<lambda>_. Inr state))))))"

section \<open>The invariant of replay\<close>

text \<open>What a confirmed first pair has passed.\<close>

fun first_pair_passed :: "campaign_policy \<Rightarrow> confirm_mode option \<Rightarrow> pair_observation \<Rightarrow> bool" where
  "first_pair_passed p None ob \<longleftrightarrow> False"
| "first_pair_passed p (Some Mode_standard) ob \<longleftrightarrow> gate_passed (evaluate_screen p ob) = Inr True"
| "first_pair_passed p (Some Mode_simplification) ob \<longleftrightarrow>
     gate_passed (evaluate_simplification_screen p ob) = Inr True"

text \<open>A candidate with no pair scored yet, or with one that was confirmed just before.\<close>

definition awaiting_pair :: "campaign_policy \<Rightarrow> replay_state \<Rightarrow> bool" where
  "awaiting_pair p st \<longleftrightarrow>
     (candidate_observations st = [] \<and> confirmation_mode st = None) \<or>
     (\<exists>ob. candidate_observations st = [ob] \<and> pair_index ob = next_pair_index st - 1 \<and>
        first_pair_passed p (confirmation_mode st) ob)"

definition pair_just_scored :: "campaign_policy \<Rightarrow> replay_state \<Rightarrow> bool" where
  "pair_just_scored p st \<longleftrightarrow>
     (\<exists>ob. candidate_observations st = [ob] \<and> pair_index ob = next_pair_index st - 1 \<and>
        confirmation_mode st = None) \<or>
     (\<exists>o1 o2. candidate_observations st = [o1, o2] \<and> pair_index o1 = next_pair_index st - 2 \<and>
        pair_index o2 = next_pair_index st - 1 \<and> first_pair_passed p (confirmation_mode st) o1)"

definition has_candidate :: "campaign_policy \<Rightarrow> replay_state \<Rightarrow> bool" where
  "has_candidate p st \<longleftrightarrow> candidate_id st \<noteq> None \<and>
     (\<exists>ax. candidate_axis st = Some ax \<and> ax \<in> set (allowed_axes p))"

definition no_candidate :: "replay_state \<Rightarrow> bool" where
  "no_candidate st \<longleftrightarrow> candidate_id st = None \<and> candidate_observations st = [] \<and>
     confirmation_mode st = None"

definition replay_inv :: "campaign_policy \<Rightarrow> replay_state \<Rightarrow> bool" where
  "replay_inv p st \<longleftrightarrow>
     0 \<le> next_pair_index st \<and>
     (\<forall>ob \<in> set (candidate_observations st). observation_wf ob) \<and>
     (terminal_reason st \<noteq> None \<longleftrightarrow> phase st = Ph_terminal) \<and>
     (case phase st of
        Ph_new \<Rightarrow> no_candidate st \<and> next_pair_index st = 0 \<and> campaign_id st = None
      | Ph_idle \<Rightarrow> no_candidate st
      | Ph_candidate \<Rightarrow> has_candidate p st \<and> awaiting_pair p st
      | Ph_pair \<Rightarrow> has_candidate p st \<and> awaiting_pair p st \<and>
          active_pair_index st = Some (next_pair_index st) \<and>
          active_order st = pair_order (next_pair_index st) \<and>
          prefix (completed_arms st) (active_order st)
      | Ph_scored \<Rightarrow> has_candidate p st \<and> pair_just_scored p st \<and>
          active_order st = pair_order (next_pair_index st - 1) \<and>
          completed_arms st = active_order st
      | Ph_terminal \<Rightarrow> True)"

lemmas replay_inv_defs = replay_inv_def has_candidate_def no_candidate_def awaiting_pair_def
  pair_just_scored_def

lemma replay_inv_empty [simp]: "replay_inv p empty_replay_state"
  by (simp add: replay_inv_defs empty_replay_state_def)

lemma replay_inv_seen [simp]: "replay_inv p (st\<lparr>seen := x\<rparr>) = replay_inv p st"
  unfolding replay_inv_defs by (simp cong: phase.case_cong)

lemma campaign_started_inv:
  "campaign_started sha p st ev = Inr st' \<Longrightarrow> replay_inv p st \<Longrightarrow> replay_inv p st'"
  by (clarsimp simp: campaign_started_def andThen_eq_Inr replay_inv_defs)

lemma candidate_started_inv:
  "candidate_started p st ev = Inr st' \<Longrightarrow> replay_inv p st \<Longrightarrow> replay_inv p st'"
  by (clarsimp simp: candidate_started_def andThen_eq_Inr replay_inv_defs)

lemma pair_started_inv:
  "pair_started st ev = Inr st' \<Longrightarrow> replay_inv p st \<Longrightarrow> replay_inv p st'"
  by (clarsimp simp: pair_started_def andThen_eq_Inr replay_inv_defs)

lemma prefix_snoc_nth:
  "prefix xs ys \<Longrightarrow> length xs < length ys \<Longrightarrow> prefix (xs @ [ys ! length xs]) ys"
  by (metis append_one_prefix)

lemma cell_completed_inv:
  "cell_completed st ev = Inr st' \<Longrightarrow> replay_inv p st \<Longrightarrow> replay_inv p st'"
  by (clarsimp simp: cell_completed_def andThen_eq_Inr replay_inv_defs prefix_snoc_nth)

lemma pair_scored_inv:
  "pair_scored st ev = Inr st' \<Longrightarrow> replay_inv p st \<Longrightarrow> replay_inv p st'"
  by (clarsimp simp: pair_scored_def andThen_eq_Inr replay_inv_defs
      dest!: observation_from_mapping_wf)

lemma settle_candidate_inv:
  "replay_inv p st \<Longrightarrow> phase st \<noteq> Ph_terminal \<Longrightarrow> replay_inv p (settle_candidate st)"
  by (clarsimp simp: settle_candidate_def replay_inv_defs)

lemma await_confirmation_inv:
  assumes "replay_inv p st" and "phase st = Ph_scored"
    and "candidate_observations st = [ob]" and "first_pair_passed p (Some mode) ob"
  shows "replay_inv p (await_confirmation mode st)"
  using assms by (auto simp: await_confirmation_def replay_inv_defs)

lemma gate_passed_True: "gate_passed g = Inr True \<longleftrightarrow> (\<exists>d. g = Inr d \<and> passed d)"
  by (auto simp: gate_passed_def andThen_eq_Inr)

text \<open>The guards every accepted decision has passed.\<close>

lemma candidate_decided_guards:
  assumes "candidate_decided p st ev = Inr st'"
  shows "phase st = Ph_scored" and "candidate_observations st \<noteq> []"
    and "pair_reasons p (last (candidate_observations st)) = []"
    and "\<exists>d \<in> decisions. getitem ev ''decision'' = Inr (PStr d) \<and>
      apply_decision p st (PStr d) = Inr st'"
  using assms
  by (auto simp: candidate_decided_def andThen_eq_Inr in_strings_True)

lemma apply_decision_confirm:
  "apply_decision p st (PStr ''confirm'') = Inr st' \<longleftrightarrow>
     (\<exists>ob. candidate_observations st = [ob] \<and>
        gate_passed (evaluate_screen p ob) = Inr True) \<and> st' = await_confirmation Mode_standard st"
  by (auto simp: apply_decision_def Let_def andThen_eq_Inr length_Suc_conv)

lemma apply_decision_confirm_simplification:
  "apply_decision p st (PStr ''confirm_simplification'') = Inr st' \<longleftrightarrow>
     (\<exists>ob. candidate_observations st = [ob] \<and>
        gate_passed (evaluate_simplification_screen p ob) = Inr True) \<and>
     st' = await_confirmation Mode_simplification st"
  by (auto simp: apply_decision_def Let_def andThen_eq_Inr length_Suc_conv)

lemma apply_decision_promote:
  "apply_decision p st (PStr ''promote'') = Inr st' \<longleftrightarrow>
     (\<exists>o1 o2. candidate_observations st = [o1, o2] \<and>
        gate_passed (evaluate_promotion p o1 o2) = Inr True) \<and>
     confirmation_mode st = Some Mode_standard \<and> st' = settle_candidate st"
  by (auto simp: apply_decision_def Let_def andThen_eq_Inr length_Suc_conv numeral_2_eq_2)

lemma apply_decision_promote_simplification:
  "apply_decision p st (PStr ''promote_simplification'') = Inr st' \<longleftrightarrow>
     (\<exists>o1 o2. candidate_observations st = [o1, o2] \<and>
        gate_passed (evaluate_simplification_promotion p o1 o2) = Inr True) \<and>
     confirmation_mode st = Some Mode_simplification \<and> st' = settle_candidate st"
  by (auto simp: apply_decision_def Let_def andThen_eq_Inr length_Suc_conv numeral_2_eq_2)

lemma apply_decision_reject:
  "apply_decision p st (PStr ''reject'') = Inr st' \<longleftrightarrow> st' = settle_candidate st"
  by (auto simp: apply_decision_def)

lemmas apply_decision_eqs = apply_decision_confirm apply_decision_confirm_simplification
  apply_decision_promote apply_decision_promote_simplification apply_decision_reject

lemma candidate_decided_inv:
  assumes decided: "candidate_decided p st ev = Inr st'" and inv: "replay_inv p st"
  shows "replay_inv p st'"
proof -
  note scored = candidate_decided_guards(1) [OF decided]
  then have settled: "replay_inv p (settle_candidate st)"
    using inv by (simp add: settle_candidate_inv)
  have awaited: "replay_inv p (await_confirmation mode st)"
    if "candidate_observations st = [ob]" "first_pair_passed p (Some mode) ob" for mode ob
    by (rule await_confirmation_inv [OF inv scored that])
  from candidate_decided_guards(4) [OF decided] show ?thesis
    unfolding decisions_def using settled awaited by (auto simp: apply_decision_eqs)
qed

lemma candidate_discarded_inv:
  "candidate_discarded st ev = Inr st' \<Longrightarrow> replay_inv p st \<Longrightarrow> replay_inv p st'"
  by (auto simp: candidate_discarded_def andThen_eq_Inr intro!: settle_candidate_inv)

lemma campaign_terminated_inv:
  "campaign_terminated st ev = Inr st' \<Longrightarrow> replay_inv p st \<Longrightarrow> replay_inv p st'"
  by (auto simp: campaign_terminated_def andThen_eq_Inr replay_inv_def)

lemma campaign_completed_inv:
  "campaign_completed st = Inr st' \<Longrightarrow> replay_inv p st \<Longrightarrow> replay_inv p st'"
  by (auto simp: campaign_completed_def replay_inv_def)

lemmas transition_invs = campaign_started_inv candidate_started_inv pair_started_inv
  cell_completed_inv pair_scored_inv candidate_decided_inv candidate_discarded_inv
  campaign_terminated_inv campaign_completed_inv

lemma as_transition_error_Inr [simp]: "as_transition_error m = Inr x \<longleftrightarrow> m = Inr x"
  by (simp add: as_transition_error_def)

lemma apply_transition_inv:
  "apply_transition sha p st name ev = Inr st' \<Longrightarrow> replay_inv p st \<Longrightarrow> replay_inv p st'"
  by (auto simp: apply_transition_def split: if_splits elim: transition_invs)

lemma replay_step_inv:
  "replay_step aware sha p st raw = Inr st' \<Longrightarrow> replay_inv p st \<Longrightarrow> replay_inv p st'"
  by (auto simp: replay_step_def Let_def andThen_eq_Inr split: option.splits if_splits
      dest!: apply_transition_inv)

section \<open>Records and their identity\<close>

text \<open>A transition changes every field but the applied transitions.\<close>

lemma settle_seen [simp]: "seen (settle_candidate st) = seen st"
  and await_seen [simp]: "seen (await_confirmation mode st) = seen st"
  by (simp_all add: settle_candidate_def await_confirmation_def)

lemma candidate_decided_seen:
  assumes "candidate_decided p st ev = Inr st'"
  shows "seen st' = seen st"
proof -
  obtain d where "d \<in> decisions" and "apply_decision p st (PStr d) = Inr st'"
    using candidate_decided_guards(4) [OF assms] by blast
  then show ?thesis
    unfolding decisions_def by (elim insertE) (simp_all add: apply_decision_eqs)
qed

lemma apply_transition_seen:
  assumes "apply_transition sha p st name ev = Inr st'"
  shows "seen st' = seen st"
proof -
  have "seen st' = seen st" if "campaign_started sha p st ev = Inr st' \<or>
      candidate_started p st ev = Inr st' \<or> pair_started st ev = Inr st' \<or>
      cell_completed st ev = Inr st' \<or> pair_scored st ev = Inr st'"
    using that by (auto simp: andThen_eq_Inr campaign_started_def candidate_started_def
        pair_started_def cell_completed_def pair_scored_def)
  moreover have "seen st' = seen st" if "candidate_discarded st ev = Inr st' \<or>
      campaign_terminated st ev = Inr st' \<or> campaign_completed st = Inr st'"
    using that by (auto simp: andThen_eq_Inr candidate_discarded_def campaign_terminated_def
        campaign_completed_def)
  ultimately show ?thesis
    using assms candidate_decided_seen
    by (auto simp: apply_transition_def split: if_splits)
qed

text \<open>The record \<open>raw\<close> is valid and its transition has been applied with the same payload.\<close>

definition recorded :: "(string \<Rightarrow> bool) \<Rightarrow> replay_state \<Rightarrow> pyval \<Rightarrow> bool" where
  "recorded aware st raw \<longleftrightarrow> (\<exists>ev payload. validated_event aware raw = Inr ev \<and>
     payload_json ev = Inr payload \<and>
     map_of (seen st) (event_string ev ''transition_id'') = Some payload)"

lemma replay_step_cases:
  assumes "replay_step aware sha p st raw = Inr st'"
  obtains (again) "recorded aware st raw" "st' = st"
  | (new) ev payload where "validated_event aware raw = Inr ev" "payload_json ev = Inr payload"
      "map_of (seen st) (event_string ev ''transition_id'') = None" "phase st \<noteq> Ph_terminal"
      "apply_transition sha p
         (st\<lparr>seen := seen st @ [(event_string ev ''transition_id'', payload)]\<rparr>)
         (event_string ev ''event'') ev = Inr st'"
      "seen st' = seen st @ [(event_string ev ''transition_id'', payload)]"
proof -
  from assms obtain ev payload where ev: "validated_event aware raw = Inr ev"
    "payload_json ev = Inr payload"
    by (auto simp: replay_step_def andThen_eq_Inr)
  show thesis
  proof (cases "map_of (seen st) (event_string ev ''transition_id'')")
    case None
    with assms ev have "phase st \<noteq> Ph_terminal"
      and t: "apply_transition sha p
        (st\<lparr>seen := seen st @ [(event_string ev ''transition_id'', payload)]\<rparr>)
        (event_string ev ''event'') ev = Inr st'"
      by (simp_all add: replay_step_def)
    with new [OF ev None] apply_transition_seen [OF t] show thesis by simp
  next
    case (Some prior)
    with assms ev have "prior = payload" "st' = st"
      by (simp_all add: replay_step_def Let_def split: if_splits)
    with Some ev again show thesis by (auto simp: recorded_def)
  qed
qed

lemma recorded_new:
  assumes "replay_step aware sha p st raw = Inr st'"
  shows "recorded aware st' raw"
  using assms by (cases rule: replay_step_cases) (auto simp: recorded_def map_add_def)

lemma recorded_kept:
  assumes "replay_step aware sha p st raw = Inr st'" and "recorded aware st raw'"
  shows "recorded aware st' raw'"
  using assms by (cases rule: replay_step_cases) (auto simp: recorded_def map_add_def)

lemma recorded_again: "recorded aware st raw \<Longrightarrow> replay_step aware sha p st raw = Inr st"
  by (auto simp: recorded_def replay_step_def)

lemma terminal_step:
  assumes "phase st = Ph_terminal" and "replay_step aware sha p st raw = Inr st'"
  shows "st' = st"
  using assms(2,1) by (cases rule: replay_step_cases) auto

interpretation replay: idempotent_machine "replay_step aware sha p" empty_replay_state
  "replay_inv p" "recorded aware" for aware sha p
  by unfold_locales (auto intro: replay_step_inv recorded_new recorded_kept recorded_again)

interpretation replay_end: absorbing_machine "replay_step aware sha p" empty_replay_state
  "replay_inv p" "\<lambda>st. phase st = Ph_terminal" for aware sha p
  by unfold_locales (auto dest: terminal_step)


section \<open>What replay raises\<close>

text \<open>
  \<open>TypeError\<close> comes from looking up an unhashable event name, arm or decision;
  \<open>OverflowError\<close> from a huge integer in an observation; the module's base class from a
  payload that is not canonical JSON.
\<close>

definition replay_errors :: "exn set" where
  "replay_errors = {TransitionError, AutoresearchError, TypeError, OverflowError}"

lemma replay_errors_simps [simp]:
  "TransitionError \<in> replay_errors" "AutoresearchError \<in> replay_errors"
  "TypeError \<in> replay_errors" "OverflowError \<in> replay_errors"
  by (simp_all add: replay_errors_def)

lemma input_replay_errors: "raises_only input_errors m \<Longrightarrow> raises_only replay_errors m"
  by (rule raises_only_mono) (auto simp: input_errors_def)

lemmas input_raises = validators_raise [THEN input_replay_errors]
  observation_raises [THEN input_replay_errors] failure_raises [THEN input_replay_errors]

lemma as_transition_error_raises [raises]:
  "raises_only replay_errors m \<Longrightarrow> raises_only replay_errors (as_transition_error m)"
  unfolding as_transition_error_def by (erule raises_only_reraise) simp_all

lemma registered_common:
  "s \<in> fst ` set event_keys \<Longrightarrow> common_event_keys \<subseteq> registered_keys (PStr s)"
  by (auto simp: registered_keys_def event_keys_def)

lemma expected_registered:
  "expected_keys aware d = Inr ks \<Longrightarrow> registered_keys (dict_get d ''event'') \<subseteq> ks"
  by (auto simp: expected_keys_def Let_def andThen_eq_Inr split: option.splits)

text \<open>A valid record is a mapping with a registered name and all the keys of that name.\<close>

lemma validated_event_Inr:
  assumes "validated_event aware raw = Inr ev"
  obtains name where "raw = PDict ev" "dict_get ev ''event'' = PStr name"
    "name \<in> fst ` set event_keys" "registered_keys (PStr name) \<subseteq> dict_keys ev"
    "expected_keys aware ev = Inr (dict_keys ev)"
proof -
  from assms obtain name where "raw = PDict ev" and name: "dict_get ev ''event'' = PStr name"
    and "name \<in> fst ` set event_keys" and keys: "expected_keys aware ev = Inr (dict_keys ev)"
    by (force simp: validated_event_def andThen_eq_Inr in_strings_True)
  with expected_registered [OF keys] that show thesis by simp
qed

lemma expected_keys_raises [raises]: "raises_only replay_errors (expected_keys aware d)"
  by (auto simp: expected_keys_def validate_timestamp_def Let_def
      split: option.split pyval.split intro!: raises)

lemma transition_id_key:
  assumes "in_strings (dict_get d ''event'') (fst ` set event_keys) = Inr True"
    and "expected_keys aware d = Inr (dict_keys d)"
  shows "''transition_id'' \<in> dict_keys d"
  using assms expected_registered [OF assms(2)] registered_common
  by (fastforce simp: in_strings_True common_event_keys_def)

lemma validated_event_raises [raises]: "raises_only replay_errors (validated_event aware raw)"
  unfolding validated_event_def
  by (intro raises input_raises) (auto intro: transition_id_key)










section \<open>The lifecycle the records follow\<close>

text \<open>
  The specification of replay: what a campaign may do, with the number of pairs scored for the
  current candidate and nothing else. A candidate starts with no scored pair, runs at most two,
  and only a candidate with exactly one scored pair can be confirmed.
\<close>

datatype lifecycle = L_new | L_idle | L_candidate nat | L_pair nat | L_scored nat | L_terminal

inductive lifecycle_step :: "lifecycle \<Rightarrow> lifecycle \<Rightarrow> bool" where
  L_start: "lifecycle_step L_new L_idle"
| L_candidate_start: "lifecycle_step L_idle (L_candidate 0)"
| L_pair_start: "lifecycle_step (L_candidate n) (L_pair n)"
| L_cell: "lifecycle_step (L_pair n) (L_pair n)"
| L_score: "lifecycle_step (L_pair n) (L_scored (Suc n))"
| L_confirm: "lifecycle_step (L_scored 1) (L_candidate 1)"
| L_settle: "lifecycle_step (L_scored n) L_idle"
| L_discard_waiting: "lifecycle_step (L_candidate n) L_idle"
| L_discard_running: "lifecycle_step (L_pair n) L_idle"
| L_terminate: "l \<noteq> L_new \<Longrightarrow> l \<noteq> L_terminal \<Longrightarrow> lifecycle_step l L_terminal"

inductive_simps lifecycle_from_terminal [simp]: "lifecycle_step L_terminal l"
inductive_cases lifecycle_to_candidate: "lifecycle_step l (L_candidate n)"
inductive_cases lifecycle_to_pair: "lifecycle_step l (L_pair n)"
inductive_cases lifecycle_to_scored: "lifecycle_step l (L_scored n)"

fun lifecycle_bounds :: "lifecycle \<Rightarrow> bool" where
  "lifecycle_bounds (L_candidate n) \<longleftrightarrow> n \<le> 1"
| "lifecycle_bounds (L_pair n) \<longleftrightarrow> n \<le> 1"
| "lifecycle_bounds (L_scored n) \<longleftrightarrow> n = 1 \<or> n = 2"
| "lifecycle_bounds _ \<longleftrightarrow> True"

lemma lifecycle_bounds_reachable: "lifecycle_step\<^sup>*\<^sup>* L_new l \<Longrightarrow> lifecycle_bounds l"
proof (induction rule: rtranclp_induct)
  case base
  then show ?case by simp
next
  case (step k l)
  from step.hyps(2) step.IH show ?case by cases auto
qed

definition lifecycle_of :: "replay_state \<Rightarrow> lifecycle" where
  "lifecycle_of st = (let n = length (candidate_observations st) in
     case phase st of
       Ph_new \<Rightarrow> L_new | Ph_idle \<Rightarrow> L_idle | Ph_candidate \<Rightarrow> L_candidate n
     | Ph_pair \<Rightarrow> L_pair n | Ph_scored \<Rightarrow> L_scored n | Ph_terminal \<Rightarrow> L_terminal)"

lemma lifecycle_of_seen [simp]: "lifecycle_of (st\<lparr>seen := x\<rparr>) = lifecycle_of st"
  by (simp add: lifecycle_of_def cong: phase.case_cong)

lemma lifecycle_of_settled [simp]: "lifecycle_of (settle_candidate st) = L_idle"
  by (simp add: lifecycle_of_def settle_candidate_def)

lemma lifecycle_of_awaiting [simp]:
  "candidate_observations st = [ob] \<Longrightarrow> lifecycle_of (await_confirmation mode st) = L_candidate 1"
  by (simp add: lifecycle_of_def await_confirmation_def)

lemma candidate_decided_lifecycle:
  assumes "candidate_decided p st ev = Inr st'"
  shows "lifecycle_step (lifecycle_of st) (lifecycle_of st')"
proof -
  note guards = candidate_decided_guards [OF assms]
  then have from_scored: "lifecycle_of st = L_scored (length (candidate_observations st))"
    by (simp add: lifecycle_of_def)
  obtain d where "d \<in> decisions" and "apply_decision p st (PStr d) = Inr st'"
    using guards(4) by blast
  then have "st' = settle_candidate st \<or>
      (\<exists>mode ob. candidate_observations st = [ob] \<and> st' = await_confirmation mode st)"
    unfolding decisions_def by (elim insertE) (auto simp: apply_decision_eqs)
  then show ?thesis
    using from_scored by (auto intro: L_settle L_confirm [simplified])
qed

lemma apply_transition_lifecycle:
  assumes "apply_transition sha p st name ev = Inr st'" and "phase st \<noteq> Ph_terminal"
  shows "lifecycle_step (lifecycle_of st) (lifecycle_of st')"
proof -
  have "lifecycle_step (lifecycle_of st) (lifecycle_of st')"
    if "campaign_started sha p st ev = Inr st' \<or> candidate_started p st ev = Inr st' \<or>
      pair_started st ev = Inr st' \<or> cell_completed st ev = Inr st' \<or> pair_scored st ev = Inr st'"
    using that by (auto simp: andThen_eq_Inr lifecycle_of_def campaign_started_def
        candidate_started_def pair_started_def cell_completed_def pair_scored_def
        intro: lifecycle_step.intros)
  moreover have "lifecycle_step (lifecycle_of st) (lifecycle_of st')"
    if "candidate_discarded st ev = Inr st'"
    using that by (auto simp: andThen_eq_Inr candidate_discarded_def lifecycle_of_def [of st]
        intro: lifecycle_step.intros)
  moreover have "lifecycle_step (lifecycle_of st) (lifecycle_of st')"
    if "campaign_terminated st ev = Inr st' \<or> campaign_completed st = Inr st'"
    using that assms(2) by (cases "phase st") (auto simp: andThen_eq_Inr campaign_terminated_def
        campaign_completed_def lifecycle_of_def intro: lifecycle_step.intros)
  ultimately show ?thesis
    using assms(1) candidate_decided_lifecycle
    by (auto simp: apply_transition_def split: if_splits)
qed

lemma replay_step_lifecycle:
  assumes "replay_step aware sha p st raw = Inr st'"
  shows "lifecycle_step\<^sup>*\<^sup>* (lifecycle_of st) (lifecycle_of st')"
  using assms
  by (cases rule: replay_step_cases) (auto dest!: apply_transition_lifecycle)

interpretation replay_spec: refining_machine "replay_step aware sha p" empty_replay_state
  "replay_inv p" lifecycle_of lifecycle_step for aware sha p
  by unfold_locales (rule replay_step_lifecycle)

lemma lifecycle_of_empty [simp]: "lifecycle_of empty_replay_state = L_new"
  by (simp add: lifecycle_of_def empty_replay_state_def)

section \<open>Replay of an appended transition\<close>

text \<open>The time stamp the journal adds changes neither the identity nor the payload.\<close>

lemma validated_event_stamped:
  assumes "validated_event aware (PDict d) = Inr d" and "map_of d ''timestamp'' = None"
    and "aware now"
  shows "validated_event aware (PDict (stamped now d)) = Inr (stamped now d)"
proof -
  from assms(1,2) have "dict_keys d = registered_keys (dict_get d ''event'')"
    and "in_strings (dict_get d ''event'') (fst ` set event_keys) = Inr True"
    and "andThen (getitem d ''transition_id'') require_id \<noteq> Inl AutoresearchError"
    and "\<exists>tid. andThen (getitem d ''transition_id'') require_id = Inr tid"
    by (auto simp: validated_event_def expected_keys_def andThen_eq_Inr)
  with assms(2,3) show ?thesis
    by (auto simp: validated_event_def expected_keys_def stamped_def validate_timestamp_def
        as_transition_error_def)
qed

lemma payload_stamped:
  assumes "map_of d ''timestamp'' = None"
  shows "payload_json (stamped now d) = payload_json d"
  using assms by (simp add: payload_json_def transition_payload_def stamped_def)

lemma event_string_stamped:
  assumes "map_of d ''timestamp'' = None" and "k \<noteq> ''timestamp''"
  shows "event_string (stamped now d) k = event_string d k"
  using assms by (simp add: event_string_def stamped_def)

lemma find_retry_True:
  assumes "find_retry aware tid payload raws = Inr True"
  shows "\<exists>raw \<in> set raws. \<exists>ev. validated_event aware raw = Inr ev \<and>
    event_string ev ''transition_id'' = tid \<and> payload_json ev = Inr payload"
  using assms by (induction raws) (auto simp: andThen_eq_Inr split: if_splits)

section \<open>An example campaign\<close>

definition example_sha :: "pyval \<Rightarrow> string" where
  "example_sha v = replicate 64 (CHR ''0'')"

definition example_policy :: campaign_policy where
  "example_policy = \<lparr>primary_case_ids = [''case''], allowed_axes = [''threads''],
     schema_version = POLICY_SCHEMA_VERSION, cell_timeout_s = CELL_TIMEOUT_S,
     pair_timeout_s = PAIR_TIMEOUT_S, cleanup_timeout_s = CLEANUP_TIMEOUT_S,
     audit_reserve_s = AUDIT_RESERVE_S, screen_geomean_min = NFloat SCREEN_GEOMEAN_MIN,
     screen_primary_ratio_min = NFloat SCREEN_PRIMARY_RATIO_MIN,
     screen_ttft_ratio_max = NFloat SCREEN_TTFT_RATIO_MAX,
     promotion_pair_geomean_strict_min = NFloat PROMOTION_PAIR_GEOMEAN_STRICT_MIN,
     promotion_combined_geomean_min = NFloat PROMOTION_COMBINED_GEOMEAN_MIN,
     simplification_combined_geomean_min = NFloat SIMPLIFICATION_COMBINED_GEOMEAN_MIN,
     simplification_memavailable_gain_gib = NFloat SIMPLIFICATION_MEMAVAILABLE_GAIN_GIB,
     calibration_geomean_min = NFloat CALIBRATION_GEOMEAN_MIN,
     calibration_geomean_max = NFloat CALIBRATION_GEOMEAN_MAX,
     calibration_primary_ratio_min = NFloat CALIBRATION_PRIMARY_RATIO_MIN,
     calibration_primary_ratio_max = NFloat CALIBRATION_PRIMARY_RATIO_MAX,
     calibration_ttft_ratio_min = NFloat CALIBRATION_TTFT_RATIO_MIN,
     calibration_ttft_ratio_max = NFloat CALIBRATION_TTFT_RATIO_MAX\<rparr>"

definition example_observation :: "int \<Rightarrow> pair_observation" where
  "example_observation i = \<lparr>pair_index = i, observed_case_ids = [''case''],
     primary_speed_ratios = [2], median_ttft_ratio = 1,
     timing = \<lparr>cell_elapsed_s = (60, 60), pair_elapsed_s = 120, cleanup_elapsed_s = 5,
       audit_reserve_remaining_s = 1000\<rparr>,
     eligibility = \<lparr>cells_completed = True, measurement_valid = True, validation_passed = True,
       workload_matched = True, artifact_identity_verified = True,
       audit_requirement_passed = True, cleanup_verified = True, memory_pressure = False,
       swap_pressure = False, oom = False, ownership_ambiguous = False, cleanup_breach = False\<rparr>,
     simplification = \<lparr>minimum_memavailable_gain_gib = 0, champion_flags = [],
       candidate_flags = []\<rparr>\<rparr>"

definition example_event :: "string \<Rightarrow> string \<Rightarrow> pydict \<Rightarrow> pyval" where
  "example_event name tid kvs =
     PDict ((''event'', PStr name) # (''transition_id'', PStr tid) # kvs)"

definition example_pair :: "int \<Rightarrow> string list \<Rightarrow> pyval list" where
  "example_pair i ids =
     [example_event ''autoresearch_pair_started'' (ids ! 0)
        [(''candidate_id'', PStr ''c''), (''pair_index'', PInt i),
         (''order'', PList (map PStr (pair_order i)))],
      example_event ''autoresearch_cell_completed'' (ids ! 1)
        [(''candidate_id'', PStr ''c''), (''pair_index'', PInt i), (''arm'', PStr (pair_order i ! 0))],
      example_event ''autoresearch_cell_completed'' (ids ! 2)
        [(''candidate_id'', PStr ''c''), (''pair_index'', PInt i), (''arm'', PStr (pair_order i ! 1))],
      example_event ''autoresearch_pair_scored'' (ids ! 3)
        [(''candidate_id'', PStr ''c''), (''pair_index'', PInt i),
         (''observation'', observation_to_mapping (example_observation i))]]"

definition example_start :: "pyval list" where
  "example_start =
     [example_event ''autoresearch_campaign_started'' ''t1''
        [(''campaign_id'', PStr ''k''), (''policy_digest'', PStr (replicate 64 (CHR ''0'')))],
      example_event ''autoresearch_candidate_started'' ''t2''
        [(''candidate_id'', PStr ''c''), (''axis'', PStr ''threads''),
         (''delta_digest'', PStr (replicate 64 (CHR ''0'')))]]"

definition example_decision :: "string \<Rightarrow> string \<Rightarrow> pyval" where
  "example_decision tid d = example_event ''autoresearch_candidate_decided'' tid
     [(''candidate_id'', PStr ''c''), (''decision'', PStr d)]"

definition example_journal :: "pyval list" where
  "example_journal = example_start @ example_pair 0 [''a1'', ''a2'', ''a3'', ''a4'']
     @ [example_decision ''t3'' ''confirm''] @ example_pair 1 [''b1'', ''b2'', ''b3'', ''b4'']"

lemma example_policy_simps [simp]:
  "primary_case_ids example_policy = [''case'']"
  "allowed_axes example_policy = [''threads'']"
  "policy_digest example_sha example_policy = replicate 64 (CHR ''0'')"
  by (simp_all add: example_policy_def policy_digest_def example_sha_def)

lemma example_digest [simp]: "sha256_hex (replicate 64 (CHR ''0''))"
  by (simp add: sha256_hex_def lower_hex_def list_all_length less_eq_char_def)

lemma example_observation_wf [simp]: "0 \<le> i \<Longrightarrow> observation_wf (example_observation i)"
  by (simp add: observation_wf_def example_observation_def timing_wf_def simplification_wf_def
      safe_id_def lower_alnum_def safe_id_char_def less_eq_char_def)

lemma replay_step_new:
  assumes "validated_event aware raw = Inr ev" and "payload_json ev = Inr payload"
    and "event_string ev ''transition_id'' = tid" and "map_of (seen st) tid = None"
    and "phase st \<noteq> Ph_terminal"
    and "apply_transition sha p (st\<lparr>seen := seen st @ [(tid, payload)]\<rparr>)
      (event_string ev ''event'') ev = Inr st'"
  shows "replay_step aware sha p st raw = Inr st'"
  using assms by (simp add: replay_step_def)

lemma example_validated:
  assumes "name \<in> fst ` set event_keys" "safe_id tid"
    and "dict_keys kvs \<union> common_event_keys = registered_keys (PStr name)"
    and "map_of kvs ''timestamp'' = None"
  shows "validated_event aware (example_event name tid kvs)
    = Inr ((''event'', PStr name) # (''transition_id'', PStr tid) # kvs)"
proof -
  have "dict_keys ((''event'', PStr name) # (''transition_id'', PStr tid) # kvs) =
      registered_keys (PStr name)"
    using assms(3) by (auto simp: common_event_keys_def)
  with assms show ?thesis
    by (simp add: validated_event_def example_event_def expected_keys_def as_transition_error_def)
qed

lemmas example_eval = example_event_def example_start_def example_pair_def
  replay_step_def validated_event_def expected_keys_def registered_keys_def event_keys_def
  common_event_keys_def as_transition_error_def safe_id_def lower_alnum_def safe_id_char_def
  less_eq_char_def payload_json_def transition_payload_def canonical_json_value_def
  event_string_def apply_transition_def campaign_started_def candidate_started_def pair_started_def
  cell_completed_def pair_scored_def same_candidate_def pair_order_def empty_replay_state_def
  Let_def insert_commute
  observation_roundtrip_lemma

text \<open>The transitions a journal of distinct records leaves in \<open>seen\<close>.\<close>

definition applied :: "pyval list \<Rightarrow> (string \<times> pyval) list" where
  "applied raws = map (\<lambda>raw. case raw of
     PDict ev \<Rightarrow> (event_string ev ''transition_id'', canonical raw) | _ \<Rightarrow> ([], raw)) raws"

definition example_state :: "pyval list \<Rightarrow> replay_state" where
  "example_state raws = empty_replay_state\<lparr>phase := Ph_candidate, campaign_id := Some ''k'',
     candidate_id := Some ''c'', candidate_axis := Some ''threads'', seen := applied raws\<rparr>"

lemma example_started:
  "replay_transitions aware example_sha example_policy example_start
    = Inr (example_state example_start)"
  unfolding replay_transitions_def
  by (simp add: example_eval applied_def example_state_def del: canonical.simps)

definition scored_state :: "pyval list \<Rightarrow> pair_observation list \<Rightarrow> replay_state" where
  "scored_state raws obs = (example_state raws)\<lparr>phase := Ph_scored,
     next_pair_index := int (length obs), active_pair_index := Some (int (length obs) - 1),
     active_order := pair_order (int (length obs) - 1),
     completed_arms := pair_order (int (length obs) - 1), candidate_observations := obs,
     confirmation_mode := (if length obs = 2 then Some Mode_standard else None)\<rparr>"

lemma example_observation_json [simp]: "json_finite (observation_to_mapping (example_observation i))"
  by (simp add: observation_to_mapping_def example_observation_def timing_to_mapping_def
      eligibility_to_mapping_def simplification_to_mapping_def)

lemma example_observation_index [simp]:
  "pair_index (example_observation i) = i"
  and example_observation_flags:
  "simplification (example_observation i) = simplification (example_observation 0)"
  by (simp_all only: example_observation_def pair_observation.simps)

lemma example_scored_once:
  "replay_transitions aware example_sha example_policy
     (example_start @ example_pair 0 [''a1'', ''a2'', ''a3'', ''a4''])
    = Inr (scored_state (example_start @ example_pair 0 [''a1'', ''a2'', ''a3'', ''a4''])
        [example_observation 0])"
  using example_started [of aware] unfolding replay_transitions_def fold_res_append
  by (simp add: example_eval applied_def example_state_def scored_state_def del: canonical.simps)

lemma example_num_values [simp]:
  "num_value (screen_geomean_min example_policy) = 103/100"
  "num_value (screen_primary_ratio_min example_policy) = 95/100"
  "num_value (screen_ttft_ratio_max example_policy) = 110/100"
  "num_value (promotion_pair_geomean_strict_min example_policy) = 1"
  "num_value (promotion_combined_geomean_min example_policy) = 103/100"
  by (simp_all add: example_policy_def policy_constants)

lemma example_clean [simp]: "pair_clean example_policy (example_observation i)"
  by (simp add: pair_clean_def example_observation_def eligible_eq failed_budgets_eq_Nil
      campaign_terminal_pressure_def example_policy_def policy_constants)

lemma example_guardrails [simp]: "guardrails_hold example_policy (example_observation i)"
  by (simp add: guardrails_hold_def example_observation_def)

lemma example_speed [simp]: "speed_geomean (example_observation i) = Inr 2"
  by (simp add: speed_geomean_def geometric_mean_eq all_positive_def example_observation_def)

lemma example_screen [simp]:
  assumes "0 \<le> i"
  shows "gate_passed (evaluate_screen example_policy (example_observation i)) = Inr True"
proof -
  obtain d where d: "evaluate_screen example_policy (example_observation i) = Inr d"
    using evaluate_screen_total assms by fastforce
  with evaluate_screen_passed [OF d] show ?thesis by (simp add: gate_passed_True)
qed

lemma example_promotion [simp]:
  assumes "0 \<le> i"
  shows "gate_passed (evaluate_promotion example_policy (example_observation i)
    (example_observation (i + 1))) = Inr True"
proof -
  obtain d where d: "evaluate_promotion example_policy (example_observation i)
      (example_observation (i + 1)) = Inr d"
    using evaluate_promotion_total assms by fastforce
  have "geometric_mean [2, 2] = Inr 2"
    using geometric_mean_replicate [of 2 2] by (simp add: numeral_2_eq_2)
  then have "geometric_mean_ratio d = 2"
    using evaluate_promotion_passed(2) [OF d] by (simp add: example_observation_def)
  with evaluate_promotion_passed(1) [OF d] d
    example_observation_flags [of i] example_observation_flags [of "i + 1"] show ?thesis
    by (simp add: gate_passed_True confirms_def)
qed

lemma example_scored_twice:
  "replay_transitions aware example_sha example_policy example_journal
    = Inr (scored_state example_journal [example_observation 0, example_observation 1])"
  using example_scored_once [of aware] unfolding replay_transitions_def fold_res_append example_journal_def
  by (simp add: example_eval applied_def example_state_def scored_state_def example_decision_def
     candidate_decided_def decisions_def apply_decision_def await_confirmation_def del: canonical.simps)

section \<open>Properties\<close>

text \<open>
  Every journal that replay accepts is a path of the candidate lifecycle: a candidate runs at
  most two pairs, only a candidate with one scored pair is confirmed, and nothing follows the end.
\<close>

theorem replay_follows_lifecycle:
  assumes "replay_transitions aware sha p evs = Inr st"
  shows "lifecycle_step\<^sup>*\<^sup>* L_new (lifecycle_of st) \<and> lifecycle_bounds (lifecycle_of st)"
proof -
  have "lifecycle_step\<^sup>*\<^sup>* L_new (lifecycle_of st)"
    using replay_spec.run_simulates assms by (fastforce simp: replay_transitions_def)
  then show ?thesis using lifecycle_bounds_reachable by blast
qed

theorem replay_follows_lifecycle_witness:
  "lifecycle_step\<^sup>*\<^sup>* L_new (L_scored 2)"
  using replay_follows_lifecycle [OF example_scored_twice]
  by (simp add: lifecycle_of_def scored_state_def numeral_2_eq_2)

text \<open>
  C1. The replayed state is consistent: the active pair carries the next global index and the
  order that index prescribes, completed arms are a prefix of that order, a candidate waiting
  for its confirmation has one observation that passed its first gate, and every observation
  kept is well formed.
\<close>

theorem replay_state_consistent:
  assumes "replay_transitions aware sha p evs = Inr st"
  shows "replay_inv p st"
  using replay.run_inv assms by (simp add: replay_transitions_def)

theorem replay_state_consistent_witness:
  "replay_inv example_policy
     (scored_state example_journal [example_observation 0, example_observation 1])"
  by (rule replay_state_consistent [OF example_scored_twice])

text \<open>
  C2. A promotion is accepted only on two clean pairs with consecutive indices, run in opposite
  orders on the same flag bundles, where each pair is faster than the champion, the first by 3
  percent, and the two together by 3 percent; afterwards the campaign is idle.
\<close>

theorem promotion_needs_two_passing_pairs:
  assumes "replay_transitions aware sha p evs = Inr st"
    and "replay_transitions aware sha p (evs @ [PDict ev]) = Inr st'"
    and "\<not> recorded aware st (PDict ev)"
    and "dict_get ev ''event'' = PStr ''autoresearch_candidate_decided''"
    and "dict_get ev ''decision'' = PStr ''promote''"
    and "policy_wf p"
  shows "\<exists>first second g1 g2 g. candidate_observations st = [first, second] \<and>
    confirms p first second \<and> pair_order (pair_index second) = rev (pair_order (pair_index first)) \<and>
    speed_geomean first = Inr g1 \<and> speed_geomean second = Inr g2 \<and>
    geometric_mean (primary_speed_ratios first @ primary_speed_ratios second) = Inr g \<and>
    103/100 \<le> g1 \<and> 1 < g2 \<and> 103/100 \<le> g \<and>
    phase st' = Ph_idle \<and> candidate_id st' = None"
proof -
  have step: "replay_step aware sha p st (PDict ev) = Inr st'"
    using assms(1,2) by (simp add: replay_transitions_def fold_res_append)
  then obtain st1 where decided: "candidate_decided p st1 ev = Inr st'"
      and same: "candidate_observations st1 = candidate_observations st"
    using assms(3,4) by (cases rule: replay_step_cases)
      (auto simp: validated_event_def andThen_eq_Inr apply_transition_def event_string_def)
  then obtain first second where obs: "candidate_observations st = [first, second]"
      and gate: "gate_passed (evaluate_promotion p first second) = Inr True"
      and st': "st' = settle_candidate st1"
    using candidate_decided_guards(4) [OF decided] assms(5)
    by (auto simp: apply_decision_promote getitem_Inr dict_get_def)
  from gate obtain d where d: "evaluate_promotion p first second = Inr d" "passed d"
    by (auto simp: gate_passed_True)
  from evaluate_promotion_passed [OF d(1)] d(2) obs st' assms(6) show ?thesis
    by (auto simp: policy_wf_def policy_constants confirms_def pair_order_reverse
        settle_candidate_def)
qed

lemma example_policy_wf: "policy_wf example_policy"
  by (simp add: policy_wf_def example_policy_def safe_id_def lower_alnum_def safe_id_char_def
      less_eq_char_def)

lemma example_promoted:
  "replay_transitions aware example_sha example_policy
     (example_journal @ [example_decision ''t9'' ''promote''])
    = Inr (settle_candidate (scored_state (example_journal @ [example_decision ''t9'' ''promote''])
        [example_observation 0, example_observation 1]))"
  "\<not> recorded aware (scored_state example_journal [example_observation 0, example_observation 1])
     (example_decision ''t9'' ''promote'')"
  subgoal
    using example_scored_twice [of aware] example_promotion [of 0]
    unfolding replay_transitions_def fold_res_append
    by (simp add: example_eval applied_def example_state_def scored_state_def example_decision_def
        candidate_decided_def decisions_def apply_decision_def settle_candidate_def
        example_journal_def del: canonical.simps)
  subgoal
    by (simp add: recorded_def example_eval applied_def example_state_def scored_state_def
        example_decision_def example_journal_def del: canonical.simps)
  done

theorem promotion_needs_two_passing_pairs_witness:
  "\<exists>g. geometric_mean [2, 2] = Inr g \<and> 103/100 \<le> g"
  using promotion_needs_two_passing_pairs [OF example_scored_twice
      example_promoted(1) [unfolded example_decision_def example_event_def]
      example_promoted(2) [unfolded example_decision_def example_event_def] _ _ example_policy_wf]
  by (auto simp: scored_state_def example_observation_def)

text \<open>
  Retries are free: a record that carries the identity and the payload of an earlier one,
  with any valid time stamp, is accepted again at any later point and changes nothing.
\<close>

theorem replay_retry_changes_nothing:
  assumes "replay_transitions aware sha p evs = Inr st" and "raw \<in> set evs"
    and "validated_event aware raw = Inr ev" and "validated_event aware again = Inr ev'"
    and "event_string ev' ''transition_id'' = event_string ev ''transition_id''"
    and "payload_json ev' = payload_json ev"
  shows "replay_transitions aware sha p (evs @ [again]) = Inr st"
proof -
  have "recorded aware st raw"
    using replay.applied_recorded assms(1,2) by (simp add: replay_transitions_def)
  with assms(3-6) have "recorded aware st again" by (auto simp: recorded_def)
  then show ?thesis
    using replay.record_again assms(1) by (simp add: replay_transitions_def)
qed

text \<open>The first decision of the example again, as the journal returns it with its time stamp.\<close>

definition example_ev :: "string \<Rightarrow> pydict" where
  "example_ev d = [(''event'', PStr ''autoresearch_candidate_decided''),
    (''transition_id'', PStr ''t3''), (''candidate_id'', PStr ''c''), (''decision'', PStr d)]"

lemma example_ev_valid:
  "validated_event aware (example_decision ''t3'' d) = Inr (example_ev d)"
  "aware ''now'' \<Longrightarrow>
     validated_event aware (PDict (stamped ''now'' (example_ev d))) = Inr (stamped ''now'' (example_ev d))"
  "payload_json (example_ev d) = Inr (canonical (PDict (example_ev d)))"
  "payload_json (stamped ''now'' (example_ev d)) = Inr (canonical (PDict (example_ev d)))"
  "event_string (example_ev d) ''transition_id'' = ''t3''"
  "event_string (stamped ''now'' (example_ev d)) ''transition_id'' = ''t3''"
  by (simp_all add: example_ev_def example_decision_def example_eval stamped_def
      validate_timestamp_def del: canonical.simps)

theorem replay_retry_changes_nothing_witness:
  "replay_transitions (\<lambda>_. True) example_sha example_policy
     (example_journal @ [PDict (stamped ''now'' (example_ev ''confirm''))])
    = Inr (scored_state example_journal [example_observation 0, example_observation 1])"
  by (intro replay_retry_changes_nothing [OF example_scored_twice _
        example_ev_valid(1) [of _ "''confirm''"] example_ev_valid(2)])
    (simp_all add: example_journal_def example_ev_valid)

text \<open>
  An identity is bound to its payload: a record that reuses the identity of an earlier one
  for another payload is refused, whatever the state.
\<close>

theorem replay_collision_refused:
  assumes "replay_transitions aware sha p evs = Inr st" and "raw \<in> set evs"
    and "validated_event aware raw = Inr ev" and "validated_event aware other = Inr ev'"
    and "event_string ev' ''transition_id'' = event_string ev ''transition_id''"
    and "payload_json ev' = Inr payload" and "payload_json ev \<noteq> Inr payload"
  shows "replay_transitions aware sha p (evs @ [other]) = Inl TransitionError"
proof -
  have "recorded aware st raw"
    using replay.applied_recorded assms(1,2) by (simp add: replay_transitions_def)
  with assms(3-7) show ?thesis
    using assms(1) by (auto simp: recorded_def replay_transitions_def fold_res_append
        replay_step_def)
qed

theorem replay_collision_refused_witness:
  "replay_transitions (\<lambda>_. True) example_sha example_policy
     (example_journal @ [example_decision ''t3'' ''reject'']) = Inl TransitionError"
proof -
  have "canonical (PDict (example_ev ''confirm'')) \<noteq> canonical (PDict (example_ev ''reject''))"
    by (simp add: example_ev_def)
  then show ?thesis
    by (intro replay_collision_refused [OF example_scored_twice _
          example_ev_valid(1) [of _ "''confirm''"] example_ev_valid(1) [of _ "''reject''"]
          _ example_ev_valid(3)])
      (simp_all add: example_journal_def example_ev_valid del: canonical.simps)
qed

text \<open>
  Terminal is final: whatever replay accepts after the end leaves the state as it was.
\<close>

theorem terminal_state_is_final:
  assumes "replay_transitions aware sha p evs = Inr st" and "phase st = Ph_terminal"
    and "replay_transitions aware sha p (evs @ rest) = Inr st'"
  shows "st' = st"
  using replay_end.final_stays assms by (simp add: replay_transitions_def)

theorem terminal_state_is_final_witness:
  "\<exists>st. replay_transitions (\<lambda>_. True) example_sha example_policy (take 1 example_start
      @ [example_event ''autoresearch_campaign_completed'' ''t9'' []]) = Inr st \<and>
    replay_transitions (\<lambda>_. True) example_sha example_policy (take 1 example_start
      @ [example_event ''autoresearch_campaign_completed'' ''t9'' []] @ take 1 example_start) = Inr st"
proof -
  let ?evs = "take 1 example_start @ [example_event ''autoresearch_campaign_completed'' ''t9'' []]"
  obtain st where st: "replay_transitions (\<lambda>_. True) example_sha example_policy ?evs = Inr st"
      "phase st = Ph_terminal"
    by (simp add: replay_transitions_def example_eval campaign_completed_def)
  have "set (take 1 example_start) \<subseteq> set ?evs" by auto
  then have "replay_transitions (\<lambda>_. True) example_sha example_policy (?evs @ take 1 example_start) = Inr st"
    using replay.replay_again [OF st(1) [unfolded replay_transitions_def]]
    by (simp only: replay_transitions_def)
  with terminal_state_is_final [OF st this] st show ?thesis by auto
qed


text \<open>An empty file reads as no file.\<close>

lemma journal_append_None:
  "journal_append dump os_write now None event = journal_append dump os_write now (Some new_file) event"
  "journal_events load None = journal_events load (Some new_file)"
  by (simp_all add: journal_append_def journal_events_def new_file_def splitlines_def
      List.map_filter_def)

lemma journal_append_events:
  assumes "journal_append dump os_write now fl event = (f', Inr ())"
    and "codec_ok dump load (stamped now event)"
  shows "journal_events load (Some f') = journal_events load fl @ [stamped now event]"
  using assms journal_append_records by (cases fl) (auto simp: journal_append_None)

lemma journal_append_prefix:
  assumes "journal_append dump os_write now fl event = (f', outcome)"
    and "codec_ok dump load (stamped now event)"
  shows "prefix (journal_events load fl) (journal_events load (Some f'))
    \<and> (outcome = Inr () \<or> outcome = Inl OSError)"
  using assms journal_append_keeps by (cases fl) (auto simp: journal_append_None)

lemma replay_step_valid:
  assumes "replay_step aware sha p st (PDict d) = Inr st'"
  obtains payload where "validated_event aware (PDict d) = Inr d" "payload_json d = Inr payload"
proof -
  from assms obtain ev payload where ev: "validated_event aware (PDict d) = Inr ev"
      "payload_json ev = Inr payload"
    by (auto simp: replay_step_def andThen_eq_Inr)
  moreover from ev(1) have "ev = d" by (auto elim: validated_event_Inr)
  ultimately show thesis using that by simp
qed

text \<open>The stamped record replays as the record itself.\<close>

lemma replay_step_stamped:
  assumes "replay_step aware sha p st (PDict d) = Inr st'" and "map_of d ''timestamp'' = None"
    and "aware now"
  shows "replay_step aware sha p st (PDict (stamped now d)) = Inr st'"
proof -
  from assms(1) obtain payload where valid: "validated_event aware (PDict d) = Inr d"
      and "payload_json d = Inr payload"
    by (rule replay_step_valid)
  note stamp = validated_event_stamped [OF valid assms(2,3)] payload_stamped [OF assms(2)]
    event_string_stamped [OF assms(2)]
  have field: "getitem (stamped now d) k = getitem d k" if "k \<noteq> ''timestamp''" for k
    using assms(2) that by (simp add: stamped_def)
  have "same_candidate st (stamped now d) = same_candidate st d"
      "event_disposition (stamped now d) = event_disposition d" for st
    by (simp_all add: same_candidate_def event_disposition_def field)
  then have "apply_transition sha p st name (stamped now d) = apply_transition sha p st name d"
    for st name
    unfolding apply_transition_def campaign_started_def candidate_started_def pair_started_def
      cell_completed_def pair_scored_def candidate_decided_def candidate_discarded_def
      campaign_terminated_def
    by (simp only: field list.inject char.inject simp_thms)
  with assms(1) valid stamp \<open>payload_json d = Inr payload\<close> show ?thesis
    by (cases "map_of (seen st) (event_string d ''transition_id'')") (simp_all add: replay_step_def)
qed

text \<open>
  C3. Appending refines replay: when \<open>append_transition\<close> returns a state, the journal on disk
  replays to exactly that state; it holds the old records, followed by the stamped transition
  unless the call was a retry.
\<close>

theorem append_transition_refines_replay:
  assumes "append_transition aware sha dump load os_write now p fl (PDict d) = (fl', Inr st)"
    and "codec_ok dump load (stamped now d)" and "aware now"
  shows "replay_transitions aware sha p (map PDict (journal_events load fl')) = Inr st \<and>
    journal_events load fl' \<in>
      {journal_events load fl, journal_events load fl @ [stamped now d]}"
proof -
  let ?old = "map PDict (journal_events load fl)"
  from assms(1) have no_time: "map_of d ''timestamp'' = None"
    and run: "replay_transitions aware sha p (?old @ [PDict d]) = Inr st"
    by (auto simp: append_transition_def Let_def andThen_eq_Inr
        split: if_splits sum.splits bool.splits prod.splits)
  from run obtain st0 where st0: "replay_transitions aware sha p ?old = Inr st0"
      and step: "replay_step aware sha p st0 (PDict d) = Inr st"
    by (auto simp: replay_transitions_def fold_res_append andThen_eq_Inr)
  from step obtain payload where valid: "validated_event aware (PDict d) = Inr d"
      and payload: "payload_json d = Inr payload"
    by (rule replay_step_valid)
  let ?retry = "find_retry aware (event_string d ''transition_id'') payload ?old"
  from assms(1) no_time run valid payload consider (retry) "?retry = Inr True" "fl' = fl"
    | (new) f where "fl' = Some f" "journal_append dump os_write now fl d = (f, Inr ())"
    by (auto simp: append_transition_def Let_def andThen_eq_Inr
        split: if_splits sum.splits bool.splits prod.splits)
  then show ?thesis
  proof cases
    case retry
    then obtain raw ev where "raw \<in> set ?old" "validated_event aware raw = Inr ev"
        "event_string ev ''transition_id'' = event_string d ''transition_id''"
        "payload_json ev = Inr payload"
      using find_retry_True by blast
    moreover from this st0 have "recorded aware st0 raw"
      using replay.applied_recorded by (simp add: replay_transitions_def)
    ultimately have "recorded aware st0 (PDict d)"
      using valid payload by (auto simp: recorded_def)
    with step st0 retry show ?thesis by (simp add: recorded_again)
  next
    case new
    then have "journal_events load fl' = journal_events load fl @ [stamped now d]"
      using journal_append_events assms(2) by simp
    with st0 replay_step_stamped [OF step no_time assms(3)] show ?thesis
      by (simp add: replay_transitions_def fold_res_append)
  qed
qed

text \<open>The first transition of the example, appended where there is no journal yet.\<close>

definition example_first :: pydict where
  "example_first = [(''event'', PStr ''autoresearch_campaign_started''),
     (''transition_id'', PStr ''t1''), (''campaign_id'', PStr ''k''),
     (''policy_digest'', PStr (replicate 64 (CHR ''0'')))]"

definition example_first_load :: "string \<Rightarrow> pyval option" where
  "example_first_load s = (if s = ''r'' then Some (PDict (stamped ''now'' example_first)) else None)"

lemma example_first_codec: "codec_ok example_dump example_first_load (stamped ''now'' example_first)"
  by (simp add: codec_ok_def example_dump_def example_first_load_def text_breaks_def LF_def CR_def)

lemma example_first_replay:
  "\<exists>st. replay_transitions aware example_sha example_policy [PDict example_first] = Inr st"
  by (simp add: replay_transitions_def example_first_def example_eval)

lemma example_first_append:
  "\<exists>f' st. append_transition (\<lambda>_. True) example_sha example_dump example_first_load (\<lambda>_. 1) ''now''
     example_policy None (PDict example_first) = (Some f', Inr st)"
proof -
  obtain f' where "journal_append example_dump (\<lambda>_. 1) ''now'' None example_first = (f', Inr ())"
    by (simp add: journal_append_def new_file_def safe_file_def Let_def write_loop_complete)
  moreover obtain st where "replay_transitions (\<lambda>_. True) example_sha example_policy
      [PDict example_first] = Inr st"
    using example_first_replay by blast
  moreover have "validated_event (\<lambda>_. True) (PDict example_first) = Inr example_first"
      "payload_json example_first = Inr (canonical (PDict example_first))"
      "map_of example_first ''timestamp'' = None"
    by (simp_all add: example_first_def example_eval del: canonical.simps)
  ultimately show ?thesis
    by (simp add: append_transition_def journal_events_def)
qed

theorem append_transition_refines_replay_witness:
  "\<exists>f' st. append_transition (\<lambda>_. True) example_sha example_dump example_first_load (\<lambda>_. 1) ''now''
      example_policy None (PDict example_first) = (Some f', Inr st) \<and>
    replay_transitions (\<lambda>_. True) example_sha example_policy
      (map PDict (journal_events example_first_load (Some f'))) = Inr st"
proof -
  obtain f' st where run: "append_transition (\<lambda>_. True) example_sha example_dump example_first_load
      (\<lambda>_. 1) ''now'' example_policy None (PDict example_first) = (Some f', Inr st)"
    using example_first_append by blast
  with append_transition_refines_replay [OF run example_first_codec] show ?thesis by blast
qed

text \<open>
  A refused or failed append loses nothing: every error but a system error leaves the journal
  untouched, and after a system error all earlier records are still read in order.
\<close>

theorem append_transition_error_keeps_journal:
  assumes "append_transition aware sha dump load os_write now p fl (PDict d) = (fl', Inl e)"
    and "codec_ok dump load (stamped now d)"
  shows "fl' = fl \<or> e = OSError \<and> prefix (journal_events load fl) (journal_events load fl')"
proof -
  from assms(1) consider "fl' = fl"
    | f where "fl' = Some f" "journal_append dump os_write now fl d = (f, Inl e)"
    by (auto simp: append_transition_def Let_def andThen_eq_Inl
        split: if_splits sum.splits bool.splits prod.splits)
  then show ?thesis
    using journal_append_prefix [OF _ assms(2)] by cases fastforce+
qed

theorem append_transition_error_keeps_journal_witness:
  "append_transition (\<lambda>_. True) example_sha example_dump example_first_load (\<lambda>_. 0) ''now''
     example_policy None (PDict example_first) = (Some (new_file), Inl OSError) \<and>
   prefix (journal_events example_first_load None) (journal_events example_first_load (Some new_file))"
proof -
  have "journal_append example_dump (\<lambda>_. 0) ''now'' None example_first = (new_file, Inl OSError)"
    by (simp add: journal_append_def new_file_def safe_file_def Let_def append_payload_def
        needs_separator_def example_dump_def)
  moreover obtain st where "replay_transitions (\<lambda>_. True) example_sha example_policy
      [PDict example_first] = Inr st"
    using example_first_replay by blast
  moreover have "validated_event (\<lambda>_. True) (PDict example_first) = Inr example_first"
      "payload_json example_first = Inr (canonical (PDict example_first))"
      "map_of example_first ''timestamp'' = None"
    by (simp_all add: example_first_def example_eval del: canonical.simps)
  ultimately have run: "append_transition (\<lambda>_. True) example_sha example_dump example_first_load
      (\<lambda>_. 0) ''now'' example_policy None (PDict example_first) = (Some new_file, Inl OSError)"
    by (simp add: append_transition_def journal_events_def)
  with append_transition_error_keeps_journal [OF run example_first_codec] show ?thesis by simp
qed

end
