(* ===== verification/Autoresearch_Gates.thy ===== *)
theory Autoresearch_Gates
  imports Autoresearch_Replay
begin

text \<open>
  What the inputs and the scoring gates of \<open>bench/autoresearch.py\<close> promise, on parsed
  observations and on a policy the constructor accepted: the codecs lose nothing, a candidate
  changes one allowed setting, the score is a mean of the ratios, promotion and calibration test
  the thresholds they name, and a failure discards a candidate only when it is the candidate's.
\<close>

section \<open>Thresholds of an accepted policy\<close>





section \<open>Properties\<close>



text \<open>
  The score is the geometric mean: it lies between the smallest and the largest ratio, its
  \<open>n\<close>-th power is their product, the score of the swapped comparison is its inverse, and two
  runs of equal length combine to the root of the product of their scores.
\<close>

theorem score_is_geometric_mean:
  assumes "geometric_mean xs = Inr g"
  shows "Min (set xs) \<le> g \<and> g \<le> Max (set xs) \<and> g ^ length xs = prod_list xs \<and>
    geometric_mean (map inverse xs) = Inr (inverse g) \<and>
    (\<forall>ys h. geometric_mean ys = Inr h \<and> length ys = length xs \<longrightarrow>
      geometric_mean (xs @ ys) = Inr (sqrt (g * h)))"
  using geometric_mean_bounds_lemma [OF assms] geometric_mean_power [OF assms]
    geometric_mean_inverse_lemma [OF assms] geometric_mean_append_lemma [OF assms] by blast

theorem score_is_geometric_mean_witness:
  "geometric_mean [2, 2, 2] = Inr 2 \<and> geometric_mean (map inverse [2, 2, 2]) = Inr (inverse 2)"
proof -
  have g: "geometric_mean [2, 2, 2] = Inr 2"
    using geometric_mean_replicate [of 2 3] by (simp add: numeral_3_eq_3)
  with score_is_geometric_mean [OF g] show ?thesis by blast
qed

text \<open>
  A candidate changes one thing: a delta is accepted only when the two configurations have
  the same keys, differ at the named axis and nowhere else, and the axis is an allowed one; the
  delta carries the two values and the digests of the two configurations.
\<close>

theorem one_axis_delta_exact:
  assumes "validate_one_axis_delta sha (PDict ch) (PDict ca) allowed = Inr delta"
  shows "PStr (axis delta) \<in> set allowed \<and> dict_keys ch = dict_keys ca \<and>
    (\<forall>k \<in> dict_keys ch. \<exists>x y. map_of ch k = Some x \<and> map_of ca k = Some y \<and>
      (canonical x \<noteq> canonical y \<longleftrightarrow> k = axis delta)) \<and>
    axis delta \<in> dict_keys ch \<and>
    champion_config_digest delta = sha (canonical (PDict ch)) \<and>
    candidate_config_digest delta = sha (canonical (PDict ca))"
proof -
  note facts = validate_one_axis_delta_sound [OF assms]
  have "\<exists>x y. map_of ch k = Some x \<and> map_of ca k = Some y \<and>
      (canonical x \<noteq> canonical y \<longleftrightarrow> k = axis delta)" if "k \<in> dict_keys ch" for k
  proof (cases "k = axis delta")
    case True
    from facts(5,6) obtain x y where "map_of ch k = Some x" "map_of ca k = Some y"
        "champion_value_json delta = canonical x" "candidate_value_json delta = canonical y"
      unfolding True by blast
    with facts(4) True show ?thesis by simp
  next
    case False
    with facts(7) that show ?thesis by blast
  qed
  with facts(1-3,8,9) show ?thesis by blast
qed

theorem one_axis_delta_exact_witness:
  "axis \<lparr>axis = ''threads'', champion_value_json = PInt 4, candidate_value_json = PInt 8,
     champion_config_digest = ''d'', candidate_config_digest = ''d''\<rparr> \<in> {''threads''}"
proof -
  have "validate_one_axis_delta (\<lambda>_. ''d'') (PDict [(''ctx'', PInt 1), (''threads'', PInt 4)])
      (PDict [(''threads'', PInt 8), (''ctx'', PInt 1)]) [PStr ''threads'']
    = Inr \<lparr>axis = ''threads'', champion_value_json = PInt 4, candidate_value_json = PInt 8,
        champion_config_digest = ''d'', candidate_config_digest = ''d''\<rparr>"
    by (simp add: validate_one_axis_delta_def canonical_values_def canonical_json_value_def
        require_id_def safe_id_def lower_alnum_def safe_id_char_def less_eq_char_def insert_commute
        the_only_def)
  from one_axis_delta_exact [OF this] show ?thesis by simp
qed

text \<open>
  Only a candidate's own failure discards it: the campaign goes on exactly after a syntax
  or start-up failure whose cleanup and preflight were both verified; every other failure kind
  terminates the campaign.
\<close>

theorem failure_discards_only_candidate_faults:
  assumes "failure_disposition v cleanup preflight = Inr d"
  shows "d = Discard_candidate \<longleftrightarrow> v \<in> {PStr ''candidate_syntax'', PStr ''candidate_startup''} \<and>
    cleanup = PBool True \<and> preflight = PBool True"
proof -
  obtain kind c r where "v = PStr (failure_kind_value kind)" "cleanup = PBool c"
      "preflight = PBool r" "d = (if kind \<in> {Candidate_syntax, Candidate_startup} \<and> c \<and> r
        then Discard_candidate else Terminate_campaign)"
    using assms by (auto simp: failure_disposition_eq)
  then show ?thesis by (cases kind) auto
qed

theorem failure_discards_only_candidate_faults_witness:
  "failure_disposition (PStr ''candidate_syntax'') (PBool True) (PBool True) = Inr Discard_candidate \<and>
   failure_disposition (PStr ''oom'') (PBool True) (PBool True) = Inr Terminate_campaign"
proof -
  have "failure_disposition (PStr ''oom'') (PBool True) (PBool True) = Inr Terminate_campaign"
    by (simp add: failure_disposition_def require_failure_kind_def failure_kinds_def require_bool_def)
  moreover have "\<exists>d. failure_disposition (PStr ''candidate_syntax'') (PBool True) (PBool True) = Inr d"
    by (simp add: failure_disposition_def require_failure_kind_def failure_kinds_def require_bool_def)
  ultimately show ?thesis
    using failure_discards_only_candidate_faults by blast
qed

text \<open>
  Observations survive the journal: a parsed observation is well-formed (positive ratios,
  aligned with distinct case identifiers, no negative time), and what \<open>to_mapping\<close> writes for
  it parses back to the same observation.
\<close>

theorem observation_survives_journal:
  assumes "observation_from_mapping v = Inr ob"
  shows "observation_wf ob \<and> observation_from_mapping (observation_to_mapping ob) = Inr ob"
  using observation.parse_wf [OF assms] observation.reparse [OF assms] by blast

theorem observation_survives_journal_witness:
  "observation_from_mapping (observation_to_mapping (example_observation 3))
     = Inr (example_observation 3)"
proof -
  have "observation_from_mapping (observation_to_mapping (example_observation 3))
      = Inr (example_observation 3)"
    by (rule observation.roundtrip) simp
  from observation_survives_journal [OF this] show ?thesis by blast
qed

text \<open>
  The policy digest identifies the policy: two policies that were parsed and have the same
  digest are equal, unless SHA-256 collides on their two canonical texts.
\<close>

theorem policy_digest_identifies:
  assumes "policy_from_mapping v = Inr p" and "policy_from_mapping w = Inr q"
    and "inj_on sha {canonical (policy_to_mapping p), canonical (policy_to_mapping q)}"
    and "policy_digest sha p = policy_digest sha q"
  shows "p = q"
  using assms by (rule policy.digest_identifies)

definition other_policy :: campaign_policy where
  "other_policy = example_policy\<lparr>primary_case_ids := [''other'']\<rparr>"

definition telling_sha :: "pyval \<Rightarrow> string" where
  "telling_sha v = (if v = canonical (policy_to_mapping example_policy) then ''a'' else ''b'')"

theorem policy_digest_identifies_witness:
  "policy_digest telling_sha example_policy \<noteq> policy_digest telling_sha other_policy"
proof
  assume same: "policy_digest telling_sha example_policy = policy_digest telling_sha other_policy"
  have "policy_wf other_policy"
    using example_policy_wf
    by (simp add: other_policy_def policy_wf_def safe_id_def lower_alnum_def safe_id_char_def
        less_eq_char_def)
  then have parsed: "policy_from_mapping (policy_to_mapping example_policy) = Inr example_policy"
      "policy_from_mapping (policy_to_mapping other_policy) = Inr other_policy"
    using example_policy_wf by (simp_all add: policy.roundtrip)
  have "inj_on telling_sha
      {canonical (policy_to_mapping example_policy), canonical (policy_to_mapping other_policy)}"
    by (auto simp: inj_on_def telling_sha_def simp del: canonical.simps)
  from policy_digest_identifies [OF parsed this same] show False
    by (simp add: other_policy_def example_policy_def)
qed

end
