(* ===== verification/Host_Meminfo.thy ===== *)
theory Host_Meminfo
  imports Py_Text Event_Machine
begin

text \<open>
  \<open>parse_meminfo\<close> and \<open>_threshold_to_kib\<close> of \<open>bench/host_safety.py\<close>: the trusted reading
  of one \<open>/proc/meminfo\<close> snapshot, and the thresholds it is compared with.
\<close>

section \<open>Samples\<close>

record memory_sample =
  mem_total_kib :: int
  memavailable_kib :: int
  swap_total_kib :: int
  swap_free_kib :: int

definition swap_used_kib :: "memory_sample \<Rightarrow> int" where
  "swap_used_kib m = swap_total_kib m - swap_free_kib m"

section \<open>Parsing\<close>

definition required_fields :: "string list" where
  "required_fields = [''MemTotal'', ''MemAvailable'', ''SwapTotal'', ''SwapFree'']"

text \<open>The body of the loop over the lines; \<open>vals\<close> is the dict of the fields read so far.\<close>

definition meminfo_line :: "(string \<times> int) list \<Rightarrow> string \<Rightarrow> (string \<times> int) list res" where
  "meminfo_line vals line =
     (let (raw_name, separator, value_text) = partition_at (CHR '':'') line;
          name = py_strip raw_name in
      if name \<notin> set required_fields then Inr vals
      else if \<not> separator then Inl (MeminfoError Meminfo_malformed)
      else if map_of vals name \<noteq> None then Inl (MeminfoError Meminfo_malformed)
      else case py_split value_text of
        [number, unit_text] \<Rightarrow>
          (if unit_text \<noteq> ''kB'' then Inl (MeminfoError Meminfo_malformed)
           else case parse_int number of
             None \<Rightarrow> Inl (MeminfoError Meminfo_malformed)
           | Some value \<Rightarrow>
               (if value < 0 then Inl (MeminfoError Meminfo_inconsistent)
                else Inr (vals @ [(name, value)])))
      | _ \<Rightarrow> Inl (MeminfoError Meminfo_malformed))"

definition field_value :: "(string \<times> int) list \<Rightarrow> string \<Rightarrow> int" where
  "field_value vals name = (case map_of vals name of Some v \<Rightarrow> v | None \<Rightarrow> 0)"

definition parse_meminfo :: "pyval \<Rightarrow> memory_sample res" where
  "parse_meminfo raw = (case raw of
       PStr s \<Rightarrow>
         andThen (fold_res meminfo_line [] (splitlines s)) (\<lambda>vals.
         if \<not> list_all (\<lambda>name. map_of vals name \<noteq> None) required_fields
         then Inl (MeminfoError Meminfo_missing)
         else (let sample = \<lparr>mem_total_kib = field_value vals ''MemTotal'',
                 memavailable_kib = field_value vals ''MemAvailable'',
                 swap_total_kib = field_value vals ''SwapTotal'',
                 swap_free_kib = field_value vals ''SwapFree''\<rparr> in
           if memavailable_kib sample > mem_total_kib sample
           then Inl (MeminfoError Meminfo_inconsistent)
           else if swap_free_kib sample > swap_total_kib sample
           then Inl (MeminfoError Meminfo_inconsistent)
           else Inr sample))
     | _ \<Rightarrow> Inl (MeminfoError Meminfo_malformed))"

section \<open>Thresholds\<close>

text \<open>
  \<open>Decimal(str(value))\<close> of a threshold: a boolean is refused before, a text that is no number
  is \<open>D_invalid\<close>, NaN and the infinities are \<open>D_special\<close>, and a number is a coefficient
  and an exponent of ten. A product is rounded half to even to the 28 digits of the default
  context; its exponent limits are not modelled.
\<close>

datatype threshold = D_bool | D_invalid | D_special | D_finite int int

definition context_digits :: nat where
  "context_digits = 28"

fun digit_count :: "nat \<Rightarrow> nat" where
  "digit_count n = (if n < 10 then 1 else Suc (digit_count (n div 10)))"

declare digit_count.simps [simp del]

definition round_half_even :: "nat \<Rightarrow> nat \<Rightarrow> nat" where
  "round_half_even n unit =
     (let q = n div unit; r = n mod unit in
      if 2 * r > unit \<or> (2 * r = unit \<and> odd q) then Suc q else q)"

text \<open>The product of the coefficient \<open>c\<close> with an integer, and the exponent it adds.\<close>

definition decimal_scale :: "nat \<Rightarrow> nat \<Rightarrow> nat \<times> nat" where
  "decimal_scale c m =
     (let p = c * m; d = digit_count p in
      if d \<le> context_digits then (p, 0)
      else (round_half_even p (10 ^ (d - context_digits)), d - context_digits))"

definition threshold_to_kib :: "threshold \<Rightarrow> nat \<Rightarrow> int res" where
  "threshold_to_kib value multiplier = (case value of
       D_finite c e \<Rightarrow>
         (if c < 0 then Inl ValueError
          else (let (p, k) = decimal_scale (nat c) multiplier; x = e + int k in
            if x \<ge> 0 then Inr (int p * 10 ^ nat x)
            else if p mod 10 ^ nat (- x) = 0 then Inr (int (p div 10 ^ nat (- x)))
            else Inl ValueError))
     | _ \<Rightarrow> Inl ValueError)"

definition KIB_PER_MIB :: nat where "KIB_PER_MIB = 1024"
definition KIB_PER_GIB :: nat where "KIB_PER_GIB = 1024 ^ 2"

section \<open>A trusted sample is consistent\<close>

definition sample_wf :: "memory_sample \<Rightarrow> bool" where
  "sample_wf m \<longleftrightarrow> 0 \<le> memavailable_kib m \<and> memavailable_kib m \<le> mem_total_kib m \<and>
     0 \<le> swap_free_kib m \<and> swap_free_kib m \<le> swap_total_kib m"

text \<open>The dict keeps one non-negative value for each required name it has seen.\<close>

definition values_inv :: "(string \<times> int) list \<Rightarrow> bool" where
  "values_inv vals \<longleftrightarrow> distinct (map fst vals) \<and>
     (\<forall>(k, v) \<in> set vals. k \<in> set required_fields \<and> 0 \<le> v)"

lemma meminfo_line_inv:
  assumes "meminfo_line vals line = Inr vals'" and "values_inv vals"
  shows "values_inv vals'"
  using assms
  by (auto simp: meminfo_line_def Let_def values_inv_def map_of_eq_None_iff
      split: prod.splits list.splits option.splits if_splits)

interpretation meminfo_loop: event_machine meminfo_line "[]" values_inv
  by unfold_locales (simp add: values_inv_def, rule meminfo_line_inv)

lemma field_value_nonneg: "values_inv vals \<Longrightarrow> 0 \<le> field_value vals name"
  by (auto simp: values_inv_def field_value_def split: option.splits dest: map_of_SomeD)

lemma parse_meminfo_values:
  assumes "parse_meminfo raw = Inr m"
  obtains s vals where "raw = PStr s" "fold_res meminfo_line [] (splitlines s) = Inr vals"
    "\<forall>name \<in> set required_fields. map_of vals name \<noteq> None"
    "m = \<lparr>mem_total_kib = field_value vals ''MemTotal'',
       memavailable_kib = field_value vals ''MemAvailable'',
       swap_total_kib = field_value vals ''SwapTotal'',
       swap_free_kib = field_value vals ''SwapFree''\<rparr>"
    "memavailable_kib m \<le> mem_total_kib m" "swap_free_kib m \<le> swap_total_kib m"
  using assms
  by (auto simp: parse_meminfo_def Let_def andThen_eq_Inr list_all_iff split: pyval.splits if_splits)

lemma parse_meminfo_wf:
  assumes "parse_meminfo raw = Inr m"
  shows "sample_wf m"
proof -
  from assms obtain s vals where run: "fold_res meminfo_line [] (splitlines s) = Inr vals"
      and m: "m = \<lparr>mem_total_kib = field_value vals ''MemTotal'',
        memavailable_kib = field_value vals ''MemAvailable'',
        swap_total_kib = field_value vals ''SwapTotal'',
        swap_free_kib = field_value vals ''SwapFree''\<rparr>"
      and le: "memavailable_kib m \<le> mem_total_kib m" "swap_free_kib m \<le> swap_total_kib m"
    by (rule parse_meminfo_values)
  from run have "values_inv vals" by (rule meminfo_loop.run_inv)
  with m le show ?thesis by (simp add: sample_wf_def field_value_nonneg)
qed

lemma meminfo_line_raises [raises]:
  "raises_only (range MeminfoError) (meminfo_line vals line)"
  by (auto simp: meminfo_line_def Let_def case_prod_unfold split: list.split option.split)

section \<open>Reading what the kernel prints\<close>

text \<open>The kernel prints one line per field: its name, a colon, spaces, the number and its unit.\<close>

definition kernel_line :: "string \<times> nat \<times> nat \<Rightarrow> string" where
  "kernel_line entry = (let (name, pad, n) = entry in
     name @ CHR '':'' # replicate pad (CHR '' '') @ show_nat n @ '' kB'')"

definition kernel_text :: "(string \<times> nat \<times> nat) list \<Rightarrow> string" where
  "kernel_text entries = concat (map (\<lambda>e. kernel_line e @ [LF]) entries)"

definition field_name :: "string \<Rightarrow> bool" where
  "field_name name \<longleftrightarrow> name \<noteq> [] \<and> CHR '':'' \<notin> set name \<and>
     list_all (\<lambda>c. \<not> is_space c \<and> c \<notin> text_breaks) name"

lemma splitlines_concat:
  "(\<And>l. l \<in> set ls \<Longrightarrow> set l \<inter> text_breaks = {}) \<Longrightarrow>
     splitlines (concat (map (\<lambda>l. l @ [LF]) ls)) = ls"
proof (induction ls)
  case Nil
  then show ?case by (simp add: splitlines_def)
next
  case (Cons l ls)
  have "splitlines (l @ LF # concat (map (\<lambda>l. l @ [LF]) ls))
      = lines_acc text_breaks [] (l @ [LF]) @ splitlines (concat (map (\<lambda>l. l @ [LF]) ls))"
    unfolding splitlines_def by (rule lines_acc_break) simp
  with Cons show ?case by (simp add: lines_acc_plain)
qed

lemma py_split_pad: "py_split (replicate k (CHR '' '') @ s) = py_split s"
  by (induction k) (simp_all add: py_split_space is_space_def)

lemma kernel_value_split: "py_split (replicate pad (CHR '' '') @ show_nat n @ '' kB'') = [show_nat n, ''kB'']"
proof -
  have "py_split ''kB'' = [''kB'']"
    by (rule py_split_word) (simp_all add: is_space_def LF_def CR_def)
  then show ?thesis
    using py_split_word(2) [OF show_nat_Nil conjunct2 [OF show_nat_digits], of "CHR '' ''" n "''kB''"]
    by (simp add: py_split_pad is_space_def)
qed

lemma meminfo_line_kernel:
  assumes "field_name name" and "n < 10 ^ max_str_digits" and "map_of vals name = None"
  shows "meminfo_line vals (kernel_line (name, pad, n))
    = Inr (if name \<in> set required_fields then vals @ [(name, int n)] else vals)"
proof -
  have "partition_at (CHR '':'') (kernel_line (name, pad, n))
      = (name, True, replicate pad (CHR '' '') @ show_nat n @ '' kB'')"
    using assms(1) by (simp add: kernel_line_def partition_at_first field_name_def)
  moreover have "py_strip name = name"
    using assms(1) by (intro py_strip_plain) (auto simp: field_name_def list_all_iff)
  ultimately show ?thesis
    using assms(3) parse_int_show [OF assms(2)] by (simp add: meminfo_line_def kernel_value_split)
qed

lemma meminfo_loop_kernel:
  assumes "\<forall>(name, pad, n) \<in> set es. field_name name \<and> n < 10 ^ max_str_digits"
    and "distinct (map fst es)" and "\<forall>e \<in> set es. map_of vals (fst e) = None"
  shows "fold_res meminfo_line vals (map kernel_line es)
    = Inr (vals @ map (\<lambda>(name, pad, n). (name, int n)) (filter (\<lambda>e. fst e \<in> set required_fields) es))"
  using assms
proof (induction es arbitrary: vals)
  case (Cons e es)
  obtain name pad n where e: "e = (name, pad, n)" by (cases e)
  with Cons.prems have "meminfo_line vals (kernel_line e)
      = Inr (if name \<in> set required_fields then vals @ [(name, int n)] else vals)"
    by (simp only: e) (intro meminfo_line_kernel; simp)
  moreover have "\<forall>e' \<in> set es. fst e' \<noteq> name"
    using Cons.prems(2) e by force
  with Cons.prems e have "fold_res meminfo_line (vals @ [(name, int n)]) (map kernel_line es)
      = Inr ((vals @ [(name, int n)]) @ map (\<lambda>(name, pad, n). (name, int n))
          (filter (\<lambda>e. fst e \<in> set required_fields) es))"
    by (intro Cons.IH) (auto simp: map_add_def)
  ultimately show ?case
    using Cons.prems Cons.IH [of vals] e by simp
qed simp

lemma show_nat_no_break: "set (show_nat n) \<inter> text_breaks = {}"
  using show_nat_digits [of n]
  by (auto simp: list_all_iff is_space_def text_breaks_def)

lemma kernel_line_no_break:
  "field_name name \<Longrightarrow> set (kernel_line (name, pad, n)) \<inter> text_breaks = {}"
  using show_nat_no_break [of n]
  by (auto simp: kernel_line_def field_name_def list_all_iff text_breaks_def LF_def CR_def)

lemma parse_kernel_text:
  assumes "\<forall>(name, pad, n) \<in> set es. field_name name \<and> n < 10 ^ max_str_digits"
    and "distinct (map fst es)" and "set required_fields \<subseteq> fst ` set es"
    and "\<And>name pad n. (name, pad, n) \<in> set es \<Longrightarrow> v name = int n"
    and "v ''MemAvailable'' \<le> v ''MemTotal''" and "v ''SwapFree'' \<le> v ''SwapTotal''"
  shows "parse_meminfo (PStr (kernel_text es)) =
    Inr \<lparr>mem_total_kib = v ''MemTotal'', memavailable_kib = v ''MemAvailable'',
      swap_total_kib = v ''SwapTotal'', swap_free_kib = v ''SwapFree''\<rparr>"
proof -
  let ?vals = "map (\<lambda>(name, pad, n). (name, int n)) (filter (\<lambda>e. fst e \<in> set required_fields) es)"
  have "splitlines (kernel_text es) = map kernel_line es"
    unfolding kernel_text_def
    using splitlines_concat [of "map kernel_line es"] assms(1) kernel_line_no_break
    by (fastforce simp: comp_def)
  then have run: "fold_res meminfo_line [] (splitlines (kernel_text es)) = Inr ?vals"
    using meminfo_loop_kernel [OF assms(1,2), of "[]"] by simp
  have val: "map_of ?vals name = Some (v name)" if "name \<in> set required_fields" for name
  proof -
    from that assms(3) obtain pad n where "(name, pad, n) \<in> set es" by force
    moreover have "distinct (map fst ?vals)"
      using assms(2) by (simp add: case_prod_unfold comp_def distinct_map_filter)
    ultimately show ?thesis
      using that assms(4) by (intro map_of_is_SomeI) force+
  qed
  with assms(5,6) show ?thesis
    by (simp add: parse_meminfo_def run field_value_def required_fields_def)
qed


section \<open>An example snapshot\<close>

definition example_meminfo :: "(string \<times> nat \<times> nat) list" where
  "example_meminfo = [(''MemTotal'', 7, 64), (''MemFree'', 7, 8), (''MemAvailable'', 3, 32),
     (''SwapTotal'', 6, 16), (''SwapFree'', 7, 15)]"

definition example_fields :: "string \<Rightarrow> int" where
  "example_fields name = (if name = ''MemTotal'' then 64 else if name = ''MemFree'' then 8
     else if name = ''MemAvailable'' then 32 else if name = ''SwapTotal'' then 16 else 15)"

lemma small_number: "n < 100 \<Longrightarrow> n < (10 :: nat) ^ max_str_digits"
proof -
  have "(2 :: nat) \<le> max_str_digits" by (simp add: max_str_digits_def)
  then have "(10 :: nat) ^ 2 \<le> 10 ^ max_str_digits" by (rule power_increasing) simp
  then show "n < 100 \<Longrightarrow> n < (10 :: nat) ^ max_str_digits" by simp
qed

lemma example_meminfo_ok:
  "\<forall>(name, pad, n) \<in> set example_meminfo. field_name name \<and> n < 10 ^ max_str_digits"
  "distinct (map fst example_meminfo)"
  "set required_fields \<subseteq> fst ` set example_meminfo"
  "(name, pad, n) \<in> set example_meminfo \<Longrightarrow> example_fields name = int n"
  "example_fields ''MemAvailable'' \<le> example_fields ''MemTotal''"
  "example_fields ''SwapFree'' \<le> example_fields ''SwapTotal''"
  by (auto simp: example_meminfo_def field_name_def is_space_def text_breaks_def LF_def CR_def
      required_fields_def example_fields_def small_number)

lemma example_meminfo_parsed:
  "parse_meminfo (PStr (kernel_text example_meminfo)) = Inr \<lparr>mem_total_kib = 64,
     memavailable_kib = 32, swap_total_kib = 16, swap_free_kib = 15\<rparr>"
  using parse_kernel_text [OF example_meminfo_ok] by (simp add: example_fields_def)

section \<open>Properties\<close>

text \<open>
  A sample that is returned can be trusted: available memory is between zero and the total,
  free swap between zero and the total, so the swap in use is never negative.
\<close>

theorem parse_meminfo_consistent:
  assumes "parse_meminfo raw = Inr m"
  shows "0 \<le> memavailable_kib m \<and> memavailable_kib m \<le> mem_total_kib m \<and>
    0 \<le> swap_used_kib m \<and> swap_used_kib m \<le> swap_total_kib m"
  using parse_meminfo_wf [OF assms] by (simp add: sample_wf_def swap_used_kib_def)

theorem parse_meminfo_consistent_witness:
  "(0 :: int) \<le> swap_used_kib \<lparr>mem_total_kib = 64, memavailable_kib = 32, swap_total_kib = 16,
     swap_free_kib = 15\<rparr>"
  using parse_meminfo_consistent [OF example_meminfo_parsed] by simp

text \<open>
  The text the kernel prints is read exactly: with one line per field, in any order, among
  any other fields, the sample holds the printed numbers.
\<close>

theorem parse_meminfo_reads_kernel_text:
  assumes "\<forall>(name, pad, n) \<in> set es. field_name name \<and> n < 10 ^ max_str_digits"
    and "distinct (map fst es)" and "set required_fields \<subseteq> fst ` set es"
    and "\<And>name pad n. (name, pad, n) \<in> set es \<Longrightarrow> v name = int n"
    and "v ''MemAvailable'' \<le> v ''MemTotal''" and "v ''SwapFree'' \<le> v ''SwapTotal''"
  shows "parse_meminfo (PStr (kernel_text es)) =
    Inr \<lparr>mem_total_kib = v ''MemTotal'', memavailable_kib = v ''MemAvailable'',
      swap_total_kib = v ''SwapTotal'', swap_free_kib = v ''SwapFree''\<rparr>"
  using assms by (rule parse_kernel_text)

theorem parse_meminfo_reads_kernel_text_witness:
  "parse_meminfo (PStr (kernel_text example_meminfo)) = Inr \<lparr>mem_total_kib = 64,
     memavailable_kib = 32, swap_total_kib = 16, swap_free_kib = 15\<rparr>"
  using parse_meminfo_reads_kernel_text [OF example_meminfo_ok] by (simp add: example_fields_def)

text \<open>
  A threshold is converted exactly: while the product fits the decimal context, the result
  is the whole number of KiB the threshold denotes, and a threshold that denotes a fraction of
  one is refused.
\<close>

theorem threshold_to_kib_exact:
  assumes "0 \<le> c" and "digit_count (nat c * m) \<le> context_digits"
  shows "threshold_to_kib (D_finite c e) m = Inr k \<longleftrightarrow>
    (if 0 \<le> e then k = c * int m * 10 ^ nat e else k * 10 ^ nat (- e) = c * int m)"
proof -
  have scale: "decimal_scale (nat c) m = (nat c * m, 0)"
    using assms(2) by (simp add: decimal_scale_def Let_def)
  show ?thesis
  proof (cases "0 \<le> e")
    case True
    then show ?thesis
      using assms(1) by (auto simp: threshold_to_kib_def scale)
  next
    case False
    have "(nat c * m) mod 10 ^ nat (- e) = 0 \<and> k = int ((nat c * m) div 10 ^ nat (- e)) \<longleftrightarrow>
        k * 10 ^ nat (- e) = c * int m"
    proof
      assume "(nat c * m) mod 10 ^ nat (- e) = 0 \<and> k = int ((nat c * m) div 10 ^ nat (- e))"
      then have "k * int (10 ^ nat (- e)) = int (nat c * m)"
        by (metis dvd_div_mult_self mod_0_imp_dvd of_nat_mult)
      with assms(1) show "k * 10 ^ nat (- e) = c * int m" by simp
    next
      assume k: "k * 10 ^ nat (- e) = c * int m"
      with assms(1) have "0 \<le> k" by (metis mult_nonneg_nonneg of_nat_0_le_iff
          zero_le_mult_iff zero_less_numeral zero_less_power not_less)
      then obtain j where j: "k = int j" by (metis nonneg_int_cases)
      from k have "int (j * 10 ^ nat (- e)) = int (nat c * m)" using assms(1) by (simp add: j)
      then have "nat c * m = j * 10 ^ nat (- e)" by linarith
      then show "(nat c * m) mod 10 ^ nat (- e) = 0 \<and> k = int ((nat c * m) div 10 ^ nat (- e))"
        by (simp add: j)
    qed
    with False assms(1) show ?thesis by (auto simp: threshold_to_kib_def scale)
  qed
qed

theorem threshold_to_kib_exact_witness: "threshold_to_kib (D_finite 15 (- 1)) KIB_PER_MIB = Inr 1536"
  using threshold_to_kib_exact [of 15 KIB_PER_MIB "- 1" 1536]
  by (simp add: KIB_PER_MIB_def digit_count.simps context_digits_def)

end
