(* ===== verification/Host_Watchdog.thy ===== *)
theory Host_Watchdog
  imports Host_Meminfo "HOL-Library.Multiset"
begin

text \<open>
  \<open>HostSafetyWatchdog\<close> of \<open>bench/host_safety.py\<close>. The record \<open>watchdog\<close> holds the fields
  of the object; every block the code runs under its lock is one function on it, and a method is
  the composition of its blocks. The methods run on several threads, so the last part is a step
  relation in which the blocks of any number of concurrent calls interleave. A callback is an
  identity; what its call raises is a parameter.
\<close>

section \<open>The object\<close>

datatype failure_code =
    Meminfo_read_failed | Meminfo_rejected meminfo_code | Swap_total_changed
  | Memavailable_below_minimum | Starting_swap_above_maximum | Swap_growth_above_maximum
  | Monitor_thread_failed

record safety_failure =
  code :: failure_code
  sample :: "memory_sample option"
  observed_kib :: "int option"
  limit_kib :: "int option"
  failure_starting_swap_kib :: "int option"

record watchdog =
  min_memavailable_kib :: int
  max_swap_growth_kib :: int
  max_starting_swap_kib :: int
  stop_requested :: bool
  thread_known :: bool
  started :: bool
  closed :: bool
  failure :: "safety_failure option"
  last_sample :: "memory_sample option"
  starting_swap_total_kib :: "int option"
  starting_swap_used_kib :: "int option"
  abort_callback :: "nat option"
  callback_registered :: bool
  callback_invoked :: bool
  callback_error :: "exn option"

text \<open>\<open>__init__\<close>, after the checks of its other arguments.\<close>

definition new_watchdog :: "threshold \<Rightarrow> threshold \<Rightarrow> threshold \<Rightarrow> watchdog res" where
  "new_watchdog min_available growth starting =
     andThen (threshold_to_kib min_available KIB_PER_GIB) (\<lambda>min_kib.
     andThen (threshold_to_kib growth KIB_PER_MIB) (\<lambda>growth_kib.
     andThen (threshold_to_kib starting KIB_PER_MIB) (\<lambda>starting_kib.
       Inr \<lparr>min_memavailable_kib = min_kib, max_swap_growth_kib = growth_kib,
         max_starting_swap_kib = starting_kib, stop_requested = False, thread_known = False,
         started = False, closed = False, failure = None, last_sample = None,
         starting_swap_total_kib = None, starting_swap_used_kib = None, abort_callback = None,
         callback_registered = False, callback_invoked = False, callback_error = None\<rparr>)))"

text \<open>\<open>HostSafetyError(code, message)\<close> without and with the evidence of a sample.\<close>

definition plain_failure :: "failure_code \<Rightarrow> safety_failure" where
  "plain_failure c = \<lparr>code = c, sample = None, observed_kib = None, limit_kib = None,
     failure_starting_swap_kib = None\<rparr>"

definition sample_failure ::
  "failure_code \<Rightarrow> memory_sample \<Rightarrow> int \<Rightarrow> int \<Rightarrow> int \<Rightarrow> safety_failure" where
  "sample_failure c m observed limit starting = \<lparr>code = c, sample = Some m,
     observed_kib = Some observed, limit_kib = Some limit,
     failure_starting_swap_kib = Some starting\<rparr>"

section \<open>The blocks under the lock\<close>

text \<open>\<open>_trip\<close>: only the first failure is kept; the callback it hands out is called afterwards.\<close>

definition trip_lock :: "safety_failure \<Rightarrow> watchdog \<Rightarrow> watchdog \<times> nat option" where
  "trip_lock f w =
     (if failure w \<noteq> None then (w, None)
      else (let w' = w\<lparr>failure := Some f, stop_requested := True\<rparr> in
        if abort_callback w' \<noteq> None \<and> \<not> callback_invoked w'
        then (w'\<lparr>callback_invoked := True\<rparr>, abort_callback w')
        else (w', None)))"

definition register_lock :: "nat \<Rightarrow> watchdog \<Rightarrow> (watchdog \<times> nat option) res" where
  "register_lock k w =
     (if callback_registered w then Inl RuntimeError
      else (let w' = w\<lparr>callback_registered := True, abort_callback := Some k\<rparr> in
        if failure w' \<noteq> None \<and> \<not> callback_invoked w'
        then Inr (w'\<lparr>callback_invoked := True\<rparr>, Some k)
        else Inr (w', None)))"

text \<open>
  The second block of \<open>sample_once\<close>: the sample is stored, the first one becomes the baseline,
  and the failure it shows, if any, is handed out.
\<close>

definition evaluate_lock :: "memory_sample \<Rightarrow> watchdog \<Rightarrow> watchdog \<times> safety_failure option" where
  "evaluate_lock m w =
     (let starting = starting_swap_used_kib w = None;
          w' = (if starting
            then w\<lparr>last_sample := Some m, starting_swap_total_kib := Some (swap_total_kib m),
              starting_swap_used_kib := Some (swap_used_kib m)\<rparr>
            else w\<lparr>last_sample := Some m\<rparr>);
          total = the (starting_swap_total_kib w');
          used = the (starting_swap_used_kib w');
          growth = swap_used_kib m - used
      in (w',
        if \<not> starting \<and> swap_total_kib m \<noteq> total
        then Some (sample_failure Swap_total_changed m (swap_total_kib m) total used)
        else if memavailable_kib m < min_memavailable_kib w'
        then Some (sample_failure Memavailable_below_minimum m (memavailable_kib m)
          (min_memavailable_kib w') used)
        else if starting \<and> swap_used_kib m > max_starting_swap_kib w'
        then Some (sample_failure Starting_swap_above_maximum m (swap_used_kib m)
          (max_starting_swap_kib w') used)
        else if growth > max_swap_growth_kib w'
        then Some (sample_failure Swap_growth_above_maximum m growth (max_swap_growth_kib w') used)
        else None))"

section \<open>The methods\<close>

text \<open>\<open>_invoke_abort_callback\<close>, with what the callback raises.\<close>

definition invoke_callback :: "exn option \<Rightarrow> watchdog \<Rightarrow> watchdog" where
  "invoke_callback raised w = (case raised of None \<Rightarrow> w | Some e \<Rightarrow> w\<lparr>callback_error := Some e\<rparr>)"

definition call_if :: "(nat \<Rightarrow> exn option) \<Rightarrow> watchdog \<times> nat option \<Rightarrow> watchdog" where
  "call_if callbacks r =
     (case snd r of None \<Rightarrow> fst r | Some k \<Rightarrow> invoke_callback (callbacks k) (fst r))"

definition trip :: "(nat \<Rightarrow> exn option) \<Rightarrow> safety_failure \<Rightarrow> watchdog \<Rightarrow> watchdog" where
  "trip callbacks f w = call_if callbacks (trip_lock f w)"

definition register_abort_callback ::
  "(nat \<Rightarrow> exn option) \<Rightarrow> nat \<Rightarrow> watchdog \<Rightarrow> watchdog res" where
  "register_abort_callback callbacks k w =
     andThen (register_lock k w) (\<lambda>r. Inr (call_if callbacks r))"

text \<open>What the injected reader does: it raises, or returns a value.\<close>

datatype reading = Reader_raised | Reader_returned pyval

definition sample_once ::
  "(nat \<Rightarrow> exn option) \<Rightarrow> reading \<Rightarrow> watchdog \<Rightarrow> watchdog \<times> memory_sample option" where
  "sample_once callbacks r w =
     (if failure w \<noteq> None then (w, None)
      else case r of
        Reader_raised \<Rightarrow> (trip callbacks (plain_failure Meminfo_read_failed) w, None)
      | Reader_returned raw \<Rightarrow>
          (case parse_meminfo raw of
             Inl (MeminfoError c) \<Rightarrow> (trip callbacks (plain_failure (Meminfo_rejected c)) w, None)
           | Inl e \<Rightarrow> (w, None)
           | Inr m \<Rightarrow> (case evaluate_lock m w of
               (w', None) \<Rightarrow> (w', Some m)
             | (w', Some f) \<Rightarrow> (trip callbacks f w', Some m))))"

datatype watchdog_error = Already_started | Already_stopped | Tripped safety_failure

text \<open>
  \<open>raise_if_tripped\<close>: \<open>on_monitor\<close> tells whether the caller is the monitor thread, \<open>alive\<close>
  whether that thread is alive.
\<close>

definition raise_if_tripped ::
  "(nat \<Rightarrow> exn option) \<Rightarrow> bool \<Rightarrow> bool \<Rightarrow> watchdog \<Rightarrow> watchdog \<times> (watchdog_error + unit)" where
  "raise_if_tripped callbacks on_monitor alive w =
     (let w' = (if failure w = None \<and> started w \<and> \<not> closed w \<and> thread_known w
                  \<and> \<not> on_monitor \<and> \<not> alive
                then trip callbacks (plain_failure Monitor_thread_failed) w else w)
      in (w', case failure w' of None \<Rightarrow> Inr () | Some f \<Rightarrow> Inl (Tripped f)))"

text \<open>
  \<open>start\<close>: \<open>thread_starts\<close> tells whether the new thread starts, and \<open>monitor\<close> is what that
  thread does to the object before the final check.
\<close>

definition start ::
  "(nat \<Rightarrow> exn option) \<Rightarrow> reading \<Rightarrow> bool \<Rightarrow> (watchdog \<Rightarrow> watchdog) \<Rightarrow> bool \<Rightarrow> watchdog
     \<Rightarrow> watchdog \<times> (watchdog_error + unit)" where
  "start callbacks r thread_starts monitor alive w =
     (if started w then (w, Inl Already_started)
      else if closed w then (w, Inl Already_stopped)
      else (let w1 = fst (sample_once callbacks r w) in
        case raise_if_tripped callbacks False alive w1 of
          (w2, Inl e) \<Rightarrow> (w2, Inl e)
        | (w2, Inr _) \<Rightarrow>
           (if \<not> thread_starts
            then raise_if_tripped callbacks False alive
              (trip callbacks (plain_failure Monitor_thread_failed) (w2\<lparr>thread_known := False\<rparr>))
            else raise_if_tripped callbacks False alive
              ((monitor (w2\<lparr>thread_known := True\<rparr>))\<lparr>started := True\<rparr>))))"

definition stop :: "(nat \<Rightarrow> exn option) \<Rightarrow> bool \<Rightarrow> bool \<Rightarrow> watchdog \<Rightarrow> watchdog" where
  "stop callbacks on_monitor alive_after_join w =
     (let w' = w\<lparr>closed := True, stop_requested := True\<rparr> in
      if thread_known w' \<and> \<not> on_monitor \<and> alive_after_join
      then trip callbacks (plain_failure Monitor_thread_failed) w' else w')"



section \<open>Interleaved threads\<close>

text \<open>
  What the threads still have to do between their blocks: read a snapshot, evaluate a parsed
  sample, record a failure, call the callback. \<open>calls\<close> lists the finished calls of the callback
  and \<open>evaluated\<close> the samples evaluated so far, in order.
\<close>

datatype pending =
    To_read | To_evaluate memory_sample | To_trip safety_failure | To_call nat

record system =
  dog :: watchdog
  todo :: "pending multiset"
  calls :: "nat list"
  evaluated :: "memory_sample list"

definition opt_mset :: "('a \<Rightarrow> pending) \<Rightarrow> 'a option \<Rightarrow> pending multiset" where
  "opt_mset f x = (case x of None \<Rightarrow> {#} | Some y \<Rightarrow> {#f y#})"

inductive watchdog_step :: "system \<Rightarrow> system \<Rightarrow> bool" where
  begin_sample: "failure (dog s) = None \<Longrightarrow>
    watchdog_step s (s\<lparr>todo := add_mset To_read (todo s)\<rparr>)"
| read_raises: "todo s = add_mset To_read rest \<Longrightarrow>
    watchdog_step s (s\<lparr>todo := add_mset (To_trip (plain_failure Meminfo_read_failed)) rest\<rparr>)"
| read_rejected: "todo s = add_mset To_read rest \<Longrightarrow> parse_meminfo raw = Inl (MeminfoError c) \<Longrightarrow>
    watchdog_step s (s\<lparr>todo := add_mset (To_trip (plain_failure (Meminfo_rejected c))) rest\<rparr>)"
| read_parsed: "todo s = add_mset To_read rest \<Longrightarrow> parse_meminfo raw = Inr m \<Longrightarrow>
    watchdog_step s (s\<lparr>todo := add_mset (To_evaluate m) rest\<rparr>)"
| evaluate: "todo s = add_mset (To_evaluate m) rest \<Longrightarrow> failure (dog s) = None \<Longrightarrow>
    evaluate_lock m (dog s) = (d, found) \<Longrightarrow>
    watchdog_step s (s\<lparr>dog := d, todo := opt_mset To_trip found + rest, evaluated := evaluated s @ [m]\<rparr>)"
| evaluate_late: "todo s = add_mset (To_evaluate m) rest \<Longrightarrow> failure (dog s) \<noteq> None \<Longrightarrow>
    watchdog_step s (s\<lparr>todo := rest\<rparr>)"
| do_trip: "todo s = add_mset (To_trip f) rest \<Longrightarrow> trip_lock f (dog s) = (d, callback) \<Longrightarrow>
    watchdog_step s (s\<lparr>dog := d, todo := opt_mset To_call callback + rest\<rparr>)"
| monitor_fails: "watchdog_step s
    (s\<lparr>todo := add_mset (To_trip (plain_failure Monitor_thread_failed)) (todo s)\<rparr>)"
| register: "register_lock k (dog s) = Inr (d, callback) \<Longrightarrow>
    watchdog_step s (s\<lparr>dog := d, todo := opt_mset To_call callback + todo s\<rparr>)"
| call: "todo s = add_mset (To_call k) rest \<Longrightarrow>
    watchdog_step s (s\<lparr>dog := invoke_callback raised (dog s), todo := rest, calls := calls s @ [k]\<rparr>)"
| request_stop: "watchdog_step s (s\<lparr>dog := (dog s)\<lparr>closed := True, stop_requested := True\<rparr>\<rparr>)"
| thread_made: "watchdog_step s (s\<lparr>dog := (dog s)\<lparr>thread_known := b\<rparr>\<rparr>)"
| mark_started: "watchdog_step s (s\<lparr>dog := (dog s)\<lparr>started := True\<rparr>\<rparr>)"

text \<open>A new object, before any method is called.\<close>

definition fresh :: "watchdog \<Rightarrow> bool" where
  "fresh w \<longleftrightarrow> failure w = None \<and> last_sample w = None \<and> starting_swap_total_kib w = None \<and>
     starting_swap_used_kib w = None \<and> abort_callback w = None \<and> \<not> callback_registered w \<and>
     \<not> callback_invoked w \<and> callback_error w = None"

definition initial_system :: "system \<Rightarrow> bool" where
  "initial_system s \<longleftrightarrow> fresh (dog s) \<and> todo s = {#} \<and> calls s = [] \<and> evaluated s = []"

text \<open>A sample that the thresholds admit, against the first sample as the baseline.\<close>

definition admissible :: "watchdog \<Rightarrow> memory_sample \<Rightarrow> memory_sample \<Rightarrow> bool" where
  "admissible w first m \<longleftrightarrow>
     swap_total_kib m = swap_total_kib first \<and>
     min_memavailable_kib w \<le> memavailable_kib m \<and>
     swap_used_kib first \<le> max_starting_swap_kib w \<and>
     swap_used_kib m - swap_used_kib first \<le> max_swap_growth_kib w"

fun calls_of :: "pending \<Rightarrow> nat" where
  "calls_of (To_call k) = 1"
| "calls_of _ = 0"

definition call_count :: "system \<Rightarrow> nat" where
  "call_count s = length (calls s) + (\<Sum>x\<in>#todo s. calls_of x)"

definition callback_inv :: "system \<Rightarrow> bool" where
  "callback_inv s \<longleftrightarrow>
     (callback_registered (dog s) \<longleftrightarrow> abort_callback (dog s) \<noteq> None) \<and>
     (callback_invoked (dog s) \<longleftrightarrow> failure (dog s) \<noteq> None \<and> callback_registered (dog s)) \<and>
     call_count s = (if callback_invoked (dog s) then 1 else 0) \<and>
     (\<forall>k. k \<in> set (calls s) \<or> To_call k \<in># todo s \<longrightarrow> abort_callback (dog s) = Some k) \<and>
     (failure (dog s) \<noteq> None \<longrightarrow> stop_requested (dog s))"

definition baseline_inv :: "system \<Rightarrow> bool" where
  "baseline_inv s \<longleftrightarrow>
     (case evaluated s of
        [] \<Rightarrow> starting_swap_used_kib (dog s) = None \<and> last_sample (dog s) = None
      | first # _ \<Rightarrow> starting_swap_total_kib (dog s) = Some (swap_total_kib first) \<and>
          starting_swap_used_kib (dog s) = Some (swap_used_kib first) \<and>
          last_sample (dog s) = Some (last (evaluated s)) \<and>
          (failure (dog s) = None \<and> (\<forall>f. To_trip f \<notin># todo s) \<longrightarrow>
             (\<forall>m \<in> set (evaluated s). admissible (dog s) first m)))"

definition system_inv :: "system \<Rightarrow> bool" where
  "system_inv s \<longleftrightarrow> callback_inv s \<and> baseline_inv s"

text \<open>What no block takes back: the failure, the baseline, the callback and the thresholds.\<close>

definition latched :: "system \<Rightarrow> system \<Rightarrow> bool" where
  "latched s t \<longleftrightarrow>
     (failure (dog s) \<noteq> None \<longrightarrow> failure (dog t) = failure (dog s)) \<and>
     (starting_swap_used_kib (dog s) \<noteq> None \<longrightarrow>
        starting_swap_used_kib (dog t) = starting_swap_used_kib (dog s) \<and>
        starting_swap_total_kib (dog t) = starting_swap_total_kib (dog s)) \<and>
     (abort_callback (dog s) \<noteq> None \<longrightarrow> abort_callback (dog t) = abort_callback (dog s)) \<and>
     min_memavailable_kib (dog t) = min_memavailable_kib (dog s) \<and>
     max_swap_growth_kib (dog t) = max_swap_growth_kib (dog s) \<and>
     max_starting_swap_kib (dog t) = max_starting_swap_kib (dog s) \<and>
     prefix (calls s) (calls t) \<and> prefix (evaluated s) (evaluated t)"

section \<open>The blocks, one by one\<close>

lemma opt_mset_simps [simp]:
  "opt_mset f None = {#}" "opt_mset f (Some y) = {#f y#}"
  by (simp_all add: opt_mset_def)

lemma invoke_callback_fields [simp]:
  "failure (invoke_callback raised w) = failure w"
  "stop_requested (invoke_callback raised w) = stop_requested w"
  "starting_swap_used_kib (invoke_callback raised w) = starting_swap_used_kib w"
  "starting_swap_total_kib (invoke_callback raised w) = starting_swap_total_kib w"
  "last_sample (invoke_callback raised w) = last_sample w"
  "abort_callback (invoke_callback raised w) = abort_callback w"
  "callback_registered (invoke_callback raised w) = callback_registered w"
  "callback_invoked (invoke_callback raised w) = callback_invoked w"
  "min_memavailable_kib (invoke_callback raised w) = min_memavailable_kib w"
  "max_swap_growth_kib (invoke_callback raised w) = max_swap_growth_kib w"
  "max_starting_swap_kib (invoke_callback raised w) = max_starting_swap_kib w"
  "started (invoke_callback raised w) = started w"
  by (simp_all add: invoke_callback_def split: option.split)

lemma admissible_invoke [simp]: "admissible (invoke_callback raised w) = admissible w"
  by (intro ext) (simp add: admissible_def)

lemma trip_lock_fields:
  assumes "trip_lock f w = (w', callback)"
  shows "failure w' = (if failure w = None then Some f else failure w)"
    and "starting_swap_used_kib w' = starting_swap_used_kib w"
    and "starting_swap_total_kib w' = starting_swap_total_kib w"
    and "last_sample w' = last_sample w"
    and "abort_callback w' = abort_callback w"
    and "callback_registered w' = callback_registered w"
    and "admissible w' = admissible w"
    and "min_memavailable_kib w' = min_memavailable_kib w"
    and "max_swap_growth_kib w' = max_swap_growth_kib w"
    and "max_starting_swap_kib w' = max_starting_swap_kib w"
    and "started w' = started w"
  using assms by (auto simp: trip_lock_def Let_def admissible_def fun_eq_iff split: if_splits)

lemma trip_lock_late: "failure w \<noteq> None \<Longrightarrow> trip_lock f w = (w, None)"
  by (simp add: trip_lock_def)

lemma trip_lock_first:
  assumes "trip_lock f w = (w', callback)" and "failure w = None"
  shows "callback = (if callback_invoked w then None else abort_callback w)"
    and "callback_invoked w' \<longleftrightarrow> callback_invoked w \<or> abort_callback w \<noteq> None"
    and "stop_requested w'"
  using assms by (cases "abort_callback w"; auto simp: trip_lock_def Let_def split: if_splits)+

lemma evaluate_lock_fields:
  assumes "evaluate_lock m w = (w', found)"
  shows "failure w' = failure w" and "last_sample w' = Some m"
    and "abort_callback w' = abort_callback w"
    and "callback_registered w' = callback_registered w"
    and "callback_invoked w' = callback_invoked w"
    and "stop_requested w' = stop_requested w"
    and "admissible w' = admissible w"
    and "min_memavailable_kib w' = min_memavailable_kib w"
    and "max_swap_growth_kib w' = max_swap_growth_kib w"
    and "max_starting_swap_kib w' = max_starting_swap_kib w"
    and "started w' = started w"
    and "thread_known w' = thread_known w"
  using assms by (auto simp: evaluate_lock_def Let_def admissible_def fun_eq_iff split: if_splits)

text \<open>The evaluation finds a failure exactly when the sample is not admissible.\<close>

lemma evaluate_first:
  assumes "evaluate_lock m w = (w', found)" and "starting_swap_used_kib w = None"
  shows "starting_swap_used_kib w' = Some (swap_used_kib m)"
    and "starting_swap_total_kib w' = Some (swap_total_kib m)"
    and "0 \<le> max_swap_growth_kib w \<Longrightarrow> found = None \<longleftrightarrow> admissible w m m"
    and "found = None \<Longrightarrow> admissible w m m"
  using assms by (auto simp: evaluate_lock_def Let_def admissible_def split: if_splits)

lemma evaluate_later:
  assumes "evaluate_lock m w = (w', found)"
    and "starting_swap_used_kib w = Some (swap_used_kib first)"
    and "starting_swap_total_kib w = Some (swap_total_kib first)"
  shows "starting_swap_used_kib w' = starting_swap_used_kib w"
    and "starting_swap_total_kib w' = starting_swap_total_kib w"
    and "swap_used_kib first \<le> max_starting_swap_kib w \<Longrightarrow> found = None \<longleftrightarrow> admissible w first m"
  using assms by (auto simp: evaluate_lock_def Let_def admissible_def split: if_splits)

section \<open>The invariant is kept by every interleaving\<close>

lemma callback_step:
  assumes "watchdog_step s t" and "callback_inv s"
  shows "callback_inv t"
  using assms
proof (cases rule: watchdog_step.cases)
  case (evaluate m rest d found)
  with assms(2) evaluate_lock_fields [OF evaluate(4)] show ?thesis
    by (cases found) (auto simp: callback_inv_def call_count_def)
next
  case (do_trip f rest d callback)
  with assms(2) show ?thesis
  proof (cases "failure (dog s)")
    case None
    from do_trip None assms(2) trip_lock_fields [OF do_trip(3)]
      trip_lock_first [OF do_trip(3) None] show ?thesis
      by (cases "abort_callback (dog s)") (auto simp: callback_inv_def call_count_def)
  next
    case (Some g)
    with do_trip assms(2) show ?thesis
      by (auto simp: trip_lock_late callback_inv_def call_count_def)
  qed
next
  case (register k d callback)
  with assms(2) show ?thesis
    by (auto simp: register_lock_def Let_def callback_inv_def call_count_def split: if_splits)
next
  case (call k rest raised)
  from assms(2) call(2) have "abort_callback (dog s) = Some k" by (auto simp: callback_inv_def)
  moreover from assms(2) call(2)
  have "\<forall>k'. k' \<in> set (calls s) \<or> To_call k' \<in># rest \<longrightarrow> abort_callback (dog s) = Some k'"
    unfolding callback_inv_def by (metis insert_DiffM2 union_iff add_mset_remove_trivial in_diffD)
  ultimately show ?thesis
    using assms(2) call by (auto simp: callback_inv_def call_count_def)
qed (auto simp: callback_inv_def call_count_def)

lemma baseline_step:
  assumes "watchdog_step s t" and "baseline_inv s"
  shows "baseline_inv t"
  using assms
proof (cases rule: watchdog_step.cases)
  case (evaluate m rest d found)
  note fields = evaluate_lock_fields [OF evaluate(4)]
  show ?thesis
  proof (cases "evaluated s")
    case Nil
    with assms(2) have "starting_swap_used_kib (dog s) = None" by (simp add: baseline_inv_def)
    with evaluate fields evaluate_first [OF evaluate(4)] Nil show ?thesis
      by (cases found) (auto simp: baseline_inv_def)
  next
    case (Cons first es)
    with assms(2) have base: "starting_swap_used_kib (dog s) = Some (swap_used_kib first)"
        "starting_swap_total_kib (dog s) = Some (swap_total_kib first)"
      and old: "failure (dog s) = None \<and> (\<forall>f. To_trip f \<notin># todo s) \<Longrightarrow>
        \<forall>m \<in> set (evaluated s). admissible (dog s) first m"
      by (simp_all add: baseline_inv_def)
    have "admissible (dog s) first first \<Longrightarrow> swap_used_kib first \<le> max_starting_swap_kib (dog s)"
      by (simp add: admissible_def)
    with evaluate fields evaluate_later [OF evaluate(4) base] base old Cons show ?thesis
      by (cases found) (auto simp: baseline_inv_def)
  qed
next
  case (do_trip f rest d callback)
  with assms(2) trip_lock_fields [OF do_trip(3)] show ?thesis
    by (auto simp: baseline_inv_def split: list.splits)
next
  case (register k d callback)
  with assms(2) show ?thesis
    by (auto simp: register_lock_def Let_def baseline_inv_def admissible_def
        split: if_splits list.splits)
qed (auto simp: baseline_inv_def admissible_def split: list.splits)

lemma latched_step:
  assumes "watchdog_step s t" and "system_inv s"
  shows "latched s t"
  using assms
proof (cases rule: watchdog_step.cases)
  case (evaluate m rest d found)
  with evaluate_lock_fields [OF evaluate(4)] show ?thesis
    by (auto simp: latched_def evaluate_lock_def Let_def split: if_splits)
next
  case (do_trip f rest d callback)
  with trip_lock_fields [OF do_trip(3)] show ?thesis by (auto simp: latched_def)
next
  case (register k d callback)
  with assms(2) show ?thesis
    by (auto simp: register_lock_def Let_def latched_def system_inv_def callback_inv_def
        split: if_splits)
qed (auto simp: latched_def)

lemma latched_refl: "latched s s"
  by (simp add: latched_def)

lemma latched_trans: "latched s t \<Longrightarrow> latched t u \<Longrightarrow> latched s u"
  by (auto simp: latched_def intro: prefix_order.trans)

lemma initial_system_inv: "initial_system s \<Longrightarrow> system_inv s"
  by (simp add: initial_system_def fresh_def system_inv_def callback_inv_def baseline_inv_def
      call_count_def)

lemma system_step: "watchdog_step s t \<Longrightarrow> system_inv s \<Longrightarrow> system_inv t"
  by (auto simp: system_inv_def intro: callback_step baseline_step)

interpretation watchdog: stepping_system watchdog_step initial_system system_inv latched
  by unfold_locales
    (fact initial_system_inv system_step latched_refl latched_trans latched_step)+

section \<open>A sequential sample is an interleaving\<close>

text \<open>
  \<open>sample_once\<close> on one thread, with nothing else pending, is a path of the step relation: the
  facts about interleavings are facts about the method.
\<close>

definition alone :: "watchdog \<Rightarrow> nat list \<Rightarrow> memory_sample list \<Rightarrow> system" where
  "alone w cs ms = \<lparr>dog = w, todo = {#}, calls = cs, evaluated = ms\<rparr>"

lemma trip_path:
  assumes "todo s = {#To_trip f#}"
  shows "\<exists>cs. watchdog_step\<^sup>*\<^sup>* s (s\<lparr>dog := trip callbacks f (dog s), todo := {#}, calls := calls s @ cs\<rparr>)"
proof -
  obtain d callback where lock: "trip_lock f (dog s) = (d, callback)" by fastforce
  have first: "watchdog_step s (s\<lparr>dog := d, todo := opt_mset To_call callback + {#}\<rparr>)"
    using assms lock by (intro do_trip) simp_all
  show ?thesis
  proof (cases callback)
    case None
    with first lock show ?thesis
      by (auto simp: trip_def call_if_def intro!: exI [of _ "[]"])
  next
    case (Some k)
    let ?s = "s\<lparr>dog := d, todo := opt_mset To_call callback + {#}\<rparr>"
    have "watchdog_step ?s (?s\<lparr>dog := invoke_callback (callbacks k) (dog ?s), todo := {#},
        calls := calls ?s @ [k]\<rparr>)"
      using Some by (intro call) simp
    with first have "watchdog_step\<^sup>*\<^sup>* s (?s\<lparr>dog := invoke_callback (callbacks k) (dog ?s),
        todo := {#}, calls := calls ?s @ [k]\<rparr>)"
      by (rule converse_rtranclp_into_rtranclp [OF _ r_into_rtranclp])
    with Some lock show ?thesis
      by (auto simp: trip_def call_if_def intro!: exI [of _ "[k]"])
  qed
qed

lemma parse_meminfo_raises: "raises_only (range MeminfoError) (parse_meminfo raw)"
  unfolding parse_meminfo_def Let_def
  by (cases raw) (auto intro!: raises raises_only_fold_res [where I = "\<lambda>_. True"])

lemma sample_path_evaluate:
  assumes "failure w = None" and "parse_meminfo raw = Inr m" and "evaluate_lock m w = (w', found)"
  shows "watchdog_step\<^sup>*\<^sup>* (alone w cs ms)
    (alone w' cs (ms @ [m])\<lparr>todo := opt_mset To_trip found\<rparr>)"
proof -
  let ?s = "alone w cs ms"
  have "watchdog_step ?s (?s\<lparr>todo := add_mset To_read (todo ?s)\<rparr>)"
    using assms(1) by (intro begin_sample) (simp add: alone_def)
  moreover have "watchdog_step (?s\<lparr>todo := add_mset To_read (todo ?s)\<rparr>) (?s\<lparr>todo := {#To_evaluate m#}\<rparr>)"
    using read_parsed [of "?s\<lparr>todo := add_mset To_read (todo ?s)\<rparr>" "{#}" raw m] assms(2)
    by (simp add: alone_def)
  moreover have "watchdog_step (?s\<lparr>todo := {#To_evaluate m#}\<rparr>)
      (alone w' cs (ms @ [m])\<lparr>todo := opt_mset To_trip found\<rparr>)"
    using evaluate [of "?s\<lparr>todo := {#To_evaluate m#}\<rparr>" m "{#}" w' found] assms
    by (simp add: alone_def)
  ultimately show ?thesis
    by (meson converse_rtranclp_into_rtranclp rtranclp.rtrancl_refl)
qed

lemma sample_path_trip:
  assumes "failure w = None"
    and "f = plain_failure Meminfo_read_failed \<or>
      (\<exists>raw c. parse_meminfo raw = Inl (MeminfoError c) \<and> f = plain_failure (Meminfo_rejected c))"
  shows "watchdog_step\<^sup>*\<^sup>* (alone w cs ms) (alone w cs ms\<lparr>todo := {#To_trip f#}\<rparr>)"
proof -
  let ?s = "alone w cs ms"
  have "watchdog_step ?s (?s\<lparr>todo := add_mset To_read (todo ?s)\<rparr>)"
    using assms(1) by (intro begin_sample) (simp add: alone_def)
  moreover have "watchdog_step (?s\<lparr>todo := add_mset To_read (todo ?s)\<rparr>) (?s\<lparr>todo := {#To_trip f#}\<rparr>)"
    using read_raises [of "?s\<lparr>todo := add_mset To_read (todo ?s)\<rparr>" "{#}"]
      read_rejected [of "?s\<lparr>todo := add_mset To_read (todo ?s)\<rparr>" "{#}"] assms(2)
    by (auto simp: alone_def)
  ultimately show ?thesis
    by (meson converse_rtranclp_into_rtranclp rtranclp.rtrancl_refl)
qed

lemma alone_trip_path:
  "\<exists>cs'. watchdog_step\<^sup>*\<^sup>* (alone w cs ms\<lparr>todo := {#To_trip f#}\<rparr>) (alone (trip callbacks f w) (cs @ cs') ms)"
  using trip_path [of "alone w cs ms\<lparr>todo := {#To_trip f#}\<rparr>" f callbacks] by (auto simp: alone_def)

lemma sample_once_steps:
  "\<exists>cs' ms'. watchdog_step\<^sup>*\<^sup>* (alone w cs ms)
     (alone (fst (sample_once callbacks r w)) (cs @ cs') (ms @ ms'))"
proof -
  have stay: ?thesis if "fst (sample_once callbacks r w) = w"
    using that by (intro exI [of _ "[]"]) simp
  have tripped: ?thesis if "failure w = None" "fst (sample_once callbacks r w) = trip callbacks f w"
      "f = plain_failure Meminfo_read_failed \<or>
        (\<exists>raw c. parse_meminfo raw = Inl (MeminfoError c) \<and> f = plain_failure (Meminfo_rejected c))" for f
    using sample_path_trip [OF that(1,3), of cs ms] alone_trip_path [where w = w and cs = cs and ms = ms and f = f and callbacks = callbacks] that(2)
    by (metis append_Nil2 rtranclp_trans)
  show ?thesis
  proof (cases "failure w")
    case (Some f)
    then show ?thesis by (intro stay) (simp add: sample_once_def)
  next
    case ok: None
    show ?thesis
    proof (cases r)
      case Reader_raised
      with ok show ?thesis by (intro tripped [of "plain_failure Meminfo_read_failed"])
        (simp_all add: sample_once_def)
    next
      case (Reader_returned raw)
      show ?thesis
      proof (cases "parse_meminfo raw")
        case (Inl e)
        with parse_meminfo_raises [of raw] obtain c where "e = MeminfoError c"
          by (auto simp: raises_only_def)
        with Inl ok Reader_returned show ?thesis
          by (intro tripped [of "plain_failure (Meminfo_rejected c)"]) (auto simp: sample_once_def)
      next
        case (Inr m)
        obtain w' found where lock: "evaluate_lock m w = (w', found)" by fastforce
        note path = sample_path_evaluate [OF ok Inr lock, of cs ms]
        show ?thesis
        proof (cases found)
          case None
          with path lock ok Inr Reader_returned show ?thesis
            by (intro exI [of _ "[]"] exI [of _ "[m]"]) (simp add: sample_once_def alone_def)
        next
          case (Some f)
          obtain cs' where "watchdog_step\<^sup>*\<^sup>* (alone w' cs (ms @ [m])\<lparr>todo := {#To_trip f#}\<rparr>)
              (alone (trip callbacks f w') (cs @ cs') (ms @ [m]))"
            using alone_trip_path by blast
          with path have "watchdog_step\<^sup>*\<^sup>* (alone w cs ms)
              (alone (trip callbacks f w') (cs @ cs') (ms @ [m]))"
            by (simp add: Some rtranclp_trans)
          with lock ok Inr Reader_returned Some show ?thesis
            by (intro exI [of _ cs'] exI [of _ "[m]"]) (simp add: sample_once_def)
        qed
      qed
    qed
  qed
qed

section \<open>The monitor loop\<close>



lemma trip_failure: "failure (trip callbacks f w) \<noteq> None"
  by (auto simp: trip_def call_if_def trip_lock_def Let_def split: option.split)

lemma trip_other [simp]:
  "started (trip callbacks f w) = started w" "thread_known (trip callbacks f w) = thread_known w"
  by (auto simp: trip_def call_if_def trip_lock_def Let_def invoke_callback_def split: option.split)

text \<open>The three ways a call of \<open>sample_once\<close> goes.\<close>

lemma sample_once_cases:
  obtains (late) "failure w \<noteq> None" "fst (sample_once callbacks r w) = w"
  | (refused) f where "failure w = None" "fst (sample_once callbacks r w) = trip callbacks f w"
      "\<nexists>raw m. r = Reader_returned raw \<and> parse_meminfo raw = Inr m"
  | (seen) raw m w' found where "failure w = None" "r = Reader_returned raw"
      "parse_meminfo raw = Inr m" "evaluate_lock m w = (w', found)"
      "fst (sample_once callbacks r w) = (case found of None \<Rightarrow> w' | Some f \<Rightarrow> trip callbacks f w')"
proof (cases "failure w")
  case (Some f)
  then show thesis by (intro late) (simp_all add: sample_once_def)
next
  case ok: None
  show thesis
  proof (cases r)
    case Reader_raised
    with ok show thesis by (intro refused) (simp_all add: sample_once_def)
  next
    case (Reader_returned raw)
    show thesis
    proof (cases "parse_meminfo raw")
      case (Inl e)
      with parse_meminfo_raises [of raw] obtain c where "e = MeminfoError c"
        by (auto simp: raises_only_def)
      with Inl ok Reader_returned show thesis by (intro refused) (simp_all add: sample_once_def)
    next
      case (Inr m)
      obtain w' found where "evaluate_lock m w = (w', found)" by fastforce
      with Inr ok Reader_returned show thesis
        by (intro seen) (auto simp: sample_once_def split: option.split)
    qed
  qed
qed


lemma sample_once_unstarted:
  "started (fst (sample_once callbacks r w)) = started w \<and>
   thread_known (fst (sample_once callbacks r w)) = thread_known w"
proof (cases rule: sample_once_cases [where w = w and callbacks = callbacks and r = r])
  case (seen raw m w' found)
  with evaluate_lock_fields(11,12) [OF seen(4)] show ?thesis by (simp split: option.split)
qed auto

lemma raise_if_tripped_ok:
  "failure v = None \<Longrightarrow> \<not> started v \<Longrightarrow> raise_if_tripped callbacks on_monitor alive v = (v, Inr ())"
  by (simp add: raise_if_tripped_def)

lemma raise_if_tripped_raises:
  "failure v = Some f \<Longrightarrow> raise_if_tripped callbacks on_monitor alive v = (v, Inl (Tripped f))"
  by (simp add: raise_if_tripped_def)

lemma raise_outcome:
  assumes "raise_if_tripped callbacks on_monitor alive x = (v, outcome)"
  shows "case outcome of Inr _ \<Rightarrow> v = x \<and> failure x = None
    | Inl e \<Rightarrow> \<exists>f. e = Tripped f \<and> failure v = Some f"
  using assms trip_failure [of callbacks "plain_failure Monitor_thread_failed" x]
  by (auto simp: raise_if_tripped_def Let_def split: if_splits option.splits)

lemma sample_once_first:
  assumes "failure (fst (sample_once callbacks r w)) = None" and "starting_swap_used_kib w = None"
  shows "\<exists>raw m. r = Reader_returned raw \<and> parse_meminfo raw = Inr m \<and> admissible w m m"
proof (cases rule: sample_once_cases [where w = w and callbacks = callbacks and r = r])
  case (seen raw m w' found)
  with assms(1) have "found = None" by (auto simp: trip_failure split: option.splits)
  with evaluate_first(4) [OF seen(4) assms(2)] seen show ?thesis by blast
qed (use assms trip_failure in auto)

section \<open>An example run\<close>

definition example_dog :: watchdog where
  "example_dog = \<lparr>min_memavailable_kib = 16, max_swap_growth_kib = 4, max_starting_swap_kib = 2,
     stop_requested = False, thread_known = False, started = False, closed = False,
     failure = None, last_sample = None, starting_swap_total_kib = None,
     starting_swap_used_kib = None, abort_callback = None, callback_registered = False,
     callback_invoked = False, callback_error = None\<rparr>"

definition example_sample :: memory_sample where
  "example_sample = \<lparr>mem_total_kib = 64, memavailable_kib = 32, swap_total_kib = 16,
     swap_free_kib = 15\<rparr>"

definition example_failed :: watchdog where
  "example_failed = example_dog\<lparr>failure := Some (plain_failure Monitor_thread_failed),
     stop_requested := True\<rparr>"

definition example_called :: watchdog where
  "example_called = example_failed\<lparr>abort_callback := Some 7, callback_registered := True,
     callback_invoked := True\<rparr>"

lemma example_initial: "initial_system (alone example_dog [] [])"
  by (simp add: initial_system_def alone_def fresh_def example_dog_def)

lemma example_trip_path: "watchdog_step\<^sup>*\<^sup>* (alone example_dog [] []) (alone example_failed [] [])"
proof -
  let ?f = "plain_failure Monitor_thread_failed"
  have "watchdog_step (alone example_dog [] []) (alone example_dog [] []\<lparr>todo := {#To_trip ?f#}\<rparr>)"
    using monitor_fails [of "alone example_dog [] []"] by (simp add: alone_def)
  moreover have "watchdog_step (alone example_dog [] []\<lparr>todo := {#To_trip ?f#}\<rparr>)
      (alone example_failed [] [])"
    using do_trip [of "alone example_dog [] []\<lparr>todo := {#To_trip ?f#}\<rparr>" ?f "{#}" example_failed None]
    by (simp add: alone_def trip_lock_def example_dog_def example_failed_def)
  ultimately show ?thesis by (meson converse_rtranclp_into_rtranclp rtranclp.rtrancl_refl)
qed

text \<open>A callback registered after the failure is called at once.\<close>

lemma example_call_path: "watchdog_step\<^sup>*\<^sup>* (alone example_failed [] []) (alone example_called [7] [])"
proof -
  have "watchdog_step (alone example_failed [] []) (alone example_called [] []\<lparr>todo := {#To_call 7#}\<rparr>)"
    using register [of 7 "alone example_failed [] []" example_called "Some 7"]
    by (simp add: alone_def register_lock_def example_dog_def example_failed_def example_called_def)
  moreover have "watchdog_step (alone example_called [] []\<lparr>todo := {#To_call 7#}\<rparr>)
      (alone example_called [7] [])"
    using call [of "alone example_called [] []\<lparr>todo := {#To_call 7#}\<rparr>" 7 "{#}" None]
    by (simp add: alone_def invoke_callback_def)
  ultimately show ?thesis by (meson converse_rtranclp_into_rtranclp rtranclp.rtrancl_refl)
qed

definition example_sampled :: watchdog where
  "example_sampled = fst (evaluate_lock example_sample example_dog)"

lemma example_sampled_fields:
  "evaluate_lock example_sample example_dog = (example_sampled, None)"
  "failure example_sampled = None"
  "starting_swap_used_kib example_sampled = Some (swap_used_kib example_sample)"
  "starting_swap_total_kib example_sampled = Some (swap_total_kib example_sample)"
  "max_starting_swap_kib example_sampled = 2" "max_swap_growth_kib example_sampled = 4"
  "min_memavailable_kib example_sampled = 16"
  by (simp_all add: example_sampled_def evaluate_lock_def example_dog_def example_sample_def
      swap_used_kib_def)

lemma example_sample_path:
  "watchdog_step\<^sup>*\<^sup>* (alone example_dog [] []) (alone example_sampled [] [example_sample])"
  using sample_path_evaluate [OF _ example_meminfo_parsed [folded example_sample_def]
      example_sampled_fields(1), of "[]" "[]"]
  by (simp add: example_dog_def alone_def)

section \<open>Properties\<close>

text \<open>
  Whatever the interleaving of sampling threads, registration and stop requests: the first
  recorded failure is never replaced, the swap baseline is never moved, the callback runs at most
  once, and only as the one that was registered.
\<close>

theorem first_failure_is_final:
  assumes "initial_system s0" and "watchdog_step\<^sup>*\<^sup>* s0 s" and "watchdog_step\<^sup>*\<^sup>* s t"
  shows "(failure (dog s) \<noteq> None \<longrightarrow> failure (dog t) = failure (dog s)) \<and>
    (starting_swap_used_kib (dog s) \<noteq> None \<longrightarrow>
       starting_swap_used_kib (dog t) = starting_swap_used_kib (dog s)) \<and>
    length (calls t) \<le> 1 \<and> (\<forall>k \<in> set (calls t). abort_callback (dog t) = Some k)"
proof -
  have "latched s t" by (rule watchdog.reachable_kept [OF assms(2,1,3)])
  moreover have "system_inv t"
    using assms watchdog.reachable_inv by (meson rtranclp_trans)
  ultimately show ?thesis
    by (auto simp: latched_def system_inv_def callback_inv_def call_count_def split: if_splits)
qed

theorem first_failure_is_final_witness:
  "failure example_called = failure example_failed \<and> failure example_failed \<noteq> None"
  using first_failure_is_final [OF example_initial example_trip_path example_call_path]
  by (simp add: alone_def example_failed_def)

text \<open>
  C18. A failure is never lost on its way to the owner: once the threads have done what they had
  pending, a recorded failure with a registered callback has called it exactly once, in
  whichever order the two happened, and the monitor has been asked to stop.
\<close>

theorem tripped_watchdog_calls_once:
  assumes "initial_system s0" and "watchdog_step\<^sup>*\<^sup>* s0 s" and "\<forall>k. To_call k \<notin># todo s"
    and "failure (dog s) \<noteq> None"
  shows "stop_requested (dog s) \<and>
    calls s = (case abort_callback (dog s) of None \<Rightarrow> [] | Some k \<Rightarrow> [k])"
proof -
  have inv: "callback_inv s"
    using watchdog.reachable_inv [OF assms(2,1)] by (simp add: system_inv_def)
  have "calls_of x = 0" if "x \<in># todo s" for x
    using assms(3) that by (cases x) auto
  then have "(\<Sum>x\<in>#todo s. calls_of x) = 0" by simp
  with inv assms(4) show ?thesis
    by (cases "calls s") (auto simp: callback_inv_def call_count_def split: if_splits option.splits)
qed

theorem tripped_watchdog_calls_once_witness: "stop_requested example_called"
  using tripped_watchdog_calls_once [OF example_initial
      rtranclp_trans [OF example_trip_path example_call_path]]
  by (simp add: alone_def example_called_def example_failed_def)

text \<open>
  C17. No violation goes unnoticed: as long as no failure is recorded or about to be, every
  sample evaluated so far, by any thread, kept the total swap of the first one, had the minimum
  of available memory, and stayed within the starting and growth limits of swap in use.
\<close>

theorem untripped_samples_admissible:
  assumes "initial_system s0" and "watchdog_step\<^sup>*\<^sup>* s0 s" and "failure (dog s) = None"
    and "\<forall>f. To_trip f \<notin># todo s" and "m \<in> set (evaluated s)"
  shows "admissible (dog s) (hd (evaluated s)) m"
  using watchdog.reachable_inv [OF assms(2,1)] assms(3-5)
  by (auto simp: system_inv_def baseline_inv_def split: list.splits)

theorem untripped_samples_admissible_witness:
  "admissible example_sampled example_sample example_sample"
  using untripped_samples_admissible [OF example_initial example_sample_path]
  by (simp add: alone_def example_sampled_fields)

text \<open>
  The methods are interleavings: a call of \<open>sample_once\<close> that runs alone is a path of the
  blocks, so what holds of all interleavings holds of every sequence of calls.
\<close>

theorem sample_once_refines_steps:
  "\<exists>cs' ms'. watchdog_step\<^sup>*\<^sup>* (alone w cs ms)
     (alone (fst (sample_once callbacks r w)) (cs @ cs') (ms @ ms'))"
  by (rule sample_once_steps)

text \<open>
  Monitoring fails closed: a call of \<open>sample_once\<close> leaves the watchdog untripped exactly
  when the reader returned a text that parses and shows a sample within the thresholds.
\<close>

theorem sample_once_fails_closed:
  assumes "failure w = None" and "starting_swap_used_kib w = Some (swap_used_kib first)"
    and "starting_swap_total_kib w = Some (swap_total_kib first)"
    and "swap_used_kib first \<le> max_starting_swap_kib w"
  shows "failure (fst (sample_once callbacks r w)) = None \<longleftrightarrow>
    (\<exists>raw m. r = Reader_returned raw \<and> parse_meminfo raw = Inr m \<and> admissible w first m)"
proof -
  have trips: "failure (trip callbacks f v) \<noteq> None" if "failure v = None" for f v
    using that by (auto simp: trip_def call_if_def trip_lock_def Let_def split: option.split)
  show ?thesis
  proof (cases r)
    case Reader_raised
    with trips assms(1) show ?thesis by (simp add: sample_once_def)
  next
    case (Reader_returned raw)
    show ?thesis
    proof (cases "parse_meminfo raw")
      case (Inl e)
      with parse_meminfo_raises [of raw] obtain c where "e = MeminfoError c"
        by (auto simp: raises_only_def)
      with trips assms(1) Inl Reader_returned show ?thesis by (simp add: sample_once_def)
    next
      case (Inr m)
      obtain w' found where lock: "evaluate_lock m w = (w', found)" by fastforce
      have "failure w' = None" using evaluate_lock_fields(1) [OF lock] assms(1) by simp
      with trips have "failure (trip callbacks f w') \<noteq> None" for f by blast
      with lock evaluate_later(3) [OF lock assms(2-4)] assms(1) Inr Reader_returned
        \<open>failure w' = None\<close> show ?thesis
        by (cases found) (auto simp: sample_once_def)
    qed
  qed
qed

theorem sample_once_fails_closed_witness:
  "failure (fst (sample_once (\<lambda>_. None) Reader_raised example_sampled)) \<noteq> None"
  using sample_once_fails_closed [OF example_sampled_fields(2-4), of "\<lambda>_. None" Reader_raised]
  by (simp add: example_sampled_fields example_sample_def swap_used_kib_def)

text \<open>
  A start that returns has a baseline: the reader returned a text that parsed to a sample
  within all limits, and no failure is recorded; a refused baseline never creates the thread.
\<close>

theorem start_establishes_baseline:
  assumes "start callbacks r thread_starts monitor alive w = (w', outcome)"
    and "starting_swap_used_kib w = None" and "\<not> thread_known w"
  shows "case outcome of
      Inr _ \<Rightarrow> started w' \<and> failure w' = None \<and> (\<exists>raw m. r = Reader_returned raw \<and>
        parse_meminfo raw = Inr m \<and> admissible w m m)
    | Inl (Tripped f) \<Rightarrow> failure w' = Some f \<and>
        (failure (fst (sample_once callbacks r w)) \<noteq> None \<longrightarrow> \<not> thread_known w')
    | Inl _ \<Rightarrow> w' = w \<and> (started w \<or> closed w)"
proof (cases "started w \<or> closed w")
  case True
  then consider "started w" | "\<not> started w" "closed w" by blast
  then show ?thesis using assms(1) by cases (auto simp: start_def)
next
  case False
  let ?w1 = "fst (sample_once callbacks r w)"
  have flags: "thread_known ?w1 = thread_known w" "\<not> started ?w1"
    using False sample_once_unstarted by auto
  show ?thesis
  proof (cases "failure ?w1")
    case (Some f)
    with False assms(1,3) flags show ?thesis
      by (auto simp: start_def Let_def raise_if_tripped_raises)
  next
    case None
    note first = sample_once_first [OF None assms(2)]
    from None False assms(1) flags have "raise_if_tripped callbacks False alive
        (if thread_starts then (monitor (?w1\<lparr>thread_known := True\<rparr>))\<lparr>started := True\<rparr>
         else trip callbacks (plain_failure Monitor_thread_failed) (?w1\<lparr>thread_known := False\<rparr>))
      = (w', outcome)"
      by (auto simp: start_def Let_def raise_if_tripped_ok)
    then have "case outcome of Inr _ \<Rightarrow> started w' \<and> failure w' = None
        | Inl e \<Rightarrow> \<exists>f. e = Tripped f \<and> failure w' = Some f"
      using raise_outcome [of callbacks False alive _ w' outcome]
        trip_failure [of callbacks "plain_failure Monitor_thread_failed" "?w1\<lparr>thread_known := False\<rparr>"]
      by (cases thread_starts; cases outcome; force)
    with first None show ?thesis by (auto split: sum.splits)
  qed
qed

theorem start_establishes_baseline_witness:
  "case start (\<lambda>_. None) Reader_raised True (\<lambda>w. w) True example_dog of
     (w', Inl (Tripped f)) \<Rightarrow> failure w' = Some f | _ \<Rightarrow> False"
proof -
  obtain w' outcome where run: "start (\<lambda>_. None) Reader_raised True (\<lambda>w. w) True example_dog = (w', outcome)"
    by fastforce
  have "starting_swap_used_kib example_dog = None" "\<not> thread_known example_dog"
      "\<not> started example_dog" "\<not> closed example_dog"
    by (simp_all add: example_dog_def)
  with start_establishes_baseline [OF run] run show ?thesis
    by (auto split: sum.splits watchdog_error.splits)
qed



end
