(* ===== verification/Checkpoint_State.thy ===== *)
theory Checkpoint_State
  imports Autoresearch_Policy
begin

text \<open>
  The proofs an acknowledgement is made of (\<open>bench/autoresearch_checkpoint.py\<close>): the field
  validators, \<open>CampaignBinding\<close>, \<open>PairCompletion\<close>, \<open>JournalPrefix\<close>, \<open>EvidenceCell\<close>,
  \<open>EvidenceProof\<close>, \<open>RepositoryProof\<close> and \<open>CheckpointAcknowledgement\<close>, each with its
  \<open>__post_init__\<close>, \<open>to_mapping\<close> and \<open>from_mapping\<close>. \<open>sha\<close> is SHA-256 of a canonical value,
  and \<open>aware\<close> tells whether a string is an ISO time with a time zone.
\<close>

section \<open>Validators\<close>

abbreviation invalid :: exn where
  "invalid \<equiv> CheckpointError Checkpoint_state_invalid"

definition alnum :: "char \<Rightarrow> bool" where
  "alnum c \<longleftrightarrow> lower_alnum c \<or> (CHR ''A'' \<le> c \<and> c \<le> CHR ''Z'')"

definition identifier_text :: "string \<Rightarrow> bool" where
  "identifier_text s = (case s of [] \<Rightarrow> False
     | c # cs \<Rightarrow> lower_alnum c \<and> length cs \<le> 255 \<and> list_all safe_id_char cs)"

definition published_text :: "string \<Rightarrow> bool" where
  "published_text s = (case s of [] \<Rightarrow> False
     | c # cs \<Rightarrow> alnum c \<and> length cs \<le> 255 \<and> list_all (\<lambda>x. alnum x \<or> x \<in> set ''_.-'') cs)"

definition remote_text :: "string \<Rightarrow> bool" where
  "remote_text s = (case s of [] \<Rightarrow> False
     | c # cs \<Rightarrow> alnum c \<and> length cs \<le> 63 \<and> list_all (\<lambda>x. alnum x \<or> x \<in> set ''._-'') cs)"

definition object_id_text :: "string \<Rightarrow> bool" where
  "object_id_text s \<longleftrightarrow> (length s = 40 \<or> length s = 64) \<and> list_all lower_hex s"

text \<open>\<open>isinstance(value, str)\<close> and a test of the text, or the one error of this module.\<close>

definition text_field :: "(string \<Rightarrow> bool) \<Rightarrow> pyval \<Rightarrow> string res" where
  "text_field ok v = (case v of PStr s \<Rightarrow> if ok s then Inr s else Inl invalid | _ \<Rightarrow> Inl invalid)"

definition ck_sha256 :: "pyval \<Rightarrow> string res" where
  "ck_sha256 = text_field sha256_hex"

definition ck_object_id :: "pyval \<Rightarrow> string res" where
  "ck_object_id = text_field object_id_text"

definition ck_identifier :: "pyval \<Rightarrow> string res" where
  "ck_identifier = text_field identifier_text"

definition ck_published_identifier :: "pyval \<Rightarrow> string res" where
  "ck_published_identifier = text_field published_text"

definition ck_integer :: "int \<Rightarrow> int \<Rightarrow> pyval \<Rightarrow> int res" where
  "ck_integer minimum maximum v = (case v of
       PInt n \<Rightarrow> if n < minimum \<or> n > maximum then Inl invalid else Inr n
     | _ \<Rightarrow> Inl invalid)"

definition ck_exact_keys :: "pydict \<Rightarrow> string set \<Rightarrow> unit res" where
  "ck_exact_keys d expected = check (dict_keys d = expected) invalid"

definition ck_mapping :: "pyval \<Rightarrow> pydict res" where
  "ck_mapping v = (case v of PDict d \<Rightarrow> Inr d | _ \<Rightarrow> Inl invalid)"

definition git_ref_text :: "string \<Rightarrow> string \<Rightarrow> bool" where
  "git_ref_text pre s \<longleftrightarrow> prefix pre s \<and> length s \<le> 255 \<and>
     \<not> suffix ''/'' s \<and> \<not> suffix ''.'' s \<and> \<not> suffix ''.lock'' s \<and>
     \<not> sublist ''//'' s \<and> \<not> sublist ''..'' s \<and> \<not> sublist [CHR 0x40, CHR ''{''] s \<and> CHR 0x5C \<notin> set s \<and>
     \<not> list_ex (\<lambda>c. (of_char c :: nat) < 32 \<or> c \<in> set '' ~^:?*['') s"

definition ck_git_ref :: "string \<Rightarrow> pyval \<Rightarrow> string res" where
  "ck_git_ref pre = text_field (git_ref_text pre)"

definition ck_timestamp :: "(string \<Rightarrow> bool) \<Rightarrow> pyval \<Rightarrow> string res" where
  "ck_timestamp aware = text_field (\<lambda>s. length s \<le> 64 \<and> aware s)"

lemma text_field_eq [simp]: "text_field ok v = Inr s \<longleftrightarrow> v = PStr s \<and> ok s"
  by (auto simp: text_field_def split: pyval.splits)

lemma text_field_ok: "ok s \<Longrightarrow> text_field ok (PStr s) = Inr s"
  by simp

lemma ck_integer_eq [simp]: "ck_integer lo hi v = Inr n \<longleftrightarrow> v = PInt n \<and> lo \<le> n \<and> n \<le> hi"
  by (auto simp: ck_integer_def split: pyval.splits)

lemma ck_mapping_eq [simp]: "ck_mapping v = Inr d \<longleftrightarrow> v = PDict d"
  by (auto simp: ck_mapping_def split: pyval.splits)

lemma ck_exact_keys_eq [simp]: "ck_exact_keys d E = Inr u \<longleftrightarrow> dict_keys d = E"
  by (simp add: ck_exact_keys_def)

lemma ck_values:
  "ck_mapping (PDict d) = Inr d"
  "dict_keys d = E \<Longrightarrow> ck_exact_keys d E = Inr ()"
  "lo \<le> n \<Longrightarrow> n \<le> hi \<Longrightarrow> ck_integer lo hi (PInt n) = Inr n"
  by simp_all

lemmas ck_fields = ck_sha256_def ck_object_id_def ck_identifier_def ck_published_identifier_def
  ck_git_ref_def ck_timestamp_def

section \<open>The binding of a campaign\<close>

record campaign_binding =
  bound_campaign_id :: string
  campaign_integrity_sha256 :: string
  preview_sha256 :: string
  policy_sha256 :: string

definition binding_to_mapping :: "campaign_binding \<Rightarrow> pyval" where
  "binding_to_mapping b = PDict [
     (''campaign_id'', PStr (bound_campaign_id b)),
     (''campaign_integrity_sha256'', PStr (campaign_integrity_sha256 b)),
     (''policy_sha256'', PStr (policy_sha256 b)),
     (''preview_sha256'', PStr (preview_sha256 b))]"

definition binding_from_mapping :: "pyval \<Rightarrow> campaign_binding res" where
  "binding_from_mapping v =
     andThen (ck_mapping v) (\<lambda>d.
     andThen (ck_exact_keys d {''campaign_id'', ''campaign_integrity_sha256'', ''preview_sha256'',
       ''policy_sha256''}) (\<lambda>_.
     andThen (andThen (getitem d ''campaign_id'') ck_identifier) (\<lambda>cid.
     andThen (andThen (getitem d ''campaign_integrity_sha256'') ck_sha256) (\<lambda>integrity.
     andThen (andThen (getitem d ''preview_sha256'') ck_sha256) (\<lambda>preview.
     andThen (andThen (getitem d ''policy_sha256'') ck_sha256) (\<lambda>pol.
       Inr \<lparr>bound_campaign_id = cid, campaign_integrity_sha256 = integrity,
         preview_sha256 = preview, policy_sha256 = pol\<rparr>))))))"

definition binding_wf :: "campaign_binding \<Rightarrow> bool" where
  "binding_wf b \<longleftrightarrow> identifier_text (bound_campaign_id b) \<and>
     sha256_hex (campaign_integrity_sha256 b) \<and> sha256_hex (preview_sha256 b) \<and>
     sha256_hex (policy_sha256 b)"

lemma binding_parse_wf: "binding_from_mapping v = Inr b \<Longrightarrow> binding_wf b"
  by (clarsimp simp: binding_from_mapping_def binding_wf_def ck_fields andThen_eq_Inr)

lemma binding_roundtrip: "binding_wf b \<Longrightarrow> binding_from_mapping (binding_to_mapping b) = Inr b"
  by (simp add: binding_from_mapping_def binding_to_mapping_def binding_wf_def ck_fields
      ck_values text_field_ok insert_commute)

interpretation binding: mapping_codec binding_to_mapping binding_from_mapping binding_wf
  by unfold_locales (fact binding_parse_wf binding_roundtrip)+

section \<open>The completed pair\<close>

text \<open>
  The members of a set of Python values compare by value: booleans and floats with integers.
\<close>

fun numeric_form :: "pyval \<Rightarrow> pyval" where
  "numeric_form (PBool b) = PFloat (FFin (if b then 1 else 0))"
| "numeric_form (PInt n) = PFloat (FFin (of_int n))"
| "numeric_form (PTuple xs) = PTuple (map numeric_form xs)"
| "numeric_form v = v"

definition py_equal :: "pyval \<Rightarrow> pyval \<Rightarrow> bool" where
  "py_equal v w \<longleftrightarrow> numeric_form v = numeric_form w"

record pair_completion =
  sequence :: int
  pair_kind :: string
  completed_candidate_id :: string
  search_pair_index :: pyval
  ordered_cell_ids :: "string \<times> string"
  ordered_evidence_run_ids :: "string \<times> string"
  cell_plan_integrity_sha256s :: "string \<times> string"
  observation_sha256 :: string

definition MAX_CHECKPOINT_SEQUENCE :: int where
  "MAX_CHECKPOINT_SEQUENCE = 7"

definition string_pair :: "string \<times> string \<Rightarrow> pyval" where
  "string_pair p = PList [PStr (fst p), PStr (snd p)]"

definition completion_to_mapping :: "pair_completion \<Rightarrow> pyval" where
  "completion_to_mapping c = PDict [
     (''candidate_id'', PStr (completed_candidate_id c)),
     (''cell_plan_integrity_sha256s'', string_pair (cell_plan_integrity_sha256s c)),
     (''observation_sha256'', PStr (observation_sha256 c)),
     (''ordered_cell_ids'', string_pair (ordered_cell_ids c)),
     (''ordered_evidence_run_ids'', string_pair (ordered_evidence_run_ids c)),
     (''pair_kind'', PStr (pair_kind c)),
     (''search_pair_index'', search_pair_index c),
     (''sequence'', PInt (sequence c))]"

definition completion_digest :: "(pyval \<Rightarrow> string) \<Rightarrow> pair_completion \<Rightarrow> string" where
  "completion_digest sha c = sha (canonical (completion_to_mapping c))"

text \<open>A raw array of exactly two items.\<close>

definition raw_pair :: "pyval \<Rightarrow> (pyval \<times> pyval) res" where
  "raw_pair v = (case v of PList [x, y] \<Rightarrow> Inr (x, y) | _ \<Rightarrow> Inl invalid)"

text \<open>\<open>len(set(pair)) != 2\<close>.\<close>

definition distinct_pair :: "pyval \<times> pyval \<Rightarrow> unit res" where
  "distinct_pair p =
     (if \<not> hashable (fst p) \<or> \<not> hashable (snd p) then Inl TypeError
      else check (\<not> py_equal (fst p) (snd p)) invalid)"

definition both :: "(pyval \<Rightarrow> string res) \<Rightarrow> pyval \<times> pyval \<Rightarrow> (string \<times> string) res" where
  "both f p = andThen (f (fst p)) (\<lambda>x. andThen (f (snd p)) (\<lambda>y. Inr (x, y)))"

text \<open>The last check of \<open>__post_init__\<close>: the index belongs to the sequence number.\<close>

definition index_consistent :: "string \<Rightarrow> int \<Rightarrow> string \<Rightarrow> pyval \<Rightarrow> bool" where
  "index_consistent kind seq cand index =
     (if kind = ''calibration'' then seq = 1 \<and> cand = ''control'' \<and> index = PNone
      else cand \<noteq> ''control'' \<and> (\<nexists>b. index = PBool b) \<and> eq_int index (seq - 2))"

lemma index_consistent_code [code]:
  "index_consistent kind seq cand index =
     (if kind = ''calibration'' then seq = 1 \<and> cand = ''control'' \<and> index = PNone
      else cand \<noteq> ''control'' \<and> (case index of PBool _ \<Rightarrow> False | _ \<Rightarrow> True) \<and>
        eq_int index (seq - 2))"
  by (auto simp: index_consistent_def split: pyval.splits)

definition completion_from_mapping :: "pyval \<Rightarrow> pair_completion res" where
  "completion_from_mapping v =
     andThen (ck_mapping v) (\<lambda>d.
     andThen (ck_exact_keys d {''candidate_id'', ''cell_plan_integrity_sha256s'',
       ''observation_sha256'', ''ordered_cell_ids'', ''ordered_evidence_run_ids'', ''pair_kind'',
       ''search_pair_index'', ''sequence''}) (\<lambda>_.
     andThen (andThen (getitem d ''ordered_cell_ids'') raw_pair) (\<lambda>raw_cells.
     andThen (andThen (getitem d ''ordered_evidence_run_ids'') raw_pair) (\<lambda>raw_runs.
     andThen (andThen (getitem d ''cell_plan_integrity_sha256s'') raw_pair) (\<lambda>raw_plans.
     andThen (andThen (getitem d ''sequence'') (ck_integer 1 MAX_CHECKPOINT_SEQUENCE)) (\<lambda>seq.
     andThen (andThen (getitem d ''pair_kind'')
       (\<lambda>k. andThen (in_strings k {''calibration'', ''screen'', ''confirmation''})
         (\<lambda>known. if known then text_field (\<lambda>_. True) k else Inl invalid))) (\<lambda>kind.
     andThen (andThen (getitem d ''candidate_id'') ck_identifier) (\<lambda>cand.
     andThen (distinct_pair raw_cells) (\<lambda>_.
     andThen (distinct_pair raw_runs) (\<lambda>_.
     andThen (both ck_identifier raw_cells) (\<lambda>cells.
     andThen (both ck_published_identifier raw_runs) (\<lambda>runs.
     andThen (both ck_sha256 raw_plans) (\<lambda>plans.
     andThen (andThen (getitem d ''observation_sha256'') ck_sha256) (\<lambda>obs.
     andThen (getitem d ''search_pair_index'') (\<lambda>index.
     if \<not> index_consistent kind seq cand index then Inl invalid
     else Inr \<lparr>sequence = seq, pair_kind = kind, completed_candidate_id = cand,
       search_pair_index = index, ordered_cell_ids = cells, ordered_evidence_run_ids = runs,
       cell_plan_integrity_sha256s = plans, observation_sha256 = obs\<rparr>)))))))))))))))"

definition completion_wf :: "pair_completion \<Rightarrow> bool" where
  "completion_wf c \<longleftrightarrow>
     1 \<le> sequence c \<and> sequence c \<le> MAX_CHECKPOINT_SEQUENCE \<and>
     pair_kind c \<in> {''calibration'', ''screen'', ''confirmation''} \<and>
     identifier_text (completed_candidate_id c) \<and>
     fst (ordered_cell_ids c) \<noteq> snd (ordered_cell_ids c) \<and>
     fst (ordered_evidence_run_ids c) \<noteq> snd (ordered_evidence_run_ids c) \<and>
     identifier_text (fst (ordered_cell_ids c)) \<and> identifier_text (snd (ordered_cell_ids c)) \<and>
     published_text (fst (ordered_evidence_run_ids c)) \<and>
     published_text (snd (ordered_evidence_run_ids c)) \<and>
     sha256_hex (fst (cell_plan_integrity_sha256s c)) \<and>
     sha256_hex (snd (cell_plan_integrity_sha256s c)) \<and> sha256_hex (observation_sha256 c) \<and>
     index_consistent (pair_kind c) (sequence c) (completed_candidate_id c) (search_pair_index c)"

lemma raw_pair_eq [simp]: "raw_pair v = Inr p \<longleftrightarrow> v = PList [fst p, snd p]"
  by (cases p) (auto simp: raw_pair_def split: pyval.splits list.splits)

lemma raw_pair_value: "raw_pair (PList [x, y]) = Inr (x, y)"
  by simp

lemma distinct_pair_strings [simp]: "distinct_pair (PStr s, PStr t) = check (s \<noteq> t) invalid"
  by (simp add: distinct_pair_def py_equal_def)

lemma both_text_field [simp]:
  "both (text_field ok) p = Inr q \<longleftrightarrow> p = (PStr (fst q), PStr (snd q)) \<and> ok (fst q) \<and> ok (snd q)"
  by (cases p; cases q) (auto simp: both_def andThen_eq_Inr)

lemma completion_parse_wf:
  assumes "completion_from_mapping v = Inr c"
  shows "completion_wf c"
  using assms
  by (clarsimp simp: completion_from_mapping_def completion_wf_def ck_fields andThen_eq_Inr
      in_strings_True)

lemma completion_roundtrip:
  assumes "completion_wf c"
  shows "completion_from_mapping (completion_to_mapping c) = Inr c"
  using assms
  by (simp add: completion_from_mapping_def completion_to_mapping_def completion_wf_def ck_fields
      string_pair_def raw_pair_value text_field_ok both_def ck_values)

lemma completion_canonical:
  assumes "completion_wf c"
  shows "completion_from_mapping (canonical (completion_to_mapping c)) = Inr c"
proof -
  let ?d = "[(''candidate_id'', PStr (completed_candidate_id c)),
     (''cell_plan_integrity_sha256s'', string_pair (cell_plan_integrity_sha256s c)),
     (''observation_sha256'', PStr (observation_sha256 c)),
     (''ordered_cell_ids'', string_pair (ordered_cell_ids c)),
     (''ordered_evidence_run_ids'', string_pair (ordered_evidence_run_ids c)),
     (''pair_kind'', PStr (pair_kind c)),
     (''search_pair_index'', search_pair_index c),
     (''sequence'', PInt (sequence c))]"
  have index: "canonical (search_pair_index c) = search_pair_index c"
    using assms by (cases "search_pair_index c")
      (auto simp: completion_wf_def index_consistent_def split: if_splits)
  obtain d' where "canonical (PDict ?d) = PDict d'" "getitem d' = getitem ?d"
      "dict_keys d' = dict_keys ?d"
    by (rule canonical_reordered [of ?d]) (simp_all add: string_pair_def index)
  then have "completion_from_mapping (canonical (completion_to_mapping c))
      = completion_from_mapping (completion_to_mapping c)"
    unfolding completion_from_mapping_def completion_to_mapping_def
    by (simp only: ck_values(1) andThen_simps ck_exact_keys_def)
  with completion_roundtrip [OF assms] show ?thesis by simp
qed

interpretation completion: digest_codec completion_to_mapping completion_from_mapping
  completion_wf completion_digest
  by unfold_locales
    (fact completion_parse_wf completion_roundtrip completion_digest_def completion_canonical)+

section \<open>The journal prefix\<close>

record journal_prefix =
  event_count :: int
  size_bytes :: int
  prefix_sha256 :: string

definition MAX_JOURNAL_BYTES :: int where
  "MAX_JOURNAL_BYTES = 4 * 1024 * 1024"

text \<open>\<open>JournalPrefix(count, size, digest)\<close>.\<close>

definition make_prefix :: "pyval \<Rightarrow> pyval \<Rightarrow> pyval \<Rightarrow> journal_prefix res" where
  "make_prefix count nbytes digest =
     andThen (ck_integer 1 10000 count) (\<lambda>n.
     andThen (ck_integer 1 MAX_JOURNAL_BYTES nbytes) (\<lambda>k.
     andThen (ck_sha256 digest) (\<lambda>s.
       Inr \<lparr>event_count = n, size_bytes = k, prefix_sha256 = s\<rparr>)))"

definition prefix_to_mapping :: "journal_prefix \<Rightarrow> pyval" where
  "prefix_to_mapping p = PDict [(''event_count'', PInt (event_count p)),
     (''sha256'', PStr (prefix_sha256 p)), (''size_bytes'', PInt (size_bytes p))]"

definition prefix_from_mapping :: "pyval \<Rightarrow> journal_prefix res" where
  "prefix_from_mapping v =
     andThen (ck_mapping v) (\<lambda>d.
     andThen (ck_exact_keys d {''event_count'', ''sha256'', ''size_bytes''}) (\<lambda>_.
     andThen (getitem d ''event_count'') (\<lambda>n.
     andThen (getitem d ''size_bytes'') (\<lambda>k.
     andThen (getitem d ''sha256'') (\<lambda>s. make_prefix n k s)))))"

definition prefix_wf :: "journal_prefix \<Rightarrow> bool" where
  "prefix_wf p \<longleftrightarrow> 1 \<le> event_count p \<and> event_count p \<le> 10000 \<and> 1 \<le> size_bytes p \<and>
     size_bytes p \<le> MAX_JOURNAL_BYTES \<and> sha256_hex (prefix_sha256 p)"

lemma prefix_parse_wf: "prefix_from_mapping v = Inr p \<Longrightarrow> prefix_wf p"
  by (clarsimp simp: prefix_from_mapping_def make_prefix_def prefix_wf_def ck_fields andThen_eq_Inr)

lemma prefix_roundtrip: "prefix_wf p \<Longrightarrow> prefix_from_mapping (prefix_to_mapping p) = Inr p"
  by (simp add: prefix_from_mapping_def prefix_to_mapping_def make_prefix_def prefix_wf_def
      ck_fields ck_values text_field_ok insert_commute)

interpretation journal_prefix: mapping_codec prefix_to_mapping prefix_from_mapping prefix_wf
  by unfold_locales (fact prefix_parse_wf prefix_roundtrip)+

section \<open>The evidence of a pair\<close>

record evidence_cell =
  cell_id :: string
  published_run_id :: string
  bundle_sha256 :: string

text \<open>
  \<open>EvidenceCell(\<dots>)\<close> of raw values. A cell exists only with status \<open>complete\<close> and a terminal
  measurement, so the two fields are constants of the record.
\<close>

definition make_cell :: "pyval \<Rightarrow> pyval \<Rightarrow> pyval \<Rightarrow> pyval \<Rightarrow> pyval \<Rightarrow> evidence_cell res" where
  "make_cell cid run bundle status terminal =
     andThen (ck_identifier cid) (\<lambda>c.
     andThen (ck_published_identifier run) (\<lambda>r.
     andThen (ck_sha256 bundle) (\<lambda>b.
     if status \<noteq> PStr ''complete'' \<or> terminal \<noteq> PBool True
     then Inl (CheckpointError Evidence_incomplete)
     else Inr \<lparr>cell_id = c, published_run_id = r, bundle_sha256 = b\<rparr>)))"

definition cell_to_mapping :: "evidence_cell \<Rightarrow> pyval" where
  "cell_to_mapping c = PDict [
     (''bundle_sha256'', PStr (bundle_sha256 c)),
     (''cell_id'', PStr (cell_id c)),
     (''measurement_terminal'', PBool True),
     (''published_run_id'', PStr (published_run_id c)),
     (''status'', PStr ''complete'')]"

definition cell_from_mapping :: "pyval \<Rightarrow> evidence_cell res" where
  "cell_from_mapping v =
     andThen (ck_mapping v) (\<lambda>d.
     andThen (ck_exact_keys d {''cell_id'', ''published_run_id'', ''bundle_sha256'', ''status'',
       ''measurement_terminal''}) (\<lambda>_.
     andThen (getitem d ''cell_id'') (\<lambda>cid.
     andThen (getitem d ''published_run_id'') (\<lambda>run.
     andThen (getitem d ''bundle_sha256'') (\<lambda>bundle.
     andThen (getitem d ''status'') (\<lambda>status.
     andThen (getitem d ''measurement_terminal'') (\<lambda>terminal.
       make_cell cid run bundle status terminal)))))))"

definition cell_wf :: "evidence_cell \<Rightarrow> bool" where
  "cell_wf c \<longleftrightarrow> identifier_text (cell_id c) \<and> published_text (published_run_id c) \<and>
     sha256_hex (bundle_sha256 c)"

lemma make_cell_wf: "make_cell cid run bundle status terminal = Inr c \<Longrightarrow> cell_wf c"
  by (clarsimp simp: make_cell_def cell_wf_def ck_fields andThen_eq_Inr)

lemma cell_parse_wf: "cell_from_mapping v = Inr c \<Longrightarrow> cell_wf c"
  by (clarsimp simp: cell_from_mapping_def andThen_eq_Inr make_cell_wf)

lemma cell_roundtrip: "cell_wf c \<Longrightarrow> cell_from_mapping (cell_to_mapping c) = Inr c"
  by (simp add: cell_from_mapping_def cell_to_mapping_def make_cell_def cell_wf_def ck_fields
      ck_values text_field_ok insert_commute)

interpretation cell: mapping_codec cell_to_mapping cell_from_mapping cell_wf
  by unfold_locales (fact cell_parse_wf cell_roundtrip)+

record evidence_proof =
  index_sha256 :: string
  checksums_sha256 :: string
  evidence_cells :: "evidence_cell \<times> evidence_cell"

definition make_evidence ::
  "pyval \<Rightarrow> pyval \<Rightarrow> evidence_cell \<times> evidence_cell \<Rightarrow> evidence_proof res" where
  "make_evidence index checksums cells =
     andThen (ck_sha256 index) (\<lambda>i.
     andThen (ck_sha256 checksums) (\<lambda>c.
     if cell_id (fst cells) = cell_id (snd cells) \<or>
       published_run_id (fst cells) = published_run_id (snd cells) then Inl invalid
     else Inr \<lparr>index_sha256 = i, checksums_sha256 = c, evidence_cells = cells\<rparr>))"

definition require_completion :: "evidence_proof \<Rightarrow> pair_completion \<Rightarrow> unit res" where
  "require_completion e c =
     (let (a, b) = evidence_cells e in
      if (cell_id a, cell_id b) \<noteq> ordered_cell_ids c
      then Inl (CheckpointError Evidence_pair_binding_mismatch)
      else if (published_run_id a, published_run_id b) \<noteq> ordered_evidence_run_ids c
      then Inl (CheckpointError Evidence_pair_binding_mismatch)
      else Inr ())"

definition evidence_to_mapping :: "evidence_proof \<Rightarrow> pyval" where
  "evidence_to_mapping e = PDict [
     (''cells'', PList [cell_to_mapping (fst (evidence_cells e)),
        cell_to_mapping (snd (evidence_cells e))]),
     (''checksums_sha256'', PStr (checksums_sha256 e)),
     (''index_sha256'', PStr (index_sha256 e))]"

definition evidence_from_mapping :: "pyval \<Rightarrow> evidence_proof res" where
  "evidence_from_mapping v =
     andThen (ck_mapping v) (\<lambda>d.
     andThen (ck_exact_keys d {''cells'', ''checksums_sha256'', ''index_sha256''}) (\<lambda>_.
     andThen (andThen (getitem d ''cells'') raw_pair) (\<lambda>raw_cells.
     andThen (getitem d ''index_sha256'') (\<lambda>index.
     andThen (getitem d ''checksums_sha256'') (\<lambda>checksums.
     andThen (cell_from_mapping (fst raw_cells)) (\<lambda>a.
     andThen (cell_from_mapping (snd raw_cells)) (\<lambda>b.
       make_evidence index checksums (a, b))))))))"

definition evidence_wf :: "evidence_proof \<Rightarrow> bool" where
  "evidence_wf e \<longleftrightarrow> sha256_hex (index_sha256 e) \<and> sha256_hex (checksums_sha256 e) \<and>
     cell_wf (fst (evidence_cells e)) \<and> cell_wf (snd (evidence_cells e)) \<and>
     cell_id (fst (evidence_cells e)) \<noteq> cell_id (snd (evidence_cells e)) \<and>
     published_run_id (fst (evidence_cells e)) \<noteq> published_run_id (snd (evidence_cells e))"

lemma make_evidence_wf:
  "make_evidence i c cells = Inr e \<Longrightarrow> cell_wf (fst cells) \<Longrightarrow> cell_wf (snd cells) \<Longrightarrow>
     evidence_wf e \<and> evidence_cells e = cells"
  by (clarsimp simp: make_evidence_def evidence_wf_def ck_fields andThen_eq_Inr)

lemma evidence_parse_wf:
  assumes "evidence_from_mapping v = Inr e"
  shows "evidence_wf e"
proof -
  from assms obtain i c a b x y where "make_evidence i c (a, b) = Inr e"
      and "cell_from_mapping x = Inr a" "cell_from_mapping y = Inr b"
    by (clarsimp simp: evidence_from_mapping_def andThen_eq_Inr)
  then show ?thesis
    using make_evidence_wf [of i c "(a, b)" e] cell_parse_wf by simp
qed

lemma evidence_roundtrip: "evidence_wf e \<Longrightarrow> evidence_from_mapping (evidence_to_mapping e) = Inr e"
  by (simp add: evidence_from_mapping_def evidence_to_mapping_def make_evidence_def evidence_wf_def
      ck_fields ck_values text_field_ok raw_pair_value cell.roundtrip)

interpretation evidence: mapping_codec evidence_to_mapping evidence_from_mapping evidence_wf
  by unfold_locales (fact evidence_parse_wf evidence_roundtrip)+

lemma require_completion_eq [simp]:
  "require_completion e c = Inr u \<longleftrightarrow>
     ordered_cell_ids c = (cell_id (fst (evidence_cells e)), cell_id (snd (evidence_cells e))) \<and>
     ordered_evidence_run_ids c =
       (published_run_id (fst (evidence_cells e)), published_run_id (snd (evidence_cells e)))"
  by (auto simp: require_completion_def Let_def split: prod.splits)

section \<open>The proof of the repository\<close>

record repository_proof =
  head_commit :: string
  local_branch_ref :: string
  upstream_ref :: string
  upstream_commit :: string
  remote_name :: string
  remote_ref :: string
  remote_commit :: string

definition make_repository ::
  "pyval \<Rightarrow> pyval \<Rightarrow> pyval \<Rightarrow> pyval \<Rightarrow> pyval \<Rightarrow> pyval \<Rightarrow> pyval \<Rightarrow> repository_proof res" where
  "make_repository head local upref upstream rname rref rcommit =
     andThen (ck_object_id head) (\<lambda>h.
     andThen (ck_git_ref ''refs/heads/'' local) (\<lambda>l.
     andThen (ck_git_ref ''refs/remotes/'' upref) (\<lambda>ur.
     andThen (ck_object_id upstream) (\<lambda>uc.
     andThen (text_field remote_text rname) (\<lambda>rn.
     andThen (ck_git_ref ''refs/heads/'' rref) (\<lambda>rr.
     andThen (ck_object_id rcommit) (\<lambda>rc.
     if \<not> (h = uc \<and> uc = rc) then Inl (CheckpointError Repository_not_pushed)
     else Inr \<lparr>head_commit = h, local_branch_ref = l, upstream_ref = ur, upstream_commit = uc,
       remote_name = rn, remote_ref = rr, remote_commit = rc\<rparr>)))))))"

definition repository_to_mapping :: "repository_proof \<Rightarrow> pyval" where
  "repository_to_mapping r = PDict [
     (''head_commit'', PStr (head_commit r)),
     (''local_branch_ref'', PStr (local_branch_ref r)),
     (''remote_commit'', PStr (remote_commit r)),
     (''remote_name'', PStr (remote_name r)),
     (''remote_ref'', PStr (remote_ref r)),
     (''upstream_commit'', PStr (upstream_commit r)),
     (''upstream_ref'', PStr (upstream_ref r))]"

definition repository_from_mapping :: "pyval \<Rightarrow> repository_proof res" where
  "repository_from_mapping v =
     andThen (ck_mapping v) (\<lambda>d.
     andThen (ck_exact_keys d {''head_commit'', ''local_branch_ref'', ''remote_commit'',
       ''remote_name'', ''remote_ref'', ''upstream_commit'', ''upstream_ref''}) (\<lambda>_.
     andThen (getitem d ''head_commit'') (\<lambda>h.
     andThen (getitem d ''local_branch_ref'') (\<lambda>l.
     andThen (getitem d ''upstream_ref'') (\<lambda>ur.
     andThen (getitem d ''upstream_commit'') (\<lambda>uc.
     andThen (getitem d ''remote_name'') (\<lambda>rn.
     andThen (getitem d ''remote_ref'') (\<lambda>rr.
     andThen (getitem d ''remote_commit'') (\<lambda>rc.
       make_repository h l ur uc rn rr rc)))))))))"

definition repository_wf :: "repository_proof \<Rightarrow> bool" where
  "repository_wf r \<longleftrightarrow> object_id_text (head_commit r) \<and>
     upstream_commit r = head_commit r \<and> remote_commit r = head_commit r \<and>
     git_ref_text ''refs/heads/'' (local_branch_ref r) \<and>
     git_ref_text ''refs/remotes/'' (upstream_ref r) \<and>
     remote_text (remote_name r) \<and> git_ref_text ''refs/heads/'' (remote_ref r)"

lemma make_repository_wf: "make_repository h l ur uc rn rr rc = Inr r \<Longrightarrow> repository_wf r"
  by (clarsimp simp: make_repository_def repository_wf_def ck_fields andThen_eq_Inr)

lemma repository_parse_wf: "repository_from_mapping v = Inr r \<Longrightarrow> repository_wf r"
  by (clarsimp simp: repository_from_mapping_def andThen_eq_Inr make_repository_wf)

lemma repository_roundtrip:
  "repository_wf r \<Longrightarrow> repository_from_mapping (repository_to_mapping r) = Inr r"
  by (simp add: repository_from_mapping_def repository_to_mapping_def make_repository_def
      repository_wf_def ck_fields ck_values text_field_ok)

interpretation repository: mapping_codec repository_to_mapping repository_from_mapping repository_wf
  by unfold_locales (fact repository_parse_wf repository_roundtrip)+

section \<open>The acknowledgement\<close>

record acknowledgement =
  ack_campaign :: campaign_binding
  ack_completion :: pair_completion
  ack_prefix :: journal_prefix
  ack_evidence :: evidence_proof
  ack_repository :: repository_proof
  acknowledged_at :: string

definition ACK_SCHEMA_VERSION :: string where
  "ACK_SCHEMA_VERSION = ''sparkbench-autoresearch-checkpoint-v1''"

definition ack_payload :: "(pyval \<Rightarrow> string) \<Rightarrow> acknowledgement \<Rightarrow> pydict" where
  "ack_payload sha a = [
     (''acknowledged_at'', PStr (acknowledged_at a)),
     (''campaign'', binding_to_mapping (ack_campaign a)),
     (''completion'', completion_to_mapping (ack_completion a)),
     (''evidence'', evidence_to_mapping (ack_evidence a)),
     (''journal_prefix'', prefix_to_mapping (ack_prefix a)),
     (''pair_state_sha256'', PStr (completion_digest sha (ack_completion a))),
     (''repository'', repository_to_mapping (ack_repository a)),
     (''schema_version'', PStr ACK_SCHEMA_VERSION)]"

definition ack_to_mapping :: "(pyval \<Rightarrow> string) \<Rightarrow> acknowledgement \<Rightarrow> pyval" where
  "ack_to_mapping sha a = PDict (ack_payload sha a
     @ [(''integrity_hash'', PStr (sha (canonical (PDict (ack_payload sha a)))))])"

definition ACK_KEYS :: "string set" where
  "ACK_KEYS = {''schema_version'', ''campaign'', ''completion'', ''pair_state_sha256'',
     ''journal_prefix'', ''evidence'', ''repository'', ''acknowledged_at'', ''integrity_hash''}"

text \<open>\<open>CheckpointAcknowledgement(\<dots>)\<close>: its \<open>__post_init__\<close>.\<close>

definition make_ack ::
  "(string \<Rightarrow> bool) \<Rightarrow> campaign_binding \<Rightarrow> pair_completion \<Rightarrow> journal_prefix \<Rightarrow> evidence_proof
   \<Rightarrow> repository_proof \<Rightarrow> pyval \<Rightarrow> acknowledgement res" where
  "make_ack aware b c jp e r stamp =
     andThen (ck_timestamp aware stamp) (\<lambda>t.
     andThen (require_completion e c) (\<lambda>_.
       Inr \<lparr>ack_campaign = b, ack_completion = c, ack_prefix = jp, ack_evidence = e,
         ack_repository = r, acknowledged_at = t\<rparr>))"

text \<open>Any typed failure of a part becomes the one code of a stored checkpoint.\<close>

definition other_checkpoint_error :: "exn \<Rightarrow> bool" where
  "other_checkpoint_error x = (case x of CheckpointError _ \<Rightarrow> True | _ \<Rightarrow> False)"

definition ack_from_mapping ::
  "(string \<Rightarrow> bool) \<Rightarrow> (pyval \<Rightarrow> string) \<Rightarrow> pyval \<Rightarrow> acknowledgement res" where
  "ack_from_mapping aware sha v =
     andThen (ck_mapping v) (\<lambda>d.
     andThen (ck_exact_keys d ACK_KEYS) (\<lambda>_.
     andThen (getitem d ''schema_version'') (\<lambda>schema.
     if schema \<noteq> PStr ACK_SCHEMA_VERSION then Inl invalid else
     andThen (andThen (getitem d ''integrity_hash'') ck_sha256) (\<lambda>integrity.
     if sha (canonical (PDict (filter (\<lambda>(k, x). k \<noteq> ''integrity_hash'') d))) \<noteq> integrity
     then Inl invalid else
     andThen (andThen (getitem d ''completion'') completion_from_mapping) (\<lambda>c.
     andThen (getitem d ''pair_state_sha256'') (\<lambda>state.
     if state \<noteq> PStr (completion_digest sha c) then Inl invalid else
     reraise other_checkpoint_error invalid (
       andThen (andThen (getitem d ''campaign'') binding_from_mapping) (\<lambda>b.
       andThen (andThen (getitem d ''journal_prefix'') prefix_from_mapping) (\<lambda>jp.
       andThen (andThen (getitem d ''evidence'') evidence_from_mapping) (\<lambda>e.
       andThen (andThen (getitem d ''repository'') repository_from_mapping) (\<lambda>r.
       andThen (getitem d ''acknowledged_at'') (\<lambda>stamp.
         make_ack aware b c jp e r stamp))))))))))))"

definition ack_wf :: "(string \<Rightarrow> bool) \<Rightarrow> acknowledgement \<Rightarrow> bool" where
  "ack_wf aware a \<longleftrightarrow> binding_wf (ack_campaign a) \<and> completion_wf (ack_completion a) \<and>
     prefix_wf (ack_prefix a) \<and> evidence_wf (ack_evidence a) \<and> repository_wf (ack_repository a) \<and>
     length (acknowledged_at a) \<le> 64 \<and> aware (acknowledged_at a) \<and>
     require_completion (ack_evidence a) (ack_completion a) = Inr ()"

lemma make_ack_eq:
  "make_ack aware b c jp e r stamp = Inr a \<longleftrightarrow>
     require_completion e c = Inr () \<and> (\<exists>t. stamp = PStr t \<and> length t \<le> 64 \<and> aware t \<and>
       a = \<lparr>ack_campaign = b, ack_completion = c, ack_prefix = jp, ack_evidence = e,
         ack_repository = r, acknowledged_at = t\<rparr>)"
  by (auto simp: make_ack_def ck_fields andThen_eq_Inr simp del: require_completion_eq)

lemma ack_parse_wf: "ack_from_mapping aware sha v = Inr a \<Longrightarrow> ack_wf aware a"
  by (clarsimp simp: ack_from_mapping_def andThen_eq_Inr make_ack_eq ack_wf_def
      binding_parse_wf completion_parse_wf prefix_parse_wf evidence_parse_wf repository_parse_wf
      simp del: require_completion_eq)

lemma ack_payload_kept:
  "filter (\<lambda>(k, x). k \<noteq> ''integrity_hash'') (ack_payload sha a
     @ [(''integrity_hash'', v)]) = ack_payload sha a"
  by (simp add: ack_payload_def)

lemma ack_roundtrip:
  assumes "ack_wf aware a" and "\<And>v. sha256_hex (sha v)"
  shows "ack_from_mapping aware sha (ack_to_mapping sha a) = Inr a"
proof -
  let ?d = "ack_payload sha a @ [(''integrity_hash'', PStr (sha (canonical (PDict (ack_payload sha a)))))]"
  have keys: "dict_keys ?d = ACK_KEYS"
    by (auto simp: ack_payload_def ACK_KEYS_def)
  have fields: "getitem ?d ''schema_version'' = Inr (PStr ACK_SCHEMA_VERSION)"
      "getitem ?d ''integrity_hash'' = Inr (PStr (sha (canonical (PDict (ack_payload sha a)))))"
      "getitem ?d ''completion'' = Inr (completion_to_mapping (ack_completion a))"
      "getitem ?d ''pair_state_sha256'' = Inr (PStr (completion_digest sha (ack_completion a)))"
      "getitem ?d ''campaign'' = Inr (binding_to_mapping (ack_campaign a))"
      "getitem ?d ''journal_prefix'' = Inr (prefix_to_mapping (ack_prefix a))"
      "getitem ?d ''evidence'' = Inr (evidence_to_mapping (ack_evidence a))"
      "getitem ?d ''repository'' = Inr (repository_to_mapping (ack_repository a))"
      "getitem ?d ''acknowledged_at'' = Inr (PStr (acknowledged_at a))"
    by (simp_all add: ack_payload_def)
  have "make_ack aware (ack_campaign a) (ack_completion a) (ack_prefix a) (ack_evidence a)
      (ack_repository a) (PStr (acknowledged_at a)) = Inr a"
    using assms(1) by (simp add: make_ack_eq ack_wf_def del: require_completion_eq)
  moreover have "ck_sha256 (PStr (sha x)) = Inr (sha x)" for x
    using assms(2) by (simp add: ck_fields)
  moreover have "completion_from_mapping (completion_to_mapping (ack_completion a)) = Inr (ack_completion a)"
      "binding_from_mapping (binding_to_mapping (ack_campaign a)) = Inr (ack_campaign a)"
      "prefix_from_mapping (prefix_to_mapping (ack_prefix a)) = Inr (ack_prefix a)"
      "evidence_from_mapping (evidence_to_mapping (ack_evidence a)) = Inr (ack_evidence a)"
      "repository_from_mapping (repository_to_mapping (ack_repository a)) = Inr (ack_repository a)"
    using assms(1) by (simp_all add: ack_wf_def completion.roundtrip binding.roundtrip
        journal_prefix.roundtrip evidence.roundtrip repository.roundtrip)
  ultimately show ?thesis
    unfolding ack_from_mapping_def ack_to_mapping_def
    by (simp only: ck_values(1) ck_values(2) [OF keys] fields ack_payload_kept andThen_simps
        reraise_value simp_thms if_False if_True)
qed

end
