(* ===== verification/Checkpoint_Gate.thy ===== *)
theory Checkpoint_Gate
  imports Checkpoint_State Journal_Log
begin

text \<open>
  The proofs and the gate of \<open>bench/autoresearch_checkpoint.py\<close>: reading a file without
  following links, the journal prefix, the repository proof against a Git runner, the evidence
  proof, \<open>acknowledge_checkpoint\<close> and \<open>checkpoint_gate\<close>.

  Parameters: \<open>sha_bytes\<close> is SHA-256 of a file's bytes, \<open>sha\<close> of a canonical value; \<open>load\<close> is
  \<open>json.loads\<close> with the hook that refuses repeated keys; \<open>git\<close> answers the n-th Git call; the
  evidence exporter and verifiers are functions that return or raise. A file is the record of
  \<open>Journal_Log\<close>, a directory path the list of what its components are.
\<close>

section \<open>Files\<close>

datatype component = Plain_directory | Link_or_file | Missing_component

definition open_directory :: "checkpoint_code \<Rightarrow> component list \<Rightarrow> unit res" where
  "open_directory c path =
     fold_res (\<lambda>u k. check (k = Plain_directory) (CheckpointError c)) () path"

definition secure_read ::
  "int \<Rightarrow> checkpoint_code \<Rightarrow> nat option \<Rightarrow> component list \<Rightarrow> journal_file option \<Rightarrow> string res" where
  "secure_read maximum c required_mode path fl =
     andThen (open_directory c path) (\<lambda>_.
     case fl of
       None \<Rightarrow> Inl (CheckpointError c)
     | Some f \<Rightarrow>
        (if \<not> safe_file f \<or> int (length (content f)) > maximum
           \<or> (case required_mode of None \<Rightarrow> False | Some m \<Rightarrow> file_mode f \<noteq> m)
         then Inl (CheckpointError c) else Inr (content f)))"

text \<open>\<open>json.loads\<close>: no JSON, a repeated key at any depth, or a value.\<close>

datatype loaded = Not_json | Repeated_key | Json pyval

definition parse_object :: "(string \<Rightarrow> loaded) \<Rightarrow> checkpoint_code \<Rightarrow> string \<Rightarrow> pydict res" where
  "parse_object load c s = (case load s of
       Not_json \<Rightarrow> Inl (CheckpointError c)
     | Repeated_key \<Rightarrow> Inl invalid
     | Json (PDict d) \<Rightarrow> Inr d
     | Json _ \<Rightarrow> Inl (CheckpointError c))"

section \<open>The journal prefix\<close>

definition journal_line :: "(string \<Rightarrow> loaded) \<Rightarrow> string \<Rightarrow> pydict res" where
  "journal_line load line =
     (if line = [] then Inl (CheckpointError Journal_prefix_invalid)
      else parse_object load Journal_prefix_invalid line)"

definition prefix_events :: "(string \<Rightarrow> loaded) \<Rightarrow> string \<Rightarrow> pydict list res" where
  "prefix_events load s =
     (if s = [] \<or> last s \<noteq> LF then Inl (CheckpointError Journal_prefix_invalid)
      else traverse (journal_line load) (splitlines_bytes s))"

definition capture_journal_prefix ::
  "(string \<Rightarrow> loaded) \<Rightarrow> (string \<Rightarrow> string) \<Rightarrow> component list \<Rightarrow> journal_file option
   \<Rightarrow> journal_prefix res" where
  "capture_journal_prefix load sha_bytes path fl =
     andThen (secure_read MAX_JOURNAL_BYTES Journal_prefix_invalid None path fl) (\<lambda>s.
     andThen (prefix_events load s) (\<lambda>evs.
       make_prefix (PInt (int (length evs))) (PInt (int (length s))) (PStr (sha_bytes s))))"

definition require_journal_prefix ::
  "(string \<Rightarrow> loaded) \<Rightarrow> (string \<Rightarrow> string) \<Rightarrow> component list \<Rightarrow> journal_file option
   \<Rightarrow> journal_prefix \<Rightarrow> unit res" where
  "require_journal_prefix load sha_bytes path fl p =
     andThen (secure_read MAX_JOURNAL_BYTES Journal_prefix_invalid None path fl) (\<lambda>s.
     andThen (prefix_events load s) (\<lambda>evs.
     (let part = take (nat (size_bytes p)) s in
      if int (length s) < size_bytes p \<or> sha_bytes part \<noteq> prefix_sha256 p
      then Inl (CheckpointError Journal_prefix_changed)
      else andThen (prefix_events load part) (\<lambda>old.
        if int (length old) \<noteq> event_count p \<or> int (length evs) < event_count p
        then Inl (CheckpointError Journal_prefix_changed) else Inr ()))))"

section \<open>The repository\<close>

text \<open>
  \<open>git n arguments\<close> is the answer to the n-th call, so the repository may change between two
  calls; \<open>decode\<close> is UTF-8 decoding. A runner raises \<open>CheckpointError\<close> only.
\<close>

definition git_text ::
  "(nat \<Rightarrow> string list \<Rightarrow> string res) \<Rightarrow> (string \<Rightarrow> string option) \<Rightarrow> checkpoint_code \<Rightarrow> nat
   \<Rightarrow> string list \<Rightarrow> string res" where
  "git_text git decode c n arguments =
     (case git n arguments of
        Inl (CheckpointError _) \<Rightarrow> Inl (CheckpointError c)
      | Inl e \<Rightarrow> Inl e
      | Inr bytes \<Rightarrow> (case decode bytes of
           None \<Rightarrow> Inl (CheckpointError c)
         | Some text_value \<Rightarrow>
            (if py_strip text_value = [] then Inl (CheckpointError c) else Inr (py_strip text_value))))"

definition git_status :: "(nat \<Rightarrow> string list \<Rightarrow> string res) \<Rightarrow> nat \<Rightarrow> string res" where
  "git_status git n = reraise other_checkpoint_error (CheckpointError Repository_unverified)
     (git n [''status'', ''--porcelain=v2'', ''-z'', ''--untracked-files=all''])"

definition head_commit_arguments :: "string list" where
  "head_commit_arguments = [''rev-parse'', ''--verify'', ''HEAD^{commit}'']"

text \<open>The revision Git writes as an at sign and the word upstream in braces.\<close>

definition upstream_revision :: string where
  "upstream_revision = CHR 0x40 # ''{upstream}''"

text \<open>\<open>records[0].split(TAB, 1)\<close> of the one line of \<open>ls-remote\<close>.\<close>

definition remote_record :: "string \<Rightarrow> (string \<times> string) res" where
  "remote_record output = (case splitlines output of
       [line] \<Rightarrow> (let (commit, tab, ref) = partition_at (CHR 0x09) line in
          if tab then Inr (commit, ref) else Inl (CheckpointError Remote_unverified))
     | _ \<Rightarrow> Inl (CheckpointError Remote_unverified))"

definition prove_repository ::
  "(nat \<Rightarrow> string list \<Rightarrow> string res) \<Rightarrow> (string \<Rightarrow> string option) \<Rightarrow> repository_proof res" where
  "prove_repository git decode =
     andThen (git_status git 0) (\<lambda>status.
     if status \<noteq> [] then Inl (CheckpointError Repository_dirty) else
     andThen (git_text git decode Repository_detached 1 [''symbolic-ref'', ''-q'', ''HEAD'']) (\<lambda>local.
     andThen (ck_git_ref ''refs/heads/'' (PStr local)) (\<lambda>_.
     andThen (git_text git decode Repository_unverified 2 head_commit_arguments) (\<lambda>head_text.
     andThen (ck_object_id (PStr head_text)) (\<lambda>head.
     (let branch = drop (length ''refs/heads/'') local in
     andThen (git_text git decode Upstream_missing 3
       [''config'', ''--get'', ''branch.'' @ branch @ ''.remote'']) (\<lambda>rname.
     if \<not> remote_text rname \<or> rname \<in> {''.'', ''..''} then Inl (CheckpointError Upstream_missing) else
     andThen (git_text git decode Upstream_missing 4
       [''config'', ''--get'', ''branch.'' @ branch @ ''.merge'']) (\<lambda>rref.
     andThen (ck_git_ref ''refs/heads/'' (PStr rref)) (\<lambda>_.
     andThen (git_text git decode Upstream_missing 5
       [''rev-parse'', ''--symbolic-full-name'', upstream_revision]) (\<lambda>upref.
     andThen (ck_git_ref ''refs/remotes/'' (PStr upref)) (\<lambda>_.
     andThen (git_text git decode Upstream_missing 6
       [''rev-parse'', ''--verify'', upstream_revision @ ''^{commit}'']) (\<lambda>upstream_text.
     andThen (ck_object_id (PStr upstream_text)) (\<lambda>upstream.
     if head \<noteq> upstream then Inl (CheckpointError Repository_not_pushed) else
     andThen (git_text git decode Remote_unverified 7
       [''ls-remote'', ''--exit-code'', rname, rref]) (\<lambda>output.
     andThen (remote_record output) (\<lambda>(rcommit, returned_ref).
     andThen (ck_object_id (PStr rcommit)) (\<lambda>_.
     if returned_ref \<noteq> rref \<or> rcommit \<noteq> head
     then Inl (CheckpointError Repository_not_pushed) else
     andThen (git_status git 8) (\<lambda>final_status.
     andThen (git_text git decode Repository_unverified 9 head_commit_arguments) (\<lambda>final_text.
     andThen (ck_object_id (PStr final_text)) (\<lambda>final_head.
     if final_status \<noteq> [] \<or> final_head \<noteq> head then Inl (CheckpointError Checkpoint_race)
     else make_repository (PStr head) (PStr local) (PStr upref) (PStr upstream) (PStr rname)
       (PStr rref) (PStr rcommit))))))))))))))))))))"

section \<open>The evidence\<close>

definition MAX_EVIDENCE_CONTROL_BYTES :: int where
  "MAX_EVIDENCE_CONTROL_BYTES = 4 * 1024 * 1024"

text \<open>The dict of the index entries by their run ID.\<close>

definition add_run :: "(string \<times> pydict) list \<Rightarrow> pyval \<Rightarrow> (string \<times> pydict) list res" where
  "add_run by_id raw = (case raw of
       PDict entry \<Rightarrow> (case dict_get entry ''run_id'' of
            PStr run \<Rightarrow> if map_of by_id run \<noteq> None then Inl (CheckpointError Evidence_invalid)
              else Inr (by_id @ [(run, entry)])
          | _ \<Rightarrow> Inl (CheckpointError Evidence_invalid))
     | _ \<Rightarrow> Inl (CheckpointError Evidence_invalid))"

definition index_runs :: "pydict \<Rightarrow> (string \<times> pydict) list res" where
  "index_runs index = (case dict_get index ''runs'' of
       PList runs \<Rightarrow> fold_res add_run [] runs
     | _ \<Rightarrow> Inl (CheckpointError Evidence_invalid))"

definition find_cell :: "(string \<times> pydict) list \<Rightarrow> string \<times> string \<Rightarrow> evidence_cell res" where
  "find_cell by_id ids = (case map_of by_id (snd ids) of
       None \<Rightarrow> Inl (CheckpointError Evidence_pair_binding_mismatch)
     | Some entry \<Rightarrow> make_cell (PStr (fst ids)) (PStr (snd ids)) (dict_get entry ''bundle_sha256'')
         (dict_get entry ''status'') (dict_get entry ''measurement_terminal''))"

definition read_evidence_proof ::
  "(string \<Rightarrow> loaded) \<Rightarrow> (string \<Rightarrow> string) \<Rightarrow> component list \<Rightarrow> journal_file option
   \<Rightarrow> journal_file option \<Rightarrow> pair_completion \<Rightarrow> evidence_proof res" where
  "read_evidence_proof load sha_bytes path index_file checksums_file c =
     andThen (secure_read MAX_EVIDENCE_CONTROL_BYTES Evidence_invalid None path index_file) (\<lambda>ib.
     andThen (secure_read MAX_EVIDENCE_CONTROL_BYTES Evidence_invalid None path checksums_file) (\<lambda>cb.
     andThen (parse_object load Evidence_invalid ib) (\<lambda>index.
     andThen (index_runs index) (\<lambda>by_id.
     andThen (find_cell by_id (fst (ordered_cell_ids c), fst (ordered_evidence_run_ids c))) (\<lambda>a.
     andThen (find_cell by_id (snd (ordered_cell_ids c), snd (ordered_evidence_run_ids c))) (\<lambda>b.
     andThen (make_evidence (PStr (sha_bytes ib)) (PStr (sha_bytes cb)) (a, b)) (\<lambda>proof_value.
     andThen (require_completion proof_value c) (\<lambda>_. Inr proof_value))))))))"

text \<open>\<open>except (OSError, RuntimeError, ValueError)\<close> after \<open>except CheckpointError: raise\<close>.\<close>

definition evidence_exception :: "exn \<Rightarrow> bool" where
  "evidence_exception e = (case e of
       OSError \<Rightarrow> True | RuntimeError \<Rightarrow> True | ValueError \<Rightarrow> True | AutoresearchError \<Rightarrow> True
     | TransitionError \<Rightarrow> True | MeminfoError _ \<Rightarrow> True | MetricsDeltaError \<Rightarrow> True
     | CacheMetricsError \<Rightarrow> True | _ \<Rightarrow> False)"

definition prove_evidence ::
  "component list \<Rightarrow> pydict res \<Rightarrow> pydict res \<Rightarrow> pydict res
   \<Rightarrow> (pair_completion \<Rightarrow> evidence_proof res) \<Rightarrow> pair_completion \<Rightarrow> evidence_proof res" where
  "prove_evidence evidence_path export_report verification staged reader c =
     andThen (open_directory Evidence_not_current evidence_path) (\<lambda>_.
     andThen (reraise evidence_exception (CheckpointError Evidence_not_current) export_report) (\<lambda>report.
     if dict_get report ''changed'' \<noteq> PBool False then Inl (CheckpointError Evidence_not_current) else
     andThen (reraise evidence_exception (CheckpointError Evidence_invalid) verification) (\<lambda>v.
     if dict_get v ''status'' \<noteq> PStr ''verified'' then Inl (CheckpointError Evidence_invalid) else
     andThen (reraise evidence_exception (CheckpointError Evidence_invalid) staged) (\<lambda>s.
     if dict_get s ''status'' \<noteq> PStr ''staged_verified'' then Inl (CheckpointError Evidence_invalid)
     else reader c))))"

section \<open>The stored acknowledgement\<close>

definition MAX_ACK_BYTES :: int where
  "MAX_ACK_BYTES = 128 * 1024"

text \<open>Mode \<open>0o600\<close>.\<close>

definition private_mode :: nat where
  "private_mode = 384"

definition load_acknowledgement ::
  "(string \<Rightarrow> bool) \<Rightarrow> (pyval \<Rightarrow> string) \<Rightarrow> (string \<Rightarrow> loaded) \<Rightarrow> component list
   \<Rightarrow> journal_file option \<Rightarrow> acknowledgement option res" where
  "load_acknowledgement aware sha load path fl = (case fl of
       None \<Rightarrow> Inr None
     | Some f \<Rightarrow>
         andThen (secure_read MAX_ACK_BYTES Checkpoint_state_invalid (Some private_mode) path (Some f)) (\<lambda>s.
         andThen (parse_object load Checkpoint_state_invalid s) (\<lambda>d.
         andThen (ack_from_mapping aware sha (PDict d)) (\<lambda>a. Inr (Some a)))))"

text \<open>
  \<open>_write_acknowledgement\<close>: the directory is prepared and opened, a file that is already there
  must be safe, and the new content replaces it as a whole or not at all. \<open>prepared\<close> and
  \<open>written\<close> are the outcomes of the system calls: a failure up to the rename leaves the old
  file, a failed \<open>fsync\<close> of the directory raises after the rename.
\<close>

datatype write_outcome = Write_fails exn | Sync_fails exn | Write_completes

definition write_acknowledgement ::
  "(pyval \<Rightarrow> string) \<Rightarrow> (pyval \<Rightarrow> string) \<Rightarrow> unit res \<Rightarrow> write_outcome
   \<Rightarrow> journal_file option \<Rightarrow> acknowledgement \<Rightarrow> journal_file option \<times> unit res" where
  "write_acknowledgement sha dump prepared written fl a =
     (case prepared of
        Inl e \<Rightarrow> (fl, Inl e)
      | Inr _ \<Rightarrow>
         (if (case fl of None \<Rightarrow> False | Some f \<Rightarrow> \<not> safe_file f \<or> file_mode f \<noteq> private_mode)
          then (fl, Inl invalid)
          else let replaced = Some (new_file\<lparr>file_mode := private_mode,
                 content := dump (ack_to_mapping sha a) @ [LF]\<rparr>)
            in case written of
               Write_fails e \<Rightarrow> (fl, Inl e)
             | Sync_fails e \<Rightarrow> (replaced, Inl e)
             | Write_completes \<Rightarrow> (replaced, Inr ())))"

text \<open>Two completions compare field by field, the index by value.\<close>

definition same_completion :: "pair_completion \<Rightarrow> pair_completion \<Rightarrow> bool" where
  "same_completion c d \<longleftrightarrow>
     c\<lparr>search_pair_index := PNone\<rparr> = d\<lparr>search_pair_index := PNone\<rparr> \<and>
     py_equal (search_pair_index c) (search_pair_index d)"

definition same_proofs :: "acknowledgement \<Rightarrow> acknowledgement \<Rightarrow> bool" where
  "same_proofs a b \<longleftrightarrow> ack_campaign a = ack_campaign b \<and>
     same_completion (ack_completion a) (ack_completion b) \<and> ack_prefix a = ack_prefix b \<and>
     ack_evidence a = ack_evidence b \<and> ack_repository a = ack_repository b"

text \<open>What the callbacks and the file system answer, before and after the verification.\<close>

record world =
  completion_before :: "pair_completion option res"
  completion_after :: "pair_completion option res"
  journal_before :: "journal_file option"
  journal_after :: "journal_file option"
  repository_before :: "repository_proof res"
  repository_after :: "repository_proof res"
  evidence_verify :: "pair_completion \<Rightarrow> evidence_proof res"
  evidence_snapshot :: "pair_completion \<Rightarrow> evidence_proof res"
  clock_text :: string
  clock_aware :: bool

definition race_free_proofs ::
  "(string \<Rightarrow> loaded) \<Rightarrow> (string \<Rightarrow> string) \<Rightarrow> component list \<Rightarrow> world
   \<Rightarrow> (pair_completion \<times> journal_prefix \<times> evidence_proof \<times> repository_proof) res" where
  "race_free_proofs load sha_bytes path w =
     andThen (completion_before w) (\<lambda>before.
     case before of None \<Rightarrow> Inl (CheckpointError No_completed_pair) | Some c \<Rightarrow>
     andThen (capture_journal_prefix load sha_bytes path (journal_before w)) (\<lambda>j.
     andThen (repository_before w) (\<lambda>r.
     andThen (evidence_verify w c) (\<lambda>e.
     andThen (require_completion e c) (\<lambda>_.
     andThen (completion_after w) (\<lambda>after.
     andThen (capture_journal_prefix load sha_bytes path (journal_after w)) (\<lambda>j'.
     case after of None \<Rightarrow> Inl (CheckpointError Checkpoint_race) | Some c' \<Rightarrow>
     andThen (evidence_snapshot w c') (\<lambda>e'.
     andThen (repository_after w) (\<lambda>r'.
     if \<not> same_completion c c' \<or> j \<noteq> j' \<or> e \<noteq> e' \<or> r \<noteq> r'
     then Inl (CheckpointError Checkpoint_race)
     else Inr (c, j, e, r))))))))))"

text \<open>
  The second half of \<open>acknowledge_checkpoint\<close>: an acknowledgement of the same proofs is kept,
  otherwise the new one is written and read back.
\<close>

definition store_acknowledgement ::
  "(string \<Rightarrow> bool) \<Rightarrow> (pyval \<Rightarrow> string) \<Rightarrow> (string \<Rightarrow> loaded) \<Rightarrow> (pyval \<Rightarrow> string)
   \<Rightarrow> component list \<Rightarrow> unit res \<Rightarrow> write_outcome \<Rightarrow> acknowledgement \<Rightarrow> journal_file option
   \<Rightarrow> journal_file option \<times> acknowledgement res" where
  "store_acknowledgement aware sha load dump ack_path prepared written a fl =
     (case load_acknowledgement aware sha load ack_path fl of
        Inl x \<Rightarrow> (fl, Inl x)
      | Inr existing \<Rightarrow>
         (case (case existing of Some old \<Rightarrow> if same_proofs old a then Some old else None
                | None \<Rightarrow> None) of
            Some old \<Rightarrow> (fl, Inr old)
          | None \<Rightarrow>
             (case write_acknowledgement sha dump prepared written fl a of
                (fl', Inl x) \<Rightarrow> (fl', Inl x)
              | (fl', Inr _) \<Rightarrow>
                  (fl', andThen (load_acknowledgement aware sha load ack_path fl') (\<lambda>again.
                     case again of
                       Some a' \<Rightarrow> (if same_proofs a' a \<and> acknowledged_at a' = acknowledged_at a
                         then Inr a else Inl invalid)
                     | None \<Rightarrow> Inl invalid)))))"

definition acknowledge_checkpoint ::
  "(string \<Rightarrow> bool) \<Rightarrow> (pyval \<Rightarrow> string) \<Rightarrow> (string \<Rightarrow> loaded) \<Rightarrow> (string \<Rightarrow> string)
   \<Rightarrow> (pyval \<Rightarrow> string) \<Rightarrow> component list \<Rightarrow> component list \<Rightarrow> unit res \<Rightarrow> write_outcome \<Rightarrow> world
   \<Rightarrow> campaign_binding \<Rightarrow> journal_file option \<Rightarrow> journal_file option \<times> acknowledgement res" where
  "acknowledge_checkpoint aware sha load sha_bytes dump journal_path ack_path prepared written w b fl =
     (case andThen (race_free_proofs load sha_bytes journal_path w) (\<lambda>(c, j, e, r).
          if \<not> clock_aware w then Inl invalid
          else make_ack aware b c j e r (PStr (clock_text w))) of
        Inl x \<Rightarrow> (fl, Inl x)
      | Inr a \<Rightarrow>
         store_acknowledgement aware sha load dump ack_path prepared written a fl)"

section \<open>The gate\<close>

datatype gate_reason =
    Reason_missing | Reason_new_pair | Reason_evidence_changed | Reason_remote_unverified
  | Reason_repository_changed

record gate_result =
  gate_ready :: bool
  gate_reason :: "gate_reason option"
  gate_sequence :: int

definition ready_gate :: "int \<Rightarrow> gate_result" where
  "ready_gate n = \<lparr>gate_ready = True, gate_reason = None, gate_sequence = n\<rparr>"

definition required_gate :: "gate_reason \<Rightarrow> int \<Rightarrow> gate_result" where
  "required_gate r n = \<lparr>gate_ready = False, gate_reason = Some r, gate_sequence = n\<rparr>"

text \<open>\<open>except CheckpointError as error\<close>: an invalid state is raised again, the rest is a reason.\<close>

definition or_required ::
  "(checkpoint_code \<Rightarrow> gate_reason) \<Rightarrow> int \<Rightarrow> 'a res \<Rightarrow> ('a \<Rightarrow> gate_result res) \<Rightarrow> gate_result res" where
  "or_required reason n m f = (case m of
       Inl (CheckpointError c) \<Rightarrow>
         (if c = Checkpoint_state_invalid then Inl (CheckpointError c)
          else Inr (required_gate (reason c) n))
     | Inl e \<Rightarrow> Inl e
     | Inr x \<Rightarrow> f x)"

definition repository_reason :: "checkpoint_code \<Rightarrow> gate_reason" where
  "repository_reason c = (if c \<in> {Remote_unverified, Repository_unverified}
     then Reason_remote_unverified else Reason_repository_changed)"

definition checkpoint_gate ::
  "(string \<Rightarrow> bool) \<Rightarrow> (pyval \<Rightarrow> string) \<Rightarrow> (string \<Rightarrow> loaded) \<Rightarrow> (string \<Rightarrow> string)
   \<Rightarrow> component list \<Rightarrow> component list \<Rightarrow> campaign_binding \<Rightarrow> pair_completion option
   \<Rightarrow> journal_file option \<Rightarrow> (pair_completion \<Rightarrow> evidence_proof res) \<Rightarrow> repository_proof res
   \<Rightarrow> journal_file option \<Rightarrow> gate_result res" where
  "checkpoint_gate aware sha load sha_bytes journal_path ack_path b completion journal
     evidence_reader repository_reader fl = (case completion of
       None \<Rightarrow> Inr (ready_gate 0)
     | Some c \<Rightarrow>
        andThen (load_acknowledgement aware sha load ack_path fl) (\<lambda>stored.
        case stored of None \<Rightarrow> Inr (required_gate Reason_missing (sequence c)) | Some a \<Rightarrow>
        if ack_campaign a \<noteq> b then Inl invalid
        else if \<not> same_completion (ack_completion a) c
        then Inr (required_gate Reason_new_pair (sequence c)) else
        andThen (require_journal_prefix load sha_bytes journal_path journal (ack_prefix a)) (\<lambda>_.
        or_required (\<lambda>_. Reason_evidence_changed) (sequence c)
          (andThen (evidence_reader c) (\<lambda>e. andThen (require_completion e c) (\<lambda>_. Inr e))) (\<lambda>e.
        if e \<noteq> ack_evidence a then Inr (required_gate Reason_evidence_changed (sequence c)) else
        or_required repository_reason (sequence c) repository_reader (\<lambda>r.
        if r \<noteq> ack_repository a then Inr (required_gate Reason_repository_changed (sequence c))
        else Inr (ready_gate (sequence c)))))))"

section \<open>Files and prefixes\<close>

lemma open_directory_eq: "open_directory c path = Inr () \<longleftrightarrow> set path \<subseteq> {Plain_directory}"
  unfolding open_directory_def by (induction path) (auto simp: check_def)

lemma secure_read_eq:
  "secure_read maximum c mode path fl = Inr s \<longleftrightarrow>
     set path \<subseteq> {Plain_directory} \<and> (\<exists>f. fl = Some f \<and> safe_file f \<and> content f = s \<and>
       int (length s) \<le> maximum \<and> (\<forall>m. mode = Some m \<longrightarrow> file_mode f = m))"
  by (cases fl; cases mode) (auto simp: secure_read_def andThen_eq_Inr open_directory_eq)

lemma parse_object_eq: "parse_object load c s = Inr d \<longleftrightarrow> load s = Json (PDict d)"
  by (auto simp: parse_object_def split: loaded.split pyval.split)

lemma capture_eq:
  "capture_journal_prefix load sha_bytes path fl = Inr p \<longleftrightarrow>
     (\<exists>s evs. secure_read MAX_JOURNAL_BYTES Journal_prefix_invalid None path fl = Inr s \<and>
        prefix_events load s = Inr evs \<and> length evs \<in> {1..10000} \<and> s \<noteq> [] \<and>
        int (length s) \<le> MAX_JOURNAL_BYTES \<and> sha256_hex (sha_bytes s) \<and>
        p = \<lparr>event_count = int (length evs), size_bytes = int (length s),
          prefix_sha256 = sha_bytes s\<rparr>)"
  by (auto simp: capture_journal_prefix_def make_prefix_def andThen_eq_Inr ck_fields Suc_le_eq)

text \<open>A captured journal has its own prefix.\<close>

lemma capture_require:
  assumes "capture_journal_prefix load sha_bytes path fl = Inr p"
  shows "require_journal_prefix load sha_bytes path fl p = Inr ()"
  using assms by (auto simp: capture_eq require_journal_prefix_def)

text \<open>One more complete line keeps every record and adds one.\<close>

lemma prefix_events_snoc:
  assumes "prefix_events load s = Inr evs" and "journal_line load line = Inr ev"
    and "set line \<inter> byte_breaks = {}"
  shows "prefix_events load (s @ line @ [LF]) = Inr (evs @ [ev])"
proof -
  have s: "s \<noteq> []" "last s = LF" and old: "traverse (journal_line load) (splitlines_bytes s) = Inr evs"
    using assms(1) by (auto simp: prefix_events_def split: if_splits)
  with splitlines_bytes_append [OF _ assms(3), of s] assms(2) show ?thesis
    by (simp add: prefix_events_def traverse_append)
qed

section \<open>The repository proof\<close>

lemma git_text_eq:
  "git_text git decode c n args = Inr t \<longleftrightarrow>
     (\<exists>bytes s. git n args = Inr bytes \<and> decode bytes = Some s \<and> t = py_strip s \<and> t \<noteq> [])"
  by (auto simp: git_text_def split: sum.split exn.split option.split)

lemma prove_repository_facts:
  assumes "prove_repository git decode = Inr r"
  shows "repository_wf r"
    and "git 0 [''status'', ''--porcelain=v2'', ''-z'', ''--untracked-files=all''] = Inr []"
    and "git 8 [''status'', ''--porcelain=v2'', ''-z'', ''--untracked-files=all''] = Inr []"
    and "git_text git decode Repository_unverified 2 head_commit_arguments = Inr (head_commit r)"
    and "git_text git decode Repository_unverified 9 head_commit_arguments = Inr (head_commit r)"
    and "\<exists>out. git_text git decode Remote_unverified 7
      [''ls-remote'', ''--exit-code'', remote_name r, remote_ref r] = Inr out \<and>
      remote_record out = Inr (head_commit r, remote_ref r)"
proof -
  from assms obtain local branch head rname rref upref upstream out rcommit where
      made: "make_repository (PStr head) (PStr local) (PStr upref) (PStr upstream) (PStr rname)
        (PStr rref) (PStr rcommit) = Inr r"
      and st: "git_status git 0 = Inr []" "git_status git 8 = Inr []"
      and heads: "git_text git decode Repository_unverified 2 head_commit_arguments = Inr head"
        "git_text git decode Repository_unverified 9 head_commit_arguments = Inr head"
      and remote: "git_text git decode Remote_unverified 7 [''ls-remote'', ''--exit-code'', rname, rref]
        = Inr out" "remote_record out = Inr (head, rref)"
    by (clarsimp simp: prove_repository_def andThen_eq_Inr Let_def ck_fields)
  from made have r: "head_commit r = head" "remote_name r = rname" "remote_ref r = rref"
    by (clarsimp simp: make_repository_def andThen_eq_Inr ck_fields)+
  from made show "repository_wf r" by (rule make_repository_wf)
  from st show "git 0 [''status'', ''--porcelain=v2'', ''-z'', ''--untracked-files=all''] = Inr []"
      "git 8 [''status'', ''--porcelain=v2'', ''-z'', ''--untracked-files=all''] = Inr []"
    by (simp_all add: git_status_def)
  from heads r show "git_text git decode Repository_unverified 2 head_commit_arguments = Inr (head_commit r)"
      "git_text git decode Repository_unverified 9 head_commit_arguments = Inr (head_commit r)"
    by simp_all
  from remote r show "\<exists>out. git_text git decode Remote_unverified 7
      [''ls-remote'', ''--exit-code'', remote_name r, remote_ref r] = Inr out \<and>
      remote_record out = Inr (head_commit r, remote_ref r)" by blast
qed

section \<open>The acknowledgement and the gate\<close>

lemma same_completion_refl [simp]: "same_completion c c"
  by (simp add: same_completion_def py_equal_def)

lemma same_completion_sym: "same_completion c d \<Longrightarrow> same_completion d c"
  by (simp add: same_completion_def py_equal_def)

lemma same_completion_trans: "same_completion c d \<Longrightarrow> same_completion d e \<Longrightarrow> same_completion c e"
  by (simp add: same_completion_def py_equal_def)

lemma same_proofs_sym: "same_proofs a b \<Longrightarrow> same_proofs b a"
  by (auto simp: same_proofs_def same_completion_sym)

lemma same_proofs_trans: "same_proofs a b \<Longrightarrow> same_proofs b c \<Longrightarrow> same_proofs a c"
  by (auto simp: same_proofs_def intro: same_completion_trans)

lemma race_free_facts:
  assumes "race_free_proofs load sha_bytes path w = Inr (c, j, e, r)"
  shows "completion_before w = Inr (Some c)"
    and "capture_journal_prefix load sha_bytes path (journal_before w) = Inr j"
    and "capture_journal_prefix load sha_bytes path (journal_after w) = Inr j"
    and "repository_before w = Inr r" and "repository_after w = Inr r"
    and "evidence_verify w c = Inr e" and "require_completion e c = Inr ()"
    and "\<exists>c'. completion_after w = Inr (Some c') \<and> same_completion c c' \<and> evidence_snapshot w c' = Inr e"
  using assms
  by (clarsimp simp: race_free_proofs_def andThen_eq_Inr split: option.splits
      simp del: require_completion_eq)+

lemma same_proofs_refl [simp]: "same_proofs a a"
  by (simp add: same_proofs_def)

lemma store_acknowledgement_stored:
  assumes "store_acknowledgement aware sha load dump ack_path prepared written new fl = (fl', Inr a)"
  shows "\<exists>stored. load_acknowledgement aware sha load ack_path fl' = Inr (Some stored) \<and>
    same_proofs stored new \<and> same_proofs stored a"
proof -
  obtain existing where old: "load_acknowledgement aware sha load ack_path fl = Inr existing"
    using assms by (auto simp: store_acknowledgement_def split: sum.splits)
  show ?thesis
  proof (cases "\<exists>o'. existing = Some o' \<and> same_proofs o' new")
    case True
    with assms old show ?thesis by (auto simp: store_acknowledgement_def)
  next
    case False
    then have "(case existing of Some old \<Rightarrow> if same_proofs old new then Some old else None
        | None \<Rightarrow> None) = None" by (auto split: option.split)
    with assms old show ?thesis
      by (auto simp: store_acknowledgement_def andThen_eq_Inr
          split: prod.splits sum.splits option.splits)
  qed
qed

text \<open>What a successful call leaves on disk, whichever way it succeeded.\<close>

lemma acknowledge_stored:
  assumes "acknowledge_checkpoint aware sha load sha_bytes dump journal_path ack_path prepared written
      w b fl = (fl', Inr a)"
  obtains c j e r stored where "race_free_proofs load sha_bytes journal_path w = Inr (c, j, e, r)"
    "load_acknowledgement aware sha load ack_path fl' = Inr (Some stored)"
    "ack_campaign stored = b" "same_completion (ack_completion stored) c" "ack_prefix stored = j"
    "ack_evidence stored = e" "ack_repository stored = r" "same_proofs stored a"
proof -
  from assms obtain c j e r new where proofs: "race_free_proofs load sha_bytes journal_path w = Inr (c, j, e, r)"
      and new: "make_ack aware b c j e r (PStr (clock_text w)) = Inr new" and clock: "clock_aware w"
    by (auto simp: acknowledge_checkpoint_def andThen_eq_Inr split: sum.splits prod.splits if_splits)
  have run: "acknowledge_checkpoint aware sha load sha_bytes dump journal_path ack_path prepared
      written w b fl = store_acknowledgement aware sha load dump ack_path prepared written new fl"
    using proofs new clock by (simp add: acknowledge_checkpoint_def)
  obtain stored where
      "load_acknowledgement aware sha load ack_path fl' = Inr (Some stored)"
      "same_proofs stored new" "same_proofs stored a"
    using store_acknowledgement_stored [OF assms [unfolded run]] by blast
  moreover from new have "ack_campaign new = b" "ack_completion new = c" "ack_prefix new = j"
      "ack_evidence new = e" "ack_repository new = r"
    by (auto simp: make_ack_eq simp del: require_completion_eq)
  ultimately show thesis
    using that proofs by (auto simp: same_proofs_def)
qed

lemma or_required_ready:
  "or_required reason n m f = Inr g \<Longrightarrow> gate_ready g \<longleftrightarrow> (\<exists>x. m = Inr x \<and> f x = Inr g \<and> gate_ready g)"
  by (auto simp: or_required_def required_gate_def split: sum.splits exn.splits if_splits)

lemma gate_differ [simp]: "required_gate r n \<noteq> ready_gate m" "ready_gate m \<noteq> required_gate r n"
  by (simp_all add: ready_gate_def required_gate_def)

lemma gate_simps [simp]:
  "gate_ready (ready_gate n)" "\<not> gate_ready (required_gate r n)"
  by (simp_all add: ready_gate_def required_gate_def)

lemma gate_ready_iff:
  assumes "checkpoint_gate aware sha load sha_bytes journal_path ack_path b (Some c) journal
      evidence_reader repository_reader fl = Inr g"
  shows "gate_ready g \<longleftrightarrow> (\<exists>a. load_acknowledgement aware sha load ack_path fl = Inr (Some a) \<and>
    ack_campaign a = b \<and> same_completion (ack_completion a) c \<and>
    require_journal_prefix load sha_bytes journal_path journal (ack_prefix a) = Inr () \<and>
    evidence_reader c = Inr (ack_evidence a) \<and> require_completion (ack_evidence a) c = Inr () \<and>
    repository_reader = Inr (ack_repository a))"
proof -
  from assms obtain stored where stored: "load_acknowledgement aware sha load ack_path fl = Inr stored"
    by (auto simp: checkpoint_gate_def andThen_eq_Inr)
  show ?thesis
  proof (cases stored)
    case None
    with assms stored show ?thesis by (auto simp: checkpoint_gate_def)
  next
    case (Some a)
    with assms stored have b: "ack_campaign a = b"
      by (auto simp: checkpoint_gate_def split: if_splits)
    show ?thesis
    proof (cases "same_completion (ack_completion a) c")
      case False
      with assms stored Some b show ?thesis by (auto simp: checkpoint_gate_def)
    next
      case True
      with assms stored Some b obtain
          pre: "require_journal_prefix load sha_bytes journal_path journal (ack_prefix a) = Inr ()"
        by (auto simp: checkpoint_gate_def andThen_eq_Inr)
      with assms stored Some b True have run: "or_required (\<lambda>_. Reason_evidence_changed) (sequence c)
          (andThen (evidence_reader c) (\<lambda>e. andThen (require_completion e c) (\<lambda>_. Inr e)))
          (\<lambda>e. if e \<noteq> ack_evidence a then Inr (required_gate Reason_evidence_changed (sequence c))
            else or_required repository_reason (sequence c) repository_reader
              (\<lambda>r. if r \<noteq> ack_repository a
                then Inr (required_gate Reason_repository_changed (sequence c))
                else Inr (ready_gate (sequence c)))) = Inr g"
        by (simp add: checkpoint_gate_def)
      have inner: "or_required repository_reason (sequence c) repository_reader
          (\<lambda>r. if r \<noteq> ack_repository a
            then Inr (required_gate Reason_repository_changed (sequence c))
            else Inr (ready_gate (sequence c))) = Inr g \<and> gate_ready g \<longleftrightarrow>
          repository_reader = Inr (ack_repository a) \<and> g = ready_gate (sequence c)"
        by (auto simp: or_required_def split: sum.splits exn.splits if_splits)
      have "gate_ready g \<longleftrightarrow> evidence_reader c = Inr (ack_evidence a) \<and>
          require_completion (ack_evidence a) c = Inr () \<and> repository_reader = Inr (ack_repository a) \<and>
          g = ready_gate (sequence c)"
        using or_required_ready [OF run] inner
        by (auto simp: andThen_eq_Inr simp del: require_completion_eq split: if_splits)
      moreover have "g = ready_gate (sequence c)" if "evidence_reader c = Inr (ack_evidence a)"
          "require_completion (ack_evidence a) c = Inr ()" "repository_reader = Inr (ack_repository a)"
        using run that by (simp add: or_required_def del: require_completion_eq)
      ultimately show ?thesis using stored Some b True pre by auto
    qed
  qed
qed

lemma gate_open:
  assumes "load_acknowledgement aware sha load ack_path fl = Inr (Some a)"
    and "ack_campaign a = b" and "same_completion (ack_completion a) c"
    and "require_journal_prefix load sha_bytes journal_path journal (ack_prefix a) = Inr ()"
    and "evidence_reader c = Inr (ack_evidence a)" and "require_completion (ack_evidence a) c = Inr ()"
    and "repository_reader = Inr (ack_repository a)"
  shows "checkpoint_gate aware sha load sha_bytes journal_path ack_path b (Some c) journal
      evidence_reader repository_reader fl = Inr (ready_gate (sequence c))"
  using assms by (simp add: checkpoint_gate_def or_required_def del: require_completion_eq)

section \<open>An example\<close>

text \<open>One acknowledged pair with all its proofs, and a journal of one record.\<close>

definition sample_digest :: "'a \<Rightarrow> string" where
  "sample_digest x = replicate 64 (CHR ''0'')"

definition sample_sha :: "pyval \<Rightarrow> string" where
  "sample_sha = sample_digest"

definition sample_completion :: pair_completion where
  "sample_completion = \<lparr>sequence = 1, pair_kind = ''calibration'',
     completed_candidate_id = ''control'', search_pair_index = PNone,
     ordered_cell_ids = (''a'', ''b''), ordered_evidence_run_ids = (''c'', ''d''),
     cell_plan_integrity_sha256s = (sample_digest (), sample_digest ()),
     observation_sha256 = sample_digest ()\<rparr>"

definition sample_binding :: campaign_binding where
  "sample_binding = \<lparr>bound_campaign_id = ''k'', campaign_integrity_sha256 = sample_digest (),
     preview_sha256 = sample_digest (), policy_sha256 = sample_digest ()\<rparr>"

definition sample_evidence :: evidence_proof where
  "sample_evidence = \<lparr>index_sha256 = sample_digest (), checksums_sha256 = sample_digest (),
     evidence_cells =
       (\<lparr>cell_id = ''a'', published_run_id = ''c'', bundle_sha256 = sample_digest ()\<rparr>,
        \<lparr>cell_id = ''b'', published_run_id = ''d'', bundle_sha256 = sample_digest ()\<rparr>)\<rparr>"

definition sample_commit :: string where
  "sample_commit = replicate 40 (CHR ''0'')"

definition sample_repository :: repository_proof where
  "sample_repository = \<lparr>head_commit = sample_commit, local_branch_ref = ''refs/heads/m'',
     upstream_ref = ''refs/remotes/o/m'', upstream_commit = sample_commit, remote_name = ''o'',
     remote_ref = ''refs/heads/m'', remote_commit = sample_commit\<rparr>"

definition sample_prefix :: journal_prefix where
  "sample_prefix = \<lparr>event_count = 1, size_bytes = 2, prefix_sha256 = sample_digest ()\<rparr>"

definition sample_ack :: acknowledgement where
  "sample_ack = \<lparr>ack_campaign = sample_binding, ack_completion = sample_completion,
     ack_prefix = sample_prefix, ack_evidence = sample_evidence,
     ack_repository = sample_repository, acknowledged_at = ''t''\<rparr>"

text \<open>\<open>a\<close> is the text of the acknowledgement, any other line one journal record.\<close>

definition sample_dump :: "pyval \<Rightarrow> string" where
  "sample_dump v = (case v of PDict [_] \<Rightarrow> ''r'' | _ \<Rightarrow> ''a'')"

definition sample_load :: "string \<Rightarrow> loaded" where
  "sample_load s = (if s = [CHR ''a'', LF] then Json (ack_to_mapping sample_sha sample_ack)
     else Json (PDict [(''timestamp'', PStr ''t'')]))"

definition sample_journal :: journal_file where
  "sample_journal = new_file\<lparr>content := [CHR ''r'', LF]\<rparr>"

definition sample_ack_file :: journal_file where
  "sample_ack_file = new_file\<lparr>content := [CHR ''a'', LF]\<rparr>"

definition sample_world :: world where
  "sample_world = \<lparr>completion_before = Inr (Some sample_completion),
     completion_after = Inr (Some sample_completion), journal_before = Some sample_journal,
     journal_after = Some sample_journal, repository_before = Inr sample_repository,
     repository_after = Inr sample_repository, evidence_verify = (\<lambda>_. Inr sample_evidence),
     evidence_snapshot = (\<lambda>_. Inr sample_evidence), clock_text = ''t'', clock_aware = True\<rparr>"

lemma sample_texts [simp]:
  "sha256_hex (sample_digest x)" "object_id_text sample_commit"
  "git_ref_text ''refs/heads/'' ''refs/heads/m''" "git_ref_text ''refs/remotes/'' ''refs/remotes/o/m''"
  by (simp_all add: sha256_hex_def object_id_text_def sample_digest_def sample_commit_def
      lower_hex_def list_all_length less_eq_char_def git_ref_text_def suffix_def sublist_code)

lemma sample_ack_wf: "ack_wf (\<lambda>_. True) sample_ack"
  by (simp add: ack_wf_def sample_ack_def binding_wf_def sample_binding_def completion_wf_def
      sample_completion_def prefix_wf_def sample_prefix_def evidence_wf_def sample_evidence_def
      cell_wf_def repository_wf_def sample_repository_def identifier_text_def published_text_def
      remote_text_def lower_alnum_def alnum_def MAX_CHECKPOINT_SEQUENCE_def MAX_JOURNAL_BYTES_def
      index_consistent_def safe_id_char_def less_eq_char_def)

lemma sample_ack_stored:
  "load_acknowledgement (\<lambda>_. True) sample_sha sample_load [] (Some sample_ack_file)
    = Inr (Some sample_ack)"
proof -
  have "ack_from_mapping (\<lambda>_. True) sample_sha (ack_to_mapping sample_sha sample_ack)
      = Inr sample_ack"
    by (rule ack_roundtrip [OF sample_ack_wf]) (simp add: sample_sha_def)
  then have "ack_from_mapping (\<lambda>_. True) sample_sha (PDict d) = Inr sample_ack"
    if "ack_to_mapping sample_sha sample_ack = PDict d" for d
    using that by simp
  moreover have "parse_object sample_load Checkpoint_state_invalid [CHR ''a'', LF]
      = Inr (ack_payload sample_sha sample_ack @ [(''integrity_hash'',
          PStr (sample_sha (canonical (PDict (ack_payload sample_sha sample_ack)))))])"
    by (simp add: parse_object_def sample_load_def ack_to_mapping_def)
  ultimately show ?thesis
    by (simp add: load_acknowledgement_def secure_read_def open_directory_def sample_ack_file_def
        new_file_def safe_file_def private_mode_def MAX_ACK_BYTES_def ack_to_mapping_def)
qed

lemma sample_lines: "splitlines_bytes [CHR ''r'', LF] = [''r'']"
  by (simp add: splitlines_bytes_def byte_breaks_def LF_def CR_def)

lemma sample_capture:
  "capture_journal_prefix sample_load sample_digest [] (Some sample_journal) = Inr sample_prefix"
proof -
  have "sample_digest [CHR ''r'', LF] = sample_digest ()" by (simp add: sample_digest_def)
  then show ?thesis
    by (simp add: capture_eq secure_read_eq sample_journal_def new_file_def safe_file_def
        prefix_events_def sample_lines journal_line_def parse_object_def sample_load_def
        sample_prefix_def MAX_JOURNAL_BYTES_def)
qed

lemma sample_proofs:
  "race_free_proofs sample_load sample_digest [] sample_world
     = Inr (sample_completion, sample_prefix, sample_evidence, sample_repository)"
  by (simp add: race_free_proofs_def sample_world_def sample_capture require_completion_def
      sample_evidence_def sample_completion_def)

lemma sample_made:
  "make_ack (\<lambda>_. True) sample_binding sample_completion sample_prefix sample_evidence
     sample_repository (PStr ''t'') = Inr sample_ack"
  using sample_ack_wf by (simp add: make_ack_eq ack_wf_def sample_ack_def del: require_completion_eq)

lemma sample_written:
  "write_acknowledgement sample_sha sample_dump (Inr ()) Write_completes None sample_ack
     = (Some sample_ack_file, Inr ())"
  by (simp add: write_acknowledgement_def sample_ack_file_def new_file_def private_mode_def
      ack_to_mapping_def ack_payload_def sample_dump_def)

lemma sample_acknowledged:
  "acknowledge_checkpoint (\<lambda>_. True) sample_sha sample_load sample_digest sample_dump [] []
     (Inr ()) Write_completes sample_world sample_binding None = (Some sample_ack_file, Inr sample_ack)"
proof -
  have clock: "clock_aware sample_world" "clock_text sample_world = ''t''"
    by (simp_all add: sample_world_def)
  have "load_acknowledgement (\<lambda>_. True) sample_sha sample_load [] None = Inr None"
    by (simp add: load_acknowledgement_def)
  then show ?thesis
    by (simp add: acknowledge_checkpoint_def sample_proofs clock sample_made
        store_acknowledgement_def sample_written sample_ack_stored)
qed

section \<open>Properties\<close>

text \<open>
  C15. The gate opens for the next pair exactly when the stored acknowledgement belongs to this
  campaign and this completion, the journal still has the acknowledged prefix, and the evidence
  and the repository are proved again with the very result that was acknowledged.
\<close>

theorem checkpoint_gate_ready_iff:
  assumes "checkpoint_gate aware sha load sha_bytes journal_path ack_path b (Some c) journal
      evidence_reader repository_reader fl = Inr g"
  shows "gate_ready g \<longleftrightarrow> (\<exists>a. load_acknowledgement aware sha load ack_path fl = Inr (Some a) \<and>
    ack_campaign a = b \<and> same_completion (ack_completion a) c \<and>
    require_journal_prefix load sha_bytes journal_path journal (ack_prefix a) = Inr () \<and>
    evidence_reader c = Inr (ack_evidence a) \<and> require_completion (ack_evidence a) c = Inr () \<and>
    repository_reader = Inr (ack_repository a))"
  using assms by (rule gate_ready_iff)

theorem checkpoint_gate_ready_iff_witness:
  "checkpoint_gate (\<lambda>_. True) sample_sha sample_load sample_digest [] [] sample_binding
     (Some sample_completion) (Some sample_journal) (\<lambda>_. Inr sample_evidence)
     (Inr sample_repository) None = Inr (required_gate Reason_missing 1) \<and>
   \<not> gate_ready (required_gate Reason_missing 1)"
proof -
  have g: "checkpoint_gate (\<lambda>_. True) sample_sha sample_load sample_digest [] [] sample_binding
      (Some sample_completion) (Some sample_journal) (\<lambda>_. Inr sample_evidence)
      (Inr sample_repository) None = Inr (required_gate Reason_missing 1)"
    by (simp add: checkpoint_gate_def load_acknowledgement_def sample_completion_def)
  from checkpoint_gate_ready_iff [OF g] g show ?thesis by (simp add: load_acknowledgement_def)
qed

text \<open>
  C16. An acknowledgement opens the gate: after \<open>acknowledge_checkpoint\<close> has returned, the gate
  for the same campaign, asked in the same surroundings, is ready, and so it is when the call
  found an acknowledgement of the same proofs already there.
\<close>

theorem acknowledge_opens_gate:
  assumes "acknowledge_checkpoint aware sha load sha_bytes dump journal_path ack_path prepared written
      w b fl = (fl', Inr a)"
    and "completion_before w = Inr (Some c)"
  shows "checkpoint_gate aware sha load sha_bytes journal_path ack_path b (Some c) (journal_after w)
    (evidence_verify w) (repository_before w) fl' = Inr (ready_gate (sequence c))"
proof -
  from assms(1) obtain c' j e r stored where
      proofs: "race_free_proofs load sha_bytes journal_path w = Inr (c', j, e, r)"
      and stored: "load_acknowledgement aware sha load ack_path fl' = Inr (Some stored)"
        "ack_campaign stored = b" "same_completion (ack_completion stored) c'"
        "ack_prefix stored = j" "ack_evidence stored = e" "ack_repository stored = r"
    by (rule acknowledge_stored)
  note facts = race_free_facts [OF proofs]
  from facts(1) assms(2) have "c' = c" by simp
  with facts(6,7) have "evidence_verify w c = Inr (ack_evidence stored)"
      "require_completion (ack_evidence stored) c = Inr ()"
    using stored(5) by (simp_all del: require_completion_eq)
  moreover have "require_journal_prefix load sha_bytes journal_path (journal_after w) (ack_prefix stored)
      = Inr ()"
    using capture_require [OF facts(3)] stored(4) by simp
  ultimately show ?thesis
    using stored facts(4) \<open>c' = c\<close> by (simp add: gate_open [OF stored(1)])
qed

theorem acknowledge_opens_gate_witness:
  "checkpoint_gate (\<lambda>_. True) sample_sha sample_load sample_digest [] [] sample_binding
     (Some sample_completion) (journal_after sample_world) (evidence_verify sample_world)
     (repository_before sample_world) (Some sample_ack_file)
   = Inr (ready_gate (sequence sample_completion))"
  using acknowledge_opens_gate [OF sample_acknowledged, of sample_completion]
  by (simp add: sample_world_def)

text \<open>
  Acknowledging is idempotent: a second call that collects the same proofs, at any later
  time, leaves the stored file as it is and returns what the file holds.
\<close>

theorem acknowledge_again_keeps_file:
  assumes "acknowledge_checkpoint aware sha load sha_bytes dump journal_path ack_path prepared written
      w b fl = (fl', Inr a)"
    and "race_free_proofs load sha_bytes journal_path w2 = race_free_proofs load sha_bytes journal_path w"
    and "clock_aware w2" and "length (clock_text w2) \<le> 64" and "aware (clock_text w2)"
  shows "\<exists>a2. acknowledge_checkpoint aware sha load sha_bytes dump journal_path ack_path prepared2
      written2 w2 b fl' = (fl', Inr a2) \<and> same_proofs a2 a"
proof -
  from assms(1) obtain c j e r stored where
      proofs: "race_free_proofs load sha_bytes journal_path w = Inr (c, j, e, r)"
      and stored: "load_acknowledgement aware sha load ack_path fl' = Inr (Some stored)"
        "ack_campaign stored = b" "same_completion (ack_completion stored) c"
        "ack_prefix stored = j" "ack_evidence stored = e" "ack_repository stored = r"
      and same: "same_proofs stored a"
    by (rule acknowledge_stored)
  let ?new = "\<lparr>ack_campaign = b, ack_completion = c, ack_prefix = j, ack_evidence = e,
    ack_repository = r, acknowledged_at = clock_text w2\<rparr>"
  have "make_ack aware b c j e r (PStr (clock_text w2)) = Inr ?new"
    using race_free_facts(7) [OF proofs] assms(4,5) by (simp add: make_ack_eq del: require_completion_eq)
  moreover have "same_proofs stored ?new" using stored by (simp add: same_proofs_def)
  ultimately show ?thesis
    using assms(2,3) proofs stored(1) same
    by (simp add: acknowledge_checkpoint_def store_acknowledgement_def)
qed

theorem acknowledge_again_keeps_file_witness:
  "\<exists>a2. acknowledge_checkpoint (\<lambda>_. True) sample_sha sample_load sample_digest sample_dump [] []
     (Inl OSError) (Write_fails OSError) (sample_world\<lparr>clock_text := ''u''\<rparr>) sample_binding
     (Some sample_ack_file) = (Some sample_ack_file, Inr a2) \<and> same_proofs a2 sample_ack"
  by (rule acknowledge_again_keeps_file [OF sample_acknowledged])
    (simp_all add: race_free_proofs_def sample_world_def)

text \<open>
  C29. A repository proof is a proof: HEAD, the local upstream and the live remote branch are one
  commit, the tree was clean before and after, and HEAD was the same at both ends.
\<close>

theorem prove_repository_sound:
  assumes "prove_repository git decode = Inr r"
  shows "upstream_commit r = head_commit r \<and> remote_commit r = head_commit r \<and>
    object_id_text (head_commit r) \<and>
    git 0 [''status'', ''--porcelain=v2'', ''-z'', ''--untracked-files=all''] = Inr [] \<and>
    git 8 [''status'', ''--porcelain=v2'', ''-z'', ''--untracked-files=all''] = Inr [] \<and>
    git_text git decode Repository_unverified 2 head_commit_arguments = Inr (head_commit r) \<and>
    git_text git decode Repository_unverified 9 head_commit_arguments = Inr (head_commit r) \<and>
    (\<exists>out. git_text git decode Remote_unverified 7
      [''ls-remote'', ''--exit-code'', remote_name r, remote_ref r] = Inr out \<and>
      remote_record out = Inr (head_commit r, remote_ref r))"
  using prove_repository_facts [OF assms] by (simp add: repository_wf_def)

definition sample_git :: "nat \<Rightarrow> string list \<Rightarrow> string res" where
  "sample_git n arguments = Inr ([[], ''refs/heads/m'', sample_commit, ''o'', ''refs/heads/m'',
     ''refs/remotes/o/m'', sample_commit, sample_commit @ CHR 0x09 # ''refs/heads/m'', [],
     sample_commit] ! n)"

lemma sample_strip:
  "py_strip sample_commit = sample_commit" "py_strip ''refs/heads/m'' = ''refs/heads/m''"
  "py_strip ''refs/remotes/o/m'' = ''refs/remotes/o/m''" "py_strip ''o'' = ''o''"
  "py_strip (sample_commit @ CHR 0x09 # ''refs/heads/m'') = sample_commit @ CHR 0x09 # ''refs/heads/m''"
  "splitlines (sample_commit @ CHR 0x09 # ''refs/heads/m'')
    = [sample_commit @ CHR 0x09 # ''refs/heads/m'']"
  "partition_at (CHR 0x09) (sample_commit @ CHR 0x09 # ''refs/heads/m'')
    = (sample_commit, True, ''refs/heads/m'')"
  by (simp_all add: sample_commit_def py_strip_def is_space_def splitlines_def text_breaks_def
      LF_def CR_def partition_at_def numeral_eq_Suc)

lemma sample_repository_proved: "prove_repository sample_git Some = Inr sample_repository"
  by (simp add: prove_repository_def git_status_def sample_git_def git_text_def sample_strip
      ck_fields text_field_ok Let_def remote_text_def alnum_def lower_alnum_def remote_record_def
      make_repository_def sample_repository_def less_eq_char_def) (simp add: sample_commit_def)

theorem prove_repository_sound_witness:
  "prove_repository sample_git Some = Inr sample_repository \<and>
   upstream_commit sample_repository = head_commit sample_repository"
  using prove_repository_sound [OF sample_repository_proved] sample_repository_proved by simp

text \<open>
  The journal may grow: after any completed append of a record that parses, the prefix that
  was captured before is still accepted, while the file stays under the size bound.
\<close>

theorem journal_growth_keeps_prefix:
  assumes "capture_journal_prefix load sha_bytes path (Some f) = Inr p"
    and "journal_append dump os_write now (Some f) event = (f', Inr ())"
    and "load (dump (PDict (stamped now event))) = Json (PDict d)"
    and "dump (PDict (stamped now event)) \<noteq> []"
    and "set (dump (PDict (stamped now event))) \<inter> byte_breaks = {}"
    and "int (length (content f')) \<le> MAX_JOURNAL_BYTES"
  shows "require_journal_prefix load sha_bytes path (Some f') p = Inr ()"
proof -
  let ?line = "dump (PDict (stamped now event))"
  from assms(1) obtain evs where
      read: "secure_read MAX_JOURNAL_BYTES Journal_prefix_invalid None path (Some f) = Inr (content f)"
      and evs: "prefix_events load (content f) = Inr evs"
      and p: "p = \<lparr>event_count = int (length evs), size_bytes = int (length (content f)),
        prefix_sha256 = sha_bytes (content f)\<rparr>"
    by (auto simp: capture_eq secure_read_eq)
  from read have safe: "safe_file f" and path: "set path \<subseteq> {Plain_directory}"
    by (auto simp: secure_read_eq)
  have "content f = [] \<or> last (content f) = LF"
    using evs by (auto simp: prefix_events_def split: if_splits)
  then have grown: "content f' = content f @ ?line @ [LF]"
    using journal_append_cases [OF assms(2)] safe by (auto simp: append_payload_def needs_separator_def)
  have "safe_file f'"
    using assms(2) safe by (auto simp: journal_append_def Let_def safe_file_content split: prod.splits)
  with path assms(6) have read': "secure_read MAX_JOURNAL_BYTES Journal_prefix_invalid None path (Some f')
      = Inr (content f')"
    by (auto simp: secure_read_eq)
  have "journal_line load ?line = Inr d"
    using assms(3,4) by (simp add: journal_line_def parse_object_def)
  then have "prefix_events load (content f') = Inr (evs @ [d])"
    unfolding grown by (rule prefix_events_snoc [OF evs _ assms(5)])
  with read' evs p show ?thesis
    by (simp add: require_journal_prefix_def grown)
qed

theorem journal_growth_keeps_prefix_witness:
  "\<exists>f'. require_journal_prefix sample_load sample_digest [] (Some f') sample_prefix = Inr ()"
proof -
  obtain f' where f': "journal_append sample_dump (\<lambda>_. 1) ''t'' (Some sample_journal) []
      = (f', Inr ())"
    by (simp add: journal_append_def sample_journal_def new_file_def safe_file_def Let_def
        write_loop_complete)
  have dump: "sample_dump (PDict (stamped ''t'' [])) = ''r''"
    by (simp add: sample_dump_def stamped_def)
  have "content f' = [CHR ''r'', LF, CHR ''r'', LF]"
    using journal_append_cases [OF f'] dump by (simp add: sample_journal_def new_file_def
        safe_file_def append_payload_def needs_separator_def)
  then show ?thesis
    using journal_growth_keeps_prefix [OF sample_capture f'] dump
    by (auto simp: sample_load_def byte_breaks_def LF_def CR_def MAX_JOURNAL_BYTES_def)
qed

text \<open>
  A rewritten journal is noticed: a file that passes the check against a captured prefix
  still starts with the captured bytes, unless the digest of the two prefixes collides.
\<close>

theorem prefix_check_detects_rewrite:
  assumes "capture_journal_prefix load sha_bytes path (Some f) = Inr p"
    and "require_journal_prefix load sha_bytes path (Some f') p = Inr ()"
    and "inj_on sha_bytes {content f, take (length (content f)) (content f')}"
  shows "prefix (content f) (content f')"
proof -
  from assms(1) have p: "size_bytes p = int (length (content f))" "prefix_sha256 p = sha_bytes (content f)"
    by (auto simp: capture_eq secure_read_eq)
  from assms(2) p have "sha_bytes (take (length (content f)) (content f')) = sha_bytes (content f)"
    by (auto simp: require_journal_prefix_def Let_def andThen_eq_Inr secure_read_eq)
  with assms(3) have "take (length (content f)) (content f') = content f"
    by (auto simp: inj_on_def)
  then show ?thesis by (metis take_is_prefix)
qed

definition sample_grown :: journal_file where
  "sample_grown = sample_journal\<lparr>content := [CHR ''r'', LF, CHR ''r'', LF]\<rparr>"

theorem prefix_check_detects_rewrite_witness:
  "require_journal_prefix sample_load sample_digest [] (Some sample_grown) sample_prefix = Inr () \<and>
   prefix (content sample_journal) (content sample_grown)"
proof -
  have lines: "splitlines_bytes [CHR ''r'', LF, CHR ''r'', LF] = [''r'', ''r'']"
    by (simp add: splitlines_bytes_def byte_breaks_def LF_def CR_def)
  have "require_journal_prefix sample_load sample_digest [] (Some sample_grown) sample_prefix = Inr ()"
    by (simp add: require_journal_prefix_def secure_read_def open_directory_def sample_grown_def
        sample_journal_def new_file_def safe_file_def prefix_events_def lines sample_lines
        journal_line_def parse_object_def sample_load_def sample_prefix_def sample_digest_def
        MAX_JOURNAL_BYTES_def)
  moreover from prefix_check_detects_rewrite [OF sample_capture this]
  have "prefix (content sample_journal) (content sample_grown)"
    by (simp add: sample_journal_def sample_grown_def)
  ultimately show ?thesis ..
qed

text \<open>
  Acknowledgements survive storage: one that was parsed is well-formed in every part, its
  evidence covers exactly the cells and runs of its completion, and what \<open>to_mapping\<close> writes
  for it, integrity hash included, parses back to the same acknowledgement.
\<close>

theorem acknowledgement_survives_storage:
  assumes "ack_from_mapping aware sha v = Inr a" and "\<And>x. sha256_hex (sha x)"
  shows "ack_wf aware a \<and> ack_from_mapping aware sha (ack_to_mapping sha a) = Inr a"
  using ack_parse_wf [OF assms(1)] ack_roundtrip [of aware a sha] assms(2) by blast

theorem acknowledgement_survives_storage_witness:
  "ack_from_mapping (\<lambda>_. True) sample_sha (ack_to_mapping sample_sha sample_ack) = Inr sample_ack"
proof -
  have "ack_from_mapping (\<lambda>_. True) sample_sha (ack_to_mapping sample_sha sample_ack) = Inr sample_ack"
    by (rule ack_roundtrip [OF sample_ack_wf]) (simp add: sample_sha_def)
  from acknowledgement_survives_storage [OF this] show ?thesis by (simp add: sample_sha_def)
qed

end
