(* ===== verification/Exposition_Text.thy ===== *)
theory Exposition_Text
  imports Py_Text
begin

text \<open>
  What the metrics readers share: \<open>float(text)\<close>, sums and quotients of floats with their
  overflow to infinity, and the two regular expressions by which \<open>bench/vllm_metrics.py\<close>,
  \<open>bench/llamacpp_metrics.py\<close> and \<open>bench/llamacpp_cache_metrics.py\<close> read one line of a
  Prometheus exposition. In \<open>FInf b\<close> the flag says that the infinity is negative.
\<close>

section \<open>Floats\<close>

definition float_of_real :: "real \<Rightarrow> pyfloat" where
  "float_of_real r = (if \<bar>r\<bar> < of_int float_overflow_bound then FFin r else FInf (r < 0))"

fun fadd :: "pyfloat \<Rightarrow> pyfloat \<Rightarrow> pyfloat" where
  "fadd (FFin a) (FFin b) = float_of_real (a + b)"
| "fadd FNan y = FNan"
| "fadd x FNan = FNan"
| "fadd (FInf a) (FInf b) = (if a = b then FInf a else FNan)"
| "fadd (FInf a) (FFin b) = FInf a"
| "fadd (FFin a) (FInf b) = FInf b"

text \<open>\<open>x / y\<close> for a positive divisor.\<close>

fun fdiv :: "pyfloat \<Rightarrow> pyfloat \<Rightarrow> pyfloat" where
  "fdiv (FFin a) (FFin b) = float_of_real (a / b)"
| "fdiv FNan y = FNan"
| "fdiv x FNan = FNan"
| "fdiv (FInf a) (FInf b) = FNan"
| "fdiv (FInf a) (FFin b) = FInf a"
| "fdiv (FFin a) (FInf b) = FFin 0"

fun fpos :: "pyfloat \<Rightarrow> bool" where
  "fpos (FFin a) = (0 < a)"
| "fpos (FInf b) = (\<not> b)"
| "fpos FNan = False"

text \<open>\<open>math.isfinite(value) and value >= 0\<close>.\<close>

fun fnonneg :: "pyfloat \<Rightarrow> bool" where
  "fnonneg (FFin a) = (0 \<le> a)"
| "fnonneg _ = False"

text \<open>\<open>int(value) if value.is_integer() else value\<close>.\<close>

fun count_value :: "pyfloat \<Rightarrow> pyval" where
  "count_value (FFin r) = (if of_int \<lfloor>r\<rfloor> = r then PInt \<lfloor>r\<rfloor> else PFloat (FFin r))"
| "count_value x = PFloat x"

text \<open>
  \<open>a / b\<close> of two integers is rounded once and raises \<open>OverflowError\<close> past the largest float.
\<close>

definition int_div :: "int \<Rightarrow> int \<Rightarrow> pyfloat res" where
  "int_div a b = (let q = of_int a / of_int b in
     if \<bar>q\<bar> < of_int float_overflow_bound then Inr (FFin q) else Inl OverflowError)"

text \<open>\<open>isinstance(value, (int, float)) and not isinstance(value, bool)\<close>, then \<open>float(value)\<close>.\<close>

definition number_of :: "pyval \<Rightarrow> pyfloat option res" where
  "number_of v = (case v of
       PInt n \<Rightarrow> andThen (float_of_int n) (\<lambda>x. Inr (Some x))
     | PFloat x \<Rightarrow> Inr (Some x)
     | _ \<Rightarrow> Inr None)"

lemma float_of_real_small [simp]: "\<bar>r\<bar> < of_int float_overflow_bound \<Longrightarrow> float_of_real r = FFin r"
  by (simp add: float_of_real_def)

lemma count_value_int [simp]: "count_value (FFin (of_int n)) = PInt n"
  by simp

lemma float_of_int_eq: "float_of_int n = Inr x \<longleftrightarrow> \<bar>n\<bar> < float_overflow_bound \<and> x = FFin (of_int n)"
  by (auto simp: float_of_int_def)

section \<open>Number literals\<close>

definition to_lower :: "char \<Rightarrow> char" where
  "to_lower c = (if CHR ''A'' \<le> c \<and> c \<le> CHR ''Z'' then char_of (of_char c + (32 :: nat)) else c)"

definition digit_part :: "string \<Rightarrow> nat option" where
  "digit_part s = (if s = [] then Some 0 else digits_acc False 0 s)"

fun signed_part :: "(string \<Rightarrow> 'a option) \<Rightarrow> ('a \<Rightarrow> 'a) \<Rightarrow> string \<Rightarrow> 'a option" where
  "signed_part f neg [] = f []"
| "signed_part f neg (c # cs) =
     (if c = CHR ''-'' then map_option neg (f cs) else if c = CHR ''+'' then f cs else f (c # cs))"

definition is_exponent_mark :: "char \<Rightarrow> bool" where
  "is_exponent_mark c \<longleftrightarrow> c = CHR ''e'' \<or> c = CHR ''E''"

definition scale_ten :: "real \<Rightarrow> int \<Rightarrow> real" where
  "scale_ten r e = (if 0 \<le> e then r * 10 ^ nat e else r / 10 ^ nat (- e))"

definition parse_mantissa :: "string \<Rightarrow> (nat \<times> nat) option" where
  "parse_mantissa m = (let (i, dot, f) = partition_at (CHR ''.'') m in
     if i = [] \<and> f = [] then None
     else case digit_part i of None \<Rightarrow> None | Some a \<Rightarrow>
       (case digit_part f of None \<Rightarrow> None | Some b \<Rightarrow>
         (let k = length (filter is_digit f) in Some (a * 10 ^ k + b, k))))"

definition parse_decimal :: "string \<Rightarrow> pyfloat option" where
  "parse_decimal s =
     (let m = takeWhile (\<lambda>c. \<not> is_exponent_mark c) s; rest = dropWhile (\<lambda>c. \<not> is_exponent_mark c) s in
      case parse_mantissa m of None \<Rightarrow> None | Some (c, k) \<Rightarrow>
        (case (case rest of [] \<Rightarrow> Some 0
               | _ # e \<Rightarrow> signed_part (\<lambda>d. map_option int (digits_acc False 0 d)) uminus e) of
           None \<Rightarrow> None
         | Some e \<Rightarrow> Some (float_of_real (scale_ten (of_nat c) (e - int k)))))"

definition parse_unsigned :: "string \<Rightarrow> pyfloat option" where
  "parse_unsigned s =
     (if map to_lower s \<in> {''inf'', ''infinity''} then Some (FInf False)
      else if map to_lower s = ''nan'' then Some FNan
      else parse_decimal s)"

fun fneg :: "pyfloat \<Rightarrow> pyfloat" where
  "fneg (FFin r) = FFin (- r)"
| "fneg (FInf b) = FInf (\<not> b)"
| "fneg FNan = FNan"

text \<open>\<open>float(s)\<close>; \<open>None\<close> is the \<open>ValueError\<close>.\<close>

definition parse_float :: "string \<Rightarrow> pyfloat option" where
  "parse_float s = signed_part parse_unsigned fneg (py_strip s)"

section \<open>One line of an exposition\<close>

definition name_start :: "char \<Rightarrow> bool" where
  "name_start c \<longleftrightarrow> (CHR ''a'' \<le> c \<and> c \<le> CHR ''z'') \<or> (CHR ''A'' \<le> c \<and> c \<le> CHR ''Z'')
     \<or> c = CHR ''_'' \<or> c = CHR '':''"

definition name_char :: "char \<Rightarrow> bool" where
  "name_char c \<longleftrightarrow> name_start c \<or> is_digit c"

text \<open>\<open>\\s+(?P<value>[^\\s]+)(?:\\s+\\d+)?$\<close>\<close>

definition sample_tail :: "string \<Rightarrow> string option" where
  "sample_tail rest =
     (let t = dropWhile is_space rest;
          v = takeWhile (\<lambda>c. \<not> is_space c) t;
          u = dropWhile (\<lambda>c. \<not> is_space c) t;
          d = dropWhile is_space u in
      if t = rest \<or> v = [] then None
      else if u = [] \<or> (d \<noteq> [] \<and> list_all is_digit d) then Some v else None)"

text \<open>\<open>\\{(?P<labels>.*)\\}\<close>: the longest label text that leaves a tail.\<close>

fun label_match :: "string \<Rightarrow> (string \<times> string) option" where
  "label_match [] = None"
| "label_match (c # cs) = (case label_match cs of
       Some (l, v) \<Rightarrow> Some (c # l, v)
     | None \<Rightarrow> if c = CHR ''}'' then map_option (Pair []) (sample_tail cs) else None)"

definition sample_match :: "string \<Rightarrow> (string \<times> string \<times> string) option" where
  "sample_match line =
     (let name = takeWhile name_char line; rest = dropWhile name_char line in
      if line = [] \<or> \<not> name_start (hd line) then None
      else case rest of
        CHR ''{'' # r \<Rightarrow> map_option (\<lambda>(l, v). (name, l, v)) (label_match r)
      | _ \<Rightarrow> map_option (\<lambda>v. (name, [], v)) (sample_tail rest))"

text \<open>The same with \<open>\\{[^}]*\\}\<close>, where the labels end at the first brace.\<close>

definition short_match :: "string \<Rightarrow> (string \<times> string) option" where
  "short_match line =
     (let name = takeWhile name_char line; rest = dropWhile name_char line in
      if line = [] \<or> \<not> name_start (hd line) then None
      else case rest of
        CHR ''{'' # r \<Rightarrow> map_option (Pair name) (sample_tail (tl (dropWhile (\<lambda>c. c \<noteq> CHR ''}'') r)))
      | _ \<Rightarrow> map_option (Pair name) (sample_tail rest))"

text \<open>\<open>\\s*position="(\\d+)"(?:\\s*,|$)\<close> after an anchor, and its first match in the labels.\<close>

definition position_open :: string where
  "position_open = ''position='' @ [CHR 0x22]"

definition position_at :: "string \<Rightarrow> string option" where
  "position_at s =
     (let t = dropWhile is_space s; r = drop (length position_open) t;
          d = takeWhile is_digit r; q = dropWhile is_digit r in
      if \<not> prefix position_open t \<or> d = [] then None
      else case q of
        c # u \<Rightarrow> (if c = CHR 0x22 \<and> (u = [] \<or> (let w = dropWhile is_space u in w \<noteq> [] \<and> hd w = CHR '',''))
          then Some d else None)
      | [] \<Rightarrow> None)"

fun position_after_comma :: "string \<Rightarrow> string option" where
  "position_after_comma [] = None"
| "position_after_comma (c # cs) =
     (if c = CHR '','' then (case position_at cs of Some d \<Rightarrow> Some d | None \<Rightarrow> position_after_comma cs)
      else position_after_comma cs)"

definition position_search :: "string \<Rightarrow> string option" where
  "position_search labels = (case position_at labels of
       Some d \<Rightarrow> Some d | None \<Rightarrow> position_after_comma labels)"

section \<open>A printed sample is read back\<close>

definition metric_name :: "string \<Rightarrow> bool" where
  "metric_name s \<longleftrightarrow> s \<noteq> [] \<and> name_start (hd s) \<and> list_all name_char s"

lemma name_char_space: "is_space c \<Longrightarrow> \<not> name_char c"
  by (auto simp: name_char_def name_start_def is_digit_def is_space_def LF_def CR_def less_eq_char_def)

lemma takeWhile_all: "list_all P xs \<Longrightarrow> \<not> P c \<Longrightarrow> takeWhile P (xs @ c # ys) = xs"
  by (induction xs) auto

lemma dropWhile_all: "list_all P xs \<Longrightarrow> \<not> P c \<Longrightarrow> dropWhile P (xs @ c # ys) = c # ys"
  by (induction xs) auto

lemma sample_tail_word:
  assumes "w \<noteq> []" and "list_all (\<lambda>c. \<not> is_space c) w"
  shows "sample_tail (CHR '' '' # w) = Some w"
proof -
  have sp: "is_space CHR '' ''" by (simp add: is_space_def)
  from assms obtain c cs where w: "w = c # cs" "\<not> is_space c" by (cases w) auto
  then have "dropWhile is_space (CHR '' '' # w) = w" using sp by simp
  moreover have "takeWhile (\<lambda>c. \<not> is_space c) w = w" "dropWhile (\<lambda>c. \<not> is_space c) w = []"
    using assms(2) by (auto simp: takeWhile_eq_all_conv dropWhile_eq_Nil_conv list_all_iff)
  ultimately show ?thesis
    using assms(1) unfolding sample_tail_def Let_def by (metis not_Cons_self2)
qed

lemma sample_match_plain:
  assumes "metric_name name" and "w \<noteq> []" and "list_all (\<lambda>c. \<not> is_space c) w"
  shows "sample_match (name @ CHR '' '' # w) = Some (name, [], w)"
proof -
  have "\<not> name_char CHR '' ''" by (rule name_char_space) (simp add: is_space_def)
  with assms(1) have "takeWhile name_char (name @ CHR '' '' # w) = name"
      "dropWhile name_char (name @ CHR '' '' # w) = CHR '' '' # w"
    by (simp_all add: metric_name_def takeWhile_all dropWhile_all)
  with assms sample_tail_word [OF assms(2,3)] show ?thesis
    by (auto simp: sample_match_def metric_name_def)
qed

end
