(* ===== verification/Speculation_Counters.thy ===== *)
theory Speculation_Counters
  imports Exposition_Text "HOL-Library.AList"
begin

text \<open>
  The counters of speculative decoding in \<open>bench/vllm_metrics.py\<close>, and the part of them that
  \<open>bench/llamacpp_metrics.py\<close> shares: reading an exposition, the snapshot of one server
  lifetime, the difference of two snapshots for one request, and the sum over a case. The two
  modules repeat the same code with other names, so the shared definitions take the names as
  arguments. A snapshot is the Python dict; a dict of positions is an association list in
  insertion order.
\<close>

section \<open>Snapshots\<close>

text \<open>\<open>_snapshot\<close>, for a source and a scope.\<close>

definition spec_snapshot ::
  "string \<Rightarrow> string \<Rightarrow> pyfloat \<Rightarrow> pyfloat \<Rightarrow> pyfloat \<Rightarrow> (int \<times> pyfloat) list \<Rightarrow> pydict" where
  "spec_snapshot source scope drafts tokens accepted positions = [
     (''source'', PStr source),
     (''scope'', PStr scope),
     (''num_drafts'', count_value drafts),
     (''num_draft_tokens'', count_value tokens),
     (''num_accepted_tokens'', count_value accepted),
     (''accepted_tokens_per_position'', PDict (map (\<lambda>(p, v). (show_nat (nat p), count_value v))
        (sort_key fst positions))),
     (''draft_acceptance_rate'', if fpos tokens then PFloat (fdiv accepted tokens) else PNone),
     (''mean_accepted_length'',
        if fpos drafts then PFloat (fadd (FFin 1) (fdiv accepted drafts)) else PNone)]"

definition add_at :: "int \<Rightarrow> pyfloat \<Rightarrow> (int \<times> pyfloat) list \<Rightarrow> (int \<times> pyfloat) list" where
  "add_at p v m = AList.update p (fadd (case map_of m p of Some w \<Rightarrow> w | None \<Rightarrow> FFin 0) v) m"

section \<open>Reading an exposition\<close>

record scan_state =
  totals :: "(string \<times> pyfloat) list"
  seen_names :: "string set"
  per_position :: "(int \<times> pyfloat) list"

text \<open>The body of the loop over the lines; \<open>core\<close> names the three counters.\<close>

definition scan_line :: "string list \<Rightarrow> string \<Rightarrow> scan_state \<Rightarrow> string \<Rightarrow> scan_state res" where
  "scan_line core positions st line =
     (if line = [] \<or> hd line = CHR ''#'' then Inr st
      else case sample_match line of
        None \<Rightarrow> Inr st
      | Some (name, labels, text_value) \<Rightarrow>
        (if name \<notin> set core \<and> name \<noteq> positions then Inr st
         else case parse_float text_value of
           None \<Rightarrow> Inr st
         | Some v \<Rightarrow>
           (if \<not> fnonneg v then Inr st
            else if name \<in> set core then
              Inr (st\<lparr>totals := AList.update name
                  (fadd (case map_of (totals st) name of Some w \<Rightarrow> w | None \<Rightarrow> FFin 0) v) (totals st),
                seen_names := insert name (seen_names st)\<rparr>)
            else case position_search labels of
              None \<Rightarrow> Inr st
            | Some d \<Rightarrow> (case parse_digits d of
                None \<Rightarrow> Inl ValueError
              | Some p \<Rightarrow> Inr (st\<lparr>per_position := add_at (int p) v (per_position st)\<rparr>)))))"

definition empty_scan :: "string list \<Rightarrow> scan_state" where
  "empty_scan core = \<lparr>totals = map (\<lambda>n. (n, FFin 0)) core, seen_names = {}, per_position = []\<rparr>"

definition total_of :: "scan_state \<Rightarrow> string \<Rightarrow> pyfloat" where
  "total_of st name = (case map_of (totals st) name of Some v \<Rightarrow> v | None \<Rightarrow> FFin 0)"

definition scan_exposition ::
  "string \<Rightarrow> string \<Rightarrow> string list \<Rightarrow> string \<Rightarrow> string \<Rightarrow> pydict option res" where
  "scan_exposition source scope core positions exposition =
     andThen (fold_res (scan_line core positions) (empty_scan core) (splitlines exposition)) (\<lambda>st.
     if seen_names st \<noteq> set core then Inr None
     else Inr (Some (spec_snapshot source scope (total_of st (core ! 0)) (total_of st (core ! 1))
       (total_of st (core ! 2)) (per_position st))))"

section \<open>Summing the snapshots of several lifetimes\<close>

record lifetime_sum =
  sum_drafts :: pyfloat
  sum_tokens :: pyfloat
  sum_accepted :: pyfloat
  sum_positions :: "(int \<times> pyfloat) list"
  lifetimes :: int

text \<open>\<open>int(raw)\<close> and \<open>float(raw)\<close> of a position and its counter; \<open>None\<close> skips the item.\<close>

definition loose_float :: "pyval \<Rightarrow> pyfloat option res" where
  "loose_float v = (case v of
       PInt n \<Rightarrow> andThen (float_of_int n) (\<lambda>x. Inr (Some x))
     | PBool b \<Rightarrow> Inr (Some (FFin (if b then 1 else 0)))
     | PFloat x \<Rightarrow> Inr (Some x)
     | PStr s \<Rightarrow> Inr (parse_float s)
     | _ \<Rightarrow> Inr None)"

definition add_position :: "(int \<times> pyfloat) list \<Rightarrow> string \<times> pyval \<Rightarrow> (int \<times> pyfloat) list res" where
  "add_position m item = (case parse_int (fst item) of
       None \<Rightarrow> Inr m
     | Some p \<Rightarrow> andThen (loose_float (snd item)) (\<lambda>x. case x of
         None \<Rightarrow> Inr m
       | Some v \<Rightarrow> Inr (if 0 \<le> p \<and> fnonneg v then add_at p v m else m)))"

definition add_lifetime :: "lifetime_sum \<Rightarrow> pydict \<Rightarrow> lifetime_sum res" where
  "add_lifetime st snap =
     andThen (number_of (dict_get snap ''num_drafts'')) (\<lambda>a.
     case a of None \<Rightarrow> Inr st | Some d \<Rightarrow> if \<not> fnonneg d then Inr st else
     andThen (number_of (dict_get snap ''num_draft_tokens'')) (\<lambda>b.
     case b of None \<Rightarrow> Inr st | Some t \<Rightarrow> if \<not> fnonneg t then Inr st else
     andThen (number_of (dict_get snap ''num_accepted_tokens'')) (\<lambda>c.
     case c of None \<Rightarrow> Inr st | Some k \<Rightarrow> if \<not> fnonneg k then Inr st else
     andThen (case map_of snap ''accepted_tokens_per_position'' of
         Some (PDict items) \<Rightarrow> fold_res add_position (sum_positions st) items
       | _ \<Rightarrow> Inr (sum_positions st)) (\<lambda>m.
       Inr \<lparr>sum_drafts = fadd (sum_drafts st) d, sum_tokens = fadd (sum_tokens st) t,
         sum_accepted = fadd (sum_accepted st) k, sum_positions = m,
         lifetimes = lifetimes st + 1\<rparr>))))"

definition sum_lifetimes ::
  "string \<Rightarrow> string \<Rightarrow> string \<Rightarrow> pydict list \<Rightarrow> pydict option res" where
  "sum_lifetimes source scope combined_scope snaps =
     andThen (fold_res add_lifetime \<lparr>sum_drafts = FFin 0, sum_tokens = FFin 0,
       sum_accepted = FFin 0, sum_positions = [], lifetimes = 0\<rparr> snaps) (\<lambda>st.
     if lifetimes st = 0 then Inr None
     else Inr (Some (AList.update ''scope'' (PStr combined_scope)
       (spec_snapshot source scope (sum_drafts st) (sum_tokens st) (sum_accepted st)
         (sum_positions st) @ [(''snapshot_count'', PInt (lifetimes st))]))))"

end
