(* ===== verification/Vllm_Counters.thy ===== *)
theory Vllm_Counters
  imports Speculation_Counters
begin

text \<open>
  \<open>bench/vllm_metrics.py\<close>: the counters of a vLLM server, read strictly. A cumulative
  snapshot is checked against its schema and its own arithmetic, two snapshots of one lifetime
  are subtracted for a request, and the request deltas of a case are added up again.
\<close>

section \<open>Names\<close>

definition NUM_DRAFTS :: string where
  "NUM_DRAFTS = ''vllm:spec_decode_num_drafts_total''"
definition NUM_DRAFT_TOKENS :: string where
  "NUM_DRAFT_TOKENS = ''vllm:spec_decode_num_draft_tokens_total''"
definition NUM_ACCEPTED_TOKENS :: string where
  "NUM_ACCEPTED_TOKENS = ''vllm:spec_decode_num_accepted_tokens_total''"
definition NUM_ACCEPTED_TOKENS_PER_POSITION :: string where
  "NUM_ACCEPTED_TOKENS_PER_POSITION = ''vllm:spec_decode_num_accepted_tokens_per_pos_total''"
definition CORE_COUNTERS :: "string list" where
  "CORE_COUNTERS = [NUM_DRAFTS, NUM_DRAFT_TOKENS, NUM_ACCEPTED_TOKENS]"
definition VLLM_SOURCE :: string where
  "VLLM_SOURCE = ''vllm_prometheus_cumulative_counters''"
definition CUMULATIVE_SCOPE :: string where
  "CUMULATIVE_SCOPE = ''single_vllm_server_lifetime_including_prime_warmups_and_measured_requests''"
definition REQUEST_DELTA_SCOPE :: string where
  "REQUEST_DELTA_SCOPE = ''request_scoped_cumulative_counter_delta''"
definition CASE_AGGREGATE_SCOPE :: string where
  "CASE_AGGREGATE_SCOPE = ''case_measurement_request_deltas_aggregate''"
definition SNAPSHOT_KEYS :: "string set" where
  "SNAPSHOT_KEYS = {''accepted_tokens_per_position'', ''draft_acceptance_rate'',
     ''mean_accepted_length'', ''num_accepted_tokens'', ''num_draft_tokens'', ''num_drafts'',
     ''scope'', ''source''}"

definition vllm_snapshot ::
  "pyfloat \<Rightarrow> pyfloat \<Rightarrow> pyfloat \<Rightarrow> (int \<times> pyfloat) list \<Rightarrow> pydict" where
  "vllm_snapshot = spec_snapshot VLLM_SOURCE CUMULATIVE_SCOPE"

definition parse_vllm_spec_decode_metrics :: "string \<Rightarrow> pydict option res" where
  "parse_vllm_spec_decode_metrics =
     scan_exposition VLLM_SOURCE CUMULATIVE_SCOPE CORE_COUNTERS NUM_ACCEPTED_TOKENS_PER_POSITION"

definition aggregate_vllm_spec_decode_metrics :: "pydict list \<Rightarrow> pydict option res" where
  "aggregate_vllm_spec_decode_metrics =
     sum_lifetimes VLLM_SOURCE CUMULATIVE_SCOPE ''all_persisted_vllm_server_lifetimes''"

section \<open>Strict reading of a snapshot\<close>

definition strict_count :: "pyval \<Rightarrow> int res" where
  "strict_count v = (case v of
       PInt n \<Rightarrow> if n < 0 then Inl MetricsDeltaError else Inr n
     | PFloat (FFin r) \<Rightarrow> (if of_int \<lfloor>r\<rfloor> \<noteq> r \<or> \<lfloor>r\<rfloor> < 0 then Inl MetricsDeltaError else Inr \<lfloor>r\<rfloor>)
     | _ \<Rightarrow> Inl MetricsDeltaError)"

text \<open>\<open>math.isclose(a, b, rel_tol=1e-9, abs_tol=1e-12)\<close> of a finite \<open>a\<close>.\<close>

fun is_close :: "pyfloat \<Rightarrow> pyfloat \<Rightarrow> bool" where
  "is_close (FFin a) (FFin b) = (\<bar>a - b\<bar> \<le> max (1 / 10 ^ 9 * max \<bar>a\<bar> \<bar>b\<bar>) (1 / 10 ^ 12))"
| "is_close _ _ = False"

definition strict_derived_value :: "pydict \<Rightarrow> string \<Rightarrow> pyfloat option \<Rightarrow> unit res" where
  "strict_derived_value snap name expected = (case map_of snap name of
       None \<Rightarrow> Inl MetricsDeltaError
     | Some v \<Rightarrow>
        (case expected of
           None \<Rightarrow> check (v = PNone) MetricsDeltaError
         | Some e \<Rightarrow> andThen (number_of v) (\<lambda>x. case x of
             None \<Rightarrow> Inl MetricsDeltaError
           | Some y \<Rightarrow> check (is_finite y \<and> is_close y e) MetricsDeltaError)))"

text \<open>\<open>(?:0|[1-9][0-9]*)\\Z\<close> of the whole text.\<close>

definition canonical_index :: "string \<Rightarrow> bool" where
  "canonical_index s \<longleftrightarrow> s \<noteq> [] \<and> list_all is_digit s \<and> (s = ''0'' \<or> hd s \<noteq> CHR ''0'')"

definition strict_position ::
  "(int \<times> int) list \<Rightarrow> string \<times> pyval \<Rightarrow> (int \<times> int) list res" where
  "strict_position m item =
     (if \<not> canonical_index (fst item) then Inl MetricsDeltaError
      else case parse_int (fst item) of
        None \<Rightarrow> Inl ValueError
      | Some p \<Rightarrow> andThen (strict_count (snd item)) (\<lambda>n. Inr (AList.update p n m)))"

definition strict_positions :: "pyval \<Rightarrow> (int \<times> int) list res" where
  "strict_positions v = (case v of
       PDict items \<Rightarrow> andThen (fold_res strict_position [] items) (\<lambda>m.
         if m \<noteq> [] \<and> set (map fst m) \<noteq> {0 ..< Max (set (map fst m)) + 1}
         then Inl MetricsDeltaError else Inr m)
     | _ \<Rightarrow> Inl MetricsDeltaError)"

record spec_counters =
  drafts :: int
  draft_tokens :: int
  accepted_tokens :: int
  positions :: "(int \<times> int) list"

text \<open>\<open>[positions[position] for position in sorted(positions)]\<close>\<close>

definition ordered_counts :: "(int \<times> int) list \<Rightarrow> int list" where
  "ordered_counts m = map snd (sort_key fst m)"

text \<open>\<open>any(left < right for left, right in zip(ordered, ordered[1:]))\<close>\<close>

definition some_increase :: "int list \<Rightarrow> bool" where
  "some_increase xs = list_ex (\<lambda>(l, r). l < r) (zip xs (tl xs))"

definition core_inconsistent :: "int \<Rightarrow> int \<Rightarrow> int \<Rightarrow> bool" where
  "core_inconsistent d t a \<longleftrightarrow> (d = 0) \<noteq> (t = 0) \<or> t < d \<or> a > t"

definition expected_rate :: "int \<Rightarrow> int \<Rightarrow> pyfloat option res" where
  "expected_rate a t = (if t = 0 then Inr None else andThen (int_div a t) (\<lambda>q. Inr (Some q)))"

definition expected_length :: "int \<Rightarrow> int \<Rightarrow> pyfloat option res" where
  "expected_length a d =
     (if d = 0 then Inr None else andThen (int_div a d) (\<lambda>q. Inr (Some (fadd (FFin 1) q))))"

definition strict_cumulative_snapshot :: "pyval \<Rightarrow> spec_counters res" where
  "strict_cumulative_snapshot v = (case v of
       PDict snap \<Rightarrow>
         (if dict_keys snap \<noteq> SNAPSHOT_KEYS then Inl MetricsDeltaError
          else if dict_get snap ''source'' \<noteq> PStr VLLM_SOURCE
            \<or> dict_get snap ''scope'' \<noteq> PStr CUMULATIVE_SCOPE then Inl MetricsDeltaError else
          andThen (strict_count (dict_get snap ''num_drafts'')) (\<lambda>d.
          andThen (strict_count (dict_get snap ''num_draft_tokens'')) (\<lambda>t.
          andThen (strict_count (dict_get snap ''num_accepted_tokens'')) (\<lambda>a.
          if core_inconsistent d t a then Inl MetricsDeltaError else
          andThen (strict_positions (dict_get snap ''accepted_tokens_per_position'')) (\<lambda>m.
          if list_ex (\<lambda>x. x > d) (ordered_counts m) \<or> some_increase (ordered_counts m)
          then Inl MetricsDeltaError else
          andThen (expected_rate a t) (\<lambda>rate.
          andThen (strict_derived_value snap ''draft_acceptance_rate'' rate) (\<lambda>_.
          andThen (expected_length a d) (\<lambda>len.
          andThen (strict_derived_value snap ''mean_accepted_length'' len) (\<lambda>_.
            Inr \<lparr>drafts = d, draft_tokens = t, accepted_tokens = a, positions = m\<rparr>)))))))))
     | _ \<Rightarrow> Inl MetricsDeltaError)"

section \<open>The difference of two snapshots\<close>

definition count_at :: "(int \<times> int) list \<Rightarrow> int \<Rightarrow> int" where
  "count_at m p = (case map_of m p of Some v \<Rightarrow> v | None \<Rightarrow> 0)"

text \<open>The loop over the positions of the later snapshot, in order.\<close>

definition subtract_position ::
  "(int \<times> int) list \<Rightarrow> (int \<times> int) list \<Rightarrow> int \<times> int \<Rightarrow> (int \<times> int) list res" where
  "subtract_position before m item =
     (if snd item < count_at before (fst item) then Inl MetricsDeltaError
      else Inr (AList.update (fst item) (snd item - count_at before (fst item)) m))"

text \<open>\<open>_snapshot\<close> of integer counters, and its scope replaced.\<close>

definition counters_snapshot :: "string \<Rightarrow> spec_counters \<Rightarrow> pydict res" where
  "counters_snapshot scope c =
     andThen (float_of_int (drafts c)) (\<lambda>d.
     andThen (float_of_int (draft_tokens c)) (\<lambda>t.
     andThen (float_of_int (accepted_tokens c)) (\<lambda>a.
     andThen (traverse (\<lambda>(p, v). andThen (float_of_int v) (\<lambda>x. Inr (p, x))) (positions c)) (\<lambda>m.
       Inr (AList.update ''scope'' (PStr scope) (vllm_snapshot d t a m))))))"

definition delta_vllm_spec_decode_metrics :: "pyval \<Rightarrow> pyval \<Rightarrow> pydict res" where
  "delta_vllm_spec_decode_metrics before after =
     andThen (strict_cumulative_snapshot before) (\<lambda>b.
     andThen (strict_cumulative_snapshot after) (\<lambda>a.
     if drafts a < drafts b \<or> draft_tokens a < draft_tokens b
       \<or> accepted_tokens a < accepted_tokens b then Inl MetricsDeltaError
     else if \<not> set (map fst (positions b)) \<subseteq> set (map fst (positions a))
     then Inl MetricsDeltaError else
     andThen (fold_res (subtract_position (positions b)) [] (sort_key fst (positions a))) (\<lambda>m.
     (let c = \<lparr>drafts = drafts a - drafts b, draft_tokens = draft_tokens a - draft_tokens b,
            accepted_tokens = accepted_tokens a - accepted_tokens b, positions = m\<rparr> in
      if core_inconsistent (drafts c) (draft_tokens c) (accepted_tokens c)
        \<or> list_ex (\<lambda>x. x > drafts c) (ordered_counts m) \<or> some_increase (ordered_counts m)
        \<or> sum_list (ordered_counts m) \<noteq> accepted_tokens c
      then Inl MetricsDeltaError else counters_snapshot REQUEST_DELTA_SCOPE c))))"

definition strict_request_delta :: "pydict \<Rightarrow> spec_counters res" where
  "strict_request_delta snap =
     (if dict_get snap ''scope'' \<noteq> PStr REQUEST_DELTA_SCOPE then Inl MetricsDeltaError else
      andThen (strict_cumulative_snapshot (PDict (AList.update ''scope'' (PStr CUMULATIVE_SCOPE) snap)))
        (\<lambda>c. if sum_list (map snd (positions c)) \<noteq> accepted_tokens c then Inl MetricsDeltaError
             else Inr c))"

section \<open>Adding the requests of a case\<close>

definition add_counters :: "spec_counters \<Rightarrow> spec_counters \<Rightarrow> spec_counters" where
  "add_counters s c = \<lparr>drafts = drafts s + drafts c, draft_tokens = draft_tokens s + draft_tokens c,
     accepted_tokens = accepted_tokens s + accepted_tokens c,
     positions = fold (\<lambda>(p, v) m. AList.update p (count_at m p + v) m) (positions c) (positions s)\<rparr>"

definition aggregate_vllm_spec_decode_metric_deltas :: "pydict list \<Rightarrow> pydict res" where
  "aggregate_vllm_spec_decode_metric_deltas deltas =
     andThen (fold_res (\<lambda>s delta. andThen (strict_request_delta delta) (\<lambda>c. Inr (add_counters s c)))
       \<lparr>drafts = 0, draft_tokens = 0, accepted_tokens = 0, positions = []\<rparr> deltas) (\<lambda>s.
     if deltas = [] then Inl MetricsDeltaError
     else andThen (counters_snapshot CASE_AGGREGATE_SCOPE s) (\<lambda>snap.
       Inr (snap @ [(''request_count'', PInt (int (length deltas)))])))"

section \<open>Contiguous positions\<close>

text \<open>The positions \<open>0, \<dots>, n - 1\<close> with the counts of \<open>f\<close>.\<close>

definition posns :: "nat \<Rightarrow> (int \<Rightarrow> int) \<Rightarrow> (int \<times> int) list" where
  "posns n f = map (\<lambda>i. (int i, f (int i))) [0..<n]"

definition contiguous :: "nat \<Rightarrow> (int \<times> int) list \<Rightarrow> bool" where
  "contiguous n m \<longleftrightarrow> distinct (map fst m) \<and> set (map fst m) = int ` {0..<n}"

lemma posns_simps [simp]:
  "map fst (posns n f) = map int [0..<n]" "map snd (posns n f) = map (\<lambda>i. f (int i)) [0..<n]"
  "length (posns n f) = n"
  by (simp_all add: posns_def)

lemma contiguous_posns [simp]: "contiguous n (posns n f)"
  by (simp add: contiguous_def distinct_map)

lemma map_of_posns: "map_of (posns n f) p = (if 0 \<le> p \<and> p < int n then Some (f p) else None)"
proof -
  have "map_of (map (\<lambda>i. (int i, f (int i))) is) p =
      (if p \<in> int ` set is then Some (f p) else None)" for "is"
    by (induction "is") auto
  then have "map_of (posns n f) p = (if p \<in> int ` {0..<n} then Some (f p) else None)"
    by (simp add: posns_def)
  moreover have "p \<in> int ` {0..<n} \<longleftrightarrow> 0 \<le> p \<and> p < int n"
    by (auto simp: image_iff intro!: bexI [of _ "nat p"])
  ultimately show ?thesis by simp
qed

lemma count_at_posns: "count_at (posns n f) p = (if 0 \<le> p \<and> p < int n then f p else 0)"
  by (simp add: count_at_def map_of_posns)

lemma map_of_keys: "map_of m p = None \<longleftrightarrow> p \<notin> set (map fst m)"
  by (simp add: map_of_eq_None_iff)

lemma count_at_outside: "contiguous n m \<Longrightarrow> p < 0 \<or> int n \<le> p \<Longrightarrow> count_at m p = 0"
  using map_of_keys [of m p] by (auto simp: contiguous_def count_at_def split: option.split)

lemma sort_posns [simp]: "sort_key fst (posns n f) = posns n f"
  by (rule sort_key_id_if_sorted) (simp add: sorted_map)

text \<open>Sorting a contiguous dict lists its counts by position.\<close>

lemma sort_contiguous:
  assumes "contiguous n m"
  shows "sort_key fst m = posns n (count_at m)"
proof (rule map_sorted_distinct_set_unique [of fst])
  have keys: "distinct (map fst m)" "set (map fst m) = int ` {0..<n}"
    using assms by (simp_all add: contiguous_def)
  have pairs: "(k, v) \<in> set m \<longleftrightarrow> map_of m k = Some v" for k v
    using keys(1) by (simp add: map_of_eq_Some_iff)
  show "set (sort_key fst m) = set (posns n (count_at m))"
  proof (rule set_eqI)
    fix kv :: "int \<times> int"
    obtain k v where kv: "kv = (k, v)" by (cases kv)
    have "(k, v) \<in> set m \<longleftrightarrow> k \<in> int ` {0..<n} \<and> v = count_at m k"
      using keys(2) map_of_keys [of m k] pairs [of k v]
      by (auto simp: count_at_def split: option.splits)
    then show "kv \<in> set (sort_key fst m) \<longleftrightarrow> kv \<in> set (posns n (count_at m))"
      by (auto simp: kv posns_def)
  qed
  show "distinct (map fst (sort_key fst m))" "sorted (map fst (sort_key fst m))"
    using keys(1) by (simp_all add: distinct_map)
  show "distinct (map fst (posns n (count_at m)))" "sorted (map fst (posns n (count_at m)))"
    by (simp_all add: distinct_map sorted_map)
  show "inj_on fst (set (sort_key fst m) \<union> set (posns n (count_at m)))"
    using \<open>set (sort_key fst m) = set (posns n (count_at m))\<close> keys(1)
    by (simp add: distinct_map)
qed

lemma ordered_counts_contiguous: "contiguous n m \<Longrightarrow> ordered_counts m = map (\<lambda>i. count_at m (int i)) [0..<n]"
  by (simp add: ordered_counts_def sort_contiguous)

lemma some_increase_map:
  "some_increase (map g [0..<n]) \<longleftrightarrow> (\<exists>i. Suc i < n \<and> g i < g (Suc i))"
proof -
  let ?z = "zip (map g [0..<n]) (tl (map g [0..<n]))"
  have len: "length ?z = n - 1" by simp
  have nth: "?z ! i = (g i, g (Suc i))" if "i < n - 1" for i
    using that by (simp add: nth_tl)
  have "some_increase (map g [0..<n]) \<longleftrightarrow> (\<exists>i < n - 1. g i < g (Suc i))"
    using nth len by (auto simp: some_increase_def list_ex_length)
  then show ?thesis by (auto simp: less_diff_conv)
qed

section \<open>What a strictly read snapshot satisfies\<close>

lemma digits_acc_bound:
  "digits_acc b acc s = Some n \<Longrightarrow> n < (acc + 1) * 10 ^ length (filter is_digit s)"
proof (induction s arbitrary: b acc)
  case (Cons c cs)
  show ?case
  proof (cases "is_digit c")
    case True
    have "digit_value c < 10"
      using True by (cases c) (auto simp: is_digit_def digit_value_def less_eq_char_def)
    then have "acc * 10 + digit_value c + 1 \<le> (acc + 1) * 10" by simp
    then have "(acc * 10 + digit_value c + 1) * 10 ^ length (filter is_digit cs)
        \<le> ((acc + 1) * 10) * 10 ^ length (filter is_digit cs)"
      by (rule mult_right_mono) simp
    moreover have "n < (acc * 10 + digit_value c + 1) * 10 ^ length (filter is_digit cs)"
      using Cons.IH [of True "acc * 10 + digit_value c"] Cons.prems True by simp
    ultimately have "n < ((acc + 1) * 10) * 10 ^ length (filter is_digit cs)" by linarith
    with True show ?thesis by (simp add: algebra_simps)
  next
    case False
    with Cons show ?thesis by (auto split: if_splits)
  qed
qed (auto split: if_splits)

lemma parse_digits_bound: "parse_digits s = Some n \<Longrightarrow> n < 10 ^ max_str_digits"
proof -
  assume "parse_digits s = Some n"
  then have "n < 1 * 10 ^ length (filter is_digit s)" "length (filter is_digit s) \<le> max_str_digits"
    using digits_acc_bound [of False 0 s n] by (auto simp: parse_digits_def split: if_splits)
  then show ?thesis
    by (metis less_le_trans mult_1 power_increasing one_le_numeral)
qed

lemma canonical_index_parse:
  assumes "canonical_index s" and "parse_int s = Some p"
  shows "0 \<le> p \<and> nat p < 10 ^ max_str_digits"
proof -
  from assms(1) obtain c cs where s: "s = c # cs" and d: "list_all is_digit s"
    by (cases s) (auto simp: canonical_index_def)
  have "is_digit x \<Longrightarrow> \<not> is_space x" for x
    by (auto simp: is_digit_def is_space_def LF_def CR_def less_eq_char_def)
  then have "py_strip s = s"
    using d s by (intro py_strip_plain) (auto simp: list_all_iff)
  moreover have "c \<noteq> CHR ''-''" "c \<noteq> CHR ''+''"
    using d s by (auto simp: is_digit_def less_eq_char_def)
  ultimately obtain n where "parse_digits s = Some n" "p = int n"
    using assms(2) s by (auto simp: parse_int_def)
  then show ?thesis using parse_digits_bound [of s n] by simp
qed

text \<open>The counters of a snapshot that passed: contiguous positions, non-increasing counts.\<close>

definition counters_ok :: "nat \<Rightarrow> spec_counters \<Rightarrow> bool" where
  "counters_ok n c \<longleftrightarrow> n \<le> 10 ^ max_str_digits \<and> contiguous n (positions c) \<and>
     (\<forall>p. 0 \<le> count_at (positions c) p) \<and>
     0 \<le> accepted_tokens c \<and> 0 \<le> drafts c \<and> drafts c \<le> draft_tokens c \<and>
     (drafts c = 0 \<longleftrightarrow> draft_tokens c = 0) \<and> accepted_tokens c \<le> draft_tokens c \<and>
     (\<forall>p. count_at (positions c) p \<le> drafts c) \<and>
     (\<forall>p \<ge> 0. count_at (positions c) (p + 1) \<le> count_at (positions c) p)"

lemma strict_count_eq [simp]:
  "strict_count v = Inr n \<longleftrightarrow> 0 \<le> n \<and> (v = PInt n \<or> v = PFloat (FFin (of_int n)))"
  by (auto simp: strict_count_def split: pyval.splits pyfloat.splits if_splits)

lemma update_keys: "set (map fst (AList.update k v m)) = insert k (set (map fst m))"
  using arg_cong [OF update_conv' [of k v m], of dom] by (simp add: dom_map_of_conv_image_fst)

lemma count_at_update: "count_at (AList.update k v m) p = (if p = k then v else count_at m p)"
  by (simp add: count_at_def update_conv')

text \<open>The dict of positions, while it is read.\<close>

definition positions_inv :: "(int \<times> int) list \<Rightarrow> bool" where
  "positions_inv m \<longleftrightarrow> distinct (map fst m) \<and>
     (\<forall>p \<in> set (map fst m). 0 \<le> p \<and> nat p < 10 ^ max_str_digits) \<and> (\<forall>p. 0 \<le> count_at m p)"

lemma strict_position_inv:
  assumes "strict_position m item = Inr m'" and "positions_inv m"
  shows "positions_inv m'"
proof -
  from assms(1) obtain p n where idx: "canonical_index (fst item)" "parse_int (fst item) = Some p"
      and n: "0 \<le> n" and m': "m' = AList.update p n m"
    by (auto simp: strict_position_def andThen_eq_Inr split: option.splits if_splits)
  have "distinct (map fst m')" using assms(2) by (simp add: m' positions_inv_def distinct_update)
  moreover have "\<forall>q \<in> set (map fst m'). 0 \<le> q \<and> nat q < 10 ^ max_str_digits"
    using assms(2) canonical_index_parse [OF idx] unfolding m' update_keys positions_inv_def by blast
  moreover have "\<forall>q. 0 \<le> count_at m' q"
    using assms(2) n by (simp add: m' count_at_update positions_inv_def)
  ultimately show ?thesis by (simp add: positions_inv_def)
qed

lemma strict_positions_contiguous:
  assumes "strict_positions v = Inr m"
  shows "contiguous (length m) m \<and> length m \<le> 10 ^ max_str_digits \<and> (\<forall>p. 0 \<le> count_at m p)"
proof -
  from assms obtain items where loop: "fold_res strict_position [] items = Inr m"
      and range: "m = [] \<or> set (map fst m) = {0 ..< Max (set (map fst m)) + 1}"
    by (auto simp: strict_positions_def andThen_eq_Inr split: pyval.splits if_splits)
  have inv: "positions_inv m"
    by (rule fold_res_inv [OF loop]) (simp add: positions_inv_def count_at_def, rule strict_position_inv)
  have "set (map fst m) = int ` {0..<length m} \<and> length m \<le> 10 ^ max_str_digits"
  proof (cases "m = []")
    case False
    define k where "k = nat (Max (set (map fst m)) + 1)"
    have max: "Max (set (map fst m)) \<in> set (map fst m)" using False by (intro Max_in) auto
    with inv have "0 \<le> Max (set (map fst m))" "nat (Max (set (map fst m))) < 10 ^ max_str_digits"
      unfolding positions_inv_def by blast+
    then have k: "int k = Max (set (map fst m)) + 1" "k \<le> 10 ^ max_str_digits"
      unfolding k_def by linarith+
    have "set (map fst m) = {0 ..< int k}" using range False k(1) by simp
    also have "\<dots> = int ` {0..<k}" using image_int_atLeastLessThan [of 0 k] by simp
    finally have keys: "set (map fst m) = int ` {0..<k}" .
    have "length m = card (set (map fst m))"
      using inv distinct_card [of "map fst m"] by (simp add: positions_inv_def)
    also have "\<dots> = k" unfolding keys by (simp add: card_image)
    finally show ?thesis using keys k(2) by simp
  qed simp
  with inv show ?thesis by (simp add: contiguous_def positions_inv_def)
qed

lemma not_some_increase:
  assumes "contiguous n m" and "\<not> some_increase (ordered_counts m)" and "\<forall>p. 0 \<le> count_at m p" and "0 \<le> p"
  shows "count_at m (p + 1) \<le> count_at m p"
proof (cases "p + 1 < int n")
  case True
  define i where "i = nat p"
  with True assms(4) have i: "int i = p" "Suc i < n" by linarith+
  have "\<not> count_at m (int i) < count_at m (int (Suc i))"
    using assms(2) i(2) unfolding ordered_counts_contiguous [OF assms(1)] some_increase_map by blast
  then show ?thesis by (simp add: i(1)[symmetric] algebra_simps)
next
  case False
  then show ?thesis using count_at_outside [OF assms(1), of "p + 1"] assms(3) by simp
qed

lemma count_at_le:
  assumes "contiguous n m" and "\<not> list_ex (\<lambda>x. x > d) (ordered_counts m)" and "0 \<le> d"
  shows "count_at m p \<le> d"
proof (cases "0 \<le> p \<and> p < int n")
  case True
  then have "count_at m p \<in> set (ordered_counts m)"
    using assms(1) by (auto simp: ordered_counts_contiguous intro!: image_eqI [of _ _ "nat p"])
  then show ?thesis using assms(2) by (auto simp: list_ex_iff)
next
  case False
  then show ?thesis using count_at_outside [OF assms(1), of p] assms(3) by force
qed

lemma strict_snapshot_parts:
  assumes "strict_cumulative_snapshot v = Inr c"
  shows "\<not> core_inconsistent (drafts c) (draft_tokens c) (accepted_tokens c)"
    and "0 \<le> drafts c" "0 \<le> accepted_tokens c"
    and "\<exists>w. strict_positions w = Inr (positions c)"
    and "\<not> list_ex (\<lambda>x. x > drafts c) (ordered_counts (positions c))"
    and "\<not> some_increase (ordered_counts (positions c))"
proof -
  from assms obtain snap where v: "v = PDict snap"
    by (auto simp: strict_cumulative_snapshot_def split: pyval.splits)
  note facts = assms [unfolded v strict_cumulative_snapshot_def pyval.case guard_eq_Inr andThen_eq_Inr]
  from facts obtain d t a m where "strict_count (dict_get snap ''num_drafts'') = Inr d"
      "strict_count (dict_get snap ''num_accepted_tokens'') = Inr a"
      "\<not> core_inconsistent d t a"
      "strict_positions (dict_get snap ''accepted_tokens_per_position'') = Inr m"
      "\<not> list_ex (\<lambda>x. x > d) (ordered_counts m)" "\<not> some_increase (ordered_counts m)"
      "c = \<lparr>drafts = d, draft_tokens = t, accepted_tokens = a, positions = m\<rparr>"
    by (clarsimp simp del: strict_count_eq)
  then show "\<not> core_inconsistent (drafts c) (draft_tokens c) (accepted_tokens c)"
      "0 \<le> drafts c" "0 \<le> accepted_tokens c" "\<exists>w. strict_positions w = Inr (positions c)"
      "\<not> list_ex (\<lambda>x. x > drafts c) (ordered_counts (positions c))"
      "\<not> some_increase (ordered_counts (positions c))"
    by auto
qed

lemma counters_okI:
  assumes "contiguous n (positions c)" and "n \<le> 10 ^ max_str_digits"
    and "\<forall>p. 0 \<le> count_at (positions c) p"
    and "\<not> core_inconsistent (drafts c) (draft_tokens c) (accepted_tokens c)"
    and "0 \<le> drafts c" and "0 \<le> accepted_tokens c"
    and "\<not> list_ex (\<lambda>x. x > drafts c) (ordered_counts (positions c))"
    and "\<not> some_increase (ordered_counts (positions c))"
  shows "counters_ok n c"
  using assms not_some_increase [OF assms(1,8,3)] count_at_le [OF assms(1,7,5)]
  by (auto simp: counters_ok_def core_inconsistent_def)

lemma strict_snapshot_ok:
  assumes "strict_cumulative_snapshot v = Inr c"
  shows "counters_ok (length (positions c)) c"
proof -
  note parts = strict_snapshot_parts [OF assms]
  from parts(4) obtain w where "strict_positions w = Inr (positions c)" by blast
  from strict_positions_contiguous [OF this] parts show ?thesis
    by (intro counters_okI) auto
qed

section \<open>Writing a snapshot and reading it back\<close>

lemma sort_key_map_same:
  assumes "\<And>x. fst (h x) = fst x"
  shows "sort_key fst (map h xs) = map h (sort_key fst xs)"
proof -
  have ins: "insort_key fst (h x) (map h ys) = map h (insort_key fst x ys)" for x ys
    by (induction ys) (simp_all add: assms)
  show ?thesis by (induction xs) (simp_all add: ins)
qed

definition counters_dict :: "string \<Rightarrow> spec_counters \<Rightarrow> pydict" where
  "counters_dict scope c = [
     (''source'', PStr VLLM_SOURCE), (''scope'', PStr scope),
     (''num_drafts'', PInt (drafts c)), (''num_draft_tokens'', PInt (draft_tokens c)),
     (''num_accepted_tokens'', PInt (accepted_tokens c)),
     (''accepted_tokens_per_position'', PDict (map (\<lambda>(p, v). (show_nat (nat p), PInt v))
        (sort_key fst (positions c)))),
     (''draft_acceptance_rate'', if 0 < draft_tokens c
        then PFloat (FFin (of_int (accepted_tokens c) / of_int (draft_tokens c))) else PNone),
     (''mean_accepted_length'', if 0 < drafts c
        then PFloat (FFin (1 + of_int (accepted_tokens c) / of_int (drafts c))) else PNone)]"

text \<open>Below \<open>2 ^ 53\<close> the conversion of an integer to float is exact.\<close>

definition exact_bound :: int where
  "exact_bound = 2 ^ 53"

lemma exact_fits: "n \<le> exact_bound \<Longrightarrow> n + 1 < float_overflow_bound"
  by (simp add: exact_bound_def float_overflow_bound_def)

lemma quotient_fits:
  assumes "0 \<le> a" and "a \<le> exact_bound" and "0 < d"
  shows "\<bar>of_int a / of_int d :: real\<bar> < of_int float_overflow_bound"
    and "\<bar>1 + of_int a / of_int d :: real\<bar> < of_int float_overflow_bound"
proof -
  have "of_int a * 1 \<le> (of_int a * of_int d :: real)"
    using assms by (intro mult_left_mono) auto
  then have q: "(of_int a / of_int d :: real) \<le> of_int a" "0 \<le> (of_int a / of_int d :: real)"
    using assms by (simp_all add: divide_le_eq)
  moreover have "(of_int a :: real) + 1 < of_int float_overflow_bound"
    using exact_fits [OF assms(2)] by (metis of_int_1 of_int_add of_int_less_iff)
  ultimately show "\<bar>of_int a / of_int d :: real\<bar> < of_int float_overflow_bound"
      "\<bar>1 + of_int a / of_int d :: real\<bar> < of_int float_overflow_bound"
    by linarith+
qed

lemma counters_ok_bounds:
  assumes "counters_ok n c" and "draft_tokens c \<le> exact_bound"
  shows "drafts c \<le> exact_bound" "accepted_tokens c \<le> exact_bound"
    "0 \<le> drafts c" "0 \<le> draft_tokens c" "0 \<le> accepted_tokens c"
    "(p, v) \<in> set (positions c) \<Longrightarrow> 0 \<le> v \<and> v \<le> exact_bound"
proof -
  show b: "drafts c \<le> exact_bound" "accepted_tokens c \<le> exact_bound"
      "0 \<le> drafts c" "0 \<le> draft_tokens c" "0 \<le> accepted_tokens c"
    using assms by (auto simp: counters_ok_def)
  assume "(p, v) \<in> set (positions c)"
  then have "count_at (positions c) p = v"
    using assms(1) by (simp add: counters_ok_def contiguous_def count_at_def)
  with assms(1) b(1) show "0 \<le> v \<and> v \<le> exact_bound"
    by (auto simp: counters_ok_def dest: spec [of _ p])
qed

lemma float_of_small: "0 \<le> n \<Longrightarrow> n \<le> exact_bound \<Longrightarrow> float_of_int n = Inr (FFin (of_int n))"
  using exact_fits [of n] by (simp add: float_of_int_def)

lemma counters_snapshot_dict:
  assumes "counters_ok n c" and "draft_tokens c \<le> exact_bound"
  shows "counters_snapshot scope c = Inr (counters_dict scope c)"
proof -
  note bounds = counters_ok_bounds [OF assms]
  let ?h = "\<lambda>(p, v). (p, FFin (of_int v))"
  have "traverse (\<lambda>(p, v). andThen (float_of_int v) (\<lambda>x. Inr (p, x))) (positions c)
      = Inr (map ?h (positions c))"
  proof -
    have "traverse (\<lambda>(p, v). andThen (float_of_int v) (\<lambda>x. Inr (p, x))) m = Inr (map ?h m)"
      if "\<forall>(p, v) \<in> set m. 0 \<le> v \<and> v \<le> exact_bound" for m :: "(int \<times> int) list"
      using that by (induction m) (auto simp: float_of_small)
    then show ?thesis using bounds(6) by blast
  qed
  moreover have "sort_key fst (map ?h (positions c)) = map ?h (sort_key fst (positions c))"
    by (rule sort_key_map_same) (simp add: case_prod_unfold)
  ultimately show ?thesis
    using bounds assms(2) quotient_fits [of "accepted_tokens c" "draft_tokens c"]
      quotient_fits [of "accepted_tokens c" "drafts c"]
    by (simp add: counters_snapshot_def float_of_small vllm_snapshot_def spec_snapshot_def
        counters_dict_def case_prod_unfold comp_def)
qed

lemma canonical_index_show: "canonical_index (show_nat n)"
proof -
  have hd: "hd (show_nat k) = CHR ''0'' \<longleftrightarrow> k = 0" for k
  proof (induction k rule: show_nat.induct)
    case (1 k)
    show ?case
    proof (cases "k < 10")
      case True
      have "list_all (\<lambda>i. digit_char i = CHR ''0'' \<longleftrightarrow> i = 0) [0..<10]" by code_simp
      with True show ?thesis
        by (subst show_nat.simps) (simp add: list_all_iff del: upt_rec_numeral)
    next
      case False
      with 1 show ?thesis by (subst show_nat.simps) simp
    qed
  qed
  have "show_nat 0 = ''0''" by code_simp
  with hd [of n] show ?thesis
    using show_nat_digits [of n] by (auto simp: canonical_index_def)
qed

lemma update_fresh: "k \<notin> set (map fst m) \<Longrightarrow> AList.update k v m = m @ [(k, v)]"
  by (induction m) auto

lemma posns_Suc: "posns (Suc n) g = posns n g @ [(int n, g (int n))]"
  by (simp add: posns_def)

lemma read_positions:
  assumes "n \<le> 10 ^ max_str_digits" and "\<forall>p. 0 \<le> g p"
  shows "fold_res strict_position [] (map (\<lambda>(p, v). (show_nat (nat p), PInt v)) (posns n g))
    = Inr (posns n g)"
  using assms(1)
proof (induction n)
  case (Suc n)
  have "int n \<notin> set (map fst (posns n g))" by (simp add: image_iff)
  then have "strict_position (posns n g) (show_nat n, PInt (g (int n)))
      = Inr (posns n g @ [(int n, g (int n))])"
    using Suc.prems assms(2)
    by (simp add: strict_position_def canonical_index_show parse_int_show strict_count_def update_fresh
        not_less)
  with Suc show ?case by (simp add: posns_Suc fold_res_append)
qed (simp add: posns_def)

text \<open>What \<open>counters_dict\<close> writes for the deltas of a request is read back as it is.\<close>

lemma contiguous_keys_bound:
  assumes "contiguous n m"
  shows "m \<noteq> [] \<Longrightarrow> set (map fst m) = {0 ..< Max (set (map fst m)) + 1}"
proof -
  assume "m \<noteq> []"
  have keys: "set (map fst m) = {0..<int n}"
    using assms image_int_atLeastLessThan [of 0 n] by (simp add: contiguous_def)
  have "set (map fst m) \<noteq> {}" using \<open>m \<noteq> []\<close> by simp
  then have "0 < int n" unfolding keys by simp
  then have "Max {0..<int n} = int n - 1" by (intro Max_eqI) auto
  then show ?thesis unfolding keys by simp
qed

lemma is_close_refl [simp]: "is_close (FFin r) (FFin r)"
  by (simp add: max_def)

lemma read_back:
  assumes ok: "counters_ok n c" and small: "draft_tokens c \<le> exact_bound"
    and sum: "sum_list (ordered_counts (positions c)) = accepted_tokens c"
  shows "strict_request_delta (counters_dict REQUEST_DELTA_SCOPE c)
    = Inr (c\<lparr>positions := sort_key fst (positions c)\<rparr>)"
proof -
  let ?g = "count_at (positions c)"
  have cont: "contiguous n (positions c)" and n: "n \<le> 10 ^ max_str_digits" and pos: "\<forall>p. 0 \<le> ?g p"
    using ok by (simp_all add: counters_ok_def)
  have sorted: "sort_key fst (positions c) = posns n ?g" by (rule sort_contiguous [OF cont])
  have items: "strict_positions (PDict (map (\<lambda>(p, v). (show_nat (nat p), PInt v)) (posns n ?g)))
      = Inr (posns n ?g)"
    unfolding strict_positions_def pyval.case read_positions [OF n pos] andThen_simps
    using contiguous_keys_bound [OF contiguous_posns [of n ?g]] by presburger
  have ordered: "ordered_counts (posns n ?g) = ordered_counts (positions c)"
    by (simp add: ordered_counts_def sorted)
  have dec: "?g (p + 1) \<le> ?g p" if "0 \<le> p" for p
    using ok that by (simp add: counters_ok_def)
  have desc: "\<not> some_increase (ordered_counts (positions c))"
    using dec [of "int _"] unfolding ordered_counts_contiguous [OF cont] some_increase_map
    by (auto simp: not_less add.commute)
  have le: "\<not> list_ex (\<lambda>x. x > drafts c) (ordered_counts (positions c))"
    using ok unfolding ordered_counts_contiguous [OF cont]
    by (auto simp: counters_ok_def list_ex_iff not_less)
  note bounds = counters_ok_bounds [OF ok small]
  have core: "\<not> core_inconsistent (drafts c) (draft_tokens c) (accepted_tokens c)"
    using ok by (auto simp: counters_ok_def core_inconsistent_def)
  have rate: "expected_rate (accepted_tokens c) (draft_tokens c) = Inr (if 0 < draft_tokens c
      then Some (FFin (of_int (accepted_tokens c) / of_int (draft_tokens c))) else None)"
    using quotient_fits [of "accepted_tokens c" "draft_tokens c"] bounds
    by (simp add: expected_rate_def int_div_def Let_def)
  have len: "expected_length (accepted_tokens c) (drafts c) = Inr (if 0 < drafts c
      then Some (FFin (1 + of_int (accepted_tokens c) / of_int (drafts c))) else None)"
    using quotient_fits [of "accepted_tokens c" "drafts c"] bounds
    by (simp add: expected_length_def int_div_def Let_def)
  have sums: "sum_list (map snd (posns n ?g)) = accepted_tokens c"
    using sum ordered by (simp add: ordered_counts_def)
  have keys: "dict_keys (AList.update ''scope'' (PStr CUMULATIVE_SCOPE)
      (counters_dict REQUEST_DELTA_SCOPE c)) = SNAPSHOT_KEYS"
    by (auto simp: counters_dict_def SNAPSHOT_KEYS_def)
  have "strict_cumulative_snapshot (PDict (AList.update ''scope'' (PStr CUMULATIVE_SCOPE)
      (counters_dict REQUEST_DELTA_SCOPE c))) = Inr (c\<lparr>positions := posns n ?g\<rparr>)"
    unfolding strict_cumulative_snapshot_def pyval.case keys
    using items core le desc bounds ordered sorted
    by (simp add: counters_dict_def strict_count_def rate len strict_derived_value_def number_of_def
        del: is_close.simps)
  then show ?thesis
    using sums sorted by (simp add: strict_request_delta_def counters_dict_def)
qed

section \<open>The difference, as a function\<close>

definition difference :: "spec_counters \<Rightarrow> spec_counters \<Rightarrow> spec_counters" where
  "difference b a = \<lparr>drafts = drafts a - drafts b, draft_tokens = draft_tokens a - draft_tokens b,
     accepted_tokens = accepted_tokens a - accepted_tokens b,
     positions = posns (length (positions a)) (\<lambda>p. count_at (positions a) p - count_at (positions b) p)\<rparr>"

text \<open>When one lifetime goes from \<open>b\<close> to \<open>a\<close> with a delta that is admitted.\<close>

definition advances :: "spec_counters \<Rightarrow> spec_counters \<Rightarrow> bool" where
  "advances b a \<longleftrightarrow> length (positions b) \<le> length (positions a) \<and>
     (\<forall>p. count_at (positions b) p \<le> count_at (positions a) p) \<and>
     counters_ok (length (positions a)) (difference b a) \<and>
     sum_list (ordered_counts (positions (difference b a))) = accepted_tokens a - accepted_tokens b"

lemma subtract_loop:
  "fold_res (subtract_position before) [] (posns n f) = Inr m \<longleftrightarrow>
     (\<forall>i < n. count_at before (int i) \<le> f (int i)) \<and> m = posns n (\<lambda>p. f p - count_at before p)"
proof (induction n arbitrary: m)
  case (Suc n)
  have "int n \<notin> set (map fst (posns n (\<lambda>p. f p - count_at before p)))" by (simp add: image_iff)
  then have "AList.update (int n) v (posns n (\<lambda>p. f p - count_at before p))
      = posns n (\<lambda>p. f p - count_at before p) @ [(int n, v)]" for v
    by (rule update_fresh)
  with Suc show ?case
    by (auto simp: posns_Suc fold_res_append andThen_eq_Inr subtract_position_def less_Suc_eq not_less)
qed (auto simp: posns_def)

lemma contiguous_subset:
  assumes "contiguous n m" and "contiguous k l"
  shows "set (map fst m) \<subseteq> set (map fst l) \<longleftrightarrow> n \<le> k"
proof -
  have "int ` {0..<n} \<subseteq> int ` {0..<k} \<longleftrightarrow> {0..<n} \<subseteq> {0..<k}" by (rule inj_image_subset_iff) simp
  also have "\<dots> \<longleftrightarrow> n \<le> k" by (auto simp: ivl_subset)
  finally show ?thesis using assms by (simp add: contiguous_def)
qed

lemma delta_iff:
  assumes b: "strict_cumulative_snapshot before = Inr b" and a: "strict_cumulative_snapshot after = Inr a"
    and small: "draft_tokens a \<le> exact_bound"
  shows "delta_vllm_spec_decode_metrics before after = Inr d \<longleftrightarrow>
    advances b a \<and> d = counters_dict REQUEST_DELTA_SCOPE (difference b a)"
proof -
  let ?n = "length (positions a)" and ?k = "length (positions b)"
  let ?f = "\<lambda>p. count_at (positions a) p - count_at (positions b) p"
  let ?c = "difference b a"
  have oka: "counters_ok ?n a" and okb: "counters_ok ?k b"
    using strict_snapshot_ok [OF a] strict_snapshot_ok [OF b] by simp_all
  then have conta: "contiguous ?n (positions a)" and contb: "contiguous ?k (positions b)"
    and n: "?n \<le> 10 ^ max_str_digits"
    and nonneg: "0 \<le> count_at (positions a) p" "0 \<le> draft_tokens b" for p
    by (auto simp: counters_ok_def)
  have contc: "contiguous ?n (positions ?c)" by (simp add: difference_def)
  have le_iff: "(\<forall>i < ?n. count_at (positions b) (int i) \<le> count_at (positions a) (int i)) \<longleftrightarrow>
      (\<forall>p. count_at (positions b) p \<le> count_at (positions a) p)" if "?k \<le> ?n"
  proof
    assume le: "\<forall>i < ?n. count_at (positions b) (int i) \<le> count_at (positions a) (int i)"
    show "\<forall>p. count_at (positions b) p \<le> count_at (positions a) p"
    proof
      fix p
      show "count_at (positions b) p \<le> count_at (positions a) p"
      proof (cases "0 \<le> p \<and> p < int ?n")
        case True
        then have "nat p < ?n" by linarith
        with le True show ?thesis using le [rule_format, of "nat p"] by simp
      next
        case False
        with that have "p < 0 \<or> int ?k \<le> p" by linarith
        then show ?thesis using count_at_outside [OF contb] nonneg(1) by simp
      qed
    qed
  qed blast
  have at: "count_at (positions ?c) p = (if 0 \<le> p \<and> p < int ?n then ?f p else 0)" for p
    by (simp add: difference_def count_at_posns)
  have checks: "\<not> core_inconsistent (drafts ?c) (draft_tokens ?c) (accepted_tokens ?c) \<and>
      \<not> list_ex (\<lambda>x. x > drafts ?c) (ordered_counts (positions ?c)) \<and>
      \<not> some_increase (ordered_counts (positions ?c)) \<and> drafts b \<le> drafts a \<and>
      draft_tokens b \<le> draft_tokens a \<and> accepted_tokens b \<le> accepted_tokens a
    \<longleftrightarrow> counters_ok ?n ?c" if le: "\<forall>p. count_at (positions b) p \<le> count_at (positions a) p"
  proof
    have pos: "\<forall>p. 0 \<le> count_at (positions ?c) p" using le by (auto simp: at)
    assume "\<not> core_inconsistent (drafts ?c) (draft_tokens ?c) (accepted_tokens ?c) \<and>
      \<not> list_ex (\<lambda>x. x > drafts ?c) (ordered_counts (positions ?c)) \<and>
      \<not> some_increase (ordered_counts (positions ?c)) \<and> drafts b \<le> drafts a \<and>
      draft_tokens b \<le> draft_tokens a \<and> accepted_tokens b \<le> accepted_tokens a"
    then show "counters_ok ?n ?c"
      by (intro counters_okI [OF contc n pos]) (simp_all add: difference_def)
  next
    assume ok: "counters_ok ?n ?c"
    then have dec: "count_at (positions ?c) (p + 1) \<le> count_at (positions ?c) p" if "0 \<le> p" for p
      using that by (simp add: counters_ok_def)
    have "\<not> some_increase (ordered_counts (positions ?c))"
      using dec [of "int _"] unfolding ordered_counts_contiguous [OF contc] some_increase_map
      by (auto simp: not_less add.commute)
    moreover have "\<not> list_ex (\<lambda>x. x > drafts ?c) (ordered_counts (positions ?c))"
      using ok unfolding ordered_counts_contiguous [OF contc]
      by (auto simp: counters_ok_def list_ex_iff not_less)
    ultimately show "\<not> core_inconsistent (drafts ?c) (draft_tokens ?c) (accepted_tokens ?c) \<and>
      \<not> list_ex (\<lambda>x. x > drafts ?c) (ordered_counts (positions ?c)) \<and>
      \<not> some_increase (ordered_counts (positions ?c)) \<and> drafts b \<le> drafts a \<and>
      draft_tokens b \<le> draft_tokens a \<and> accepted_tokens b \<le> accepted_tokens a"
      using ok by (auto simp: counters_ok_def core_inconsistent_def difference_def)
  qed
  have snap: "counters_snapshot REQUEST_DELTA_SCOPE ?c = Inr (counters_dict REQUEST_DELTA_SCOPE ?c)"
    if "counters_ok ?n ?c"
    using that small nonneg(2) by (intro counters_snapshot_dict) (simp_all add: difference_def)
  have "delta_vllm_spec_decode_metrics before after = Inr d \<longleftrightarrow>
      ?k \<le> ?n \<and> (\<forall>p. count_at (positions b) p \<le> count_at (positions a) p) \<and> counters_ok ?n ?c \<and>
      sum_list (ordered_counts (positions ?c)) = accepted_tokens ?c \<and>
      counters_snapshot REQUEST_DELTA_SCOPE ?c = Inr d"
    unfolding delta_vllm_spec_decode_metrics_def a b andThen_simps
      contiguous_subset [OF contb conta] sort_contiguous [OF conta] guard_eq_Inr andThen_eq_Inr
      subtract_loop Let_def
    using le_iff checks by (auto simp: difference_def not_less)
  then show ?thesis
    using snap by (auto simp: advances_def difference_def)
qed

section \<open>Consecutive requests\<close>

abbreviation cnt :: "spec_counters \<Rightarrow> int \<Rightarrow> int" where
  "cnt c \<equiv> count_at (positions c)"

definition self_ok :: "spec_counters \<Rightarrow> bool" where
  "self_ok c \<longleftrightarrow> counters_ok (length (positions c)) c"

lemma difference_at:
  assumes "self_ok b" and "self_ok a" and "length (positions b) \<le> length (positions a)"
  shows "cnt (difference b a) p = cnt a p - cnt b p"
proof (cases "0 \<le> p \<and> p < int (length (positions a))")
  case False
  with assms(3) have "p < 0 \<or> int (length (positions b)) \<le> p" "p < 0 \<or> int (length (positions a)) \<le> p"
    by linarith+
  then have "cnt a p = 0" "cnt b p = 0"
    using assms(1,2) count_at_outside by (auto simp: self_ok_def counters_ok_def)
  then show ?thesis using False by (simp add: difference_def count_at_posns)
qed (simp add: difference_def count_at_posns)

text \<open>The sum of the counts, over any range that covers them.\<close>

definition total :: "nat \<Rightarrow> spec_counters \<Rightarrow> int" where
  "total n c = (\<Sum>i<n. cnt c (int i))"

lemma total_extend:
  assumes "self_ok c" and "length (positions c) \<le> n"
  shows "total n c = total (length (positions c)) c"
  unfolding total_def
proof (rule sum.mono_neutral_right)
  show "\<forall>i \<in> {..<n} - {..<length (positions c)}. cnt c (int i) = 0"
    using assms(1) count_at_outside by (auto simp: self_ok_def counters_ok_def)
qed (use assms(2) in auto)

lemma advances_iff:
  assumes "self_ok b" and "self_ok a"
  shows "advances b a \<longleftrightarrow> length (positions b) \<le> length (positions a) \<and> (\<forall>p. cnt b p \<le> cnt a p) \<and>
    accepted_tokens b \<le> accepted_tokens a \<and> drafts b \<le> drafts a \<and>
    drafts a - drafts b \<le> draft_tokens a - draft_tokens b \<and>
    (drafts a = drafts b \<longleftrightarrow> draft_tokens a = draft_tokens b) \<and>
    accepted_tokens a - accepted_tokens b \<le> draft_tokens a - draft_tokens b \<and>
    (\<forall>p. cnt a p - cnt b p \<le> drafts a - drafts b) \<and>
    (\<forall>p \<ge> 0. cnt a (p + 1) - cnt b (p + 1) \<le> cnt a p - cnt b p) \<and>
    total (length (positions a)) a - total (length (positions a)) b
      = accepted_tokens a - accepted_tokens b"
proof (cases "length (positions b) \<le> length (positions a)")
  case True
  let ?n = "length (positions a)"
  note cnt = difference_at [OF assms True]
  have "sum_list (ordered_counts (positions (difference b a)))
      = (\<Sum>i<?n. cnt (difference b a) (int i))"
    by (subst ordered_counts_contiguous [of ?n])
      (simp_all add: difference_def interv_sum_list_conv_sum_set_nat atLeast0LessThan)
  then have sum: "sum_list (ordered_counts (positions (difference b a))) = total ?n a - total ?n b"
    by (simp add: cnt total_def sum_subtractf)
  have "?n \<le> 10 ^ max_str_digits" using assms(2) by (simp add: self_ok_def counters_ok_def)
  then show ?thesis
    using True unfolding advances_def counters_ok_def cnt sum
    by (auto simp: difference_def)
qed (simp add: advances_def)

lemma advances_refl: "self_ok c \<Longrightarrow> advances c c"
  by (simp add: advances_iff)

lemma advances_trans:
  assumes ok: "self_ok x" "self_ok y" "self_ok z" and xy: "advances x y" and yz: "advances y z"
  shows "advances x z"
proof -
  note xy' = xy [unfolded advances_iff [OF ok(1,2)]] and yz' = yz [unfolded advances_iff [OF ok(2,3)]]
  let ?y = "length (positions y)" and ?z = "length (positions z)"
  have len: "length (positions x) \<le> ?y" "?y \<le> ?z" using xy' yz' by blast+
  have tx: "total ?z x = total ?y x"
    using total_extend [OF ok(1), of ?z] total_extend [OF ok(1), of ?y] len by simp
  have ty: "total ?z y = total ?y y" using total_extend [OF ok(2), of ?z] len by simp
  have p: "cnt x p \<le> cnt y p" "cnt y p \<le> cnt z p" "cnt y p - cnt x p \<le> drafts y - drafts x"
      "cnt z p - cnt y p \<le> drafts z - drafts y" for p
    using xy' yz' by blast+
  have d: "cnt y (p + 1) - cnt x (p + 1) \<le> cnt y p - cnt x p"
      "cnt z (p + 1) - cnt y (p + 1) \<le> cnt z p - cnt y p" if "0 \<le> p" for p
    using xy' yz' that by blast+
  have "cnt x p \<le> cnt z p" "cnt z p - cnt x p \<le> drafts z - drafts x" for p
    using p [of p] by linarith+
  moreover have "cnt z (p + 1) - cnt x (p + 1) \<le> cnt z p - cnt x p" if "0 \<le> p" for p
    using d [OF that] by linarith
  moreover have "total ?z z - total ?z x = accepted_tokens z - accepted_tokens x"
    using xy' yz' tx ty by linarith
  moreover have "accepted_tokens x \<le> accepted_tokens z \<and> drafts x \<le> drafts z \<and>
      drafts z - drafts x \<le> draft_tokens z - draft_tokens x \<and>
      (drafts z = drafts x \<longleftrightarrow> draft_tokens z = draft_tokens x) \<and>
      accepted_tokens z - accepted_tokens x \<le> draft_tokens z - draft_tokens x"
    using xy' yz' by linarith
  ultimately show ?thesis
    using len by (simp add: advances_iff [OF ok(1,3)])
qed

lemma fold_add:
  assumes "contiguous n m"
  shows "contiguous (max n k) (fold (\<lambda>(p, v) m. AList.update p (count_at m p + v) m) (posns k g) m)"
    and "count_at (fold (\<lambda>(p, v) m. AList.update p (count_at m p + v) m) (posns k g) m) p
      = count_at m p + (if 0 \<le> p \<and> p < int k then g p else 0)"
proof (induction k arbitrary: p)
  case 0
  {
    case 1
    show ?case using assms by (simp add: posns_def)
  next
    case 2
    show ?case by (simp add: posns_def)
  }
next
  case (Suc k)
  let ?M = "fold (\<lambda>(p, v) m. AList.update p (count_at m p + v) m) (posns k g) m"
  have M: "fold (\<lambda>(p, v) m. AList.update p (count_at m p + v) m) (posns (Suc k) g) m
      = AList.update (int k) (count_at ?M (int k) + g (int k)) ?M"
    by (simp add: posns_Suc)
  {
    case 1
    have "set (map fst (AList.update (int k) v ?M)) = int ` {0..<max n (Suc k)}" for v
    proof -
      have "{0..<max n (Suc k)} = insert k {0..<max n k}" by auto
      then have "insert (int k) (int ` {0..<max n k}) = int ` {0..<max n (Suc k)}"
        by (simp only: image_insert)
      then show ?thesis unfolding update_keys using Suc.IH(1) by (simp add: contiguous_def)
    qed
    then show ?case
      using Suc.IH(1) unfolding M by (simp add: contiguous_def distinct_update)
  next
    case 2
    show ?case unfolding M using Suc.IH(2) by (auto simp: count_at_update)
  }
qed

text \<open>A window of requests: each delta with the snapshot taken after the request.\<close>

fun request_chain :: "pyval \<Rightarrow> (pydict \<times> pyval) list \<Rightarrow> bool" where
  "request_chain start [] = True"
| "request_chain start ((delta, after) # rest) =
     (delta_vllm_spec_decode_metrics start after = Inr delta \<and> request_chain after rest)"

text \<open>The accumulator of the sum, after requests that took the counters from \<open>b\<close> to \<open>a\<close>.\<close>

definition accumulated :: "nat \<Rightarrow> spec_counters \<Rightarrow> spec_counters \<Rightarrow> spec_counters \<Rightarrow> bool" where
  "accumulated n b a s \<longleftrightarrow> drafts s = drafts a - drafts b \<and>
     draft_tokens s = draft_tokens a - draft_tokens b \<and>
     accepted_tokens s = accepted_tokens a - accepted_tokens b \<and>
     n \<le> length (positions a) \<and> contiguous n (positions s) \<and>
     (\<forall>p. cnt s p = cnt a p - cnt b p)"

lemma accumulated_step:
  assumes "self_ok b" "self_ok a" "self_ok z" and "advances a z" and "accumulated n b a s"
  shows "accumulated (length (positions z)) b z (add_counters s (difference a z))"
proof -
  from assms(5) have n: "n \<le> length (positions a)" "contiguous n (positions s)"
    by (simp_all add: accumulated_def)
  have len: "length (positions a) \<le> length (positions z)" using assms(4) by (simp add: advances_def)
  let ?k = "length (positions z)" and ?g = "\<lambda>p. cnt z p - cnt a p"
  have added: "positions (add_counters s (difference a z))
      = fold (\<lambda>(p, v) m. AList.update p (count_at m p + v) m) (posns ?k ?g) (positions s)"
    by (simp add: add_counters_def difference_def)
  have "contiguous ?k (positions (add_counters s (difference a z)))"
    using fold_add(1) [OF n(2), of ?k ?g] n(1) len by (simp add: added max_def)
  moreover have "cnt (add_counters s (difference a z)) p = cnt z p - cnt b p" for p
  proof -
    have "(if 0 \<le> p \<and> p < int ?k then ?g p else 0) = ?g p"
      using difference_at [OF assms(2,3) len, of p] by (simp add: difference_def count_at_posns)
    then show ?thesis
      using fold_add(2) [OF n(2), of ?k ?g p] assms(5) by (simp add: added accumulated_def)
  qed
  ultimately show ?thesis
    using assms(5) by (auto simp: accumulated_def add_counters_def difference_def)
qed

lemma delta_counters:
  assumes "delta_vllm_spec_decode_metrics before after = Inr d"
  obtains b a where "strict_cumulative_snapshot before = Inr b" "strict_cumulative_snapshot after = Inr a"
    "draft_tokens b \<le> draft_tokens a"
  using assms by (auto simp: delta_vllm_spec_decode_metrics_def andThen_eq_Inr not_less)

lemma request_chain_tokens:
  assumes "request_chain start steps" and "strict_cumulative_snapshot start = Inr b"
    and "strict_cumulative_snapshot (last (start # map snd steps)) = Inr a"
  shows "draft_tokens b \<le> draft_tokens a"
  using assms
proof (induction start steps arbitrary: b rule: request_chain.induct)
  case (2 start delta after rest)
  then obtain m where "strict_cumulative_snapshot after = Inr m" "draft_tokens b \<le> draft_tokens m"
    by (auto elim!: delta_counters)
  with 2 show ?case by (fastforce split: if_splits)
qed simp

lemma strict_self_ok: "strict_cumulative_snapshot v = Inr c \<Longrightarrow> self_ok c"
  by (simp add: self_ok_def strict_snapshot_ok)

lemma window_sum:
  assumes "request_chain start steps" and "strict_cumulative_snapshot start = Inr b"
    and "strict_cumulative_snapshot (last (start # map snd steps)) = Inr a"
    and "draft_tokens a \<le> exact_bound"
    and "self_ok origin" and "advances origin b" and "accumulated n origin b s"
  shows "\<exists>s'. fold_res (\<lambda>s delta. andThen (strict_request_delta delta) (\<lambda>c. Inr (add_counters s c)))
      s (map fst steps) = Inr s' \<and> advances origin a \<and>
    accumulated (if steps = [] then n else length (positions a)) origin a s'"
  using assms
proof (induction start steps arbitrary: b s n rule: request_chain.induct)
  case (2 start delta after rest)
  from "2.prems"(1) have d: "delta_vllm_spec_decode_metrics start after = Inr delta"
      and chain: "request_chain after rest" by simp_all
  from d obtain m where m: "strict_cumulative_snapshot after = Inr m" by (auto elim: delta_counters)
  have last: "strict_cumulative_snapshot (last (after # map snd rest)) = Inr a"
    using "2.prems"(3) by (simp split: if_splits)
  have "draft_tokens m \<le> exact_bound"
    using request_chain_tokens [OF chain m last] "2.prems"(4) by linarith
  with delta_iff [OF "2.prems"(2) m] d have adv: "advances b m"
      and delta: "delta = counters_dict REQUEST_DELTA_SCOPE (difference b m)"
      and small: "draft_tokens m \<le> exact_bound" by auto
  note oks = strict_self_ok [OF "2.prems"(2)] strict_self_ok [OF m]
  have "0 \<le> draft_tokens b" using oks(1) by (auto simp: self_ok_def counters_ok_def)
  with adv small have "strict_request_delta delta
      = Inr ((difference b m)\<lparr>positions := sort_key fst (positions (difference b m))\<rparr>)"
    unfolding delta advances_def
    by (intro read_back [of "length (positions m)"]) (simp_all add: difference_def)
  then have read: "strict_request_delta delta = Inr (difference b m)"
    by (simp add: difference_def)
  have acc: "accumulated (length (positions m)) origin m (add_counters s (difference b m))"
    using accumulated_step [OF "2.prems"(5) oks adv "2.prems"(7)] .
  have "m = a" if "rest = []" using that m last by simp
  then have "(if rest = [] then length (positions m) else length (positions a)) = length (positions a)"
    by simp
  with read "2.IH" [OF chain m last "2.prems"(4,5)
      advances_trans [OF "2.prems"(5) oks "2.prems"(6) adv] acc]
  show ?case by simp
qed simp

text \<open>The dict of a counter record depends on its positions only in sorted order.\<close>

lemma accumulated_dict:
  assumes "self_ok b" and "self_ok a" and "advances b a"
    and "accumulated (length (positions a)) b a s"
  shows "counters_dict scope s = counters_dict scope (difference b a)"
    and "counters_ok (length (positions a)) s" and "draft_tokens s \<le> draft_tokens a"
proof -
  let ?n = "length (positions a)"
  have len: "length (positions b) \<le> ?n" using assms(3) by (simp add: advances_def)
  note same = difference_at [OF assms(1,2) len]
  have "cnt s = (\<lambda>p. cnt a p - cnt b p)" using assms(4) by (simp add: accumulated_def fun_eq_iff)
  then have "sort_key fst (positions s) = posns ?n (\<lambda>p. cnt a p - cnt b p)"
    using assms(4) sort_contiguous [of ?n "positions s"] by (simp add: accumulated_def)
  then have sorted: "sort_key fst (positions s) = sort_key fst (positions (difference b a))"
    by (simp add: difference_def)
  with assms(4) show "counters_dict scope s = counters_dict scope (difference b a)"
    by (simp add: counters_dict_def accumulated_def difference_def)
  have "counters_ok ?n (difference b a)" using assms(3) by (simp add: advances_def)
  then show "counters_ok ?n s"
    using assms(4) same by (simp add: counters_ok_def accumulated_def) (simp add: difference_def)
  have "0 \<le> draft_tokens b" using assms(1) by (auto simp: self_ok_def counters_ok_def)
  then show "draft_tokens s \<le> draft_tokens a" using assms(4) by (simp add: accumulated_def)
qed

lemma scope_of_dict:
  "AList.update ''scope'' (PStr t) (counters_dict scope c) = counters_dict t c"
  by (simp add: counters_dict_def)

lemma window_total:
  assumes "request_chain start steps" and "steps \<noteq> []"
    and "strict_cumulative_snapshot (snd (last steps)) = Inr a" and "draft_tokens a \<le> exact_bound"
  shows "\<exists>d. delta_vllm_spec_decode_metrics start (snd (last steps)) = Inr d \<and>
    aggregate_vllm_spec_decode_metric_deltas (map fst steps)
      = Inr (AList.update ''scope'' (PStr CASE_AGGREGATE_SCOPE) d
          @ [(''request_count'', PInt (int (length steps)))])"
proof -
  from assms(1,2) obtain d m where "delta_vllm_spec_decode_metrics start m = Inr d"
    by (cases steps) auto
  then obtain b where b: "strict_cumulative_snapshot start = Inr b" by (rule delta_counters)
  have last: "strict_cumulative_snapshot (last (start # map snd steps)) = Inr a"
    using assms(2,3) by (simp add: last_map)
  note oks = strict_self_ok [OF b] strict_self_ok [OF assms(3)]
  let ?zero = "\<lparr>drafts = 0, draft_tokens = 0, accepted_tokens = 0, positions = []\<rparr>"
  have "accumulated 0 b b ?zero"
    by (simp add: accumulated_def contiguous_def count_at_def)
  from window_sum [OF assms(1) b last assms(4) oks(1) advances_refl [OF oks(1)] this] assms(2)
  obtain s where loop: "fold_res (\<lambda>s delta. andThen (strict_request_delta delta)
        (\<lambda>c. Inr (add_counters s c))) ?zero (map fst steps) = Inr s"
      and adv: "advances b a" and acc: "accumulated (length (positions a)) b a s"
    by auto
  note dict = accumulated_dict [OF oks adv acc]
  have "counters_snapshot CASE_AGGREGATE_SCOPE s = Inr (counters_dict CASE_AGGREGATE_SCOPE (difference b a))"
    using counters_snapshot_dict [OF dict(2)] dict(1,3) assms(4) by simp
  then have "aggregate_vllm_spec_decode_metric_deltas (map fst steps)
      = Inr (counters_dict CASE_AGGREGATE_SCOPE (difference b a)
          @ [(''request_count'', PInt (int (length steps)))])"
    using assms(2) by (simp add: aggregate_vllm_spec_decode_metric_deltas_def loop)
  then show ?thesis
    using delta_iff [OF b assms(3,4)] adv by (auto simp: scope_of_dict)
qed

section \<open>Properties\<close>

text \<open>
  C31. The requests of a window add up: when every request between two snapshots of one lifetime
  has an admitted delta, the aggregate of those deltas is the delta of the two outer snapshots,
  with the scope of a case and the number of requests (counters below \<open>2 ^ 53\<close>).
\<close>

theorem request_deltas_add_up:
  assumes "request_chain start steps" and "steps \<noteq> []"
    and "strict_cumulative_snapshot (snd (last steps)) = Inr a" and "draft_tokens a \<le> exact_bound"
  shows "\<exists>d. delta_vllm_spec_decode_metrics start (snd (last steps)) = Inr d \<and>
    aggregate_vllm_spec_decode_metric_deltas (map fst steps)
      = Inr (AList.update ''scope'' (PStr CASE_AGGREGATE_SCOPE) d
          @ [(''request_count'', PInt (int (length steps)))])"
  using assms by (rule window_total)

text \<open>The witness: a lifetime with one draft per request, two proposed and one accepted token.\<close>

definition sample_counters :: "int \<Rightarrow> spec_counters" where
  "sample_counters k = \<lparr>drafts = k, draft_tokens = 2 * k, accepted_tokens = k, positions = [(0, k)]\<rparr>"

definition sample_snapshot :: "int \<Rightarrow> pyval" where
  "sample_snapshot k = PDict (counters_dict CUMULATIVE_SCOPE (sample_counters k))"

lemma sample_strict: "0 \<le> k \<Longrightarrow> k \<le> 100 \<Longrightarrow>
  strict_cumulative_snapshot (sample_snapshot k) = Inr (sample_counters k)"
proof -
  assume k: "0 \<le> k" "k \<le> 100"
  have ok: "counters_ok 1 (sample_counters k)"
    using k by (auto simp: counters_ok_def sample_counters_def contiguous_def count_at_def)
  have small: "draft_tokens (sample_counters k) \<le> exact_bound"
    using k by (simp add: sample_counters_def exact_bound_def)
  have "strict_request_delta (counters_dict REQUEST_DELTA_SCOPE (sample_counters k))
      = Inr ((sample_counters k)\<lparr>positions := sort_key fst (positions (sample_counters k))\<rparr>)"
    by (rule read_back [OF ok small]) (simp add: sample_counters_def ordered_counts_def)
  then have "strict_cumulative_snapshot (PDict (counters_dict CUMULATIVE_SCOPE (sample_counters k)))
      = Inr ((sample_counters k)\<lparr>positions := sort_key fst (positions (sample_counters k))\<rparr>)"
    by (auto simp: strict_request_delta_def andThen_eq_Inr scope_of_dict split: if_splits)
  then show ?thesis by (simp add: sample_snapshot_def sample_counters_def)
qed

lemma sample_delta:
  assumes "0 \<le> k" and "k < 100"
  shows "delta_vllm_spec_decode_metrics (sample_snapshot k) (sample_snapshot (k + 1))
    = Inr (counters_dict REQUEST_DELTA_SCOPE (difference (sample_counters k) (sample_counters (k + 1))))"
proof -
  have ok: "self_ok (sample_counters j)" if "0 \<le> j" "j \<le> 100" for j
    using strict_self_ok [OF sample_strict [OF that]] .
  have "self_ok (sample_counters k)" "self_ok (sample_counters (k + 1))"
    using ok assms by simp_all
  from advances_iff [OF this] assms have "advances (sample_counters k) (sample_counters (k + 1))"
    by (simp add: sample_counters_def count_at_def total_def)
  then show ?thesis
    using delta_iff [OF sample_strict sample_strict, of k "k + 1"] assms
    by (simp add: sample_counters_def exact_bound_def)
qed

definition sample_request :: "int \<Rightarrow> pydict" where
  "sample_request k = counters_dict REQUEST_DELTA_SCOPE
     (difference (sample_counters k) (sample_counters (k + 1)))"

theorem request_deltas_add_up_witness:
  "\<exists>d. delta_vllm_spec_decode_metrics (sample_snapshot 0) (sample_snapshot 2) = Inr d \<and>
     aggregate_vllm_spec_decode_metric_deltas [sample_request 0, sample_request 1]
       = Inr (AList.update ''scope'' (PStr CASE_AGGREGATE_SCOPE) d @ [(''request_count'', PInt 2)])"
proof -
  have "request_chain (sample_snapshot 0)
      [(sample_request 0, sample_snapshot 1), (sample_request 1, sample_snapshot 2)]"
    using sample_delta [of 0] sample_delta [of 1] by (simp add: sample_request_def)
  from request_deltas_add_up [OF this _, of "sample_counters 2"] sample_strict [of 2] show ?thesis
    by (simp add: sample_counters_def exact_bound_def)
qed

end
