(* ===== verification/Llama_Counters.thy ===== *)
theory Llama_Counters
  imports Speculation_Counters
begin

text \<open>
  \<open>bench/llamacpp_metrics.py\<close>: the same counters for llama.cpp, the options that request a
  draft method, and the evidence that every measured server lifetime really drafted tokens. A
  message of \<open>RuntimeError\<close> that ends up in the evidence is kept as a string. \<open>str_of\<close> is
  Python's \<open>str\<close> of a JSON value. The evidence leaves out the fields that repeat an argument.
\<close>

section \<open>Counters\<close>

definition LLAMA_NUM_DRAFTS :: string where
  "LLAMA_NUM_DRAFTS = ''llamacpp:spec_decode_num_drafts_total''"
definition LLAMA_NUM_DRAFT_TOKENS :: string where
  "LLAMA_NUM_DRAFT_TOKENS = ''llamacpp:spec_decode_num_draft_tokens_total''"
definition LLAMA_NUM_ACCEPTED_TOKENS :: string where
  "LLAMA_NUM_ACCEPTED_TOKENS = ''llamacpp:spec_decode_num_accepted_tokens_total''"
definition LLAMA_ACCEPTED_PER_POSITION :: string where
  "LLAMA_ACCEPTED_PER_POSITION = ''llamacpp:spec_decode_num_accepted_tokens_per_pos_total''"
definition LLAMA_CORE_COUNTERS :: "string list" where
  "LLAMA_CORE_COUNTERS = [LLAMA_NUM_DRAFTS, LLAMA_NUM_DRAFT_TOKENS, LLAMA_NUM_ACCEPTED_TOKENS]"
definition LLAMA_SOURCE :: string where
  "LLAMA_SOURCE = ''llamacpp_prometheus_cumulative_counters''"
definition LLAMA_SCOPE :: string where
  "LLAMA_SCOPE = ''single_llamacpp_server_lifetime_including_prime_warmups_and_measured_requests''"

definition llama_snapshot ::
  "pyfloat \<Rightarrow> pyfloat \<Rightarrow> pyfloat \<Rightarrow> (int \<times> pyfloat) list \<Rightarrow> pydict" where
  "llama_snapshot = spec_snapshot LLAMA_SOURCE LLAMA_SCOPE"

definition parse_llamacpp_spec_decode_metrics :: "string \<Rightarrow> pydict option res" where
  "parse_llamacpp_spec_decode_metrics =
     scan_exposition LLAMA_SOURCE LLAMA_SCOPE LLAMA_CORE_COUNTERS LLAMA_ACCEPTED_PER_POSITION"

definition aggregate_llamacpp_spec_decode_metrics :: "pydict list \<Rightarrow> pydict option res" where
  "aggregate_llamacpp_spec_decode_metrics =
     sum_lifetimes LLAMA_SOURCE LLAMA_SCOPE ''all_persisted_llamacpp_server_lifetimes''"

section \<open>Proof of activity\<close>

text \<open>The value of a counter that is a positive finite number; \<open>None\<close> for anything else.\<close>

definition positive_number :: "pyval \<Rightarrow> real option res" where
  "positive_number v = andThen (number_of v) (\<lambda>x. Inr (case x of
       Some (FFin r) \<Rightarrow> if 0 < r then Some r else None
     | _ \<Rightarrow> None))"

text \<open>The message of the \<open>RuntimeError\<close> that \<open>require_speculative_activity\<close> raises, if any.\<close>

definition activity_error :: "string \<Rightarrow> pydict option \<Rightarrow> string option res" where
  "activity_error method metrics = (case metrics of
       None \<Rightarrow> Inr (Some (''llama.cpp '' @ method @ '' metrics were unavailable''))
     | Some m \<Rightarrow>
        (let failed = Some (''llama.cpp '' @ method @ '' was requested but drafted/accepted counters ''
               @ ''were not all positive'') in
         andThen (positive_number (dict_get m ''num_draft_tokens'')) (\<lambda>a.
         case a of None \<Rightarrow> Inr failed | Some drafted \<Rightarrow>
         andThen (positive_number (dict_get m ''num_accepted_tokens'')) (\<lambda>b.
         case b of None \<Rightarrow> Inr failed | Some accepted \<Rightarrow>
         andThen (positive_number (dict_get m ''num_drafts'')) (\<lambda>c.
         case c of None \<Rightarrow> Inr failed | Some steps \<Rightarrow>
           Inr (if accepted > drafted
             then Some ''llama.cpp accepted-token counter exceeds drafted tokens'' else None))))))"

definition require_speculative_activity :: "string \<Rightarrow> pydict option \<Rightarrow> unit res" where
  "require_speculative_activity method metrics =
     andThen (activity_error method metrics) (\<lambda>e. check (e = None) RuntimeError)"

definition require_mtp_activity :: "pydict option \<Rightarrow> unit res" where
  "require_mtp_activity = require_speculative_activity ''MTP''"

section \<open>Command-line options\<close>

text \<open>The values of an option given as \<open>--o=v\<close> or \<open>--o v\<close>, in order.\<close>

fun option_values :: "string \<Rightarrow> string list \<Rightarrow> string list" where
  "option_values opt [] = []"
| "option_values opt (a # rest) =
     (if prefix (opt @ ''='') a then [drop (length opt + 1) a]
      else if a = opt \<and> rest \<noteq> [] then [hd rest] else []) @ option_values opt rest"

fun split_comma :: "string \<Rightarrow> string list" where
  "split_comma [] = [[]]"
| "split_comma (c # cs) =
     (if c = CHR '','' then [] # split_comma cs
      else (c # hd (split_comma cs)) # tl (split_comma cs))"

definition spec_type_requested :: "string list \<Rightarrow> string \<Rightarrow> bool" where
  "spec_type_requested arguments requested \<longleftrightarrow> list_ex
     (\<lambda>configured. requested \<in> set (filter (\<lambda>s. s \<noteq> []) (map py_strip (split_comma configured))))
     (option_values ''--spec-type'' arguments)"

definition llamacpp_mtp_requested :: "string list \<Rightarrow> bool" where
  "llamacpp_mtp_requested arguments = spec_type_requested arguments ''draft-mtp''"

definition llamacpp_dflash_requested :: "string list \<Rightarrow> bool" where
  "llamacpp_dflash_requested arguments = spec_type_requested arguments ''draft-dflash''"

definition llamacpp_mtp_depth :: "string list \<Rightarrow> int option" where
  "llamacpp_mtp_depth arguments = (case option_values ''--spec-draft-n-max'' arguments of
       [v] \<Rightarrow> (case parse_int v of Some d \<Rightarrow> if d > 0 then Some d else None | None \<Rightarrow> None)
     | _ \<Rightarrow> None)"

section \<open>Proposal depth\<close>

record depth_evidence =
  depth_passed :: bool
  average_width :: "pyfloat option"
  deepest_position :: "int option"
  depth_reason :: "string option"

definition depth_refused :: "pyfloat option \<Rightarrow> string \<Rightarrow> depth_evidence" where
  "depth_refused average reason = \<lparr>depth_passed = False, average_width = average,
     deepest_position = None, depth_reason = Some reason\<rparr>"

fun fle :: "pyfloat \<Rightarrow> real \<Rightarrow> bool" where
  "fle (FFin a) r = (a \<le> r)"
| "fle (FInf neg) r = neg"
| "fle FNan r = False"

fun fgt :: "pyfloat \<Rightarrow> real \<Rightarrow> bool" where
  "fgt (FFin a) r = (a > r)"
| "fgt (FInf neg) r = (\<not> neg)"
| "fgt FNan r = False"

text \<open>One accepted-token position: the deepest one with a positive count so far, or a reason.\<close>

definition depth_position ::
  "int \<Rightarrow> int option + string \<Rightarrow> string \<times> pyval \<Rightarrow> (int option + string) res" where
  "depth_position depth st item = (case st of
       Inr reason \<Rightarrow> Inr (Inr reason)
     | Inl deepest \<Rightarrow>
        (case parse_int (fst item) of
           None \<Rightarrow> Inr (Inr ''accepted-token position counter is malformed'')
         | Some p \<Rightarrow> andThen (loose_float (snd item)) (\<lambda>x. Inr (case x of
             None \<Rightarrow> Inr ''accepted-token position counter is malformed''
           | Some count \<Rightarrow>
              (if (case snd item of PBool _ \<Rightarrow> True | _ \<Rightarrow> False) \<or> p < 0 \<or> \<not> fnonneg count
               then Inr ''accepted-token position counter is invalid''
               else if p \<ge> depth
               then Inr ''accepted-token position exceeds the configured maximum draft length''
               else Inl (if fpos count \<and> (case deepest of None \<Rightarrow> True | Some q \<Rightarrow> p > q)
                         then Some p else deepest))))))"

definition counter_value :: "pydict \<Rightarrow> string \<Rightarrow> pyfloat res" where
  "counter_value m k = andThen (number_of (dict_get m k)) (\<lambda>x. case x of Some v \<Rightarrow> Inr v | None \<Rightarrow> Inl TypeError)"

definition assess_proposal_depth :: "pydict option \<Rightarrow> int \<Rightarrow> depth_evidence res" where
  "assess_proposal_depth metrics depth =
     (if depth \<le> 0 then Inr (depth_refused None ''configured MTP draft length must be positive'')
      else andThen (activity_error ''MTP'' metrics) (\<lambda>failed.
      case failed of Some reason \<Rightarrow> Inr (depth_refused None reason) | None \<Rightarrow>
      (case metrics of None \<Rightarrow> Inl RuntimeError | Some m \<Rightarrow>
      andThen (counter_value m ''num_drafts'') (\<lambda>steps.
      andThen (counter_value m ''num_draft_tokens'') (\<lambda>drafted.
      (let average = fdiv drafted steps in
      andThen (float_of_int depth) (\<lambda>_.
      if fgt average (of_int depth + 1 / 10 ^ 9)
      then Inr (depth_refused (Some average)
        ''observed average proposal width exceeds the configured maximum'')
      else if fle average (of_int depth - 1)
      then Inr (depth_refused (Some average) (''observed counters do not prove the configured maximum ''
        @ ''draft length was exercised''))
      else (case (case map_of m ''accepted_tokens_per_position'' of None \<Rightarrow> PDict [] | Some v \<Rightarrow> v) of
          PDict items \<Rightarrow>
            andThen (fold_res (depth_position depth) (Inl None) items) (\<lambda>r. Inr (case r of
              Inr reason \<Rightarrow> depth_refused (Some average) reason
            | Inl deepest \<Rightarrow> \<lparr>depth_passed = True, average_width = Some average,
                deepest_position = deepest, depth_reason = None\<rparr>))
        | _ \<Rightarrow> Inr (depth_refused (Some average) ''accepted-token position counters are not an object'')
        ))))))))"

section \<open>Evidence of a run\<close>

record mtp_evidence =
  requested :: bool
  configured_depth :: "int option"
  evidence_passed :: bool
  contributing_lifetimes :: nat
  validated_lifetimes :: nat
  depth_validated_lifetimes :: nat
  evidence_reason :: "string option"

definition event_is :: "pydict \<Rightarrow> string \<Rightarrow> bool" where
  "event_is e name \<longleftrightarrow> dict_get e ''event'' = PStr name"

definition indices :: "(pydict \<Rightarrow> bool) \<Rightarrow> pydict list \<Rightarrow> nat list" where
  "indices P records = filter (\<lambda>i. P (records ! i)) [0..<length records]"

text \<open>\<open>final_completions\<close>: the last completion of each case, in the order of the first ones.\<close>

definition final_completions :: "(pyval \<Rightarrow> string) \<Rightarrow> pydict list \<Rightarrow> (string \<times> nat) list" where
  "final_completions str_of records = fold
     (\<lambda>i m. AList.update (str_of (dict_get (records ! i) ''case_id'')) i m)
     (indices (\<lambda>e. event_is e ''case_complete'') records) []"

text \<open>The lifetimes between two starts that contain a final completion, with their last one.\<close>

fun lifetime_spans :: "nat list \<Rightarrow> nat \<Rightarrow> (nat \<times> nat) list" where
  "lifetime_spans [] n = []"
| "lifetime_spans [s] n = [(s, n)]"
| "lifetime_spans (s # t # rest) n = (s, t) # lifetime_spans (t # rest) n"

definition contributing :: "nat list \<Rightarrow> (nat \<times> nat) list \<Rightarrow> (nat \<times> nat \<times> nat list) list" where
  "contributing completions spans = filter (\<lambda>(s, e, cs). cs \<noteq> [])
     (map (\<lambda>(s, e). (s, e, filter (\<lambda>i. s < i \<and> i < e) completions)) spans)"

definition lifetime_snapshots :: "pydict list \<Rightarrow> nat \<Rightarrow> nat \<Rightarrow> pydict list" where
  "lifetime_snapshots records last_completion end =
     List.map_filter (\<lambda>i. if last_completion < i \<and> i < end
         \<and> event_is (records ! i) ''llamacpp_spec_decode_metrics_snapshot''
       then (case dict_get (records ! i) ''metrics'' of PDict m \<Rightarrow> Some m | _ \<Rightarrow> None) else None)
     [0..<length records]"

fun assess_lifetimes ::
  "pydict list \<Rightarrow> string \<Rightarrow> int option \<Rightarrow> mtp_evidence \<Rightarrow> (nat \<times> nat \<times> nat list) list
   \<Rightarrow> mtp_evidence res" where
  "assess_lifetimes records method depth ev [] = Inr ev"
| "assess_lifetimes records method depth ev ((start, end, completions) # rest) =
     (let snaps = lifetime_snapshots records (Max (set completions)) end in
      if snaps = [] then Inr (ev\<lparr>evidence_passed := False, evidence_reason := Some
        (''completed llama.cpp '' @ method @ '' lifetime has no later speculative-decoding metrics snapshot'')\<rparr>)
      else andThen (activity_error method (Some (last snaps))) (\<lambda>failed.
      case failed of
        Some reason \<Rightarrow> Inr (ev\<lparr>evidence_passed := False, evidence_reason := Some reason\<rparr>)
      | None \<Rightarrow>
        (let ev' = ev\<lparr>validated_lifetimes := validated_lifetimes ev + 1\<rparr> in
         case depth of
           None \<Rightarrow> assess_lifetimes records method depth ev' rest
         | Some d \<Rightarrow> andThen (assess_proposal_depth (Some (last snaps)) d) (\<lambda>de.
             if \<not> depth_passed de
             then Inr (ev'\<lparr>evidence_passed := False, evidence_reason := depth_reason de\<rparr>)
             else assess_lifetimes records method depth
               (ev'\<lparr>depth_validated_lifetimes := depth_validated_lifetimes ev' + 1\<rparr>) rest))))"

definition assess_mtp_evidence ::
  "(pyval \<Rightarrow> string) \<Rightarrow> pydict list \<Rightarrow> bool \<Rightarrow> int option \<Rightarrow> string \<Rightarrow> mtp_evidence res" where
  "assess_mtp_evidence str_of records req depth method =
     (let ev = \<lparr>requested = req, configured_depth = depth, evidence_passed = True,
            contributing_lifetimes = 0, validated_lifetimes = 0, depth_validated_lifetimes = 0,
            evidence_reason = None\<rparr>;
          starts = indices (\<lambda>e. event_is e ''run_start'') records;
          completions = map snd (final_completions str_of records) in
      if \<not> req \<or> completions = [] then Inr ev
      else if starts = [] \<or> Min (set completions) < hd starts
      then Inr (ev\<lparr>evidence_passed := False,
        evidence_reason := Some ''completed llama.cpp case has no owning run lifetime''\<rparr>)
      else (let cs = contributing completions (lifetime_spans starts (length records)) in
        assess_lifetimes records method depth (ev\<lparr>contributing_lifetimes := length cs\<rparr>) cs))"

definition require_mtp_evidence ::
  "(pyval \<Rightarrow> string) \<Rightarrow> string list \<Rightarrow> pydict list \<Rightarrow> mtp_evidence res" where
  "require_mtp_evidence str_of arguments records =
     andThen (assess_mtp_evidence str_of records (llamacpp_mtp_requested arguments)
       (llamacpp_mtp_depth arguments) ''MTP'') (\<lambda>ev.
     if requested ev \<and> \<not> evidence_passed ev then Inl RuntimeError else Inr ev)"

definition require_dflash_evidence ::
  "(pyval \<Rightarrow> string) \<Rightarrow> string list \<Rightarrow> pydict list \<Rightarrow> mtp_evidence res" where
  "require_dflash_evidence str_of arguments records =
     andThen (assess_mtp_evidence str_of records (llamacpp_dflash_requested arguments) None ''DFlash'')
       (\<lambda>ev. if requested ev \<and> \<not> evidence_passed ev then Inl RuntimeError else Inr ev)"

section \<open>What accepted evidence shows\<close>

text \<open>A snapshot that proves activity, and the configured depth when there is one.\<close>

definition snapshot_proves :: "string \<Rightarrow> int option \<Rightarrow> pydict \<Rightarrow> bool" where
  "snapshot_proves method depth m \<longleftrightarrow> activity_error method (Some m) = Inr None \<and>
     (\<forall>d. depth = Some d \<longrightarrow> (\<exists>de. assess_proposal_depth (Some m) d = Inr de \<and> depth_passed de))"

text \<open>One accepted lifetime, and the evidence the rest of the loop starts from.\<close>

lemma assess_lifetimes_Cons:
  assumes "assess_lifetimes records method depth ev ((s, e, cs) # rest) = Inr ev'"
    and "evidence_passed ev'"
  obtains ev2 where "lifetime_snapshots records (Max (set cs)) e \<noteq> []"
    "snapshot_proves method depth (last (lifetime_snapshots records (Max (set cs)) e))"
    "assess_lifetimes records method depth ev2 rest = Inr ev'"
proof -
  let ?snaps = "lifetime_snapshots records (Max (set cs)) e"
  from assms have ne: "?snaps \<noteq> []" by auto
  from assms ne obtain r where r: "activity_error method (Some (last ?snaps)) = Inr r"
    by (cases "activity_error method (Some (last ?snaps))") (auto simp: andThen_def)
  have "r = None"
    using assms ne r by (cases r) (auto simp: andThen_def)
  show thesis
  proof (cases depth)
    case None
    with assms ne r \<open>r = None\<close> that show thesis
      by (auto simp: andThen_def snapshot_proves_def Let_def)
  next
    case (Some d)
    from assms ne r \<open>r = None\<close> Some obtain de
      where de: "assess_proposal_depth (Some (last ?snaps)) d = Inr de"
      by (cases "assess_proposal_depth (Some (last ?snaps)) d") (auto simp: andThen_def Let_def)
    with assms ne r \<open>r = None\<close> Some have "depth_passed de"
      by (cases "depth_passed de") (auto simp: andThen_def Let_def)
    with assms ne r \<open>r = None\<close> Some de that show thesis
      by (auto simp: andThen_def snapshot_proves_def Let_def)
  qed
qed

lemma assess_lifetimes_passed:
  assumes "assess_lifetimes records method depth ev spans = Inr ev'" and "evidence_passed ev'"
    and "(s, e, cs) \<in> set spans"
  shows "lifetime_snapshots records (Max (set cs)) e \<noteq> [] \<and>
    snapshot_proves method depth (last (lifetime_snapshots records (Max (set cs)) e))"
  using assms
proof (induction spans arbitrary: ev)
  case (Cons x rest)
  obtain s' e' cs' where x: "x = (s', e', cs')" by (cases x)
  from assess_lifetimes_Cons [OF Cons.prems(1) [unfolded x] Cons.prems(2)] obtain ev2 where
    "lifetime_snapshots records (Max (set cs')) e' \<noteq> []"
    "snapshot_proves method depth (last (lifetime_snapshots records (Max (set cs')) e'))"
    "assess_lifetimes records method depth ev2 rest = Inr ev'" .
  with Cons.IH Cons.prems x show ?case by auto
qed simp

text \<open>Every completion has a final one of the same case, at or after it.\<close>

lemma fold_final:
  assumes "sorted xs" and "i \<in> set xs"
  shows "\<exists>k \<in> set xs. i \<le> k \<and> f k = f i \<and>
    map_of (fold (\<lambda>j m. AList.update (f j) j m) xs []) (f i) = Some (k :: nat)"
  using assms
proof (induction xs rule: rev_induct)
  case (snoc x xs)
  show ?case
  proof (cases "f x = f i")
    case True
    have "i \<le> x" using snoc.prems by (auto simp: sorted_append)
    with True show ?thesis by (auto simp: update_conv')
  next
    case False
    with snoc show ?thesis by (auto simp: update_conv' sorted_append)
  qed
qed simp

lemma indices_sorted: "sorted (indices P records)"
  by (simp add: indices_def sorted_filter [of id, simplified])

lemma indices_iff [simp]: "i \<in> set (indices P records) \<longleftrightarrow> i < length records \<and> P (records ! i)"
  by (auto simp: indices_def)

lemma final_completion:
  assumes "i < length records" and "event_is (records ! i) ''case_complete''"
  obtains k where "k \<in> set (map snd (final_completions str_of records))" "i \<le> k"
    "k < length records" "event_is (records ! k) ''case_complete''"
    "str_of (dict_get (records ! k) ''case_id'') = str_of (dict_get (records ! i) ''case_id'')"
proof -
  let ?f = "\<lambda>j. str_of (dict_get (records ! j) ''case_id'')"
  from fold_final [OF indices_sorted, of i "\<lambda>e. event_is e ''case_complete''" records ?f] assms
  obtain k where "k \<in> set (indices (\<lambda>e. event_is e ''case_complete'') records)" "i \<le> k" "?f k = ?f i"
      "map_of (final_completions str_of records) (?f i) = Some k"
    unfolding final_completions_def by auto
  then show thesis
    using that [of k] by (force dest: map_of_SomeD)
qed

text \<open>Whatever is not a start lies in exactly one span.\<close>

lemma lifetime_span:
  assumes "sorted starts" and "starts \<noteq> []" and "hd starts < k" and "k < n" and "k \<notin> set starts"
    and "\<forall>s \<in> set starts. s < n"
  shows "\<exists>s e. (s, e) \<in> set (lifetime_spans starts n) \<and> s < k \<and> k < e \<and> e \<le> n \<and>
    s \<in> set starts \<and> (\<forall>r \<in> set starts. s < r \<longrightarrow> e \<le> r)"
  using assms
proof (induction starts n rule: lifetime_spans.induct)
  case (3 s t rest n)
  show ?case
  proof (cases "k < t")
    case True
    with "3.prems" show ?thesis
      by (intro exI [of _ s] exI [of _ t]) (auto intro: less_imp_le)
  next
    case False
    with "3.prems" have "\<exists>u e. (u, e) \<in> set (lifetime_spans (t # rest) n) \<and> u < k \<and> k < e \<and>
        e \<le> n \<and> u \<in> set (t # rest) \<and> (\<forall>r \<in> set (t # rest). u < r \<longrightarrow> e \<le> r)"
      by (intro "3.IH") auto
    then obtain u e where u: "(u, e) \<in> set (lifetime_spans (t # rest) n)" "u < k" "k < e"
        "u \<in> set (t # rest)" "e \<le> n" "\<forall>r \<in> set (t # rest). u < r \<longrightarrow> e \<le> r" by blast
    have "s \<le> u" using u(4) "3.prems"(1) by auto
    with u show ?thesis by (intro exI [of _ u] exI [of _ e]) auto
  qed
qed auto

text \<open>A snapshot of the list comes from an event after the last completion of its span.\<close>

lemma lifetime_snapshots_mem:
  assumes "m \<in> set (lifetime_snapshots records i e)"
  obtains j where "i < j" "j < e" "j < length records"
    "event_is (records ! j) ''llamacpp_spec_decode_metrics_snapshot''"
    "dict_get (records ! j) ''metrics'' = PDict m"
  using assms unfolding lifetime_snapshots_def
  by (force simp: List.map_filter_def split: if_splits pyval.splits)

text \<open>
  A run that started \<open>n\<close>-th in the log owns the completion \<open>k\<close>, and has a later snapshot that
  proves what was asked.
\<close>

definition case_proved :: "pydict list \<Rightarrow> string \<Rightarrow> int option \<Rightarrow> nat \<Rightarrow> bool" where
  "case_proved records method depth k \<longleftrightarrow> (\<exists>j m. k < j \<and> j < length records \<and>
     event_is (records ! j) ''llamacpp_spec_decode_metrics_snapshot'' \<and>
     dict_get (records ! j) ''metrics'' = PDict m \<and> snapshot_proves method depth m \<and>
     (\<exists>s < k. event_is (records ! s) ''run_start'') \<and>
     (\<forall>r. k < r \<and> r < j \<longrightarrow> \<not> event_is (records ! r) ''run_start''))"

lemma final_completion_proved:
  assumes ok: "assess_mtp_evidence str_of records True depth method = Inr ev" "evidence_passed ev"
    and k: "k \<in> set (map snd (final_completions str_of records))" "k < length records"
      "event_is (records ! k) ''case_complete''"
  shows "case_proved records method depth k"
proof -
  let ?starts = "indices (\<lambda>e. event_is e ''run_start'') records"
  let ?cs = "map snd (final_completions str_of records)"
  let ?spans = "lifetime_spans ?starts (length records)"
  have ne: "?cs \<noteq> []" using k(1) by auto
  from ok ne have s: "?starts \<noteq> []" "\<not> Min (set ?cs) < hd ?starts"
    by (auto simp: assess_mtp_evidence_def Let_def split: if_splits)
  from ok ne s obtain ev0 where ev0:
      "assess_lifetimes records method depth ev0 (contributing ?cs ?spans) = Inr ev"
    unfolding assess_mtp_evidence_def Let_def by auto
  have not_start: "k \<notin> set ?starts" using k(3) by (auto simp: event_is_def)
  have "hd ?starts \<le> k"
    using s(2) Min_le [OF finite_set k(1)] by linarith
  with not_start s(1) have "hd ?starts < k" by (metis hd_in_set le_neq_implies_less)
  from lifetime_span [OF indices_sorted s(1) this k(2) not_start] obtain u e where
    u: "(u, e) \<in> set ?spans" "u < k" "k < e" "e \<le> length records" "u \<in> set ?starts"
       "\<forall>r \<in> set ?starts. u < r \<longrightarrow> e \<le> r" by auto
  define cs where "cs = filter (\<lambda>i. u < i \<and> i < e) ?cs"
  have mem: "k \<in> set cs" using k(1) u(2,3) by (auto simp: cs_def)
  then have "cs \<noteq> []" by auto
  then have "(u, e, cs) \<in> set (contributing ?cs ?spans)"
    using u(1) mem cs_def by (simp add: contributing_def) (force simp: cs_def)
  from assess_lifetimes_passed [OF ev0 ok(2) this]
  have snap: "lifetime_snapshots records (Max (set cs)) e \<noteq> []"
    "snapshot_proves method depth (last (lifetime_snapshots records (Max (set cs)) e))" by auto
  obtain j where j: "Max (set cs) < j" "j < e" "j < length records"
    "event_is (records ! j) ''llamacpp_spec_decode_metrics_snapshot''"
    "dict_get (records ! j) ''metrics'' = PDict (last (lifetime_snapshots records (Max (set cs)) e))"
    using lifetime_snapshots_mem [OF last_in_set [OF snap(1)]] by blast
  have "k < j" using Max_ge [OF finite_set mem] j(1) by linarith
  moreover have "event_is (records ! u) ''run_start''" using u(5) by simp
  moreover have "\<not> event_is (records ! r) ''run_start''" if r: "k < r" "r < j" for r
  proof
    assume "event_is (records ! r) ''run_start''"
    with r j(3) have "r \<in> set ?starts" by simp
    with u(2,6) r j(2) show False by fastforce
  qed
  ultimately show ?thesis
    using j(3,4,5) snap(2) u(2) unfolding case_proved_def by blast
qed

text \<open>
  C32. Accepted speculation evidence covers every completed case: when \<open>assess_mtp_evidence\<close> passes
  for a run that requested a draft method, every completion event of the log is followed (or is
  itself) the final completion of its case, that one lies inside a server lifetime, and the same
  lifetime has a later counter snapshot whose drafted, accepted and step counters are all
  positive and which, when a depth is configured, proves that depth was exercised.
\<close>

theorem mtp_evidence_covers_every_case:
  assumes "assess_mtp_evidence str_of records True depth method = Inr ev" and "evidence_passed ev"
    and "i < length records" and "event_is (records ! i) ''case_complete''"
  shows "\<exists>k \<ge> i. k < length records \<and> event_is (records ! k) ''case_complete'' \<and>
    str_of (dict_get (records ! k) ''case_id'') = str_of (dict_get (records ! i) ''case_id'') \<and>
    case_proved records method depth k"
proof -
  from assms(3,4) obtain k where k: "k \<in> set (map snd (final_completions str_of records))" "i \<le> k"
      "k < length records" "event_is (records ! k) ''case_complete''"
      "str_of (dict_get (records ! k) ''case_id'') = str_of (dict_get (records ! i) ''case_id'')"
    by (rule final_completion)
  with final_completion_proved [OF assms(1,2) k(1,3,4)] show ?thesis by blast
qed

text \<open>The witness: one lifetime, one case, and a snapshot of six accepted tokens out of eight.\<close>

definition drafted_log :: "pydict list" where
  "drafted_log = [
     [(''event'', PStr ''run_start'')],
     [(''event'', PStr ''case_complete''), (''case_id'', PStr ''a'')],
     [(''event'', PStr ''llamacpp_spec_decode_metrics_snapshot''),
      (''metrics'', PDict (llama_snapshot (FFin 4) (FFin 8) (FFin 6) [(0, FFin 4), (1, FFin 2)]))]]"

lemma drafted_snapshot:
  "llama_snapshot (FFin 4) (FFin 8) (FFin 6) [(0, FFin 4), (1, FFin 2)] = [
     (''source'', PStr LLAMA_SOURCE), (''scope'', PStr LLAMA_SCOPE),
     (''num_drafts'', PInt 4), (''num_draft_tokens'', PInt 8), (''num_accepted_tokens'', PInt 6),
     (''accepted_tokens_per_position'', PDict [(''0'', PInt 4), (''1'', PInt 2)]),
     (''draft_acceptance_rate'', PFloat (FFin (3 / 4))), (''mean_accepted_length'', PFloat (FFin (5 / 2)))]"
proof -
  have "show_nat 0 = ''0''" "show_nat 1 = ''1''" by (code_simp, code_simp)
  then show ?thesis
    by (simp add: llama_snapshot_def spec_snapshot_def float_of_real_def float_overflow_bound_def)
qed

lemma drafted_proves:
  "activity_error ''MTP'' (Some (llama_snapshot (FFin 4) (FFin 8) (FFin 6) [(0, FFin 4), (1, FFin 2)]))
     = Inr None"
  "\<exists>de. assess_proposal_depth
     (Some (llama_snapshot (FFin 4) (FFin 8) (FFin 6) [(0, FFin 4), (1, FFin 2)])) 2 = Inr de
     \<and> depth_passed de"
proof -
  let ?m = "llama_snapshot (FFin 4) (FFin 8) (FFin 6) [(0, FFin 4), (1, FFin 2)]"
  show act: "activity_error ''MTP'' (Some ?m) = Inr None"
    by (simp add: activity_error_def drafted_snapshot positive_number_def number_of_def
        float_of_int_def float_overflow_bound_def Let_def)
  have "parse_int ''0'' = Some 0" "parse_int ''1'' = Some 1" by (code_simp, code_simp)
  then have "fold_res (depth_position 2) (Inl None) [(''0'', PInt 4), (''1'', PInt 2)] = Inr (Inl (Some 1))"
    by (simp add: depth_position_def loose_float_def float_of_int_def float_overflow_bound_def)
  with act show "\<exists>de. assess_proposal_depth (Some ?m) 2 = Inr de \<and> depth_passed de"
    by (simp add: assess_proposal_depth_def drafted_snapshot counter_value_def number_of_def
        float_of_int_def float_of_real_def float_overflow_bound_def Let_def)
qed

theorem mtp_evidence_covers_every_case_witness:
  "\<exists>ev. assess_mtp_evidence (\<lambda>_. ''a'') drafted_log True (Some 2) ''MTP'' = Inr ev \<and>
     evidence_passed ev \<and>
     (\<exists>k \<ge> 1. k < 3 \<and> case_proved drafted_log ''MTP'' (Some 2) k)"
proof -
  have "\<exists>ev. assess_mtp_evidence (\<lambda>_. ''a'') drafted_log True (Some 2) ''MTP'' = Inr ev \<and>
      evidence_passed ev"
  proof -
    let ?str = "\<lambda>_ :: pyval. ''a''"
    have up: "[0..<3] = [0, 1, 2 :: nat]" by (simp add: upt_rec)
    have parts: "indices (\<lambda>e. event_is e ''run_start'') drafted_log = [0]"
      "final_completions ?str drafted_log = [(''a'', 1)]" "length drafted_log = 3"
      "lifetime_snapshots drafted_log 1 3
         = [llama_snapshot (FFin 4) (FFin 8) (FFin 6) [(0, FFin 4), (1, FFin 2)]]"
      by (simp_all add: indices_def final_completions_def lifetime_snapshots_def event_is_def
          drafted_log_def up List.map_filter_def)
    then show ?thesis
      using drafted_proves by (auto simp: assess_mtp_evidence_def contributing_def Let_def)
  qed
  moreover have "1 < length drafted_log" "event_is (drafted_log ! 1) ''case_complete''"
    "length drafted_log = 3"
    by (simp_all add: drafted_log_def event_is_def)
  ultimately show ?thesis
    using mtp_evidence_covers_every_case [of "\<lambda>_. ''a''" drafted_log "Some 2" "''MTP''" _ 1] by metis
qed

end
