(* ===== verification/Worker_Identity.thy ===== *)
theory Worker_Identity
  imports Journal_Log Mapping_Codec
begin

text \<open>
  The durable identity of a worker process in \<open>bench/autoresearch_worker.py\<close>: the text of
  \<open>/proc/<pid>/stat\<close> it is read from and the \<open>worker.json\<close> it is kept in. A
  \<open>WorkerLifecycleError\<close> is a value with its code and the identity and the cleanup result
  attached to it; any other exception is \<open>Escaped\<close>. \<open>json.loads\<close> and \<open>json.dumps\<close> are the
  parameters \<open>load\<close> and \<open>dump\<close>; \<open>load\<close> is \<open>None\<close> for bytes that are not JSON. The state file
  does not change while it is read.
\<close>

section \<open>Errors\<close>

datatype worker_code =
    Proc_stat_malformed | Proc_stat_unreadable | Run_nonce_invalid | Run_nonce_mismatch
  | Worker_state_malformed | Worker_state_unreadable | Worker_state_unsafe | Worker_state_exists
  | Worker_state_write_failed | Worker_state_changed | Worker_state_remove_failed
  | Owned_process_missing | Identity_mismatch | Ownership_ambiguous
  | Process_group_probe_failed | Process_group_survived | Process_group_signal_failed
  | Cleanup_timeout_invalid | Reap_failed | Reap_timeout | Process_lookup_race
  | Identity_capture_failed | Identity_capture_cleanup_failed | Termination_timeout
  | Worker_progress_regressed | Worker_progress_malformed | Worker_progress_changed
  | Worker_progress_deadline_invalid | Worker_argv_invalid | Worker_timeout_invalid
  | Popen_options_invalid | Worker_launch_failed | Interrupt_cleanup_escalated

record worker_identity =
  pid :: int
  pgid :: int
  start_ticks :: int
  run_nonce :: string

datatype cleanup_outcome = Completed | No_state | Already_exited | Interrupted | Killed

record cleanup_result =
  cleanup_outcome :: cleanup_outcome
  cleanup_identity :: "worker_identity option"
  return_code :: "int option"
  sigint_sent :: bool
  sigkill_sent :: bool
  process_lookup_race :: bool
  state_removed :: bool

datatype worker_error =
    Lifecycle worker_code "worker_identity option" "cleanup_result option"
  | Escaped exn

abbreviation plain :: "worker_code \<Rightarrow> worker_error" where
  "plain c \<equiv> Lifecycle c None None"

abbreviation owned_error :: "worker_code \<Rightarrow> worker_identity \<Rightarrow> worker_error" where
  "owned_error c i \<equiv> Lifecycle c (Some i) None"

type_synonym 'a wres = "worker_error + 'a"

section \<open>Process status\<close>

record process_snapshot =
  snap_pid :: int
  snap_pgid :: int
  snap_ticks :: int

text \<open>\<open>raw.find(c)\<close> and \<open>raw.rfind(c)\<close>; \<open>-1\<close> is \<open>None\<close>.\<close>

definition find_char :: "char \<Rightarrow> string \<Rightarrow> nat option" where
  "find_char c s = (if c \<in> set s then Some (length (takeWhile (\<lambda>x. x \<noteq> c) s)) else None)"

definition rfind_char :: "char \<Rightarrow> string \<Rightarrow> nat option" where
  "rfind_char c s = map_option (\<lambda>i. length s - 1 - i) (find_char c (rev s))"

definition status_fields :: "int \<Rightarrow> string list \<Rightarrow> process_snapshot wres" where
  "status_fields p fs =
     (if length fs \<le> 19 \<or> length (fs ! 0) \<noteq> 1 then Inl (plain Proc_stat_malformed)
      else case (parse_int (fs ! 2), parse_int (fs ! 19)) of
        (Some g, Some t) \<Rightarrow>
          (if p \<le> 0 \<or> g \<le> 0 \<or> t \<le> 0 then Inl (plain Proc_stat_malformed)
           else Inr \<lparr>snap_pid = p, snap_pgid = g, snap_ticks = t\<rparr>)
      | _ \<Rightarrow> Inl (plain Proc_stat_malformed))"

definition parse_proc_stat :: "string \<Rightarrow> process_snapshot wres" where
  "parse_proc_stat raw = (case (find_char CHR ''('' raw, rfind_char CHR '')'' raw) of
       (Some a, Some b) \<Rightarrow>
         (if a = 0 \<or> b \<le> a then Inl (plain Proc_stat_malformed)
          else case parse_int (py_strip (take a raw)) of
            None \<Rightarrow> Inl (plain Proc_stat_malformed)
          | Some p \<Rightarrow> status_fields p (py_split (drop (b + 1) raw)))
     | _ \<Rightarrow> Inl (plain Proc_stat_malformed))"

section \<open>The state file\<close>

definition WORKER_STATE_SCHEMA_VERSION :: int where
  "WORKER_STATE_SCHEMA_VERSION = 1"

definition MAX_WORKER_STATE_BYTES :: nat where
  "MAX_WORKER_STATE_BYTES = 4096"

definition WORKER_STATE_KEYS :: "string set" where
  "WORKER_STATE_KEYS = {''schema_version'', ''pid'', ''pgid'', ''start_ticks'', ''run_nonce''}"

definition nonce_text :: "string \<Rightarrow> bool" where
  "nonce_text s \<longleftrightarrow> length s = 32 \<and> list_all
     (\<lambda>c. (CHR ''0'' \<le> c \<and> c \<le> CHR ''9'') \<or> (CHR ''a'' \<le> c \<and> c \<le> CHR ''f'')) s"

definition validate_run_nonce :: "pyval \<Rightarrow> string wres" where
  "validate_run_nonce v = (case v of
       PStr s \<Rightarrow> if nonce_text s then Inr s else Inl (plain Run_nonce_invalid)
     | _ \<Rightarrow> Inl (plain Run_nonce_invalid))"

definition validate_positive_integer :: "pyval \<Rightarrow> int wres" where
  "validate_positive_integer v = (case v of
       PInt n \<Rightarrow> if n \<le> 0 then Inl (plain Worker_state_malformed) else Inr n
     | _ \<Rightarrow> Inl (plain Worker_state_malformed))"

definition identity_to_mapping :: "worker_identity \<Rightarrow> pyval" where
  "identity_to_mapping i = PDict [
     (''schema_version'', PInt WORKER_STATE_SCHEMA_VERSION),
     (''pid'', PInt (pid i)), (''pgid'', PInt (pgid i)),
     (''start_ticks'', PInt (start_ticks i)), (''run_nonce'', PStr (run_nonce i))]"

text \<open>What \<open>load_worker_identity\<close> does with the parsed value.\<close>

definition identity_from_mapping :: "string \<Rightarrow> pyval \<Rightarrow> worker_identity wres" where
  "identity_from_mapping expected v = (case v of
       PDict d \<Rightarrow>
         (if dict_keys d \<noteq> WORKER_STATE_KEYS then Inl (plain Worker_state_malformed)
          else if \<not> eq_int (dict_get d ''schema_version'') WORKER_STATE_SCHEMA_VERSION
          then Inl (plain Worker_state_malformed) else
          andThen (validate_run_nonce (dict_get d ''run_nonce'')) (\<lambda>nonce.
          if nonce \<noteq> expected then Inl (plain Run_nonce_mismatch) else
          andThen (validate_positive_integer (dict_get d ''pid'')) (\<lambda>p.
          andThen (validate_positive_integer (dict_get d ''pgid'')) (\<lambda>g.
          andThen (validate_positive_integer (dict_get d ''start_ticks'')) (\<lambda>t.
          if p \<noteq> g then Inl (plain Worker_state_malformed)
          else Inr \<lparr>pid = p, pgid = g, start_ticks = t, run_nonce = nonce\<rparr>)))))
     | _ \<Rightarrow> Inl (plain Worker_state_malformed))"

text \<open>\<open>0o600\<close>\<close>

definition state_mode :: nat where
  "state_mode = 384"

text \<open>What \<open>load_worker_identity\<close> does with an opened file.\<close>

definition read_identity ::
  "(string \<Rightarrow> pyval option) \<Rightarrow> string \<Rightarrow> journal_file \<Rightarrow> worker_identity wres" where
  "read_identity load expected f =
     (if \<not> is_regular f \<or> link_count f \<noteq> 1 then Inl (plain Worker_state_unsafe)
      else if \<not> owned f \<or> file_mode f \<noteq> state_mode then Inl (plain Worker_state_unsafe)
      else if content f = [] \<or> length (content f) > MAX_WORKER_STATE_BYTES
      then Inl (plain Worker_state_malformed)
      else case load (content f) of
        None \<Rightarrow> Inl (plain Worker_state_malformed)
      | Some v \<Rightarrow> identity_from_mapping expected v)"

text \<open>The payload that \<open>_persist_worker_identity\<close> writes.\<close>

definition identity_payload :: "(pyval \<Rightarrow> string) \<Rightarrow> worker_identity \<Rightarrow> string" where
  "identity_payload dump i = dump (identity_to_mapping i) @ [LF]"

section \<open>Reading what the kernel writes\<close>

lemma find_char_first:
  assumes "c \<notin> set a"
  shows "find_char c (a @ c # b) = Some (length a)"
proof -
  have "takeWhile (\<lambda>x. x \<noteq> c) (a @ c # b) = a" using assms by (simp add: takeWhile_append)
  then show ?thesis by (simp add: find_char_def)
qed

lemma rfind_char_last:
  assumes "c \<notin> set b"
  shows "rfind_char c (a @ c # b) = Some (length a)"
  using find_char_first [of c "rev b" "rev a"] assms by (simp add: rfind_char_def)

definition word :: "string \<Rightarrow> bool" where
  "word w \<longleftrightarrow> w \<noteq> [] \<and> list_all (\<lambda>c. \<not> is_space c) w"

lemma space_LF [simp]: "is_space LF" "is_space CHR '' ''"
  by (simp_all add: is_space_def)

lemma py_split_words:
  assumes "list_all word ws"
  shows "py_split (concat (map (\<lambda>w. CHR '' '' # w) ws) @ [LF]) = ws"
  using assms
proof (induction ws)
  case Nil
  show ?case by (simp add: py_split_def)
next
  case (Cons w ws)
  let ?rest = "concat (map (\<lambda>w. CHR '' '' # w) ws) @ [LF]"
  obtain c cs where c: "?rest = c # cs" "is_space c"
    by (cases ws) auto
  from Cons.prems have w: "w \<noteq> []" "list_all (\<lambda>c. \<not> is_space c) w" by (auto simp: word_def)
  have "py_split (concat (map (\<lambda>w. CHR '' '' # w) (w # ws)) @ [LF]) = py_split (w @ c # cs)"
    using c(1) by (simp add: py_split_space)
  also have "\<dots> = w # py_split cs" by (rule py_split_word(2) [OF w c(2)])
  also have "py_split cs = py_split ?rest" using c by (simp add: py_split_space)
  finally show ?case using Cons by simp
qed

text \<open>\<open>pid (comm) state ppid pgrp \<dots>\<close> and a newline.\<close>

definition stat_text :: "nat \<Rightarrow> string \<Rightarrow> string list \<Rightarrow> string" where
  "stat_text p comm fs =
     show_nat p @ '' ('' @ comm @ '')'' @ concat (map (\<lambda>w. CHR '' '' # w) fs) @ [LF]"

lemma parse_int_padded:
  assumes "n < 10 ^ max_str_digits"
  shows "parse_int (py_strip (show_nat n @ '' '')) = Some (int n)"
proof -
  have plain: "\<not> is_space (hd (show_nat n))" "\<not> is_space (last (show_nat n))"
    using show_nat_digits [of n] by (auto simp: list_all_iff)
  have "dropWhile is_space (show_nat n @ '' '') = show_nat n @ '' ''"
    using plain(1) by (cases "show_nat n") auto
  then have "py_strip (show_nat n @ '' '') = py_strip (show_nat n)"
    using plain(1) by (cases "show_nat n") (auto simp: py_strip_def)
  also have "\<dots> = show_nat n" using plain by (intro py_strip_plain) auto
  finally show ?thesis using parse_int_show [OF assms] by simp
qed

lemma drop_after: "drop (length xs + 1) (xs @ y # ys) = ys"
  by simp

lemma digits_no_paren: "CHR ''('' \<notin> set (show_nat n)"
proof -
  have "\<not> is_digit CHR ''(''" by code_simp
  with show_nat_digits [of n] show ?thesis by (auto simp: list_all_iff)
qed

lemma parse_stat_text:
  assumes "list_all word fs" and "\<forall>w \<in> set fs. CHR '')'' \<notin> set w"
    and "20 \<le> length fs" and "length (fs ! 0) = 1"
    and "fs ! 2 = show_nat g" and "fs ! 19 = show_nat t"
    and "0 < p" and "0 < g" and "0 < t"
    and "p < 10 ^ max_str_digits" and "g < 10 ^ max_str_digits" and "t < 10 ^ max_str_digits"
  shows "parse_proc_stat (stat_text p comm fs)
    = Inr \<lparr>snap_pid = int p, snap_pgid = int g, snap_ticks = int t\<rparr>"
proof -
  let ?pre = "show_nat p @ '' ''"
  let ?tail = "concat (map (\<lambda>w. CHR '' '' # w) fs) @ [LF]"
  have raw: "stat_text p comm fs = ?pre @ CHR ''('' # (comm @ CHR '')'' # ?tail)"
    and raw': "stat_text p comm fs = (?pre @ CHR ''('' # comm) @ CHR '')'' # ?tail"
    by (simp_all add: stat_text_def)
  have "CHR '')'' \<notin> set ?tail" using assms(2) by (auto simp: LF_def)
  then have b: "rfind_char CHR '')'' (stat_text p comm fs) = Some (length (?pre @ CHR ''('' # comm))"
    unfolding raw' by (rule rfind_char_last)
  have a: "find_char CHR ''('' (stat_text p comm fs) = Some (length ?pre)"
    unfolding raw using digits_no_paren by (intro find_char_first) auto
  have "drop (length (?pre @ CHR ''('' # comm) + 1) (stat_text p comm fs) = ?tail"
    unfolding raw' by (rule drop_after)
  moreover have "take (length ?pre) (stat_text p comm fs) = ?pre" unfolding raw by simp
  ultimately show ?thesis
    using assms a b by (simp add: parse_proc_stat_def parse_int_padded py_split_words
        status_fields_def parse_int_show)
qed

text \<open>
  \<open>parse_proc_stat\<close> is robust against the command name: from the line the kernel writes for
  a process it reads exactly the PID, the process group and the start time, whatever characters
  the command name holds, parentheses, spaces and forged fields included.
\<close>

theorem proc_stat_ignores_command_name:
  assumes "list_all word fs" and "\<forall>w \<in> set fs. CHR '')'' \<notin> set w"
    and "20 \<le> length fs" and "length (fs ! 0) = 1"
    and "fs ! 2 = show_nat g" and "fs ! 19 = show_nat t"
    and "0 < p" and "0 < g" and "0 < t"
    and "p < 10 ^ max_str_digits" and "g < 10 ^ max_str_digits" and "t < 10 ^ max_str_digits"
  shows "parse_proc_stat (stat_text p comm fs)
    = Inr \<lparr>snap_pid = int p, snap_pgid = int g, snap_ticks = int t\<rparr>"
  using assms by (rule parse_stat_text)

definition forged_fields :: "string list" where
  "forged_fields = ''S'' # replicate 18 ''7'' @ [''9'']"

lemma small_digits: "(n :: nat) < 10 \<Longrightarrow> n < 10 ^ max_str_digits"
proof -
  have "1 \<le> max_str_digits" by (simp add: max_str_digits_def)
  then have "(10 :: nat) ^ 1 \<le> 10 ^ max_str_digits" by (rule power_increasing) simp
  then show "n < 10 \<Longrightarrow> ?thesis" by simp
qed

theorem proc_stat_ignores_command_name_witness:
  "parse_proc_stat (stat_text 5 '') R 1 6 (x) S'' forged_fields)
     = Inr \<lparr>snap_pid = 5, snap_pgid = 7, snap_ticks = 9\<rparr>"
proof -
  have shown: "show_nat 7 = ''7''" "show_nat 9 = ''9''" by (code_simp, code_simp)
  have nth: "forged_fields ! 2 = ''7''" "forged_fields ! 19 = ''9''"
    by (simp_all add: forged_fields_def nth_append)
  have "list_all word forged_fields" "\<forall>w \<in> set forged_fields. CHR '')'' \<notin> set w"
    by (auto simp: forged_fields_def word_def is_space_def LF_def CR_def list_all_iff)
  then show ?thesis
    using proc_stat_ignores_command_name [of forged_fields 7 9 5 "'') R 1 6 (x) S''"] shown nth
    by (simp add: small_digits forged_fields_def)
qed

section \<open>The state file is read back\<close>

definition identity_wf :: "worker_identity \<Rightarrow> bool" where
  "identity_wf i \<longleftrightarrow> 0 < pid i \<and> pid i = pgid i \<and> 0 < start_ticks i \<and> nonce_text (run_nonce i)"

lemma identity_roundtrip:
  "identity_wf i \<Longrightarrow> identity_from_mapping (run_nonce i) (identity_to_mapping i) = Inr i"
  by (auto simp: identity_from_mapping_def identity_to_mapping_def identity_wf_def
      WORKER_STATE_KEYS_def WORKER_STATE_SCHEMA_VERSION_def validate_run_nonce_def
      validate_positive_integer_def)

lemma identity_from_mapping_wf:
  "identity_from_mapping nonce v = Inr i \<Longrightarrow> identity_wf i \<and> run_nonce i = nonce"
  by (auto simp: identity_from_mapping_def identity_wf_def andThen_eq_Inr
      validate_run_nonce_def validate_positive_integer_def split: pyval.splits if_splits)

lemma read_identity_wf:
  "read_identity load nonce f = Inr i \<Longrightarrow> identity_wf i \<and> run_nonce i = nonce"
  by (auto simp: read_identity_def split: option.splits if_splits dest: identity_from_mapping_wf)

end
