(* ===== verification/Worker_System.thy ===== *)
theory Worker_System
  imports Worker_Identity
begin

text \<open>
  The calls a worker controller makes and how \<open>bench/autoresearch_worker.py\<close> composes them. The
  callables that the code injects (the reader of \<open>/proc\<close>, the signalers, the clock) and the
  child process are a record of functions over an unknown environment; each call gives a reply
  and the next environment and is logged. The state file is the one thing of the file system the
  code owns; before each access another process may have changed it (\<open>meddle\<close>). An action also
  may not return (\<open>None\<close>), which only its loops do. An exception raised asynchronously between
  two calls is not modelled; one raised by a call is.
\<close>

section \<open>Calls and replies\<close>

text \<open>\<open>Not_found\<close>: \<open>FileNotFoundError\<close> or \<open>ProcessLookupError\<close>; \<open>Os_failed\<close>: another \<open>OSError\<close>.\<close>

datatype 'a reply = Answer 'a | Not_found | Os_failed | Raised exn

datatype wait_reply = Exited int | Wait_expired | Wait_raised exn

datatype unlink_reply = Unlinked | Unlink_failed | Unlink_unsynced

text \<open>\<open>Hidden\<close> cannot be examined; \<open>Blocked\<close> exists and cannot be opened, such as a symlink.\<close>

datatype state_entry = Absent | Hidden | Blocked | Stored journal_file

record worker_progress =
  progress_phase :: string
  progress_deadline :: pyval

text \<open>What a progress probe returns: \<open>None\<close>, a \<open>WorkerProgress\<close> or something else.\<close>

datatype probe_value = No_value | Progress_value worker_progress | Foreign_value

datatype os_event =
    Read_stat int "string reply"
  | Signal_group int int "unit reply"
  | Signal_process int int "unit reply"
  | Poll wait_reply
  | Wait real wait_reply
  | Clock real
  | Sleep real
  | Examine state_entry
  | Open_state state_entry
  | Create_state bool
  | Unlink_state unlink_reply
  | Spawn "int reply"
  | Probe "probe_value reply"

record 's os =
  proc_reader :: "int \<Rightarrow> 's \<Rightarrow> string reply \<times> 's"
  signal_group :: "int \<Rightarrow> int \<Rightarrow> 's \<Rightarrow> unit reply \<times> 's"
  signal_process :: "int \<Rightarrow> int \<Rightarrow> 's \<Rightarrow> unit reply \<times> 's"
  poll_child :: "'s \<Rightarrow> wait_reply \<times> 's"
  wait_child :: "real \<Rightarrow> 's \<Rightarrow> wait_reply \<times> 's"
  monotonic :: "'s \<Rightarrow> real \<times> 's"
  sleeper :: "real \<Rightarrow> 's \<Rightarrow> 's"
  meddle :: "state_entry \<Rightarrow> 's \<Rightarrow> state_entry \<times> 's"
  parent_ready :: "'s \<Rightarrow> bool \<times> 's"
  write_count :: "'s \<Rightarrow> string \<Rightarrow> nat"
  synced :: "'s \<Rightarrow> bool \<times> 's"
  unlink_call :: "'s \<Rightarrow> unlink_reply \<times> 's"
  popen :: "'s \<Rightarrow> int reply \<times> 's"
  progress_probe :: "'s \<Rightarrow> probe_value reply \<times> 's"

record 's sys =
  env :: 's
  disk :: state_entry
  active_progress :: "worker_progress option"
  trace :: "os_event list"

section \<open>Actions\<close>

type_synonym ('s, 'a) act = "'s sys \<Rightarrow> ('a wres \<times> 's sys) option"

definition wret :: "'a \<Rightarrow> ('s, 'a) act" where
  "wret x s = Some (Inr x, s)"

definition wfail :: "worker_error \<Rightarrow> ('s, 'a) act" where
  "wfail e s = Some (Inl e, s)"

definition lift :: "'a wres \<Rightarrow> ('s, 'a) act" where
  "lift r s = Some (r, s)"

definition wbind :: "('s, 'a) act \<Rightarrow> ('a \<Rightarrow> ('s, 'b) act) \<Rightarrow> ('s, 'b) act" where
  "wbind m f s = (case m s of
       None \<Rightarrow> None
     | Some (Inl e, s') \<Rightarrow> Some (Inl e, s')
     | Some (Inr x, s') \<Rightarrow> f x s')"

text \<open>\<open>try: m except: h\<close>, where the handler sees every exception.\<close>

definition wtry :: "('s, 'a) act \<Rightarrow> (worker_error \<Rightarrow> ('s, 'a) act) \<Rightarrow> ('s, 'a) act" where
  "wtry m h s = (case m s of
       None \<Rightarrow> None
     | Some (Inl e, s') \<Rightarrow> h e s'
     | Some (Inr x, s') \<Rightarrow> Some (Inr x, s'))"

text \<open>\<open>while True\<close>: the body goes on with a new loop variable or ends with a result.\<close>

partial_function (option) wloop :: "('p \<Rightarrow> ('s, 'p + 'r) act) \<Rightarrow> 'p \<Rightarrow> ('s, 'r) act" where
  "wloop body p s = (case body p s of
       None \<Rightarrow> None
     | Some (Inl e, s') \<Rightarrow> Some (Inl e, s')
     | Some (Inr (Inl q), s') \<Rightarrow> wloop body q s'
     | Some (Inr (Inr r), s') \<Rightarrow> Some (Inr r, s'))"

definition ask :: "('s \<Rightarrow> 'r \<times> 's) \<Rightarrow> ('r \<Rightarrow> os_event) \<Rightarrow> ('s, 'r) act" where
  "ask call event s = (let (r, e) = call (env s) in
     Some (Inr r, s\<lparr>env := e, trace := trace s @ [event r]\<rparr>))"

definition read_clock :: "'s os \<Rightarrow> ('s, real) act" where
  "read_clock os = ask (monotonic os) Clock"

definition sleep_for :: "'s os \<Rightarrow> real \<Rightarrow> ('s, unit) act" where
  "sleep_for os d = ask (\<lambda>e. ((), sleeper os d e)) (\<lambda>_. Sleep d)"

definition wait_for :: "'s os \<Rightarrow> real \<Rightarrow> ('s, wait_reply) act" where
  "wait_for os d = ask (wait_child os d) (Wait d)"

text \<open>Another process acts on the state file before this one looks at it.\<close>

definition look_at_state :: "'s os \<Rightarrow> (state_entry \<Rightarrow> os_event) \<Rightarrow> ('s, state_entry) act" where
  "look_at_state os event s = (let (d, e) = meddle os (disk s) (env s) in
     Some (Inr d, s\<lparr>env := e, disk := d, trace := trace s @ [event d]\<rparr>))"

section \<open>The state file\<close>

definition ensure_state_absent :: "'s os \<Rightarrow> ('s, unit) act" where
  "ensure_state_absent os = wbind (look_at_state os Examine) (\<lambda>d. case d of
       Absent \<Rightarrow> wret ()
     | Hidden \<Rightarrow> wfail (plain Worker_state_unreadable)
     | _ \<Rightarrow> wfail (plain Worker_state_exists))"

text \<open>The file that the write loop leaves, and whether every byte was written.\<close>

definition written_state ::
  "(string \<Rightarrow> nat) \<Rightarrow> (pyval \<Rightarrow> string) \<Rightarrow> worker_identity \<Rightarrow> journal_file \<times> bool" where
  "written_state os_write dump i =
     (let (body, outcome) = write_loop os_write (identity_payload dump i) [] in
      (new_file\<lparr>content := body\<rparr>, outcome = Inr ()))"

definition persist_worker_identity ::
  "'s os \<Rightarrow> (pyval \<Rightarrow> string) \<Rightarrow> worker_identity \<Rightarrow> ('s, unit) act" where
  "persist_worker_identity os dump i s =
     (let (ready, e1) = parent_ready os (env s);
          (d, e2) = meddle os (disk s) e1 in
      if \<not> ready then Some (Inl (owned_error Worker_state_write_failed i), s\<lparr>env := e1\<rparr>)
      else if d \<noteq> Absent then
        Some (Inl (owned_error (case d of Stored _ \<Rightarrow> Worker_state_exists | Blocked \<Rightarrow> Worker_state_exists
            | _ \<Rightarrow> Worker_state_write_failed) i),
          s\<lparr>env := e2, disk := d, trace := trace s @ [Create_state False]\<rparr>)
      else (let (f, complete) = written_state (write_count os e2) dump i;
                (safe, e3) = (if complete then synced os e2 else (False, e2));
                s' = s\<lparr>env := e3, disk := Stored f, trace := trace s @ [Create_state True]\<rparr> in
        if safe then Some (Inr (), s') else Some (Inl (owned_error Worker_state_write_failed i), s')))"

definition load_worker_identity ::
  "'s os \<Rightarrow> (string \<Rightarrow> pyval option) \<Rightarrow> string \<Rightarrow> ('s, worker_identity option) act" where
  "load_worker_identity os load expected =
     wbind (lift (validate_run_nonce (PStr expected))) (\<lambda>_.
     wbind (look_at_state os Open_state) (\<lambda>d. case d of
       Absent \<Rightarrow> wret None
     | Stored f \<Rightarrow> wbind (lift (read_identity load expected f)) (\<lambda>i. wret (Some i))
     | _ \<Rightarrow> wfail (plain Worker_state_unreadable)))"

text \<open>\<open>path.unlink()\<close> and the synchronisation of its directory.\<close>

definition unlink_state :: "'s os \<Rightarrow> ('s, unlink_reply) act" where
  "unlink_state os s = (let (d, e1) = meddle os (disk s) (env s); (r0, e2) = unlink_call os e1;
       r = (if d = Absent then Unlink_failed else r0) in
     Some (Inr r, s\<lparr>env := e2, disk := (if r = Unlink_failed then d else Absent),
       trace := trace s @ [Unlink_state r]\<rparr>))"

definition remove_matching_state ::
  "'s os \<Rightarrow> (string \<Rightarrow> pyval option) \<Rightarrow> worker_identity \<Rightarrow> ('s, unit) act" where
  "remove_matching_state os load i =
     wbind (load_worker_identity os load (run_nonce i)) (\<lambda>current.
     if current \<noteq> Some i then wfail (owned_error Worker_state_changed i)
     else wbind (unlink_state os) (\<lambda>r.
       if r = Unlinked then wret () else wfail (owned_error Worker_state_remove_failed i)))"

section \<open>The process\<close>

definition SIGINT :: int where "SIGINT = 2"
definition SIGKILL :: int where "SIGKILL = 9"

definition snapshot_for_pid :: "'s os \<Rightarrow> int \<Rightarrow> ('s, process_snapshot option) act" where
  "snapshot_for_pid os p = wbind (ask (proc_reader os p) (Read_stat p)) (\<lambda>r. case r of
       Not_found \<Rightarrow> wret None
     | Os_failed \<Rightarrow> wfail (plain Proc_stat_unreadable)
     | Raised x \<Rightarrow> wfail (Escaped x)
     | Answer raw \<Rightarrow> wbind (lift (parse_proc_stat raw)) (\<lambda>snap.
         if snap_pid snap \<noteq> p then wfail (plain Proc_stat_malformed) else wret (Some snap)))"

definition matches_identity :: "worker_identity \<Rightarrow> process_snapshot \<Rightarrow> bool" where
  "matches_identity i snap \<longleftrightarrow>
     snap_pid snap = pid i \<and> snap_pgid snap = pgid i \<and> snap_ticks snap = start_ticks i"

definition assert_owned_process :: "'s os \<Rightarrow> worker_identity \<Rightarrow> ('s, process_snapshot) act" where
  "assert_owned_process os i = wbind (snapshot_for_pid os (pid i)) (\<lambda>r. case r of
       None \<Rightarrow> wfail (owned_error Owned_process_missing i)
     | Some snap \<Rightarrow> if matches_identity i snap then wret snap
         else wfail (owned_error Identity_mismatch i))"

definition group_exists :: "'s os \<Rightarrow> int \<Rightarrow> ('s, bool) act" where
  "group_exists os g = wbind (ask (signal_group os g 0) (Signal_group g 0)) (\<lambda>r. case r of
       Answer _ \<Rightarrow> wret True
     | Not_found \<Rightarrow> wret False
     | Os_failed \<Rightarrow> wfail (plain Process_group_probe_failed)
     | Raised x \<Rightarrow> wfail (Escaped x))"

definition signal_exact_group :: "'s os \<Rightarrow> worker_identity \<Rightarrow> int \<Rightarrow> ('s, bool) act" where
  "signal_exact_group os i action = wbind (assert_owned_process os i) (\<lambda>_.
     wbind (ask (signal_group os (pgid i) action) (Signal_group (pgid i) action)) (\<lambda>r. case r of
       Answer _ \<Rightarrow> wret True
     | Not_found \<Rightarrow> wret False
     | Os_failed \<Rightarrow> wfail (owned_error Process_group_signal_failed i)
     | Raised x \<Rightarrow> wfail (Escaped x)))"

end
