(* ===== verification/Worker_Lifecycle.thy ===== *)
theory Worker_Lifecycle
  imports Worker_System
begin

text \<open>
  Running, cleaning up and recovering one worker, \<open>bench/autoresearch_worker.py\<close>: a worker is
  signalled only after a fresh comparison of its identity, and its state file is removed only
  after its process group was seen to be gone. Times are real seconds, so a NaN bound is not
  modelled.
\<close>

section \<open>Certified removal\<close>

definition make_result ::
  "cleanup_outcome \<Rightarrow> worker_identity option \<Rightarrow> int option \<Rightarrow> bool \<Rightarrow> bool \<Rightarrow> bool \<Rightarrow> bool \<Rightarrow> cleanup_result" where
  "make_result outcome i rc int_sent kill_sent race removed = \<lparr>cleanup_outcome = outcome,
     cleanup_identity = i, return_code = rc, sigint_sent = int_sent, sigkill_sent = kill_sent,
     process_lookup_race = race, state_removed = removed\<rparr>"

text \<open>Removal of a complete and equal record; any other state stays and blocks a launch.\<close>

definition remove_if_complete ::
  "'s os \<Rightarrow> (string \<Rightarrow> pyval option) \<Rightarrow> worker_identity \<Rightarrow> ('s, bool) act" where
  "remove_if_complete os load i =
     wbind (wtry (load_worker_identity os load (run_nonce i))
       (\<lambda>e. case e of Lifecycle _ _ _ \<Rightarrow> wret None | Escaped x \<Rightarrow> wfail (Escaped x))) (\<lambda>current.
     if current = Some i then wbind (remove_matching_state os load i) (\<lambda>_. wret True)
     else wret False)"

definition certify_absent_and_remove ::
  "'s os \<Rightarrow> (string \<Rightarrow> pyval option) \<Rightarrow> worker_identity \<Rightarrow> cleanup_outcome \<Rightarrow> int option
   \<Rightarrow> bool \<Rightarrow> bool \<Rightarrow> bool \<Rightarrow> bool \<Rightarrow> ('s, cleanup_result) act" where
  "certify_absent_and_remove os load i outcome rc int_sent kill_sent race require_state =
     wbind (group_exists os (pgid i)) (\<lambda>alive.
     if alive then wfail (Lifecycle Process_group_survived (Some i)
       (Some (make_result outcome (Some i) rc int_sent kill_sent race False)))
     else wbind (if require_state
         then wbind (remove_matching_state os load i) (\<lambda>_. wret True)
         else remove_if_complete os load i) (\<lambda>removed.
       wret (make_result outcome (Some i) rc int_sent kill_sent race removed)))"

section \<open>Termination of the current child\<close>

text \<open>After SIGKILL: wait, then certify.\<close>

definition reap_killed ::
  "'s os \<Rightarrow> (string \<Rightarrow> pyval option) \<Rightarrow> worker_identity \<Rightarrow> real \<Rightarrow> bool \<Rightarrow> ('s, cleanup_result) act" where
  "reap_killed os load i kill_grace require_state =
     wbind (signal_exact_group os i SIGKILL) (\<lambda>kill_sent.
     (let partly = Some (make_result Killed (Some i) None True kill_sent (\<not> kill_sent) False) in
     wbind (wait_for os kill_grace) (\<lambda>w. case w of
       Wait_expired \<Rightarrow> wfail (Lifecycle Reap_timeout (Some i) partly)
     | Wait_raised _ \<Rightarrow> wfail (Lifecycle Reap_failed (Some i) partly)
     | Exited rc \<Rightarrow> certify_absent_and_remove os load i Killed (Some rc) True kill_sent
         (\<not> kill_sent) require_state)))"

text \<open>After SIGINT: wait, escalate when the grace period runs out.\<close>

definition reap_interrupted ::
  "'s os \<Rightarrow> (string \<Rightarrow> pyval option) \<Rightarrow> worker_identity \<Rightarrow> real \<Rightarrow> real \<Rightarrow> bool \<Rightarrow> bool
   \<Rightarrow> ('s, cleanup_result) act" where
  "reap_interrupted os load i interrupt_grace kill_grace require_state int_sent =
     wbind (wait_for os interrupt_grace) (\<lambda>w. case w of
       Wait_raised _ \<Rightarrow> wfail (Lifecycle Reap_failed (Some i)
         (Some (make_result Interrupted (Some i) None int_sent False (\<not> int_sent) False)))
     | Exited rc \<Rightarrow> certify_absent_and_remove os load i Interrupted (Some rc) int_sent False
         (\<not> int_sent) require_state
     | Wait_expired \<Rightarrow>
         (if \<not> int_sent then wfail (Lifecycle Process_lookup_race (Some i)
            (Some (make_result Interrupted (Some i) None False False True False)))
          else reap_killed os load i kill_grace require_state))"

text \<open>The recorded process was missing when SIGINT was due.\<close>

definition reap_missing ::
  "'s os \<Rightarrow> (string \<Rightarrow> pyval option) \<Rightarrow> worker_identity \<Rightarrow> bool \<Rightarrow> worker_error \<Rightarrow> ('s, cleanup_result) act" where
  "reap_missing os load i require_state e = (case e of
       Lifecycle Owned_process_missing _ _ \<Rightarrow> wbind (wait_for os 0) (\<lambda>w. case w of
           Wait_expired \<Rightarrow> wfail e
         | Wait_raised x \<Rightarrow> wfail (Escaped x)
         | Exited rc \<Rightarrow> certify_absent_and_remove os load i Already_exited (Some rc) False False True
             require_state)
     | _ \<Rightarrow> wfail e)"

text \<open>\<open>try: sent = signal except: return h(error) else: f(sent)\<close>\<close>

definition wtry_else ::
  "('s, 'a) act \<Rightarrow> (worker_error \<Rightarrow> ('s, 'b) act) \<Rightarrow> ('a \<Rightarrow> ('s, 'b) act) \<Rightarrow> ('s, 'b) act" where
  "wtry_else m h f = wbind (wtry (wbind m (\<lambda>x. wret (Inr x))) (\<lambda>e. wret (Inl e)))
     (\<lambda>r. case r of Inl e \<Rightarrow> h e | Inr x \<Rightarrow> f x)"

definition terminate_current_process ::
  "'s os \<Rightarrow> (string \<Rightarrow> pyval option) \<Rightarrow> worker_identity \<Rightarrow> real \<Rightarrow> real \<Rightarrow> bool \<Rightarrow> ('s, cleanup_result) act" where
  "terminate_current_process os load i interrupt_grace kill_grace require_state =
     (if interrupt_grace < 0 \<or> kill_grace \<le> 0 then wfail (plain Cleanup_timeout_invalid) else
      wbind (ask (poll_child os) Poll) (\<lambda>w. case w of
        Wait_raised _ \<Rightarrow> wfail (owned_error Reap_failed i)
      | Exited rc \<Rightarrow> certify_absent_and_remove os load i Already_exited (Some rc) False False False
          require_state
      | Wait_expired \<Rightarrow> wtry_else (signal_exact_group os i SIGINT)
          (reap_missing os load i require_state)
          (reap_interrupted os load i interrupt_grace kill_grace require_state)))"

section \<open>Capture\<close>

definition capture_identity :: "'s os \<Rightarrow> int \<Rightarrow> string \<Rightarrow> ('s, worker_identity) act" where
  "capture_identity os p nonce =
     wbind (lift (validate_run_nonce (PStr nonce))) (\<lambda>_.
     wbind (snapshot_for_pid os p) (\<lambda>r. case r of
       None \<Rightarrow> wfail (plain Identity_capture_failed)
     | Some snap \<Rightarrow> if snap_pid snap \<noteq> p \<or> snap_pgid snap \<noteq> p then wfail (plain Identity_capture_failed)
         else wret \<lparr>pid = p, pgid = snap_pgid snap, start_ticks = snap_ticks snap, run_nonce = nonce\<rparr>))"

text \<open>The two signals of \<open>_cleanup_uncaptured_process\<close>; the result says whether one failed.\<close>

definition kill_uncaptured :: "'s os \<Rightarrow> int \<Rightarrow> ('s, bool) act" where
  "kill_uncaptured os p =
     wbind (ask (signal_group os p SIGKILL) (Signal_group p SIGKILL)) (\<lambda>r1. case r1 of
       Raised x \<Rightarrow> wfail (Escaped x)
     | _ \<Rightarrow> wbind (ask (signal_process os p SIGKILL) (Signal_process p SIGKILL)) (\<lambda>r2. case r2 of
         Raised x \<Rightarrow> wfail (Escaped x)
       | _ \<Rightarrow> wret (r1 = Os_failed \<or> r2 = Os_failed)))"

definition cleanup_uncaptured_process :: "'s os \<Rightarrow> int \<Rightarrow> real \<Rightarrow> ('s, unit) act" where
  "cleanup_uncaptured_process os p kill_grace = wbind (kill_uncaptured os p) (\<lambda>failed.
     wbind (wait_for os kill_grace) (\<lambda>w. case w of
       Exited _ \<Rightarrow> if failed then wfail (plain Identity_capture_cleanup_failed) else wret ()
     | _ \<Rightarrow> wfail (plain Identity_capture_cleanup_failed)))"

section \<open>Progress\<close>

definition phase_rank :: "string \<Rightarrow> nat option" where
  "phase_rank p = (if p = ''measurement'' then Some 0 else if p = ''cleanup'' then Some 1
     else if p = ''finalization'' then Some 2 else None)"

text \<open>A deadline as \<open>float(deadline)\<close>; \<open>None\<close> is not a positive finite number.\<close>

definition deadline_value :: "pyval \<Rightarrow> real option wres" where
  "deadline_value v = (case v of
       PInt n \<Rightarrow> (case float_of_int n of Inl x \<Rightarrow> Inl (Escaped x)
         | Inr _ \<Rightarrow> Inr (if n \<le> 0 then None else Some (of_int n)))
     | PFloat (FFin r) \<Rightarrow> Inr (if r \<le> 0 then None else Some r)
     | _ \<Rightarrow> Inr None)"

definition deadline_of :: "worker_progress \<Rightarrow> real" where
  "deadline_of p = (case deadline_value (progress_deadline p) of Inr (Some d) \<Rightarrow> d | _ \<Rightarrow> 0)"

text \<open>Equality of two progress records: numbers compare by value.\<close>

definition same_progress :: "worker_progress \<Rightarrow> worker_progress \<Rightarrow> bool" where
  "same_progress p q \<longleftrightarrow> progress_phase p = progress_phase q \<and> deadline_of p = deadline_of q"

definition validated_worker_progress ::
  "probe_value \<Rightarrow> worker_progress option \<Rightarrow> worker_progress option wres" where
  "validated_worker_progress v prior = (case v of
       No_value \<Rightarrow> if prior \<noteq> None then Inl (plain Worker_progress_regressed) else Inr None
     | Foreign_value \<Rightarrow> Inl (plain Worker_progress_malformed)
     | Progress_value p \<Rightarrow>
        (case phase_rank (progress_phase p) of
           None \<Rightarrow> Inl (plain Worker_progress_malformed)
         | Some rank \<Rightarrow> andThen (deadline_value (progress_deadline p)) (\<lambda>d.
             if d = None then Inl (plain Worker_progress_malformed)
             else case prior of
               None \<Rightarrow> Inr (Some p)
             | Some q \<Rightarrow>
                (if rank < the (phase_rank (progress_phase q)) then Inl (plain Worker_progress_regressed)
                 else if rank = the (phase_rank (progress_phase q)) \<and> \<not> same_progress p q
                 then Inl (plain Worker_progress_changed)
                 else Inr (Some p)))))"

definition ask_progress :: "'s os \<Rightarrow> ('s, probe_value) act" where
  "ask_progress os = wbind (ask (progress_probe os) Probe) (\<lambda>r. case r of
       Answer v \<Rightarrow> wret v
     | Not_found \<Rightarrow> wfail (Escaped OSError)
     | Os_failed \<Rightarrow> wfail (Escaped OSError)
     | Raised x \<Rightarrow> wfail (Escaped x))"

text \<open>One validated probe, shown to the observer.\<close>

definition observe_progress ::
  "'s os \<Rightarrow> worker_progress option \<Rightarrow> ('s, worker_progress option) act" where
  "observe_progress os prior = wbind (ask_progress os) (\<lambda>v.
     wbind (lift (validated_worker_progress v prior)) (\<lambda>p s.
       Some (Inr p, s\<lparr>active_progress := p\<rparr>)))"

definition same_observation :: "worker_progress option \<Rightarrow> worker_progress option \<Rightarrow> bool" where
  "same_observation a b = (case (a, b) of
       (None, None) \<Rightarrow> True | (Some p, Some q) \<Rightarrow> same_progress p q | _ \<Rightarrow> False)"

definition phase_name :: "worker_progress option \<Rightarrow> string" where
  "phase_name p = (case p of None \<Rightarrow> ''measurement'' | Some q \<Rightarrow> progress_phase q)"

text \<open>
  The body of the loop of \<open>_wait_with_progress_deadlines\<close>; it ends with the return code, or with
  the phase whose deadline passed.
\<close>

definition progress_round ::
  "'s os \<Rightarrow> (string \<Rightarrow> real option) \<Rightarrow> real \<Rightarrow> real \<Rightarrow> worker_progress option
   \<Rightarrow> ('s, worker_progress option + (int option \<times> string option)) act" where
  "progress_round os durations start_deadline poll_interval prior =
     wbind (observe_progress os prior) (\<lambda>progress.
     (let deadline = (case progress of None \<Rightarrow> start_deadline | Some p \<Rightarrow> deadline_of p) in
     wbind (read_clock os) (\<lambda>now.
     if (case progress of None \<Rightarrow> False
         | Some p \<Rightarrow> (case durations (progress_phase p) of None \<Rightarrow> True
             | Some d \<Rightarrow> d < 0 \<or> deadline > now + d + 1 / 100))
     then wfail (plain Worker_progress_deadline_invalid)
     else if now \<ge> deadline then
       wbind (observe_progress os progress) (\<lambda>refreshed.
       if \<not> same_observation refreshed progress then wret (Inl refreshed)
       else wbind (wait_for os 0) (\<lambda>w. case w of
           Exited rc \<Rightarrow> wret (Inr (Some rc, None))
         | Wait_expired \<Rightarrow> wret (Inr (None, Some (phase_name progress)))
         | Wait_raised x \<Rightarrow> wfail (Escaped x)))
     else wbind (wait_for os (min poll_interval (deadline - now))) (\<lambda>w. case w of
           Exited rc \<Rightarrow> wret (Inr (Some rc, None))
         | Wait_expired \<Rightarrow> wret (Inl progress)
         | Wait_raised x \<Rightarrow> wfail (Escaped x)))))"

definition wait_with_progress_deadlines ::
  "'s os \<Rightarrow> (string \<Rightarrow> real option) \<Rightarrow> real \<Rightarrow> real \<Rightarrow> ('s, int option \<times> string option) act" where
  "wait_with_progress_deadlines os durations start_timeout poll_interval =
     wbind (read_clock os) (\<lambda>t.
       wloop (progress_round os durations (t + start_timeout) poll_interval) None)"

section \<open>A fresh worker\<close>

record worker_run_result =
  run_return_code :: int
  timed_out :: bool
  run_cleanup :: cleanup_result
  timeout_phase :: "string option"

record worker_bounds =
  timeout_s :: real
  interrupt_grace_s :: real
  kill_grace_s :: real
  start_marker_timeout_s :: real
  progress_poll_interval_s :: real

definition valid_bounds :: "worker_bounds \<Rightarrow> bool" where
  "valid_bounds b \<longleftrightarrow> \<not> (timeout_s b \<le> 0 \<or> interrupt_grace_s b < 0 \<or> kill_grace_s b \<le> 0
     \<or> start_marker_timeout_s b \<le> 0 \<or> progress_poll_interval_s b \<le> 0)"

definition forbidden_options :: "string set" where
  "forbidden_options = {''args'', ''shell'', ''start_new_session''}"

definition phase_durations :: "worker_bounds \<Rightarrow> string \<Rightarrow> real option" where
  "phase_durations b p = (if p = ''measurement'' then Some (timeout_s b)
     else if p = ''cleanup'' then Some (interrupt_grace_s b)
     else if p = ''finalization'' then Some (kill_grace_s b) else None)"

text \<open>Launch and capture: a child whose identity cannot be read is killed at once.\<close>

definition launch_worker :: "'s os \<Rightarrow> string \<Rightarrow> real \<Rightarrow> ('s, worker_identity) act" where
  "launch_worker os nonce kill_grace =
     wbind (ask (popen os) Spawn) (\<lambda>r. case r of
       Raised KeyboardInterrupt \<Rightarrow> wfail (Escaped KeyboardInterrupt)
     | Raised SystemExit \<Rightarrow> wfail (Escaped SystemExit)
     | Answer p \<Rightarrow> wtry (capture_identity os p nonce)
         (\<lambda>e. wbind (cleanup_uncaptured_process os p kill_grace) (\<lambda>_. wfail e))
     | _ \<Rightarrow> wfail (plain Worker_launch_failed))"

text \<open>A child whose record cannot be written is cleaned up before the error is raised.\<close>

definition persist_or_clean ::
  "'s os \<Rightarrow> (string \<Rightarrow> pyval option) \<Rightarrow> (pyval \<Rightarrow> string) \<Rightarrow> worker_bounds \<Rightarrow> worker_identity \<Rightarrow> ('s, unit) act" where
  "persist_or_clean os load dump b i = wtry (persist_worker_identity os dump i)
     (\<lambda>_. wbind (terminate_current_process os load i (interrupt_grace_s b) (kill_grace_s b) False)
       (\<lambda>cleanup. wfail (Lifecycle Worker_state_write_failed (Some i) (Some cleanup))))"

definition wait_for_worker ::
  "'s os \<Rightarrow> bool \<Rightarrow> worker_bounds \<Rightarrow> ('s, int option \<times> string option) act" where
  "wait_for_worker os probed b =
     (if probed then wait_with_progress_deadlines os (phase_durations b)
        (min (start_marker_timeout_s b) (timeout_s b)) (progress_poll_interval_s b)
      else wbind (wait_for os (timeout_s b)) (\<lambda>w. case w of
          Exited rc \<Rightarrow> wret (Some rc, None)
        | Wait_expired \<Rightarrow> wret (None, Some ''measurement'')
        | Wait_raised x \<Rightarrow> wfail (Escaped x)))"

text \<open>The wait was left by an exception: the cleanup comes first, then the exception.\<close>

definition cleanup_after_error ::
  "'s os \<Rightarrow> (string \<Rightarrow> pyval option) \<Rightarrow> worker_bounds \<Rightarrow> worker_identity \<Rightarrow> worker_error
   \<Rightarrow> ('s, int option \<times> string option) act" where
  "cleanup_after_error os load b i e s =
     wbind (terminate_current_process os load i
       (case active_progress s of
          Some p \<Rightarrow> if progress_phase p \<in> {''cleanup'', ''finalization''} then 0 else interrupt_grace_s b
        | None \<Rightarrow> interrupt_grace_s b) (kill_grace_s b) True)
     (\<lambda>cleanup. if cleanup_outcome cleanup = Killed
       then wfail (Lifecycle Interrupt_cleanup_escalated (Some i) (Some cleanup)) else wfail e) s"

definition finish_worker ::
  "'s os \<Rightarrow> (string \<Rightarrow> pyval option) \<Rightarrow> worker_bounds \<Rightarrow> worker_identity \<Rightarrow> int option \<times> string option
   \<Rightarrow> ('s, worker_run_result) act" where
  "finish_worker os load b i ended = (case ended of
       (_, Some phase) \<Rightarrow>
         wbind (terminate_current_process os load i
           (if phase = ''measurement'' then interrupt_grace_s b else 0) (kill_grace_s b) True) (\<lambda>cleanup.
         case return_code cleanup of
           None \<Rightarrow> wfail (Lifecycle Reap_failed (Some i) (Some cleanup))
         | Some rc \<Rightarrow> wret \<lparr>run_return_code = rc, timed_out = True, run_cleanup = cleanup,
             timeout_phase = Some phase\<rparr>)
     | (None, None) \<Rightarrow> wfail (plain Reap_failed)
     | (Some rc, None) \<Rightarrow>
         wbind (certify_absent_and_remove os load i Completed (Some rc) False False False True) (\<lambda>cleanup.
         wret \<lparr>run_return_code = rc, timed_out = False, run_cleanup = cleanup, timeout_phase = None\<rparr>))"

definition run_owned_worker ::
  "'s os \<Rightarrow> (string \<Rightarrow> pyval option) \<Rightarrow> (pyval \<Rightarrow> string) \<Rightarrow> string list \<Rightarrow> string \<Rightarrow> worker_bounds
   \<Rightarrow> string set \<Rightarrow> bool \<Rightarrow> ('s, worker_run_result) act" where
  "run_owned_worker os load dump argv nonce b options probed =
     (if argv = [] \<or> list_ex (\<lambda>a. a = []) argv then wfail (plain Worker_argv_invalid) else
      wbind (lift (validate_run_nonce (PStr nonce))) (\<lambda>_.
      if \<not> valid_bounds b then wfail (plain Worker_timeout_invalid) else
      wbind (ensure_state_absent os) (\<lambda>_.
      if forbidden_options \<inter> options \<noteq> {} then wfail (plain Popen_options_invalid) else
      wbind (launch_worker os nonce (kill_grace_s b)) (\<lambda>i.
      wbind (persist_or_clean os load dump b i) (\<lambda>_.
      wbind (\<lambda>s. Some (Inr (), s\<lparr>active_progress := None\<rparr>)) (\<lambda>_.
      wbind (wtry (wait_for_worker os probed b) (cleanup_after_error os load b i)) (\<lambda>ended.
        finish_worker os load b i ended)))))))"

section \<open>Recovery after a restart\<close>

datatype recovery_exit = Gone | Alive

text \<open>The body of the loop of \<open>_wait_for_recovery_exit\<close>.\<close>

definition recovery_round ::
  "'s os \<Rightarrow> worker_identity \<Rightarrow> real \<Rightarrow> real \<Rightarrow> unit \<Rightarrow> ('s, unit + recovery_exit) act" where
  "recovery_round os i deadline poll_interval u =
     wbind (snapshot_for_pid os (pid i)) (\<lambda>r. case r of
       None \<Rightarrow> wbind (group_exists os (pgid i)) (\<lambda>alive.
         if alive then wfail (owned_error Ownership_ambiguous i) else wret (Inr Gone))
     | Some snap \<Rightarrow>
         (if snap_pgid snap \<noteq> pgid i \<or> snap_ticks snap \<noteq> start_ticks i
          then wfail (owned_error Identity_mismatch i)
          else wbind (read_clock os) (\<lambda>now.
            if deadline - now \<le> 0 then wret (Inr Alive)
            else wbind (sleep_for os (min poll_interval (deadline - now))) (\<lambda>_. wret (Inl ())))))"

definition wait_for_recovery_exit ::
  "'s os \<Rightarrow> worker_identity \<Rightarrow> real \<Rightarrow> real \<Rightarrow> ('s, recovery_exit) act" where
  "wait_for_recovery_exit os i timeout poll_interval =
     wbind (read_clock os) (\<lambda>t. wloop (recovery_round os i (t + timeout) poll_interval) ())"

text \<open>The state is removed and the outcome returned.\<close>

definition recovered ::
  "'s os \<Rightarrow> (string \<Rightarrow> pyval option) \<Rightarrow> worker_identity \<Rightarrow> cleanup_outcome \<Rightarrow> bool \<Rightarrow> bool \<Rightarrow> bool
   \<Rightarrow> ('s, cleanup_result) act" where
  "recovered os load i outcome int_sent kill_sent race =
     wbind (remove_matching_state os load i) (\<lambda>_.
       wret (make_result outcome (Some i) None int_sent kill_sent race True))"

definition recover_by_kill ::
  "'s os \<Rightarrow> (string \<Rightarrow> pyval option) \<Rightarrow> worker_identity \<Rightarrow> real \<Rightarrow> real \<Rightarrow> ('s, cleanup_result) act" where
  "recover_by_kill os load i kill_grace poll_interval =
     wbind (signal_exact_group os i SIGKILL) (\<lambda>kill_sent.
     wbind (wait_for_recovery_exit os i kill_grace poll_interval) (\<lambda>state.
     if state \<noteq> Gone then wfail (Lifecycle Termination_timeout (Some i)
       (Some (make_result Killed (Some i) None True kill_sent (\<not> kill_sent) False)))
     else recovered os load i Killed True kill_sent (\<not> kill_sent)))"

definition recover_live ::
  "'s os \<Rightarrow> (string \<Rightarrow> pyval option) \<Rightarrow> worker_identity \<Rightarrow> real \<Rightarrow> real \<Rightarrow> real \<Rightarrow> ('s, cleanup_result) act" where
  "recover_live os load i interrupt_grace kill_grace poll_interval =
     wbind (assert_owned_process os i) (\<lambda>_.
     wbind (signal_exact_group os i SIGINT) (\<lambda>int_sent.
     wbind (wait_for_recovery_exit os i interrupt_grace poll_interval) (\<lambda>state.
     if state = Gone then recovered os load i Interrupted int_sent False (\<not> int_sent)
     else if \<not> int_sent then wfail (Lifecycle Process_lookup_race (Some i)
       (Some (make_result Interrupted (Some i) None False False True False)))
     else recover_by_kill os load i kill_grace poll_interval)))"

definition recover_owned_worker ::
  "'s os \<Rightarrow> (string \<Rightarrow> pyval option) \<Rightarrow> string \<Rightarrow> real \<Rightarrow> real \<Rightarrow> real \<Rightarrow> ('s, cleanup_result) act" where
  "recover_owned_worker os load nonce interrupt_grace kill_grace poll_interval =
     (if interrupt_grace < 0 \<or> kill_grace \<le> 0 \<or> poll_interval \<le> 0
      then wfail (plain Cleanup_timeout_invalid) else
      wbind (load_worker_identity os load nonce) (\<lambda>r. case r of
        None \<Rightarrow> wret (make_result No_state None None False False False False)
      | Some i \<Rightarrow>
         wbind (snapshot_for_pid os (pid i)) (\<lambda>r. case r of
           None \<Rightarrow> wbind (group_exists os (pgid i)) (\<lambda>alive.
             if alive then wfail (owned_error Ownership_ambiguous i)
             else recovered os load i Already_exited False False True)
         | Some _ \<Rightarrow> recover_live os load i interrupt_grace kill_grace poll_interval)))"

end
