(* ===== verification/Worker_Safety.thy ===== *)
theory Worker_Safety
  imports Worker_Lifecycle
begin

text \<open>
  What the log of a worker's controller shows. A property of logs that holds of the single
  calls and of the two blocks \<open>compare, then signal\<close> and \<open>certify, read, unlink\<close>, and that is
  kept by concatenation, holds of every log; the two properties of interest are instances.
\<close>

section \<open>Logs of actions\<close>

definition emits :: "('a wres \<Rightarrow> os_event list \<Rightarrow> bool) \<Rightarrow> ('s, 'a) act \<Rightarrow> bool" where
  "emits T m \<longleftrightarrow> (\<forall>s r s'. m s = Some (r, s') \<longrightarrow> (\<exists>es. trace s' = trace s @ es \<and> T r es))"

lemma emitsD: "emits T m \<Longrightarrow> m s = Some (r, s') \<Longrightarrow> \<exists>es. trace s' = trace s @ es \<and> T r es"
  by (auto simp: emits_def)

lemma emits_mono: "emits T m \<Longrightarrow> (\<And>r es. T r es \<Longrightarrow> U r es) \<Longrightarrow> emits U m"
  by (fastforce simp: emits_def)

lemma emits_ret: "T (Inr x) [] \<Longrightarrow> emits T (wret x)"
  by (simp add: emits_def wret_def)

lemma emits_fail: "T (Inl e) [] \<Longrightarrow> emits T (wfail e)"
  by (simp add: emits_def wfail_def)

lemma emits_lift: "T r [] \<Longrightarrow> emits T (lift r)"
  by (simp add: emits_def lift_def)

lemma emits_ask: "(\<And>r. T (Inr r) [event r]) \<Longrightarrow> emits T (ask call event)"
  by (auto simp: emits_def ask_def split: prod.splits)

lemma emits_look: "(\<And>d. T (Inr d) [event d]) \<Longrightarrow> emits T (look_at_state os event)"
  by (auto simp: emits_def look_at_state_def split: prod.splits)

lemma emits_unlink: "(\<And>r. T (Inr r) [Unlink_state r]) \<Longrightarrow> emits T (unlink_state os)"
  by (auto simp: emits_def unlink_state_def Let_def split: prod.splits)

lemma emits_bind:
  assumes "emits T m" and "\<And>e es. T (Inl e) es \<Longrightarrow> U (Inl e) es"
    and "\<And>x es. T (Inr x) es \<Longrightarrow> emits (\<lambda>r fs. U r (es @ fs)) (f x)"
  shows "emits U (wbind m f)"
  unfolding emits_def
proof (intro allI impI)
  fix s r s'
  assume run: "wbind m f s = Some (r, s')"
  then obtain r1 s1 where m: "m s = Some (r1, s1)"
    by (auto simp: wbind_def split: option.splits)
  from emitsD [OF assms(1) m] obtain es where es: "trace s1 = trace s @ es" "T r1 es" by blast
  show "\<exists>es. trace s' = trace s @ es \<and> U r es"
  proof (cases r1)
    case (Inl e)
    with run m es assms(2) show ?thesis by (auto simp: wbind_def)
  next
    case (Inr x)
    with run m have "f x s1 = Some (r, s')" by (simp add: wbind_def)
    with assms(3) [of x es] es Inr obtain fs where "trace s' = trace s1 @ fs" "U r (es @ fs)"
      by (blast dest: emitsD)
    with es show ?thesis by auto
  qed
qed

lemma emits_try:
  assumes "emits T m" and "\<And>x es. T (Inr x) es \<Longrightarrow> U (Inr x) es"
    and "\<And>e es. T (Inl e) es \<Longrightarrow> emits (\<lambda>r fs. U r (es @ fs)) (h e)"
  shows "emits U (wtry m h)"
  unfolding emits_def
proof (intro allI impI)
  fix s r s'
  assume run: "wtry m h s = Some (r, s')"
  then obtain r1 s1 where m: "m s = Some (r1, s1)"
    by (auto simp: wtry_def split: option.splits)
  from emitsD [OF assms(1) m] obtain es where es: "trace s1 = trace s @ es" "T r1 es" by blast
  show "\<exists>es. trace s' = trace s @ es \<and> U r es"
  proof (cases r1)
    case (Inr x)
    with run m es assms(2) show ?thesis by (auto simp: wtry_def)
  next
    case (Inl e)
    with run m have "h e s1 = Some (r, s')" by (simp add: wtry_def)
    with assms(3) [of e es] es Inl obtain fs where "trace s' = trace s1 @ fs" "U r (es @ fs)"
      by (blast dest: emitsD)
    with es show ?thesis by auto
  qed
qed

text \<open>The loop rule: the body keeps \<open>I\<close> of the log so far and the loop variable.\<close>

lemma emits_loop_from:
  assumes body: "\<And>p es. I p es \<Longrightarrow> emits (\<lambda>r fs. case r of
      Inr (Inl q) \<Rightarrow> I q (es @ fs) | Inr (Inr x) \<Rightarrow> U (Inr x) (es @ fs) | Inl e \<Rightarrow> U (Inl e) (es @ fs))
      (body p)"
    and run: "wloop body p s = Some (r, s')"
  shows "I p es \<Longrightarrow> \<exists>fs. trace s' = trace s @ fs \<and> U r (es @ fs)"
proof -
  let ?P = "\<lambda>b p s y. b = body \<longrightarrow> (\<forall>es. I p es \<longrightarrow>
    (\<exists>fs. trace (snd y) = trace s @ fs \<and> U (fst y) (es @ fs)))"
  have "?P b p s y" if "wloop b p s = Some y" for b p s y
  proof (rule wloop.raw_induct [where P = ?P, OF _ that])
    fix loop b p s y
    assume IH: "\<And>b p s y. loop b p s = Some y \<Longrightarrow> ?P b p s y"
      and step: "(case b p s of None \<Rightarrow> None | Some (Inl e, s') \<Rightarrow> Some (Inl e, s')
        | Some (Inr (Inl q), s') \<Rightarrow> loop b q s' | Some (Inr (Inr r), s') \<Rightarrow> Some (Inr r, s')) = Some y"
    show "?P b p s y"
    proof (intro impI allI)
    fix es
    assume "b = body" "I p es"
    from step obtain r1 s1 where m: "body p s = Some (r1, s1)"
      by (auto simp: \<open>b = body\<close> split: option.splits)
    from emitsD [OF body [OF \<open>I p es\<close>] m] obtain fs where
      fs: "trace s1 = trace s @ fs" "case r1 of Inr (Inl q) \<Rightarrow> I q (es @ fs)
        | Inr (Inr x) \<Rightarrow> U (Inr x) (es @ fs) | Inl e \<Rightarrow> U (Inl e) (es @ fs)" by blast
    show "\<exists>fs. trace (snd y) = trace s @ fs \<and> U (fst y) (es @ fs)"
    proof (cases r1)
      case (Inl e)
      with step m fs \<open>b = body\<close> show ?thesis by auto
    next
      case (Inr x)
      show ?thesis
      proof (cases x)
        case (Inl q)
        with Inr step m have "loop b q s1 = Some y" by (simp add: \<open>b = body\<close>)
        from IH [OF this] \<open>b = body\<close> fs Inr Inl obtain gs where
          "trace (snd y) = trace s1 @ gs" "U (fst y) ((es @ fs) @ gs)" by fastforce
        with fs show ?thesis by auto
      next
        case (Inr z)
        with \<open>r1 = Inr x\<close> step m fs \<open>b = body\<close> show ?thesis by auto
      qed
    qed
    qed
  qed
  with run show "I p es \<Longrightarrow> ?thesis" by fastforce
qed

lemma emits_loop:
  assumes "\<And>p es. I p es \<Longrightarrow> emits (\<lambda>r fs. case r of
      Inr (Inl q) \<Rightarrow> I q (es @ fs) | Inr (Inr x) \<Rightarrow> U (Inr x) (es @ fs) | Inl e \<Rightarrow> U (Inl e) (es @ fs))
      (body p)"
    and "I p []"
  shows "emits U (wloop body p)"
  unfolding emits_def
proof (intro allI impI)
  fix s r s'
  assume "wloop body p s = Some (r, s')"
  from emits_loop_from [OF assms(1) this assms(2)]
  show "\<exists>es. trace s' = trace s @ es \<and> U r es" by simp
qed

text \<open>The single calls, and the calls that combine one with a decision.\<close>

fun is_open :: "os_event \<Rightarrow> bool" where
  "is_open (Open_state _) = True"
| "is_open _ = False"

lemma emits_snapshot: "emits (\<lambda>r es. \<exists>rep. es = [Read_stat p rep] \<and>
    (r = Inr None \<longrightarrow> rep = Not_found) \<and>
    (\<forall>snap. r = Inr (Some snap) \<longrightarrow> (\<exists>raw. rep = Answer raw \<and> parse_proc_stat raw = Inr snap)))
  (snapshot_for_pid os p)"
  unfolding snapshot_for_pid_def
proof (rule emits_bind)
  show "emits (\<lambda>r es. \<exists>rep. r = Inr rep \<and> es = [Read_stat p rep]) (ask (proc_reader os p) (Read_stat p))"
    by (rule emits_ask) simp
qed (auto simp: emits_def wret_def wfail_def lift_def wbind_def
    split: reply.splits sum.splits if_splits option.splits)

lemma emits_owned: "emits (\<lambda>r es. \<exists>rep. es = [Read_stat (pid i) rep] \<and>
    (\<forall>snap. r = Inr snap \<longrightarrow> (\<exists>raw. rep = Answer raw \<and> parse_proc_stat raw = Inr snap
      \<and> matches_identity i snap)))
  (assert_owned_process os i)"
  unfolding assert_owned_process_def
  by (rule emits_bind [OF emits_snapshot]) (auto simp: emits_def wret_def wfail_def
      split: option.splits if_splits)

lemma emits_group_exists: "emits (\<lambda>r es. \<exists>rep. es = [Signal_group g 0 rep] \<and>
    (r = Inr False \<longrightarrow> rep = Not_found)) (group_exists os g)"
  unfolding group_exists_def
proof (rule emits_bind)
  show "emits (\<lambda>r es. \<exists>rep. r = Inr rep \<and> es = [Signal_group g 0 rep])
      (ask (signal_group os g 0) (Signal_group g 0))"
    by (rule emits_ask) simp
qed (auto simp: emits_def wret_def wfail_def split: reply.splits)

lemma emits_signal_exact: "emits (\<lambda>r es. (\<exists>rep. es = [Read_stat (pid i) rep]) \<or>
    (\<exists>raw snap rep. es = [Read_stat (pid i) (Answer raw), Signal_group (pgid i) a rep] \<and>
      parse_proc_stat raw = Inr snap \<and> matches_identity i snap))
  (signal_exact_group os i a)"
  unfolding signal_exact_group_def
proof (rule emits_bind [OF emits_owned])
  fix snap es
  assume "\<exists>rep. es = [Read_stat (pid i) rep] \<and> (\<forall>snap'. Inr snap = Inr snap' \<longrightarrow>
    (\<exists>raw. rep = Answer raw \<and> parse_proc_stat raw = Inr snap' \<and> matches_identity i snap'))"
  then obtain raw where es: "es = [Read_stat (pid i) (Answer raw)]"
    "parse_proc_stat raw = Inr snap" "matches_identity i snap" by (auto split: if_splits)
  let ?a = "ask (signal_group os (pgid i) a) (Signal_group (pgid i) a)"
  have call: "emits (\<lambda>r fs. \<exists>rep. fs = [Signal_group (pgid i) a rep]) ?a"
    by (rule emits_ask) simp
  show "emits (\<lambda>r fs. (\<exists>rep. es @ fs = [Read_stat (pid i) rep]) \<or>
      (\<exists>raw snap rep. es @ fs = [Read_stat (pid i) (Answer raw), Signal_group (pgid i) a rep] \<and>
        parse_proc_stat raw = Inr snap \<and> matches_identity i snap))
    (wbind ?a (\<lambda>r. case r of Answer _ \<Rightarrow> wret True | Not_found \<Rightarrow> wret False
       | Os_failed \<Rightarrow> wfail (owned_error Process_group_signal_failed i) | Raised x \<Rightarrow> wfail (Escaped x)))"
    by (rule emits_bind [OF call]) (use es in \<open>auto simp: emits_def wret_def wfail_def split: reply.splits\<close>)
qed auto

lemma emits_load: "emits (\<lambda>r es. es = [] \<and> (\<exists>e. r = Inl e) \<or> (\<exists>d. es = [Open_state d] \<and>
    (\<forall>i. r = Inr (Some i) \<longrightarrow> (\<exists>f. d = Stored f \<and> read_identity load nonce f = Inr i)) \<and>
    (r = Inr None \<longrightarrow> d = Absent)))
  (load_worker_identity os load nonce)"
  unfolding load_worker_identity_def
proof (rule emits_bind)
  show "emits (\<lambda>r es. es = []) (lift (validate_run_nonce (PStr nonce)))"
    by (rule emits_lift) simp
next
  fix x :: string and es :: "os_event list"
  assume "es = []"
  have call: "emits (\<lambda>r fs. \<exists>d. r = Inr d \<and> fs = [Open_state d]) (look_at_state os Open_state)"
    by (rule emits_look) simp
  show "emits (\<lambda>r fs. es @ fs = [] \<and> (\<exists>e. r = Inl e) \<or> (\<exists>d. es @ fs = [Open_state d] \<and>
      (\<forall>i. r = Inr (Some i) \<longrightarrow> (\<exists>f. d = Stored f \<and> read_identity load nonce f = Inr i)) \<and>
      (r = Inr None \<longrightarrow> d = Absent)))
    (wbind (look_at_state os Open_state) (\<lambda>d. case d of Absent \<Rightarrow> wret None
       | Stored f \<Rightarrow> wbind (lift (read_identity load nonce f)) (\<lambda>i. wret (Some i))
       | _ \<Rightarrow> wfail (plain Worker_state_unreadable)))"
    by (rule emits_bind [OF call]) (use \<open>es = []\<close> in \<open>auto simp: emits_def wret_def wfail_def
        lift_def wbind_def split: state_entry.splits sum.splits\<close>)
qed auto

section \<open>Properties of logs kept by concatenation\<close>

fun harmless :: "os_event \<Rightarrow> bool" where
  "harmless (Signal_group g a r) = (a = 0)"
| "harmless (Signal_process p a r) = False"
| "harmless (Unlink_state r) = False"
| "harmless _ = True"

locale worker_log =
  fixes good :: "os_event list \<Rightarrow> bool" and i :: worker_identity
    and load :: "string \<Rightarrow> pyval option"
  assumes good_Nil: "good []"
    and good_append: "good xs \<Longrightarrow> good ys \<Longrightarrow> good (xs @ ys)"
    and good_call: "harmless e \<Longrightarrow> good [e]"
    and good_signal: "parse_proc_stat raw = Inr snap \<Longrightarrow> matches_identity i snap \<Longrightarrow>
      good [Read_stat (pid i) (Answer raw), Signal_group (pgid i) a rep]"
    and good_remove: "read_identity load (run_nonce i) f = Inr i \<Longrightarrow> list_all is_open opens \<Longrightarrow>
      good (Signal_group (pgid i) 0 Not_found # opens @ [Open_state (Stored f), Unlink_state u])"
begin

definition safe :: "('s, 'a) act \<Rightarrow> bool" where
  "safe m \<longleftrightarrow> emits (\<lambda>_. good) m"

lemma safe_ret: "safe (wret x)" "safe (wfail e)" "safe (lift r)"
  by (simp_all add: safe_def emits_ret emits_fail emits_lift good_Nil)

lemma safe_ask: "(\<And>r. harmless (event r)) \<Longrightarrow> safe (ask call event)"
  unfolding safe_def by (rule emits_ask) (simp add: good_call)

lemma emits_after: "emits (\<lambda>_. good) m \<Longrightarrow> good es \<Longrightarrow> emits (\<lambda>_ fs. good (es @ fs)) m"
  by (erule emits_mono) (rule good_append)

lemma safe_bind: "safe m \<Longrightarrow> (\<And>x. safe (f x)) \<Longrightarrow> safe (wbind m f)"
  unfolding safe_def
  by (rule emits_bind [where T = "\<lambda>_. good"]) (auto intro: emits_after)

lemma safe_try: "safe m \<Longrightarrow> (\<And>e. safe (h e)) \<Longrightarrow> safe (wtry m h)"
  unfolding safe_def
  by (rule emits_try [where T = "\<lambda>_. good"]) (auto intro: emits_after)

lemma safe_loop:
  assumes "\<And>p. safe (body p)"
  shows "safe (wloop body p)"
  unfolding safe_def
proof (rule emits_loop [where I = "\<lambda>_. good"])
  fix q es
  assume "good es"
  with assms [of q] have "emits (\<lambda>_ fs. good (es @ fs)) (body q)"
    by (auto simp: safe_def intro: emits_after)
  then show "emits (\<lambda>r fs. case r of Inr (Inl q) \<Rightarrow> good (es @ fs)
      | Inr (Inr x) \<Rightarrow> good (es @ fs) | Inl e \<Rightarrow> good (es @ fs)) (body q)"
    by (rule emits_mono) (auto split: sum.splits)
qed (rule good_Nil)

lemma safe_calls:
  "safe (read_clock os)" "safe (sleep_for os d)" "safe (wait_for os d)"
  "safe (snapshot_for_pid os p)" "safe (assert_owned_process os i)" "safe (group_exists os g)"
  unfolding read_clock_def sleep_for_def wait_for_def
  by (rule safe_ask; simp)+
    (auto simp: safe_def good_call intro: emits_mono [OF emits_snapshot] emits_mono [OF emits_owned]
      emits_mono [OF emits_group_exists])

lemma good_opens: "harmless e \<Longrightarrow> list_all is_open opens \<Longrightarrow> good (e # opens)"
proof (induction opens rule: rev_induct)
  case (snoc x xs)
  then have "harmless x" by (cases x) auto
  with snoc good_append [of "e # xs" "[x]"] show ?case by (simp add: good_call)
qed (simp add: good_call)

lemma safe_signal: "safe (signal_exact_group os i a)"
  unfolding safe_def
  by (rule emits_mono [OF emits_signal_exact]) (auto intro: good_signal good_call)

text \<open>The group was certified absent; what follows reads the state and may unlink it.\<close>

definition certified :: "os_event list \<Rightarrow> os_event list \<Rightarrow> bool" where
  "certified opens es \<longleftrightarrow> good (Signal_group (pgid i) 0 Not_found # opens @ es)"

lemma certified_Nil: "list_all is_open opens \<Longrightarrow> certified opens []"
  by (simp add: certified_def good_opens)

lemma remove_certified:
  assumes "list_all is_open opens"
  shows "emits (\<lambda>_. certified opens) (remove_matching_state os load i)"
  unfolding remove_matching_state_def
proof (rule emits_bind [OF emits_load])
  fix current es
  assume es: "es = [] \<and> (\<exists>e. Inr current = Inl e) \<or> (\<exists>d. es = [Open_state d] \<and>
    (\<forall>i'. Inr current = Inr (Some i') \<longrightarrow>
      (\<exists>f. d = Stored f \<and> read_identity load (run_nonce i) f = Inr i')) \<and>
    (Inr current = Inr None \<longrightarrow> d = Absent))"
  then obtain d where d: "es = [Open_state d]" by auto
  show "emits (\<lambda>_ fs. certified opens (es @ fs)) (if current \<noteq> Some i
      then wfail (owned_error Worker_state_changed i)
      else wbind (unlink_state os) (\<lambda>r. if r = Unlinked then wret ()
        else wfail (owned_error Worker_state_remove_failed i)))"
  proof (cases "current = Some i")
    case False
    have "certified opens [Open_state d]"
      using good_opens [of _ "opens @ [Open_state d]"] assms by (simp add: certified_def)
    with False d show ?thesis by (simp add: emits_fail)
  next
    case True
    with es d obtain f where f: "d = Stored f" "read_identity load (run_nonce i) f = Inr i" by auto
    have unlink: "emits (\<lambda>_ fs. \<exists>u. fs = [Unlink_state u]) (unlink_state os)"
      by (rule emits_unlink) simp
    have "certified opens (es @ [Unlink_state u])" for u
      using good_remove [OF f(2) assms] d f(1) by (simp add: certified_def)
    with True show ?thesis
      by (auto intro!: emits_bind [OF unlink] simp: emits_ret emits_fail)
  qed
qed (use assms good_opens [of _ "opens @ [Open_state _]"] in \<open>auto simp: certified_def good_opens\<close>)

lemma remove_if_complete_certified:
  "emits (\<lambda>_. certified []) (remove_if_complete os load i)"
  unfolding remove_if_complete_def
proof (rule emits_bind)
  let ?T = "\<lambda>_ es. list_all is_open es"
  show "emits ?T (wtry (load_worker_identity os load (run_nonce i))
      (\<lambda>e. case e of Lifecycle _ _ _ \<Rightarrow> wret None | Escaped x \<Rightarrow> wfail (Escaped x)))"
    by (rule emits_try [OF emits_load]) (auto simp: emits_ret emits_fail split: worker_error.splits)
  fix current es
  assume es: "list_all is_open es"
  have "emits (\<lambda>_ fs. certified [] (es @ fs)) (remove_matching_state os load i)"
    by (rule emits_mono [OF remove_certified [OF es]]) (simp add: certified_def)
  then show "emits (\<lambda>_ fs. certified [] (es @ fs)) (if current = Some i
      then wbind (remove_matching_state os load i) (\<lambda>_. wret True) else wret False)"
    using certified_Nil [OF es]
    by (auto simp: certified_def emits_ret intro!: emits_bind)
qed (use certified_Nil in \<open>auto simp: certified_def\<close>)

lemma safe_certify:
  "safe (certify_absent_and_remove os load i outcome rc int_sent kill_sent race require_state)"
  unfolding certify_absent_and_remove_def safe_def
proof (rule emits_bind [OF emits_group_exists])
  fix alive es
  assume "\<exists>rep. es = [Signal_group (pgid i) 0 rep] \<and> (Inr alive = Inr False \<longrightarrow> rep = Not_found)"
  then obtain rep where es: "es = [Signal_group (pgid i) 0 rep]" "\<not> alive \<Longrightarrow> rep = Not_found"
    by auto
  let ?removal = "if require_state then wbind (remove_matching_state os load i) (\<lambda>_. wret True)
    else remove_if_complete os load i"
  have "emits (\<lambda>_. certified []) ?removal"
    using remove_certified [of "[]"] remove_if_complete_certified
    by (auto intro!: emits_bind emits_ret)
  then have removal: "emits (\<lambda>_ fs. certified [] fs)
      (wbind ?removal (\<lambda>removed. wret (make_result outcome (Some i) rc int_sent kill_sent race removed)))"
    by (rule emits_bind) (simp_all add: emits_ret)
  show "emits (\<lambda>_ fs. good (es @ fs)) (if alive
      then wfail (Lifecycle Process_group_survived (Some i)
        (Some (make_result outcome (Some i) rc int_sent kill_sent race False)))
      else wbind ?removal (\<lambda>removed.
        wret (make_result outcome (Some i) rc int_sent kill_sent race removed)))"
  proof (cases alive)
    case True
    with es show ?thesis by (simp add: emits_fail good_call)
  next
    case False
    have "emits (\<lambda>_ fs. good (es @ fs)) (wbind ?removal (\<lambda>removed.
        wret (make_result outcome (Some i) rc int_sent kill_sent race removed)))"
      using es(1) es(2) [OF False] by (intro emits_mono [OF removal]) (simp add: certified_def)
    with False show ?thesis by simp
  qed
qed (auto simp: good_call)

subsection \<open>A running worker\<close>

lemmas safe_intros = safe_ret safe_calls safe_signal safe_certify

lemma safe_poll: "safe (ask (poll_child os) Poll)"
  by (rule safe_ask) simp

lemma safe_reap:
  "safe (reap_killed os load i kill_grace require_state)"
  "safe (reap_interrupted os load i interrupt_grace kill_grace require_state int_sent)"
  "safe (reap_missing os load i require_state e)"
proof -
  show kill: "safe (reap_killed os load i kill_grace require_state)"
    unfolding reap_killed_def Let_def
    by (auto intro!: safe_bind safe_intros split: wait_reply.splits)
  show "safe (reap_interrupted os load i interrupt_grace kill_grace require_state int_sent)"
    unfolding reap_interrupted_def
    by (auto intro!: safe_bind safe_intros kill split: wait_reply.splits)
  show "safe (reap_missing os load i require_state e)"
    unfolding reap_missing_def
    by (auto intro!: safe_bind safe_intros split: wait_reply.splits worker_error.splits
        worker_code.splits)
qed

lemma safe_terminate:
  "safe (terminate_current_process os load i interrupt_grace kill_grace require_state)"
  unfolding terminate_current_process_def wtry_else_def
  by (auto intro!: safe_bind safe_try safe_intros safe_poll safe_reap
      split: wait_reply.splits sum.splits)

lemma safe_observe: "safe (observe_progress os prior)"
proof -
  have set_active: "safe (\<lambda>s. Some (Inr p, s\<lparr>active_progress := p\<rparr>))" for p
    by (simp add: safe_def emits_def good_Nil)
  have "safe (ask_progress os)"
    unfolding ask_progress_def
    by (intro safe_bind safe_ask) (auto intro: safe_ret split: reply.splits)
  then show ?thesis
    unfolding observe_progress_def by (intro safe_bind safe_ret set_active)
qed

lemma safe_wait: "safe (wait_for_worker os probed b)"
proof -
  have "safe (progress_round os durations start_deadline poll_interval prior)"
    for durations start_deadline poll_interval prior
    unfolding progress_round_def Let_def
    by (intro safe_bind safe_observe) (auto intro!: safe_bind safe_intros safe_observe
        split: wait_reply.splits)
  then show ?thesis
    unfolding wait_for_worker_def wait_with_progress_deadlines_def
    by (auto intro!: safe_bind safe_loop safe_intros split: wait_reply.splits)
qed

lemma safe_cleanup_after_error: "safe (cleanup_after_error os load b i e)"
proof -
  have "safe (wbind (terminate_current_process os load i g (kill_grace_s b) True)
     (\<lambda>cleanup. if cleanup_outcome cleanup = Killed
       then wfail (Lifecycle Interrupt_cleanup_escalated (Some i) (Some cleanup)) else wfail e))" for g
    by (auto intro!: safe_bind safe_terminate safe_ret)
  then show ?thesis
    unfolding safe_def emits_def cleanup_after_error_def by blast
qed

lemma safe_finish: "safe (finish_worker os load b i ended)"
  unfolding finish_worker_def
  by (auto intro!: safe_bind safe_terminate safe_intros split: prod.splits option.splits)

lemma safe_persist: "safe (persist_or_clean os load dump b i)"
proof -
  have "safe (persist_worker_identity os dump i)"
    by (auto simp: safe_def emits_def persist_worker_identity_def Let_def good_Nil good_call
        split: prod.splits if_splits)
  then show ?thesis
    unfolding persist_or_clean_def by (auto intro!: safe_try safe_bind safe_terminate safe_ret)
qed

text \<open>Everything after the capture of the identity.\<close>

lemma safe_owned:
  "safe (wbind (persist_or_clean os load dump b i) (\<lambda>_.
     wbind (\<lambda>s. Some (Inr (), s\<lparr>active_progress := None\<rparr>)) (\<lambda>_.
     wbind (wtry (wait_for_worker os probed b) (cleanup_after_error os load b i)) (\<lambda>ended.
       finish_worker os load b i ended))))"
proof -
  have "safe (\<lambda>s. Some (Inr (), s\<lparr>active_progress := None\<rparr>))"
    by (simp add: safe_def emits_def good_Nil)
  then show ?thesis
    by (intro safe_bind safe_try safe_persist safe_wait safe_cleanup_after_error safe_finish)
qed

subsection \<open>A recovered worker\<close>

lemma safe_after: "safe m \<Longrightarrow> good es \<Longrightarrow> emits (\<lambda>_ fs. good (es @ fs)) m"
  unfolding safe_def by (rule emits_after)

text \<open>A wait that ends with \<open>Gone\<close> has just certified the group absent.\<close>

definition gone :: "os_event list \<Rightarrow> bool" where
  "gone es \<longleftrightarrow> (\<exists>es'. good es' \<and>
     es = es' @ [Read_stat (pid i) Not_found, Signal_group (pgid i) 0 Not_found])"

lemma good_gone: "gone es \<Longrightarrow> good es"
  using good_call [of "Read_stat (pid i) Not_found"] good_call [of "Signal_group (pgid i) 0 Not_found"]
    good_append [of "[Read_stat (pid i) Not_found]" "[Signal_group (pgid i) 0 Not_found]"]
  by (auto simp: gone_def intro: good_append)

lemma absent_then_gone:
  assumes "good es"
  shows "emits (\<lambda>r fs. good (es @ [Read_stat (pid i) Not_found] @ fs) \<and>
    (r = Inr False \<longrightarrow> gone (es @ [Read_stat (pid i) Not_found] @ fs))) (group_exists os (pgid i))"
proof (rule emits_mono [OF emits_group_exists])
  fix r :: "bool wres" and fs
  assume "\<exists>rep. fs = [Signal_group (pgid i) 0 rep] \<and> (r = Inr False \<longrightarrow> rep = Not_found)"
  then obtain rep where "fs = [Signal_group (pgid i) 0 rep]" "r = Inr False \<longrightarrow> rep = Not_found"
    by blast
  with assms show "good (es @ [Read_stat (pid i) Not_found] @ fs) \<and>
      (r = Inr False \<longrightarrow> gone (es @ [Read_stat (pid i) Not_found] @ fs))"
    using good_append [OF assms good_append [OF good_call [of "Read_stat (pid i) Not_found"]
        good_call [of "Signal_group (pgid i) 0 rep"]]]
    by (auto simp: gone_def)
qed

lemma recovered_after_gone:
  assumes "gone es"
  shows "emits (\<lambda>_ fs. good (es @ fs)) (recovered os load i outcome int_sent kill_sent race)"
proof -
  from assms obtain es' where es: "good (es' @ [Read_stat (pid i) Not_found])"
      "es = (es' @ [Read_stat (pid i) Not_found]) @ [Signal_group (pgid i) 0 Not_found]"
    unfolding gone_def using good_append [OF _ good_call [of "Read_stat (pid i) Not_found"]] by auto
  have "emits (\<lambda>_ fs. certified [] fs) (recovered os load i outcome int_sent kill_sent race)"
    unfolding recovered_def using remove_certified [of "[]"]
    by (auto intro!: emits_bind emits_ret)
  then show ?thesis
    by (rule emits_mono) (use good_append [OF es(1)] in \<open>auto simp: es(2) certified_def\<close>)
qed

lemma recovery_round_gone:
  assumes "good es"
  shows "emits (\<lambda>r fs. good (es @ fs) \<and> (r = Inr (Inr Gone) \<longrightarrow> gone (es @ fs)))
    (recovery_round os i deadline poll_interval u)"
  unfolding recovery_round_def
proof (rule emits_bind [OF emits_snapshot])
  fix r1 es1
  assume "\<exists>rep. es1 = [Read_stat (pid i) rep] \<and> (Inr r1 = Inr None \<longrightarrow> rep = Not_found) \<and>
    (\<forall>snap. Inr r1 = Inr (Some snap) \<longrightarrow> (\<exists>raw. rep = Answer raw \<and> parse_proc_stat raw = Inr snap))"
  then obtain rep where es1: "es1 = [Read_stat (pid i) rep]" "r1 = None \<Longrightarrow> rep = Not_found" by auto
  have good1: "good (es @ es1)" using assms es1(1) by (auto intro!: good_append good_call)
  show "emits (\<lambda>r fs. good (es @ es1 @ fs) \<and> (r = Inr (Inr Gone) \<longrightarrow> gone (es @ es1 @ fs)))
    (case r1 of
       None \<Rightarrow> wbind (group_exists os (pgid i)) (\<lambda>alive.
         if alive then wfail (owned_error Ownership_ambiguous i) else wret (Inr Gone))
     | Some snap \<Rightarrow>
         (if snap_pgid snap \<noteq> pgid i \<or> snap_ticks snap \<noteq> start_ticks i
          then wfail (owned_error Identity_mismatch i)
          else wbind (read_clock os) (\<lambda>now.
            if deadline - now \<le> 0 then wret (Inr Alive)
            else wbind (sleep_for os (min poll_interval (deadline - now))) (\<lambda>_. wret (Inl ())))))"
  proof (cases r1)
    case None
    with es1 have eq: "es1 = [Read_stat (pid i) Not_found]" by simp
    from absent_then_gone [OF assms] show ?thesis
      unfolding None eq by (auto intro!: emits_bind [OF absent_then_gone [OF assms]] emits_ret emits_fail)
  next
    case (Some snap)
    have clock: "emits (\<lambda>_ fs. good (es @ es1 @ fs)) (read_clock os)"
      using safe_after [OF safe_calls(1) good1] by simp
    have sleep: "emits (\<lambda>_ fs. good (gs @ fs)) (sleep_for os d)" if "good gs" for gs d
      by (rule safe_after [OF safe_calls(2) that])
    show ?thesis
      using good1 unfolding Some
      by (auto intro!: emits_fail emits_bind [OF clock] emits_ret emits_bind [OF sleep])
  qed
qed (use assms in \<open>auto intro!: good_append good_call\<close>)

lemma wait_for_recovery_gone:
  assumes "good es"
  shows "emits (\<lambda>r fs. good (es @ fs) \<and> (r = Inr Gone \<longrightarrow> gone (es @ fs)))
    (wait_for_recovery_exit os i timeout poll_interval)"
  unfolding wait_for_recovery_exit_def
proof (rule emits_bind)
  show "emits (\<lambda>_ fs. good (es @ fs)) (read_clock os)"
    by (rule safe_after [OF safe_calls(1) assms])
  fix t :: real and es1
  assume "good (es @ es1)"
  then have start: "good (es @ es1 @ [])" by simp
  show "emits (\<lambda>r fs. good (es @ es1 @ fs) \<and> (r = Inr Gone \<longrightarrow> gone (es @ es1 @ fs)))
      (wloop (recovery_round os i (t + timeout) poll_interval) ())"
  proof (rule emits_loop [where I = "\<lambda>_ fs. good (es @ es1 @ fs)"])
    fix u fs
    assume "good (es @ es1 @ fs)"
    from recovery_round_gone [OF this]
    show "emits (\<lambda>r gs. case r of Inr (Inl q) \<Rightarrow> good (es @ es1 @ fs @ gs)
        | Inr (Inr x) \<Rightarrow> good (es @ es1 @ fs @ gs) \<and> (Inr x = Inr Gone \<longrightarrow> gone (es @ es1 @ fs @ gs))
        | Inl e \<Rightarrow> good (es @ es1 @ fs @ gs) \<and> (Inl e = Inr Gone \<longrightarrow> gone (es @ es1 @ fs @ gs)))
      (recovery_round os i (t + timeout) poll_interval u)"
      by (rule emits_mono) (auto split: sum.splits)
  qed (rule start)
qed simp

lemma recover_kill_good:
  assumes "good es"
  shows "emits (\<lambda>_ fs. good (es @ fs)) (recover_by_kill os load i kill_grace poll_interval)"
  unfolding recover_by_kill_def
proof (rule emits_bind [OF safe_after [OF safe_signal assms]])
  fix kill_sent es1
  assume g: "good (es @ es1)"
  show "emits (\<lambda>_ fs. good (es @ es1 @ fs)) (wbind (wait_for_recovery_exit os i kill_grace poll_interval)
     (\<lambda>state. if state \<noteq> Gone then wfail (Lifecycle Termination_timeout (Some i)
       (Some (make_result Killed (Some i) None True kill_sent (\<not> kill_sent) False)))
     else recovered os load i Killed True kill_sent (\<not> kill_sent)))"
  proof (rule emits_bind [OF wait_for_recovery_gone [OF g]])
    fix state es2
    assume "good ((es @ es1) @ es2) \<and> (Inr state = Inr Gone \<longrightarrow> gone ((es @ es1) @ es2))"
    then show "emits (\<lambda>_ fs. good (es @ es1 @ es2 @ fs)) (if state \<noteq> Gone
        then wfail (Lifecycle Termination_timeout (Some i)
          (Some (make_result Killed (Some i) None True kill_sent (\<not> kill_sent) False)))
        else recovered os load i Killed True kill_sent (\<not> kill_sent))"
      using recovered_after_gone [of "(es @ es1) @ es2"] by (auto simp: emits_fail)
  qed simp
qed simp

lemma safe_recover_live: "safe (recover_live os load i interrupt_grace kill_grace poll_interval)"
  unfolding recover_live_def
proof (rule safe_bind [OF safe_calls(5) safe_bind [OF safe_signal]])
  fix int_sent
  show "safe (wbind (wait_for_recovery_exit os i interrupt_grace poll_interval) (\<lambda>state.
     if state = Gone then recovered os load i Interrupted int_sent False (\<not> int_sent)
     else if \<not> int_sent then wfail (Lifecycle Process_lookup_race (Some i)
       (Some (make_result Interrupted (Some i) None False False True False)))
     else recover_by_kill os load i kill_grace poll_interval))"
    unfolding safe_def
  proof (rule emits_bind [OF wait_for_recovery_gone [OF good_Nil]])
    fix state es
    assume "good ([] @ es) \<and> (Inr state = Inr Gone \<longrightarrow> gone ([] @ es))"
    then show "emits (\<lambda>_ fs. good (es @ fs)) (if state = Gone
        then recovered os load i Interrupted int_sent False (\<not> int_sent)
        else if \<not> int_sent then wfail (Lifecycle Process_lookup_race (Some i)
          (Some (make_result Interrupted (Some i) None False False True False)))
        else recover_by_kill os load i kill_grace poll_interval)"
      using recovered_after_gone [of es] recover_kill_good [of es] by (auto simp: emits_fail)
  qed simp
qed

lemma recover_absent_good:
  "emits (\<lambda>_ fs. good ([Read_stat (pid i) Not_found] @ fs))
    (wbind (group_exists os (pgid i)) (\<lambda>alive.
       if alive then wfail (owned_error Ownership_ambiguous i)
       else recovered os load i Already_exited False False True))"
proof (rule emits_bind [OF absent_then_gone [OF good_Nil]])
  fix alive es
  assume "good ([] @ [Read_stat (pid i) Not_found] @ es) \<and>
    (Inr alive = Inr False \<longrightarrow> gone ([] @ [Read_stat (pid i) Not_found] @ es))"
  then show "emits (\<lambda>_ fs. good ([Read_stat (pid i) Not_found] @ es @ fs)) (if alive
      then wfail (owned_error Ownership_ambiguous i)
      else recovered os load i Already_exited False False True)"
    using recovered_after_gone [of "[Read_stat (pid i) Not_found] @ es"] by (auto simp: emits_fail)
qed simp

text \<open>What recovery does once it has loaded the record \<open>i\<close>.\<close>

lemma safe_recover_loaded:
  "safe (wbind (snapshot_for_pid os (pid i)) (\<lambda>r. case r of
     None \<Rightarrow> wbind (group_exists os (pgid i)) (\<lambda>alive.
       if alive then wfail (owned_error Ownership_ambiguous i)
       else recovered os load i Already_exited False False True)
   | Some _ \<Rightarrow> recover_live os load i interrupt_grace kill_grace poll_interval))"
  unfolding safe_def
proof (rule emits_bind [OF emits_snapshot])
  fix r1 es1
  assume "\<exists>rep. es1 = [Read_stat (pid i) rep] \<and> (Inr r1 = Inr None \<longrightarrow> rep = Not_found) \<and>
    (\<forall>snap. Inr r1 = Inr (Some snap) \<longrightarrow> (\<exists>raw. rep = Answer raw \<and> parse_proc_stat raw = Inr snap))"
  then obtain rep where es1: "es1 = [Read_stat (pid i) rep]" "r1 = None \<Longrightarrow> rep = Not_found" by auto
  show "emits (\<lambda>_ fs. good (es1 @ fs)) (case r1 of
     None \<Rightarrow> wbind (group_exists os (pgid i)) (\<lambda>alive.
       if alive then wfail (owned_error Ownership_ambiguous i)
       else recovered os load i Already_exited False False True)
   | Some _ \<Rightarrow> recover_live os load i interrupt_grace kill_grace poll_interval)"
  proof (cases r1)
    case None
    with es1 recover_absent_good show ?thesis by simp
  next
    case (Some snap)
    have "good es1" using es1(1) good_call by simp
    from safe_after [OF safe_recover_live this] Some show ?thesis by simp
  qed
qed (auto simp: good_call)

end

end
