(* ===== verification/Worker_Ownership.thy ===== *)
theory Worker_Ownership
  imports Worker_Safety
begin

text \<open>
  The guarantees of \<open>bench/autoresearch_worker.py\<close>: no signal to a process that was not just
  compared with the record, no removal of a record before its group was certified absent, a
  result only after the removal, a recovery that ends, and timeouts that respect the deadlines
  the worker published.
\<close>

section \<open>Every event of a log, with what came before it\<close>

definition each :: "(os_event list \<Rightarrow> os_event \<Rightarrow> bool) \<Rightarrow> os_event list \<Rightarrow> bool" where
  "each P es \<longleftrightarrow> (\<forall>n < length es. P (take n es) (es ! n))"

lemma each_Nil: "each P []"
  by (simp add: each_def)

lemma each_snoc: "each P (es @ [e]) \<longleftrightarrow> each P es \<and> P es e"
  by (auto simp: each_def nth_append less_Suc_eq)

lemma each_append:
  assumes "\<And>xs pre e. P pre e \<Longrightarrow> P (xs @ pre) e" and "each P xs"
  shows "each P ys \<Longrightarrow> each P (xs @ ys)"
proof (induction ys rule: rev_induct)
  case (snoc y ys)
  with assms(1) have "each P ((xs @ ys) @ [y])" unfolding each_snoc by blast
  then show ?case by simp
qed (use assms(2) in simp)

text \<open>A signal follows immediately on a read that shows exactly the recorded process.\<close>

definition compared :: "worker_identity \<Rightarrow> os_event list \<Rightarrow> os_event \<Rightarrow> bool" where
  "compared i pre e = (case e of
       Signal_group g a r \<Rightarrow> a = 0 \<or> (g = pgid i \<and> (\<exists>pre' raw snap.
         pre = pre' @ [Read_stat (pid i) (Answer raw)] \<and> parse_proc_stat raw = Inr snap \<and>
         matches_identity i snap))
     | Signal_process _ _ _ \<Rightarrow> False
     | _ \<Rightarrow> True)"

text \<open>An unlink follows a probe that found no group and reads that ended with the record.\<close>

definition unlink_certified ::
  "(string \<Rightarrow> pyval option) \<Rightarrow> worker_identity \<Rightarrow> os_event list \<Rightarrow> os_event \<Rightarrow> bool" where
  "unlink_certified load i pre e = (case e of
       Unlink_state _ \<Rightarrow> \<exists>pre' opens f. list_all is_open opens \<and>
         pre = pre' @ Signal_group (pgid i) 0 Not_found # opens @ [Open_state (Stored f)] \<and>
         read_identity load (run_nonce i) f = Inr i
     | _ \<Rightarrow> True)"

definition owned_log ::
  "(string \<Rightarrow> pyval option) \<Rightarrow> worker_identity \<Rightarrow> os_event list \<Rightarrow> bool" where
  "owned_log load i = each (\<lambda>pre e. compared i pre e \<and> unlink_certified load i pre e)"

lemma owned_log_append:
  assumes "owned_log load i xs" and "owned_log load i ys"
  shows "owned_log load i (xs @ ys)"
  using assms unfolding owned_log_def
proof (intro each_append)
  fix xs pre e
  assume "compared i pre e \<and> unlink_certified load i pre e"
  then show "compared i (xs @ pre) e \<and> unlink_certified load i (xs @ pre) e"
    by (auto simp: compared_def unlink_certified_def split: os_event.splits) (metis append.assoc)+
qed

lemma owned_log_snoc:
  "owned_log load i (es @ [e]) \<longleftrightarrow>
     owned_log load i es \<and> compared i es e \<and> unlink_certified load i es e"
  by (simp add: owned_log_def each_snoc)

lemma owned_log_call: "harmless e \<Longrightarrow> owned_log load i [e]"
  using owned_log_snoc [of load i "[]" e]
  by (cases e) (auto simp: owned_log_def each_Nil compared_def unlink_certified_def)

lemma owned_log_opens: "list_all is_open opens \<Longrightarrow> owned_log load i (Signal_group g 0 r # opens)"
proof (induction opens rule: rev_induct)
  case (snoc x xs)
  then have "owned_log load i ((Signal_group g 0 r # xs) @ [x])"
    unfolding owned_log_snoc by (cases x) (auto simp: compared_def unlink_certified_def)
  then show ?case by simp
qed (simp add: owned_log_call)

interpretation owned: worker_log "owned_log load i" i load for load i
proof unfold_locales
  show "owned_log load i []" by (simp add: owned_log_def each_Nil)
next
  fix raw snap a rep
  assume "parse_proc_stat raw = Inr snap" "matches_identity i snap"
  then show "owned_log load i [Read_stat (pid i) (Answer raw), Signal_group (pgid i) a rep]"
    using owned_log_snoc [of load i "[Read_stat (pid i) (Answer raw)]" "Signal_group (pgid i) a rep"]
      owned_log_call [of "Read_stat (pid i) (Answer raw)"]
    by (auto simp: compared_def unlink_certified_def)
next
  fix f opens u
  assume f: "read_identity load (run_nonce i) f = Inr i" and opens: "list_all is_open opens"
  have "owned_log load i (Signal_group (pgid i) 0 Not_found # opens @ [Open_state (Stored f)])"
    using owned_log_opens [of "opens @ [Open_state (Stored f)]"] opens by simp
  then have "owned_log load i
      ((Signal_group (pgid i) 0 Not_found # opens @ [Open_state (Stored f)]) @ [Unlink_state u])"
    unfolding owned_log_snoc using f opens
    by (auto simp: compared_def unlink_certified_def)
  then show "owned_log load i
      (Signal_group (pgid i) 0 Not_found # opens @ [Open_state (Stored f), Unlink_state u])" by simp
qed (auto intro: owned_log_append owned_log_call)

section \<open>Recovery\<close>

lemma recovery_owned:
  "emits (\<lambda>r es. es = [] \<or> (\<exists>d rest. es = Open_state d # rest \<and> (rest = [] \<or>
     (\<exists>f i. d = Stored f \<and> read_identity load nonce f = Inr i \<and> owned_log load i rest))))
   (recover_owned_worker os load nonce interrupt_grace kill_grace poll_interval)"
proof -
  let ?loaded = "\<lambda>i. wbind (snapshot_for_pid os (pid i)) (\<lambda>r. case r of
     None \<Rightarrow> wbind (group_exists os (pgid i)) (\<lambda>alive.
       if alive then wfail (owned_error Ownership_ambiguous i)
       else recovered os load i Already_exited False False True)
   | Some _ \<Rightarrow> recover_live os load i interrupt_grace kill_grace poll_interval)"
  let ?T = "\<lambda>es. es = [] \<or> (\<exists>d rest. es = Open_state d # rest \<and> (rest = [] \<or>
     (\<exists>f i. d = Stored f \<and> read_identity load nonce f = Inr i \<and> owned_log load i rest)))"
  have "emits (\<lambda>r. ?T) (wbind (load_worker_identity os load nonce) (\<lambda>r. case r of
      None \<Rightarrow> wret (make_result No_state None None False False False False) | Some i \<Rightarrow> ?loaded i))"
  proof (rule emits_bind [OF emits_load])
    fix r es
    assume "es = [] \<and> (\<exists>e. Inr r = Inl e) \<or> (\<exists>d. es = [Open_state d] \<and>
      (\<forall>i. Inr r = Inr (Some i) \<longrightarrow> (\<exists>f. d = Stored f \<and> read_identity load nonce f = Inr i)) \<and>
      (Inr r = Inr None \<longrightarrow> d = Absent))"
    then obtain d where d: "es = [Open_state d]"
        "\<And>i. r = Some i \<Longrightarrow> \<exists>f. d = Stored f \<and> read_identity load nonce f = Inr i" by auto
    show "emits (\<lambda>r fs. ?T (es @ fs)) (case r of
        None \<Rightarrow> wret (make_result No_state None None False False False False) | Some i \<Rightarrow> ?loaded i)"
    proof (cases r)
      case None
      with d(1) show ?thesis by (simp add: emits_ret)
    next
      case (Some i)
      with d(2) obtain f where "d = Stored f" "read_identity load nonce f = Inr i" by blast
      with Some d(1) show ?thesis
        using owned.safe_recover_loaded [of load i os interrupt_grace kill_grace poll_interval]
        unfolding owned.safe_def by (auto elim!: emits_mono)
    qed
  qed auto
  then show ?thesis
    unfolding recover_owned_worker_def by (auto simp: emits_fail)
qed

section \<open>A fresh worker\<close>

text \<open>The log of the capture of a child and, when it fails, of killing that child.\<close>

fun uncaptured :: "int reply \<Rightarrow> os_event \<Rightarrow> bool" where
  "uncaptured rep (Signal_group g a r) = (a = SIGKILL \<and> rep = Answer g)"
| "uncaptured rep (Signal_process p a r) = (a = SIGKILL \<and> rep = Answer p)"
| "uncaptured rep (Read_stat p r) = (rep = Answer p)"
| "uncaptured rep (Wait d r) = True"
| "uncaptured rep e = False"

definition captured :: "string \<Rightarrow> worker_identity \<Rightarrow> os_event list \<Rightarrow> bool" where
  "captured nonce i es \<longleftrightarrow> run_nonce i = nonce \<and> pgid i = pid i \<and> (\<exists>raw snap.
     es = [Spawn (Answer (pid i)), Read_stat (pid i) (Answer raw)] \<and>
     parse_proc_stat raw = Inr snap \<and> matches_identity i snap)"

lemma emits_capture: "emits (\<lambda>r es. es = [] \<and> (\<exists>e. r = Inl e) \<or> (\<exists>rep. es = [Read_stat p rep]
    \<and> (\<forall>i. r = Inr i \<longrightarrow> captured nonce i (Spawn (Answer p) # es))))
  (capture_identity os p nonce)"
  unfolding capture_identity_def
proof (rule emits_bind)
  show "emits (\<lambda>r es. es = [] \<and> (\<forall>x. r = Inr x \<longrightarrow> x = nonce)) (lift (validate_run_nonce (PStr nonce)))"
    by (rule emits_lift) (auto simp: validate_run_nonce_def)
  fix x :: string and es :: "os_event list"
  assume "es = [] \<and> (\<forall>y. Inr x = Inr y \<longrightarrow> y = nonce)"
  then have [simp]: "es = []" by simp
  show "emits (\<lambda>r fs. es @ fs = [] \<and> (\<exists>e. r = Inl e) \<or> (\<exists>rep. es @ fs = [Read_stat p rep]
      \<and> (\<forall>i. r = Inr i \<longrightarrow> captured nonce i (Spawn (Answer p) # es @ fs))))
    (wbind (snapshot_for_pid os p) (\<lambda>r. case r of
       None \<Rightarrow> wfail (plain Identity_capture_failed)
     | Some snap \<Rightarrow> if snap_pid snap \<noteq> p \<or> snap_pgid snap \<noteq> p then wfail (plain Identity_capture_failed)
         else wret \<lparr>pid = p, pgid = snap_pgid snap, start_ticks = snap_ticks snap, run_nonce = nonce\<rparr>))"
    by (rule emits_bind [OF emits_snapshot])
      (auto simp: emits_fail emits_ret captured_def matches_identity_def split: option.splits)
qed auto

lemma emits_cleanup_uncaptured:
  "emits (\<lambda>r es. list_all (uncaptured (Answer p)) es) (cleanup_uncaptured_process os p kill_grace)"
proof -
  let ?T = "\<lambda>r es. list_all (uncaptured (Answer p)) es"
  have wait: "emits (\<lambda>r fs. ?T r (es @ fs)) (wait_for os kill_grace)"
    if "list_all (uncaptured (Answer p)) es" for es
    unfolding wait_for_def using that by (auto intro: emits_ask)
  have kill: "emits ?T (kill_uncaptured os p)"
    unfolding kill_uncaptured_def
  proof (rule emits_bind)
    show "emits ?T (ask (signal_group os p SIGKILL) (Signal_group p SIGKILL))"
      by (rule emits_ask) simp
    fix r1 es
    assume es: "list_all (uncaptured (Answer p)) es"
    have "emits (\<lambda>r fs. ?T r (es @ fs))
        (ask (signal_process os p SIGKILL) (Signal_process p SIGKILL))"
      by (rule emits_ask) (use es in simp)
    then show "emits (\<lambda>r fs. ?T r (es @ fs)) (case r1 of Raised x \<Rightarrow> wfail (Escaped x)
       | _ \<Rightarrow> wbind (ask (signal_process os p SIGKILL) (Signal_process p SIGKILL)) (\<lambda>r2. case r2 of
         Raised x \<Rightarrow> wfail (Escaped x) | _ \<Rightarrow> wret (r1 = Os_failed \<or> r2 = Os_failed)))"
      using es by (auto intro!: emits_bind emits_fail emits_ret split: reply.splits)
  qed
  show ?thesis
    unfolding cleanup_uncaptured_process_def
    by (rule emits_bind [OF kill])
      (auto intro!: emits_bind [OF wait] emits_fail emits_ret split: wait_reply.splits)
qed

lemma emits_launch:
  "emits (\<lambda>r es. (\<forall>i. r = Inr i \<longrightarrow> captured nonce i es) \<and>
     (\<forall>e. r = Inl e \<longrightarrow> (\<exists>rep cs. es = Spawn rep # cs \<and> list_all (uncaptured rep) cs)))
   (launch_worker os nonce kill_grace)"
  unfolding launch_worker_def
proof (rule emits_bind)
  show "emits (\<lambda>r es. \<exists>rep. r = Inr rep \<and> es = [Spawn rep]) (ask (popen os) Spawn)"
    by (rule emits_ask) simp
  fix rep es
  assume "\<exists>rep'. Inr rep = Inr rep' \<and> es = [Spawn rep']"
  then have es: "es = [Spawn rep]" by simp
  let ?U = "\<lambda>r fs. (\<forall>i. r = Inr i \<longrightarrow> captured nonce i (es @ fs)) \<and>
    (\<forall>e. r = Inl e \<longrightarrow> (\<exists>rep cs. es @ fs = Spawn rep # cs \<and> list_all (uncaptured rep) cs))"
  have caught: "emits ?U (wtry (capture_identity os p nonce)
      (\<lambda>e. wbind (cleanup_uncaptured_process os p kill_grace) (\<lambda>_. wfail e)))" if "rep = Answer p" for p
  proof (rule emits_try [OF emits_capture])
    fix e :: worker_error and fs
    assume "fs = [] \<and> (\<exists>e'. Inl e = Inl e') \<or> (\<exists>r. fs = [Read_stat p r] \<and>
      (\<forall>i. Inl e = Inr i \<longrightarrow> captured nonce i (Spawn (Answer p) # fs)))"
    then have fs: "list_all (uncaptured (Answer p)) fs" by auto
    show "emits (\<lambda>r gs. ?U r (fs @ gs))
        (wbind (cleanup_uncaptured_process os p kill_grace) (\<lambda>_. wfail e))"
      by (rule emits_bind [OF emits_cleanup_uncaptured])
        (use fs es that in \<open>auto intro!: emits_fail\<close>)
  qed (use es that in auto)
  show "emits ?U (case rep of
       Raised KeyboardInterrupt \<Rightarrow> wfail (Escaped KeyboardInterrupt)
     | Raised SystemExit \<Rightarrow> wfail (Escaped SystemExit)
     | Answer p \<Rightarrow> wtry (capture_identity os p nonce)
         (\<lambda>e. wbind (cleanup_uncaptured_process os p kill_grace) (\<lambda>_. wfail e))
     | _ \<Rightarrow> wfail (plain Worker_launch_failed))"
    using caught es by (auto intro!: emits_fail split: reply.splits exn.splits)
qed simp

text \<open>
  The log of a run: the state is looked at, a child is spawned and captured and everything after
  that belongs to the captured identity; or the child is killed uncaptured and nothing follows.
\<close>

definition run_log :: "(string \<Rightarrow> pyval option) \<Rightarrow> string \<Rightarrow> os_event list \<Rightarrow> bool" where
  "run_log load nonce es \<longleftrightarrow> es = [] \<or> (\<exists>d rest. es = Examine d # rest \<and> (rest = [] \<or>
     (\<exists>rep cs. rest = Spawn rep # cs \<and> list_all (uncaptured rep) cs) \<or>
     (\<exists>i cs os. rest = cs @ os \<and> captured nonce i cs \<and> owned_log load i os)))"

lemma run_log_Nil: "run_log load nonce []"
  by (simp add: run_log_def)

lemma run_owned: "emits (\<lambda>r. run_log load nonce)
  (run_owned_worker os load dump argv nonce b options probed)"
proof -
  let ?after = "\<lambda>i. wbind (persist_or_clean os load dump b i) (\<lambda>_.
    wbind (\<lambda>s. Some (Inr (), s\<lparr>active_progress := None\<rparr>)) (\<lambda>_.
    wbind (wtry (wait_for_worker os probed b) (cleanup_after_error os load b i)) (\<lambda>ended.
      finish_worker os load b i ended)))"
  have launched: "emits (\<lambda>r fs. run_log load nonce (Examine d # fs))
      (wbind (launch_worker os nonce (kill_grace_s b)) ?after)" for d
  proof (rule emits_bind [OF emits_launch])
    fix i es
    assume "(\<forall>i'. Inr i = Inr i' \<longrightarrow> captured nonce i' es) \<and> (\<forall>e. Inr i = Inl e \<longrightarrow>
      (\<exists>rep cs. es = Spawn rep # cs \<and> list_all (uncaptured rep) cs))"
    then have c: "captured nonce i es" by simp
    have "emits (\<lambda>_. owned_log load i) (?after i)"
      using owned.safe_owned unfolding owned.safe_def .
    then show "emits (\<lambda>r fs. run_log load nonce (Examine d # es @ fs)) (?after i)"
      by (rule emits_mono) (use c in \<open>auto simp: run_log_def\<close>)
  qed (auto simp: run_log_def)
  let ?examined = "\<lambda>_ :: unit. if forbidden_options \<inter> options \<noteq> {} then wfail (plain Popen_options_invalid)
    else wbind (launch_worker os nonce (kill_grace_s b)) ?after"
  have absent: "emits (\<lambda>r es. \<exists>d. es = [Examine d]) (ensure_state_absent os)"
    unfolding ensure_state_absent_def
  proof (rule emits_bind)
    show "emits (\<lambda>r es. \<exists>d. es = [Examine d]) (look_at_state os Examine)"
      by (rule emits_look) simp
  qed (auto intro!: emits_ret emits_fail split: state_entry.splits)
  have examined: "emits (\<lambda>r. run_log load nonce) (wbind (ensure_state_absent os) ?examined)"
    by (rule emits_bind [OF absent]) (use launched in \<open>auto simp: run_log_def intro!: emits_fail\<close>)
  have "emits (\<lambda>r. run_log load nonce) (wbind (lift (validate_run_nonce (PStr nonce))) (\<lambda>_.
      if \<not> valid_bounds b then wfail (plain Worker_timeout_invalid)
      else wbind (ensure_state_absent os) ?examined))"
  proof (rule emits_bind)
    show "emits (\<lambda>r es. es = []) (lift (validate_run_nonce (PStr nonce)))"
      by (rule emits_lift) simp
    fix x :: string and es :: "os_event list"
    assume "es = []"
    with examined show "emits (\<lambda>r fs. run_log load nonce (es @ fs))
        (if \<not> valid_bounds b then wfail (plain Worker_timeout_invalid)
         else wbind (ensure_state_absent os) ?examined)"
      by (simp add: run_log_Nil emits_fail split del: if_split) (simp add: run_log_Nil emits_fail)
  qed (simp add: run_log_Nil)
  then show ?thesis
    unfolding run_owned_worker_def by (simp add: run_log_Nil emits_fail)
qed

section \<open>Results\<close>

lemma wbind_Inr:
  "wbind m f s = Some (Inr y, s') \<longleftrightarrow> (\<exists>x t. m s = Some (Inr x, t) \<and> f x t = Some (Inr y, s'))"
  by (auto simp: wbind_def split: option.splits sum.splits)

lemma wbind_InrE:
  assumes "wbind m f s = Some (Inr y, s')"
  obtains x t where "m s = Some (Inr x, t)" "f x t = Some (Inr y, s')"
  using assms by (auto simp: wbind_Inr)

lemma act_Inr [simp]:
  "wret x s = Some (Inr y, s') \<longleftrightarrow> y = x \<and> s' = s"
  "wfail e s \<noteq> Some (Inr y, s')"
  "lift r s = Some (Inr y, s') \<longleftrightarrow> r = Inr y \<and> s' = s"
  by (auto simp: wret_def wfail_def lift_def)

lemma wtry_Inr:
  "wtry m h s = Some (Inr y, s') \<longleftrightarrow> m s = Some (Inr y, s') \<or>
     (\<exists>e t. m s = Some (Inl e, t) \<and> h e t = Some (Inr y, s'))"
  by (auto simp: wtry_def split: option.splits sum.splits)

lemma ask_Inr: "ask call event s = Some (Inr r, s') \<longleftrightarrow>
    (\<exists>e. call (env s) = (r, e) \<and> s' = s\<lparr>env := e, trace := trace s @ [event r]\<rparr>)"
  by (auto simp: ask_def split: prod.splits)

text \<open>The log ends with the certificate of absence and the removal of the record.\<close>

definition certified_end ::
  "(string \<Rightarrow> pyval option) \<Rightarrow> worker_identity \<Rightarrow> os_event list \<Rightarrow> bool" where
  "certified_end load i es \<longleftrightarrow> (\<exists>pre f. es = pre @ [Signal_group (pgid i) 0 Not_found,
     Open_state (Stored f), Unlink_state Unlinked] \<and> read_identity load (run_nonce i) f = Inr i)"

lemma load_Inr:
  assumes "load_worker_identity os load nonce s = Some (Inr r, s')"
  shows "trace s' = trace s @ [Open_state (disk s')] \<and>
    (case r of None \<Rightarrow> disk s' = Absent
     | Some i \<Rightarrow> \<exists>f. disk s' = Stored f \<and> read_identity load nonce f = Inr i)"
  using assms unfolding load_worker_identity_def wbind_Inr look_at_state_def
  by (auto simp: wbind_Inr split: prod.splits state_entry.splits)

lemma remove_Inr:
  assumes "remove_matching_state os load i s = Some (Inr u, s')"
  obtains f where "trace s' = trace s @ [Open_state (Stored f), Unlink_state Unlinked]"
    "read_identity load (run_nonce i) f = Inr i" "disk s' = Absent"
proof -
  from assms obtain r t where "load_worker_identity os load (run_nonce i) s = Some (Inr r, t)"
      "r = Some i" and unlink: "unlink_state os t = Some (Inr Unlinked, s')"
    unfolding remove_matching_state_def wbind_Inr by (auto split: if_splits simp: wbind_Inr)
  with load_Inr [of os load "run_nonce i" s r t] obtain f where
    f: "trace t = trace s @ [Open_state (Stored f)]" "read_identity load (run_nonce i) f = Inr i"
    by auto
  from unlink have "trace s' = trace t @ [Unlink_state Unlinked]" "disk s' = Absent"
    by (auto simp: unlink_state_def Let_def split: prod.splits if_splits)
  with f show thesis by (intro that) auto
qed

lemma group_absent_Inr:
  "group_exists os g s = Some (Inr False, s') \<Longrightarrow> trace s' = trace s @ [Signal_group g 0 Not_found]"
  by (auto simp: group_exists_def ask_Inr elim!: wbind_InrE split: reply.splits)

text \<open>What a removed record leaves: the identity, the flags and the end of the log.\<close>

definition cleaned :: "(string \<Rightarrow> pyval option) \<Rightarrow> worker_identity \<Rightarrow> cleanup_result \<Rightarrow> 's sys \<Rightarrow> bool" where
  "cleaned load i res s \<longleftrightarrow> cleanup_identity res = Some i \<and> state_removed res \<and> disk s = Absent \<and>
     certified_end load i (trace s) \<and> (sigkill_sent res \<longrightarrow> sigint_sent res) \<and>
     (cleanup_outcome res = Killed \<longrightarrow> sigint_sent res) \<and>
     (process_lookup_race res \<longrightarrow> \<not> (sigint_sent res \<and> cleanup_outcome res = Interrupted))"

lemma removed_cleaned:
  assumes "group_exists os (pgid i) s = Some (Inr False, t)"
    and "remove_matching_state os load i t = Some (Inr u, s')"
  shows "disk s' = Absent \<and> certified_end load i (trace s')"
proof -
  from assms(2) obtain f where "trace s' = trace t @ [Open_state (Stored f), Unlink_state Unlinked]"
      "read_identity load (run_nonce i) f = Inr i" "disk s' = Absent" by (rule remove_Inr)
  with group_absent_Inr [OF assms(1)] show ?thesis by (auto simp: certified_end_def)
qed

lemma certify_Inr:
  assumes "certify_absent_and_remove os load i outcome rc int_sent kill_sent race True s = Some (Inr res, s')"
  shows "disk s' = Absent \<and> certified_end load i (trace s') \<and>
    res = make_result outcome (Some i) rc int_sent kill_sent race True"
  using assms removed_cleaned
  by (auto simp: certify_absent_and_remove_def elim!: wbind_InrE split: if_splits) blast+

lemma terminate_Inr:
  assumes "terminate_current_process os load i ig kg True s = Some (Inr res, s')"
  shows "cleaned load i res s' \<and> return_code res \<noteq> None \<and>
    cleanup_outcome res \<in> {Already_exited, Interrupted, Killed}"
proof -
  have missing: "cleaned load i res s' \<and> return_code res \<noteq> None \<and>
      cleanup_outcome res \<in> {Already_exited, Interrupted, Killed}"
    if "reap_missing os load i True e t = Some (Inr res, s')" for e t
    using that by (auto simp: reap_missing_def cleaned_def make_result_def
        dest!: certify_Inr elim!: wbind_InrE split: worker_error.splits worker_code.splits wait_reply.splits)
  have killed: "cleaned load i res s' \<and> return_code res \<noteq> None \<and>
      cleanup_outcome res \<in> {Already_exited, Interrupted, Killed}"
    if "reap_killed os load i kg True t = Some (Inr res, s')" for t
    using that by (auto simp: reap_killed_def Let_def cleaned_def make_result_def
        dest!: certify_Inr elim!: wbind_InrE split: wait_reply.splits)
  have interrupted: "cleaned load i res s' \<and> return_code res \<noteq> None \<and>
      cleanup_outcome res \<in> {Already_exited, Interrupted, Killed}"
    if "reap_interrupted os load i ig kg True sent t = Some (Inr res, s')" for sent t
    using that killed by (auto simp: reap_interrupted_def cleaned_def make_result_def
        dest!: certify_Inr elim!: wbind_InrE split: wait_reply.splits if_splits)
  have exited: "cleaned load i res s' \<and> return_code res \<noteq> None \<and>
      cleanup_outcome res \<in> {Already_exited, Interrupted, Killed}"
    if "certify_absent_and_remove os load i Already_exited (Some rc) False False False True t
      = Some (Inr res, s')" for rc t
    using certify_Inr [OF that] by (auto simp: cleaned_def make_result_def)
  show ?thesis
    using assms missing interrupted exited unfolding terminate_current_process_def wtry_else_def
    by (auto elim!: wbind_InrE split: if_splits wait_reply.splits sum.splits)
qed

lemma finish_Inr:
  assumes "finish_worker os load b i ended s = Some (Inr res, s')"
  shows "cleaned load i (run_cleanup res) s' \<and>
    return_code (run_cleanup res) = Some (run_return_code res) \<and>
    timeout_phase res = snd ended \<and> (timed_out res \<longleftrightarrow> timeout_phase res \<noteq> None) \<and>
    (\<not> timed_out res \<longrightarrow> cleanup_outcome (run_cleanup res) = Completed)"
  using assms unfolding finish_worker_def
  by (auto simp: cleaned_def make_result_def dest!: certify_Inr terminate_Inr elim!: wbind_InrE
      split: prod.splits option.splits)

lemma run_Inr:
  assumes "run_owned_worker os load dump argv nonce b options probed s = Some (Inr res, s')"
  obtains i where "cleaned load i (run_cleanup res) s'"
    "return_code (run_cleanup res) = Some (run_return_code res)"
    "timed_out res \<longleftrightarrow> timeout_phase res \<noteq> None"
    "\<not> timed_out res \<longrightarrow> cleanup_outcome (run_cleanup res) = Completed"
  using assms unfolding run_owned_worker_def
  by (auto elim!: wbind_InrE split: if_splits dest!: finish_Inr)

text \<open>A recovery that reports an absent group has just read it.\<close>

lemma snapshot_none_Inr:
  "snapshot_for_pid os p s = Some (Inr None, s') \<Longrightarrow> trace s' = trace s @ [Read_stat p Not_found]"
  by (auto simp: snapshot_for_pid_def ask_Inr elim!: wbind_InrE split: reply.splits if_splits)

lemma loop_Inr:
  fixes body :: "'p \<Rightarrow> ('s, 'p + 'r) act"
  assumes "wloop body p s = Some (Inr r, s')"
  obtains q t where "body q t = Some (Inr (Inr r), s')"
proof -
  let ?P = "\<lambda>(b :: 'p \<Rightarrow> ('s, 'p + 'r) act) (p :: 'p) (s :: 's sys) y. \<forall>r s'. y = (Inr r, s') \<longrightarrow> (\<exists>q t. b q t = Some (Inr (Inr r), s'))"
  have "?P b p s y" if "wloop b p s = Some y" for b p s y
  proof (rule wloop.raw_induct [where P = ?P, OF _ that])
    fix loop b p s y
    assume IH: "\<And>b p s y. loop b p s = Some y \<Longrightarrow> ?P b p s y"
      and "(case b p s of None \<Rightarrow> None | Some (Inl e, s') \<Rightarrow> Some (Inl e, s')
        | Some (Inr (Inl q), s') \<Rightarrow> loop b q s' | Some (Inr (Inr r), s') \<Rightarrow> Some (Inr r, s')) = Some y"
    then show "?P b p s y"
      by (auto split: option.splits sum.splits prod.splits)
  qed
  with assms that show thesis by blast
qed

lemma gone_Inr:
  assumes "wait_for_recovery_exit os i timeout poll_interval s = Some (Inr Gone, s')"
  obtains t where "group_exists os (pgid i) t = Some (Inr False, s')"
proof -
  from assms obtain q t deadline where
    "recovery_round os i deadline poll_interval q t = Some (Inr (Inr Gone), s')"
    unfolding wait_for_recovery_exit_def by (auto elim!: wbind_InrE loop_Inr)
  with that show thesis
    unfolding recovery_round_def by (auto elim!: wbind_InrE split: option.splits if_splits)
qed

lemma recovered_Inr:
  assumes "group_exists os (pgid i) t = Some (Inr False, s)"
    and "recovered os load i outcome int_sent kill_sent race s = Some (Inr res, s')"
  shows "disk s' = Absent \<and> certified_end load i (trace s') \<and>
    res = make_result outcome (Some i) None int_sent kill_sent race True"
  using assms removed_cleaned by (auto simp: recovered_def elim!: wbind_InrE) blast+

lemma recovered_cleaned:
  assumes "group_exists os (pgid i) t = Some (Inr False, s)"
    and "recovered os load i outcome int_sent kill_sent race s = Some (Inr res, s')"
    and "kill_sent \<longrightarrow> int_sent" and "outcome = Killed \<longrightarrow> int_sent"
    and "race \<longrightarrow> \<not> (int_sent \<and> outcome = Interrupted)"
  shows "cleaned load i res s'"
  using recovered_Inr [OF assms(1,2)] assms(3-) by (simp add: cleaned_def make_result_def)

lemma recover_Inr:
  assumes "recover_owned_worker os load nonce ig kg poll_s s = Some (Inr res, s')"
    and "cleanup_outcome res \<noteq> No_state"
  obtains i where "cleaned load i res s'" "run_nonce i = nonce"
proof -
  from assms obtain i t where load: "load_worker_identity os load nonce s = Some (Inr (Some i), t)"
    and rest: "wbind (snapshot_for_pid os (pid i)) (\<lambda>r. case r of
       None \<Rightarrow> wbind (group_exists os (pgid i)) (\<lambda>alive.
         if alive then wfail (owned_error Ownership_ambiguous i)
         else recovered os load i Already_exited False False True)
     | Some _ \<Rightarrow> recover_live os load i ig kg poll_s) t = Some (Inr res, s')"
    unfolding recover_owned_worker_def
    by (auto simp: make_result_def elim!: wbind_InrE split: if_splits option.splits)
  have nonce: "run_nonce i = nonce"
    using load_Inr [OF load] by (auto dest: read_identity_wf)
  have kill: "cleaned load i res s'"
    if "recover_by_kill os load i kg poll_s t = Some (Inr res, s')" for t
    using that unfolding recover_by_kill_def
    by (auto elim!: wbind_InrE gone_Inr split: if_splits intro: recovered_cleaned)
  have live: "cleaned load i res s'"
    if "recover_live os load i ig kg poll_s t = Some (Inr res, s')" for t
    using that kill unfolding recover_live_def
    by (auto elim!: wbind_InrE gone_Inr split: if_splits intro: recovered_cleaned)
  have absent: "cleaned load i res s'"
    if "group_exists os (pgid i) t = Some (Inr False, u)"
      "recovered os load i Already_exited False False True u = Some (Inr res, s')" for t u
    using recovered_cleaned [OF that] by simp
  have "cleaned load i res s'"
    using rest live absent by (auto elim!: wbind_InrE split: if_splits option.splits)
  with nonce that show thesis by blast
qed

section \<open>Recovery ends\<close>

text \<open>A clock that never goes back and that every sleep advances.\<close>

definition steady :: "'s os \<Rightarrow> ('s \<Rightarrow> real) \<Rightarrow> bool" where
  "steady os now \<longleftrightarrow> (\<forall>e. fst (monotonic os e) = now e \<and> now e \<le> now (snd (monotonic os e))) \<and>
     (\<forall>d e. 0 \<le> d \<longrightarrow> now e + d \<le> now (sleeper os d e)) \<and>
     (\<forall>p e. now e \<le> now (snd (proc_reader os p e)))"

definition returns :: "('s, 'a) act \<Rightarrow> bool" where
  "returns m \<longleftrightarrow> (\<forall>s. m s \<noteq> None)"

lemma returns_intros:
  "returns (wret x)" "returns (wfail e)" "returns (lift r)" "returns (ask call event)"
  "returns (look_at_state os ev)" "returns (unlink_state os)"
  "returns m \<Longrightarrow> (\<And>x. returns (f x)) \<Longrightarrow> returns (wbind m f)"
  by (auto simp: returns_def wret_def wfail_def lift_def ask_def wbind_def look_at_state_def
      unlink_state_def Let_def split: prod.splits option.splits sum.splits)

lemma returns_calls:
  "returns (read_clock os)" "returns (sleep_for os d)"
  "returns (snapshot_for_pid os p)" "returns (group_exists os g)"
  unfolding read_clock_def sleep_for_def snapshot_for_pid_def group_exists_def
  by (auto intro!: returns_intros split: reply.splits)

lemma returns_owned: "returns (assert_owned_process os i)"
  unfolding assert_owned_process_def
  by (auto intro!: returns_intros returns_calls split: option.splits)

lemma returns_signal: "returns (signal_exact_group os i a)"
  unfolding signal_exact_group_def
  by (auto intro!: returns_intros returns_owned split: reply.splits)

lemma returns_load: "returns (load_worker_identity os load nonce)"
  unfolding load_worker_identity_def by (auto intro!: returns_intros split: state_entry.splits)

lemma returns_recovered: "returns (recovered os load i outcome int_sent kill_sent race)"
  unfolding recovered_def remove_matching_state_def
  by (auto intro!: returns_intros returns_load)

lemma returns_round: "returns (recovery_round os i deadline poll_interval u)"
  unfolding recovery_round_def
  by (auto intro!: returns_intros returns_calls split: option.splits)

lemma snapshot_env: "snapshot_for_pid os p s = Some (r, t) \<Longrightarrow> env t = snd (proc_reader os p (env s))"
  by (auto simp: snapshot_for_pid_def wbind_def ask_def lift_def wret_def wfail_def
      split: prod.splits reply.splits sum.splits if_splits option.splits)

text \<open>A round that goes on happened before the deadline and has moved the clock.\<close>

lemma round_advances:
  assumes "steady os now" and "0 < poll_interval"
    and "recovery_round os i deadline poll_interval u s = Some (Inr (Inl v), s')"
  shows "now (env s) < deadline \<and> min deadline (now (env s) + poll_interval) \<le> now (env s')"
proof -
  from assms(3) obtain snap t where snap: "snapshot_for_pid os (pid i) s = Some (Inr (Some snap), t)"
    and rest: "wbind (read_clock os) (\<lambda>now.
            if deadline - now \<le> 0 then wret (Inr Alive)
            else wbind (sleep_for os (min poll_interval (deadline - now))) (\<lambda>_. wret (Inl ()))) t
      = Some (Inr (Inl v), s')"
    unfolding recovery_round_def by (auto elim!: wbind_InrE split: option.splits if_splits)
  obtain c e where c: "monotonic os (env t) = (c, e)" by force
  from rest c have before: "c < deadline" and e': "env s' = sleeper os (min poll_interval (deadline - c)) e"
    by (auto simp: wbind_def read_clock_def sleep_for_def ask_def wret_def split: if_splits)
  have "now (env s) \<le> now (env t)" "now (env t) = c" "c \<le> now e"
    using assms(1) c snapshot_env [OF snap] by (auto simp: steady_def) (metis fst_conv snd_conv)+
  moreover have "now e + min poll_interval (deadline - c) \<le> now (env s')"
    using assms(1,2) before unfolding e' steady_def by auto
  ultimately show ?thesis using before by linarith
qed

lemma recovery_loop_ends:
  assumes "steady os now" and "0 < poll_interval" and "deadline \<le> now (env s) + real n * poll_interval"
  shows "wloop (recovery_round os i deadline poll_interval) u s \<noteq> None"
  using assms(3)
proof (induction n arbitrary: s u)
  case 0
  obtain r t where "recovery_round os i deadline poll_interval u s = Some (r, t)"
    using returns_round unfolding returns_def by fast
  with round_advances [OF assms(1,2)] 0 show ?case
    by (subst wloop.simps) (fastforce split: sum.splits)
next
  case (Suc n)
  obtain r t where round: "recovery_round os i deadline poll_interval u s = Some (r, t)"
    using returns_round unfolding returns_def by fast
  show ?case
  proof (cases "\<exists>v. r = Inr (Inl v)")
    case True
    then obtain v where r: "r = Inr (Inl v)" by blast
    have "min deadline (now (env s) + poll_interval) \<le> now (env t)"
      using round_advances [OF assms(1,2) round [unfolded r]] by blast
    moreover have "0 \<le> real n * poll_interval" using assms(2) by simp
    ultimately have "deadline \<le> now (env t) + real n * poll_interval"
      using Suc.prems by (auto simp: algebra_simps min_def split: if_splits)
    from Suc.IH [OF this] round r show ?thesis by (subst wloop.simps) simp
  next
    case False
    with round show ?thesis by (subst wloop.simps) (auto split: sum.splits)
  qed
qed

lemma returns_wait_for_recovery:
  assumes "steady os now" and "0 < poll_interval"
  shows "returns (wait_for_recovery_exit os i timeout poll_interval)"
proof -
  have "returns (wloop (recovery_round os i deadline poll_interval) u)" for deadline u
    unfolding returns_def
  proof
    fix s :: "'a sys"
    obtain n where "(deadline - now (env s)) / poll_interval \<le> real n"
      using real_arch_simple by blast
    then have "deadline \<le> now (env s) + real n * poll_interval"
      using assms(2) by (simp add: pos_divide_le_eq algebra_simps)
    from recovery_loop_ends [OF assms this]
    show "wloop (recovery_round os i deadline poll_interval) u s \<noteq> None" .
  qed
  then show ?thesis
    unfolding wait_for_recovery_exit_def by (intro returns_intros returns_calls)
qed

lemma returns_recover:
  assumes "steady os now"
  shows "returns (recover_owned_worker os load nonce ig kg poll_interval)"
proof (cases "poll_interval > 0")
  case True
  note wait = returns_wait_for_recovery [OF assms True]
  have "returns (recover_by_kill os load i kg poll_interval)" for i
    unfolding recover_by_kill_def
    by (auto intro!: returns_intros returns_signal wait returns_recovered)
  then have "returns (recover_live os load i ig kg poll_interval)" for i
    unfolding recover_live_def
    by (auto intro!: returns_intros returns_signal returns_owned wait returns_recovered)
  then show ?thesis
    unfolding recover_owned_worker_def
    by (auto intro!: returns_intros returns_calls returns_load returns_recovered
        split: option.splits)
next
  case False
  then show ?thesis by (simp add: recover_owned_worker_def returns_intros)
qed

section \<open>Deadlines\<close>

text \<open>Progress only moves on: a later phase, or the same phase with the same deadline.\<close>

definition progress_le :: "worker_progress option \<Rightarrow> worker_progress option \<Rightarrow> bool" where
  "progress_le a b \<longleftrightarrow> (case a of None \<Rightarrow> True | Some p \<Rightarrow>
     (case b of None \<Rightarrow> False | Some q \<Rightarrow>
       the (phase_rank (progress_phase p)) < the (phase_rank (progress_phase q)) \<or> same_progress p q))"

definition known_progress :: "worker_progress option \<Rightarrow> bool" where
  "known_progress a \<longleftrightarrow> (case a of None \<Rightarrow> True | Some p \<Rightarrow>
     phase_rank (progress_phase p) \<noteq> None \<and> 0 < deadline_of p)"

lemma progress_le_trans: "progress_le a b \<Longrightarrow> progress_le b c \<Longrightarrow> progress_le a c"
  by (auto simp: progress_le_def same_progress_def split: option.splits)

lemma phase_rank_inj: "phase_rank p = Some r \<Longrightarrow> phase_rank q = Some r \<Longrightarrow> p = q"
  by (auto simp: phase_rank_def split: if_splits)

lemma deadline_value_pos: "deadline_value v = Inr (Some d) \<Longrightarrow> 0 < d"
  by (auto simp: deadline_value_def split: pyval.splits pyfloat.splits sum.splits if_splits)

lemma same_progress_sym: "same_progress p q \<Longrightarrow> same_progress q p"
  by (simp add: same_progress_def)

lemma validated_moves_on:
  assumes "validated_worker_progress v prior = Inr cur" and "known_progress prior"
  shows "progress_le prior cur \<and> known_progress cur"
  using assms by (auto simp: validated_worker_progress_def progress_le_def known_progress_def
      deadline_of_def andThen_eq_Inr not_less dest: phase_rank_inj deadline_value_pos same_progress_sym
      split: probe_value.splits option.splits if_splits)

text \<open>
  The wait gave up on a phase: a clock reading past its deadline, a probe that still showed the
  same progress and a last poll of the child.
\<close>

definition expired :: "real \<Rightarrow> string \<Rightarrow> os_event list \<Rightarrow> bool" where
  "expired start_deadline phase es \<longleftrightarrow> (\<exists>pre now v p q.
     es = pre @ [Clock now, Probe (Answer v), Wait 0 Wait_expired] \<and> phase = phase_name p \<and>
     validated_worker_progress v p = Inr q \<and> same_observation q p \<and>
     (case p of None \<Rightarrow> start_deadline | Some w \<Rightarrow> deadline_of w) \<le> now)"

lemma emits_observe:
  "emits (\<lambda>r es. (\<exists>rep. es = [Probe rep]) \<and> (\<forall>q. r = Inr q \<longrightarrow>
     (\<exists>v. es = [Probe (Answer v)] \<and> validated_worker_progress v prior = Inr q)))
   (observe_progress os prior)"
  unfolding observe_progress_def ask_progress_def
proof (rule emits_bind)
  show "emits (\<lambda>r es. (\<exists>rep. es = [Probe rep]) \<and> (\<forall>v. r = Inr v \<longrightarrow> es = [Probe (Answer v)]))
    (wbind (ask (progress_probe os) Probe) (\<lambda>r. case r of
       Answer v \<Rightarrow> wret v | Not_found \<Rightarrow> wfail (Escaped OSError)
     | Os_failed \<Rightarrow> wfail (Escaped OSError) | Raised x \<Rightarrow> wfail (Escaped x)))"
  proof (rule emits_bind)
    show "emits (\<lambda>r es. \<exists>rep. r = Inr rep \<and> es = [Probe rep]) (ask (progress_probe os) Probe)"
      by (rule emits_ask) simp
  qed (auto intro!: emits_ret emits_fail split: reply.splits)
qed (auto simp: emits_def wbind_def lift_def split: sum.splits)

lemma round_expires:
  "emits (\<lambda>r es. \<forall>phase rc. r = Inr (Inr (rc, Some phase)) \<longrightarrow> expired start_deadline phase es)
    (progress_round os durations start_deadline poll_interval prior)"
  unfolding progress_round_def Let_def
proof (rule emits_bind [OF emits_observe])
  fix progress es
  let ?deadline = "case progress of None \<Rightarrow> start_deadline | Some p \<Rightarrow> deadline_of p"
  have clock: "emits (\<lambda>r fs. \<exists>now. r = Inr now \<and> fs = [Clock now]) (read_clock os)"
    unfolding read_clock_def by (rule emits_ask) simp
  have wait: "emits (\<lambda>r fs. \<exists>w. r = Inr w \<and> fs = [Wait d w]) (wait_for os d)" for d
    unfolding wait_for_def by (rule emits_ask) simp
  let ?U = "\<lambda>r gs. \<forall>phase rc. r = Inr (Inr (rc, Some phase)) \<longrightarrow> expired start_deadline phase gs"
  have late: "emits (\<lambda>r fs. ?U r (pre @ [Clock now] @ fs))
      (wbind (observe_progress os progress) (\<lambda>refreshed.
       if \<not> same_observation refreshed progress then wret (Inl refreshed)
       else wbind (wait_for os 0) (\<lambda>w. case w of
           Exited rc \<Rightarrow> wret (Inr (Some rc, None))
         | Wait_expired \<Rightarrow> wret (Inr (None, Some (phase_name progress)))
         | Wait_raised x \<Rightarrow> wfail (Escaped x))))"
    if "?deadline \<le> now" for pre now
  proof (rule emits_bind [OF emits_observe])
    fix refreshed fs
    assume "(\<exists>rep. fs = [Probe rep]) \<and> (\<forall>q. Inr refreshed = Inr q \<longrightarrow>
      (\<exists>v. fs = [Probe (Answer v)] \<and> validated_worker_progress v progress = Inr q))"
    then obtain v where v: "fs = [Probe (Answer v)]"
        "validated_worker_progress v progress = Inr refreshed" by auto
    have "expired start_deadline (phase_name progress)
        (pre @ [Clock now] @ fs @ [Wait 0 Wait_expired])" if "same_observation refreshed progress"
      unfolding expired_def using v that \<open>?deadline \<le> now\<close>
      by (intro exI [of _ pre] exI [of _ now] exI [of _ v] exI [of _ progress] exI [of _ refreshed]) simp
    then show "emits (\<lambda>r gs. ?U r (pre @ [Clock now] @ fs @ gs))
       (if \<not> same_observation refreshed progress then wret (Inl refreshed)
       else wbind (wait_for os 0) (\<lambda>w. case w of
           Exited rc \<Rightarrow> wret (Inr (Some rc, None))
         | Wait_expired \<Rightarrow> wret (Inr (None, Some (phase_name progress)))
         | Wait_raised x \<Rightarrow> wfail (Escaped x)))"
      by (auto intro!: emits_ret emits_bind [OF wait] emits_fail split: wait_reply.splits)
  qed simp
  show "emits (\<lambda>r fs. ?U r (es @ fs)) (wbind (read_clock os) (\<lambda>now.
     if (case progress of None \<Rightarrow> False
         | Some p \<Rightarrow> (case durations (progress_phase p) of None \<Rightarrow> True
             | Some d \<Rightarrow> d < 0 \<or> ?deadline > now + d + 1 / 100))
     then wfail (plain Worker_progress_deadline_invalid)
     else if now \<ge> ?deadline then
       wbind (observe_progress os progress) (\<lambda>refreshed.
       if \<not> same_observation refreshed progress then wret (Inl refreshed)
       else wbind (wait_for os 0) (\<lambda>w. case w of
           Exited rc \<Rightarrow> wret (Inr (Some rc, None))
         | Wait_expired \<Rightarrow> wret (Inr (None, Some (phase_name progress)))
         | Wait_raised x \<Rightarrow> wfail (Escaped x)))
     else wbind (wait_for os (min poll_interval (?deadline - now))) (\<lambda>w. case w of
           Exited rc \<Rightarrow> wret (Inr (Some rc, None))
         | Wait_expired \<Rightarrow> wret (Inl progress)
         | Wait_raised x \<Rightarrow> wfail (Escaped x))))"
  proof (rule emits_bind [OF clock])
    fix now fs
    assume "\<exists>t. Inr now = Inr t \<and> fs = [Clock t]"
    then have fs: "fs = [Clock now]" by simp
    have early: "emits (\<lambda>r gs. ?U r (es @ fs @ gs))
      (wbind (wait_for os (min poll_interval (?deadline - now))) (\<lambda>w. case w of
           Exited rc \<Rightarrow> wret (Inr (Some rc, None))
         | Wait_expired \<Rightarrow> wret (Inl progress)
         | Wait_raised x \<Rightarrow> wfail (Escaped x)))"
      by (auto intro!: emits_bind [OF wait] emits_ret emits_fail split: wait_reply.splits)
    show "emits (\<lambda>r gs. ?U r (es @ fs @ gs)) (if (case progress of None \<Rightarrow> False
         | Some p \<Rightarrow> (case durations (progress_phase p) of None \<Rightarrow> True
             | Some d \<Rightarrow> d < 0 \<or> ?deadline > now + d + 1 / 100))
     then wfail (plain Worker_progress_deadline_invalid)
     else if now \<ge> ?deadline then
       wbind (observe_progress os progress) (\<lambda>refreshed.
       if \<not> same_observation refreshed progress then wret (Inl refreshed)
       else wbind (wait_for os 0) (\<lambda>w. case w of
           Exited rc \<Rightarrow> wret (Inr (Some rc, None))
         | Wait_expired \<Rightarrow> wret (Inr (None, Some (phase_name progress)))
         | Wait_raised x \<Rightarrow> wfail (Escaped x)))
     else wbind (wait_for os (min poll_interval (?deadline - now))) (\<lambda>w. case w of
           Exited rc \<Rightarrow> wret (Inr (Some rc, None))
         | Wait_expired \<Rightarrow> wret (Inl progress)
         | Wait_raised x \<Rightarrow> wfail (Escaped x)))"
      using early late [of now es] fs by (simp add: emits_fail split del: option.split)
  qed simp
qed simp

text \<open>The loop of the wait, and the whole run, give up only on an expired phase.\<close>

lemma wait_expires:
  "emits (\<lambda>r es. \<forall>phase rc. r = Inr (rc, Some phase) \<longrightarrow>
     (\<exists>t rest. es = Clock t # rest \<and> expired (t + start_timeout) phase rest))
   (wait_with_progress_deadlines os durations start_timeout poll_interval)"
  unfolding wait_with_progress_deadlines_def
proof (rule emits_bind)
  show "emits (\<lambda>r fs. \<exists>now. r = Inr now \<and> fs = [Clock now]) (read_clock os)"
    unfolding read_clock_def by (rule emits_ask) simp
  fix t es
  assume "\<exists>now. Inr t = Inr now \<and> es = [Clock now]"
  then have es: "es = [Clock t]" by simp
  have later: "expired d phase fs \<Longrightarrow> expired d phase (gs @ fs)" for d phase fs gs
    unfolding expired_def by (metis append.assoc)
  have "emits (\<lambda>r fs. \<forall>phase rc. r = Inr (rc, Some phase) \<longrightarrow> expired (t + start_timeout) phase fs)
      (wloop (progress_round os durations (t + start_timeout) poll_interval) None)"
  proof (rule emits_loop [where I = "\<lambda>_ _. True"])
    fix p fs
    show "emits (\<lambda>r gs. case r of Inr (Inl q) \<Rightarrow> True
        | Inr (Inr x) \<Rightarrow> \<forall>phase rc. Inr x = Inr (rc, Some phase) \<longrightarrow> expired (t + start_timeout) phase (fs @ gs)
        | Inl e \<Rightarrow> \<forall>phase rc. Inl e = Inr (rc, Some phase) \<longrightarrow> expired (t + start_timeout) phase (fs @ gs))
      (progress_round os durations (t + start_timeout) poll_interval p)"
      by (rule emits_mono [OF round_expires]) (auto intro: later split: sum.splits)
  qed simp
  then show "emits (\<lambda>r fs. \<forall>phase rc. r = Inr (rc, Some phase) \<longrightarrow>
      (\<exists>u rest. es @ fs = Clock u # rest \<and> expired (u + start_timeout) phase rest))
    (wloop (progress_round os durations (t + start_timeout) poll_interval) None)"
    by (rule emits_mono) (simp add: es)
qed simp

end
