(* ===== verification/Worker_Guarantees.thy ===== *)
theory Worker_Guarantees
  imports Worker_Ownership
begin

text \<open>
  The properties of the worker controller, with a small kernel as their witness: a clock that
  sleeping moves and one child that dies of any signal.
\<close>

section \<open>The record survives the controller\<close>

text \<open>No other process touches the state file.\<close>

definition undisturbed :: "'s os \<Rightarrow> bool" where
  "undisturbed os \<longleftrightarrow> (\<forall>d e. fst (meddle os d e) = d)"

lemma identity_canonical:
  "identity_wf i \<Longrightarrow> identity_from_mapping (run_nonce i) (canonical (identity_to_mapping i)) = Inr i"
  by (auto simp: identity_from_mapping_def identity_to_mapping_def identity_wf_def
      WORKER_STATE_KEYS_def WORKER_STATE_SCHEMA_VERSION_def validate_run_nonce_def
      validate_positive_integer_def)

lemma persisted_content:
  assumes "written_state os_write dump i = (f, True)"
  shows "f = new_file\<lparr>content := identity_payload dump i\<rparr>"
proof -
  obtain body outcome where loop: "write_loop os_write (identity_payload dump i) [] = (body, outcome)"
    by force
  with assms have "outcome = Inr ()" "f = new_file\<lparr>content := body\<rparr>"
    by (auto simp: written_state_def)
  with loop show ?thesis using write_loop_prefix [of os_write "identity_payload dump i" "[]" body]
    by auto
qed

lemma persisted_read:
  assumes "identity_wf i" and "length (identity_payload dump i) \<le> MAX_WORKER_STATE_BYTES"
    and "load (identity_payload dump i) = Some (canonical (identity_to_mapping i))"
  shows "read_identity load (run_nonce i) (new_file\<lparr>content := identity_payload dump i\<rparr>) = Inr i"
  using assms identity_canonical
  by (simp add: read_identity_def new_file_def state_mode_def identity_payload_def)


lemma persist_Inr:
  assumes "persist_worker_identity os dump i s = Some (Inr u, s')"
  shows "disk s' = Stored (new_file\<lparr>content := identity_payload dump i\<rparr>)"
  using assms persisted_content unfolding persist_worker_identity_def
  by (auto simp: Let_def split: prod.splits if_splits)

text \<open>
  A controller that dies after it wrote \<open>worker.json\<close> leaves its worker recoverable: when no
  other process touches the file and the JSON library reads back what it wrote, the record
  that \<open>_persist_worker_identity\<close> stored loads as exactly the captured identity, and a second
  launch in the same directory is refused with \<open>worker_state_exists\<close>.
\<close>

theorem worker_record_survives_restart:
  assumes "persist_worker_identity os dump i s = Some (Inr u, s')" and "identity_wf i"
    and "undisturbed os"
    and "length (identity_payload dump i) \<le> MAX_WORKER_STATE_BYTES"
    and "load (identity_payload dump i) = Some (canonical (identity_to_mapping i))"
  shows "(\<exists>t. load_worker_identity os load (run_nonce i) s' = Some (Inr (Some i), t)) \<and>
    (\<exists>t. ensure_state_absent os s' = Some (Inl (plain Worker_state_exists), t))"
proof -
  note stored = persist_Inr [OF assms(1)]
  have "read_identity load (run_nonce i) (new_file\<lparr>content := identity_payload dump i\<rparr>) = Inr i"
    using assms(2,4,5) by (rule persisted_read)
  moreover have "validate_run_nonce (PStr (run_nonce i)) = Inr (run_nonce i)"
    using assms(2) by (simp add: identity_wf_def validate_run_nonce_def)
  moreover obtain e where "meddle os (disk s') (env s') = (disk s', e)"
    using assms(3) unfolding undisturbed_def by (metis prod.collapse)
  ultimately show ?thesis
    using stored
    by (simp add: load_worker_identity_def ensure_state_absent_def wbind_def lift_def
        look_at_state_def wret_def wfail_def)
qed

section \<open>A small kernel\<close>

text \<open>The environment is a clock and whether the child lives; its status has PID and start time.\<close>

definition demo_identity :: worker_identity where
  "demo_identity = \<lparr>pid = 5, pgid = 5, start_ticks = 9, run_nonce = replicate 32 CHR ''a''\<rparr>"

definition demo_fields :: "string list" where
  "demo_fields = ''S'' # replicate 18 ''5'' @ [''9'']"

definition demo_os :: "(real \<times> bool) os" where
  "demo_os = \<lparr>proc_reader = (\<lambda>p (t, a). (if a then Answer (stat_text 5 ''w'' demo_fields) else Not_found, t, a)),
     signal_group = (\<lambda>g a (t, l). (if l then Answer () else Not_found, t, l \<and> a = 0)),
     signal_process = (\<lambda>p a (t, l). (if l then Answer () else Not_found, t, l \<and> a = 0)),
     poll_child = (\<lambda>(t, l). (if l then Wait_expired else Exited 130, t, l)),
     wait_child = (\<lambda>d (t, l). (if l then Wait_expired else Exited 130, t + d, l)),
     monotonic = (\<lambda>(t, l). (t, t, l)),
     sleeper = (\<lambda>d (t, l). (t + d, l)),
     meddle = (\<lambda>d e. (d, e)),
     parent_ready = (\<lambda>e. (True, e)),
     write_count = (\<lambda>e r. length r),
     synced = (\<lambda>e. (True, e)),
     unlink_call = (\<lambda>e. (Unlinked, e)),
     popen = (\<lambda>(t, l). (Answer 5, t, True)),
     progress_probe = (\<lambda>e. (Answer No_value, e))\<rparr>"

definition demo_dump :: "pyval \<Rightarrow> string" where
  "demo_dump v = ''x''"

definition demo_load :: "string \<Rightarrow> pyval option" where
  "demo_load s = Some (canonical (identity_to_mapping demo_identity))"

definition demo_sys :: "bool \<Rightarrow> state_entry \<Rightarrow> (real \<times> bool) sys" where
  "demo_sys alive d = \<lparr>env = (0, alive), disk = d, active_progress = None, trace = []\<rparr>"

definition demo_file :: journal_file where
  "demo_file = new_file\<lparr>content := ''x'' @ [LF]\<rparr>"

lemma demo_stat: "parse_proc_stat (stat_text 5 ''w'' demo_fields)
    = Inr \<lparr>snap_pid = 5, snap_pgid = 5, snap_ticks = 9\<rparr>"
proof -
  have shown: "show_nat 5 = ''5''" "show_nat 9 = ''9''" by (code_simp, code_simp)
  have nth: "demo_fields ! 2 = ''5''" "demo_fields ! 19 = ''9''"
    by (simp_all add: demo_fields_def nth_append)
  have "list_all word demo_fields" "\<forall>w \<in> set demo_fields. CHR '')'' \<notin> set w"
    by (auto simp: demo_fields_def word_def is_space_def LF_def CR_def list_all_iff)
  then show ?thesis
    using parse_stat_text [of demo_fields 5 9 5 "''w''"] shown nth
    by (simp add: small_digits demo_fields_def)
qed

lemma demo_wf: "identity_wf demo_identity" "nonce_text (run_nonce demo_identity)"
  by (simp_all add: identity_wf_def demo_identity_def nonce_text_def less_eq_char_def list_all_iff)

lemma demo_nonce: "validate_run_nonce (PStr (run_nonce demo_identity)) = Inr (run_nonce demo_identity)"
  using demo_wf(2) by (simp add: validate_run_nonce_def)

lemma demo_read: "read_identity demo_load (run_nonce demo_identity) demo_file = Inr demo_identity"
  using identity_canonical [OF demo_wf(1)]
  by (simp add: read_identity_def demo_file_def new_file_def state_mode_def demo_load_def
      MAX_WORKER_STATE_BYTES_def)

lemma demo_matches: "matches_identity demo_identity \<lparr>snap_pid = 5, snap_pgid = 5, snap_ticks = 9\<rparr>"
  by (simp add: matches_identity_def demo_identity_def)

lemma demo_written: "written_state length demo_dump demo_identity = (demo_file, True)"
proof -
  have "write_loop length (''x'' @ [LF]) [] = ([] @ ''x'' @ [LF], Inr ())"
    by (rule write_loop_complete) simp
  then show ?thesis
    by (simp add: written_state_def identity_payload_def demo_dump_def demo_file_def)
qed

lemmas demo_eval = wbind_def wret_def wfail_def lift_def ask_def look_at_state_def

lemma demo_persist: "persist_worker_identity demo_os demo_dump demo_identity (demo_sys True Absent)
    = Some (Inr (), (demo_sys True (Stored demo_file))\<lparr>trace := [Create_state True]\<rparr>)"
  by (simp add: persist_worker_identity_def demo_os_def demo_sys_def demo_written)

theorem worker_record_survives_restart_witness:
  "(\<exists>t. load_worker_identity demo_os demo_load (run_nonce demo_identity)
      ((demo_sys True (Stored demo_file))\<lparr>trace := [Create_state True]\<rparr>)
      = Some (Inr (Some demo_identity), t)) \<and>
    (\<exists>t. ensure_state_absent demo_os ((demo_sys True (Stored demo_file))\<lparr>trace := [Create_state True]\<rparr>)
      = Some (Inl (plain Worker_state_exists), t))"
  by (rule worker_record_survives_restart [OF demo_persist demo_wf(1)])
    (simp_all add: undisturbed_def demo_os_def identity_payload_def demo_dump_def demo_load_def
      MAX_WORKER_STATE_BYTES_def)

lemma demo_fields_of_os [simp]:
  fixes t d :: real and l :: bool and p g a :: int
  shows
  "proc_reader demo_os p (t, l) = (if l then Answer (stat_text 5 ''w'' demo_fields) else Not_found, t, l)"
  "signal_group demo_os g a (t, l) = (if l then Answer () else Not_found, t, l \<and> a = 0)"
  "poll_child demo_os (t, l) = (if l then Wait_expired else Exited 130, t, l)"
  "wait_child demo_os d (t, l) = (if l then Wait_expired else Exited 130, t + d, l)"
  "monotonic demo_os (t, l) = (t, t, l)"
  "sleeper demo_os d (t, l) = (t + d, l)"
  "popen demo_os (t, l) = (Answer 5, t, True)"
  by (simp_all add: demo_os_def)

lemma demo_environment_kept [simp]:
  "meddle demo_os x e = (x, e)" "progress_probe demo_os e = (Answer No_value, e)"
  "unlink_call demo_os e = (Unlinked, e)"
  by (simp_all add: demo_os_def)

lemma demo_identity_simps [simp]:
  "pid demo_identity = 5" "pgid demo_identity = 5" "start_ticks demo_identity = 9"
  by (simp_all add: demo_identity_def)

lemma demo_snapshot:
  "env s = (t, True) \<Longrightarrow> snapshot_for_pid demo_os 5 s =
     Some (Inr (Some \<lparr>snap_pid = 5, snap_pgid = 5, snap_ticks = 9\<rparr>),
       s\<lparr>trace := trace s @ [Read_stat 5 (Answer (stat_text 5 ''w'' demo_fields))]\<rparr>)"
  "env s = (t, False) \<Longrightarrow> snapshot_for_pid demo_os 5 s =
     Some (Inr None, s\<lparr>trace := trace s @ [Read_stat 5 Not_found]\<rparr>)"
  by (simp_all add: snapshot_for_pid_def demo_eval demo_stat)

lemma demo_signal:
  "env s = (t, True) \<Longrightarrow> a \<noteq> 0 \<Longrightarrow> signal_exact_group demo_os demo_identity a s =
     Some (Inr True, s\<lparr>env := (t, False), trace := trace s @
       [Read_stat 5 (Answer (stat_text 5 ''w'' demo_fields)), Signal_group 5 a (Answer ())]\<rparr>)"
  by (simp add: signal_exact_group_def assert_owned_process_def demo_snapshot demo_matches demo_eval)

lemma demo_gone:
  "env s = (t, False) \<Longrightarrow> group_exists demo_os 5 s =
     Some (Inr False, s\<lparr>trace := trace s @ [Signal_group 5 0 Not_found]\<rparr>)"
  by (simp add: group_exists_def demo_eval)

lemma demo_load_state:
  "disk s = Stored demo_file \<Longrightarrow> load_worker_identity demo_os demo_load (run_nonce demo_identity) s =
     Some (Inr (Some demo_identity), s\<lparr>trace := trace s @ [Open_state (Stored demo_file)]\<rparr>)"
  by (simp add: load_worker_identity_def demo_eval demo_nonce demo_read)

lemma demo_remove:
  "disk s = Stored demo_file \<Longrightarrow> remove_matching_state demo_os demo_load demo_identity s =
     Some (Inr (), s\<lparr>disk := Absent, trace := trace s @ [Open_state (Stored demo_file), Unlink_state Unlinked]\<rparr>)"
  by (simp add: remove_matching_state_def demo_load_state unlink_state_def demo_eval)

text \<open>Recovery of the live child: SIGINT, and it is gone.\<close>

lemma demo_recovery:
  "\<exists>res t. recover_owned_worker demo_os demo_load (run_nonce demo_identity) 1 1 (1 / 4)
     (demo_sys True (Stored demo_file)) = Some (Inr res, t) \<and> cleanup_outcome res = Interrupted"
proof -
  let ?s = "demo_sys True (Stored demo_file)"
  have s: "env ?s = (0, True)" "disk ?s = Stored demo_file" by (simp_all add: demo_sys_def)
  have round: "wloop (recovery_round demo_os demo_identity d p) () u =
      Some (Inr Gone, u\<lparr>trace := trace u @ [Read_stat 5 Not_found, Signal_group 5 0 Not_found]\<rparr>)"
    if "env u = (t, False)" for u d p t
    using that by (subst wloop.simps)
      (simp add: recovery_round_def wbind_def demo_snapshot demo_gone wret_def)
  show ?thesis
    by (simp add: recover_owned_worker_def recover_live_def assert_owned_process_def
        wait_for_recovery_exit_def recovered_def read_clock_def demo_load_state demo_snapshot
        demo_signal demo_remove demo_matches round demo_eval SIGINT_def make_result_def
        demo_sys_def)
qed

text \<open>A run whose child outlives its second: SIGINT, reaped, and the record removed.\<close>

definition demo_bounds :: worker_bounds where
  "demo_bounds = \<lparr>timeout_s = 1, interrupt_grace_s = 1, kill_grace_s = 1,
     start_marker_timeout_s = 1, progress_poll_interval_s = 1 / 4\<rparr>"

lemma demo_run:
  "\<exists>res t. run_owned_worker demo_os demo_load demo_dump [''w''] (run_nonce demo_identity)
     demo_bounds {} False (demo_sys False Absent) = Some (Inr res, t) \<and> timed_out res"
proof -
  have launch: "launch_worker demo_os (run_nonce demo_identity) 1 s =
      Some (Inr demo_identity, s\<lparr>env := (0, True), trace := trace s @
        [Spawn (Answer 5), Read_stat 5 (Answer (stat_text 5 ''w'' demo_fields))]\<rparr>)"
    if "env s = (0, False)" for s
    using that by (simp add: launch_worker_def capture_identity_def wtry_def demo_eval demo_nonce
        demo_snapshot)
  have persist: "persist_worker_identity demo_os demo_dump demo_identity s =
      Some (Inr (), s\<lparr>disk := Stored demo_file, trace := trace s @ [Create_state True]\<rparr>)"
    if "disk s = Absent" for s
    using that by (simp add: persist_worker_identity_def demo_os_def demo_written)
  have reap: "certify_absent_and_remove demo_os demo_load demo_identity out rc a b c True s =
      Some (Inr (make_result out (Some demo_identity) rc a b c True), s\<lparr>disk := Absent,
        trace := trace s @ [Signal_group 5 0 Not_found, Open_state (Stored demo_file),
          Unlink_state Unlinked]\<rparr>)"
    if "env s = (t, False)" "disk s = Stored demo_file" for s t out rc a b c
    using that by (simp add: certify_absent_and_remove_def demo_gone demo_remove demo_eval)
  show ?thesis
    by (simp add: run_owned_worker_def valid_bounds_def demo_bounds_def forbidden_options_def
        ensure_state_absent_def persist_or_clean_def wait_for_worker_def finish_worker_def
        terminate_current_process_def wtry_else_def reap_interrupted_def wait_for_def wtry_def
        launch persist reap demo_signal demo_nonce demo_eval SIGINT_def make_result_def demo_sys_def)
qed

section \<open>Signals and removals\<close>

text \<open>
  C19. Recovery touches only the recorded worker. In the log of \<open>recover_owned_worker\<close> the first
  call opens the state file; unless that gave a valid record of this run nothing else follows,
  and otherwise every signal other than the probe 0 goes to the recorded process group
  immediately after a read of \<open>/proc\<close> that showed exactly the recorded PID, group and start
  time, and every unlink comes after a probe that found no group and a last read of the file
  that again gave the record.
\<close>

theorem recovery_acts_only_on_recorded_worker:
  assumes "recover_owned_worker os load nonce interrupt_grace kill_grace poll_interval s = Some (r, s')"
  shows "\<exists>es. trace s' = trace s @ es \<and> (es = [] \<or> (\<exists>d rest. es = Open_state d # rest \<and> (rest = [] \<or>
    (\<exists>f i. d = Stored f \<and> read_identity load nonce f = Inr i \<and>
      each (\<lambda>pre e. compared i pre e \<and> unlink_certified load i pre e) rest))))"
  using emitsD [OF recovery_owned assms] unfolding owned_log_def .

theorem recovery_acts_only_on_recorded_worker_witness:
  "\<exists>r t es. recover_owned_worker demo_os demo_load (run_nonce demo_identity) 1 1 (1 / 4)
       (demo_sys True (Stored demo_file)) = Some (r, t) \<and>
     trace t = [] @ es \<and> (es = [] \<or> (\<exists>d rest. es = Open_state d # rest \<and> (rest = [] \<or>
    (\<exists>f i. d = Stored f \<and> read_identity demo_load (run_nonce demo_identity) f = Inr i \<and>
      each (\<lambda>pre e. compared i pre e \<and> unlink_certified demo_load i pre e) rest))))"
proof -
  obtain res t where run: "recover_owned_worker demo_os demo_load (run_nonce demo_identity) 1 1 (1 / 4)
       (demo_sys True (Stored demo_file)) = Some (Inr res, t)" using demo_recovery by blast
  have "trace (demo_sys True (Stored demo_file)) = []" by (simp add: demo_sys_def)
  with recovery_acts_only_on_recorded_worker [OF run] run show ?thesis by auto
qed

text \<open>
  C20. A fresh run signals only its own child. The log of \<open>run_owned_worker\<close> is the look at the
  state file, the spawn and the capture of the child's identity, followed by calls in which
  every signal is compared and every unlink certified for that identity; or, when the capture
  failed, SIGKILLs to exactly the spawned PID and group, with no state written or removed.
\<close>

theorem run_acts_only_on_captured_worker:
  assumes "run_owned_worker os load dump argv nonce b options probed s = Some (r, s')"
  shows "\<exists>es. trace s' = trace s @ es \<and> (es = [] \<or> (\<exists>d rest. es = Examine d # rest \<and> (rest = [] \<or>
     (\<exists>rep cs. rest = Spawn rep # cs \<and> list_all (uncaptured rep) cs) \<or>
     (\<exists>i cs os. rest = cs @ os \<and> captured nonce i cs \<and>
       each (\<lambda>pre e. compared i pre e \<and> unlink_certified load i pre e) os))))"
  using emitsD [OF run_owned assms] unfolding run_log_def owned_log_def .

theorem run_acts_only_on_captured_worker_witness:
  "\<exists>r t es. run_owned_worker demo_os demo_load demo_dump [''w''] (run_nonce demo_identity)
     demo_bounds {} False (demo_sys False Absent) = Some (r, t) \<and>
   trace t = [] @ es \<and> (es = [] \<or> (\<exists>d rest. es = Examine d # rest \<and> (rest = [] \<or>
     (\<exists>rep cs. rest = Spawn rep # cs \<and> list_all (uncaptured rep) cs) \<or>
     (\<exists>i cs os. rest = cs @ os \<and> captured (run_nonce demo_identity) i cs \<and>
       each (\<lambda>pre e. compared i pre e \<and> unlink_certified demo_load i pre e) os))))"
proof -
  obtain res t where run: "run_owned_worker demo_os demo_load demo_dump [''w'']
      (run_nonce demo_identity) demo_bounds {} False (demo_sys False Absent) = Some (Inr res, t)"
    using demo_run by blast
  have "trace (demo_sys False Absent) = []" by (simp add: demo_sys_def)
  with run_acts_only_on_captured_worker [OF run] run show ?thesis by auto
qed

section \<open>Results\<close>

text \<open>
  A run that returns has cleaned up: the state file is gone, the log ends with a probe that
  found no process group, a last read of the record and its removal; the return code is the one
  the child was reaped with, SIGKILL was only ever sent after SIGINT, and the run counts as
  timed out exactly when a phase expired.
\<close>

theorem returned_run_is_cleaned_up:
  assumes "run_owned_worker os load dump argv nonce b options probed s = Some (Inr res, s')"
  shows "(\<exists>i. cleaned load i (run_cleanup res) s') \<and>
    return_code (run_cleanup res) = Some (run_return_code res) \<and>
    (timed_out res \<longleftrightarrow> timeout_phase res \<noteq> None) \<and>
    (\<not> timed_out res \<longrightarrow> cleanup_outcome (run_cleanup res) = Completed)"
  using run_Inr [OF assms] by metis

theorem returned_run_is_cleaned_up_witness:
  "\<exists>res t. run_owned_worker demo_os demo_load demo_dump [''w''] (run_nonce demo_identity)
     demo_bounds {} False (demo_sys False Absent) = Some (Inr res, t) \<and> timed_out res \<and>
     (\<exists>i. cleaned demo_load i (run_cleanup res) t) \<and>
     return_code (run_cleanup res) = Some (run_return_code res) \<and> timeout_phase res \<noteq> None"
proof -
  obtain res t where "run_owned_worker demo_os demo_load demo_dump [''w'']
      (run_nonce demo_identity) demo_bounds {} False (demo_sys False Absent) = Some (Inr res, t)"
    "timed_out res" using demo_run by blast
  with returned_run_is_cleaned_up [OF this(1)] show ?thesis by blast
qed

text \<open>
  A recovery that reports an outcome other than \<open>no_state\<close> has cleaned up in the same way: the
  identity it names carries the nonce of the run, its record is removed and the log ends with
  the certificate of absence.
\<close>

theorem returned_recovery_is_cleaned_up:
  assumes "recover_owned_worker os load nonce interrupt_grace kill_grace poll_interval s = Some (Inr res, s')"
    and "cleanup_outcome res \<noteq> No_state"
  shows "\<exists>i. cleaned load i res s' \<and> run_nonce i = nonce"
  using recover_Inr [OF assms] by metis

theorem returned_recovery_is_cleaned_up_witness:
  "\<exists>res t. recover_owned_worker demo_os demo_load (run_nonce demo_identity) 1 1 (1 / 4)
       (demo_sys True (Stored demo_file)) = Some (Inr res, t) \<and> cleanup_outcome res = Interrupted \<and>
     (\<exists>i. cleaned demo_load i res t \<and> run_nonce i = run_nonce demo_identity)"
proof -
  obtain res t where run: "recover_owned_worker demo_os demo_load (run_nonce demo_identity) 1 1 (1 / 4)
       (demo_sys True (Stored demo_file)) = Some (Inr res, t)" "cleanup_outcome res = Interrupted"
    using demo_recovery by blast
  with returned_recovery_is_cleaned_up [OF run(1)] show ?thesis by auto
qed

text \<open>
  C33. Recovery ends: with a clock that never goes back and that every sleep advances by what was
  asked, \<open>recover_owned_worker\<close> returns or raises on every state, however the process and the
  state file behave.
\<close>

theorem recovery_ends:
  assumes "steady os now"
  shows "recover_owned_worker os load nonce interrupt_grace kill_grace poll_interval s \<noteq> None"
  using returns_recover [OF assms] by (simp add: returns_def)

theorem recovery_ends_witness:
  "recover_owned_worker demo_os demo_load (run_nonce demo_identity) 1 1 (1 / 4)
     (demo_sys True (Stored demo_file)) \<noteq> None"
proof -
  have "steady demo_os fst" by (auto simp: steady_def)
  then show ?thesis by (rule recovery_ends)
qed

section \<open>Deadlines\<close>

text \<open>
  C34. A worker is timed out only after a deadline it had published: when
  \<open>_wait_with_progress_deadlines\<close> reports an expired phase, its log ends with a clock reading at
  or past that phase's deadline (before any marker, the start deadline counted from the first
  reading), a fresh probe that still showed the same progress and a poll that found the child
  running.
\<close>

theorem timeout_only_after_deadline:
  assumes "wait_with_progress_deadlines os durations start_timeout poll_interval s
    = Some (Inr (rc, Some phase), s')"
  shows "\<exists>t pre now v p q. trace s' = trace s @ Clock t # pre
      @ [Clock now, Probe (Answer v), Wait 0 Wait_expired] \<and> phase = phase_name p \<and>
    validated_worker_progress v p = Inr q \<and> same_observation q p \<and>
    (case p of None \<Rightarrow> t + start_timeout | Some w \<Rightarrow> deadline_of w) \<le> now"
  using emitsD [OF wait_expires assms] unfolding expired_def by fastforce

lemma demo_timeout:
  "\<exists>t. wait_with_progress_deadlines demo_os (\<lambda>_. None) 0 1 (demo_sys True Absent)
     = Some (Inr (None, Some ''measurement''), t)"
  by (simp add: wait_with_progress_deadlines_def read_clock_def demo_sys_def demo_eval)
    (subst wloop.simps, simp add: progress_round_def observe_progress_def ask_progress_def
      validated_worker_progress_def read_clock_def wait_for_def same_observation_def phase_name_def
      demo_eval)

theorem timeout_only_after_deadline_witness:
  "\<exists>(s' :: (real \<times> bool) sys) t pre now v p q. trace s' = trace (demo_sys True Absent) @ Clock t # pre
      @ [Clock now, Probe (Answer v), Wait 0 Wait_expired] \<and> ''measurement'' = phase_name p \<and>
    validated_worker_progress v p = Inr q \<and> same_observation q p \<and>
    (case p of None \<Rightarrow> t + 0 | Some w \<Rightarrow> deadline_of w) \<le> now"
proof -
  obtain s' where "wait_with_progress_deadlines demo_os (\<lambda>_. None) 0 1 (demo_sys True Absent)
     = Some (Inr (None, Some ''measurement''), s')" using demo_timeout by blast
  from timeout_only_after_deadline [OF this] show ?thesis by blast
qed

text \<open>
  Observed progress only moves forward: over any sequence of probes that
  \<open>_validated_worker_progress\<close> accepts, the phase never goes back, a marker never disappears and
  the deadline of a phase never changes.
\<close>

theorem progress_never_regresses:
  assumes "fold_res (\<lambda>p v. validated_worker_progress v p) None us = Inr p"
    and "fold_res (\<lambda>p v. validated_worker_progress v p) p vs = Inr q"
  shows "progress_le p q"
proof -
  have step: "known_progress q \<and> progress_le p q" if "known_progress p"
    "fold_res (\<lambda>p v. validated_worker_progress v p) p vs = Inr q" for p q vs
  proof (rule fold_res_inv [OF that(2), where I = "\<lambda>x. known_progress x \<and> progress_le p x"])
    show "known_progress p \<and> progress_le p p"
      using that(1) by (simp add: progress_le_def same_progress_def split: option.splits)
  qed (use validated_moves_on progress_le_trans in blast)
  have "known_progress None" by (simp add: known_progress_def)
  with step assms show ?thesis by blast
qed

theorem progress_never_regresses_witness:
  "progress_le (Some \<lparr>progress_phase = ''measurement'', progress_deadline = PInt 5\<rparr>)
     (Some \<lparr>progress_phase = ''cleanup'', progress_deadline = PInt 3\<rparr>)"
  by (rule progress_never_regresses
      [of "[Progress_value \<lparr>progress_phase = ''measurement'', progress_deadline = PInt 5\<rparr>]" _
        "[Progress_value \<lparr>progress_phase = ''cleanup'', progress_deadline = PInt 3\<rparr>]"])
    (simp_all add: validated_worker_progress_def phase_rank_def deadline_value_def
      float_of_int_def float_overflow_bound_def)

end
