(* ===== verification/Agentic_Tools.thy ===== *)
theory Agentic_Tools
  imports Exposition_Text
begin

text \<open>
  The fixed scenarios of \<open>bench/agentic_tools.py\<close>: the limits of an episode, the task and
  the oracle of each variant, the tools with their argument checks, and the test that a list of
  tool attempts is the one the task asks for. The \<open>json\<close> module is the record \<open>json_module\<close>;
  \<open>None\<close> is a failure that \<open>_parse_arguments\<close> catches.
\<close>

section \<open>Limits\<close>

definition AGENTIC_SCENARIO_IDS :: "string list" where
  "AGENTIC_SCENARIO_IDS =
     [''agentic-select-and-call'', ''agentic-no-tool'', ''agentic-two-hop'',
      ''agentic-tool-error-recovery'']"

definition AGENTIC_VARIANT_COUNT :: int where "AGENTIC_VARIANT_COUNT = 3"
definition MIN_OUTPUT_TOKENS :: int where "MIN_OUTPUT_TOKENS = 2048"
definition MAX_TURNS :: int where "MAX_TURNS = 8"
definition MAX_TOOL_CALLS :: nat where "MAX_TOOL_CALLS = 16"
definition MAX_ARGUMENT_BYTES :: nat where "MAX_ARGUMENT_BYTES = 4096"

definition is_agentic_scenario :: "string \<Rightarrow> bool" where
  "is_agentic_scenario case_id \<longleftrightarrow> case_id \<in> set AGENTIC_SCENARIO_IDS"

text \<open>\<open>isinstance(value, int) and not isinstance(value, bool)\<close>.\<close>

definition plain_int :: "pyval \<Rightarrow> int res" where
  "plain_int v = (case v of PInt n \<Rightarrow> Inr n | _ \<Rightarrow> Inl ValueError)"

definition validate_limits :: "pyval \<Rightarrow> pyval \<Rightarrow> (int \<times> int) res" where
  "validate_limits max_turns max_output_tokens =
     andThen (plain_int max_turns) (\<lambda>turns.
     if \<not> (1 \<le> turns \<and> turns \<le> MAX_TURNS) then Inl ValueError
     else andThen (plain_int max_output_tokens) (\<lambda>tokens.
     if tokens < MIN_OUTPUT_TOKENS then Inl ValueError
     else Inr (turns, tokens)))"

definition estimate_agentic_context_tokens :: "pyval \<Rightarrow> pyval \<Rightarrow> int res" where
  "estimate_agentic_context_tokens max_turns max_output_tokens =
     andThen (validate_limits max_turns max_output_tokens) (\<lambda>(turns, tokens).
       Inr (turns * tokens + 2048))"

section \<open>Scenarios\<close>

definition SELECT_VARIANTS :: "(int \<times> int) list" where
  "SELECT_VARIANTS = [(6, 7), (8, 9), (12, 11)]"
definition NO_TOOL_VARIANTS :: "string list" where
  "NO_TOOL_VARIANTS = [''ORCHID-27'', ''EMBER-41'', ''QUARTZ-63'']"
definition TWO_HOP_VARIANTS :: "(string \<times> int) list" where
  "TWO_HOP_VARIANTS = [(''cedar'', 3), (''amber'', 4), (''cobalt'', 2)]"
definition LOOKUP_NUMBERS :: "(string \<times> int) list" where
  "LOOKUP_NUMBERS = [(''cedar'', 17), (''amber'', 23), (''cobalt'', 31)]"
definition RECOVERY_VARIANTS :: "string list" where
  "RECOVERY_VARIANTS = [''north'', ''east'', ''west'']"
definition UNSTABLE_NUMBERS :: "(string \<times> int) list" where
  "UNSTABLE_NUMBERS = [(''north'', 44), (''east'', 58), (''west'', 73)]"

definition number_at :: "(string \<times> int) list \<Rightarrow> string \<Rightarrow> int res" where
  "number_at m k = (case map_of m k of Some n \<Rightarrow> Inr n | None \<Rightarrow> Inl KeyError)"

text \<open>\<open>str\<close> of an integer.\<close>

definition show_int :: "int \<Rightarrow> string" where
  "show_int n = (if n < 0 then CHR ''-'' # show_nat (nat (- n)) else show_nat (nat n))"

record scenario =
  scenario_id :: string
  variant :: nat
  prompt :: string
  expected_answer :: string
  expected_calls :: "string list"
  tool_names :: "string list"
  oracle_values :: "pyval list"

definition scenario_of :: "string \<Rightarrow> pyval \<Rightarrow> scenario res" where
  "scenario_of sid v =
     (if sid \<notin> set AGENTIC_SCENARIO_IDS then Inl ValueError
      else andThen (plain_int v) (\<lambda>n.
      if \<not> (0 \<le> n \<and> n < AGENTIC_VARIANT_COUNT) then Inl ValueError
      else if sid = ''agentic-select-and-call'' then
        (let (left, right) = SELECT_VARIANTS ! nat n in
         Inr \<lparr>scenario_id = sid, variant = nat n,
           prompt = ''Use the appropriate available tool to multiply '' @ show_int left @ '' by ''
             @ show_int right @ '', then report the exact product.'',
           expected_answer = show_int (left * right),
           expected_calls = [''multiply''],
           tool_names = [''multiply'', ''add_integers'', ''lookup_number''],
           oracle_values = [PInt left, PInt right]\<rparr>)
      else if sid = ''agentic-no-tool'' then
        (let token = NO_TOOL_VARIANTS ! nat n in
         Inr \<lparr>scenario_id = sid, variant = nat n,
           prompt = ''No calculation or lookup is required. Do not call a tool. ''
             @ ''Report the literal token '' @ token @ ''.'',
           expected_answer = token,
           expected_calls = [],
           tool_names = [''lookup_number'', ''multiply'', ''add_integers''],
           oracle_values = []\<rparr>)
      else if sid = ''agentic-two-hop'' then
        (let (label, multiplier) = TWO_HOP_VARIANTS ! nat n in
         andThen (number_at LOOKUP_NUMBERS label) (\<lambda>found.
         Inr \<lparr>scenario_id = sid, variant = nat n,
           prompt = ''Look up the unknown integer stored under registry label '' @ label @ ''. ''
             @ ''Then use a tool to multiply the returned integer by '' @ show_int multiplier
             @ ''. Report the product.'',
           expected_answer = show_int (found * multiplier),
           expected_calls = [''lookup_number'', ''multiply''],
           tool_names = [''lookup_number'', ''add_integers'', ''multiply''],
           oracle_values = [PStr label, PInt multiplier]\<rparr>))
      else
        (let key = RECOVERY_VARIANTS ! nat n in
         andThen (number_at UNSTABLE_NUMBERS key) (\<lambda>found.
         Inr \<lparr>scenario_id = sid, variant = nat n,
           prompt = ''Use unstable_lookup to retrieve the integer for compass key '' @ key @ ''. ''
             @ ''If the tool reports transient_error, retry once with the same key. ''
             @ ''Report the retrieved integer.'',
           expected_answer = show_int found,
           expected_calls = [''unstable_lookup'', ''unstable_lookup''],
           tool_names = [''add_integers'', ''unstable_lookup'', ''multiply''],
           oracle_values = [PStr key]\<rparr>))))"

section \<open>Tool schemas\<close>

definition object_schema :: "(string \<times> pyval) list \<Rightarrow> string list \<Rightarrow> pyval" where
  "object_schema props req = PDict
     [(''type'', PStr ''object''), (''properties'', PDict props),
      (''required'', PList (map PStr req)), (''additionalProperties'', PBool False)]"

definition function_schema :: "string \<Rightarrow> string \<Rightarrow> pyval \<Rightarrow> pyval" where
  "function_schema name description parameters = PDict
     [(''type'', PStr ''function''),
      (''function'', PDict [(''name'', PStr name), (''description'', PStr description),
         (''parameters'', parameters)])]"

definition integer_schema :: pyval where
  "integer_schema = PDict [(''type'', PStr ''integer'')]"

definition enum_schema :: "string list \<Rightarrow> pyval" where
  "enum_schema xs = PDict [(''type'', PStr ''string''), (''enum'', PList (map PStr xs))]"

definition TOOL_SCHEMAS :: pydict where
  "TOOL_SCHEMAS =
     [(''multiply'', function_schema ''multiply'' ''Return the exact product of two integers.''
        (object_schema [(''a'', integer_schema), (''b'', integer_schema)] [''a'', ''b''])),
      (''add_integers'', function_schema ''add_integers'' ''Return the exact sum of two integers.''
        (object_schema [(''a'', integer_schema), (''b'', integer_schema)] [''a'', ''b''])),
      (''lookup_number'', function_schema ''lookup_number''
        ''Look up the integer stored under a registry label.''
        (object_schema [(''label'', enum_schema (map fst LOOKUP_NUMBERS))] [''label''])),
      (''unstable_lookup'', function_schema ''unstable_lookup''
        (''Look up the integer for a compass key. A transient failure may ''
          @ ''require one retry.'')
        (object_schema [(''key'', enum_schema (map fst UNSTABLE_NUMBERS))] [''key'']))]"

definition rotated_tool_schemas :: "scenario \<Rightarrow> pyval list res" where
  "rotated_tool_schemas sc =
     (let offset = variant sc mod length (tool_names sc);
          names = drop offset (tool_names sc) @ take offset (tool_names sc)
      in traverse (getitem TOOL_SCHEMAS) names)"

section \<open>Calls of the model\<close>

definition safe_call_id :: "nat \<Rightarrow> nat \<Rightarrow> string" where
  "safe_call_id turn index = ''agentic_t'' @ show_nat turn @ ''_c'' @ show_nat index"

definition function_parts :: "pyval \<Rightarrow> string option \<times> pyval" where
  "function_parts call = (case call of
       PDict c \<Rightarrow> (case dict_get c ''function'' of
           PDict f \<Rightarrow> (case dict_get f ''name'' of
               PStr name \<Rightarrow>
                 (if name = [] \<or> length name > 64 then (None, dict_get f ''arguments'')
                  else (Some name, dict_get f ''arguments''))
             | _ \<Rightarrow> (None, dict_get f ''arguments''))
         | _ \<Rightarrow> (None, PNone))
     | _ \<Rightarrow> (None, PNone))"

text \<open>
  \<open>json.dumps(x, allow_nan=False, sort_keys=True)\<close>, \<open>json.loads\<close> without and with hooks, and
  \<open>json.dumps(x, sort_keys=True)\<close> of values that were read from JSON.
\<close>

record json_module =
  dumps_finite :: "pyval \<Rightarrow> string option"
  loads :: "string \<Rightarrow> pyval option"
  loads_hooked :: "((string \<times> pyval) list \<Rightarrow> pydict res) \<Rightarrow> (string \<Rightarrow> pyval res) \<Rightarrow>
    string \<Rightarrow> pyval option"
  dumps :: "pyval \<Rightarrow> string"

definition unique_json_object :: "(string \<times> pyval) list \<Rightarrow> pydict res" where
  "unique_json_object pairs = fold_res (\<lambda>result (key, value).
     if key \<in> dict_keys result then Inl ValueError else Inr (result @ [(key, value)])) [] pairs"

definition reject_json_constant :: "string \<Rightarrow> pyval res" where
  "reject_json_constant value = Inl ValueError"

text \<open>\<open>len(raw.encode("utf-8"))\<close> of 8-bit characters.\<close>

definition utf8_length :: "string \<Rightarrow> nat" where
  "utf8_length s = sum_list (map (\<lambda>c. if (of_char c :: nat) < 128 then 1 else 2) s)"

definition parse_arguments :: "json_module \<Rightarrow> pyval \<Rightarrow> pydict option" where
  "parse_arguments j raw =
     (let value = (case raw of
          PDict d \<Rightarrow> (case dumps_finite j (PDict d) of
              None \<Rightarrow> None
            | Some encoded \<Rightarrow>
                (if utf8_length encoded > MAX_ARGUMENT_BYTES then None else loads j encoded))
        | PStr s \<Rightarrow>
            (if utf8_length s > MAX_ARGUMENT_BYTES then None
             else loads_hooked j unique_json_object reject_json_constant s)
        | _ \<Rightarrow> None)
      in case value of Some (PDict d) \<Rightarrow> Some d | _ \<Rightarrow> None)"

definition small_integer :: "pyval \<Rightarrow> bool" where
  "small_integer v = (case v of PInt n \<Rightarrow> \<bar>n\<bar> \<le> 1000000 | _ \<Rightarrow> False)"

definition integer_arguments :: "pydict \<Rightarrow> bool" where
  "integer_arguments d \<longleftrightarrow> dict_keys d = {''a'', ''b''} \<and>
     small_integer (dict_get d ''a'') \<and> small_integer (dict_get d ''b'')"

definition label_argument :: "string \<Rightarrow> (string \<times> int) list \<Rightarrow> pydict \<Rightarrow> bool" where
  "label_argument field numbers d \<longleftrightarrow> dict_keys d = {field} \<and>
     (case dict_get d field of PStr s \<Rightarrow> s \<in> fst ` set numbers | _ \<Rightarrow> False)"

definition arguments_valid :: "string \<Rightarrow> pydict \<Rightarrow> bool" where
  "arguments_valid name d =
     (if name \<in> {''multiply'', ''add_integers''} then integer_arguments d
      else if name = ''lookup_number'' then label_argument ''label'' LOOKUP_NUMBERS d
      else if name = ''unstable_lookup'' then label_argument ''key'' UNSTABLE_NUMBERS d
      else False)"

section \<open>Executing a tool\<close>

text \<open>\<open>int(value)\<close>.\<close>

definition to_int :: "pyval \<Rightarrow> int res" where
  "to_int v = (case v of
       PInt n \<Rightarrow> Inr n
     | PBool b \<Rightarrow> Inr (if b then 1 else 0)
     | PFloat (FFin r) \<Rightarrow> Inr (if 0 \<le> r then \<lfloor>r\<rfloor> else \<lceil>r\<rceil>)
     | PFloat (FInf _) \<Rightarrow> Inl OverflowError
     | PFloat FNan \<Rightarrow> Inl ValueError
     | PStr s \<Rightarrow> (case parse_int s of Some n \<Rightarrow> Inr n | None \<Rightarrow> Inl ValueError)
     | _ \<Rightarrow> Inl TypeError)"

text \<open>\<open>numbers[str(value)]\<close>; the text of a value other than a string is never a label.\<close>

definition number_for :: "(string \<times> int) list \<Rightarrow> pyval \<Rightarrow> int res" where
  "number_for m v = (case v of PStr s \<Rightarrow> number_at m s | _ \<Rightarrow> Inl KeyError)"

record tool_outcome =
  code :: string
  content :: pyval
  outcome_value :: "int option"

definition ok_outcome :: "int \<Rightarrow> tool_outcome" where
  "ok_outcome n = \<lparr>code = ''ok'',
     content = PDict [(''ok'', PBool True), (''value'', PInt n)], outcome_value = Some n\<rparr>"

definition transient_outcome :: tool_outcome where
  "transient_outcome = \<lparr>code = ''transient_error'',
     content = PDict [(''ok'', PBool False), (''error'', PStr ''transient_error''),
       (''retryable'', PBool True)], outcome_value = None\<rparr>"

definition execute_tool :: "string \<Rightarrow> pydict \<Rightarrow> nat \<Rightarrow> (tool_outcome \<times> nat) res" where
  "execute_tool name d unstable_calls =
     (if name = ''multiply'' then
        andThen (getitem d ''a'') (\<lambda>a. andThen (to_int a) (\<lambda>x.
        andThen (getitem d ''b'') (\<lambda>b. andThen (to_int b) (\<lambda>y.
        Inr (ok_outcome (x * y), unstable_calls)))))
      else if name = ''add_integers'' then
        andThen (getitem d ''a'') (\<lambda>a. andThen (to_int a) (\<lambda>x.
        andThen (getitem d ''b'') (\<lambda>b. andThen (to_int b) (\<lambda>y.
        Inr (ok_outcome (x + y), unstable_calls)))))
      else if name = ''lookup_number'' then
        andThen (getitem d ''label'') (\<lambda>v. andThen (number_for LOOKUP_NUMBERS v) (\<lambda>n.
        Inr (ok_outcome n, unstable_calls)))
      else if name = ''unstable_lookup'' then
        (if unstable_calls + 1 = 1 then Inr (transient_outcome, unstable_calls + 1)
         else andThen (getitem d ''key'') (\<lambda>v. andThen (number_for UNSTABLE_NUMBERS v) (\<lambda>n.
           Inr (ok_outcome n, unstable_calls + 1))))
      else Inl AssertionError)"

definition assistant_tool_call ::
  "json_module \<Rightarrow> string \<Rightarrow> string option \<Rightarrow> pydict option \<Rightarrow> pyval" where
  "assistant_tool_call j call_id name arguments = PDict
     [(''id'', PStr call_id), (''type'', PStr ''function''),
      (''function'', PDict
        [(''name'', PStr (case name of Some n \<Rightarrow> n | None \<Rightarrow> ''invalid_tool'')),
         (''arguments'', PStr (dumps j
            (PDict (case arguments of Some d \<Rightarrow> d | None \<Rightarrow> []))))])]"

section \<open>The final answer\<close>

text \<open>
  The full match of \<open>\\s*FINAL\\s*:\\s*(?P<answer>[^\\r\\n]+?)\\s*\<close>, in either case: what follows
  the colon, and the stripped group of its match. With something other than space after the
  colon the group is that text without the spaces around it; otherwise it is a single space.
\<close>

definition after_final :: "string \<Rightarrow> string option" where
  "after_final s =
     (let t = dropWhile is_space s; u = dropWhile is_space (drop 5 t) in
      if map to_lower (take 5 t) = ''final'' \<and> u \<noteq> [] \<and> hd u = CHR '':'' then Some (tl u) else None)"

definition final_group :: "string \<Rightarrow> string option" where
  "final_group s = (case after_final s of
       None \<Rightarrow> None
     | Some rest \<Rightarrow>
        (if py_strip rest \<noteq> []
         then (if list_all (\<lambda>c. c \<notin> {CR, LF}) (py_strip rest) then Some (py_strip rest) else None)
         else if list_ex (\<lambda>c. c \<notin> {CR, LF}) rest then Some [] else None))"

definition answer_matches :: "pyval \<Rightarrow> string \<Rightarrow> bool \<times> bool" where
  "answer_matches v expected = (case v of
       PStr s \<Rightarrow> (case final_group s of None \<Rightarrow> (False, False) | Some g \<Rightarrow> (True, g = expected))
     | _ \<Rightarrow> (False, False))"

section \<open>The attempts a task asks for\<close>

record tool_attempt =
  attempt_name :: string
  attempt_arguments :: pydict
  outcome :: string
  attempt_value :: "int option"
  attempt_turn :: nat

text \<open>
  The attempts come from calls that \<open>_arguments_valid\<close> accepted, so both values are integers
  where this is called, and a dictionary is a list with one entry where it has one key.
\<close>

definition same_product_arguments :: "pydict \<Rightarrow> int \<Rightarrow> int \<Rightarrow> bool" where
  "same_product_arguments d left right = (case (dict_get d ''a'', dict_get d ''b'') of
       (PInt x, PInt y) \<Rightarrow> sort [x, y] = sort [left, right]
     | _ \<Rightarrow> False)"

definition tool_sequence_correct ::
  "scenario \<Rightarrow> tool_attempt list \<Rightarrow> nat \<Rightarrow> nat \<Rightarrow> bool \<Rightarrow> bool res" where
  "tool_sequence_correct sc attempts malformed unknown limit_exceeded =
     (if malformed \<noteq> 0 \<or> unknown \<noteq> 0 \<or> limit_exceeded then Inr False
      else if length attempts \<noteq> length (expected_calls sc) then Inr False
      else if map attempt_name attempts \<noteq> expected_calls sc then Inr False
      else if scenario_id sc = ''agentic-no-tool'' then Inr True
      else if scenario_id sc = ''agentic-select-and-call'' then
        (case (oracle_values sc, attempts) of
           ([PInt left, PInt right], attempt # _) \<Rightarrow>
             Inr (outcome attempt = ''ok'' \<and>
               same_product_arguments (attempt_arguments attempt) left right \<and>
               attempt_value attempt = Some (left * right))
         | _ \<Rightarrow> Inl ValueError)
      else if scenario_id sc = ''agentic-two-hop'' then
        (case (oracle_values sc, attempts) of
           ([PStr label, PInt multiplier], [lookup, product]) \<Rightarrow>
             andThen (number_at LOOKUP_NUMBERS label) (\<lambda>found.
             Inr (attempt_arguments lookup = [(''label'', PStr label)] \<and>
               outcome lookup = ''ok'' \<and> attempt_value lookup = Some found \<and>
               attempt_turn product > attempt_turn lookup \<and>
               outcome product = ''ok'' \<and>
               same_product_arguments (attempt_arguments product) found multiplier \<and>
               attempt_value product = Some (found * multiplier)))
         | _ \<Rightarrow> Inl ValueError)
      else
        (case (oracle_values sc, attempts) of
           ([PStr key], [first, retry]) \<Rightarrow>
             andThen (number_at UNSTABLE_NUMBERS key) (\<lambda>found.
             Inr (attempt_arguments first = [(''key'', PStr key)] \<and>
               attempt_arguments retry = [(''key'', PStr key)] \<and>
               attempt_turn retry > attempt_turn first \<and>
               outcome first = ''transient_error'' \<and>
               outcome retry = ''ok'' \<and> attempt_value retry = Some found))
         | _ \<Rightarrow> Inl ValueError))"

end
