(* ===== verification/Agentic_Episode.thy ===== *)
theory Agentic_Episode
  imports Agentic_Tools
begin

text \<open>
  \<open>run_agentic_scenario\<close> of \<open>bench/agentic_tools.py\<close>: the checks of its arguments, the turns
  of the conversation with their counters, and the result. The local variables of the loop are
  the record \<open>episode\<close>. The injected \<open>request_function\<close> and the clock are functions over an
  unknown environment \<open>'s\<close>; a reply is what \<open>getattr\<close> finds on its result.
\<close>

section \<open>Arguments\<close>

definition CONTROLLED_REQUEST_KEYS :: "string set" where
  "CONTROLLED_REQUEST_KEYS =
     {''chat_template_kwargs'', ''enable_thinking'', ''extra_body'', ''max_tokens'', ''prompt'',
      ''reasoning'', ''reasoning_effort'', ''request_id'', ''temperature''}"
definition CONTROLLED_BODY_KEYS :: "string set" where
  "CONTROLLED_BODY_KEYS = {''messages'', ''tool_choice'', ''tools''}"
definition ALLOWED_REASONING_EFFORTS :: "string set" where
  "ALLOWED_REASONING_EFFORTS = {''low'', ''medium'', ''xhigh''}"

definition SYSTEM_PROMPT :: string where
  "SYSTEM_PROMPT =
     ''Complete the deterministic tool-use task. Choose tools only when they are ''
     @ ''needed, treat tool results as authoritative, and never guess a lookup ''
     @ ''result. If a tool reports transient_error, retry that same tool once with ''
     @ ''the same arguments. When the task is complete, reply with exactly ''
     @ ''FINAL: <answer> and no other text.''"

text \<open>\<open>temperature\<close> must be the number zero.\<close>

definition require_zero :: "pyval \<Rightarrow> unit res" where
  "require_zero v = andThen (number_of v) (\<lambda>n. check (n = Some (FFin 0)) ValueError)"

definition check_template :: "pyval \<Rightarrow> unit res" where
  "check_template v = (case v of
       PDict d \<Rightarrow>
         (if dict_keys d \<noteq> {''enable_thinking''} \<and>
             dict_keys d \<noteq> {''enable_thinking'', ''reasoning_effort''} then Inl ValueError
          else (case dict_get d ''enable_thinking'' of
              PBool enable \<Rightarrow>
                (if ''reasoning_effort'' \<in> dict_keys d then
                   (if \<not> enable then Inl ValueError
                    else (case dict_get d ''reasoning_effort'' of
                        PStr effort \<Rightarrow> check (effort \<in> ALLOWED_REASONING_EFFORTS) ValueError
                      | _ \<Rightarrow> Inl ValueError))
                 else Inr ())
            | _ \<Rightarrow> Inl ValueError))
     | _ \<Rightarrow> Inl ValueError)"

definition check_additions :: "pydict \<Rightarrow> unit res" where
  "check_additions d =
     (if CONTROLLED_BODY_KEYS \<inter> dict_keys d \<noteq> {} then Inl ValueError
      else if dict_keys d - {''chat_template_kwargs''} \<noteq> {} then Inl ValueError
      else if ''chat_template_kwargs'' \<in> dict_keys d
        then check_template (dict_get d ''chat_template_kwargs'')
      else Inr ())"

section \<open>Numbers of a reply\<close>

definition nonnegative_int :: "pyval \<Rightarrow> int res" where
  "nonnegative_int v = (case v of PInt n \<Rightarrow> if n < 0 then Inl ValueError else Inr n
     | _ \<Rightarrow> Inl ValueError)"

definition nonnegative_float :: "pyval \<Rightarrow> pyfloat res" where
  "nonnegative_float v = andThen (number_of v) (\<lambda>n. case n of
       None \<Rightarrow> Inl ValueError
     | Some x \<Rightarrow> if fnonneg x then Inr x else Inl ValueError)"

definition safe_finish_reason :: "pyval \<Rightarrow> string option res" where
  "safe_finish_reason v =
     (if v = PNone then Inr None
      else andThen (in_strings v {''stop'', ''length'', ''tool_calls'', ''content_filter''}) (\<lambda>known.
        case v of PStr s \<Rightarrow> Inr (Some (if known then s else ''other''))
        | _ \<Rightarrow> Inr (Some ''other'')))"

section \<open>The conversation\<close>

record chat_reply =
  reply_prompt_tokens :: pyval
  reply_completion_tokens :: pyval
  reply_emission_events :: pyval
  reply_elapsed_s :: pyval
  reply_ttft_s :: pyval
  reply_finish_reason :: pyval
  reply_tool_calls :: pyval
  reply_content :: pyval

record episode =
  messages :: "pyval list"
  unstable_calls :: nat
  attempts :: "tool_attempt list"
  tool_calls_requested :: nat
  tool_calls_executed :: nat
  tool_calls_succeeded :: nat
  tool_errors :: nat
  malformed_tool_calls :: nat
  unknown_tool_calls :: nat
  prompt_tokens :: int
  completion_tokens :: int
  emission_events :: int
  request_elapsed_s :: pyfloat
  first_turn_ttft_s :: "pyfloat option"
  length_terminated_turns :: nat
  final_answer_emitted :: bool
  final_answer_correct :: bool
  call_limit_exceeded :: bool
  last_turn_had_tools :: bool
  turns_used :: nat
  finish_reason :: "string option"

definition start_episode :: "scenario \<Rightarrow> episode" where
  "start_episode sc =
     \<lparr>messages =
        [PDict [(''role'', PStr ''system''), (''content'', PStr SYSTEM_PROMPT)],
         PDict [(''role'', PStr ''user''), (''content'', PStr (prompt sc))]],
      unstable_calls = 0, attempts = [],
      tool_calls_requested = 0, tool_calls_executed = 0, tool_calls_succeeded = 0,
      tool_errors = 0, malformed_tool_calls = 0, unknown_tool_calls = 0,
      prompt_tokens = 0, completion_tokens = 0, emission_events = 0,
      request_elapsed_s = FFin 0, first_turn_ttft_s = None, length_terminated_turns = 0,
      final_answer_emitted = False, final_answer_correct = False, call_limit_exceeded = False,
      last_turn_had_tools = False, turns_used = 0, finish_reason = None\<rparr>"

text \<open>The numbers of one reply, before its tool calls are looked at.\<close>

definition count_reply :: "chat_reply \<Rightarrow> episode \<Rightarrow> episode res" where
  "count_reply r ep =
     andThen (nonnegative_int (reply_prompt_tokens r)) (\<lambda>p.
     andThen (nonnegative_int (reply_completion_tokens r)) (\<lambda>c.
     andThen (nonnegative_int (reply_emission_events r)) (\<lambda>e.
     andThen (nonnegative_float (reply_elapsed_s r)) (\<lambda>t.
     andThen (case first_turn_ttft_s ep of
         None \<Rightarrow> andThen (nonnegative_float (reply_ttft_s r)) (\<lambda>x. Inr (Some x))
       | Some x \<Rightarrow> Inr (Some x)) (\<lambda>first.
     andThen (safe_finish_reason (reply_finish_reason r)) (\<lambda>reason.
     Inr (ep\<lparr>prompt_tokens := prompt_tokens ep + p,
       completion_tokens := completion_tokens ep + c,
       emission_events := emission_events ep + e,
       request_elapsed_s := fadd (request_elapsed_s ep) t,
       first_turn_ttft_s := first,
       length_terminated_turns := length_terminated_turns ep +
         (if reply_finish_reason r = PStr ''length'' then 1 else 0),
       finish_reason := reason\<rparr>)))))))"

definition error_content :: "string \<Rightarrow> pyval" where
  "error_content e = PDict [(''ok'', PBool False), (''error'', PStr e)]"

text \<open>What one tool call adds to the counters, and the content of its answer.\<close>

definition answer_call :: "scenario \<Rightarrow> nat \<Rightarrow> string option \<Rightarrow> pydict option \<Rightarrow> episode \<Rightarrow>
    (episode \<times> pyval) res" where
  "answer_call sc turn name arguments ep = (case (name, arguments) of
       (Some n, Some d) \<Rightarrow>
         (if n \<notin> set (tool_names sc) then
            Inr (ep\<lparr>unknown_tool_calls := unknown_tool_calls ep + 1\<rparr>, error_content ''unknown_tool'')
          else if \<not> arguments_valid n d then
            Inr (ep\<lparr>malformed_tool_calls := malformed_tool_calls ep + 1\<rparr>,
              error_content ''invalid_arguments'')
          else andThen (execute_tool n d (unstable_calls ep)) (\<lambda>(out, unstable).
            Inr (ep\<lparr>tool_calls_executed := tool_calls_executed ep + 1,
                unstable_calls := unstable,
                tool_calls_succeeded := tool_calls_succeeded ep + (if code out = ''ok'' then 1 else 0),
                tool_errors := tool_errors ep + (if code out = ''ok'' then 0 else 1),
                attempts := attempts ep @
                  [\<lparr>attempt_name = n, attempt_arguments = d, outcome = code out,
                    attempt_value = outcome_value out, attempt_turn = turn\<rparr>]\<rparr>,
              content out)))
     | _ \<Rightarrow> Inr (ep\<lparr>malformed_tool_calls := malformed_tool_calls ep + 1\<rparr>,
              error_content ''invalid_arguments''))"

text \<open>The body of the loop over the calls of a turn, on the episode and the two lists of messages.\<close>

definition call_step :: "json_module \<Rightarrow> scenario \<Rightarrow> nat \<Rightarrow> episode \<times> pyval list \<times> pyval list \<Rightarrow>
    nat \<times> pyval \<Rightarrow> (episode \<times> pyval list \<times> pyval list) res" where
  "call_step j sc turn = (\<lambda>(ep, assistant_calls, tool_messages) (index, call).
     let call_id = safe_call_id turn index;
         (name, raw_arguments) = function_parts call;
         arguments = parse_arguments j raw_arguments;
         safe_name = (case name of Some n \<Rightarrow> n | None \<Rightarrow> ''invalid_tool'')
     in andThen (answer_call sc turn name arguments ep) (\<lambda>(ep', out).
        Inr (ep',
          assistant_calls @ [assistant_tool_call j call_id name arguments],
          tool_messages @ [PDict [(''role'', PStr ''tool''), (''tool_call_id'', PStr call_id),
            (''name'', PStr safe_name), (''content'', PStr (dumps j out))]])))"

text \<open>\<open>content or None\<close>: a falsy value is replaced.\<close>

definition or_none :: "pyval \<Rightarrow> pyval" where
  "or_none v = (if v \<in> {PStr [], PList [], PTuple [], PDict [], PBool False, PInt 0,
     PFloat (FFin 0)} then PNone else v)"

text \<open>One turn after its request was answered; the flag says whether the loop is left.\<close>

definition take_turn :: "json_module \<Rightarrow> scenario \<Rightarrow> nat \<Rightarrow> chat_reply \<Rightarrow> episode \<Rightarrow>
    (episode \<times> bool) res" where
  "take_turn j sc turn r ep0 =
     andThen (count_reply r ep0) (\<lambda>ep.
     case reply_tool_calls r of
       PList calls \<Rightarrow>
         (if calls = [] then
            (if finish_reason ep \<notin> {Some ''stop'', Some ''length''} then Inl AgenticScenarioError
             else (let (emitted, correct) = answer_matches (reply_content r) (expected_answer sc) in
               Inr (ep\<lparr>last_turn_had_tools := False, final_answer_emitted := emitted,
                 final_answer_correct := correct\<rparr>, True)))
          else if finish_reason ep \<noteq> Some ''tool_calls'' then Inl AgenticScenarioError
          else (let ep = ep\<lparr>last_turn_had_tools := True,
                      tool_calls_requested := tool_calls_requested ep + length calls\<rparr> in
            if tool_calls_requested ep > MAX_TOOL_CALLS
            then Inr (ep\<lparr>call_limit_exceeded := True\<rparr>, True)
            else andThen (fold_res (call_step j sc turn) (ep, [], []) (List.enumerate 0 calls))
              (\<lambda>(ep, assistant_calls, tool_messages).
              Inr (ep\<lparr>messages := messages ep @
                [PDict [(''role'', PStr ''assistant''), (''content'', or_none (reply_content r)),
                   (''tool_calls'', PList assistant_calls)]] @ tool_messages\<rparr>, False))))
     | _ \<Rightarrow> Inl ValueError)"

section \<open>The loop over turns\<close>

record 's chat_env =
  request_function :: "pydict \<Rightarrow> 's \<Rightarrow> chat_reply res \<times> 's"
  perf_counter :: "'s \<Rightarrow> real \<times> 's"

text \<open>The arguments that do not change between turns.\<close>

record episode_setup =
  request_kwargs :: pydict
  request_id_prefix :: string
  max_output_tokens :: int
  additions :: pydict
  tools :: "pyval list"

text \<open>
  The checks of the arguments keep the keys of \<open>request_kwargs\<close> and \<open>additions\<close> apart from
  the keys that are added here.
\<close>

definition turn_request :: "scenario \<Rightarrow> episode_setup \<Rightarrow> nat \<Rightarrow> episode \<Rightarrow> pydict" where
  "turn_request sc su turn ep = request_kwargs su @
     [(''prompt'', PStr (prompt sc)), (''max_tokens'', PInt (max_output_tokens su)),
      (''temperature'', PFloat (FFin 0)),
      (''request_id'', PStr (request_id_prefix su @ ''-t'' @ show_nat turn)),
      (''extra_body'', PDict (additions su @
         [(''messages'', PList (messages ep)), (''tools'', PList (tools su)),
          (''tool_choice'', PStr ''auto'')]))]"

fun run_turns :: "'s chat_env \<Rightarrow> json_module \<Rightarrow> scenario \<Rightarrow> episode_setup \<Rightarrow> nat list \<Rightarrow>
    episode \<Rightarrow> 's \<Rightarrow> episode res \<times> 's" where
  "run_turns env j sc su [] ep s = (Inr ep, s)"
| "run_turns env j sc su (turn # rest) ep s =
     (let ep = ep\<lparr>turns_used := turn\<rparr>;
          (reply, s) = request_function env (turn_request sc su turn ep) s
      in case andThen (reraise is_exception AgenticScenarioError reply)
             (\<lambda>r. take_turn j sc turn r ep) of
           Inl e \<Rightarrow> (Inl e, s)
         | Inr (ep, True) \<Rightarrow> (Inr ep, s)
         | Inr (ep, False) \<Rightarrow> run_turns env j sc su rest ep s)"

section \<open>The result\<close>

definition FAILURE_CODES :: "string set" where
  "FAILURE_CODES =
     {''final_answer'', ''malformed_tool_call'', ''missing_final'', ''output_limit'',
      ''tool_call_limit'', ''tool_sequence'', ''turn_limit'', ''unknown_tool''}"

definition agentic_failure_code ::
  "bool \<Rightarrow> bool \<Rightarrow> nat \<Rightarrow> nat \<Rightarrow> bool \<Rightarrow> nat \<Rightarrow> bool \<Rightarrow> bool \<Rightarrow> string option" where
  "agentic_failure_code passed limit_exceeded malformed unknown turn_limit length_terminated
     sequence_correct emitted =
     (if passed then None
      else if limit_exceeded then Some ''tool_call_limit''
      else if length_terminated \<noteq> 0 then Some ''output_limit''
      else if malformed \<noteq> 0 then Some ''malformed_tool_call''
      else if unknown \<noteq> 0 then Some ''unknown_tool''
      else if turn_limit then Some ''turn_limit''
      else if \<not> sequence_correct then Some ''tool_sequence''
      else if \<not> emitted then Some ''missing_final''
      else Some ''final_answer'')"

record agentic_result =
  result_scenario_id :: string
  result_variant :: nat
  episode_passed :: bool
  failure_code :: "string option"
  result_max_turns :: int
  result_max_output_tokens :: int
  expected_tool_calls :: nat
  last_episode :: episode
  result_finish_reason :: "string option"
  sequence_correct :: bool
  recovery_required :: bool
  recovery_succeeded :: bool
  turn_limit_reached :: bool
  wall_s :: real
  output_tps :: pyfloat

definition opt_str :: "string option \<Rightarrow> pyval" where
  "opt_str s = (case s of None \<Rightarrow> PNone | Some t \<Rightarrow> PStr t)"

definition opt_float :: "pyfloat option \<Rightarrow> pyval" where
  "opt_float x = (case x of None \<Rightarrow> PNone | Some y \<Rightarrow> PFloat y)"

text \<open>
  \<open>AgenticRunResult\<close> with its \<open>to_dict\<close>; the counters it copies are those of the last episode.
\<close>

definition agentic_to_dict :: "agentic_result \<Rightarrow> pydict" where
  "agentic_to_dict r = (let ep = last_episode r in
     [(''schema_version'', PInt 1),
      (''scenario_id'', PStr (result_scenario_id r)),
      (''variant'', PInt (int (result_variant r))),
      (''passed'', PBool (episode_passed r)),
      (''failure_code'', opt_str (failure_code r)),
      (''max_turns'', PInt (result_max_turns r)),
      (''max_output_tokens'', PInt (result_max_output_tokens r)),
      (''turns_used'', PInt (int (turns_used ep))),
      (''expected_tool_calls'', PInt (int (expected_tool_calls r))),
      (''tool_calls_requested'', PInt (int (tool_calls_requested ep))),
      (''tool_calls_executed'', PInt (int (tool_calls_executed ep))),
      (''tool_calls_succeeded'', PInt (int (tool_calls_succeeded ep))),
      (''tool_errors'', PInt (int (tool_errors ep))),
      (''malformed_tool_calls'', PInt (int (malformed_tool_calls ep))),
      (''unknown_tool_calls'', PInt (int (unknown_tool_calls ep))),
      (''final_answer_emitted'', PBool (final_answer_emitted ep)),
      (''final_answer_correct'', PBool (final_answer_correct ep)),
      (''tool_sequence_correct'', PBool (sequence_correct r)),
      (''recovery_required'', PBool (recovery_required r)),
      (''recovery_succeeded'', PBool (recovery_succeeded r)),
      (''turn_limit_reached'', PBool (turn_limit_reached r)),
      (''prompt_tokens'', PInt (prompt_tokens ep)),
      (''completion_tokens'', PInt (completion_tokens ep)),
      (''emission_events'', PInt (emission_events ep)),
      (''first_turn_ttft_s'', opt_float (first_turn_ttft_s ep)),
      (''request_elapsed_s'', PFloat (request_elapsed_s ep)),
      (''wall_s'', PFloat (FFin (wall_s r))),
      (''length_terminated_turns'', PInt (int (length_terminated_turns ep))),
      (''elapsed_s'', PFloat (FFin (wall_s r))),
      (''ttft_s'', opt_float (first_turn_ttft_s ep)),
      (''finish_reason'', opt_str (result_finish_reason r)),
      (''output_tps'', PFloat (output_tps r)),
      (''decode_s'', PNone), (''decode_tps'', PNone), (''decode_metric_source'', PNone)])"

text \<open>\<open>completion_tokens / max(wall_s, 1e-9)\<close>.\<close>

definition tokens_per_second :: "int \<Rightarrow> real \<Rightarrow> pyfloat res" where
  "tokens_per_second n wall =
     andThen (float_of_int n) (\<lambda>x. Inr (fdiv x (FFin (max wall (1 / 10 ^ 9)))))"

definition finish_episode ::
  "scenario \<Rightarrow> int \<Rightarrow> int \<Rightarrow> real \<Rightarrow> episode \<Rightarrow> agentic_result res" where
  "finish_episode sc max_turns max_tokens wall ep =
     (let limit = \<not> call_limit_exceeded ep \<and> int (turns_used ep) = max_turns \<and>
            last_turn_had_tools ep \<and> \<not> final_answer_emitted ep;
          reason = (if call_limit_exceeded ep then Some ''tool_call_limit''
            else if limit then Some ''turn_limit'' else finish_reason ep)
      in andThen (tool_sequence_correct sc (attempts ep) (malformed_tool_calls ep)
           (unknown_tool_calls ep) (call_limit_exceeded ep)) (\<lambda>correct.
      let required = (scenario_id sc = ''agentic-tool-error-recovery'');
          recovered = (required \<and> correct \<and> tool_errors ep = 1 \<and> tool_calls_succeeded ep = 1);
          passed = (correct \<and> final_answer_emitted ep \<and> final_answer_correct ep \<and> \<not> limit \<and>
            length_terminated_turns ep = 0);
          failure = agentic_failure_code passed (call_limit_exceeded ep) (malformed_tool_calls ep)
            (unknown_tool_calls ep) limit (length_terminated_turns ep) correct
            (final_answer_emitted ep)
      in if \<not> (case failure of None \<Rightarrow> True | Some c \<Rightarrow> c \<in> FAILURE_CODES) then Inl AssertionError
      else andThen (tokens_per_second (completion_tokens ep) wall) (\<lambda>tps.
      Inr \<lparr>result_scenario_id = scenario_id sc, result_variant = variant sc,
        episode_passed = passed, failure_code = failure,
        result_max_turns = max_turns, result_max_output_tokens = max_tokens,
        expected_tool_calls = length (expected_calls sc), last_episode = ep,
        result_finish_reason = reason, sequence_correct = correct,
        recovery_required = required, recovery_succeeded = recovered,
        turn_limit_reached = limit, wall_s = wall, output_tps = tps\<rparr>)))"

section \<open>Running a scenario\<close>

record agentic_arguments =
  arg_scenario_id :: string
  arg_variant :: pyval
  arg_request_kwargs :: pydict
  arg_request_id_prefix :: pyval
  arg_max_turns :: pyval
  arg_max_output_tokens :: pyval
  arg_temperature :: pyval
  arg_extra_body :: "pydict option"

definition check_arguments ::
  "agentic_arguments \<Rightarrow> (scenario \<times> int \<times> episode_setup) res" where
  "check_arguments a =
     andThen (validate_limits (arg_max_turns a) (arg_max_output_tokens a)) (\<lambda>(turns, tokens).
     andThen (require_zero (arg_temperature a)) (\<lambda>_.
     case arg_request_id_prefix a of
       PStr pre \<Rightarrow>
         (if pre = [] then Inl ValueError
          else if CONTROLLED_REQUEST_KEYS \<inter> dict_keys (arg_request_kwargs a) \<noteq> {}
          then Inl ValueError
          else (let adds = (case arg_extra_body a of None \<Rightarrow> [] | Some d \<Rightarrow> d) in
            andThen (check_additions adds) (\<lambda>_.
            andThen (scenario_of (arg_scenario_id a) (arg_variant a)) (\<lambda>sc.
            andThen (rotated_tool_schemas sc) (\<lambda>schemas.
            Inr (sc, turns, \<lparr>request_kwargs = arg_request_kwargs a, request_id_prefix = pre,
              max_output_tokens = tokens, additions = adds, tools = schemas\<rparr>))))))
     | _ \<Rightarrow> Inl ValueError))"

definition run_agentic_scenario :: "'s chat_env \<Rightarrow> json_module \<Rightarrow> agentic_arguments \<Rightarrow> 's \<Rightarrow>
    agentic_result res \<times> 's" where
  "run_agentic_scenario env j a s =
     (case check_arguments a of
        Inl e \<Rightarrow> (Inl e, s)
      | Inr (sc, turns, su) \<Rightarrow>
          (let (started, s) = perf_counter env s;
               (final, s) = run_turns env j sc su [1..<nat turns + 1] (start_episode sc) s
           in case final of
                Inl e \<Rightarrow> (Inl e, s)
              | Inr ep \<Rightarrow>
                  (let (ended, s) = perf_counter env s in
                   (finish_episode sc turns (max_output_tokens su) (ended - started) ep, s))))"

end
