(* ===== verification/Agentic_Guarantees.thy ===== *)
theory Agentic_Guarantees
  imports Agentic_Episode
begin

text \<open>
  What an agentic run promises: its verdict is decided by a plan of calls, its counters add up
  and stay inside the limits, its result carries no text of the model, and a model that follows
  the plan passes.
\<close>

section \<open>Scenarios\<close>

lemma scenario_of_eq_Inr:
  assumes "scenario_of sid v = Inr sc"
  obtains n where "v = PInt n" "n \<in> {0, 1, 2}" "sid \<in> set AGENTIC_SCENARIO_IDS"
proof -
  from assms obtain n where "plain_int v = Inr n" "0 \<le> n" "n < 3" "sid \<in> set AGENTIC_SCENARIO_IDS"
    by (auto simp: scenario_of_def andThen_eq_Inr AGENTIC_VARIANT_COUNT_def split: if_splits)
  moreover from this have "v = PInt n"
    by (simp add: plain_int_def split: pyval.splits)
  ultimately show ?thesis by (intro that [of n]) auto
qed

lemmas scenario_tables = AGENTIC_SCENARIO_IDS_def SELECT_VARIANTS_def NO_TOOL_VARIANTS_def
  TWO_HOP_VARIANTS_def LOOKUP_NUMBERS_def RECOVERY_VARIANTS_def UNSTABLE_NUMBERS_def
  AGENTIC_VARIANT_COUNT_def

text \<open>The calls a scenario asks for, without what they return.\<close>

datatype planned = Multiply_by int int | Look_up string | Look_up_unstable string

definition plan :: "scenario \<Rightarrow> planned list" where
  "plan sc = (case oracle_values sc of
       [PInt left, PInt right] \<Rightarrow> [Multiply_by left right]
     | [PStr label, PInt multiplier] \<Rightarrow>
         [Look_up label, Multiply_by (the (map_of LOOKUP_NUMBERS label)) multiplier]
     | [PStr key] \<Rightarrow> [Look_up_unstable key, Look_up_unstable key]
     | _ \<Rightarrow> [])"

fun makes :: "planned \<Rightarrow> tool_attempt \<Rightarrow> bool" where
  "makes (Multiply_by left right) t \<longleftrightarrow> attempt_name t = ''multiply'' \<and>
     same_product_arguments (attempt_arguments t) left right"
| "makes (Look_up label) t \<longleftrightarrow> attempt_name t = ''lookup_number'' \<and>
     attempt_arguments t = [(''label'', PStr label)]"
| "makes (Look_up_unstable key) t \<longleftrightarrow> attempt_name t = ''unstable_lookup'' \<and>
     attempt_arguments t = [(''key'', PStr key)]"

text \<open>The planned calls, each in a later turn than the one before.\<close>

definition follows_plan :: "scenario \<Rightarrow> tool_attempt list \<Rightarrow> bool" where
  "follows_plan sc ts \<longleftrightarrow> list_all2 makes (plan sc) ts \<and>
     sorted_wrt (\<lambda>t u. attempt_turn t < attempt_turn u) ts"

section \<open>Tools\<close>

lemma small_integer_cases:
  assumes "small_integer v"
  obtains n where "v = PInt n"
  using assms by (auto simp: small_integer_def split: pyval.splits)

lemma getitem_get: "k \<in> dict_keys d \<Longrightarrow> getitem d k = Inr (dict_get d k)"
  by (auto simp: getitem_def dict_get_def dict_keys_def map_of_eq_None_iff split: option.splits)

lemma label_argument_number:
  assumes "label_argument field numbers d"
  obtains n where "number_for numbers (dict_get d field) = Inr n" "field \<in> dict_keys d"
proof -
  from assms obtain s where s: "dict_get d field = PStr s" "s \<in> fst ` set numbers"
    and field: "dict_keys d = {field}"
    by (auto simp: label_argument_def split: pyval.splits)
  from s(2) obtain n where "map_of numbers s = Some n"
    by (metis domD dom_map_of_conv_image_fst)
  with s field show ?thesis by (intro that [of n]) (simp_all add: number_for_def number_at_def)
qed

text \<open>A call whose arguments were accepted never raises, and only one tool counts its calls.\<close>

lemma execute_tool_total:
  assumes "arguments_valid name d"
  obtains out where "execute_tool name d k =
    Inr (out, k + (if name = ''unstable_lookup'' then 1 else 0))"
proof (cases "name \<in> {''multiply'', ''add_integers''}")
  case True
  with assms have args: "integer_arguments d" by (simp add: arguments_valid_def)
  then obtain x y where xy: "dict_get d ''a'' = PInt x" "dict_get d ''b'' = PInt y"
    by (auto simp: integer_arguments_def elim!: small_integer_cases)
  moreover from args have "''a'' \<in> dict_keys d" "''b'' \<in> dict_keys d"
    by (simp_all add: integer_arguments_def)
  ultimately have "execute_tool name d k =
      Inr (ok_outcome (if name = ''multiply'' then x * y else x + y), k)"
    using True by (auto simp: execute_tool_def getitem_get to_int_def)
  moreover have "name \<noteq> ''unstable_lookup''" using True by auto
  ultimately show ?thesis
    by (intro that [of "ok_outcome (if name = ''multiply'' then x * y else x + y)"]) simp
next
  case False
  show ?thesis
  proof (cases "name = ''lookup_number''")
    case True
    with assms have "label_argument ''label'' LOOKUP_NUMBERS d" by (simp add: arguments_valid_def)
    then obtain n where "number_for LOOKUP_NUMBERS (dict_get d ''label'') = Inr n"
      "''label'' \<in> dict_keys d" by (rule label_argument_number)
    with True show ?thesis by (intro that [of "ok_outcome n"]) (simp add: execute_tool_def getitem_get)
  next
    case no: False
    with False assms have name: "name = ''unstable_lookup''"
      by (auto simp: arguments_valid_def split: if_splits)
    with assms have "label_argument ''key'' UNSTABLE_NUMBERS d" by (simp add: arguments_valid_def)
    then obtain n where "number_for UNSTABLE_NUMBERS (dict_get d ''key'') = Inr n"
      "''key'' \<in> dict_keys d" by (rule label_argument_number)
    with name show ?thesis
      by (intro that [of "if k = 0 then transient_outcome else ok_outcome n"])
        (simp add: execute_tool_def getitem_get)
  qed
qed

text \<open>Every attempt was accepted, and its outcome is the tool's, from the first call on.\<close>

fun attempts_executed :: "string list \<Rightarrow> nat \<Rightarrow> tool_attempt list \<Rightarrow> bool" where
  "attempts_executed names k [] = True"
| "attempts_executed names k (t # ts) \<longleftrightarrow>
     attempt_name t \<in> set names \<and> arguments_valid (attempt_name t) (attempt_arguments t) \<and>
     (case execute_tool (attempt_name t) (attempt_arguments t) k of
        Inl e \<Rightarrow> False
      | Inr (out, k') \<Rightarrow> outcome t = code out \<and> attempt_value t = outcome_value out \<and>
          attempts_executed names k' ts)"

definition unstable_count :: "tool_attempt list \<Rightarrow> nat" where
  "unstable_count ts = length (filter (\<lambda>t. attempt_name t = ''unstable_lookup'') ts)"

lemma attempts_executed_snoc:
  "attempts_executed names k (ts @ [t]) \<longleftrightarrow> attempts_executed names k ts \<and>
     attempts_executed names (k + unstable_count ts) [t]"
proof (induction ts arbitrary: k)
  case Nil
  then show ?case by (simp add: unstable_count_def)
next
  case (Cons u ts)
  show ?case
  proof (cases "arguments_valid (attempt_name u) (attempt_arguments u)")
    case True
    then obtain out where "execute_tool (attempt_name u) (attempt_arguments u) k =
        Inr (out, k + (if attempt_name u = ''unstable_lookup'' then 1 else 0))"
      by (rule execute_tool_total)
    then show ?thesis
      by (simp add: Cons.IH unstable_count_def)
  qed simp
qed

section \<open>The counters\<close>

definition call_ok :: "tool_attempt \<Rightarrow> bool" where
  "call_ok t \<longleftrightarrow> outcome t = ''ok''"

text \<open>The counters of the calls agree with the attempts, which belong to turns up to \<open>turn\<close>.\<close>

definition calls_counted :: "scenario \<Rightarrow> nat \<Rightarrow> episode \<Rightarrow> bool" where
  "calls_counted sc turn ep \<longleftrightarrow>
     attempts_executed (tool_names sc) 0 (attempts ep) \<and>
     unstable_calls ep = unstable_count (attempts ep) \<and>
     tool_calls_executed ep = length (attempts ep) \<and>
     tool_calls_succeeded ep = length (filter call_ok (attempts ep)) \<and>
     tool_errors ep = length (filter (\<lambda>t. \<not> call_ok t) (attempts ep)) \<and>
     (\<forall>t \<in> set (attempts ep). attempt_turn t \<le> turn)"

definition calls_answered :: "episode \<Rightarrow> nat" where
  "calls_answered ep = tool_calls_executed ep + malformed_tool_calls ep + unknown_tool_calls ep"

text \<open>A call changes no other field.\<close>

definition same_turn :: "episode \<Rightarrow> episode \<Rightarrow> bool" where
  "same_turn ep ep' \<longleftrightarrow>
     messages ep' = messages ep \<and> tool_calls_requested ep' = tool_calls_requested ep \<and>
     prompt_tokens ep' = prompt_tokens ep \<and> completion_tokens ep' = completion_tokens ep \<and>
     emission_events ep' = emission_events ep \<and> request_elapsed_s ep' = request_elapsed_s ep \<and>
     first_turn_ttft_s ep' = first_turn_ttft_s ep \<and>
     length_terminated_turns ep' = length_terminated_turns ep \<and>
     final_answer_emitted ep' = final_answer_emitted ep \<and>
     final_answer_correct ep' = final_answer_correct ep \<and>
     call_limit_exceeded ep' = call_limit_exceeded ep \<and>
     last_turn_had_tools ep' = last_turn_had_tools ep \<and> turns_used ep' = turns_used ep \<and>
     finish_reason ep' = finish_reason ep"

lemma calls_counted_add:
  assumes "calls_counted sc turn ep" and "n \<in> set (tool_names sc)" and "arguments_valid n d"
    and "execute_tool n d (unstable_calls ep) = Inr (out, unstable)"
  shows "calls_counted sc turn (ep\<lparr>tool_calls_executed := tool_calls_executed ep + 1,
      unstable_calls := unstable,
      tool_calls_succeeded := tool_calls_succeeded ep + (if code out = ''ok'' then 1 else 0),
      tool_errors := tool_errors ep + (if code out = ''ok'' then 0 else 1),
      attempts := attempts ep @ [\<lparr>attempt_name = n, attempt_arguments = d, outcome = code out,
        attempt_value = outcome_value out, attempt_turn = turn\<rparr>]\<rparr>)"
proof -
  from assms(3) obtain out' where "execute_tool n d (unstable_calls ep) =
      Inr (out', unstable_calls ep + (if n = ''unstable_lookup'' then 1 else 0))"
    by (rule execute_tool_total)
  with assms(4) have "unstable = unstable_calls ep + (if n = ''unstable_lookup'' then 1 else 0)"
    by simp
  with assms show ?thesis
    by (simp add: calls_counted_def attempts_executed_snoc unstable_count_def call_ok_def)
qed

lemma answer_call_total:
  assumes "calls_counted sc turn ep"
  obtains ep' out where "answer_call sc turn name arguments ep = Inr (ep', out)"
    "calls_counted sc turn ep'" "same_turn ep ep'"
    "calls_answered ep' = calls_answered ep + 1"
proof -
  consider (executed) n d where "name = Some n" "arguments = Some d" "n \<in> set (tool_names sc)"
      "arguments_valid n d"
    | (unknown) n d where "name = Some n" "arguments = Some d" "n \<notin> set (tool_names sc)"
    | (invalid) n d where "name = Some n" "arguments = Some d" "n \<in> set (tool_names sc)"
      "\<not> arguments_valid n d"
    | (missing) "name = None \<or> arguments = None"
    by (cases name; cases arguments) blast+
  then show ?thesis
  proof cases
    case executed
    from executed(4) obtain out where out: "execute_tool n d (unstable_calls ep) =
        Inr (out, unstable_calls ep + (if n = ''unstable_lookup'' then 1 else 0))"
      by (rule execute_tool_total)
    from executed out show ?thesis
      by (intro that [OF _ calls_counted_add [OF assms executed(3,4) out]])
        (simp_all add: answer_call_def same_turn_def calls_answered_def)
  next
    case unknown
    then show ?thesis
      by (intro that [of "ep\<lparr>unknown_tool_calls := unknown_tool_calls ep + 1\<rparr>"])
        (use assms in \<open>simp_all add: answer_call_def calls_counted_def same_turn_def
           calls_answered_def\<close>)
  next
    case invalid
    then show ?thesis
      by (intro that [of "ep\<lparr>malformed_tool_calls := malformed_tool_calls ep + 1\<rparr>"])
        (use assms in \<open>simp_all add: answer_call_def calls_counted_def same_turn_def
           calls_answered_def\<close>)
  next
    case missing
    then have "answer_call sc turn name arguments ep =
        Inr (ep\<lparr>malformed_tool_calls := malformed_tool_calls ep + 1\<rparr>,
          error_content ''invalid_arguments'')"
      by (auto simp: answer_call_def split: option.splits)
    then show ?thesis
      by (rule that) (use assms in \<open>simp_all add: calls_counted_def same_turn_def
           calls_answered_def\<close>)
  qed
qed

lemma same_turn_trans: "same_turn a b \<Longrightarrow> same_turn b c \<Longrightarrow> same_turn a c"
  by (simp add: same_turn_def)

lemma calls_total:
  assumes "calls_counted sc turn ep"
  obtains ep' xs ys where "fold_res (call_step j sc turn) (ep, us, vs) calls = Inr (ep', xs, ys)"
    "calls_counted sc turn ep'" "same_turn ep ep'"
    "calls_answered ep' = calls_answered ep + length calls"
    "length ys = length vs + length calls"
  using assms
proof (induction calls arbitrary: ep us vs thesis)
  case Nil
  show ?case by (rule Nil.prems(1)) (use Nil.prems(2) in \<open>simp_all add: same_turn_def\<close>)
next
  case (Cons c cs)
  obtain index call where c: "c = (index, call)" by (cases c)
  obtain name raw where parts: "function_parts call = (name, raw)" by (cases "function_parts call")
  from Cons.prems(2) obtain ep1 out where one:
    "answer_call sc turn name (parse_arguments j raw) ep = Inr (ep1, out)"
    "calls_counted sc turn ep1" "same_turn ep ep1" "calls_answered ep1 = calls_answered ep + 1"
    by (rule answer_call_total)
  then obtain u v where step: "call_step j sc turn (ep, us, vs) c = Inr (ep1, us @ [u], vs @ [v])"
    by (simp add: call_step_def c parts Let_def)
  obtain ep' xs ys where rest:
    "fold_res (call_step j sc turn) (ep1, us @ [u], vs @ [v]) cs = Inr (ep', xs, ys)"
    "calls_counted sc turn ep'" "same_turn ep1 ep'"
    "calls_answered ep' = calls_answered ep1 + length cs" "length ys = length (vs @ [v]) + length cs"
    by (rule Cons.IH [OF _ one(2)])
  from step rest one same_turn_trans [OF one(3) rest(3)] show ?case
    by (intro Cons.prems(1) [of ep' xs ys]) simp_all
qed

definition known_reasons :: "string option set" where
  "known_reasons = {None, Some ''stop'', Some ''length'', Some ''tool_calls'',
     Some ''content_filter'', Some ''other''}"

text \<open>The state of a conversation between two turns.\<close>

definition episode_counted :: "scenario \<Rightarrow> episode \<Rightarrow> bool" where
  "episode_counted sc ep \<longleftrightarrow> calls_counted sc (turns_used ep) ep \<and>
     (if call_limit_exceeded ep
      then MAX_TOOL_CALLS < tool_calls_requested ep \<and>
        calls_answered ep \<le> MAX_TOOL_CALLS
      else tool_calls_requested ep = calls_answered ep \<and>
        tool_calls_requested ep \<le> MAX_TOOL_CALLS) \<and>
     (final_answer_correct ep \<longrightarrow> final_answer_emitted ep) \<and>
     (final_answer_emitted ep \<longrightarrow> \<not> last_turn_had_tools ep \<and> \<not> call_limit_exceeded ep) \<and>
     length_terminated_turns ep \<le> turns_used ep \<and>
     0 \<le> prompt_tokens ep \<and> 0 \<le> completion_tokens ep \<and> 0 \<le> emission_events ep \<and>
     finish_reason ep \<in> known_reasons"

lemma calls_counted_cong:
  assumes "calls_counted sc turn ep" and "turn \<le> turn'"
    and "attempts ep' = attempts ep" "unstable_calls ep' = unstable_calls ep"
    "tool_calls_executed ep' = tool_calls_executed ep"
    "tool_calls_succeeded ep' = tool_calls_succeeded ep" "tool_errors ep' = tool_errors ep"
  shows "calls_counted sc turn' ep'"
  using assms by (auto simp: calls_counted_def)

lemma start_counted: "episode_counted sc (start_episode sc)"
  by (simp add: episode_counted_def start_episode_def calls_counted_def unstable_count_def
      calls_answered_def MAX_TOOL_CALLS_def known_reasons_def)

lemma count_reply_Inr:
  assumes "count_reply r ep = Inr ep'"
  obtains p c e t first reason where "0 \<le> p" "0 \<le> c" "0 \<le> e"
    "reason \<in> known_reasons"
    "ep' = ep\<lparr>prompt_tokens := prompt_tokens ep + p,
       completion_tokens := completion_tokens ep + c, emission_events := emission_events ep + e,
       request_elapsed_s := fadd (request_elapsed_s ep) t, first_turn_ttft_s := first,
       length_terminated_turns := length_terminated_turns ep +
         (if reply_finish_reason r = PStr ''length'' then 1 else 0),
       finish_reason := reason\<rparr>"
proof -
  have nonneg: "0 \<le> n" if "nonnegative_int v = Inr n" for v n
    using that by (auto simp: nonnegative_int_def split: pyval.splits)
  have reasons: "reason \<in> known_reasons" if "safe_finish_reason v = Inr reason" for v reason
    using that by (auto simp: safe_finish_reason_def andThen_eq_Inr in_strings_def known_reasons_def
        split: pyval.splits if_splits)
  from assms obtain p c e t first reason where
    "nonnegative_int (reply_prompt_tokens r) = Inr p"
    "nonnegative_int (reply_completion_tokens r) = Inr c"
    "nonnegative_int (reply_emission_events r) = Inr e"
    "safe_finish_reason (reply_finish_reason r) = Inr reason" and
    ep': "ep' = ep\<lparr>prompt_tokens := prompt_tokens ep + p,
       completion_tokens := completion_tokens ep + c, emission_events := emission_events ep + e,
       request_elapsed_s := fadd (request_elapsed_s ep) t, first_turn_ttft_s := first,
       length_terminated_turns := length_terminated_turns ep +
         (if reply_finish_reason r = PStr ''length'' then 1 else 0),
       finish_reason := reason\<rparr>"
    unfolding count_reply_def andThen_eq_Inr by blast
  then show ?thesis by (intro that [OF _ _ _ _ ep']) (auto dest: nonneg reasons)
qed

text \<open>What \<open>_take_turn\<close> does: the final answer, the call limit, or calls that are answered.\<close>

definition turn_ready :: "scenario \<Rightarrow> nat \<Rightarrow> episode \<Rightarrow> bool" where
  "turn_ready sc turn ep \<longleftrightarrow> episode_counted sc ep \<and> turns_used ep < turn \<and>
     \<not> call_limit_exceeded ep \<and> \<not> final_answer_emitted ep"

definition turn_done :: "scenario \<Rightarrow> nat \<Rightarrow> episode \<Rightarrow> bool \<Rightarrow> bool" where
  "turn_done sc turn ep stop \<longleftrightarrow> episode_counted sc ep \<and> turns_used ep = turn \<and>
     (\<not> stop \<longrightarrow> \<not> call_limit_exceeded ep \<and> \<not> final_answer_emitted ep \<and> last_turn_had_tools ep)"

lemma count_reply_counted:
  assumes "turn_ready sc turn ep0" and "count_reply r (ep0\<lparr>turns_used := turn\<rparr>) = Inr ep"
  shows "episode_counted sc ep" "turns_used ep = turn" "\<not> call_limit_exceeded ep"
    "\<not> final_answer_emitted ep"
proof -
  from assms(2) obtain p c e t first reason where num: "0 \<le> p" "0 \<le> c" "0 \<le> e"
      "reason \<in> known_reasons" and
    ep: "ep = ep0\<lparr>turns_used := turn, prompt_tokens := prompt_tokens ep0 + p,
       completion_tokens := completion_tokens ep0 + c, emission_events := emission_events ep0 + e,
       request_elapsed_s := fadd (request_elapsed_s ep0) t, first_turn_ttft_s := first,
       length_terminated_turns := length_terminated_turns ep0 +
         (if reply_finish_reason r = PStr ''length'' then 1 else 0),
       finish_reason := reason\<rparr>"
    by (elim count_reply_Inr) simp
  from assms(1) have "calls_counted sc turn ep0"
    unfolding turn_ready_def episode_counted_def by (auto intro: calls_counted_cong)
  then have "calls_counted sc turn ep" by (rule calls_counted_cong) (simp_all add: ep)
  with assms(1) num show "episode_counted sc ep"
    by (auto simp: turn_ready_def episode_counted_def ep calls_answered_def)
  show "turns_used ep = turn" "\<not> call_limit_exceeded ep" "\<not> final_answer_emitted ep"
    using assms(1) by (simp_all add: ep turn_ready_def)
qed

lemma take_turn_counted:
  assumes "turn_ready sc turn ep0"
    and "take_turn j sc turn r (ep0\<lparr>turns_used := turn\<rparr>) = Inr (ep', stop)"
  shows "turn_done sc turn ep' stop"
proof -
  from assms(2) obtain ep calls where ep: "count_reply r (ep0\<lparr>turns_used := turn\<rparr>) = Inr ep"
    and calls: "reply_tool_calls r = PList calls"
    by (cases "reply_tool_calls r") (auto simp: take_turn_def andThen_eq_Inr)
  note counted = count_reply_counted [OF assms(1) ep]
  let ?asked = "ep\<lparr>last_turn_had_tools := True,
    tool_calls_requested := tool_calls_requested ep + length calls\<rparr>"
  have ask: "calls_counted sc turn ?asked"
    using counted by (auto simp: episode_counted_def intro: calls_counted_cong)
  note rest = assms(2) [unfolded take_turn_def ep andThen_simps calls pyval.case Let_def]
  consider (answer) "calls = []" | (limit) "calls \<noteq> []" "tool_calls_requested ?asked > MAX_TOOL_CALLS"
    | (tools) "calls \<noteq> []" "tool_calls_requested ?asked \<le> MAX_TOOL_CALLS" by linarith
  then show ?thesis
  proof cases
    case answer
    obtain emitted correct where m: "answer_matches (reply_content r) (expected_answer sc)
        = (emitted, correct)" by (cases "answer_matches (reply_content r) (expected_answer sc)")
    then have "correct \<longrightarrow> emitted"
      by (auto simp: answer_matches_def split: pyval.splits option.splits)
    with rest answer m counted show ?thesis
      by (auto simp: turn_done_def episode_counted_def calls_answered_def
          split: if_splits elim!: calls_counted_cong)
  next
    case limit
    with rest have "ep' = ?asked\<lparr>call_limit_exceeded := True\<rparr>" "stop"
      by (simp_all split: if_splits)
    with limit counted ask show ?thesis
      by (auto simp: turn_done_def episode_counted_def calls_answered_def
          elim!: calls_counted_cong)
  next
    case tools
    obtain ep1 xs ys where fold:
      "fold_res (call_step j sc turn) (?asked, [], []) (List.enumerate 0 calls) = Inr (ep1, xs, ys)"
      "calls_counted sc turn ep1" "same_turn ?asked ep1"
      "calls_answered ep1 = calls_answered ?asked + length (List.enumerate 0 calls)"
      by (rule calls_total [OF ask])
    from rest tools fold(1) have ep': "\<not> stop"
      "ep' = ep1\<lparr>messages := messages ep1 @ [PDict [(''role'', PStr ''assistant''),
         (''content'', or_none (reply_content r)), (''tool_calls'', PList xs)]] @ ys\<rparr>"
      by (simp_all split: if_splits)
    from fold(2) have "calls_counted sc turn ep'"
      by (rule calls_counted_cong) (simp_all add: ep')
    with counted tools fold(3,4) ep' show ?thesis
      by (simp add: turn_done_def episode_counted_def calls_answered_def same_turn_def)
  qed
qed

section \<open>The turns\<close>

definition turns_done :: "scenario \<Rightarrow> nat \<Rightarrow> episode \<Rightarrow> bool" where
  "turns_done sc n ep \<longleftrightarrow> episode_counted sc ep \<and> turns_used ep < n"

lemma run_turns_counted:
  assumes "run_turns env j sc su [t..<n] ep s = (Inr ep', s')" and "turn_ready sc t ep"
    and "t \<le> n"
  shows "turns_done sc n ep'"
  using assms
proof (induction "n - t" arbitrary: t ep s)
  case 0
  then have "[t..<n] = []" "t = n" by simp_all
  with "0.prems" show ?case by (simp add: turns_done_def turn_ready_def)
next
  case (Suc k)
  then have t: "[t..<n] = t # [Suc t..<n]" by (simp add: upt_conv_Cons)
  obtain reply s1 where req: "request_function env (turn_request sc su t (ep\<lparr>turns_used := t\<rparr>)) s
      = (reply, s1)" by fastforce
  from Suc.prems(1) obtain r ep1 stop where
    turn: "take_turn j sc t r (ep\<lparr>turns_used := t\<rparr>) = Inr (ep1, stop)" and
    next_turn: "(if stop then (Inr ep1, s1) else run_turns env j sc su [Suc t..<n] ep1 s1)
      = (Inr ep', s')"
    unfolding t by (auto simp: Let_def req split: sum.splits prod.splits bool.splits
        simp: andThen_eq_Inr)
  note took = take_turn_counted [OF Suc.prems(2) turn]
  show ?case
  proof (cases stop)
    case True
    with next_turn took Suc show ?thesis by (simp add: turns_done_def turn_done_def)
  next
    case False
    with took have "turn_ready sc (Suc t) ep1" by (simp add: turn_ready_def turn_done_def)
    with False next_turn Suc.hyps show ?thesis by (intro Suc.hyps(1) [of "Suc t"]) auto
  qed
qed

section \<open>The plan of a scenario\<close>

text \<open>The four kinds of scenario, with what each asks for.\<close>

lemma scenario_of_kinds:
  assumes "scenario_of sid v = Inr sc"
  obtains
    (select) left right where "scenario_id sc = ''agentic-select-and-call''"
      "oracle_values sc = [PInt left, PInt right]" "expected_calls sc = [''multiply'']"
  | (no_tool) "scenario_id sc = ''agentic-no-tool''" "oracle_values sc = []" "expected_calls sc = []"
  | (two_hop) label multiplier found where "scenario_id sc = ''agentic-two-hop''"
      "oracle_values sc = [PStr label, PInt multiplier]" "map_of LOOKUP_NUMBERS label = Some found"
      "expected_calls sc = [''lookup_number'', ''multiply'']"
  | (recovery) key found where "scenario_id sc = ''agentic-tool-error-recovery''"
      "oracle_values sc = [PStr key]" "map_of UNSTABLE_NUMBERS key = Some found"
      "expected_calls sc = [''unstable_lookup'', ''unstable_lookup'']"
proof -
  from assms obtain n where n: "v = PInt n" "n \<in> {0, 1, 2}" and
    sid: "sid = ''agentic-select-and-call'' \<or> sid = ''agentic-no-tool'' \<or>
      sid = ''agentic-two-hop'' \<or> sid = ''agentic-tool-error-recovery''"
    by (auto elim!: scenario_of_eq_Inr simp: AGENTIC_SCENARIO_IDS_def)
  have v: "0 \<le> n" "n < AGENTIC_VARIANT_COUNT" "plain_int v = Inr n"
    using n by (auto simp: AGENTIC_VARIANT_COUNT_def plain_int_def)
  note unfold = scenario_of_def v andThen_simps Let_def
  from sid show ?thesis
  proof (elim disjE)
    assume sid: "sid = ''agentic-select-and-call''"
    obtain left right where "SELECT_VARIANTS ! nat n = (left, right)" by fastforce
    with assms v show ?thesis
      by (intro select [of left right]) (auto simp: sid unfold AGENTIC_SCENARIO_IDS_def)
  next
    assume sid: "sid = ''agentic-no-tool''"
    with assms v show ?thesis
      by (intro no_tool) (auto simp: unfold AGENTIC_SCENARIO_IDS_def)
  next
    assume sid: "sid = ''agentic-two-hop''"
    obtain label multiplier where two: "TWO_HOP_VARIANTS ! nat n = (label, multiplier)" by fastforce
    with assms v obtain found where "number_at LOOKUP_NUMBERS label = Inr found"
      by (auto simp: sid unfold AGENTIC_SCENARIO_IDS_def andThen_eq_Inr)
    with assms v two show ?thesis
      by (intro two_hop [of label multiplier found])
        (auto simp: sid unfold AGENTIC_SCENARIO_IDS_def number_at_def split: option.splits)
  next
    assume sid: "sid = ''agentic-tool-error-recovery''"
    with assms v obtain found where "number_at UNSTABLE_NUMBERS (RECOVERY_VARIANTS ! nat n) = Inr found"
      by (auto simp: unfold AGENTIC_SCENARIO_IDS_def andThen_eq_Inr)
    with assms v show ?thesis
      by (intro recovery [of "RECOVERY_VARIANTS ! nat n" found])
        (auto simp: sid unfold AGENTIC_SCENARIO_IDS_def number_at_def split: option.splits)
  qed
qed

lemma same_product:
  assumes "same_product_arguments d left right" and "arguments_valid ''multiply'' d"
  shows "execute_tool ''multiply'' d k = Inr (ok_outcome (left * right), k)"
proof -
  from assms(1) obtain x y where xy: "dict_get d ''a'' = PInt x" "dict_get d ''b'' = PInt y"
    "sort [x, y] = sort [left, right]"
    by (auto simp: same_product_arguments_def split: pyval.splits)
  from xy(3) have "x * y = left * right" by (auto split: if_splits)
  moreover from assms(2) have "''a'' \<in> dict_keys d" "''b'' \<in> dict_keys d"
    by (simp_all add: arguments_valid_def integer_arguments_def)
  ultimately show ?thesis using xy by (simp add: execute_tool_def getitem_get to_int_def)
qed

lemma execute_lookup:
  "map_of LOOKUP_NUMBERS label = Some n \<Longrightarrow>
     execute_tool ''lookup_number'' [(''label'', PStr label)] k = Inr (ok_outcome n, k)"
  by (simp add: execute_tool_def number_for_def number_at_def)

lemma execute_unstable:
  "execute_tool ''unstable_lookup'' d 0 = Inr (transient_outcome, 1)"
  "map_of UNSTABLE_NUMBERS key = Some n \<Longrightarrow>
     execute_tool ''unstable_lookup'' [(''key'', PStr key)] (Suc k) = Inr (ok_outcome n, Suc (Suc k))"
  by (simp_all add: execute_tool_def number_for_def number_at_def)

lemma outcome_simps [simp]:
  "code (ok_outcome n) = ''ok''" "outcome_value (ok_outcome n) = Some n"
  "code transient_outcome = ''transient_error''" "outcome_value transient_outcome = None"
  by (simp_all add: ok_outcome_def transient_outcome_def)

text \<open>
  What the tools returned follows from the calls, so the test of the code is the plan, in
  successive turns.
\<close>

lemma tool_sequence_correct_plan:
  assumes "scenario_of sid v = Inr sc" and run: "attempts_executed names 0 ts"
  shows "tool_sequence_correct sc ts malformed unknown limit =
    Inr (malformed = 0 \<and> unknown = 0 \<and> \<not> limit \<and> follows_plan sc ts)"
proof (cases "malformed = 0 \<and> unknown = 0 \<and> \<not> limit \<and> map attempt_name ts = expected_calls sc")
  case False
  have "map attempt_name ts = expected_calls sc" if "follows_plan sc ts"
    using assms(1)
    by (rule scenario_of_kinds)
      (use that in \<open>auto simp: follows_plan_def plan_def list_all2_Cons1\<close>)
  with False show ?thesis by (auto simp: tool_sequence_correct_def)
next
  case True
  with assms(1) show ?thesis
  proof (cases rule: scenario_of_kinds)
    case (select left right)
    with True obtain t where t: "ts = [t]" "attempt_name t = ''multiply''" by auto
    with run have "arguments_valid ''multiply'' (attempt_arguments t)" by simp
    with run t True select show ?thesis
      by (auto simp: tool_sequence_correct_def follows_plan_def plan_def same_product)
  next
    case no_tool
    with True show ?thesis by (auto simp: tool_sequence_correct_def follows_plan_def plan_def)
  next
    case (two_hop label multiplier found)
    with True obtain t u where t: "ts = [t, u]" "attempt_name t = ''lookup_number''"
      "attempt_name u = ''multiply''" by (auto simp: map_eq_Cons_conv)
    then have "arguments_valid ''lookup_number'' (attempt_arguments t)" using run by simp
    then obtain out where "execute_tool ''lookup_number'' (attempt_arguments t) 0 = Inr (out, 0)"
      by (rule execute_tool_total [where k = 0]) simp
    with run t have valid: "arguments_valid ''multiply'' (attempt_arguments u)"
      by (auto split: sum.splits)
    with run t True two_hop show ?thesis
      by (auto simp: tool_sequence_correct_def follows_plan_def plan_def same_product
          execute_lookup number_at_def split: sum.splits)
  next
    case (recovery key found)
    with True obtain t u where t: "ts = [t, u]" "attempt_name t = ''unstable_lookup''"
      "attempt_name u = ''unstable_lookup''" by (auto simp: map_eq_Cons_conv)
    with run True recovery show ?thesis
      by (auto simp: tool_sequence_correct_def follows_plan_def plan_def execute_unstable number_at_def
          split: sum.splits)
  qed
qed

section \<open>Runs that return\<close>

lemma turn_ready_start: "turn_ready sc 1 (start_episode sc)"
  using start_counted [of sc] by (simp add: turn_ready_def) (simp add: start_episode_def)

lemma check_arguments_Inr:
  assumes "check_arguments a = Inr (sc, turns, su)"
  shows "scenario_of (arg_scenario_id a) (arg_variant a) = Inr sc" "1 \<le> turns" "turns \<le> MAX_TURNS"
  using assms
  by (cases "arg_request_id_prefix a"; auto simp: check_arguments_def validate_limits_def
      andThen_eq_Inr Let_def)+

lemma run_agentic_Inr:
  assumes "run_agentic_scenario env j a s = (Inr r, s')"
  obtains sc turns su ep wall where "check_arguments a = Inr (sc, turns, su)"
    "turns_done sc (nat turns + 1) ep"
    "finish_episode sc turns (max_output_tokens su) wall ep = Inr r"
proof -
  from assms obtain sc turns su where args: "check_arguments a = Inr (sc, turns, su)"
    by (auto simp: run_agentic_scenario_def split: sum.splits)
  obtain started s1 where start: "perf_counter env s = (started, s1)" by fastforce
  from assms obtain ep s2 where
    run: "run_turns env j sc su [1..<nat turns + 1] (start_episode sc) s1 = (Inr ep, s2)"
    and finish: "fst (let (ended, s) = perf_counter env s2 in
      (finish_episode sc turns (max_output_tokens su) (ended - started) ep, s)) = Inr r"
    by (auto simp: run_agentic_scenario_def args start split: sum.splits prod.splits)
  have "turns_done sc (nat turns + 1) ep"
    by (rule run_turns_counted [OF run turn_ready_start]) simp
  with args finish show ?thesis by (auto simp: split: prod.splits intro: that)
qed

definition only_planned_calls :: "scenario \<Rightarrow> episode \<Rightarrow> bool" where
  "only_planned_calls sc ep \<longleftrightarrow> \<not> call_limit_exceeded ep \<and> malformed_tool_calls ep = 0 \<and>
     unknown_tool_calls ep = 0 \<and> follows_plan sc (attempts ep)"

definition limit_reached :: "int \<Rightarrow> episode \<Rightarrow> bool" where
  "limit_reached turns ep \<longleftrightarrow> \<not> call_limit_exceeded ep \<and> int (turns_used ep) = turns \<and>
     last_turn_had_tools ep \<and> \<not> final_answer_emitted ep"

lemma finish_episode_Inr:
  assumes "finish_episode sc turns tokens wall ep = Inr r" and "scenario_of sid v = Inr sc"
    and "turns_done sc n ep"
  shows "last_episode r = ep" "sequence_correct r = only_planned_calls sc ep"
    "result_scenario_id r = scenario_id sc"
    "episode_passed r \<longleftrightarrow> only_planned_calls sc ep \<and> final_answer_correct ep \<and>
       length_terminated_turns ep = 0"
    "failure_code r = agentic_failure_code (episode_passed r) (call_limit_exceeded ep)
       (malformed_tool_calls ep) (unknown_tool_calls ep) (limit_reached turns ep)
       (length_terminated_turns ep) (only_planned_calls sc ep) (final_answer_emitted ep)"
    "recovery_succeeded r \<longleftrightarrow> scenario_id sc = ''agentic-tool-error-recovery'' \<and>
       only_planned_calls sc ep \<and> tool_errors ep = 1 \<and> tool_calls_succeeded ep = 1"
    "result_finish_reason r = (if call_limit_exceeded ep then Some ''tool_call_limit''
       else if limit_reached turns ep then Some ''turn_limit'' else finish_reason ep)"
    "expected_tool_calls r = length (plan sc)"
proof -
  from assms(3) have run: "attempts_executed (tool_names sc) 0 (attempts ep)" and
    emitted: "final_answer_correct ep \<longrightarrow> final_answer_emitted ep \<and> \<not> last_turn_had_tools ep"
    by (auto simp: turns_done_def episode_counted_def calls_counted_def)
  have plan_length: "length (expected_calls sc) = length (plan sc)"
    using assms(2) by (rule scenario_of_kinds) (simp_all add: plan_def)
  have seq: "tool_sequence_correct sc (attempts ep) (malformed_tool_calls ep) (unknown_tool_calls ep)
      (call_limit_exceeded ep) = Inr (only_planned_calls sc ep)"
    using tool_sequence_correct_plan [OF assms(2) run] by (auto simp: only_planned_calls_def)
  have pass: "(only_planned_calls sc ep \<and> final_answer_emitted ep \<and> final_answer_correct ep \<and>
      \<not> limit_reached turns ep \<and> length_terminated_turns ep = 0) =
    (only_planned_calls sc ep \<and> final_answer_correct ep \<and> length_terminated_turns ep = 0)"
    using emitted by (auto simp: limit_reached_def)
  from assms(1) show "last_episode r = ep" "sequence_correct r = only_planned_calls sc ep"
    "result_scenario_id r = scenario_id sc"
    "episode_passed r \<longleftrightarrow> only_planned_calls sc ep \<and> final_answer_correct ep \<and>
       length_terminated_turns ep = 0"
    "failure_code r = agentic_failure_code (episode_passed r) (call_limit_exceeded ep)
       (malformed_tool_calls ep) (unknown_tool_calls ep) (limit_reached turns ep)
       (length_terminated_turns ep) (only_planned_calls sc ep) (final_answer_emitted ep)"
    "recovery_succeeded r \<longleftrightarrow> scenario_id sc = ''agentic-tool-error-recovery'' \<and>
       only_planned_calls sc ep \<and> tool_errors ep = 1 \<and> tool_calls_succeeded ep = 1"
    "result_finish_reason r = (if call_limit_exceeded ep then Some ''tool_call_limit''
       else if limit_reached turns ep then Some ''turn_limit'' else finish_reason ep)"
    "expected_tool_calls r = length (plan sc)"
    unfolding finish_episode_def Let_def seq limit_reached_def [symmetric] andThen_simps pass
    using plan_length by (auto simp: andThen_eq_Inr simp del: de_Morgan_conj)
qed

text \<open>The plan of the recovery task is one transient error and one success.\<close>

lemma recovery_counters:
  assumes "scenario_of sid v = Inr sc" and "turns_done sc n ep"
    and "scenario_id sc = ''agentic-tool-error-recovery''" and "only_planned_calls sc ep"
  shows "tool_errors ep = 1 \<and> tool_calls_succeeded ep = 1"
  using assms(1)
proof (cases rule: scenario_of_kinds)
  case (recovery key found)
  from assms(4) recovery(2) obtain t u where ts: "attempts ep = [t, u]" "attempt_name t = ''unstable_lookup''"
    "attempt_name u = ''unstable_lookup''" "attempt_arguments u = [(''key'', PStr key)]"
    by (auto simp: only_planned_calls_def follows_plan_def plan_def list_all2_Cons1)
  from assms(2) have "calls_counted sc (turns_used ep) ep"
    by (simp add: turns_done_def episode_counted_def)
  with ts recovery(3) show ?thesis
    by (auto simp: calls_counted_def execute_unstable call_ok_def)
qed (use assms(3) in simp_all)

section \<open>Guarantees\<close>

text \<open>
  C25. A run passes exactly when the model made the planned calls of its scenario and no other, one
  turn after the other, then gave the expected answer, and no turn was cut off. The failure code
  is missing for a passed run only, and the recovery is reported for exactly the recovery runs
  whose calls were the planned ones: the outcomes and values that the code compares as well
  follow from the calls.
\<close>
theorem agentic_verdict_exact:
  assumes "check_arguments a = Inr (sc, turns, su)"
    and "run_agentic_scenario env j a s = (Inr r, s')"
  shows "(episode_passed r \<longleftrightarrow> only_planned_calls sc (last_episode r) \<and>
      final_answer_correct (last_episode r) \<and> length_terminated_turns (last_episode r) = 0) \<and>
    (failure_code r = None \<longleftrightarrow> episode_passed r) \<and>
    (recovery_succeeded r \<longleftrightarrow> scenario_id sc = ''agentic-tool-error-recovery'' \<and>
      only_planned_calls sc (last_episode r))"
proof -
  from assms(2) obtain ep wall where ended: "turns_done sc (nat turns + 1) ep"
    and finish: "finish_episode sc turns (max_output_tokens su) wall ep = Inr r"
    using assms(1) by (auto elim!: run_agentic_Inr)
  note sc = check_arguments_Inr(1) [OF assms(1)]
  note r = finish_episode_Inr [OF finish sc ended]
  from r(5) have "failure_code r = None \<longleftrightarrow> episode_passed r"
    by (simp add: agentic_failure_code_def)
  with r recovery_counters [OF sc ended] show ?thesis by auto
qed

text \<open>
  The counters of a result add up: every requested call was executed, malformed or unknown,
  unless the call limit ended the run before the last turn's calls were looked at; never more
  than \<open>MAX_TOOL_CALLS\<close> calls are answered; every executed call succeeded or failed, and only
  the first call of the unstable tool fails; the turns stay within the limit.
\<close>
theorem agentic_counters_bounded:
  assumes "run_agentic_scenario env j a s = (Inr r, s')"
  shows "let ep = last_episode r in
    calls_answered ep \<le> MAX_TOOL_CALLS \<and>
    (if call_limit_exceeded ep then MAX_TOOL_CALLS < tool_calls_requested ep
     else tool_calls_requested ep = calls_answered ep) \<and>
    tool_calls_executed ep = tool_calls_succeeded ep + tool_errors ep \<and>
    tool_errors ep \<le> 1 \<and>
    int (turns_used ep) \<le> MAX_TURNS \<and> length_terminated_turns ep \<le> turns_used ep \<and>
    0 \<le> prompt_tokens ep \<and> 0 \<le> completion_tokens ep \<and> 0 \<le> emission_events ep"
proof -
  have single: "length (filter (\<lambda>t. \<not> call_ok t) ts) \<le> (if k = 0 then 1 else 0)"
    if "attempts_executed names k ts" for names k ts
    using that
  proof (induction ts arbitrary: k)
    case (Cons t ts)
    then have "arguments_valid (attempt_name t) (attempt_arguments t)" by simp
    then obtain out where out: "execute_tool (attempt_name t) (attempt_arguments t) k =
        Inr (out, k + (if attempt_name t = ''unstable_lookup'' then 1 else 0))"
      by (rule execute_tool_total)
    have "code out = ''ok'' \<or> attempt_name t = ''unstable_lookup'' \<and> k = 0"
      using out by (auto simp: execute_tool_def andThen_eq_Inr split: if_splits)
    with Cons out show ?case
      by (fastforce simp: call_ok_def split: if_splits)
  qed simp
  from assms obtain sc turns su ep wall where args: "check_arguments a = Inr (sc, turns, su)"
    and ended: "turns_done sc (nat turns + 1) ep"
    and finish: "finish_episode sc turns (max_output_tokens su) wall ep = Inr r"
    by (rule run_agentic_Inr)
  have r: "last_episode r = ep"
    by (rule finish_episode_Inr(1) [OF finish check_arguments_Inr(1) [OF args] ended])
  from ended have counted: "episode_counted sc ep" and used: "turns_used ep < nat turns + 1"
    by (simp_all add: turns_done_def)
  from counted have calls: "calls_counted sc (turns_used ep) ep" by (simp add: episode_counted_def)
  then have "tool_calls_executed ep = tool_calls_succeeded ep + tool_errors ep"
    by (simp add: calls_counted_def sum_length_filter_compl)
  moreover from calls single have "tool_errors ep \<le> 1" by (force simp: calls_counted_def)
  moreover from used check_arguments_Inr(2,3) [OF args] have "int (turns_used ep) \<le> MAX_TURNS" by simp
  ultimately show ?thesis
    using counted by (auto simp: r Let_def episode_counted_def split: if_splits)
qed

text \<open>What a result may hold: numbers, flags, and strings of the harness's own vocabulary.\<close>

definition harness_strings :: "string set" where
  "harness_strings = set AGENTIC_SCENARIO_IDS \<union> FAILURE_CODES \<union>
     {''stop'', ''length'', ''tool_calls'', ''content_filter'', ''other''}"

fun harness_scalar :: "pyval \<Rightarrow> bool" where
  "harness_scalar (PStr s) = (s \<in> harness_strings)"
| "harness_scalar (PList _) = False"
| "harness_scalar (PTuple _) = False"
| "harness_scalar (PDict _) = False"
| "harness_scalar _ = True"

lemma failure_codes:
  "agentic_failure_code p l m u t n c e \<in> insert None (Some ` FAILURE_CODES)"
  by (simp add: agentic_failure_code_def FAILURE_CODES_def)

text \<open>
  C26. Whatever the model replies, the record of a run has no text of it: every field is a number, a
  flag, \<open>None\<close> or a string of the fixed vocabulary of the harness.
\<close>
theorem agentic_result_type:
  assumes "run_agentic_scenario env j a s = (Inr r, s')"
  shows "list_all (\<lambda>(field, v). harness_scalar v) (agentic_to_dict r)"
proof -
  from assms obtain sc turns su ep wall where args: "check_arguments a = Inr (sc, turns, su)"
    and ended: "turns_done sc (nat turns + 1) ep"
    and finish: "finish_episode sc turns (max_output_tokens su) wall ep = Inr r"
    by (rule run_agentic_Inr)
  note sc = check_arguments_Inr(1) [OF args]
  note r = finish_episode_Inr [OF finish sc ended]
  have "failure_code r \<in> insert None (Some ` FAILURE_CODES)" using r(5) failure_codes by simp
  then have "harness_scalar (opt_str (failure_code r))"
    by (auto simp: opt_str_def harness_strings_def)
  moreover have "harness_scalar (PStr (result_scenario_id r))"
    using sc by (cases rule: scenario_of_kinds)
      (simp_all add: r(3) harness_strings_def AGENTIC_SCENARIO_IDS_def)
  moreover have "harness_scalar (opt_str (result_finish_reason r))"
    using ended by (auto simp: r(7) turns_done_def episode_counted_def known_reasons_def opt_str_def
        harness_strings_def FAILURE_CODES_def)
  moreover have "harness_scalar (opt_float x)" for x by (simp add: opt_float_def split: option.splits)
  ultimately show ?thesis by (simp add: agentic_to_dict_def Let_def)
qed

section \<open>A model that follows the plan\<close>

fun planned_name :: "planned \<Rightarrow> string" where
  "planned_name (Multiply_by _ _) = ''multiply''"
| "planned_name (Look_up _) = ''lookup_number''"
| "planned_name (Look_up_unstable _) = ''unstable_lookup''"

fun planned_arguments :: "planned \<Rightarrow> pydict" where
  "planned_arguments (Multiply_by left right) = [(''a'', PInt left), (''b'', PInt right)]"
| "planned_arguments (Look_up label) = [(''label'', PStr label)]"
| "planned_arguments (Look_up_unstable key) = [(''key'', PStr key)]"

definition planned_reply :: "planned \<Rightarrow> chat_reply" where
  "planned_reply p = \<lparr>reply_prompt_tokens = PInt 0, reply_completion_tokens = PInt 0,
     reply_emission_events = PInt 0, reply_elapsed_s = PFloat (FFin 0), reply_ttft_s = PFloat (FFin 0),
     reply_finish_reason = PStr ''tool_calls'',
     reply_tool_calls = PList [PDict [(''function'', PDict [(''name'', PStr (planned_name p)),
       (''arguments'', PDict (planned_arguments p))])]],
     reply_content = PNone\<rparr>"

definition final_reply :: "scenario \<Rightarrow> chat_reply" where
  "final_reply sc = \<lparr>reply_prompt_tokens = PInt 0, reply_completion_tokens = PInt 0,
     reply_emission_events = PInt 0, reply_elapsed_s = PFloat (FFin 0), reply_ttft_s = PFloat (FFin 0),
     reply_finish_reason = PStr ''stop'', reply_tool_calls = PList [],
     reply_content = PStr (''FINAL: '' @ expected_answer sc)\<rparr>"

text \<open>A model that gives the listed replies in order, and a clock that stands still.\<close>

definition scripted :: "chat_reply list chat_env" where
  "scripted = \<lparr>request_function = (\<lambda>_ rs. case rs of [] \<Rightarrow> (Inl RuntimeError, [])
       | r # rest \<Rightarrow> (Inr r, rest)),
     perf_counter = (\<lambda>rs. (0, rs))\<rparr>"

definition obedient :: "scenario \<Rightarrow> chat_reply list" where
  "obedient sc = map planned_reply (plan sc) @ [final_reply sc]"

text \<open>The arguments of the planned calls survive \<open>json\<close>, in a text that is not too long.\<close>

definition reads_back :: "json_module \<Rightarrow> pydict \<Rightarrow> bool" where
  "reads_back j d \<longleftrightarrow> (case dumps_finite j (PDict d) of
       None \<Rightarrow> False
     | Some t \<Rightarrow> utf8_length t \<le> MAX_ARGUMENT_BYTES \<and> loads j t = Some (PDict d))"

definition planned_ok :: "scenario \<Rightarrow> bool" where
  "planned_ok sc \<longleftrightarrow>
     list_all (\<lambda>p. planned_name p \<in> set (tool_names sc) \<and>
       arguments_valid (planned_name p) (planned_arguments p)) (plan sc) \<and>
     answer_matches (PStr (''FINAL: '' @ expected_answer sc)) (expected_answer sc) = (True, True)"

lemma all_planned_ok:
  "list_all (\<lambda>sid. list_all (\<lambda>n. case scenario_of sid (PInt n) of Inl e \<Rightarrow> True
     | Inr sc \<Rightarrow> planned_ok sc) [0, 1, 2]) AGENTIC_SCENARIO_IDS"
  by code_simp

lemma scenario_planned_ok:
  assumes "scenario_of sid v = Inr sc"
  shows "planned_ok sc"
proof -
  from assms obtain n where "v = PInt n" "n \<in> set [0, 1, 2]" "sid \<in> set AGENTIC_SCENARIO_IDS"
    by (auto elim!: scenario_of_eq_Inr)
  with assms all_planned_ok show ?thesis unfolding list_all_iff by fastforce
qed

lemma makes_planned:
  "attempt_name t = planned_name p \<Longrightarrow> attempt_arguments t = planned_arguments p \<Longrightarrow> makes p t"
  by (cases p) (simp_all add: same_product_arguments_def)

definition on_plan :: "scenario \<Rightarrow> nat \<Rightarrow> episode \<Rightarrow> bool" where
  "on_plan sc k ep \<longleftrightarrow> turn_ready sc (Suc k) ep \<and>
     list_all2 makes (take k (plan sc)) (attempts ep) \<and>
     sorted_wrt (\<lambda>t u. attempt_turn t < attempt_turn u) (attempts ep) \<and>
     malformed_tool_calls ep = 0 \<and> unknown_tool_calls ep = 0 \<and>
     length_terminated_turns ep = 0 \<and> completion_tokens ep = 0 \<and> tool_calls_requested ep = k"

lemma planned_count:
  "\<exists>first. count_reply (planned_reply p) ep = Inr (ep\<lparr>
     request_elapsed_s := fadd (request_elapsed_s ep) (FFin 0), first_turn_ttft_s := first,
     finish_reason := Some ''tool_calls''\<rparr>)"
  "\<exists>first. count_reply (final_reply sc) ep = Inr (ep\<lparr>
     request_elapsed_s := fadd (request_elapsed_s ep) (FFin 0), first_turn_ttft_s := first,
     finish_reason := Some ''stop''\<rparr>)"
proof -
  let ?first = "case first_turn_ttft_s ep of None \<Rightarrow> Some (FFin 0) | Some x \<Rightarrow> Some x"
  have "(case first_turn_ttft_s ep of
      None \<Rightarrow> andThen (nonnegative_float (PFloat (FFin 0))) (\<lambda>x. Inr (Some x))
    | Some x \<Rightarrow> Inr (Some x)) = Inr ?first"
    by (simp add: nonnegative_float_def number_of_def split: option.splits)
  note count = count_reply_def nonnegative_int_def nonnegative_float_def number_of_def
    safe_finish_reason_def this
  show "\<exists>first. count_reply (planned_reply p) ep = Inr (ep\<lparr>
     request_elapsed_s := fadd (request_elapsed_s ep) (FFin 0), first_turn_ttft_s := first,
     finish_reason := Some ''tool_calls''\<rparr>)"
    by (rule exI [of _ ?first])
      (cases "first_turn_ttft_s ep"; cases ep; simp add: count planned_reply_def)
  show "\<exists>first. count_reply (final_reply sc) ep = Inr (ep\<lparr>
     request_elapsed_s := fadd (request_elapsed_s ep) (FFin 0), first_turn_ttft_s := first,
     finish_reason := Some ''stop''\<rparr>)"
    by (rule exI [of _ ?first])
      (cases "first_turn_ttft_s ep"; cases ep; simp add: count final_reply_def)
qed

lemma planned_parts:
  "function_parts (PDict [(''function'', PDict [(''name'', PStr (planned_name p)),
       (''arguments'', PDict (planned_arguments p))])]) =
     (Some (planned_name p), PDict (planned_arguments p))"
  by (cases p) (simp_all add: function_parts_def)

lemma parse_planned: "reads_back j d \<Longrightarrow> parse_arguments j (PDict d) = Some d"
  by (auto simp: reads_back_def parse_arguments_def split: option.splits)

lemma plan_length: "scenario_of sid v = Inr sc \<Longrightarrow> length (plan sc) \<le> 2"
  by (erule scenario_of_kinds) (simp_all add: plan_def)

text \<open>A planned call is executed and keeps the conversation on the plan.\<close>

lemma planned_turn:
  assumes "on_plan sc k ep" and k: "k < length (plan sc)" "k < MAX_TOOL_CALLS" and "planned_ok sc"
    and "reads_back j (planned_arguments (plan sc ! k))"
  obtains ep' where "take_turn j sc (Suc k) (planned_reply (plan sc ! k))
      (ep\<lparr>turns_used := Suc k\<rparr>) = Inr (ep', False)" "on_plan sc (Suc k) ep'"
proof -
  let ?p = "plan sc ! k" and ?ep = "ep\<lparr>turns_used := Suc k\<rparr>"
  from planned_count(1) obtain first where count: "count_reply (planned_reply ?p) ?ep =
      Inr (?ep\<lparr>request_elapsed_s := fadd (request_elapsed_s ?ep) (FFin 0),
        first_turn_ttft_s := first, finish_reason := Some ''tool_calls''\<rparr>)" by blast
  from assms(4) k(1) have ok: "planned_name ?p \<in> set (tool_names sc)"
    "arguments_valid (planned_name ?p) (planned_arguments ?p)"
    by (auto simp: planned_ok_def list_all_length)
  then obtain out where out: "execute_tool (planned_name ?p) (planned_arguments ?p)
      (unstable_calls ep) = Inr (out, unstable_calls ep +
        (if planned_name ?p = ''unstable_lookup'' then 1 else 0))"
    by (rule_tac execute_tool_total)
  from assms(1) have plan: "tool_calls_requested ep = k" "list_all2 makes (take k (plan sc)) (attempts ep)"
    "sorted_wrt (\<lambda>t u. attempt_turn t < attempt_turn u) (attempts ep)"
    and ready: "turn_ready sc (Suc k) ep"
    by (simp_all add: on_plan_def)
  have turns: "\<forall>t \<in> set (attempts ep). attempt_turn t < Suc k"
    using ready by (fastforce simp: turn_ready_def episode_counted_def calls_counted_def)
  let ?t = "\<lparr>attempt_name = planned_name ?p, attempt_arguments = planned_arguments ?p,
    outcome = code out, attempt_value = outcome_value out, attempt_turn = Suc k\<rparr>"
  have calls: "reply_tool_calls (planned_reply ?p) = PList [PDict [(''function'',
      PDict [(''name'', PStr (planned_name ?p)), (''arguments'', PDict (planned_arguments ?p))])]]"
    by (simp add: planned_reply_def)
  obtain ep' where turn: "take_turn j sc (Suc k) (planned_reply ?p) ?ep = Inr (ep', False)"
    and same: "attempts ep' = attempts ep @ [?t]" "malformed_tool_calls ep' = malformed_tool_calls ep"
      "unknown_tool_calls ep' = unknown_tool_calls ep"
      "length_terminated_turns ep' = length_terminated_turns ep"
      "completion_tokens ep' = completion_tokens ep"
      "tool_calls_requested ep' = Suc k"
    using k(2) out ok by (simp add: take_turn_def count calls plan(1) call_step_def planned_parts
        parse_planned [OF assms(5)] answer_call_def Let_def)
  have "turn_done sc (Suc k) ep' False" by (rule take_turn_counted [OF ready turn])
  moreover have "list_all2 makes (take (Suc k) (plan sc)) (attempts ep')"
    using plan(2) k(1) by (simp add: take_Suc_conv_app_nth same list_all2_appendI makes_planned)
  moreover have "sorted_wrt (\<lambda>t u. attempt_turn t < attempt_turn u) (attempts ep')"
    using plan(3) turns by (simp add: same sorted_wrt_append)
  ultimately have "on_plan sc (Suc k) ep'"
    using assms(1) by (simp add: on_plan_def turn_done_def turn_ready_def same)
  with turn show ?thesis by (rule that)
qed

lemma final_turn:
  assumes "on_plan sc (length (plan sc)) ep" and "planned_ok sc"
  obtains ep' where "take_turn j sc (Suc (length (plan sc))) (final_reply sc)
      (ep\<lparr>turns_used := Suc (length (plan sc))\<rparr>) = Inr (ep', True)"
    "only_planned_calls sc ep'" "final_answer_correct ep'" "length_terminated_turns ep' = 0"
    "completion_tokens ep' = 0"
proof -
  let ?ep = "ep\<lparr>turns_used := Suc (length (plan sc))\<rparr>"
  from planned_count(2) obtain first where count: "count_reply (final_reply sc) ?ep =
      Inr (?ep\<lparr>request_elapsed_s := fadd (request_elapsed_s ?ep) (FFin 0),
        first_turn_ttft_s := first, finish_reason := Some ''stop''\<rparr>)" by blast
  have calls: "reply_tool_calls (final_reply sc) = PList []"
    "reply_content (final_reply sc) = PStr (''FINAL: '' @ expected_answer sc)"
    by (simp_all add: final_reply_def)
  from assms(2) have "answer_matches (PStr (''FINAL: '' @ expected_answer sc)) (expected_answer sc)
      = (True, True)" by (simp add: planned_ok_def)
  then obtain ep' where turn: "take_turn j sc (Suc (length (plan sc))) (final_reply sc) ?ep =
      Inr (ep', True)" and same: "attempts ep' = attempts ep" "final_answer_correct ep'"
      "malformed_tool_calls ep' = malformed_tool_calls ep"
      "unknown_tool_calls ep' = unknown_tool_calls ep"
      "length_terminated_turns ep' = length_terminated_turns ep"
      "completion_tokens ep' = completion_tokens ep"
      "call_limit_exceeded ep' = call_limit_exceeded ep"
    by (simp add: take_turn_def count calls)
  from assms(1) show ?thesis
    by (intro that [OF turn]) (simp_all add: same on_plan_def only_planned_calls_def
        follows_plan_def turn_ready_def)
qed

lemma obedient_turns:
  assumes "on_plan sc k ep" and "k \<le> length (plan sc)" and "length (plan sc) < n"
    and "length (plan sc) \<le> MAX_TOOL_CALLS" and "planned_ok sc"
    and "\<forall>p \<in> set (plan sc). reads_back j (planned_arguments p)"
  shows "\<exists>ep' rs. run_turns scripted j sc su [Suc k..<Suc n] ep (drop k (obedient sc)) = (Inr ep', rs) \<and>
    only_planned_calls sc ep' \<and> final_answer_correct ep' \<and> length_terminated_turns ep' = 0 \<and>
    completion_tokens ep' = 0"
  using assms(1,2)
proof (induction "length (plan sc) - k" arbitrary: k ep)
  case 0
  then have k: "k = length (plan sc)" by simp
  with assms(3) have "[Suc k..<Suc n] = Suc k # [Suc (Suc k)..<Suc n]" by (simp add: upt_conv_Cons)
  moreover have "drop k (obedient sc) = [final_reply sc]" by (simp add: obedient_def k)
  moreover from "0.prems"(1) obtain ep' where "take_turn j sc (Suc k) (final_reply sc)
      (ep\<lparr>turns_used := Suc k\<rparr>) = Inr (ep', True)"
    "only_planned_calls sc ep'" "final_answer_correct ep'" "length_terminated_turns ep' = 0"
    "completion_tokens ep' = 0" unfolding k by (rule final_turn [OF _ assms(5)])
  ultimately show ?case by (simp add: scripted_def Let_def)
next
  case (Suc m)
  then have k: "k < length (plan sc)" by simp
  with assms(3) have "[Suc k..<Suc n] = Suc k # [Suc (Suc k)..<Suc n]" by (simp add: upt_conv_Cons)
  moreover from k have drop: "drop k (obedient sc) = planned_reply (plan sc ! k) # drop (Suc k) (obedient sc)"
    by (simp add: obedient_def Cons_nth_drop_Suc [symmetric] nth_append)
  moreover obtain ep1 where turn: "take_turn j sc (Suc k) (planned_reply (plan sc ! k))
      (ep\<lparr>turns_used := Suc k\<rparr>) = Inr (ep1, False)" "on_plan sc (Suc k) ep1"
    by (rule planned_turn [OF Suc.prems(1) k _ assms(5)]) (use k assms(4) bspec [OF assms(6) nth_mem [OF k]] in simp_all)
  moreover have "\<exists>ep' rs. run_turns scripted j sc su [Suc (Suc k)..<Suc n] ep1 (drop (Suc k) (obedient sc))
      = (Inr ep', rs) \<and> only_planned_calls sc ep' \<and> final_answer_correct ep' \<and>
      length_terminated_turns ep' = 0 \<and> completion_tokens ep' = 0"
    using Suc.hyps(2) k by (intro Suc.hyps(1) turn(2)) simp_all
  ultimately show ?case by (simp add: scripted_def Let_def)
qed

lemma obedient_run:
  assumes "check_arguments a = Inr (sc, turns, su)" and "int (length (plan sc)) < turns"
    and "\<forall>p \<in> set (plan sc). reads_back j (planned_arguments p)"
  obtains r s' where "run_agentic_scenario scripted j a (obedient sc) = (Inr r, s')" "episode_passed r"
proof -
  note sc = check_arguments_Inr [OF assms(1)]
  have start: "on_plan sc 0 (start_episode sc)"
    using turn_ready_start [of sc] by (simp add: on_plan_def) (simp add: start_episode_def)
  have "\<exists>ep rs. run_turns scripted j sc su [Suc 0..<Suc (nat turns)] (start_episode sc)
      (drop 0 (obedient sc)) = (Inr ep, rs) \<and> only_planned_calls sc ep \<and> final_answer_correct ep \<and>
    length_terminated_turns ep = 0 \<and> completion_tokens ep = 0"
    using assms(2,3) plan_length [OF sc(1)] scenario_planned_ok [OF sc(1)]
    by (intro obedient_turns start) (simp_all add: MAX_TOOL_CALLS_def)
  then obtain ep rs where
    run: "run_turns scripted j sc su [1..<nat turns + 1] (start_episode sc) (obedient sc) = (Inr ep, rs)"
    and ep: "only_planned_calls sc ep" "final_answer_correct ep" "length_terminated_turns ep = 0"
      "completion_tokens ep = 0"
    by auto
  have ended: "turns_done sc (nat turns + 1) ep"
    by (rule run_turns_counted [OF run turn_ready_start]) simp
  have "attempts_executed (tool_names sc) 0 (attempts ep)"
    using ended by (simp add: turns_done_def episode_counted_def calls_counted_def)
  note seq = tool_sequence_correct_plan [OF sc(1) this]
  have allowed: "case agentic_failure_code p l m u t n c e of None \<Rightarrow> True | Some c \<Rightarrow> c \<in> FAILURE_CODES"
    for p l m u t n c e
    using failure_codes [of p l m u t n c e] by (auto split: option.splits)
  have tps: "tokens_per_second (completion_tokens ep) 0 = Inr (fdiv (FFin 0) (FFin (max 0 (1 / 10 ^ 9))))"
    by (simp only: ep tokens_per_second_def float_of_int_def) (simp add: float_overflow_bound_def)
  obtain r where fin: "finish_episode sc turns (max_output_tokens su) 0 ep = Inr r"
    by (cases "finish_episode sc turns (max_output_tokens su) 0 ep")
      (simp_all add: finish_episode_def Let_def seq tps allowed)
  then have "episode_passed r"
    using finish_episode_Inr(4) [OF fin sc(1) ended] ep by simp
  moreover from fin run have "run_agentic_scenario scripted j a (obedient sc) = (Inr r, rs)"
    by (simp add: run_agentic_scenario_def assms(1) scripted_def)
  ultimately show ?thesis by (intro that)
qed

text \<open>
  C35. Every scenario can be passed: a model that makes the planned calls, one in a turn, and then
  gives the answer passes the run when it is allowed one turn more than the plan has calls.
\<close>
theorem every_scenario_can_be_passed:
  assumes "check_arguments a = Inr (sc, turns, su)" and "int (length (plan sc)) < turns"
    and "\<forall>p \<in> set (plan sc). reads_back j (planned_arguments p)"
  shows "\<exists>r s'. run_agentic_scenario scripted j a (obedient sc) = (Inr r, s') \<and> episode_passed r"
  using obedient_run [OF assms] by blast

section \<open>A concrete run\<close>

text \<open>The two-hop task with a \<open>json\<close> module that knows the texts of its two calls.\<close>

definition demo_texts :: "(string \<times> pydict) list" where
  "demo_texts = [(''label'', [(''label'', PStr ''cedar'')]),
     (''product'', [(''a'', PInt 17), (''b'', PInt 3)])]"

definition demo_json :: json_module where
  "demo_json = \<lparr>dumps_finite = (\<lambda>v. map_option fst (List.find (\<lambda>(t, d). PDict d = v) demo_texts)),
     loads = (\<lambda>t. map_option PDict (map_of demo_texts t)),
     loads_hooked = (\<lambda>_ _ _. None), dumps = (\<lambda>_. [])\<rparr>"

definition demo_arguments :: agentic_arguments where
  "demo_arguments = \<lparr>arg_scenario_id = ''agentic-two-hop'', arg_variant = PInt 0,
     arg_request_kwargs = [], arg_request_id_prefix = PStr ''run'', arg_max_turns = PInt 3,
     arg_max_output_tokens = PInt 2048, arg_temperature = PInt 0, arg_extra_body = None\<rparr>"

lemma demo_checked:
  obtains sc su where "check_arguments demo_arguments = Inr (sc, 3, su)"
    "plan sc = [Look_up ''cedar'', Multiply_by 17 3]"
    "\<forall>p \<in> set (plan sc). reads_back demo_json (planned_arguments p)"
proof -
  obtain sc where sc: "scenario_of ''agentic-two-hop'' (PInt 0) = Inr sc"
    "oracle_values sc = [PStr ''cedar'', PInt 3]"
    "tool_names sc = [''lookup_number'', ''add_integers'', ''multiply'']" "variant sc = 0"
    by (simp add: scenario_of_def scenario_tables plain_int_def number_at_def)
  have plan: "plan sc = [Look_up ''cedar'', Multiply_by 17 3]"
    by (simp add: plan_def sc(2) LOOKUP_NUMBERS_def)
  obtain schemas where "rotated_tool_schemas sc = Inr schemas"
    by (simp add: rotated_tool_schemas_def sc(3,4) TOOL_SCHEMAS_def)
  then obtain su where "check_arguments demo_arguments = Inr (sc, 3, su)"
    using sc(1) by (simp add: check_arguments_def demo_arguments_def validate_limits_def plain_int_def
        MAX_TURNS_def MIN_OUTPUT_TOKENS_def require_zero_def number_of_def float_of_int_def
        float_overflow_bound_def check_additions_def dict_keys_def)
  moreover have "utf8_length ''label'' = 5" "utf8_length ''product'' = 7" by (code_simp)+
  then have "\<forall>p \<in> set (plan sc). reads_back demo_json (planned_arguments p)"
    by (simp add: plan reads_back_def demo_json_def demo_texts_def MAX_ARGUMENT_BYTES_def)
  ultimately show ?thesis by (rule that [OF _ plan])
qed

theorem every_scenario_can_be_passed_witness:
  "\<exists>sc r s'. run_agentic_scenario scripted demo_json demo_arguments (obedient sc) = (Inr r, s') \<and>
    episode_passed r"
proof -
  obtain sc su where demo: "check_arguments demo_arguments = Inr (sc, 3, su)"
    "plan sc = [Look_up ''cedar'', Multiply_by 17 3]"
    "\<forall>p \<in> set (plan sc). reads_back demo_json (planned_arguments p)"
    by (rule demo_checked)
  show ?thesis using every_scenario_can_be_passed [OF demo(1) _ demo(3)] demo(2) by auto
qed

lemma two_hop_run:
  obtains sc su r s' where "check_arguments demo_arguments = Inr (sc, 3, su)"
    "run_agentic_scenario scripted demo_json demo_arguments (obedient sc) = (Inr r, s')"
proof -
  obtain sc su where demo: "check_arguments demo_arguments = Inr (sc, 3, su)"
    "plan sc = [Look_up ''cedar'', Multiply_by 17 3]"
    "\<forall>p \<in> set (plan sc). reads_back demo_json (planned_arguments p)"
    by (rule demo_checked)
  obtain r s' where
    "run_agentic_scenario scripted demo_json demo_arguments (obedient sc) = (Inr r, s')"
    by (rule obedient_run [OF demo(1) _ demo(3)]) (simp add: demo(2))
  with demo(1) show ?thesis by (rule that)
qed

theorem agentic_verdict_exact_witness:
  "\<exists>sc su r s'. check_arguments demo_arguments = Inr (sc, 3, su) \<and>
    run_agentic_scenario scripted demo_json demo_arguments (obedient sc) = (Inr r, s') \<and>
    (episode_passed r \<longleftrightarrow> only_planned_calls sc (last_episode r) \<and>
      final_answer_correct (last_episode r) \<and> length_terminated_turns (last_episode r) = 0)"
proof -
  obtain sc su r s' where demo: "check_arguments demo_arguments = Inr (sc, 3, su)"
    "run_agentic_scenario scripted demo_json demo_arguments (obedient sc) = (Inr r, s')"
    by (rule two_hop_run)
  with agentic_verdict_exact [OF demo] show ?thesis by blast
qed

theorem agentic_counters_bounded_witness:
  "\<exists>sc r s'. run_agentic_scenario scripted demo_json demo_arguments (obedient sc) = (Inr r, s') \<and>
    calls_answered (last_episode r) \<le> MAX_TOOL_CALLS"
proof -
  obtain sc su r s' where demo: "check_arguments demo_arguments = Inr (sc, 3, su)"
    "run_agentic_scenario scripted demo_json demo_arguments (obedient sc) = (Inr r, s')"
    by (rule two_hop_run)
  with agentic_counters_bounded [OF demo(2)] show ?thesis by (auto simp: Let_def)
qed

theorem agentic_result_type_witness:
  "\<exists>sc r s'. run_agentic_scenario scripted demo_json demo_arguments (obedient sc) = (Inr r, s') \<and>
    list_all (\<lambda>(field, v). harness_scalar v) (agentic_to_dict r)"
proof -
  obtain sc su r s' where demo: "check_arguments demo_arguments = Inr (sc, 3, su)"
    "run_agentic_scenario scripted demo_json demo_arguments (obedient sc) = (Inr r, s')"
    by (rule two_hop_run)
  with agentic_result_type [OF demo(2)] show ?thesis by blast
qed

end
