(* ===== verification/Admission_Record.thy ===== *)
theory Admission_Record
  imports Autoresearch_Policy
begin

text \<open>
  The records of \<open>bench/autoresearch_admission.py\<close>: the frozen binding of a campaign, the
  launch a record is about, the live observation with its blockers, and the checks of one record
  and of a chain of them. An \<open>AdmissionJournalError\<close> is \<open>Admission_invalid\<close>, any other
  exception \<open>Admission_escaped\<close>.

  Parameters: \<open>sha\<close> is SHA-256 of the canonical JSON text of a value; \<open>instant\<close> reads an ISO
  time with a zone as microseconds since an epoch and is \<open>None\<close> for any other text. Seconds are
  exact rational numbers.
\<close>

section \<open>Strict JSON values\<close>

datatype admission_error = Admission_invalid | Admission_escaped exn

type_synonym 'a adm = "admission_error + 'a"

text \<open>\<open>_strict_json_value\<close>: no float that is not finite and no tuple.\<close>

fun strict_json :: "pyval \<Rightarrow> bool" where
  "strict_json (PFloat x) = is_finite x"
| "strict_json (PList xs) = list_all strict_json xs"
| "strict_json (PDict d) = list_all (\<lambda>(k, v). strict_json v) d"
| "strict_json (PTuple xs) = False"
| "strict_json _ = True"

definition strict_json_value :: "pyval \<Rightarrow> pyval adm" where
  "strict_json_value v = (if strict_json v then Inr v else Inl Admission_invalid)"

definition strict_json_object :: "pyval \<Rightarrow> pydict adm" where
  "strict_json_object v = (case v of
       PDict d \<Rightarrow> andThen (strict_json_value (PDict d)) (\<lambda>_. Inr d)
     | _ \<Rightarrow> Inl Admission_invalid)"

text \<open>The digest of \<open>_strict_canonical_json(value)\<close>.\<close>

definition strict_sha :: "(pyval \<Rightarrow> string) \<Rightarrow> pyval \<Rightarrow> string adm" where
  "strict_sha sha v = andThen (strict_json_value v) (\<lambda>n. Inr (sha (canonical n)))"

definition controller_prefix_sha256 :: "(pyval \<Rightarrow> string) \<Rightarrow> pyval list \<Rightarrow> string adm" where
  "controller_prefix_sha256 sha events =
     andThen (traverse strict_json_object events) (\<lambda>normalized.
       strict_sha sha (PList (map PDict normalized)))"

definition normalize_controller_events :: "pyval \<Rightarrow> pyval list adm" where
  "normalize_controller_events events = (case events of
       PList xs \<Rightarrow> andThen (traverse strict_json_object xs) (\<lambda>ds. Inr (map PDict ds))
     | PTuple xs \<Rightarrow> andThen (traverse strict_json_object xs) (\<lambda>ds. Inr (map PDict ds))
     | _ \<Rightarrow> Inl Admission_invalid)"

section \<open>Field validators\<close>

definition stable_id :: "string \<Rightarrow> bool" where
  "stable_id s \<longleftrightarrow> s \<noteq> [] \<and> length s \<le> 256 \<and> lower_alnum (hd s) \<and>
     list_all (\<lambda>c. lower_alnum c \<or> c \<in> {CHR ''.'', CHR ''_'', CHR ''-''}) (tl s)"

definition adm_stable_id :: "pyval \<Rightarrow> string adm" where
  "adm_stable_id v = (case v of
       PStr s \<Rightarrow> if stable_id s then Inr s else Inl Admission_invalid
     | _ \<Rightarrow> Inl Admission_invalid)"

definition adm_sha256 :: "pyval \<Rightarrow> string adm" where
  "adm_sha256 v = (case v of
       PStr s \<Rightarrow> if sha256_hex s then Inr s else Inl Admission_invalid
     | _ \<Rightarrow> Inl Admission_invalid)"

definition adm_instant :: "(string \<Rightarrow> int option) \<Rightarrow> pyval \<Rightarrow> int adm" where
  "adm_instant instant v = (case v of
       PStr s \<Rightarrow> (case instant s of Some t \<Rightarrow> Inr t | None \<Rightarrow> Inl Admission_invalid)
     | _ \<Rightarrow> Inl Admission_invalid)"

definition adm_float :: "pyval \<Rightarrow> real adm" where
  "adm_float v = (case v of PFloat (FFin r) \<Rightarrow> Inr r | _ \<Rightarrow> Inl Admission_invalid)"

definition adm_positive_float :: "pyval \<Rightarrow> real adm" where
  "adm_positive_float v = andThen (adm_float v) (\<lambda>r.
     if r \<le> 0 then Inl Admission_invalid else Inr r)"

definition adm_nonnegative_int :: "pyval \<Rightarrow> int adm" where
  "adm_nonnegative_int v = (case v of
       PInt n \<Rightarrow> if n < 0 then Inl Admission_invalid else Inr n
     | _ \<Rightarrow> Inl Admission_invalid)"

definition adm_positive_int :: "pyval \<Rightarrow> int adm" where
  "adm_positive_int v = (case v of
       PInt n \<Rightarrow> if n \<le> 0 then Inl Admission_invalid else Inr n
     | _ \<Rightarrow> Inl Admission_invalid)"

lemma adm_values [simp]:
  "adm_stable_id v = Inr s \<longleftrightarrow> v = PStr s \<and> stable_id s"
  "adm_sha256 v = Inr s \<longleftrightarrow> v = PStr s \<and> sha256_hex s"
  "adm_instant instant v = Inr t \<longleftrightarrow> (\<exists>s. v = PStr s \<and> instant s = Some t)"
  "adm_float v = Inr r \<longleftrightarrow> v = PFloat (FFin r)"
  "adm_positive_float v = Inr r \<longleftrightarrow> v = PFloat (FFin r) \<and> 0 < r"
  "adm_nonnegative_int v = Inr n \<longleftrightarrow> v = PInt n \<and> 0 \<le> n"
  "adm_positive_int v = Inr n \<longleftrightarrow> v = PInt n \<and> 0 < n"
  by (auto simp: adm_stable_id_def adm_sha256_def adm_instant_def adm_float_def
      adm_positive_float_def adm_nonnegative_int_def adm_positive_int_def andThen_eq_Inr
      split: pyval.splits pyfloat.splits option.splits)

lemma adm_shapes [simp]:
  "adm_stable_id (PStr s) = (if stable_id s then Inr s else Inl Admission_invalid)"
  "adm_sha256 (PStr s) = (if sha256_hex s then Inr s else Inl Admission_invalid)"
  "adm_float (PFloat (FFin r)) = Inr r"
  "adm_positive_float (PFloat (FFin r)) = (if r \<le> 0 then Inl Admission_invalid else Inr r)"
  "adm_nonnegative_int (PInt n) = (if n < 0 then Inl Admission_invalid else Inr n)"
  "adm_positive_int (PInt n) = (if n \<le> 0 then Inl Admission_invalid else Inr n)"
  by (simp_all add: adm_stable_id_def adm_sha256_def adm_float_def adm_positive_float_def
      adm_nonnegative_int_def adm_positive_int_def)

section \<open>Binding and target\<close>

record admission_binding =
  frozen_campaign_id :: string
  frozen_integrity_sha256 :: string
  frozen_preview_sha256 :: string
  frozen_policy_sha256 :: string
  frozen_cutoff_at :: string
  frozen_required_remaining_s :: real
  frozen_required_memavailable_kib :: int
  frozen_max_starting_swap_kib :: int
  frozen_harness_sha256 :: string
  frozen_harness_file_count :: int

text \<open>\<open>AdmissionBinding(**fields)\<close>: the constructor with its \<open>__post_init__\<close>.\<close>

definition make_binding :: "(string \<Rightarrow> int option) \<Rightarrow> (string \<Rightarrow> pyval) \<Rightarrow> admission_binding adm" where
  "make_binding instant field =
     andThen (adm_stable_id (field ''campaign_id'')) (\<lambda>cid.
     andThen (adm_sha256 (field ''campaign_integrity_sha256'')) (\<lambda>integrity.
     andThen (adm_sha256 (field ''preview_sha256'')) (\<lambda>preview.
     andThen (adm_sha256 (field ''policy_sha256'')) (\<lambda>policy.
     andThen (adm_sha256 (field ''harness_sha256'')) (\<lambda>harness.
     andThen (adm_instant instant (field ''cutoff_at'')) (\<lambda>_.
     andThen (adm_positive_float (field ''required_remaining_s'')) (\<lambda>remaining.
     andThen (adm_nonnegative_int (field ''required_memavailable_kib'')) (\<lambda>memory.
     andThen (adm_nonnegative_int (field ''max_starting_swap_kib'')) (\<lambda>swap.
     andThen (adm_positive_int (field ''harness_file_count'')) (\<lambda>files.
     Inr \<lparr>frozen_campaign_id = cid, frozen_integrity_sha256 = integrity,
       frozen_preview_sha256 = preview, frozen_policy_sha256 = policy,
       frozen_cutoff_at = (case field ''cutoff_at'' of PStr s \<Rightarrow> s | _ \<Rightarrow> []),
       frozen_required_remaining_s = remaining, frozen_required_memavailable_kib = memory,
       frozen_max_starting_swap_kib = swap, frozen_harness_sha256 = harness,
       frozen_harness_file_count = files\<rparr>))))))))))"

definition binding_ok :: "(string \<Rightarrow> int option) \<Rightarrow> admission_binding \<Rightarrow> bool" where
  "binding_ok instant b \<longleftrightarrow> stable_id (frozen_campaign_id b) \<and>
     sha256_hex (frozen_integrity_sha256 b) \<and> sha256_hex (frozen_preview_sha256 b) \<and>
     sha256_hex (frozen_policy_sha256 b) \<and> sha256_hex (frozen_harness_sha256 b) \<and>
     instant (frozen_cutoff_at b) \<noteq> None \<and> 0 < frozen_required_remaining_s b \<and>
     0 \<le> frozen_required_memavailable_kib b \<and> 0 \<le> frozen_max_starting_swap_kib b \<and>
     0 < frozen_harness_file_count b"

lemma make_binding_ok: "make_binding instant field = Inr b \<Longrightarrow> binding_ok instant b"
  by (auto simp: make_binding_def andThen_eq_Inr binding_ok_def)

record admission_target =
  target_kind :: string
  target_candidate_id :: string
  target_pair_index :: int

definition ADMISSION_TARGET_KINDS :: "string set" where
  "ADMISSION_TARGET_KINDS = {''calibration'', ''screen'', ''confirmation''}"

definition make_target :: "pyval \<Rightarrow> pyval \<Rightarrow> pyval \<Rightarrow> admission_target adm" where
  "make_target kind candidate pair_index = (case kind of
       PStr k \<Rightarrow>
         (if k \<notin> ADMISSION_TARGET_KINDS then Inl Admission_invalid
          else andThen (adm_stable_id candidate) (\<lambda>c.
          andThen (adm_nonnegative_int pair_index) (\<lambda>n.
          if k = ''calibration'' then
            (if c \<noteq> ''control'' \<or> n \<noteq> 0 then Inl Admission_invalid
             else Inr \<lparr>target_kind = k, target_candidate_id = c, target_pair_index = n\<rparr>)
          else if c = ''control'' then Inl Admission_invalid
          else Inr \<lparr>target_kind = k, target_candidate_id = c, target_pair_index = n\<rparr>)))
     | _ \<Rightarrow> Inl Admission_invalid)"

definition target_ok :: "admission_target \<Rightarrow> bool" where
  "target_ok t \<longleftrightarrow> make_target (PStr (target_kind t)) (PStr (target_candidate_id t))
     (PInt (target_pair_index t)) = Inr t"

lemma make_target_ok:
  "make_target k c n = Inr t \<Longrightarrow> target_ok t \<and> k = PStr (target_kind t) \<and>
     c = PStr (target_candidate_id t) \<and> n = PInt (target_pair_index t)"
  by (cases k) (auto simp: make_target_def target_ok_def andThen_eq_Inr split: if_splits)

section \<open>Observations\<close>

record admission_observation =
  observed_at :: string
  remaining_s :: pyfloat
  memavailable_kib :: int
  swap_used_kib :: int
  observed_harness_sha256 :: string
  observed_harness_file_count :: int
  harness_matches :: bool
  blockers :: "string list"
  observed_outcome :: string

text \<open>\<open>(later - earlier).total_seconds()\<close>.\<close>

definition seconds_between :: "int \<Rightarrow> int \<Rightarrow> real" where
  "seconds_between later earlier = of_int (later - earlier) / 10 ^ 6"

definition harness_match :: "admission_binding \<Rightarrow> string \<Rightarrow> int \<Rightarrow> bool" where
  "harness_match b digest files \<longleftrightarrow>
     digest = frozen_harness_sha256 b \<and> files = frozen_harness_file_count b"

text \<open>The blockers in \<open>ADMISSION_BLOCKER_ORDER\<close>; the code writes this block three times.\<close>

definition blockers_of :: "admission_binding \<Rightarrow> bool \<Rightarrow> real \<Rightarrow> int \<Rightarrow> int \<Rightarrow> string list" where
  "blockers_of b matches remaining swap_used memavailable =
     (if \<not> matches then [''harness_code_changed''] else []) @
     (if remaining < frozen_required_remaining_s b then [''insufficient_time_for_pair''] else []) @
     (if swap_used > frozen_max_starting_swap_kib b then [''starting_swap_above_clean_limit''] else []) @
     (if memavailable < frozen_required_memavailable_kib b
      then [''insufficient_preflight_memavailable''] else [])"

definition outcome_of :: "string list \<Rightarrow> string" where
  "outcome_of bl = (if bl = [] then ''admitted''
     else if bl = [''insufficient_time_for_pair''] then ''cutoff''
     else ''blocked_environment'')"

text \<open>
  \<open>now\<close> is an aware datetime as its instant and its \<open>isoformat()\<close>, or \<open>None\<close>.
\<close>

definition observe_admission :: "(string \<Rightarrow> int option) \<Rightarrow> admission_binding \<Rightarrow> (int \<times> string) option \<Rightarrow>
    pyval \<Rightarrow> pyval \<Rightarrow> pyval \<Rightarrow> pyval \<Rightarrow> admission_observation adm" where
  "observe_admission instant b now memavailable swap_used harness files = (case now of
       None \<Rightarrow> Inl Admission_invalid
     | Some (t, text) \<Rightarrow>
         andThen (adm_nonnegative_int memavailable) (\<lambda>mem.
         andThen (adm_nonnegative_int swap_used) (\<lambda>swap.
         andThen (adm_sha256 harness) (\<lambda>digest.
         andThen (adm_positive_int files) (\<lambda>count.
         andThen (adm_instant instant (PStr (frozen_cutoff_at b))) (\<lambda>cutoff.
         let remaining = seconds_between cutoff t;
             matches = harness_match b digest count;
             bl = blockers_of b matches remaining swap mem
         in Inr \<lparr>observed_at = text, remaining_s = FFin remaining, memavailable_kib = mem,
              swap_used_kib = swap, observed_harness_sha256 = digest,
              observed_harness_file_count = count, harness_matches = matches,
              blockers = bl, observed_outcome = outcome_of bl\<rparr>))))))"

definition validate_observation ::
  "(string \<Rightarrow> int option) \<Rightarrow> admission_binding \<Rightarrow> admission_observation \<Rightarrow> unit adm" where
  "validate_observation instant b ob =
     andThen (adm_instant instant (PStr (observed_at ob))) (\<lambda>t.
     andThen (adm_instant instant (PStr (frozen_cutoff_at b))) (\<lambda>cutoff.
     andThen (adm_float (PFloat (remaining_s ob))) (\<lambda>remaining.
     if remaining \<noteq> seconds_between cutoff t then Inl Admission_invalid
     else andThen (adm_nonnegative_int (PInt (memavailable_kib ob))) (\<lambda>_.
     andThen (adm_nonnegative_int (PInt (swap_used_kib ob))) (\<lambda>_.
     andThen (adm_sha256 (PStr (observed_harness_sha256 ob))) (\<lambda>_.
     andThen (adm_positive_int (PInt (observed_harness_file_count ob))) (\<lambda>_.
     let matches = harness_match b (observed_harness_sha256 ob) (observed_harness_file_count ob);
         bl = blockers_of b matches remaining (swap_used_kib ob) (memavailable_kib ob)
     in if harness_matches ob \<noteq> matches then Inl Admission_invalid
        else if blockers ob \<noteq> bl then Inl Admission_invalid
        else if observed_outcome ob \<noteq> outcome_of bl then Inl Admission_invalid
        else Inr ())))))))"

section \<open>One record\<close>

definition ADMISSION_SCHEMA_VERSION :: int where "ADMISSION_SCHEMA_VERSION = 1"
definition GENESIS_RECORD_SHA256 :: string where
  "GENESIS_RECORD_SHA256 = replicate 64 (CHR ''0'')"
definition ADMISSION_OUTCOMES :: "string set" where
  "ADMISSION_OUTCOMES = {''admitted'', ''blocked_environment'', ''cutoff''}"

definition RECORD_KEYS :: "string set" where
  "RECORD_KEYS =
     {''schema_version'', ''sequence'', ''previous_record_sha256'', ''record_sha256'',
      ''campaign_id'', ''campaign_integrity_sha256'', ''preview_sha256'', ''policy_sha256'',
      ''controller_event_count'', ''controller_prefix_sha256'', ''target_kind'', ''candidate_id'',
      ''pair_index'', ''observed_at'', ''cutoff_at'', ''remaining_s'', ''required_remaining_s'',
      ''memavailable_kib'', ''required_memavailable_kib'', ''swap_used_kib'',
      ''max_starting_swap_kib'', ''observed_harness_sha256'', ''observed_harness_file_count'',
      ''harness_matches'', ''blockers'', ''outcome''}"

definition record_sha256 :: "(pyval \<Rightarrow> string) \<Rightarrow> pydict \<Rightarrow> string adm" where
  "record_sha256 sha r = strict_sha sha (PDict (filter (\<lambda>(k, v). k \<noteq> ''record_sha256'') r))"

definition require :: "bool \<Rightarrow> unit adm" where
  "require b = check b Admission_invalid"

lemma require_simps [simp]:
  "require True = Inr ()" "require b = Inr u \<longleftrightarrow> b"
  by (simp_all add: require_def)

text \<open>The part of a record that must repeat the binding.\<close>

definition check_bound_fields :: "admission_binding \<Rightarrow> pydict \<Rightarrow> unit adm" where
  "check_bound_fields b r =
     andThen (require (dict_get r ''campaign_id'' = PStr (frozen_campaign_id b))) (\<lambda>_.
     andThen (require (dict_get r ''campaign_integrity_sha256'' = PStr (frozen_integrity_sha256 b))) (\<lambda>_.
     andThen (require (dict_get r ''preview_sha256'' = PStr (frozen_preview_sha256 b))) (\<lambda>_.
     andThen (require (dict_get r ''policy_sha256'' = PStr (frozen_policy_sha256 b))) (\<lambda>_.
     andThen (require (dict_get r ''cutoff_at'' = PStr (frozen_cutoff_at b))) (\<lambda>_.
     andThen (adm_positive_float (dict_get r ''required_remaining_s'')) (\<lambda>remaining.
     andThen (require (remaining = frozen_required_remaining_s b)) (\<lambda>_.
     andThen (adm_nonnegative_int (dict_get r ''required_memavailable_kib'')) (\<lambda>memory.
     andThen (adm_nonnegative_int (dict_get r ''max_starting_swap_kib'')) (\<lambda>swap.
     andThen (require (memory = frozen_required_memavailable_kib b)) (\<lambda>_.
     require (swap = frozen_max_starting_swap_kib b)))))))))))"

text \<open>The part of a record that is the observation, and the decision it must show.\<close>

definition check_observed_fields :: "(string \<Rightarrow> int option) \<Rightarrow> admission_binding \<Rightarrow> pydict \<Rightarrow> unit adm" where
  "check_observed_fields instant b r =
     andThen (adm_instant instant (dict_get r ''observed_at'')) (\<lambda>t.
     andThen (adm_instant instant (dict_get r ''cutoff_at'')) (\<lambda>cutoff.
     andThen (adm_float (dict_get r ''remaining_s'')) (\<lambda>remaining.
     andThen (require (remaining = seconds_between cutoff t)) (\<lambda>_.
     andThen (adm_nonnegative_int (dict_get r ''memavailable_kib'')) (\<lambda>mem.
     andThen (adm_nonnegative_int (dict_get r ''swap_used_kib'')) (\<lambda>swap.
     andThen (adm_positive_int (dict_get r ''observed_harness_file_count'')) (\<lambda>files.
     andThen (adm_sha256 (dict_get r ''observed_harness_sha256'')) (\<lambda>digest.
     let matches = harness_match b digest files; bl = blockers_of b matches remaining swap mem in
     andThen (require (dict_get r ''harness_matches'' = PBool matches)) (\<lambda>_.
     andThen (require (dict_get r ''blockers'' = PList (map PStr bl))) (\<lambda>_.
     case dict_get r ''outcome'' of
       PStr o' \<Rightarrow> andThen (require (o' \<in> ADMISSION_OUTCOMES)) (\<lambda>_. require (o' = outcome_of bl))
     | _ \<Rightarrow> Inl Admission_invalid))))))))))"

definition validate_record :: "(pyval \<Rightarrow> string) \<Rightarrow> (string \<Rightarrow> int option) \<Rightarrow> admission_binding \<Rightarrow>
    pyval list \<Rightarrow> int \<Rightarrow> string \<Rightarrow> pydict \<Rightarrow> unit adm" where
  "validate_record sha instant b events expected_sequence expected_previous r =
     andThen (require (dict_keys r = RECORD_KEYS)) (\<lambda>_.
     andThen (require (dict_get r ''schema_version'' = PInt ADMISSION_SCHEMA_VERSION)) (\<lambda>_.
     andThen (adm_positive_int (dict_get r ''sequence'')) (\<lambda>sequence.
     andThen (require (sequence = expected_sequence)) (\<lambda>_.
     andThen (require (dict_get r ''previous_record_sha256'' = PStr expected_previous)) (\<lambda>_.
     andThen (adm_sha256 (dict_get r ''record_sha256'')) (\<lambda>digest.
     andThen (record_sha256 sha r) (\<lambda>computed.
     andThen (require (digest = computed)) (\<lambda>_.
     andThen (check_bound_fields b r) (\<lambda>_.
     andThen (adm_nonnegative_int (dict_get r ''controller_event_count'')) (\<lambda>count.
     andThen (require (count \<le> int (length events))) (\<lambda>_.
     andThen (adm_sha256 (dict_get r ''controller_prefix_sha256'')) (\<lambda>prefix_hash.
     andThen (controller_prefix_sha256 sha (take (nat count) events)) (\<lambda>expected_prefix.
     andThen (require (prefix_hash = expected_prefix)) (\<lambda>_.
     andThen (make_target (dict_get r ''target_kind'') (dict_get r ''candidate_id'')
       (dict_get r ''pair_index'')) (\<lambda>_.
     check_observed_fields instant b r)))))))))))))))"

section \<open>The chain\<close>

record chain_state =
  chain_length :: int
  previous_sha :: string
  prior_count :: int
  prior_instant :: "int option"

definition chain_start :: chain_state where
  "chain_start = \<lparr>chain_length = 0, previous_sha = GENESIS_RECORD_SHA256, prior_count = 0,
     prior_instant = None\<rparr>"

text \<open>
  The body of the loop of \<open>_validate_chain\<close>; \<open>int(record[...])\<close> and \<open>str(record[...])\<close> are of
  values that were just found to be an integer and a string.
\<close>

definition chain_step :: "(pyval \<Rightarrow> string) \<Rightarrow> (string \<Rightarrow> int option) \<Rightarrow> admission_binding \<Rightarrow>
    pyval list \<Rightarrow> chain_state \<Rightarrow> pydict \<Rightarrow> chain_state adm" where
  "chain_step sha instant b events st r =
     andThen (validate_record sha instant b events (chain_length st + 1) (previous_sha st) r) (\<lambda>_.
     andThen (adm_nonnegative_int (dict_get r ''controller_event_count'')) (\<lambda>count.
     if count < prior_count st then Inl Admission_invalid
     else andThen (adm_instant instant (dict_get r ''observed_at'')) (\<lambda>t.
     if (case prior_instant st of None \<Rightarrow> False | Some p \<Rightarrow> t < p) then Inl Admission_invalid
     else Inr \<lparr>chain_length = chain_length st + 1,
       previous_sha = (case dict_get r ''record_sha256'' of PStr s \<Rightarrow> s | _ \<Rightarrow> []),
       prior_count = count, prior_instant = Some t\<rparr>)))"

definition chain_end :: "(pyval \<Rightarrow> string) \<Rightarrow> (string \<Rightarrow> int option) \<Rightarrow> admission_binding \<Rightarrow>
    pyval list \<Rightarrow> pydict list \<Rightarrow> chain_state adm" where
  "chain_end sha instant b events rs = fold_res (chain_step sha instant b events) chain_start rs"

definition validate_chain :: "(pyval \<Rightarrow> string) \<Rightarrow> (string \<Rightarrow> int option) \<Rightarrow> admission_binding \<Rightarrow>
    pyval list \<Rightarrow> pydict list \<Rightarrow> unit adm" where
  "validate_chain sha instant b events rs = andThen (chain_end sha instant b events rs) (\<lambda>_. Inr ())"

text \<open>\<open>_record_payload\<close>: the record of an observation, checked as it is built.\<close>

definition record_payload :: "(pyval \<Rightarrow> string) \<Rightarrow> (string \<Rightarrow> int option) \<Rightarrow> admission_binding \<Rightarrow>
    admission_target \<Rightarrow> admission_observation \<Rightarrow> pyval list \<Rightarrow> int \<Rightarrow> string \<Rightarrow> pydict adm" where
  "record_payload sha instant b t ob events sequence previous =
     andThen (controller_prefix_sha256 sha events) (\<lambda>prefix_hash.
     let payload =
       [(''schema_version'', PInt ADMISSION_SCHEMA_VERSION),
        (''sequence'', PInt sequence),
        (''previous_record_sha256'', PStr previous),
        (''campaign_id'', PStr (frozen_campaign_id b)),
        (''campaign_integrity_sha256'', PStr (frozen_integrity_sha256 b)),
        (''preview_sha256'', PStr (frozen_preview_sha256 b)),
        (''policy_sha256'', PStr (frozen_policy_sha256 b)),
        (''controller_event_count'', PInt (int (length events))),
        (''controller_prefix_sha256'', PStr prefix_hash),
        (''target_kind'', PStr (target_kind t)),
        (''candidate_id'', PStr (target_candidate_id t)),
        (''pair_index'', PInt (target_pair_index t)),
        (''observed_at'', PStr (observed_at ob)),
        (''cutoff_at'', PStr (frozen_cutoff_at b)),
        (''remaining_s'', PFloat (remaining_s ob)),
        (''required_remaining_s'', PFloat (FFin (frozen_required_remaining_s b))),
        (''memavailable_kib'', PInt (memavailable_kib ob)),
        (''required_memavailable_kib'', PInt (frozen_required_memavailable_kib b)),
        (''swap_used_kib'', PInt (swap_used_kib ob)),
        (''max_starting_swap_kib'', PInt (frozen_max_starting_swap_kib b)),
        (''observed_harness_sha256'', PStr (observed_harness_sha256 ob)),
        (''observed_harness_file_count'', PInt (observed_harness_file_count ob)),
        (''harness_matches'', PBool (harness_matches ob)),
        (''blockers'', PList (map PStr (blockers ob))),
        (''outcome'', PStr (observed_outcome ob))]
     in andThen (record_sha256 sha payload) (\<lambda>digest.
        let r = payload @ [(''record_sha256'', PStr digest)] in
        andThen (validate_record sha instant b events sequence previous r) (\<lambda>_. Inr r)))"

end
