(* ===== verification/Admission_Journal.thy ===== *)
theory Admission_Journal
  imports Admission_Record Py_Text
begin

text \<open>
  The journal of \<open>bench/autoresearch_admission.py\<close>: opening, reading and appending with the
  checks that the open file is the one the path names and does not change meanwhile. The system
  calls are functions over an unknown environment \<open>'s\<close>, one reply at a time, so another process
  may do anything between two calls. \<open>O_NOFOLLOW\<close> is supported, and closing a descriptor is left
  out. \<open>load\<close> is \<open>json.loads\<close> with the hook that refuses repeated keys, \<open>dump\<close> the canonical
  text of a value.
\<close>

section \<open>Calls\<close>

datatype file_kind = Regular_file | Directory_file | Other_file

record file_stat =
  st_dev :: int
  st_ino :: int
  st_kind :: file_kind
  st_perm :: nat
  st_nlink :: int
  st_uid :: int
  st_size :: nat
  st_mtime_ns :: int
  st_ctime_ns :: int

datatype 'a call_reply = Got 'a | File_missing | File_exists | Call_failed

record 's admission_os =
  euid :: int
  open_parent :: "'s \<Rightarrow> unit call_reply \<times> 's"
  fstat_parent :: "'s \<Rightarrow> file_stat call_reply \<times> 's"
  lstat_parent :: "'s \<Rightarrow> file_stat call_reply \<times> 's"
  open_file :: "'s \<Rightarrow> unit call_reply \<times> 's"
  create_file :: "'s \<Rightarrow> unit call_reply \<times> 's"
  fstat_file :: "'s \<Rightarrow> file_stat call_reply \<times> 's"
  stat_entry :: "'s \<Rightarrow> file_stat call_reply \<times> 's"
  lock_file :: "'s \<Rightarrow> unit call_reply \<times> 's"
  pread_file :: "nat \<Rightarrow> nat \<Rightarrow> 's \<Rightarrow> string call_reply \<times> 's"
  write_file :: "string \<Rightarrow> 's \<Rightarrow> int call_reply \<times> 's"
  fsync_file :: "'s \<Rightarrow> unit call_reply \<times> 's"
  fsync_parent :: "'s \<Rightarrow> unit call_reply \<times> 's"

type_synonym ('s, 'a) io = "'s \<Rightarrow> 'a adm \<times> 's"

definition iret :: "'a \<Rightarrow> ('s, 'a) io" where "iret x = (\<lambda>s. (Inr x, s))"
definition ifail :: "admission_error \<Rightarrow> ('s, 'a) io" where "ifail e = (\<lambda>s. (Inl e, s))"
definition ibind :: "('s, 'a) io \<Rightarrow> ('a \<Rightarrow> ('s, 'b) io) \<Rightarrow> ('s, 'b) io" where
  "ibind m f = (\<lambda>s. case m s of (Inl e, t) \<Rightarrow> (Inl e, t) | (Inr x, t) \<Rightarrow> f x t)"
definition ipure :: "'a adm \<Rightarrow> ('s, 'a) io" where "ipure r = (\<lambda>s. (r, s))"

text \<open>A call whose \<open>OSError\<close> leaves the function, and one whose \<open>OSError\<close> is translated.\<close>

definition call_raw :: "('s \<Rightarrow> 'a call_reply \<times> 's) \<Rightarrow> ('s, 'a) io" where
  "call_raw f = (\<lambda>s. case f s of (Got x, t) \<Rightarrow> (Inr x, t)
     | (_, t) \<Rightarrow> (Inl (Admission_escaped OSError), t))"

definition call_checked :: "('s \<Rightarrow> 'a call_reply \<times> 's) \<Rightarrow> ('s, 'a) io" where
  "call_checked f = (\<lambda>s. case f s of (Got x, t) \<Rightarrow> (Inr x, t) | (_, t) \<Rightarrow> (Inl Admission_invalid, t))"

section \<open>Identity of the file\<close>

definition topology_identity :: "file_stat \<Rightarrow> int \<times> int \<times> file_kind \<times> nat \<times> int \<times> int" where
  "topology_identity m = (st_dev m, st_ino m, st_kind m, st_perm m, st_nlink m, st_uid m)"

definition metadata_identity ::
  "file_stat \<Rightarrow> (int \<times> int \<times> file_kind \<times> nat \<times> int \<times> int) \<times> nat \<times> int \<times> int" where
  "metadata_identity m = (topology_identity m, st_size m, st_mtime_ns m, st_ctime_ns m)"

definition private_file :: "int \<Rightarrow> file_stat \<Rightarrow> bool" where
  "private_file uid m \<longleftrightarrow> st_kind m = Regular_file \<and> st_nlink m = 1 \<and> st_uid m = uid \<and>
     st_perm m = 384"

definition require_entry_identity :: "'s admission_os \<Rightarrow> ('s, file_stat) io" where
  "require_entry_identity os =
     ibind (call_raw (fstat_file os)) (\<lambda>m.
     if \<not> private_file (euid os) m then ifail Admission_invalid
     else ibind (call_checked (stat_entry os)) (\<lambda>e.
     if topology_identity e \<noteq> topology_identity m then ifail Admission_invalid
     else iret m))"

definition open_parent_directory :: "'s admission_os \<Rightarrow> string \<Rightarrow> ('s, unit) io" where
  "open_parent_directory os name =
     (if name \<in> {'''', ''.'', ''..''} then ifail Admission_invalid
      else ibind (call_checked (open_parent os)) (\<lambda>_.
      ibind (call_raw (fstat_parent os)) (\<lambda>m.
      ibind (call_raw (lstat_parent os)) (\<lambda>p.
      if st_kind m \<noteq> Directory_file \<or> st_uid m \<noteq> euid os \<or> st_dev m \<noteq> st_dev p \<or>
        st_ino m \<noteq> st_ino p then ifail Admission_invalid
      else iret ()))))"

text \<open>\<open>_open_existing_journal\<close>: \<open>None\<close> is the \<open>FileNotFoundError\<close> of the open itself.\<close>

definition open_existing_journal :: "'s admission_os \<Rightarrow> ('s, unit option) io" where
  "open_existing_journal os = (\<lambda>s. case open_file os s of
       (File_missing, t) \<Rightarrow> (Inr None, t)
     | (Got _, t) \<Rightarrow> ibind (require_entry_identity os) (\<lambda>_. iret (Some ())) t
     | (_, t) \<Rightarrow> (Inl Admission_invalid, t))"

text \<open>
  \<open>_create_or_open_append_journal\<close>: whether the file was created. A file that appears and goes
  away again before it is opened is a \<open>FileNotFoundError\<close>.
\<close>

definition create_or_open_append_journal :: "'s admission_os \<Rightarrow> ('s, bool) io" where
  "create_or_open_append_journal os = (\<lambda>s. case create_file os s of
       (Got _, t) \<Rightarrow> ibind (require_entry_identity os) (\<lambda>_. iret True) t
     | (File_exists, t) \<Rightarrow>
         ibind (open_existing_journal os) (\<lambda>found. case found of
             None \<Rightarrow> ifail (Admission_escaped OSError)
           | Some _ \<Rightarrow> ibind (require_entry_identity os) (\<lambda>_. iret False)) t
     | (_, t) \<Rightarrow> (Inl Admission_invalid, t))"

section \<open>Reading\<close>

text \<open>The loop over \<open>os.pread\<close>: a chunk is at most what was asked for.\<close>

function pread_loop :: "'s admission_os \<Rightarrow> nat \<Rightarrow> nat \<Rightarrow> string \<Rightarrow> 's \<Rightarrow> string adm \<times> 's" where
  "pread_loop os wanted offset payload s =
     (if wanted \<le> offset then (Inr payload, s)
      else (case pread_file os (min 65536 (wanted - offset)) offset s of
          (Got chunk, t) \<Rightarrow>
            (if chunk = [] then (Inl Admission_invalid, t)
             else pread_loop os wanted (offset + length chunk) (payload @ chunk) t)
        | (_, t) \<Rightarrow> (Inl (Admission_escaped OSError), t)))"
  by pat_completeness auto
termination
  by (relation "measure (\<lambda>(os, wanted, offset, payload, s). wanted - offset)") (auto simp: neq_Nil_conv)

declare pread_loop.simps [simp del]

definition read_descriptor :: "'s admission_os \<Rightarrow> int \<Rightarrow> ('s, string) io" where
  "read_descriptor os max_bytes =
     ibind (require_entry_identity os) (\<lambda>before.
     if int (st_size before) > max_bytes then ifail Admission_invalid
     else ibind (pread_loop os (st_size before) 0 []) (\<lambda>payload.
     ibind (call_raw (fstat_file os)) (\<lambda>after.
     if metadata_identity after \<noteq> metadata_identity before then ifail Admission_invalid
     else ibind (require_entry_identity os) (\<lambda>_. iret payload))))"

text \<open>
  What \<open>json.loads\<close> makes of a line: a value, a text that is not UTF-8 or not JSON, a repeated
  key, or another exception (an integer with too many digits, too deep a nesting).
\<close>

datatype json_reading = Reads pyval | Malformed | Repeats_key | Load_raises exn

definition decode_line :: "(string \<Rightarrow> json_reading) \<Rightarrow> string \<Rightarrow> pydict adm" where
  "decode_line load line =
     (if line = [] then Inl Admission_invalid
      else (case load line of
          Reads (PDict d) \<Rightarrow> Inr d
        | Reads _ \<Rightarrow> Inl Admission_invalid
        | Malformed \<Rightarrow> Inl Admission_invalid
        | Repeats_key \<Rightarrow> Inl Admission_invalid
        | Load_raises e \<Rightarrow> Inl (Admission_escaped e)))"

definition decode_records :: "(string \<Rightarrow> json_reading) \<Rightarrow> string \<Rightarrow> pydict list adm" where
  "decode_records load payload =
     (if payload = [] then Inr []
      else if last payload \<noteq> LF then Inl Admission_invalid
      else traverse (decode_line load) (splitlines_bytes payload))"

text \<open>What the functions below take besides the binding and the environment.\<close>

record admission_codec =
  digest_of :: "pyval \<Rightarrow> string"
  time_of :: "string \<Rightarrow> int option"
  json_load :: "string \<Rightarrow> json_reading"
  json_dump :: "pyval \<Rightarrow> string"

definition checked_chain :: "admission_codec \<Rightarrow> admission_binding \<Rightarrow> pyval list \<Rightarrow> string \<Rightarrow>
    pydict list adm" where
  "checked_chain c b events payload =
     andThen (decode_records (json_load c) payload) (\<lambda>records.
     andThen (validate_chain (digest_of c) (time_of c) b events records) (\<lambda>_. Inr records))"

definition read_admission_journal :: "admission_codec \<Rightarrow> 's admission_os \<Rightarrow> string \<Rightarrow>
    admission_binding \<Rightarrow> pyval \<Rightarrow> pyval \<Rightarrow> ('s, pydict list) io" where
  "read_admission_journal c os name b controller_events max_bytes =
     ibind (ipure (adm_positive_int max_bytes)) (\<lambda>bound.
     ibind (ipure (normalize_controller_events controller_events)) (\<lambda>events.
     ibind (open_parent_directory os name) (\<lambda>_.
     ibind (open_existing_journal os) (\<lambda>found. case found of
       None \<Rightarrow> iret []
     | Some _ \<Rightarrow>
         ibind (call_raw (lock_file os)) (\<lambda>_.
         ibind (read_descriptor os bound) (\<lambda>payload.
         ipure (checked_chain c b events payload)))))))"

section \<open>Appending\<close>

function write_all :: "'s admission_os \<Rightarrow> string \<Rightarrow> 's \<Rightarrow> unit adm \<times> 's" where
  "write_all os rest s =
     (if rest = [] then (Inr (), s)
      else (case write_file os rest s of
          (Got n, t) \<Rightarrow>
            (if n \<le> 0 then (Inl (Admission_escaped OSError), t) else write_all os (drop (nat n) rest) t)
        | (_, t) \<Rightarrow> (Inl (Admission_escaped OSError), t)))"
  by pat_completeness auto
termination
  by (relation "measure (\<lambda>(os, rest, s). length rest)") auto

declare write_all.simps [simp del]

definition encode_record :: "admission_codec \<Rightarrow> pydict \<Rightarrow> string adm" where
  "encode_record c r = andThen (strict_json_value (PDict r)) (\<lambda>n. Inr (json_dump c (canonical n) @ [LF]))"

text \<open>The digest the next record refers to.\<close>

definition last_sha :: "pydict list \<Rightarrow> string adm" where
  "last_sha records = (if records = [] then Inr GENESIS_RECORD_SHA256
     else (case getitem (last records) ''record_sha256'' of
         Inr (PStr s) \<Rightarrow> Inr s | _ \<Rightarrow> Inl (Admission_escaped KeyError)))"

text \<open>
  \<open>observed_records[-1] != record\<close>: dicts are equal whatever the order of their keys. Both were
  validated, so their fields have the same types.
\<close>

definition equal_records :: "pydict \<Rightarrow> pydict \<Rightarrow> bool" where
  "equal_records r r' \<longleftrightarrow> canonical (PDict r) = canonical (PDict r')"

text \<open>Opening for an append: the first record must fit before a file is created.\<close>

definition open_for_append :: "admission_codec \<Rightarrow> 's admission_os \<Rightarrow> admission_binding \<Rightarrow>
    admission_target \<Rightarrow> admission_observation \<Rightarrow> pyval list \<Rightarrow> int \<Rightarrow> ('s, bool) io" where
  "open_for_append c os b t ob events bound =
     ibind (open_existing_journal os) (\<lambda>found. case found of
       Some _ \<Rightarrow> iret False
     | None \<Rightarrow>
         ibind (ipure (record_payload (digest_of c) (time_of c) b t ob events 1 GENESIS_RECORD_SHA256))
           (\<lambda>first.
         ibind (ipure (encode_record c first)) (\<lambda>encoded.
         if int (length encoded) > bound then ifail Admission_invalid
         else create_or_open_append_journal os)))"

definition append_locked :: "admission_codec \<Rightarrow> 's admission_os \<Rightarrow> admission_binding \<Rightarrow>
    admission_target \<Rightarrow> admission_observation \<Rightarrow> pyval list \<Rightarrow> int \<Rightarrow> bool \<Rightarrow> ('s, pydict) io" where
  "append_locked c os b t ob events bound created =
     ibind (call_raw (lock_file os)) (\<lambda>_.
     ibind (read_descriptor os bound) (\<lambda>payload.
     ibind (ipure (checked_chain c b events payload)) (\<lambda>records.
     ibind (ipure (last_sha records)) (\<lambda>previous.
     ibind (ipure (record_payload (digest_of c) (time_of c) b t ob events
       (int (length records) + 1) previous)) (\<lambda>r.
     ibind (ipure (validate_chain (digest_of c) (time_of c) b events (records @ [r]))) (\<lambda>_.
     ibind (ipure (encode_record c r)) (\<lambda>encoded.
     if int (length (payload @ encoded)) > bound then ifail Admission_invalid
     else ibind (write_all os encoded) (\<lambda>_.
     ibind (call_raw (fsync_file os)) (\<lambda>_.
     ibind (read_descriptor os bound) (\<lambda>observed.
     if observed \<noteq> payload @ encoded then ifail Admission_invalid
     else ibind (ipure (checked_chain c b events observed)) (\<lambda>seen.
     if seen = [] then ifail (Admission_escaped IndexError)
     else if \<not> equal_records (last seen) r then ifail Admission_invalid
     else if created then
       ibind (call_raw (fsync_parent os)) (\<lambda>_.
       ibind (require_entry_identity os) (\<lambda>_. iret r))
     else iret r)))))))))))"

text \<open>\<open>except (OSError, TypeError, ValueError)\<close> around everything after the parent was opened.\<close>

definition as_admission_error :: "('s, 'a) io \<Rightarrow> ('s, 'a) io" where
  "as_admission_error m = (\<lambda>s. case m s of
       (Inl (Admission_escaped e), t) \<Rightarrow>
         (Inl (if e \<in> {OSError, TypeError, ValueError} then Admission_invalid
               else Admission_escaped e), t)
     | r \<Rightarrow> r)"

definition append_admission_record :: "admission_codec \<Rightarrow> 's admission_os \<Rightarrow> string \<Rightarrow>
    admission_binding \<Rightarrow> admission_target \<Rightarrow> admission_observation \<Rightarrow> pyval \<Rightarrow> pyval \<Rightarrow>
    ('s, pydict) io" where
  "append_admission_record c os name b t ob controller_events max_bytes =
     ibind (ipure (adm_positive_int max_bytes)) (\<lambda>bound.
     ibind (ipure (normalize_controller_events controller_events)) (\<lambda>events.
     ibind (ipure (validate_observation (time_of c) b ob)) (\<lambda>_.
     ibind (open_parent_directory os name) (\<lambda>_.
     as_admission_error
       (ibind (open_for_append c os b t ob events bound)
         (append_locked c os b t ob events bound))))))"

end
