(* ===== verification/Admission_Chain.thy ===== *)
theory Admission_Chain
  imports Admission_Journal Mapping_Codec
begin

text \<open>
  Chains of admission records: what a valid chain says of its records, that its last digest fixes
  its history, that the record of a validated observation extends it, and that the order of the
  keys of a record does not matter.
\<close>

section \<open>Dictionaries and their canonical form\<close>

lemma canonical_lookup:
  assumes "canonical (PDict d) = canonical (PDict e)"
    and "distinct (map fst d)" and "distinct (map fst e)"
  shows "map_option canonical (map_of d k) = map_option canonical (map_of e k)"
proof -
  let ?c = "\<lambda>d. map (\<lambda>(k, v). (k, canonical v)) d"
  have keys: "map fst (?c d) = map fst d" for d by (induction d) auto
  have look: "map_of (?c d) k = map_option canonical (map_of d k)" for d by (induction d) auto
  from assms(1) have "sort_key fst (?c d) = sort_key fst (?c e)" by simp
  then have "map_of (?c d) = map_of (?c e)"
    using assms(2,3) keys by (metis map_of_sort_key)
  then show ?thesis by (metis look)
qed

text \<open>The part of a record that its digest covers.\<close>

definition unsigned :: "pydict \<Rightarrow> pydict" where
  "unsigned r = filter (\<lambda>(k, v). k \<noteq> ''record_sha256'') r"

lemma unsigned_distinct: "distinct (map fst r) \<Longrightarrow> distinct (map fst (unsigned r))"
  by (induction r) (auto simp: unsigned_def)

lemma unsigned_lookup: "k \<noteq> ''record_sha256'' \<Longrightarrow> map_of (unsigned r) k = map_of r k"
  by (induction r) (auto simp: unsigned_def)

text \<open>Two records agree when their digests and the values these cover agree.\<close>

definition same_record :: "pydict \<Rightarrow> pydict \<Rightarrow> bool" where
  "same_record r r' \<longleftrightarrow> canonical (PDict (unsigned r)) = canonical (PDict (unsigned r')) \<and>
     dict_get r ''record_sha256'' = dict_get r' ''record_sha256''"

lemma same_record_get:
  assumes "same_record r r'" and "distinct (map fst r)" and "distinct (map fst r')"
    and "dict_get r k = v" and "canonical v = v" and "v \<noteq> PNone" and "k \<noteq> ''record_sha256''"
  shows "canonical (dict_get r' k) = v"
proof -
  from assms(4,6) have "map_of r k = Some v"
    by (auto simp: dict_get_def split: option.splits)
  with assms(1-3,5,7) have "map_option canonical (map_of r' k) = Some v"
    using canonical_lookup [of "unsigned r" "unsigned r'" k]
    by (simp add: same_record_def unsigned_distinct unsigned_lookup del: canonical.simps)
  then obtain w where "map_of r' k = Some w" "canonical w = v" by blast
  then show ?thesis by (simp add: dict_get_def)
qed

lemma canonical_scalar:
  "canonical v = PInt n \<longleftrightarrow> v = PInt n" "canonical v = PStr s \<longleftrightarrow> v = PStr s"
  by (cases v; simp)+

section \<open>What a valid chain says of its records\<close>

lemma validate_record_Inr:
  assumes "validate_record sha instant b events n previous r = Inr ()"
  obtains digest where "dict_get r ''sequence'' = PInt n"
    "dict_get r ''previous_record_sha256'' = PStr previous"
    "dict_get r ''record_sha256'' = PStr digest" "sha256_hex digest"
    "strict_sha sha (PDict (unsigned r)) = Inr digest"
  using assms by (auto simp: validate_record_def andThen_eq_Inr record_sha256_def unsigned_def)

lemma strict_sha_Inr: "strict_sha sha v = Inr d \<longleftrightarrow> strict_json v \<and> d = sha (canonical v)"
  by (auto simp: strict_sha_def strict_json_value_def)

lemma chain_step_Inr:
  assumes "chain_step sha instant b events st r = Inr st'"
  shows "validate_record sha instant b events (chain_length st + 1) (previous_sha st) r = Inr ()"
    "chain_length st' = chain_length st + 1" "dict_get r ''record_sha256'' = PStr (previous_sha st')"
    "previous_sha st' = sha (canonical (PDict (unsigned r)))"
proof -
  from assms show one: "validate_record sha instant b events (chain_length st + 1) (previous_sha st) r
      = Inr ()"
    by (auto simp: chain_step_def andThen_eq_Inr)
  then obtain digest where "dict_get r ''record_sha256'' = PStr digest"
    "strict_sha sha (PDict (unsigned r)) = Inr digest" by (rule validate_record_Inr)
  with assms show "chain_length st' = chain_length st + 1"
    "dict_get r ''record_sha256'' = PStr (previous_sha st')"
    "previous_sha st' = sha (canonical (PDict (unsigned r)))"
    by (auto simp: chain_step_def andThen_eq_Inr strict_sha_Inr split: if_splits)
qed

lemma chain_end_length:
  "chain_end sha instant b events rs = Inr st \<Longrightarrow> chain_length st = int (length rs)"
proof (induction rs arbitrary: st rule: rev_induct)
  case Nil
  then show ?case by (auto simp: chain_end_def chain_start_def)
next
  case (snoc r rs)
  then obtain st0 where "chain_end sha instant b events rs = Inr st0"
    "chain_step sha instant b events st0 r = Inr st"
    by (auto simp: chain_end_def fold_res_append andThen_eq_Inr)
  with snoc.IH chain_step_Inr(2) show ?case by fastforce
qed

lemma chain_end_snoc:
  assumes "chain_end sha instant b events (rs @ [r]) = Inr st"
  obtains st0 where "chain_end sha instant b events rs = Inr st0"
    "chain_step sha instant b events st0 r = Inr st"
  using assms by (auto simp: chain_end_def fold_res_append andThen_eq_Inr)

text \<open>The digest of the last record fixes the whole history, as long as no two records collide.\<close>

lemma head_fixes_history:
  assumes "chain_end sha instant b events rs = Inr st" and "chain_end sha instant' b' events' rs' = Inr st'"
    and "previous_sha st = previous_sha st'" and "rs \<noteq> [] \<longleftrightarrow> rs' \<noteq> []"
    and "\<forall>r \<in> set rs \<union> set rs'. distinct (map fst r)"
    and "inj_on sha ((\<lambda>r. canonical (PDict (unsigned r))) ` (set rs \<union> set rs'))"
  shows "list_all2 same_record rs rs'"
  using assms
proof (induction rs arbitrary: rs' st st' rule: rev_induct)
  case Nil
  then show ?case by simp
next
  case (snoc r rs)
  from snoc.prems(4) obtain r' ss where rs': "rs' = ss @ [r']" by (cases rs' rule: rev_cases) auto
  obtain st0 where st0: "chain_end sha instant b events rs = Inr st0"
    "chain_step sha instant b events st0 r = Inr st" by (rule chain_end_snoc [OF snoc.prems(1)])
  obtain st1 where st1: "chain_end sha instant' b' events' ss = Inr st1"
    "chain_step sha instant' b' events' st1 r' = Inr st'"
    by (rule chain_end_snoc [OF snoc.prems(2) [unfolded rs']])
  note r = chain_step_Inr [OF st0(2)] and r' = chain_step_Inr [OF st1(2)]
  have "canonical (PDict (unsigned r)) = canonical (PDict (unsigned r'))"
    by (rule inj_onD [OF snoc.prems(6)]) (use r(4) r'(4) snoc.prems(3) rs' in simp_all)
  then have same: "same_record r r'"
    using r(3) r'(3) snoc.prems(3) by (simp add: same_record_def)
  have dist: "distinct (map fst r)" "distinct (map fst r')" using snoc.prems(5) rs' by simp_all
  from validate_record_Inr [OF r(1)] have seq: "dict_get r ''sequence'' = PInt (chain_length st0 + 1)"
    and prev: "dict_get r ''previous_record_sha256'' = PStr (previous_sha st0)" by auto
  from validate_record_Inr [OF r'(1)] have seq': "dict_get r' ''sequence'' = PInt (chain_length st1 + 1)"
    and prev': "dict_get r' ''previous_record_sha256'' = PStr (previous_sha st1)" by auto
  have "chain_length st0 = chain_length st1"
    using same_record_get [OF same dist seq] by (simp add: seq' canonical_scalar)
  then have len: "length rs = length ss" using chain_end_length st0(1) st1(1) by fastforce
  have "previous_sha st0 = previous_sha st1"
    using same_record_get [OF same dist prev] by (simp add: prev' canonical_scalar)
  then have "list_all2 same_record rs ss"
    by (rule snoc.IH [OF st0(1) st1(1)])
      (use len snoc.prems(5,6) rs' in \<open>auto elim: inj_on_subset\<close>)
  with same rs' show ?case by (simp add: list_all2_appendI)
qed

section \<open>Fresh records\<close>

lemma record_keys:
  "set [''schema_version'', ''sequence'', ''previous_record_sha256'', ''campaign_id'',
     ''campaign_integrity_sha256'', ''preview_sha256'', ''policy_sha256'',
     ''controller_event_count'', ''controller_prefix_sha256'', ''target_kind'', ''candidate_id'',
     ''pair_index'', ''observed_at'', ''cutoff_at'', ''remaining_s'', ''required_remaining_s'',
     ''memavailable_kib'', ''required_memavailable_kib'', ''swap_used_kib'',
     ''max_starting_swap_kib'', ''observed_harness_sha256'', ''observed_harness_file_count'',
     ''harness_matches'', ''blockers'', ''outcome'', ''record_sha256''] = RECORD_KEYS"
  by code_simp

lemma outcome_known: "outcome_of bl \<in> ADMISSION_OUTCOMES"
  by (simp add: outcome_of_def ADMISSION_OUTCOMES_def)

lemma normalized_strict:
  "normalize_controller_events v = Inr events \<Longrightarrow>
     \<exists>ds. events = map PDict ds \<and> list_all (\<lambda>d. strict_json (PDict d)) ds"
proof -
  have objects: "list_all (\<lambda>d. strict_json (PDict d)) ds" if "traverse strict_json_object xs = Inr ds" for xs ds
    using that by (induction xs arbitrary: ds)
      (auto simp: andThen_eq_Inr strict_json_object_def strict_json_value_def split: pyval.splits if_splits)
  assume "normalize_controller_events v = Inr events"
  then show ?thesis
    by (cases v) (auto simp: normalize_controller_events_def andThen_eq_Inr dest!: objects
        simp del: strict_json.simps)
qed

lemma prefix_of_normalized:
  assumes "normalize_controller_events v = Inr events"
  shows "controller_prefix_sha256 sha (take n events) = Inr (sha (canonical (PList (take n events))))"
proof -
  obtain ds where ds: "events = map PDict ds" "list_all (\<lambda>d. strict_json (PDict d)) ds"
    using normalized_strict [OF assms] by blast
  have "traverse strict_json_object (map PDict es) = Inr es" if "list_all (\<lambda>d. strict_json (PDict d)) es" for es
    using that by (induction es) (auto simp: strict_json_object_def strict_json_value_def)
  moreover have "list_all (\<lambda>d. strict_json (PDict d)) (take n ds)"
    using ds(2) by (auto simp: list_all_iff dest: in_set_takeD)
  ultimately have "traverse strict_json_object (take n events) = Inr (take n ds)"
    by (simp add: ds(1) take_map)
  moreover have "list_all strict_json (map PDict (take n ds))"
    using \<open>list_all (\<lambda>d. strict_json (PDict d)) (take n ds)\<close> by (simp add: list_all_iff)
  ultimately show ?thesis
    by (simp add: controller_prefix_sha256_def strict_sha_def strict_json_value_def ds(1) take_map
        del: canonical.simps)
qed

text \<open>The record of a validated observation passes its own check.\<close>

definition fresh_fields :: "admission_codec \<Rightarrow> admission_binding \<Rightarrow> admission_target \<Rightarrow>
    admission_observation \<Rightarrow> pyval list \<Rightarrow> int \<Rightarrow> string \<Rightarrow> pydict" where
  "fresh_fields c b t ob events n previous =
     [(''schema_version'', PInt ADMISSION_SCHEMA_VERSION),
      (''sequence'', PInt n),
      (''previous_record_sha256'', PStr previous),
      (''campaign_id'', PStr (frozen_campaign_id b)),
      (''campaign_integrity_sha256'', PStr (frozen_integrity_sha256 b)),
      (''preview_sha256'', PStr (frozen_preview_sha256 b)),
      (''policy_sha256'', PStr (frozen_policy_sha256 b)),
      (''controller_event_count'', PInt (int (length events))),
      (''controller_prefix_sha256'', PStr (digest_of c (canonical (PList events)))),
      (''target_kind'', PStr (target_kind t)),
      (''candidate_id'', PStr (target_candidate_id t)),
      (''pair_index'', PInt (target_pair_index t)),
      (''observed_at'', PStr (observed_at ob)),
      (''cutoff_at'', PStr (frozen_cutoff_at b)),
      (''remaining_s'', PFloat (remaining_s ob)),
      (''required_remaining_s'', PFloat (FFin (frozen_required_remaining_s b))),
      (''memavailable_kib'', PInt (memavailable_kib ob)),
      (''required_memavailable_kib'', PInt (frozen_required_memavailable_kib b)),
      (''swap_used_kib'', PInt (swap_used_kib ob)),
      (''max_starting_swap_kib'', PInt (frozen_max_starting_swap_kib b)),
      (''observed_harness_sha256'', PStr (observed_harness_sha256 ob)),
      (''observed_harness_file_count'', PInt (observed_harness_file_count ob)),
      (''harness_matches'', PBool (harness_matches ob)),
      (''blockers'', PList (map PStr (blockers ob))),
      (''outcome'', PStr (observed_outcome ob))]"

definition fresh_record :: "admission_codec \<Rightarrow> admission_binding \<Rightarrow> admission_target \<Rightarrow>
    admission_observation \<Rightarrow> pyval list \<Rightarrow> int \<Rightarrow> string \<Rightarrow> pydict" where
  "fresh_record c b t ob events n previous = fresh_fields c b t ob events n previous @
     [(''record_sha256'', PStr (digest_of c (canonical (PDict (fresh_fields c b t ob events n previous)))))]"

text \<open>What an append relies on, besides the state of the file.\<close>

definition ready :: "admission_codec \<Rightarrow> admission_binding \<Rightarrow> admission_target \<Rightarrow>
    admission_observation \<Rightarrow> pyval \<Rightarrow> pyval list \<Rightarrow> bool" where
  "ready c b t ob evs events \<longleftrightarrow> binding_ok (time_of c) b \<and> target_ok t \<and>
     validate_observation (time_of c) b ob = Inr () \<and>
     normalize_controller_events evs = Inr events \<and> (\<forall>v. sha256_hex (digest_of c v))"

lemma fresh_unsigned: "unsigned (fresh_record c b t ob events n previous) =
    fresh_fields c b t ob events n previous"
  by (simp add: unsigned_def fresh_record_def fresh_fields_def)

lemma fresh_get:
  "dict_get (fresh_record c b t ob events n previous) k =
     (if k = ''record_sha256'' then PStr (digest_of c (canonical (PDict (fresh_fields c b t ob events n previous))))
      else dict_get (fresh_fields c b t ob events n previous) k)"
  by (simp add: fresh_record_def dict_get_def map_add_def fresh_fields_def)

lemma fresh_valid:
  assumes "ready c b t ob evs events" and "0 < n"
  shows "validate_record (digest_of c) (time_of c) b events n previous
    (fresh_record c b t ob events n previous) = Inr ()"
proof -
  let ?r = "fresh_record c b t ob events n previous"
  from assms(1) have b: "binding_ok (time_of c) b" and t: "target_ok t"
    and ob: "validate_observation (time_of c) b ob = Inr ()"
    and ev: "normalize_controller_events evs = Inr events"
    and hex: "\<And>v. sha256_hex (digest_of c v)"
    by (auto simp: ready_def)
  have keys: "dict_keys ?r = RECORD_KEYS"
    unfolding record_keys [symmetric] by (simp add: fresh_record_def fresh_fields_def dict_keys_def)
  have strict: "strict_json (PDict (fresh_fields c b t ob events n previous))"
    using ob by (auto simp: fresh_fields_def validate_observation_def andThen_eq_Inr list_all_iff)
  have prefix: "controller_prefix_sha256 (digest_of c) events = Inr (digest_of c (canonical (PList events)))"
    using prefix_of_normalized [OF ev, of _ "length events"] by simp
  have "record_sha256 (digest_of c) ?r =
      Inr (digest_of c (canonical (PDict (fresh_fields c b t ob events n previous))))"
    using strict by (simp add: record_sha256_def unsigned_def [symmetric] fresh_unsigned strict_sha_Inr
        del: canonical.simps strict_json.simps)
  moreover have "check_bound_fields b ?r = Inr ()"
    using b by (simp add: check_bound_fields_def fresh_get fresh_fields_def binding_ok_def not_le)
  moreover have "check_observed_fields (time_of c) b ?r = Inr ()"
    using ob b by (auto simp: check_observed_fields_def validate_observation_def andThen_eq_Inr fresh_get
        fresh_fields_def Let_def outcome_known split: if_splits)
  moreover have "make_target (dict_get ?r ''target_kind'') (dict_get ?r ''candidate_id'')
      (dict_get ?r ''pair_index'') = Inr t"
    using t by (simp add: target_ok_def fresh_get fresh_fields_def)
  moreover have "dict_get ?r ''schema_version'' = PInt ADMISSION_SCHEMA_VERSION"
    "dict_get ?r ''sequence'' = PInt n" "dict_get ?r ''previous_record_sha256'' = PStr previous"
    "dict_get ?r ''controller_event_count'' = PInt (int (length events))"
    "dict_get ?r ''controller_prefix_sha256'' = PStr (digest_of c (canonical (PList events)))"
    by (simp_all add: fresh_get fresh_fields_def del: canonical.simps)
  moreover have "dict_get ?r ''record_sha256'' =
      PStr (digest_of c (canonical (PDict (fresh_fields c b t ob events n previous))))"
    by (simp add: fresh_get del: canonical.simps)
  ultimately show ?thesis
    using assms(2) keys prefix
    by (simp add: validate_record_def hex not_le del: canonical.simps)
qed

lemma fresh_payload:
  assumes "ready c b t ob evs events" and "0 < n"
  shows "record_payload (digest_of c) (time_of c) b t ob events n previous =
    Inr (fresh_record c b t ob events n previous)"
proof -
  from assms(1) have ob: "validate_observation (time_of c) b ob = Inr ()"
    and ev: "normalize_controller_events evs = Inr events"
    by (auto simp: ready_def)
  have prefix: "controller_prefix_sha256 (digest_of c) events = Inr (digest_of c (canonical (PList events)))"
    using prefix_of_normalized [OF ev, of _ "length events"] by simp
  have plain: "filter (\<lambda>(k, v). k \<noteq> ''record_sha256'') (fresh_fields c b t ob events n previous) =
      fresh_fields c b t ob events n previous"
    by (simp add: fresh_fields_def)
  have strict: "strict_json (PDict (fresh_fields c b t ob events n previous))"
    using ob by (auto simp: fresh_fields_def validate_observation_def andThen_eq_Inr list_all_iff)
  have signed: "record_sha256 (digest_of c) (fresh_fields c b t ob events n previous) =
      Inr (digest_of c (canonical (PDict (fresh_fields c b t ob events n previous))))"
    using strict by (simp add: record_sha256_def plain strict_sha_Inr del: canonical.simps strict_json.simps)
  show ?thesis
    unfolding record_payload_def prefix andThen_simps Let_def fresh_fields_def [symmetric]
    unfolding signed andThen_simps Let_def fresh_record_def [symmetric]
    unfolding fresh_valid [OF assms] andThen_simps ..
qed

section \<open>The order of the keys does not matter\<close>

lemma sort_twice: "sort_key f (sort_key f xs) = sort_key f xs"
  by (rule sort_key_id_if_sorted) simp

lemma validate_record_reorder:
  assumes "dict_get d = dict_get e" and "dict_keys d = dict_keys e"
    and "record_sha256 sha d = record_sha256 sha e"
  shows "validate_record sha instant b events n previous d = validate_record sha instant b events n previous e"
  using assms by (simp add: validate_record_def check_bound_fields_def check_observed_fields_def)

lemma chain_step_reorder:
  assumes "dict_get d = dict_get e" and "dict_keys d = dict_keys e"
    and "record_sha256 sha d = record_sha256 sha e"
  shows "chain_step sha instant b events st d = chain_step sha instant b events st e"
  unfolding chain_step_def validate_record_reorder [OF assms] assms(1) ..

lemma fresh_sorted:
  fixes c b t ob events n previous
  defines "r \<equiv> fresh_record c b t ob events n previous"
  shows "canonical (PDict r) = PDict (sort_key fst r)"
    and "dict_get (sort_key fst r) = dict_get r" and "dict_keys (sort_key fst r) = dict_keys r"
    and "record_sha256 sha (sort_key fst r) = record_sha256 sha r"
    and "equal_records (sort_key fst r) r"
proof -
  let ?u = "fresh_fields c b t ob events n previous"
  have scalar: "\<forall>(k, v) \<in> set r. canonical v = v"
    by (simp add: r_def fresh_record_def fresh_fields_def)
  have same: "map (\<lambda>(k, v). (k, canonical v)) xs = xs" if "set xs \<subseteq> set r" for xs
    using scalar that by (intro map_idI) auto
  have distinct: "distinct (map fst r)" by (simp add: r_def fresh_record_def fresh_fields_def)
  show "canonical (PDict r) = PDict (sort_key fst r)" by (simp add: same)
  show "dict_get (sort_key fst r) = dict_get r"
    by (auto simp: dict_get_def map_of_sort_key [OF distinct])
  show "dict_keys (sort_key fst r) = dict_keys r" by (simp add: dict_keys_def)
  show "equal_records (sort_key fst r) r" by (simp add: equal_records_def same sort_twice)
  have "unsigned (sort_key fst r) = sort_key fst (unsigned r)"
    by (simp add: unsigned_def filter_sort)
  moreover have "set (unsigned r) \<subseteq> set r" by (auto simp: unsigned_def)
  ultimately have "canonical (PDict (unsigned (sort_key fst r))) = canonical (PDict (unsigned r))"
    and "strict_json (PDict (unsigned (sort_key fst r))) = strict_json (PDict (unsigned r))"
    by (simp_all add: same sort_twice list_all_iff)
  then show "record_sha256 sha (sort_key fst r) = record_sha256 sha r"
    by (simp add: record_sha256_def unsigned_def [symmetric] strict_sha_def strict_json_value_def
        del: canonical.simps strict_json.simps)
qed

text \<open>A fresh record extends a valid chain.\<close>

lemma chain_end_count:
  "chain_end sha instant b events rs = Inr st \<Longrightarrow> prior_count st \<le> int (length events)"
proof (induction rs arbitrary: st rule: rev_induct)
  case Nil
  then show ?case by (auto simp: chain_end_def chain_start_def)
next
  case (snoc r rs)
  from chain_end_snoc [OF snoc.prems] obtain st0 where "chain_step sha instant b events st0 r = Inr st"
    by blast
  then show ?case
    by (auto simp: chain_step_def validate_record_def andThen_eq_Inr split: if_splits)
qed

lemma fresh_step:
  assumes "ready c b t ob evs events" and st: "chain_end (digest_of c) (time_of c) b events rs = Inr st"
    and "time_of c (observed_at ob) = Some now" and "\<forall>p. prior_instant st = Some p \<longrightarrow> p \<le> now"
  shows "\<exists>st'. chain_step (digest_of c) (time_of c) b events st
    (fresh_record c b t ob events (int (length rs) + 1) (previous_sha st)) = Inr st'"
proof -
  let ?r = "fresh_record c b t ob events (int (length rs) + 1) (previous_sha st)"
  have "validate_record (digest_of c) (time_of c) b events (chain_length st + 1) (previous_sha st) ?r = Inr ()"
    using fresh_valid [OF assms(1), of "int (length rs) + 1"] chain_end_length [OF st] by simp
  moreover have "dict_get ?r ''controller_event_count'' = PInt (int (length events))"
    "dict_get ?r ''observed_at'' = PStr (observed_at ob)"
    by (simp_all add: fresh_get fresh_fields_def del: canonical.simps)
  ultimately show ?thesis
    using chain_end_count [OF st] assms(3,4)
    by (auto simp: chain_step_def adm_instant_def split: option.splits)
qed

lemma last_sha_previous:
  assumes "chain_end sha instant b events rs = Inr st"
  shows "last_sha rs = Inr (previous_sha st)"
proof (cases rs rule: rev_cases)
  case Nil
  with assms show ?thesis by (auto simp: last_sha_def chain_end_def chain_start_def)
next
  case (snoc ss r)
  from chain_end_snoc [OF assms [unfolded snoc]] have "dict_get r ''record_sha256'' = PStr (previous_sha st)"
    by (metis chain_step_Inr(3))
  then show ?thesis by (simp add: snoc last_sha_def dict_get_def getitem_def split: option.splits)
qed

end
