(* ===== verification/Admission_Disk.thy ===== *)
theory Admission_Disk
  imports Admission_Chain
begin

text \<open>
  The calls of the admission journal: which exceptions they let through, what a returned append
  has checked whatever other processes do, and their effect on a disk that no other process writes.
\<close>

section \<open>A returned append\<close>

lemma ibind_Inr [res_inv]:
  "ibind m f s = (Inr y, s') \<longleftrightarrow> (\<exists>x t. m s = (Inr x, t) \<and> f x t = (Inr y, s'))"
  by (auto simp: ibind_def split: prod.splits sum.splits)

lemma io_simps [simp]:
  "ipure r s = (q, s') \<longleftrightarrow> r = q \<and> s' = s"
  "iret x s = (q, s') \<longleftrightarrow> q = Inr x \<and> s' = s"
  "ifail e s = (q, s') \<longleftrightarrow> q = Inl e \<and> s' = s"
  by (auto simp: ipure_def iret_def ifail_def)

lemma io_if [simp]:
  "(if b then ifail e else m) s = (Inr y, s') \<longleftrightarrow> \<not> b \<and> m s = (Inr y, s')"
  by auto

lemma as_admission_error_Inr [simp]:
  "as_admission_error m s = (Inr y, s') \<longleftrightarrow> m s = (Inr y, s')"
  by (auto simp: as_admission_error_def split: prod.splits sum.splits admission_error.splits)

lemma append_locked_Inr:
  assumes "append_locked c os b t ob events bound created s = (Inr r, s')"
  obtains payload rs previous encoded seen where
    "checked_chain c b events payload = Inr rs" "last_sha rs = Inr previous"
    "record_payload (digest_of c) (time_of c) b t ob events (int (length rs) + 1) previous = Inr r"
    "validate_chain (digest_of c) (time_of c) b events (rs @ [r]) = Inr ()"
    "encode_record c r = Inr encoded" "int (length (payload @ encoded)) \<le> bound"
    "checked_chain c b events (payload @ encoded) = Inr seen" "seen \<noteq> []"
    "equal_records (last seen) r"
proof -
  from assms obtain payload rs previous encoded seen where
    "checked_chain c b events payload = Inr rs" "last_sha rs = Inr previous" and
    r: "record_payload (digest_of c) (time_of c) b t ob events (int (length rs) + 1) previous = Inr r"
    and "validate_chain (digest_of c) (time_of c) b events (rs @ [r]) = Inr ()"
    "encode_record c r = Inr encoded" "int (length (payload @ encoded)) \<le> bound"
    "checked_chain c b events (payload @ encoded) = Inr seen" "seen \<noteq> []"
    "equal_records (last seen) r"
    unfolding append_locked_def ibind_Inr io_simps io_if
    by (cases created) (simp_all add: ibind_Inr not_less, blast+)
  then show ?thesis by (rule that)
qed

section \<open>A disk that only the caller writes\<close>

text \<open>
  The environment in which no other process touches the file: its state is the content of the
  file, if there is one. One write takes at most \<open>takes\<close> of the bytes it is given (none is an
  error), and \<open>synced\<close> says whether \<open>fsync\<close> works.
\<close>

definition disk_stat :: "string \<Rightarrow> file_stat" where
  "disk_stat content = \<lparr>st_dev = 1, st_ino = 2, st_kind = Regular_file, st_perm = 384, st_nlink = 1,
     st_uid = 0, st_size = length content, st_mtime_ns = int (length content),
     st_ctime_ns = int (length content)\<rparr>"

definition parent_stat :: file_stat where
  "parent_stat = \<lparr>st_dev = 1, st_ino = 1, st_kind = Directory_file, st_perm = 448, st_nlink = 2,
     st_uid = 0, st_size = 0, st_mtime_ns = 0, st_ctime_ns = 0\<rparr>"

definition on_file :: "(string \<Rightarrow> 'a call_reply) \<Rightarrow> string option \<Rightarrow> 'a call_reply \<times> string option" where
  "on_file f d = (case d of None \<Rightarrow> (File_missing, None) | Some content \<Rightarrow> (f content, Some content))"

definition quiet_disk :: "(string \<Rightarrow> nat) \<Rightarrow> bool \<Rightarrow> string option admission_os" where
  "quiet_disk takes synced =
     \<lparr>euid = 0,
      open_parent = (\<lambda>d. (Got (), d)),
      fstat_parent = (\<lambda>d. (Got parent_stat, d)),
      lstat_parent = (\<lambda>d. (Got parent_stat, d)),
      open_file = on_file (\<lambda>_. Got ()),
      create_file = (\<lambda>d. case d of None \<Rightarrow> (Got (), Some []) | Some c \<Rightarrow> (File_exists, Some c)),
      fstat_file = on_file (\<lambda>c. Got (disk_stat c)),
      stat_entry = on_file (\<lambda>c. Got (disk_stat c)),
      lock_file = (\<lambda>d. (Got (), d)),
      pread_file = (\<lambda>n offset. on_file (\<lambda>c. Got (take n (drop offset c)))),
      write_file = (\<lambda>rest d. case d of None \<Rightarrow> (Call_failed, None)
        | Some c \<Rightarrow> (let n = min (takes rest) (length rest) in (Got (int n), Some (c @ take n rest)))),
      fsync_file = (\<lambda>d. (if synced then Got () else Call_failed, d)),
      fsync_parent = (\<lambda>d. (if synced then Got () else Call_failed, d))\<rparr>"

lemma disk_identity [simp]:
  "require_entry_identity (quiet_disk takes synced) (Some c) = (Inr (disk_stat c), Some c)"
  by (simp add: require_entry_identity_def quiet_disk_def on_file_def ibind_def call_raw_def
      call_checked_def private_file_def disk_stat_def)

lemma disk_parent [simp]:
  "open_parent_directory (quiet_disk takes synced) name d =
     (if name \<in> {'''', ''.'', ''..''} then Inl Admission_invalid else Inr (), d)"
  by (simp add: open_parent_directory_def quiet_disk_def ibind_def call_raw_def call_checked_def
      parent_stat_def iret_def ifail_def)

lemma disk_open [simp]:
  "open_existing_journal (quiet_disk takes synced) d = (Inr (map_option (\<lambda>_. ()) d), d)"
proof (cases d)
  case (Some c)
  have "open_file (quiet_disk takes synced) (Some c) = (Got (), Some c)"
    by (simp add: quiet_disk_def on_file_def)
  with Some show ?thesis by (simp add: open_existing_journal_def ibind_def iret_def)
qed (simp add: open_existing_journal_def quiet_disk_def on_file_def)

lemma disk_pread:
  "offset \<le> length c \<Longrightarrow> d = Some c \<Longrightarrow>
     pread_loop (quiet_disk takes synced) (length c) offset payload d = (Inr (payload @ drop offset c), Some c)"
proof (induction "quiet_disk takes synced" "length c" offset payload d rule: pread_loop.induct)
  case (1 offset payload d)
  let ?os = "quiet_disk takes synced"
  define n where "n = min 65536 (length c - offset)"
  note hyp = "1.hyps" [folded n_def]
  have read: "pread_file ?os n offset (Some c) = (Got (take n (drop offset c)), Some c)"
    by (simp add: quiet_disk_def on_file_def)
  show ?case
  proof (cases "length c \<le> offset")
    case True
    with 1 show ?thesis by (simp add: pread_loop.simps)
  next
    case False
    then have some: "take n (drop offset c) \<noteq> []" by (simp add: n_def)
    have len: "length (take n (drop offset c)) = n" by (simp add: n_def)
    have "pread_loop ?os (length c) (offset + n) (payload @ take n (drop offset c)) (Some c) =
        (Inr ((payload @ take n (drop offset c)) @ drop (offset + n) c), Some c)"
      using hyp [OF False _ refl some, unfolded len] read "1.prems" False by (simp add: n_def)
    moreover have "take n (drop offset c) @ drop (offset + n) c = drop offset c"
      by (metis append_take_drop_id drop_drop add.commute)
    ultimately show ?thesis
      using False "1.prems" read some len
      by (simp add: pread_loop.simps [of _ _ offset] n_def [symmetric])
  qed
qed

lemma disk_read [simp]:
  "read_descriptor (quiet_disk takes synced) bound (Some c) =
     (if int (length c) > bound then Inl Admission_invalid else Inr c, Some c)"
proof -
  have "fstat_file (quiet_disk takes synced) (Some c) = (Got (disk_stat c), Some c)"
    by (simp add: quiet_disk_def on_file_def)
  then show ?thesis
    using disk_pread [of 0 c "Some c" takes synced "[]"]
    by (simp add: read_descriptor_def ibind_def call_raw_def iret_def ifail_def disk_stat_def)
qed

lemma disk_write:
  assumes "d = Some c"
  shows "\<exists>k. k \<le> length rest \<and>
    snd (write_all (quiet_disk takes synced) rest d) = Some (c @ take k rest) \<and>
    (fst (write_all (quiet_disk takes synced) rest d) = Inr () \<longrightarrow> k = length rest)"
  using assms
proof (induction "quiet_disk takes synced" rest d arbitrary: c rule: write_all.induct)
  case (1 rest d)
  let ?os = "quiet_disk takes synced" and ?n = "min (takes rest) (length rest)"
  have wrote: "write_file ?os rest (Some c) = (Got (int ?n), Some (c @ take ?n rest))"
    by (simp add: quiet_disk_def Let_def)
  show ?case
  proof (cases "rest = [] \<or> ?n = 0")
    case True
    then have "write_all ?os rest d =
        (if rest = [] then Inr () else Inl (Admission_escaped OSError), Some c)"
      using "1.prems" wrote by (auto simp: write_all.simps [of _ rest])
    then show ?thesis by (intro exI [of _ 0]) auto
  next
    case False
    then have pos: "\<not> int ?n \<le> 0" "rest \<noteq> []" by auto
    let ?next = "write_all ?os (drop ?n rest) (Some (c @ take ?n rest))"
    have "\<exists>k. k \<le> length (drop (nat (int ?n)) rest) \<and>
      snd (write_all ?os (drop (nat (int ?n)) rest) (Some (c @ take ?n rest))) =
        Some ((c @ take ?n rest) @ take k (drop (nat (int ?n)) rest)) \<and>
      (fst (write_all ?os (drop (nat (int ?n)) rest) (Some (c @ take ?n rest))) = Inr () \<longrightarrow>
        k = length (drop (nat (int ?n)) rest))"
      by (rule "1.hyps" [OF pos(2) _ refl pos(1) refl]) (use "1.prems" wrote in simp)
    then obtain k where k: "k \<le> length rest - ?n"
      "snd ?next = Some (c @ take ?n rest @ take k (drop ?n rest))"
      "fst ?next = Inr () \<longrightarrow> k = length rest - ?n" by auto
    have step: "write_all ?os rest d = ?next"
      using "1.prems" wrote pos by (simp add: write_all.simps [of _ rest])
    have "take ?n rest @ take k (drop ?n rest) = take (?n + k) rest" by (simp add: take_add)
    with k step show ?thesis by (intro exI [of _ "?n + k"]) auto
  qed
qed

lemma disk_lock [simp]: "call_raw (lock_file (quiet_disk takes synced)) d = (Inr (), d)"
  by (simp add: call_raw_def quiet_disk_def)

lemma disk_sync [simp]:
  "call_raw (fsync_file (quiet_disk takes synced)) d =
     (if synced then Inr () else Inl (Admission_escaped OSError), d)"
  "call_raw (fsync_parent (quiet_disk takes synced)) d =
     (if synced then Inr () else Inl (Admission_escaped OSError), d)"
  by (simp_all add: call_raw_def quiet_disk_def)

definition disk_content :: "string option \<Rightarrow> string" where
  "disk_content d = (case d of None \<Rightarrow> [] | Some c \<Rightarrow> c)"

lemma checked_chain_Nil [simp]: "checked_chain c b events [] = Inr []"
  by (simp add: checked_chain_def decode_records_def validate_chain_def chain_end_def)

text \<open>Reading a quiet disk checks the chain of its content.\<close>

lemma read_quiet:
  assumes "0 < bound" and "normalize_controller_events evs = Inr events"
    and "name \<notin> {'''', ''.'', ''..''}"
  shows "read_admission_journal c (quiet_disk takes synced) name b evs (PInt bound) d =
    (if int (length (disk_content d)) > bound then Inl Admission_invalid
     else checked_chain c b events (disk_content d), d)"
  using assms
  by (cases d) (simp_all add: read_admission_journal_def ibind_def ipure_def iret_def disk_content_def)

text \<open>Where an append on a quiet disk stops, and what it leaves.\<close>

lemma append_locked_quiet:
  assumes "append_locked c (quiet_disk takes synced) b t ob events bound created (Some content) = (res, d)"
  shows "(d = Some content \<and> (\<forall>r. res \<noteq> Inr r)) \<or>
    (\<exists>r encoded k rs. encode_record c r = Inr encoded \<and> k \<le> length encoded \<and>
      checked_chain c b events content = Inr rs \<and>
      int (length (content @ encoded)) \<le> bound \<and>
      d = Some (content @ take k encoded) \<and>
      (\<forall>r'. res = Inr r' \<longrightarrow> k = length encoded \<and> r' = r \<and>
        (\<exists>seen. checked_chain c b events (content @ encoded) = Inr seen \<and> equal_records (last seen) r)))"
proof (cases "\<exists>rs previous r encoded. checked_chain c b events content = Inr rs \<and>
    last_sha rs = Inr previous \<and>
    record_payload (digest_of c) (time_of c) b t ob events (int (length rs) + 1) previous = Inr r \<and>
    validate_chain (digest_of c) (time_of c) b events (rs @ [r]) = Inr () \<and>
    encode_record c r = Inr encoded \<and> int (length content) \<le> bound \<and>
    int (length (content @ encoded)) \<le> bound")
  case False
  with assms have "d = Some content \<and> (\<forall>r. res \<noteq> Inr r)"
    by (auto simp: append_locked_def ibind_def ipure_def ifail_def split: sum.splits if_splits)
  then show ?thesis by blast
next
  case True
  then obtain rs previous r encoded where ok: "checked_chain c b events content = Inr rs"
    "last_sha rs = Inr previous"
    "record_payload (digest_of c) (time_of c) b t ob events (int (length rs) + 1) previous = Inr r"
    "validate_chain (digest_of c) (time_of c) b events (rs @ [r]) = Inr ()"
    "encode_record c r = Inr encoded" "int (length content) \<le> bound"
    "int (length (content @ encoded)) \<le> bound" by blast
  obtain w d1 where wrote: "write_all (quiet_disk takes synced) encoded (Some content) = (w, d1)"
    by fastforce
  with disk_write [OF refl, of encoded takes synced content] obtain k where
    k: "k \<le> length encoded" "d1 = Some (content @ take k encoded)" "w = Inr () \<longrightarrow> k = length encoded"
    by auto
  from assms have "d = d1 \<and> (\<forall>r'. res = Inr r' \<longrightarrow> w = Inr () \<and> r' = r \<and>
      (\<exists>seen. checked_chain c b events (content @ encoded) = Inr seen \<and> equal_records (last seen) r))"
    using ok wrote k(2)
    by (auto simp: append_locked_def ibind_def ipure_def ifail_def iret_def
        split: sum.splits if_splits)
  with ok k show ?thesis by blast
qed

lemma open_for_append_quiet:
  assumes "open_for_append c (quiet_disk takes synced) b t ob events bound d = (res, d')"
  shows "disk_content d' = disk_content d \<and> (\<forall>created. res = Inr created \<longrightarrow> d' = Some (disk_content d))"
proof -
  have "create_file (quiet_disk takes synced) None = (Got (), Some [])"
    by (simp add: quiet_disk_def)
  with assms show ?thesis
    by (cases d) (auto simp: open_for_append_def ibind_def ipure_def ifail_def iret_def
        create_or_open_append_journal_def disk_content_def split: sum.splits if_splits)
qed

lemma append_quiet:
  assumes "append_admission_record c (quiet_disk takes synced) name b t ob evs mb d = (res, d')"
  shows "(disk_content d' = disk_content d \<and> (\<forall>r. res \<noteq> Inr r)) \<or>
    (\<exists>events bound r encoded k rs. mb = PInt bound \<and> 0 < bound \<and> name \<notin> {'''', ''.'', ''..''} \<and>
      normalize_controller_events evs = Inr events \<and> encode_record c r = Inr encoded \<and>
      k \<le> length encoded \<and> checked_chain c b events (disk_content d) = Inr rs \<and>
      int (length (disk_content d @ encoded)) \<le> bound \<and>
      d' = Some (disk_content d @ take k encoded) \<and>
      (\<forall>r'. res = Inr r' \<longrightarrow> k = length encoded \<and> r' = r \<and>
        (\<exists>seen. checked_chain c b events (disk_content d @ encoded) = Inr seen \<and>
          equal_records (last seen) r)))"
proof (cases "\<exists>bound events. mb = PInt bound \<and> 0 < bound \<and> name \<notin> {'''', ''.'', ''..''} \<and>
    normalize_controller_events evs = Inr events \<and> validate_observation (time_of c) b ob = Inr ()")
  case False
  have "adm_positive_int mb = Inr n \<longleftrightarrow> mb = PInt n \<and> 0 < n" for n by simp
  with assms False show ?thesis
    by (auto simp: append_admission_record_def ibind_def ipure_def disk_content_def
        split: sum.splits if_splits)
next
  case True
  then obtain bound events where ok: "mb = PInt bound" "0 < bound" "name \<notin> {'''', ''.'', ''..''}"
    "normalize_controller_events evs = Inr events" "validate_observation (time_of c) b ob = Inr ()"
    by blast
  let ?os = "quiet_disk takes synced"
  obtain o1 d1 where opened: "open_for_append c ?os b t ob events bound d = (o1, d1)" by fastforce
  note first = open_for_append_quiet [OF opened]
  show ?thesis
  proof (cases o1)
    case (Inl e)
    then have "fst (append_admission_record c ?os name b t ob evs mb d) \<noteq> Inr r" for r
      using ok opened
      by (auto simp: append_admission_record_def ibind_def ipure_def as_admission_error_def
          split: admission_error.splits)
    moreover have "snd (append_admission_record c ?os name b t ob evs mb d) = d1"
      using ok opened Inl
      by (auto simp: append_admission_record_def ibind_def ipure_def as_admission_error_def
          split: admission_error.splits)
    ultimately show ?thesis using assms first by auto
  next
    case (Inr created)
    obtain r1 d2 where locked: "append_locked c ?os b t ob events bound created (Some (disk_content d))
        = (r1, d2)" by fastforce
    have same: "d2 = d'" "\<forall>r. res = Inr r \<longrightarrow> r1 = Inr r"
      using assms ok opened first Inr locked
      by (auto simp: append_admission_record_def ibind_def ipure_def as_admission_error_def
          split: admission_error.splits sum.splits)
    from append_locked_quiet [OF locked] show ?thesis
    proof
      assume "d2 = Some (disk_content d) \<and> (\<forall>r. r1 \<noteq> Inr r)"
      with same have "disk_content d' = disk_content d \<and> (\<forall>r. res \<noteq> Inr r)"
        by (auto simp: disk_content_def)
      then show ?thesis ..
    next
      assume "\<exists>r encoded k rs. encode_record c r = Inr encoded \<and> k \<le> length encoded \<and>
        checked_chain c b events (disk_content d) = Inr rs \<and>
        int (length (disk_content d @ encoded)) \<le> bound \<and>
        d2 = Some (disk_content d @ take k encoded) \<and>
        (\<forall>r'. r1 = Inr r' \<longrightarrow> k = length encoded \<and> r' = r \<and>
          (\<exists>seen. checked_chain c b events (disk_content d @ encoded) = Inr seen \<and>
            equal_records (last seen) r))"
      with same ok show ?thesis by blast
    qed
  qed
qed

section \<open>Errors of an append\<close>

lemma adm_field_raises [raises]:
  "raises_only {Admission_invalid} (adm_stable_id v)" "raises_only {Admission_invalid} (adm_sha256 v)"
  "raises_only {Admission_invalid} (adm_instant instant v)"
  "raises_only {Admission_invalid} (adm_float v)"
  "raises_only {Admission_invalid} (adm_nonnegative_int v)"
  "raises_only {Admission_invalid} (adm_positive_int v)"
  "raises_only {Admission_invalid} (require q)"
  "raises_only {Admission_invalid} (strict_json_value v)"
  by (simp_all add: adm_stable_id_def adm_sha256_def adm_instant_def adm_float_def
      adm_nonnegative_int_def adm_positive_int_def require_def strict_json_value_def
      split: pyval.split pyfloat.split option.split)

lemma adm_positive_float_raises [raises]: "raises_only {Admission_invalid} (adm_positive_float v)"
  by (auto simp: adm_positive_float_def intro!: raises)

lemma strict_sha_raises [raises]: "raises_only {Admission_invalid} (strict_sha sha v)"
  by (auto simp: strict_sha_def intro!: raises)

lemma strict_json_object_raises [raises]: "raises_only {Admission_invalid} (strict_json_object v)"
  by (cases v) (auto simp: strict_json_object_def intro!: raises)

lemma controller_raises [raises]:
  "raises_only {Admission_invalid} (controller_prefix_sha256 sha events)"
  "raises_only {Admission_invalid} (normalize_controller_events v)"
  by (auto simp: controller_prefix_sha256_def normalize_controller_events_def intro!: raises
      split: pyval.split)

lemma make_target_raises [raises]: "raises_only {Admission_invalid} (make_target k c n)"
  by (cases k) (auto simp: make_target_def intro!: raises)

lemma check_fields_raises [raises]:
  "raises_only {Admission_invalid} (check_bound_fields b r)"
  "raises_only {Admission_invalid} (check_observed_fields instant b r)"
  by (auto simp: check_bound_fields_def check_observed_fields_def Let_def intro!: raises
      split: pyval.split)

lemma validate_record_raises [raises]:
  "raises_only {Admission_invalid} (validate_record sha instant b events n previous r)"
  unfolding validate_record_def record_sha256_def by (intro raises)

lemma chain_raises [raises]:
  "raises_only {Admission_invalid} (validate_chain sha instant b events rs)"
proof -
  have "raises_only {Admission_invalid} (chain_step sha instant b events st r)" for st r
    unfolding chain_step_def by (intro raises) simp_all
  then show ?thesis
    unfolding validate_chain_def chain_end_def
    by (intro raises_only_andThen raises_only_fold_res [where I = "\<lambda>_. True"]) simp_all
qed

lemma record_payload_raises [raises]:
  "raises_only {Admission_invalid} (record_payload sha instant b t ob events n previous)"
  unfolding record_payload_def record_sha256_def Let_def by (intro raises) simp_all

lemma encode_record_raises [raises]: "raises_only {Admission_invalid} (encode_record c r)"
  unfolding encode_record_def by (intro raises) simp

lemma validate_observation_raises [raises]:
  "raises_only {Admission_invalid} (validate_observation instant b ob)"
  unfolding validate_observation_def Let_def by (intro raises) simp_all

text \<open>Which exceptions an action can leave with.\<close>

definition io_raises :: "admission_error set \<Rightarrow> ('s, 'a) io \<Rightarrow> bool" where
  "io_raises E m \<longleftrightarrow> (\<forall>s. raises_only E (fst (m s)))"

named_theorems io_intro \<open>which exceptions an action can leave with\<close>

lemma io_raises_ibind [io_intro]:
  assumes "io_raises E m" and "\<And>x s t. m s = (Inr x, t) \<Longrightarrow> io_raises E (f x)"
  shows "io_raises E (ibind m f)"
  unfolding io_raises_def
proof
  fix s
  obtain r t where m: "m s = (r, t)" by fastforce
  show "raises_only E (fst (ibind m f s))"
  proof (cases r)
    case (Inl e)
    have "raises_only E (fst (m s))" using assms(1) by (simp add: io_raises_def)
    with m Inl show ?thesis by (simp add: ibind_def)
  next
    case (Inr x)
    with assms(2) m show ?thesis by (simp add: ibind_def io_raises_def)
  qed
qed

lemma io_raises_basic [io_intro]:
  "io_raises E (iret x)" "e \<in> E \<Longrightarrow> io_raises E (ifail e)"
  "raises_only E r \<Longrightarrow> io_raises E (ipure r)"
  "Admission_escaped OSError \<in> E \<Longrightarrow> io_raises E (call_raw f)"
  "Admission_invalid \<in> E \<Longrightarrow> io_raises E (call_checked f)"
  by (auto simp: io_raises_def iret_def ifail_def ipure_def call_raw_def call_checked_def
      split: prod.split call_reply.split)

lemma io_raises_if [io_intro]:
  "(p \<Longrightarrow> io_raises E m) \<Longrightarrow> (\<not> p \<Longrightarrow> io_raises E n) \<Longrightarrow> io_raises E (if p then m else n)"
  by simp

text \<open>What the calls of the file can raise inside the \<open>try\<close> block.\<close>

definition file_errors :: "admission_error set" where
  "file_errors = {Admission_invalid, Admission_escaped OSError, Admission_escaped ValueError}"

lemma file_errors_mem [simp]:
  "Admission_invalid \<in> file_errors" "Admission_escaped OSError \<in> file_errors"
  by (simp_all add: file_errors_def)

lemma admission_raises [io_intro]: "raises_only {Admission_invalid} r \<Longrightarrow> io_raises file_errors (ipure r)"
  by (rule io_raises_basic) (auto elim: raises_only_mono)

lemma identity_raises [io_intro]: "io_raises file_errors (require_entry_identity os)"
  unfolding require_entry_identity_def by (intro io_intro) simp_all

lemma open_existing_raises [io_intro]: "io_raises file_errors (open_existing_journal os)"
proof -
  have "io_raises file_errors (ibind (require_entry_identity os) (\<lambda>_. iret (Some ())))"
    by (intro io_intro)
  then show ?thesis
    by (auto simp: io_raises_def open_existing_journal_def split: prod.split call_reply.split)
qed

lemma create_raises [io_intro]: "io_raises file_errors (create_or_open_append_journal os)"
proof -
  have "io_raises file_errors (ibind (require_entry_identity os) (\<lambda>_. iret True))"
    by (intro io_intro)
  moreover have "io_raises file_errors (ibind (open_existing_journal os) (\<lambda>found. case found of
      None \<Rightarrow> ifail (Admission_escaped OSError)
    | Some _ \<Rightarrow> ibind (require_entry_identity os) (\<lambda>_. iret False)))"
    by (intro io_intro) (auto split: option.split intro!: io_intro)
  ultimately show ?thesis
    by (auto simp: io_raises_def create_or_open_append_journal_def split: prod.split call_reply.split)
qed

lemma pread_raises: "raises_only file_errors (fst (pread_loop os wanted offset payload s))"
  by (induction os wanted offset payload s rule: pread_loop.induct)
    (subst pread_loop.simps, auto split: prod.split call_reply.split)

lemma read_descriptor_raises [io_intro]: "io_raises file_errors (read_descriptor os bound)"
proof -
  have "io_raises file_errors (pread_loop os n 0 [])" for n
    by (simp add: io_raises_def pread_raises)
  then show ?thesis unfolding read_descriptor_def by (intro io_intro) simp_all
qed

lemma write_all_raises: "raises_only file_errors (fst (write_all os rest s))"
  by (induction os rest s rule: write_all.induct)
    (subst write_all.simps, auto split: prod.split call_reply.split)

lemma write_all_io [io_intro]: "io_raises file_errors (write_all os rest)"
  by (simp add: io_raises_def write_all_raises)

definition load_ok :: "admission_codec \<Rightarrow> bool" where
  "load_ok c \<longleftrightarrow> (\<forall>t e. json_load c t = Load_raises e \<longrightarrow> e = ValueError)"

lemma checked_chain_raises [io_intro]:
  assumes "load_ok c"
  shows "io_raises file_errors (ipure (checked_chain c b events payload))"
proof -
  have "raises_only file_errors (decode_line (json_load c) line)" for line
    using assms by (auto simp: decode_line_def load_ok_def file_errors_def raises_only_def
        split: json_reading.split pyval.split)
  then have "raises_only file_errors (checked_chain c b events payload)"
    unfolding checked_chain_def decode_records_def
    by (intro raises raises_only_mono [OF chain_raises]) simp_all
  then show ?thesis by (rule io_raises_basic)
qed

lemma checked_chain_last:
  assumes "checked_chain c b events payload = Inr rs"
  shows "raises_only file_errors (last_sha rs)" and "rs = [] \<Longrightarrow> payload = []"
proof -
  from assms have valid: "validate_chain (digest_of c) (time_of c) b events rs = Inr ()"
    and decoded: "decode_records (json_load c) payload = Inr rs"
    by (auto simp: checked_chain_def andThen_eq_Inr)
  show "raises_only file_errors (last_sha rs)"
  proof (cases rs rule: rev_cases)
    case (snoc ss r)
    with valid obtain st where "chain_end (digest_of c) (time_of c) b events (ss @ [r]) = Inr st"
      by (auto simp: validate_chain_def andThen_eq_Inr)
    then obtain st0 where "chain_step (digest_of c) (time_of c) b events st0 r = Inr st"
      by (rule chain_end_snoc)
    then have "dict_get r ''record_sha256'' = PStr (previous_sha st)" by (rule chain_step_Inr)
    then show ?thesis
      by (simp add: last_sha_def snoc dict_get_def getitem_def split: option.splits)
  qed (simp add: last_sha_def)
  show "payload = []" if "rs = []"
  proof (rule ccontr)
    assume "payload \<noteq> []"
    then obtain a x where "payload = a @ [x]" by (cases payload rule: rev_cases) auto
    with decoded that \<open>payload \<noteq> []\<close> have "lines_acc byte_breaks [] (a @ [LF]) = []"
      by (auto simp: decode_records_def splitlines_bytes_def traverse_eq_Inr split: if_splits)
    moreover have "lines_acc B acc (a @ [LF]) \<noteq> []" if "LF \<in> B" for B acc a
      using that by (induction a arbitrary: acc) auto
    ultimately show False by simp
  qed
qed

lemma encoded_not_empty: "encode_record c r = Inr encoded \<Longrightarrow> encoded \<noteq> []"
  by (auto simp: encode_record_def strict_json_value_def split: if_splits)

lemma append_locked_raises:
  assumes "load_ok c"
  shows "io_raises file_errors (append_locked c os b t ob events bound created)"
  unfolding append_locked_def
  by (intro io_intro raises assms)
    (auto dest: checked_chain_last encoded_not_empty intro: checked_chain_last(1))

lemma open_for_append_raises: "io_raises file_errors (open_for_append c os b t ob events bound)"
  unfolding open_for_append_def
  by (intro io_intro) (auto split: option.split intro!: io_intro raises)

lemma as_admission_error_raises:
  assumes "io_raises file_errors m"
  shows "io_raises {Admission_invalid} (as_admission_error m)"
  unfolding io_raises_def
proof
  fix s
  obtain r t where m: "m s = (r, t)" by fastforce
  have "raises_only file_errors (fst (m s))" using assms by (simp add: io_raises_def)
  with m show "raises_only {Admission_invalid} (fst (as_admission_error m s))"
    by (cases r) (auto simp: as_admission_error_def file_errors_def split: admission_error.split)
qed

end
