(* ===== verification/Admission_Guarantees.thy ===== *)
theory Admission_Guarantees
  imports Admission_Disk
begin

text \<open>
  What the admission journal promises: the decision of an observation, the history that the
  digest of the last record fixes, and what an append leaves in the file.
\<close>

section \<open>Decisions and history\<close>


text \<open>
  C21. The digest of the last record fixes the whole journal: two valid chains of one or more records
  that end in the same digest have the same length and agree record by record in their digests
  and in every field these cover, as long as no two of their records collide under the digest.
  So no earlier record can be changed, dropped or inserted without changing the head.
\<close>
theorem admission_head_fixes_history:
  assumes "validate_chain sha instant b events rs = Inr ()"
    and "validate_chain sha instant' b' events' rs' = Inr ()"
    and "rs \<noteq> []" and "rs' \<noteq> []"
    and "dict_get (last rs) ''record_sha256'' = dict_get (last rs') ''record_sha256''"
    and "\<forall>r \<in> set rs \<union> set rs'. distinct (map fst r)"
    and "inj_on sha ((\<lambda>r. canonical (PDict (unsigned r))) ` (set rs \<union> set rs'))"
  shows "length rs = length rs' \<and> list_all2 same_record rs rs'"
proof -
  have head: "dict_get (last rs) ''record_sha256'' = PStr (previous_sha st)"
    if "chain_end sha instant b events rs = Inr st" "rs \<noteq> []" for instant b events rs st
  proof -
    from that(2) obtain ss r where rs: "rs = ss @ [r]" by (cases rs rule: rev_cases) auto
    from chain_end_snoc [OF that(1) [unfolded rs]] show ?thesis
      by (metis chain_step_Inr(3) last_snoc rs)
  qed
  from assms(1,2) obtain st st' where ends: "chain_end sha instant b events rs = Inr st"
    "chain_end sha instant' b' events' rs' = Inr st'"
    by (auto simp: validate_chain_def andThen_eq_Inr)
  have "previous_sha st = previous_sha st'"
    using head [OF ends(1) assms(3)] head [OF ends(2) assms(4)] assms(5) by simp
  then have "list_all2 same_record rs rs'"
    using assms(3,4,6,7) by (intro head_fixes_history [OF ends]) auto
  then show ?thesis by (auto dest: list_all2_lengthD)
qed

text \<open>
  Whatever happens to the file meanwhile, an append returns a record only after a valid chain was
  read, the record was checked as its next element, and the old bytes followed by the record's
  were read back from the file as a valid chain that ends in the record.
\<close>
theorem returned_append_was_read_back:
  assumes "append_admission_record c os name b t ob controller_events max_bytes s = (Inr r, s')"
  shows "\<exists>events payload rs encoded seen.
    normalize_controller_events controller_events = Inr events \<and>
    validate_observation (time_of c) b ob = Inr () \<and>
    checked_chain c b events payload = Inr rs \<and>
    validate_chain (digest_of c) (time_of c) b events (rs @ [r]) = Inr () \<and>
    encode_record c r = Inr encoded \<and>
    checked_chain c b events (payload @ encoded) = Inr seen \<and>
    seen \<noteq> [] \<and> equal_records (last seen) r"
proof -
  from assms obtain events bound created s1 where
    "normalize_controller_events controller_events = Inr events"
    "validate_observation (time_of c) b ob = Inr ()"
    "append_locked c os b t ob events bound created s1 = (Inr r, s')"
    by (auto simp: append_admission_record_def ibind_Inr)
  then show ?thesis by (elim append_locked_Inr) blast
qed

section \<open>Appending and reading on a quiet disk\<close>

text \<open>
  What the code relies on of \<open>json\<close>: the text it writes has no line break, and the text of a
  record reads as the record, with its keys sorted.
\<close>

definition json_writes_lines :: "admission_codec \<Rightarrow> bool" where
  "json_writes_lines c \<longleftrightarrow> (\<forall>v. set (json_dump c v) \<inter> {LF, CR} = {} \<and> json_dump c v \<noteq> [])"

definition json_reads_record :: "admission_codec \<Rightarrow> pydict \<Rightarrow> bool" where
  "json_reads_record c r \<longleftrightarrow>
     json_load c (json_dump c (canonical (PDict r))) = Reads (canonical (PDict r))"

lemma decode_append:
  assumes "decode_records load content = Inr rs" and "set line \<inter> {LF, CR} = {}" and "line \<noteq> []"
  shows "decode_records load (content @ line @ [LF]) =
    andThen (decode_line load line) (\<lambda>r. Inr (rs @ [r]))"
proof -
  have last: "lines_acc byte_breaks [] (line @ [LF]) = [line]"
    using assms(2) lines_acc_plain [of line byte_breaks "[]"] by (simp add: byte_breaks_def)
  have lines: "splitlines_bytes (content @ line @ [LF]) = splitlines_bytes content @ [line]"
  proof (cases "content = []")
    case False
    with assms(1) obtain a where a: "content = a @ [LF]"
      by (cases content rule: rev_cases) (auto simp: decode_records_def split: if_splits)
    show ?thesis
      using lines_acc_break [of byte_breaks "[]" a "line @ [LF]"] last
      by (simp add: splitlines_bytes_def a)
  qed (simp add: splitlines_bytes_def last)
  have decoded: "traverse (decode_line load) (splitlines_bytes content) = Inr rs"
    using assms(1) by (cases "content = []")
      (auto simp: decode_records_def splitlines_bytes_def split: if_splits)
  have snoc: "traverse f xs = Inr ys \<Longrightarrow> traverse f (xs @ [x]) = andThen (f x) (\<lambda>y. Inr (ys @ [y]))"
    for f :: "string \<Rightarrow> pydict adm" and xs ys x
  proof (induction xs arbitrary: ys)
    case (Cons z xs)
    then show ?case by (cases "f x") (auto simp: andThen_eq_Inr andThen_eq_Inl)
  qed (cases "f x"; simp)
  show ?thesis by (simp add: decode_records_def lines snoc [OF decoded])
qed


text \<open>
  C22. On a disk that no other process writes, a returned append is read back: the journal then reads
  as the records it held before, followed by the new one.
\<close>
theorem admission_append_then_read:
  assumes "append_admission_record c (quiet_disk takes synced) name b t ob evs mb d = (Inr r, d')"
    and "json_writes_lines c" and "json_reads_record c r"
  shows "\<exists>rs r'.
    read_admission_journal c (quiet_disk takes synced) name b evs mb d = (Inr rs, d) \<and>
    read_admission_journal c (quiet_disk takes synced) name b evs mb d' = (Inr (rs @ [r']), d') \<and>
    equal_records r' r"
proof -
  from append_quiet [OF assms(1)] obtain events bound encoded rs seen where
    ok: "mb = PInt bound" "0 < bound" "name \<notin> {'''', ''.'', ''..''}"
      "normalize_controller_events evs = Inr events" and
    enc: "encode_record c r = Inr encoded" and
    old: "checked_chain c b events (disk_content d) = Inr rs" and
    small: "int (length (disk_content d @ encoded)) \<le> bound" and
    d': "d' = Some (disk_content d @ encoded)" and
    again: "checked_chain c b events (disk_content d @ encoded) = Inr seen" "equal_records (last seen) r"
    by fastforce
  let ?line = "json_dump c (canonical (PDict r))"
  from enc have encoded: "encoded = ?line @ [LF]"
    by (auto simp: encode_record_def strict_json_value_def split: if_splits)
  from assms(2,3) have json: "set ?line \<inter> {LF, CR} = {}" "?line \<noteq> []"
    "json_load c ?line = Reads (canonical (PDict r))"
    unfolding json_writes_lines_def json_reads_record_def by blast+
  obtain r' where r': "canonical (PDict r) = PDict r'" by simp
  from old have decoded: "decode_records (json_load c) (disk_content d) = Inr rs"
    by (auto simp: checked_chain_def andThen_eq_Inr)
  have "decode_records (json_load c) (disk_content d @ encoded) = Inr (rs @ [r'])"
    unfolding encoded decode_append [OF decoded json(1,2)]
    using json(2,3) unfolding r' by (simp add: decode_line_def)
  with again have seen: "seen = rs @ [r']" by (auto simp: checked_chain_def andThen_eq_Inr)
  have "int (length (disk_content d)) \<le> bound" using small by simp
  then have "read_admission_journal c (quiet_disk takes synced) name b evs mb d = (Inr rs, d)"
    using old by (simp add: read_quiet [OF ok(2,4,3)] ok(1))
  moreover have "read_admission_journal c (quiet_disk takes synced) name b evs mb d' =
      (Inr (rs @ [r']), d')"
    using again(1) small seen by (simp add: read_quiet [OF ok(2,4,3)] ok(1) d' disk_content_def)
  ultimately show ?thesis using again(2) seen by auto
qed


section \<open>An append that succeeds\<close>

definition next_record :: "admission_codec \<Rightarrow> admission_binding \<Rightarrow> admission_target \<Rightarrow>
    admission_observation \<Rightarrow> pyval list \<Rightarrow> pydict list \<Rightarrow> chain_state \<Rightarrow> pydict" where
  "next_record c b t ob events rs st =
     fresh_record c b t ob events (int (length rs) + 1) (previous_sha st)"

lemma disk_write_all:
  assumes "\<forall>w. w \<noteq> [] \<longrightarrow> 0 < takes w"
  shows "d = Some content \<Longrightarrow>
    write_all (quiet_disk takes synced) rest d = (Inr (), Some (content @ rest))"
proof (induction "quiet_disk takes synced" rest d arbitrary: content rule: write_all.induct)
  case (1 rest d)
  let ?os = "quiet_disk takes synced" and ?n = "min (takes rest) (length rest)"
  have wrote: "write_file ?os rest (Some content) = (Got (int ?n), Some (content @ take ?n rest))"
    by (simp add: quiet_disk_def Let_def)
  show ?case
  proof (cases "rest = []")
    case True
    then show ?thesis using "1.prems" by (simp add: write_all.simps)
  next
    case False
    with assms have pos: "\<not> int ?n \<le> 0" by auto
    have "write_all ?os (drop (nat (int ?n)) rest) (Some (content @ take ?n rest)) =
        (Inr (), Some ((content @ take ?n rest) @ drop (nat (int ?n)) rest))"
      by (rule "1.hyps" [OF False _ refl pos refl]) (use "1.prems" wrote in simp)
    then show ?thesis
      using "1.prems" wrote False pos by (simp add: write_all.simps [of _ rest])
  qed
qed

lemma checked_chain_snoc:
  assumes "ready c b t ob evs events" and "checked_chain c b events content = Inr rs"
    and "chain_end (digest_of c) (time_of c) b events rs = Inr st"
    and "time_of c (observed_at ob) = Some now" and "\<forall>p. prior_instant st = Some p \<longrightarrow> p \<le> now"
    and "json_writes_lines c" and "json_reads_record c r" and "r = next_record c b t ob events rs st"
  shows "checked_chain c b events (content @ json_dump c (canonical (PDict r)) @ [LF]) =
      Inr (rs @ [sort_key fst r])"
    and "validate_chain (digest_of c) (time_of c) b events (rs @ [r]) = Inr ()"
proof -
  note r = fresh_sorted [where c = c and b = b and t = t and ob = ob and events = events
      and n = "int (length rs) + 1" and previous = "previous_sha st",
      folded next_record_def assms(8)]
  obtain st' where step: "chain_step (digest_of c) (time_of c) b events st r = Inr st'"
    using fresh_step [OF assms(1,3,4,5)] by (auto simp: next_record_def assms(8))
  then have "chain_step (digest_of c) (time_of c) b events st (sort_key fst r) = Inr st'"
    using chain_step_reorder [OF r(2-4)] by simp
  with step assms(3) have valid:
    "validate_chain (digest_of c) (time_of c) b events (rs @ [r]) = Inr ()"
    "validate_chain (digest_of c) (time_of c) b events (rs @ [sort_key fst r]) = Inr ()"
    by (simp_all add: validate_chain_def chain_end_def fold_res_append)
  show "validate_chain (digest_of c) (time_of c) b events (rs @ [r]) = Inr ()" by (fact valid(1))
  let ?line = "json_dump c (canonical (PDict r))"
  from assms(6) have line: "set ?line \<inter> {LF, CR} = {}" "?line \<noteq> []"
    by (simp_all add: json_writes_lines_def del: canonical.simps)
  from assms(7) have "decode_line (json_load c) ?line = Inr (sort_key fst r)"
    using line(2) unfolding json_reads_record_def r(1) by (simp add: decode_line_def)
  moreover from assms(2) have "decode_records (json_load c) content = Inr rs"
    by (auto simp: checked_chain_def andThen_eq_Inr)
  ultimately have "decode_records (json_load c) (content @ ?line @ [LF]) = Inr (rs @ [sort_key fst r])"
    using decode_append [OF _ line] by simp
  with valid(2) show "checked_chain c b events (content @ ?line @ [LF]) = Inr (rs @ [sort_key fst r])"
    by (simp add: checked_chain_def del: canonical.simps)
qed

lemma append_succeeds_lemma:
  assumes "ready c b t ob evs events" and "checked_chain c b events (disk_content d) = Inr rs"
    and "chain_end (digest_of c) (time_of c) b events rs = Inr st"
    and "time_of c (observed_at ob) = Some now" and "\<forall>p. prior_instant st = Some p \<longrightarrow> p \<le> now"
    and "json_writes_lines c" and "json_reads_record c r" and r: "r = next_record c b t ob events rs st"
    and "\<forall>w. w \<noteq> [] \<longrightarrow> 0 < takes w" and "name \<notin> {'''', ''.'', ''..''}"
    and size: "int (length (disk_content d @ json_dump c (canonical (PDict r)) @ [LF])) \<le> bound"
  shows "append_admission_record c (quiet_disk takes True) name b t ob evs (PInt bound) d =
    (Inr r, Some (disk_content d @ json_dump c (canonical (PDict r)) @ [LF]))"
proof -
  let ?os = "quiet_disk takes True" and ?line = "json_dump c (canonical (PDict r))"
  note chain = checked_chain_snoc [OF assms(1-7) r]
  have bound: "0 < bound" using size by simp
  from assms(1) have ob: "validate_observation (time_of c) b ob = Inr ()"
    and ev: "normalize_controller_events evs = Inr events" by (auto simp: ready_def)
  have payload: "record_payload (digest_of c) (time_of c) b t ob events (int (length rs) + 1)
      (previous_sha st) = Inr r"
    using fresh_payload [OF assms(1)] by (simp add: r next_record_def)
  have strict: "strict_json (PDict r)"
    using ob by (auto simp: r next_record_def fresh_record_def fresh_fields_def
        validate_observation_def andThen_eq_Inr list_all_iff)
  then have enc: "encode_record c r = Inr (?line @ [LF])"
    by (simp add: encode_record_def strict_json_value_def del: canonical.simps strict_json.simps)
  have equal: "equal_records (sort_key fst r) r"
    unfolding r next_record_def by (rule fresh_sorted(5))
  have locked: "append_locked c ?os b t ob events bound created (Some (disk_content d)) =
      (Inr r, Some (disk_content d @ ?line @ [LF]))" for created
    using size
    by (simp add: append_locked_def ibind_def ipure_def iret_def assms(2) last_sha_previous [OF assms(3)]
        payload chain enc disk_write_all [OF assms(9) refl] equal del: canonical.simps)
  have opened: "\<exists>created. open_for_append c ?os b t ob events bound d =
      (Inr created, Some (disk_content d))"
  proof (cases d)
    case None
    with assms(2) have "rs = []" by (simp add: disk_content_def)
    moreover from this assms(3) have "previous_sha st = GENESIS_RECORD_SHA256"
      by (auto simp: chain_end_def chain_start_def)
    moreover have "create_file ?os None = (Got (), Some [])" by (simp add: quiet_disk_def)
    ultimately show ?thesis
      using payload enc size None
      by (intro exI [of _ True]) (simp add: open_for_append_def ibind_def ipure_def iret_def create_or_open_append_journal_def
          disk_content_def del: canonical.simps)
  qed (auto simp: open_for_append_def ibind_def iret_def disk_content_def)
  then show ?thesis
    using bound ob ev assms(10) locked
    by (auto simp: append_admission_record_def ibind_def ipure_def as_admission_error_def
        simp del: canonical.simps)
qed

text \<open>
  An append of a validated observation succeeds whenever it should: the journal on the disk is
  valid for the controller's events, the observation is not older than its last record, the
  target and the binding are valid, the record fits the byte bound, and every write takes at
  least one byte. The file then holds the old bytes and the line of the next record.
\<close>
theorem admission_append_succeeds:
  assumes "ready c b t ob evs events" and "checked_chain c b events (disk_content d) = Inr rs"
    and "chain_end (digest_of c) (time_of c) b events rs = Inr st"
    and "time_of c (observed_at ob) = Some now" and "\<forall>p. prior_instant st = Some p \<longrightarrow> p \<le> now"
    and "json_writes_lines c" and "json_reads_record c (next_record c b t ob events rs st)"
    and "\<forall>w. w \<noteq> [] \<longrightarrow> 0 < takes w" and "name \<notin> {'''', ''.'', ''..''}"
    and "int (length (disk_content d @
      json_dump c (canonical (PDict (next_record c b t ob events rs st))) @ [LF])) \<le> bound"
  shows "append_admission_record c (quiet_disk takes True) name b t ob evs (PInt bound) d =
    (Inr (next_record c b t ob events rs st), Some (disk_content d @
      json_dump c (canonical (PDict (next_record c b t ob events rs st))) @ [LF]))"
  using append_succeeds_lemma [OF assms(1-7) refl assms(8-10)] .

text \<open>
  As long as the directory can be examined and \<open>json.loads\<close> fails with no other exception than
  \<open>ValueError\<close>, an append raises \<open>AdmissionJournalError\<close> and nothing else.
\<close>
theorem append_raises_admission_error:
  fixes os :: "'a admission_os"
  assumes "append_admission_record c os name b t ob evs mb s = (Inl e, s')" and "load_ok c"
    and "\<forall>s. \<exists>x t. fstat_parent os s = (Got x, t)" and "\<forall>s. \<exists>x t. lstat_parent os s = (Got x, t)"
  shows "e = Admission_invalid"
proof -
  have parent: "io_raises {Admission_invalid} (open_parent_directory os name)"
  proof -
    have call: "io_raises E (call_raw f)" if "\<forall>s. \<exists>x t. f s = (Got x, t)"
      for E and f :: "'a \<Rightarrow> file_stat call_reply \<times> 'a"
      unfolding io_raises_def
    proof
      fix s
      from that obtain x t where "f s = (Got x, t)" by blast
      then show "raises_only E (fst (call_raw f s))" by (simp add: call_raw_def)
    qed
    note calls = call [OF assms(3)] call [OF assms(4)]
    show ?thesis
      unfolding open_parent_directory_def
      by (intro io_raises_if io_raises_ibind calls io_raises_basic(1,2,5)) simp_all
  qed
  have "io_raises {Admission_invalid} (as_admission_error
      (ibind (open_for_append c os b t ob events bound) (append_locked c os b t ob events bound)))"
    for events bound
  proof -
    have "io_raises file_errors
        (ibind (open_for_append c os b t ob events bound) (append_locked c os b t ob events bound))"
      by (intro io_raises_ibind open_for_append_raises append_locked_raises assms(2))
    then show ?thesis by (rule as_admission_error_raises)
  qed
  with parent have "io_raises {Admission_invalid} (append_admission_record c os name b t ob evs mb)"
    unfolding append_admission_record_def by (intro io_intro raises)
  with assms(1) show ?thesis by (metis fst_conv io_raises_def raises_only_value(2) singletonD)
qed

section \<open>A concrete journal\<close>

definition demo_binding :: admission_binding where
  "demo_binding = \<lparr>frozen_campaign_id = ''run-1'',
     frozen_integrity_sha256 = GENESIS_RECORD_SHA256, frozen_preview_sha256 = GENESIS_RECORD_SHA256,
     frozen_policy_sha256 = GENESIS_RECORD_SHA256, frozen_cutoff_at = ''cutoff'',
     frozen_required_remaining_s = 60, frozen_required_memavailable_kib = 100,
     frozen_max_starting_swap_kib = 0, frozen_harness_sha256 = GENESIS_RECORD_SHA256,
     frozen_harness_file_count = 3\<rparr>"

definition demo_target :: admission_target where
  "demo_target = \<lparr>target_kind = ''screen'', target_candidate_id = ''c1'', target_pair_index = 2\<rparr>"

definition demo_observation :: admission_observation where
  "demo_observation = \<lparr>observed_at = ''now'', remaining_s = FFin 100, memavailable_kib = 200,
     swap_used_kib = 0, observed_harness_sha256 = GENESIS_RECORD_SHA256,
     observed_harness_file_count = 3, harness_matches = True, blockers = [],
     observed_outcome = ''admitted''\<rparr>"

definition demo_time :: "string \<Rightarrow> int option" where
  "demo_time s = (if s = ''now'' then Some 0 else if s = ''cutoff'' then Some 100000000 else None)"

text \<open>A digest that is constant and a \<open>json\<close> module that knows one record.\<close>

definition blind_codec :: "pydict \<Rightarrow> admission_codec" where
  "blind_codec r = \<lparr>digest_of = (\<lambda>_. GENESIS_RECORD_SHA256), time_of = demo_time,
     json_load = (\<lambda>_. Reads (canonical (PDict r))), json_dump = (\<lambda>_. ''r'')\<rparr>"

definition demo_record :: pydict where
  "demo_record = next_record (blind_codec []) demo_binding demo_target demo_observation [] [] chain_start"

definition demo_codec :: admission_codec where
  "demo_codec = blind_codec demo_record"

lemma genesis_hex [simp]: "sha256_hex GENESIS_RECORD_SHA256" by code_simp

lemma demo_next: "next_record demo_codec demo_binding demo_target demo_observation [] [] chain_start = demo_record"
  by (simp add: demo_record_def next_record_def fresh_record_def fresh_fields_def demo_codec_def
      blind_codec_def)

lemma demo_ready: "ready demo_codec demo_binding demo_target demo_observation (PList []) []"
proof -
  have "stable_id ''run-1''" "stable_id ''c1''" by code_simp+
  then show ?thesis
    by (simp add: ready_def binding_ok_def demo_binding_def target_ok_def demo_target_def make_target_def
        ADMISSION_TARGET_KINDS_def validate_observation_def demo_observation_def demo_codec_def
        blind_codec_def demo_time_def adm_instant_def seconds_between_def harness_match_def
        blockers_of_def outcome_of_def normalize_controller_events_def)
qed

lemma demo_laws:
  "json_writes_lines demo_codec" "json_reads_record demo_codec demo_record"
  "chain_end (digest_of demo_codec) (time_of demo_codec) demo_binding [] [] = Inr chain_start"
  "time_of demo_codec (observed_at demo_observation) = Some 0" "prior_instant chain_start = None"
  by (simp_all add: json_writes_lines_def json_reads_record_def demo_codec_def blind_codec_def
      chain_end_def demo_time_def demo_observation_def chain_start_def LF_def CR_def
      del: canonical.simps)

lemma demo_append:
  "append_admission_record demo_codec (quiet_disk length True) ''log'' demo_binding demo_target
     demo_observation (PList []) (PInt 10) None = (Inr demo_record, Some [CHR ''r'', LF])"
proof -
  have "json_dump demo_codec v = ''r''" for v by (simp add: demo_codec_def blind_codec_def)
  then show ?thesis
    using append_succeeds_lemma [OF demo_ready _ demo_laws(3,4) _ demo_laws(1), of None demo_record length
        "''log''" 10] demo_laws(2,5)
    by (simp add: demo_next disk_content_def del: canonical.simps)
qed

theorem admission_append_succeeds_witness:
  "append_admission_record demo_codec (quiet_disk length True) ''log'' demo_binding demo_target
     demo_observation (PList []) (PInt 10) None = (Inr demo_record, Some [CHR ''r'', LF])"
proof -
  have "json_dump demo_codec v = ''r''" for v by (simp add: demo_codec_def blind_codec_def)
  then show ?thesis
    using admission_append_succeeds [OF demo_ready _ demo_laws(3,4) _ demo_laws(1), of None length
        "''log''" 10] demo_laws(2,5)
    by (simp add: demo_next disk_content_def del: canonical.simps)
qed

theorem admission_append_then_read_witness:
  "\<exists>r'. read_admission_journal demo_codec (quiet_disk length True) ''log'' demo_binding (PList []) (PInt 10)
     (Some [CHR ''r'', LF]) = (Inr [r'], Some [CHR ''r'', LF]) \<and> equal_records r' demo_record"
proof -
  from admission_append_then_read [OF demo_append demo_laws(1,2)] obtain rs r' where
    read: "read_admission_journal demo_codec (quiet_disk length True) ''log'' demo_binding (PList []) (PInt 10)
        None = (Inr rs, None)"
      "read_admission_journal demo_codec (quiet_disk length True) ''log'' demo_binding (PList []) (PInt 10)
        (Some [CHR ''r'', LF]) = (Inr (rs @ [r']), Some [CHR ''r'', LF])" "equal_records r' demo_record"
    by blast
  have "rs = []"
    using read(1) by (simp add: read_quiet normalize_controller_events_def disk_content_def)
  with read(2,3) show ?thesis by auto
qed

text \<open>A journal that is too small for its first record.\<close>

lemma demo_refused:
  "append_admission_record demo_codec (quiet_disk length True) ''log'' demo_binding demo_target
     demo_observation (PList []) (PInt 1) None = (Inl Admission_invalid, None)"
proof -
  let ?r = "fresh_record demo_codec demo_binding demo_target demo_observation [] 1 GENESIS_RECORD_SHA256"
  have payload: "record_payload (digest_of demo_codec) (time_of demo_codec) demo_binding demo_target
      demo_observation [] 1 GENESIS_RECORD_SHA256 = Inr ?r"
    by (rule fresh_payload [OF demo_ready]) simp
  have "strict_json (PDict ?r)"
    by (simp add: fresh_record_def fresh_fields_def demo_observation_def)
  then have enc: "encode_record demo_codec ?r = Inr [CHR ''r'', LF]"
    by (simp add: encode_record_def strict_json_value_def demo_codec_def blind_codec_def
        del: canonical.simps strict_json.simps)
  from demo_ready have "validate_observation (time_of demo_codec) demo_binding demo_observation = Inr ()"
    "normalize_controller_events (PList []) = Inr []" by (auto simp: ready_def)
  then show ?thesis
    by (simp add: append_admission_record_def ibind_def ipure_def as_admission_error_def
        open_for_append_def payload enc ifail_def)
qed


theorem append_raises_admission_error_witness:
  "\<exists>e. append_admission_record demo_codec (quiet_disk length True) ''log'' demo_binding demo_target
     demo_observation (PList []) (PInt 1) None = (Inl e, None) \<and> e = Admission_invalid"
proof -
  have "load_ok demo_codec" by (simp add: load_ok_def demo_codec_def blind_codec_def)
  moreover have "\<exists>x t. fstat_parent (quiet_disk length True) s = (Got x, t)"
    "\<exists>x t. lstat_parent (quiet_disk length True) s = (Got x, t)" for s
    by (simp_all add: quiet_disk_def)
  ultimately show ?thesis using append_raises_admission_error [OF demo_refused] demo_refused by blast
qed

theorem returned_append_was_read_back_witness:
  "\<exists>payload rs encoded seen.
     checked_chain demo_codec demo_binding [] payload = Inr rs \<and>
     encode_record demo_codec demo_record = Inr encoded \<and>
     checked_chain demo_codec demo_binding [] (payload @ encoded) = Inr seen \<and>
     seen \<noteq> [] \<and> equal_records (last seen) demo_record"
proof -
  have "events = []" if "normalize_controller_events (PList []) = Inr events" for events
    using that by (simp add: normalize_controller_events_def)
  then show ?thesis using returned_append_was_read_back [OF demo_append] by blast
qed

lemma demo_chain: "validate_chain (digest_of demo_codec) (time_of demo_codec) demo_binding [] [demo_record] = Inr ()"
  using checked_chain_snoc(2) [OF demo_ready _ demo_laws(3,4) _ demo_laws(1), of "[]" demo_record]
    demo_laws(2,5) by (simp add: demo_next)

theorem admission_head_fixes_history_witness:
  "length [demo_record] = length [demo_record] \<and> list_all2 same_record [demo_record] [demo_record]"
proof (rule admission_head_fixes_history [OF demo_chain demo_chain])
  show "\<forall>r \<in> set [demo_record] \<union> set [demo_record]. distinct (map fst r)"
    by (simp add: demo_record_def next_record_def fresh_record_def fresh_fields_def)
qed simp_all


end
