(* ===== verification/Sglang_Audit.thy ===== *)
theory Sglang_Audit
  imports Py_Text "HOL-Library.AList"
begin

text \<open>
  \<open>bench/sglang_metrics.py\<close>: the audit of speculative decoding on an SGLang server. One request
  is tokenized, its tokens are sent to the native endpoint, and the counters of the response are
  projected to scalars after they have been checked against each other; the snapshots of several
  requests are added up. The HTTP exchange and the \<open>json\<close> module are parameters.
\<close>

section \<open>Names and bounds\<close>

definition SGLANG_SPECULATIVE_SOURCE :: string where
  "SGLANG_SPECULATIVE_SOURCE = ''sglang_native_generate_per_request_counters''"
definition SGLANG_SPECULATIVE_SCOPE :: string where
  "SGLANG_SPECULATIVE_SCOPE = ''explicit_sglang_native_audit_requests_only''"
definition SGLANG_SPECULATIVE_METHOD :: string where
  "SGLANG_SPECULATIVE_METHOD = ''NEXTN''"
definition MAX_DRAFT_DEPTH :: int where
  "MAX_DRAFT_DEPTH = 64"
definition MAX_RESPONSE_BYTES :: nat where
  "MAX_RESPONSE_BYTES = 2 * 1024 * 1024"
definition MAX_AUDIT_OUTPUT_TOKENS :: int where
  "MAX_AUDIT_OUTPUT_TOKENS = 4096"

definition canonical_counts :: "string list" where
  "canonical_counts =
     [''spec_num_correct_drafts'', ''spec_num_proposed_drafts'', ''spec_verify_ct'']"

definition audit_aliases :: "(string \<times> string) list" where
  "audit_aliases = [(''spec_accepted_drafts'', ''spec_num_correct_drafts''),
     (''spec_proposed_drafts'', ''spec_num_proposed_drafts'')]"

definition audit_snapshot_keys :: "string set" where
  "audit_snapshot_keys = {''accepted_tokens_per_position'', ''configured_max_draft_tokens'',
     ''draft_acceptance_rate'', ''mean_accepted_length'', ''method'', ''num_accepted_tokens'',
     ''num_draft_tokens'', ''num_drafts'', ''requested'', ''scope'', ''source''}"

section \<open>Numbers\<close>

abbreviation audit_error :: exn where
  "audit_error \<equiv> SGLangSpeculativeAuditError"

definition positive_integer :: "pyval \<Rightarrow> int res" where
  "positive_integer v =
     (case v of PInt n \<Rightarrow> (if n \<le> 0 then Inl audit_error else Inr n) | _ \<Rightarrow> Inl audit_error)"

definition audit_count :: "pyval \<Rightarrow> int res" where
  "audit_count v =
     (case v of PInt n \<Rightarrow> (if n < 0 then Inl audit_error else Inr n) | _ \<Rightarrow> Inl audit_error)"

text \<open>\<open>_finite_number\<close>: \<open>float(value)\<close> of a huge integer raises before the test is made.\<close>

definition finite_number :: "pyval \<Rightarrow> real res" where
  "finite_number v = (case v of
       PInt n \<Rightarrow> andThen (float_of_int n) (\<lambda>x. Inr (real_of_pyfloat x))
     | PFloat (FFin r) \<Rightarrow> Inr r
     | _ \<Rightarrow> Inl audit_error)"

text \<open>\<open>math.isclose(a, b, rel_tol=rel, abs_tol=abs)\<close> of two finite numbers.\<close>

definition isclose :: "real \<Rightarrow> real \<Rightarrow> real \<Rightarrow> real \<Rightarrow> bool" where
  "isclose rel_tol abs_tol a b \<longleftrightarrow> \<bar>a - b\<bar> \<le> max (rel_tol * max \<bar>a\<bar> \<bar>b\<bar>) abs_tol"

text \<open>The comparison of a value with a list of integers, item by item.\<close>

definition eq_int_list :: "pyval \<Rightarrow> int list \<Rightarrow> bool" where
  "eq_int_list v ns = (case v of PList xs \<Rightarrow> list_all2 eq_int xs ns | _ \<Rightarrow> False)"

section \<open>The configured depth\<close>

text \<open>
  \<open>_option_value\<close>: both spellings of an option are collected, and a repeated option or one
  without its value is refused. \<open>normalized\<close> is the text of the arguments.
\<close>

definition is_prefix_of :: "string \<Rightarrow> string \<Rightarrow> bool" where
  "is_prefix_of p s \<longleftrightarrow> take (length p) s = p"

fun audit_option_values :: "string \<Rightarrow> string list \<Rightarrow> string list res" where
  "audit_option_values option [] = Inr []"
| "audit_option_values option (argument # rest) =
     (if is_prefix_of (option @ ''='') argument then
        andThen (audit_option_values option rest) (\<lambda>values.
          Inr (snd (snd (partition_at (CHR ''='') argument)) # values))
      else if argument = option then
        (if rest = [] \<or> is_prefix_of ''--'' (hd rest) then Inl audit_error
         else andThen (audit_option_values option rest) (\<lambda>values. Inr (hd rest # values)))
      else audit_option_values option rest)"

definition option_value :: "string list \<Rightarrow> string \<Rightarrow> string option res" where
  "option_value normalized option =
     andThen (audit_option_values option normalized) (\<lambda>values.
     if length values > 1 then Inl audit_error
     else Inr (if values = [] then None else Some (hd values)))"

definition ascii_upper :: "char \<Rightarrow> char" where
  "ascii_upper c = (if CHR ''a'' \<le> c \<and> c \<le> CHR ''z'' then char_of (of_char c - 32 :: nat) else c)"

text \<open>\<open>int(configured)\<close> refuses more digits than the interpreter converts.\<close>

definition sglang_nextn_depth :: "string list \<Rightarrow> int option res" where
  "sglang_nextn_depth arguments =
     andThen (option_value arguments ''--speculative-algorithm'') (\<lambda>algorithm.
     (case algorithm of
        None \<Rightarrow> Inr None
      | Some a \<Rightarrow>
        if map ascii_upper a \<noteq> SGLANG_SPECULATIVE_METHOD then Inr None
        else andThen (option_value arguments ''--speculative-num-draft-tokens'') (\<lambda>configured.
          (case configured of
             None \<Rightarrow> Inl audit_error
           | Some c \<Rightarrow>
             if c = [] \<or> \<not> list_all is_digit c then Inl audit_error
             else (case parse_digits c of
                 None \<Rightarrow> Inl ValueError
               | Some total_tokens \<Rightarrow>
                 (let depth = int total_tokens - 1 in
                  if \<not> (1 \<le> depth \<and> depth \<le> MAX_DRAFT_DEPTH) then Inl audit_error
                  else Inr (Some depth)))))))"

section \<open>The counters of one response\<close>

text \<open>The compatibility counters agree with their canonical fields.\<close>

definition check_alias :: "pydict \<Rightarrow> string \<times> string \<Rightarrow> unit res" where
  "check_alias meta_info names = (case map_of meta_info (fst names) of
       None \<Rightarrow> Inr ()
     | Some v \<Rightarrow> andThen (audit_count v) (\<lambda>alias_value.
         check (eq_int (dict_get meta_info (snd names)) alias_value) audit_error))"

definition check_reported_rate :: "pydict \<Rightarrow> real \<Rightarrow> unit res" where
  "check_reported_rate meta_info calculated_rate = (case map_of meta_info ''spec_accept_rate'' of
       None \<Rightarrow> Inr ()
     | Some v \<Rightarrow> andThen (finite_number v) (\<lambda>reported_rate.
         check (isclose (1 / 10 ^ 6) (1 / 10 ^ 9) reported_rate calculated_rate) audit_error))"

definition check_reported_length :: "pydict \<Rightarrow> unit res" where
  "check_reported_length meta_info = (case map_of meta_info ''spec_accept_length'' of
       None \<Rightarrow> Inr ()
     | Some v \<Rightarrow> andThen (finite_number v) (\<lambda>reported_length. check (0 < reported_length) audit_error))"

definition weighted_sum :: "int list \<Rightarrow> int" where
  "weighted_sum histogram = sum_list (map (\<lambda>(i, c). int i * c) (enumerate 0 histogram))"

text \<open>The accepted tokens at a position: the steps with more correct drafts than the position.\<close>

definition tail_count :: "int list \<Rightarrow> nat \<Rightarrow> int" where
  "tail_count histogram position = sum_list (drop (position + 1) histogram)"

definition audit_result :: "int \<Rightarrow> int \<Rightarrow> int \<Rightarrow> int \<Rightarrow> (string \<times> int) list \<Rightarrow> pydict" where
  "audit_result depth drafts proposed accepted positions = [
     (''source'', PStr SGLANG_SPECULATIVE_SOURCE),
     (''scope'', PStr SGLANG_SPECULATIVE_SCOPE),
     (''requested'', PBool True),
     (''method'', PStr SGLANG_SPECULATIVE_METHOD),
     (''configured_max_draft_tokens'', PInt depth),
     (''num_drafts'', PInt drafts),
     (''num_draft_tokens'', PInt proposed),
     (''num_accepted_tokens'', PInt accepted),
     (''accepted_tokens_per_position'', PDict (map (\<lambda>(k, n). (k, PInt n)) positions)),
     (''draft_acceptance_rate'', PFloat (FFin (of_int accepted / of_int proposed))),
     (''mean_accepted_length'', PFloat (FFin (1 + of_int accepted / of_int drafts)))]"

definition parse_sglang_speculative_response :: "pyval \<Rightarrow> pyval \<Rightarrow> pydict res" where
  "parse_sglang_speculative_response payload expected_depth =
     andThen (positive_integer expected_depth) (\<lambda>depth.
     if depth > MAX_DRAFT_DEPTH then Inl audit_error else
     (case payload of PDict response \<Rightarrow>
     (case dict_get response ''meta_info'' of PDict meta_info \<Rightarrow>
     if \<exists>name \<in> set canonical_counts. name \<notin> dict_keys meta_info then Inl audit_error else
     andThen (audit_count (dict_get meta_info ''spec_num_correct_drafts'')) (\<lambda>accepted.
     andThen (audit_count (dict_get meta_info ''spec_num_proposed_drafts'')) (\<lambda>proposed.
     andThen (audit_count (dict_get meta_info ''spec_verify_ct'')) (\<lambda>verify_count.
     if verify_count = 0 \<or> proposed = 0 then Inl audit_error else
     if proposed \<noteq> verify_count * depth then Inl audit_error else
     if accepted > proposed then Inl audit_error else
     andThen (traverse (check_alias meta_info) audit_aliases) (\<lambda>_.
     (case dict_get meta_info ''spec_correct_drafts_histogram'' of PList raw_histogram \<Rightarrow>
     if raw_histogram = [] \<or> int (length raw_histogram) > depth + 1 then Inl audit_error else
     andThen (traverse audit_count raw_histogram) (\<lambda>histogram.
     andThen (case map_of meta_info ''spec_accept_histogram'' of
         None \<Rightarrow> Inr ()
       | Some alias_histogram \<Rightarrow> check (eq_int_list alias_histogram histogram) audit_error) (\<lambda>_.
     if sum_list histogram \<noteq> verify_count then Inl audit_error else
     if weighted_sum histogram \<noteq> accepted then Inl audit_error else
     andThen (check_reported_rate meta_info (of_int accepted / of_int proposed)) (\<lambda>_.
     andThen (check_reported_length meta_info) (\<lambda>_.
     let per_position = map (\<lambda>p. (show_nat p, tail_count histogram p)) [0..<nat depth] in
     if sum_list (map snd per_position) \<noteq> accepted then Inl audit_error else
     Inr (audit_result depth verify_count proposed accepted per_position)))))
       | _ \<Rightarrow> Inl audit_error)))))
       | _ \<Rightarrow> Inl audit_error)
       | _ \<Rightarrow> Inl audit_error))"

section \<open>Reading a snapshot back\<close>

definition check_snapshot_schema :: "pydict \<Rightarrow> int \<Rightarrow> unit res" where
  "check_snapshot_schema snapshot expected_depth =
     (if dict_keys snapshot \<noteq> audit_snapshot_keys then Inl audit_error
      else check (dict_get snapshot ''source'' = PStr SGLANG_SPECULATIVE_SOURCE \<and>
        dict_get snapshot ''scope'' = PStr SGLANG_SPECULATIVE_SCOPE \<and>
        dict_get snapshot ''requested'' = PBool True \<and>
        dict_get snapshot ''method'' = PStr SGLANG_SPECULATIVE_METHOD \<and>
        eq_int (dict_get snapshot ''configured_max_draft_tokens'') expected_depth) audit_error)"

definition position_names :: "int \<Rightarrow> string list" where
  "position_names depth = map show_nat [0..<nat depth]"

definition non_increasing :: "int list \<Rightarrow> bool" where
  "non_increasing xs \<longleftrightarrow> list_all (\<lambda>(left, right). right \<le> left) (zip xs (tl xs))"

text \<open>The position counters of a snapshot, as the dict from names to counts.\<close>

definition snapshot_positions ::
  "pydict \<Rightarrow> int \<Rightarrow> int \<Rightarrow> int \<Rightarrow> (string \<times> int) list res" where
  "snapshot_positions snapshot expected_depth drafts accepted =
     (case dict_get snapshot ''accepted_tokens_per_position'' of PDict raw_positions \<Rightarrow>
     if dict_keys raw_positions \<noteq> set (position_names expected_depth) then Inl audit_error else
     andThen (traverse (\<lambda>(key, v). andThen (audit_count v) (\<lambda>n. Inr (key, n))) raw_positions)
       (\<lambda>positions.
     let ordered = map (\<lambda>k. (case map_of positions k of Some n \<Rightarrow> n | None \<Rightarrow> 0)) (position_names expected_depth) in
     if list_ex (\<lambda>n. n > drafts) ordered \<or> \<not> non_increasing ordered \<or> sum_list ordered \<noteq> accepted
     then Inl audit_error else Inr positions)
       | _ \<Rightarrow> Inl audit_error)"

definition validate_audit_snapshot ::
  "pyval \<Rightarrow> int \<Rightarrow> (int \<times> int \<times> int \<times> (string \<times> int) list) res" where
  "validate_audit_snapshot snap expected_depth =
     (case snap of PDict snapshot \<Rightarrow>
     andThen (check_snapshot_schema snapshot expected_depth) (\<lambda>_.
     andThen (audit_count (dict_get snapshot ''num_drafts'')) (\<lambda>drafts.
     andThen (audit_count (dict_get snapshot ''num_draft_tokens'')) (\<lambda>proposed.
     andThen (audit_count (dict_get snapshot ''num_accepted_tokens'')) (\<lambda>accepted.
     if drafts = 0 \<or> proposed \<noteq> drafts * expected_depth \<or> accepted > proposed
     then Inl audit_error else
     andThen (snapshot_positions snapshot expected_depth drafts accepted) (\<lambda>positions.
     andThen (finite_number (dict_get snapshot ''draft_acceptance_rate'')) (\<lambda>rate.
     andThen (finite_number (dict_get snapshot ''mean_accepted_length'')) (\<lambda>mean_length.
     if \<not> isclose (1 / 10 ^ 9) (1 / 10 ^ 12) rate (of_int accepted / of_int proposed)
     then Inl audit_error else
     if \<not> isclose (1 / 10 ^ 9) (1 / 10 ^ 12) mean_length (1 + of_int accepted / of_int drafts)
     then Inl audit_error else
     Inr (drafts, proposed, accepted, positions))))))))
       | _ \<Rightarrow> Inl audit_error)"

section \<open>Adding up the snapshots of a run\<close>

record audit_sum =
  total_drafts :: int
  total_proposed :: int
  total_accepted :: int
  total_positions :: "(string \<times> int) list"

text \<open>\<open>positions[position] += value\<close> for a position that is not there raises \<open>KeyError\<close>.\<close>

definition add_position_count :: "(string \<times> int) list \<Rightarrow> string \<times> int \<Rightarrow> (string \<times> int) list res" where
  "add_position_count positions item = (case map_of positions (fst item) of
       None \<Rightarrow> Inl KeyError
     | Some n \<Rightarrow> Inr (AList.update (fst item) (n + snd item) positions))"

definition add_audit_snapshot :: "int \<Rightarrow> audit_sum \<Rightarrow> pyval \<Rightarrow> audit_sum res" where
  "add_audit_snapshot depth st snapshot =
     andThen (validate_audit_snapshot snapshot depth) (\<lambda>(drafts, proposed, accepted, positions).
     andThen (fold_res add_position_count (total_positions st) positions) (\<lambda>summed.
     Inr \<lparr>total_drafts = total_drafts st + drafts, total_proposed = total_proposed st + proposed,
       total_accepted = total_accepted st + accepted, total_positions = summed\<rparr>))"

definition accepted_positions :: "(string \<times> int) list \<Rightarrow> int list res" where
  "accepted_positions positions =
     traverse (\<lambda>(position, _). case parse_int position of Some p \<Rightarrow> Inr p | None \<Rightarrow> Inl ValueError)
       (filter (\<lambda>(_, v). v > 0) positions)"

definition proposal_depth_record :: "int \<Rightarrow> audit_sum \<Rightarrow> int list \<Rightarrow> pydict" where
  "proposal_depth_record depth st accepted_at =
     [(''average_draft_tokens_per_draft'',
         PFloat (FFin (of_int (total_proposed st) / of_int (total_drafts st)))),
      (''configured_max_draft_tokens'', PInt depth),
      (''passed'', PBool True),
      (''reason'', PNone)]
     @ (if accepted_at = [] then []
        else [(''deepest_accepted_position'', PInt (Max (set accepted_at))),
          (''deepest_accepted_draft_depth'', PInt (Max (set accepted_at) + 1))])"

definition aggregate_depth :: "pyval list \<Rightarrow> pyval \<Rightarrow> int res" where
  "aggregate_depth records expected_depth =
     (if expected_depth = PNone then
        (case hd records of
           PDict first \<Rightarrow> positive_integer (dict_get first ''configured_max_draft_tokens'')
         | _ \<Rightarrow> Inl AttributeError)
      else positive_integer expected_depth)"

definition aggregate_sglang_speculative_audits :: "pyval list \<Rightarrow> pyval \<Rightarrow> pydict option res" where
  "aggregate_sglang_speculative_audits records expected_depth =
     (if records = [] then Inr None
      else andThen (aggregate_depth records expected_depth) (\<lambda>depth.
      andThen (fold_res (add_audit_snapshot depth)
          \<lparr>total_drafts = 0, total_proposed = 0, total_accepted = 0,
           total_positions = map (\<lambda>k. (k, 0)) (position_names depth)\<rparr> records) (\<lambda>st.
      andThen (accepted_positions (total_positions st)) (\<lambda>accepted_at.
      Inr (Some (audit_result depth (total_drafts st) (total_proposed st) (total_accepted st)
          (total_positions st)
        @ [(''snapshot_count'', PInt (int (length records))),
           (''proposal_depth'', PDict (proposal_depth_record depth st accepted_at))]))))))"

section \<open>The two requests of an audit\<close>

text \<open>
  What the opener does with one POST: it fails with an HTTP status, with a transport error, with
  an \<open>http.client\<close> error (which is none of the classes the code catches), or the response has a
  status and a body.
\<close>

datatype http_reply =
    Http_status | Transport_failure | Protocol_failure | Response pyval string

record http_request =
  request_url :: string
  request_data :: string
  request_headers :: "(string \<times> string) list"

text \<open>\<open>f"http://127.0.0.1:{port}/v1"\<close> is the one text that passes every test on the parts.\<close>

definition drop_trailing :: "char \<Rightarrow> string \<Rightarrow> string" where
  "drop_trailing c s = rev (dropWhile (\<lambda>x. x = c) (rev s))"

definition loopback_root :: "nat \<Rightarrow> string" where
  "loopback_root port = ''http://127.0.0.1:'' @ show_nat port"

definition canonical_root :: "pyval \<Rightarrow> string res" where
  "canonical_root base_url = (case base_url of
       PStr s \<Rightarrow>
         (let candidate = drop_trailing (CHR ''/'') s;
              port_text = takeWhile is_digit (drop (length ''http://127.0.0.1:'') candidate) in
          (case parse_digits port_text of
             None \<Rightarrow> Inl audit_error
           | Some port \<Rightarrow>
             if \<not> (1 \<le> port \<and> port \<le> 65535) \<or> candidate \<noteq> loopback_root port @ ''/v1''
             then Inl audit_error else Inr (loopback_root port)))
     | _ \<Rightarrow> Inl audit_error)"

definition BEARER :: string where
  "BEARER = ''Bearer ''"

definition audit_headers :: "pyval \<Rightarrow> (string \<times> string) list res" where
  "audit_headers authorization = (case authorization of
       PStr s \<Rightarrow>
         (if \<not> is_prefix_of BEARER s then Inl audit_error
          else (let token = drop (length BEARER) s in
            if token = [] \<or> list_ex is_space token
              \<or> list_ex (\<lambda>c. (of_char c :: nat) < 33 \<or> (of_char c :: nat) = 127) token
            then Inl audit_error
            else Inr [(''Authorization'', s), (''Content-Type'', ''application/json'')]))
     | _ \<Rightarrow> Inl audit_error)"

text \<open>
  \<open>_post_json\<close>: the requests sent, and the object of the response. \<open>dumps\<close> gives \<open>None\<close> for a
  body it cannot encode; \<open>loads\<close> gives \<open>None\<close> for a text that is not JSON.
\<close>

definition read_response :: "(string \<Rightarrow> pyval option res) \<Rightarrow> http_reply \<Rightarrow> pydict res" where
  "read_response loads reply = (case reply of
       Http_status \<Rightarrow> Inl audit_error
     | Transport_failure \<Rightarrow> Inl audit_error
     | Protocol_failure \<Rightarrow> Inl HTTPException
     | Response status body \<Rightarrow>
        (if status \<noteq> PInt 200 then Inl audit_error
         else (let raw = take (MAX_RESPONSE_BYTES + 1) body in
           if length raw > MAX_RESPONSE_BYTES then Inl audit_error
           else andThen (loads raw) (\<lambda>payload.
             (case payload of Some (PDict d) \<Rightarrow> Inr d | _ \<Rightarrow> Inl audit_error)))))"

definition post_json ::
  "(pyval \<Rightarrow> string option) \<Rightarrow> (string \<Rightarrow> pyval option res) \<Rightarrow> (http_request \<Rightarrow> http_reply)
     \<Rightarrow> string \<Rightarrow> pydict \<Rightarrow> pyval \<Rightarrow> http_request list \<times> pydict res" where
  "post_json dumps loads http url body authorization =
     (case dumps (PDict body) of
        None \<Rightarrow> ([], Inl audit_error)
      | Some encoded \<Rightarrow>
        (case audit_headers authorization of
           Inl e \<Rightarrow> ([], Inl e)
         | Inr headers \<Rightarrow>
           (let request = \<lparr>request_url = url, request_data = encoded, request_headers = headers\<rparr>
            in ([request], read_response loads (http request)))))"

definition valid_timeout :: "pyval \<Rightarrow> real res" where
  "valid_timeout v = andThen (finite_number v) (\<lambda>t.
     if \<not> (0 < t \<and> t \<le> 3600) then Inl audit_error else Inr t)"

definition valid_text :: "pyval \<Rightarrow> char set \<Rightarrow> bool" where
  "valid_text v forbidden = (case v of PStr s \<Rightarrow> s \<noteq> [] \<and> set s \<inter> forbidden = {} | _ \<Rightarrow> False)"

text \<open>The arguments are checked in order before anything is sent.\<close>

definition audit_arguments ::
  "pyval \<Rightarrow> pyval \<Rightarrow> pyval \<Rightarrow> pyval \<Rightarrow> pyval \<Rightarrow> pyval \<Rightarrow> string res" where
  "audit_arguments base_url model expected_depth prompt max_new_tokens timeout_s =
     andThen (canonical_root base_url) (\<lambda>base.
     andThen (positive_integer expected_depth) (\<lambda>depth.
     if depth > MAX_DRAFT_DEPTH then Inl audit_error else
     if \<not> valid_text model {CR, LF} then Inl audit_error else
     if \<not> valid_text prompt {} then Inl audit_error else
     if \<not> (case max_new_tokens of PInt n \<Rightarrow> 2 \<le> n \<and> n \<le> MAX_AUDIT_OUTPUT_TOKENS | _ \<Rightarrow> False)
     then Inl audit_error else
     andThen (valid_timeout timeout_s) (\<lambda>_. Inr base)))"

definition valid_token :: "pyval \<Rightarrow> bool" where
  "valid_token v = (case v of PInt n \<Rightarrow> 0 \<le> n | _ \<Rightarrow> False)"

definition tokenized_ids :: "pydict \<Rightarrow> pyval list res" where
  "tokenized_ids tokenized = (case dict_get tokenized ''tokens'' of
       PList tokens \<Rightarrow>
         (if tokens = [] \<or> \<not> list_all valid_token tokens
            \<or> dict_get tokenized ''count'' \<noteq> PInt (int (length tokens))
            \<or> \<not> (case dict_get tokenized ''max_model_len'' of PInt n \<Rightarrow> 0 < n | _ \<Rightarrow> False)
          then Inl audit_error else Inr tokens)
     | _ \<Rightarrow> Inl audit_error)"

definition tokenize_body :: "pyval \<Rightarrow> pyval \<Rightarrow> pydict \<Rightarrow> pydict" where
  "tokenize_body model prompt template_kwargs = [
     (''model'', model),
     (''messages'', PList [PDict [(''role'', PStr ''user''), (''content'', prompt)]]),
     (''chat_template_kwargs'', PDict template_kwargs)]"

definition generate_body :: "pyval list \<Rightarrow> pyval \<Rightarrow> pydict" where
  "generate_body tokens max_new_tokens = [
     (''input_ids'', PList tokens),
     (''sampling_params'', PDict [(''temperature'', PFloat (FFin 0)),
        (''max_new_tokens'', max_new_tokens)]),
     (''stream'', PBool False),
     (''no_logs'', PBool True),
     (''log_metrics'', PBool False)]"

definition request_sglang_speculative_audit ::
  "(pyval \<Rightarrow> string option) \<Rightarrow> (string \<Rightarrow> pyval option res) \<Rightarrow> (http_request \<Rightarrow> http_reply)
     \<Rightarrow> pyval \<Rightarrow> pyval \<Rightarrow> pyval \<Rightarrow> pyval \<Rightarrow> pydict option \<Rightarrow> pyval \<Rightarrow> pyval \<Rightarrow> pyval
     \<Rightarrow> http_request list \<times> pydict res" where
  "request_sglang_speculative_audit dumps loads http base_url model authorization expected_depth
     chat_template_kwargs prompt max_new_tokens timeout_s =
     (case audit_arguments base_url model expected_depth prompt max_new_tokens timeout_s of
        Inl e \<Rightarrow> ([], Inl e)
      | Inr base \<Rightarrow>
        (let template_kwargs = (case chat_template_kwargs of
               None \<Rightarrow> [(''enable_thinking'', PBool False)] | Some d \<Rightarrow> d);
             (sent, tokenized) = post_json dumps loads http (base @ ''/v1/tokenize'')
               (tokenize_body model prompt template_kwargs) authorization
         in (case andThen tokenized tokenized_ids of
               Inl e \<Rightarrow> (sent, Inl e)
             | Inr tokens \<Rightarrow>
               (let (sent', generated) = post_json dumps loads http (base @ ''/generate'')
                  (generate_body tokens max_new_tokens) authorization
                in (sent @ sent', andThen generated (\<lambda>payload.
                     parse_sglang_speculative_response (PDict payload) expected_depth))))))"

end
