(* ===== verification/Sglang_Guarantees.thy ===== *)
theory Sglang_Guarantees
  imports Sglang_Audit
begin

text \<open>
  What the SGLang audit establishes. The reference is a run of the verifier: for each of its
  steps, the number of draft tokens that were accepted. Every response the parser accepts is
  the report of such a run, its snapshot is the run's summary, the report of any run is
  accepted, and the sum of several snapshots is the summary of the joined run.
\<close>

section \<open>Runs and their summaries\<close>

definition valid_run :: "nat \<Rightarrow> nat list \<Rightarrow> bool" where
  "valid_run depth run \<longleftrightarrow> run \<noteq> [] \<and> list_all (\<lambda>r. r \<le> depth) run"

definition steps_beyond :: "nat list \<Rightarrow> nat \<Rightarrow> int" where
  "steps_beyond run p = int (length (filter (\<lambda>r. p < r) run))"

definition run_positions :: "nat \<Rightarrow> nat list \<Rightarrow> (string \<times> int) list" where
  "run_positions depth run = map (\<lambda>p. (show_nat p, steps_beyond run p)) [0..<depth]"

definition run_summary :: "nat \<Rightarrow> nat list \<Rightarrow> pydict" where
  "run_summary depth run = audit_result (int depth) (int (length run)) (int (length run * depth))
     (int (sum_list run)) (run_positions depth run)"

text \<open>The histogram of a run: how many steps accepted each number of tokens below \<open>m\<close>.\<close>

definition run_histogram :: "nat \<Rightarrow> nat list \<Rightarrow> int list" where
  "run_histogram m run = map (\<lambda>i. int (count_list run i)) [0..<m]"

lemma run_sum:
  fixes run :: "nat list"
  assumes "list_all (\<lambda>r. r < m) run"
  shows "(\<Sum>i = 0..<m. count_list run i * f i) = sum_list (map f run)"
proof -
  have "set run \<subseteq> {0..<m}" using assms by (auto simp: list_all_iff)
  then show ?thesis by (simp add: sum_list_map_eq_sum_count2)
qed

lemma histogram_total:
  assumes "list_all (\<lambda>r. r < m) run"
  shows "sum_list (run_histogram m run) = int (length run)"
  using run_sum [OF assms, of "\<lambda>_. 1"]
  by (simp add: run_histogram_def interv_sum_list_conv_sum_set_nat sum_list_triv flip: of_nat_sum)

lemma histogram_weighted:
  assumes "list_all (\<lambda>r. r < m) run"
  shows "weighted_sum (run_histogram m run) = int (sum_list run)"
proof -
  have "map (\<lambda>(i, c). int i * c) (enumerate 0 (run_histogram m run))
      = map (\<lambda>i. int (count_list run i * i)) [0..<m]"
    by (rule nth_equalityI) (simp_all add: run_histogram_def nth_enumerate_eq algebra_simps)
  then show ?thesis
    using run_sum [OF assms, of "\<lambda>i. i"]
    by (simp add: weighted_sum_def interv_sum_list_conv_sum_set_nat flip: of_nat_sum of_nat_mult
        del: of_nat_mult of_nat_sum)
qed

lemma histogram_tail:
  assumes "list_all (\<lambda>r. r < m) run"
  shows "tail_count (run_histogram m run) p = steps_beyond run p"
proof -
  have "length (filter (\<lambda>r. p < r) xs) = sum_list (map (\<lambda>r. of_bool (p < r)) xs)" for xs :: "nat list"
    by (induction xs) auto
  then have "length (filter (\<lambda>r. p < r) run) = (\<Sum>i = 0..<m. count_list run i * of_bool (p < i))"
    using run_sum [OF assms, of "\<lambda>r. of_bool (p < r)"] by simp
  also have "\<dots> = (\<Sum>i = Suc p..<m. count_list run i)"
    by (intro sum.mono_neutral_cong_right) auto
  finally show ?thesis
    by (simp add: tail_count_def steps_beyond_def run_histogram_def drop_map
        interv_sum_list_conv_sum_set_nat flip: of_nat_sum)
qed

text \<open>Every histogram of non-negative counts is the histogram of some run.\<close>

definition run_of :: "int list \<Rightarrow> nat list" where
  "run_of h = concat (map (\<lambda>i. replicate (nat (h ! i)) i) [0..<length h])"

lemma count_list_concat: "count_list (concat xss) x = sum_list (map (\<lambda>xs. count_list xs x) xss)"
  by (induction xss) auto

lemma count_list_replicate [simp]: "count_list (replicate n x) y = (if x = y then n else 0)"
  by (induction n) auto

lemma histogram_of_run:
  assumes "\<forall>n \<in> set h. 0 \<le> n"
  shows "run_histogram (length h) (run_of h) = h" and "list_all (\<lambda>r. r < length h) (run_of h)"
proof -
  have "count_list (run_of h) i = nat (h ! i)" if "i < length h" for i
    using that by (simp add: run_of_def count_list_concat comp_def interv_sum_list_conv_sum_set_nat)
  with assms show "run_histogram (length h) (run_of h) = h"
    by (intro nth_equalityI) (simp_all add: run_histogram_def)
  show "list_all (\<lambda>r. r < length h) (run_of h)"
    by (auto simp: run_of_def list_all_iff)
qed

section \<open>Parsing\<close>

lemma positive_integer_Inr [res_inv]: "positive_integer v = Inr n \<longleftrightarrow> v = PInt n \<and> 0 < n"
  by (auto simp: positive_integer_def split: pyval.splits if_splits)

lemma audit_count_Inr [res_inv]: "audit_count v = Inr n \<longleftrightarrow> v = PInt n \<and> 0 \<le> n"
  by (auto simp: audit_count_def split: pyval.splits if_splits)

lemma audit_counts_Inr: "traverse audit_count vs = Inr ns \<Longrightarrow> \<forall>n \<in> set ns. 0 \<le> n"
  by (erule traverse_prop) (simp add: audit_count_Inr)

lemma parse_response_cases:
  assumes "parse_sglang_speculative_response payload expected_depth = Inr snap"
  obtains depth response meta h accepted verify where
    "expected_depth = PInt depth" "1 \<le> depth" "depth \<le> 64" "payload = PDict response"
    "dict_get response ''meta_info'' = PDict meta"
    "dict_get meta ''spec_num_correct_drafts'' = PInt accepted"
    "dict_get meta ''spec_num_proposed_drafts'' = PInt (verify * depth)"
    "dict_get meta ''spec_verify_ct'' = PInt verify"
    "verify \<noteq> 0" "\<forall>n \<in> set h. 0 \<le> n" "int (length h) \<le> depth + 1"
    "sum_list h = verify" "weighted_sum h = accepted"
    "snap = audit_result depth verify (verify * depth) accepted
       (map (\<lambda>p. (show_nat p, tail_count h p)) [0..<nat depth])"
  using assms
  unfolding parse_sglang_speculative_response_def MAX_DRAFT_DEPTH_def andThen_eq_Inr Let_def
    object_Inr array_Inr guard_eq_Inr positive_integer_Inr audit_count_Inr
  by (elim exE conjE) (use audit_counts_Inr traverse_length in fastforce)

lemma response_run:
  assumes "parse_sglang_speculative_response payload expected_depth = Inr snap"
  obtains depth run response meta where
    "expected_depth = PInt (int depth)" "1 \<le> depth" "depth \<le> 64" "valid_run depth run"
    "snap = run_summary depth run" "payload = PDict response"
    "dict_get response ''meta_info'' = PDict meta"
    "dict_get meta ''spec_verify_ct'' = PInt (int (length run))"
    "dict_get meta ''spec_num_correct_drafts'' = PInt (int (sum_list run))"
    "dict_get meta ''spec_num_proposed_drafts'' = PInt (int (length run * depth))"
proof -
  from assms obtain d response meta h accepted verify where p:
    "expected_depth = PInt d" "1 \<le> d" "d \<le> 64" "payload = PDict response"
    "dict_get response ''meta_info'' = PDict meta"
    "dict_get meta ''spec_num_correct_drafts'' = PInt accepted"
    "dict_get meta ''spec_num_proposed_drafts'' = PInt (verify * d)"
    "dict_get meta ''spec_verify_ct'' = PInt verify"
    "verify \<noteq> 0" "\<forall>n \<in> set h. 0 \<le> n" "int (length h) \<le> d + 1"
    "sum_list h = verify" "weighted_sum h = accepted"
    "snap = audit_result d verify (verify * d) accepted
       (map (\<lambda>p. (show_nat p, tail_count h p)) [0..<nat d])"
    by (rule parse_response_cases)
  obtain depth where d: "d = int depth"
    using p(2) by (metis nonneg_int_cases zero_le_one order_trans)
  define run where "run = run_of h"
  have h: "run_histogram (length h) run = h" and below: "list_all (\<lambda>r. r < length h) run"
    using histogram_of_run [OF p(10)] by (simp_all add: run_def)
  have totals: "verify = int (length run)" "accepted = int (sum_list run)"
    using histogram_total [OF below] histogram_weighted [OF below] h p(12,13) by simp_all
  have "\<And>q. tail_count h q = steps_beyond run q"
    using histogram_tail [OF below] h by simp
  then have "snap = run_summary depth run"
    using p(14) by (simp add: run_summary_def run_positions_def totals d)
  moreover have "valid_run depth run"
    using below p(9,11) totals d by (auto simp: valid_run_def list_all_iff)
  moreover have "1 \<le> depth" "depth \<le> 64" using p(2,3) d by simp_all
  ultimately show thesis
    using p(1,4-8) by (intro that [of depth run response meta]) (simp_all add: totals d)
qed

section \<open>Reading a snapshot back\<close>

lemma show_nat_inj: "show_nat m = show_nat n \<longleftrightarrow> m = n"
  using foldl_show_nat by metis

lemma run_positions_keys:
  "dict_keys (map (\<lambda>(k, n). (k, PInt n)) (run_positions depth run)) = set (position_names (int depth))"
  by (simp add: run_positions_def position_names_def dict_keys_def image_image)

lemma run_positions_map_of:
  "p < depth \<Longrightarrow> map_of (run_positions depth run) (show_nat p) = Some (steps_beyond run p)"
  by (auto simp: run_positions_def map_of_eq_Some_iff distinct_map inj_on_def show_nat_inj comp_def)

lemma ordered_positions:
  "map (\<lambda>k. case map_of (run_positions depth run) k of Some n \<Rightarrow> n | None \<Rightarrow> 0)
     (position_names (int depth)) = map (steps_beyond run) [0..<depth]"
  by (simp add: position_names_def run_positions_map_of)

lemma steps_beyond_mono: "p \<le> q \<Longrightarrow> steps_beyond run q \<le> steps_beyond run p"
  unfolding steps_beyond_def
  by (induction run) auto

lemma steps_beyond_bounds: "0 \<le> steps_beyond run p" "steps_beyond run p \<le> int (length run)"
  by (simp_all add: steps_beyond_def)

lemma steps_beyond_sum:
  assumes "list_all (\<lambda>r. r \<le> depth) run"
  shows "sum_list (map (steps_beyond run) [0..<depth]) = int (sum_list run)"
  using assms
proof (induction run)
  case Nil
  then show ?case by (simp add: steps_beyond_def sum_list_triv)
next
  case (Cons r run)
  have "steps_beyond (r # run) p = of_bool (p < r) + steps_beyond run p" for p
    by (simp add: steps_beyond_def)
  moreover have "(\<Sum>p = 0..<depth. of_bool (p < r) :: int) = (\<Sum>p = 0..<r. 1)"
    using Cons.prems by (intro sum.mono_neutral_cong_right) auto
  ultimately show ?case
    using Cons by (simp add: sum_list_addf interv_sum_list_conv_sum_set_nat)
qed

lemma non_increasing_map:
  assumes "\<And>p. f (Suc p) \<le> f p"
  shows "non_increasing (map f [0..<n])"
  using assms by (auto simp: non_increasing_def list_all_length nth_tl)

lemma isclose_refl [simp]: "0 \<le> a \<Longrightarrow> isclose r a x x"
  by (simp add: isclose_def)

lemma run_accepted_bound:
  "list_all (\<lambda>r. r \<le> depth) run \<Longrightarrow> sum_list run \<le> length run * depth"
  by (induction run) auto

lemma summary_fields:
  "dict_keys (audit_result d n p a ps) = audit_snapshot_keys"
  "dict_get (audit_result d n p a ps) ''num_drafts'' = PInt n"
  "dict_get (audit_result d n p a ps) ''num_draft_tokens'' = PInt p"
  "dict_get (audit_result d n p a ps) ''num_accepted_tokens'' = PInt a"
  "dict_get (audit_result d n p a ps) ''configured_max_draft_tokens'' = PInt d"
  "dict_get (audit_result d n p a ps) ''accepted_tokens_per_position''
     = PDict (map (\<lambda>(k, m). (k, PInt m)) ps)"
  "dict_get (audit_result d n p a ps) ''draft_acceptance_rate'' = PFloat (FFin (of_int a / of_int p))"
  "dict_get (audit_result d n p a ps) ''mean_accepted_length'' = PFloat (FFin (1 + of_int a / of_int n))"
  "check_snapshot_schema (audit_result d n p a ps) d = Inr ()"
  by (auto simp: audit_result_def audit_snapshot_keys_def check_snapshot_schema_def)

lemma counts_back:
  assumes "\<forall>(k, n) \<in> set ps. 0 \<le> n"
  shows "traverse (\<lambda>(key, v). andThen (audit_count v) (\<lambda>n. Inr (key, n)))
    (map (\<lambda>(k, n). (k, PInt n)) ps) = Inr ps"
  using assms by (induction ps) (auto simp: audit_count_def)

lemma summary_positions:
  assumes "list_all (\<lambda>r. r \<le> depth) run"
  shows "snapshot_positions (run_summary depth run) (int depth) (int (length run))
    (int (sum_list run)) = Inr (run_positions depth run)"
proof -
  have "traverse (\<lambda>(key, v). andThen (audit_count v) (\<lambda>n. Inr (key, n)))
      (map (\<lambda>(k, n). (k, PInt n)) (run_positions depth run)) = Inr (run_positions depth run)"
    by (rule counts_back) (auto simp: run_positions_def steps_beyond_bounds)
  moreover have "\<not> list_ex (\<lambda>n. n > int (length run)) (map (steps_beyond run) [0..<depth])"
    using steps_beyond_bounds(2) by (auto simp: list_ex_iff not_less)
  moreover have "non_increasing (map (steps_beyond run) [0..<depth])"
    by (rule non_increasing_map) (simp add: steps_beyond_mono)
  ultimately show ?thesis
    using steps_beyond_sum [OF assms]
    by (simp add: snapshot_positions_def run_summary_def summary_fields run_positions_keys
        ordered_positions Let_def)
qed

lemma validate_summary:
  assumes "valid_run depth run"
  shows "validate_audit_snapshot (PDict (run_summary depth run)) (int depth)
    = Inr (int (length run), int (length run * depth), int (sum_list run), run_positions depth run)"
proof -
  have run: "run \<noteq> []" "list_all (\<lambda>r. r \<le> depth) run"
    using assms by (simp_all add: valid_run_def)
  have "int (sum_list run) \<le> int (length run * depth)"
    using run_accepted_bound [OF run(2)] by (simp only: of_nat_le_iff)
  then show ?thesis
    using run summary_positions [OF run(2)]
    by (simp add: validate_audit_snapshot_def run_summary_def summary_fields audit_count_def
        finite_number_def)
qed

section \<open>Adding snapshots up\<close>

lemma steps_beyond_append: "steps_beyond (xs @ ys) p = steps_beyond xs p + steps_beyond ys p"
  by (simp add: steps_beyond_def)

text \<open>Adding the positions of a run to those of another, name by name.\<close>

lemma add_positions:
  assumes "distinct ps" and "set ps \<subseteq> set qs" and "distinct qs"
  shows "fold_res add_position_count (map (\<lambda>q. (show_nat q, f q)) qs) (map (\<lambda>p. (show_nat p, g p)) ps)
    = Inr (map (\<lambda>q. (show_nat q, f q + (if q \<in> set ps then g q else 0))) qs)"
  using assms
proof (induction ps arbitrary: f)
  case (Cons p ps)
  let ?f = "\<lambda>q. if q = p then f p + g p else f q"
  have upd: "AList.update (show_nat p) v (map (\<lambda>q. (show_nat q, f q)) qs)
      = map (\<lambda>q. (show_nat q, if q = p then v else f q)) qs"
    if "p \<in> set qs" "distinct qs" for v qs
    using that by (induction qs) (auto simp: show_nat_inj intro!: map_cong)
  have "map_of (map (\<lambda>q. (show_nat q, f q)) qs) (show_nat p) = Some (f p)"
    using Cons.prems by (auto simp: map_of_eq_Some_iff distinct_map inj_on_def show_nat_inj comp_def)
  then have "add_position_count (map (\<lambda>q. (show_nat q, f q)) qs) (show_nat p, g p)
      = Inr (map (\<lambda>q. (show_nat q, ?f q)) qs)"
    using Cons.prems upd by (simp add: add_position_count_def)
  moreover have "fold_res add_position_count (map (\<lambda>q. (show_nat q, ?f q)) qs)
      (map (\<lambda>p. (show_nat p, g p)) ps)
    = Inr (map (\<lambda>q. (show_nat q, ?f q + (if q \<in> set ps then g q else 0))) qs)"
    using Cons.prems by (intro Cons.IH) auto
  moreover have "map (\<lambda>q. (show_nat q, ?f q + (if q \<in> set ps then g q else 0))) qs
    = map (\<lambda>q. (show_nat q, f q + (if q \<in> set (p # ps) then g q else 0))) qs"
    using Cons.prems by auto
  ultimately show ?case by simp
qed simp

definition run_total :: "nat \<Rightarrow> nat list \<Rightarrow> audit_sum" where
  "run_total depth run = \<lparr>total_drafts = int (length run),
     total_proposed = int (length run * depth), total_accepted = int (sum_list run),
     total_positions = run_positions depth run\<rparr>"

lemma add_summary:
  assumes "valid_run depth run"
  shows "add_audit_snapshot (int depth) (run_total depth before) (PDict (run_summary depth run))
    = Inr (run_total depth (before @ run))"
proof -
  have "fold_res add_position_count (run_positions depth before) (run_positions depth run)
      = Inr (run_positions depth (before @ run))"
    unfolding run_positions_def
    by (subst add_positions) (simp_all add: steps_beyond_append)
  then show ?thesis
    by (simp add: add_audit_snapshot_def validate_summary [OF assms] run_total_def algebra_simps)
qed

lemma add_summaries:
  assumes "list_all (valid_run depth) runs"
  shows "fold_res (add_audit_snapshot (int depth)) (run_total depth before)
    (map (\<lambda>run. PDict (run_summary depth run)) runs) = Inr (run_total depth (before @ concat runs))"
  using assms by (induction runs arbitrary: before) (simp_all add: add_summary)

lemma filter_upt_less: "m \<le> n \<Longrightarrow> filter (\<lambda>p. p < m) [0..<n] = [0..<m]" for m n :: nat
  by (induction n) (auto simp: le_Suc_eq)

lemma accepted_positions_run:
  assumes "depth \<le> 64" and "list_all (\<lambda>r. r \<le> depth) run"
  shows "accepted_positions (run_positions depth run) = Inr (map int [0..<Max (insert 0 (set run))])"
proof -
  let ?top = "Max (insert 0 (set run))"
  have top: "0 < steps_beyond run p \<longleftrightarrow> p < ?top" for p
    unfolding steps_beyond_def by (subst Max_gr_iff) (auto simp: filter_empty_conv)
  have "?top \<le> depth" using assms(2) by (auto simp: list_all_iff)
  then have "filter (\<lambda>p. p < ?top) [0..<depth] = [0..<?top]" by (rule filter_upt_less)
  moreover have "filter (\<lambda>(_, v). v > 0) (run_positions depth run)
      = map (\<lambda>p. (show_nat p, steps_beyond run p)) (filter (\<lambda>p. p < ?top) [0..<depth])"
    by (simp add: run_positions_def filter_map comp_def top)
  ultimately have shown: "filter (\<lambda>(_, v). v > 0) (run_positions depth run)
      = map (\<lambda>p. (show_nat p, steps_beyond run p)) [0..<?top]" by simp
  have "parse_int (show_nat p) = Some (int p)" if "p < ?top" for p
  proof -
    have "p < 64" using that \<open>?top \<le> depth\<close> assms(1) by linarith
    also have "(64 :: nat) < 10 ^ 2" by simp
    also have "(10 :: nat) ^ 2 \<le> 10 ^ max_str_digits"
      by (intro power_increasing) (simp_all add: max_str_digits_def)
    finally show ?thesis by (rule parse_int_show)
  qed
  then have "traverse (\<lambda>(position, _). case parse_int position of Some p \<Rightarrow> Inr p
        | None \<Rightarrow> Inl ValueError) (map (\<lambda>p. (show_nat p, steps_beyond run p)) ps) = Inr (map int ps)"
    if "set ps \<subseteq> {..<?top}" for ps
    using that by (induction ps) auto
  from this [of "[0..<?top]"] show ?thesis
    by (simp add: accepted_positions_def shown atLeast0LessThan del: upt_Suc)
qed

text \<open>The proof of depth that accompanies the sum of a run.\<close>

definition run_depth :: "nat \<Rightarrow> nat list \<Rightarrow> pydict" where
  "run_depth depth run =
     [(''average_draft_tokens_per_draft'', PFloat (FFin (real depth))),
      (''configured_max_draft_tokens'', PInt (int depth)),
      (''passed'', PBool True),
      (''reason'', PNone)]
     @ (if Max (set run) = 0 then []
        else [(''deepest_accepted_position'', PInt (int (Max (set run)) - 1)),
          (''deepest_accepted_draft_depth'', PInt (int (Max (set run))))])"

lemma proposal_depth_run:
  assumes "valid_run depth run"
  shows "proposal_depth_record (int depth) (run_total depth run) (map int [0..<Max (insert 0 (set run))])
    = run_depth depth run"
proof -
  have run: "run \<noteq> []" using assms by (simp add: valid_run_def)
  have "Max (insert 0 (set run)) = Max (set run)"
    using run by (subst Max_insert) auto
  moreover have "Max (int ` {0..<m}) = int m - 1" if "0 < m" for m
    using that by (intro Max_eqI) (auto simp: image_iff intro!: bexI [of _ "m - 1"])
  ultimately show ?thesis
    using run by (simp add: proposal_depth_record_def run_depth_def run_total_def)
qed

lemma aggregate_summaries:
  assumes "runs \<noteq> []" and "list_all (valid_run depth) runs" and "1 \<le> depth" and "depth \<le> 64"
    and "expected_depth \<in> {PNone, PInt (int depth)}"
  shows "aggregate_sglang_speculative_audits (map (\<lambda>run. PDict (run_summary depth run)) runs)
      expected_depth
    = Inr (Some (run_summary depth (concat runs)
        @ [(''snapshot_count'', PInt (int (length runs))),
           (''proposal_depth'', PDict (run_depth depth (concat runs)))]))"
proof -
  let ?records = "map (\<lambda>run. PDict (run_summary depth run)) runs"
  have joined: "valid_run depth (concat runs)"
    using assms(1,2) by (cases runs) (auto simp: valid_run_def list_all_iff)
  have "aggregate_depth ?records expected_depth = Inr (int depth)"
    using assms(1,3,5) by (cases runs)
      (auto simp: aggregate_depth_def run_summary_def summary_fields positive_integer_def)
  moreover have "fold_res (add_audit_snapshot (int depth))
      \<lparr>total_drafts = 0, total_proposed = 0, total_accepted = 0,
       total_positions = map (\<lambda>k. (k, 0)) (position_names (int depth))\<rparr> ?records
    = Inr (run_total depth (concat runs))"
    using add_summaries [OF assms(2), of "[]"]
    by (simp add: run_total_def run_positions_def position_names_def steps_beyond_def comp_def)
  moreover have "accepted_positions (total_positions (run_total depth (concat runs)))
      = Inr (map int [0..<Max (insert 0 (set (concat runs)))])"
    using accepted_positions_run [OF assms(4)] joined by (simp add: run_total_def valid_run_def)
  ultimately show ?thesis
    using assms(1) proposal_depth_run [OF joined]
    by (simp add: aggregate_sglang_speculative_audits_def run_total_def run_summary_def
        del: set_concat)
qed

section \<open>The report of a run\<close>

text \<open>
  What a server reports of a run in the final response: the three counters, their aliases, both
  histograms with \<open>m\<close> entries, and the rate and length it computed from them.
\<close>

definition run_report :: "nat \<Rightarrow> nat \<Rightarrow> nat list \<Rightarrow> pyval" where
  "run_report depth m run = PDict [(''meta_info'', PDict [
     (''spec_num_correct_drafts'', PInt (int (sum_list run))),
     (''spec_num_proposed_drafts'', PInt (int (length run * depth))),
     (''spec_verify_ct'', PInt (int (length run))),
     (''spec_accepted_drafts'', PInt (int (sum_list run))),
     (''spec_proposed_drafts'', PInt (int (length run * depth))),
     (''spec_correct_drafts_histogram'', PList (map PInt (run_histogram m run))),
     (''spec_accept_histogram'', PList (map PInt (run_histogram m run))),
     (''spec_accept_rate'', PFloat (FFin (real (sum_list run) / real (length run * depth)))),
     (''spec_accept_length'', PFloat (FFin (1 + real (sum_list run) / real (length run))))])]"

lemma report_parsed:
  assumes "valid_run depth run" and "1 \<le> depth" and "depth \<le> 64"
    and "list_all (\<lambda>r. r < m) run" and "m \<le> depth + 1"
  shows "parse_sglang_speculative_response (run_report depth m run) (PInt (int depth))
    = Inr (run_summary depth run)"
proof -
  let ?h = "run_histogram m run"
  have run: "run \<noteq> []" "list_all (\<lambda>r. r \<le> depth) run"
    using assms(1) by (simp_all add: valid_run_def)
  then have "0 < m" using assms(4) by (cases run) auto
  then have h: "?h \<noteq> []" "length ?h = m" by (simp_all add: run_histogram_def)
  have counted: "traverse audit_count (map PInt ?h) = Inr ?h"
    by (rule traverse_map_Inr) (auto simp: audit_count_def run_histogram_def)
  have same: "list_all2 eq_int (map PInt ns) ns" for ns
    by (induction ns) auto
  have "0 < 1 + real (sum_list run) / real (length run)" by (simp add: add_pos_nonneg)
  moreover have "map (\<lambda>p. (show_nat p, tail_count ?h p)) [0..<depth] = run_positions depth run"
    by (simp add: run_positions_def histogram_tail [OF assms(4)])
  moreover have "sum_list (map snd (run_positions depth run)) = int (sum_list run)"
    using steps_beyond_sum [OF run(2)] by (simp add: run_positions_def comp_def)
  moreover have "int (sum_list run) \<le> int (length run) * int depth"
    using run_accepted_bound [OF run(2)] by (metis of_nat_le_iff of_nat_mult)
  ultimately show ?thesis
    using assms(2,3,5) run(1) h counted same histogram_total [OF assms(4)]
      histogram_weighted [OF assms(4)]
    by (simp add: parse_sglang_speculative_response_def run_report_def positive_integer_def
        MAX_DRAFT_DEPTH_def canonical_counts_def audit_count_def audit_aliases_def check_alias_def
        eq_int_list_def check_reported_rate_def check_reported_length_def finite_number_def
        run_summary_def)
qed

section \<open>Properties\<close>

text \<open>
  C37. Every response that the parser accepts is the report of a run of the verifier at the
  configured depth: there is a run, one number of accepted drafts per verification and none
  above the depth, whose counters are the ones reported, and the snapshot is its summary, with
  the accepted tokens at a position being the verifications that accepted more than that.
\<close>

theorem sglang_snapshot_describes_run:
  assumes "parse_sglang_speculative_response payload expected_depth = Inr snap"
  shows "\<exists>depth run response meta. expected_depth = PInt (int depth) \<and> 1 \<le> depth \<and> depth \<le> 64 \<and>
    valid_run depth run \<and> snap = run_summary depth run \<and> payload = PDict response \<and>
    dict_get response ''meta_info'' = PDict meta \<and>
    dict_get meta ''spec_verify_ct'' = PInt (int (length run)) \<and>
    dict_get meta ''spec_num_correct_drafts'' = PInt (int (sum_list run)) \<and>
    dict_get meta ''spec_num_proposed_drafts'' = PInt (int (length run * depth))"
  using assms by (rule response_run) blast

lemma example_run: "valid_run 3 [3, 0, 2]" "list_all (\<lambda>r. r < 4) [3, 0, 2 :: nat]"
  by (simp_all add: valid_run_def)

lemma example_report:
  "parse_sglang_speculative_response (run_report 3 4 [3, 0, 2]) (PInt 3)
     = Inr (run_summary 3 [3, 0, 2])"
  using report_parsed [OF example_run(1) _ _ example_run(2)] by simp

theorem sglang_snapshot_describes_run_witness:
  "\<exists>run. valid_run 3 run \<and> run_summary 3 [3, 0, 2] = run_summary 3 run"
  using sglang_snapshot_describes_run [OF example_report] by auto

text \<open>
  Every run is accepted: whatever a run did, the report a server makes of it, with all the
  optional fields, parses, and the snapshot is the run's summary. The histogram may stop at the
  largest count that occurred or go on to the depth.
\<close>

theorem sglang_report_accepted:
  assumes "valid_run depth run" and "1 \<le> depth" and "depth \<le> 64"
    and "list_all (\<lambda>r. r < m) run" and "m \<le> depth + 1"
  shows "parse_sglang_speculative_response (run_report depth m run) (PInt (int depth))
    = Inr (run_summary depth run)"
  using assms by (rule report_parsed)

theorem sglang_report_accepted_witness:
  "parse_sglang_speculative_response (run_report 3 4 [3, 0, 2]) (PInt 3)
     = Inr (run_summary 3 [3, 0, 2])"
  using sglang_report_accepted [OF example_run(1) _ _ example_run(2)] by simp

text \<open>
  C38. Adding up is exact: the aggregate of the snapshots of any accepted responses always exists,
  and it is the summary of one run that did all their steps, so no counter is lost or counted
  twice, and its deepest position is the deepest any step reached.
\<close>

theorem sglang_audits_join:
  assumes "list_all2 (\<lambda>payload snap. parse_sglang_speculative_response payload (PInt (int depth))
      = Inr snap) payloads snaps"
    and "payloads \<noteq> []"
  shows "\<exists>runs. list_all (valid_run depth) runs \<and> snaps = map (run_summary depth) runs \<and>
    aggregate_sglang_speculative_audits (map PDict snaps) PNone
      = Inr (Some (run_summary depth (concat runs)
          @ [(''snapshot_count'', PInt (int (length payloads))),
             (''proposal_depth'', PDict (run_depth depth (concat runs)))]))"
proof -
  have "\<exists>runs. list_all (valid_run depth) runs \<and> snaps = map (run_summary depth) runs"
    using assms(1)
  proof (induction payloads snaps rule: list_all2_induct)
    case (Cons p ps s ss)
    from Cons.hyps(1) obtain run where "valid_run depth run" "s = run_summary depth run"
      by (rule response_run) auto
    with Cons.IH show ?case by (metis list.pred_inject(2) list.simps(9))
  qed simp
  then obtain runs where runs: "list_all (valid_run depth) runs" "snaps = map (run_summary depth) runs"
    by blast
  have "length payloads = length runs"
    using list_all2_lengthD [OF assms(1)] runs(2) by simp
  moreover have "1 \<le> depth" "depth \<le> 64"
  proof -
    obtain p s where "parse_sglang_speculative_response p (PInt (int depth)) = Inr s"
      using assms by (cases payloads) (auto simp: list_all2_Cons1)
    then show "1 \<le> depth" "depth \<le> 64" by (rule response_run; simp)+
  qed
  moreover from calculation(1) have "runs \<noteq> []" using assms(2) by auto
  ultimately show ?thesis
    using aggregate_summaries [of runs depth PNone] runs
    by (intro exI [of _ runs]) (simp add: comp_def)
qed

theorem sglang_audits_join_witness:
  "\<exists>runs. aggregate_sglang_speculative_audits (map PDict [run_summary 3 [3, 0, 2]]) PNone
      = Inr (Some (run_summary 3 (concat runs)
          @ [(''snapshot_count'', PInt 1), (''proposal_depth'', PDict (run_depth 3 (concat runs)))]))"
  using sglang_audits_join [of 3 "[run_report 3 4 [3, 0, 2]]" "[run_summary 3 [3, 0, 2]]"]
    example_report by auto

lemma post_json_requests:
  assumes "post_json dumps loads http url body authorization = (sent, outcome)"
  shows "list_all (\<lambda>r. request_url r = url) sent" and "length sent \<le> 1"
    and "outcome = Inr d \<Longrightarrow> length sent = 1"
  using assms by (auto simp: post_json_def Let_def split: option.splits sum.splits)

lemma canonical_root_Inr:
  "canonical_root v = Inr base \<Longrightarrow> \<exists>port. 1 \<le> port \<and> port \<le> 65535 \<and> base = loopback_root port"
  by (auto simp: canonical_root_def Let_def split: pyval.splits option.splits if_splits)

text \<open>
  An audit never leaves the loopback interface: whatever the arguments, the replies and the
  outcome, at most two requests are sent, each to the tokenize or generate path of one port of
  127.0.0.1; and an audit that returns has sent both, and returns the summary of a run.
\<close>

theorem sglang_audit_stays_on_loopback:
  assumes "request_sglang_speculative_audit dumps loads http base_url model authorization
      expected_depth chat_template_kwargs prompt max_new_tokens timeout_s = (sent, outcome)"
  shows "\<exists>port. 1 \<le> port \<and> port \<le> 65535 \<and>
      list_all (\<lambda>r. request_url r \<in> {loopback_root port @ ''/v1/tokenize'',
        loopback_root port @ ''/generate''}) sent \<and> length sent \<le> 2 \<and>
      (case outcome of Inl _ \<Rightarrow> True | Inr snap \<Rightarrow> length sent = 2 \<and>
        (\<exists>depth run. expected_depth = PInt (int depth) \<and> valid_run depth run \<and>
           snap = run_summary depth run))"
proof (cases "audit_arguments base_url model expected_depth prompt max_new_tokens timeout_s")
  case (Inl e)
  with assms show ?thesis
    by (intro exI [of _ 1]) (auto simp: request_sglang_speculative_audit_def)
next
  case (Inr base)
  then obtain port where port: "1 \<le> port" "port \<le> 65535" and base: "base = loopback_root port"
    using canonical_root_Inr by (auto simp: audit_arguments_def andThen_eq_Inr split: if_splits)
  define kwargs where "kwargs = (case chat_template_kwargs of
      None \<Rightarrow> [(''enable_thinking'', PBool False)] | Some d \<Rightarrow> d)"
  obtain sent1 tokenized where first: "post_json dumps loads http (base @ ''/v1/tokenize'')
      (tokenize_body model prompt kwargs) authorization = (sent1, tokenized)" by fastforce
  note p1 = post_json_requests [OF first]
  show ?thesis
  proof (cases "andThen tokenized tokenized_ids")
    case (Inl e)
    with assms Inr first have "sent = sent1" "outcome = Inl e"
      by (simp_all add: request_sglang_speculative_audit_def kwargs_def)
    with p1 port base show ?thesis
      by (intro exI [of _ port]) (auto elim: list.pred_mono_strong)
  next
    case tokens: (Inr tokens)
    obtain sent2 generated where second: "post_json dumps loads http (base @ ''/generate'')
        (generate_body tokens max_new_tokens) authorization = (sent2, generated)" by fastforce
    note p2 = post_json_requests [OF second]
    have out: "sent = sent1 @ sent2" "outcome = andThen generated (\<lambda>payload.
        parse_sglang_speculative_response (PDict payload) expected_depth)"
      using assms Inr first second tokens
      by (simp_all add: request_sglang_speculative_audit_def kwargs_def)
    have returned: "length sent = 2 \<and> (\<exists>depth run. expected_depth = PInt (int depth) \<and>
        valid_run depth run \<and> snap = run_summary depth run)" if "outcome = Inr snap" for snap
    proof -
      from that out(2) obtain payload where payload: "generated = Inr payload"
        and parsed: "parse_sglang_speculative_response (PDict payload) expected_depth = Inr snap"
        by (auto simp: andThen_eq_Inr)
      from tokens obtain d where "tokenized = Inr d" by (auto simp: andThen_eq_Inr)
      then have "length sent = 2" using p1(3) p2(3) [OF payload] out(1) by simp
      moreover from parsed obtain depth run where "expected_depth = PInt (int depth)"
        "valid_run depth run" "snap = run_summary depth run" by (rule response_run)
      ultimately show ?thesis by blast
    qed
    have "list_all (\<lambda>r. request_url r \<in> {loopback_root port @ ''/v1/tokenize'',
        loopback_root port @ ''/generate''}) sent"
      using p1(1) p2(1) base by (auto simp: out list_all_iff)
    moreover have "length sent \<le> 2" using p1(2) p2(2) by (simp add: out)
    ultimately show ?thesis
      using port returned by (intro exI [of _ port]) (auto split: sum.split)
  qed
qed

text \<open>The witness: a server that answers both requests, on port 8.\<close>

definition example_server :: "http_request \<Rightarrow> http_reply" where
  "example_server r = Response (PInt 200)
     (if request_url r = loopback_root 8 @ ''/generate'' then ''g'' else ''t'')"

definition example_loads :: "string \<Rightarrow> pyval option res" where
  "example_loads s = Inr (Some (if s = ''g'' then run_report 3 4 [3, 0, 2]
     else PDict [(''tokens'', PList [PInt 5]), (''count'', PInt 1), (''max_model_len'', PInt 9)]))"

definition example_audit :: "http_request list \<times> pydict res" where
  "example_audit = request_sglang_speculative_audit (\<lambda>_. Some ''b'') example_loads example_server
     (PStr ''http://127.0.0.1:8/v1'') (PStr ''m'') (PStr ''Bearer k'') (PInt 3) None (PStr ''p'')
     (PInt 256) (PInt 900)"

lemma example_audit_returns: "snd example_audit = Inr (run_summary 3 [3, 0, 2])"
proof -
  have "show_nat 8 = ''8''" by code_simp
  then have "canonical_root (PStr ''http://127.0.0.1:8/v1'') = Inr (loopback_root 8)"
    by (simp add: canonical_root_def drop_trailing_def parse_digits_def digit_value_def
        loopback_root_def is_digit_def less_eq_char_def max_str_digits_def)
  then show ?thesis
    using example_report
    by (simp add: example_audit_def request_sglang_speculative_audit_def audit_arguments_def
        positive_integer_def MAX_DRAFT_DEPTH_def valid_text_def MAX_AUDIT_OUTPUT_TOKENS_def
        valid_timeout_def finite_number_def float_of_int_def float_overflow_bound_def post_json_def
        audit_headers_def is_prefix_of_def BEARER_def is_space_def LF_def CR_def read_response_def
        example_server_def example_loads_def MAX_RESPONSE_BYTES_def tokenized_ids_def
        valid_token_def loopback_root_def Let_def run_report_def)
qed

theorem sglang_audit_stays_on_loopback_witness:
  "\<exists>port. list_all (\<lambda>r. request_url r \<in> {loopback_root port @ ''/v1/tokenize'',
      loopback_root port @ ''/generate''}) (fst example_audit) \<and> length (fst example_audit) = 2"
  using sglang_audit_stays_on_loopback
      [OF example_audit_def [symmetric, THEN trans, OF surjective_pairing]] example_audit_returns
  by auto

text \<open>
  The errors of the parser: besides the audit's own error only the \<open>OverflowError\<close> of a reported
  rate or length that is an integer beyond the range of a float.
\<close>

lemma raises_only_finite_number [raises]: "raises_only {audit_error, OverflowError} (finite_number v)"
  by (cases v)
    (auto simp: finite_number_def float_of_int_def raises_only_def split: pyfloat.splits)

lemma parse_response_raises:
  "raises_only {audit_error, OverflowError} (parse_sglang_speculative_response payload expected_depth)"
  unfolding parse_sglang_speculative_response_def positive_integer_def audit_count_def
    check_reported_rate_def check_reported_length_def check_alias_def Let_def
  by (auto intro!: raises split: pyval.splits option.splits)

end
