(* ===== verification/Annotations_Log.thy ===== *)
theory Annotations_Log
  imports Journal_Log
begin

text \<open>
  \<open>bench/annotations.py\<close>: validity annotations of a finished run. An annotation is appended to
  the run's journal and says that a startup or a case must not count; a startup safety gate is a
  typed annotation with the measured value that broke a limit. The run directory is the text of
  its frozen plan and its journal file. \<open>json\<close> is the pair of parameters of the journal, and
  \<open>zone\<close> is what \<open>datetime.fromisoformat\<close> makes of a text: \<open>None\<close> when it raises, otherwise
  whether the time has a UTC offset.
\<close>

section \<open>Names\<close>

definition ANNOTATION_EVENT :: string where
  "ANNOTATION_EVENT = ''measurement_annotation''"
definition ANNOTATION_SCOPES :: "string set" where
  "ANNOTATION_SCOPES = {''startup'', ''case''}"
definition STARTUP_SAFETY_GATE_SCHEMA_VERSION :: int where
  "STARTUP_SAFETY_GATE_SCHEMA_VERSION = 2"

definition STARTUP_SAFETY_GATE_REGISTRY :: "(string \<times> string \<times> string) list" where
  "STARTUP_SAFETY_GATE_REGISTRY =
     [(''host_memavailable'', ''gib'', ''lt''), (''startup_swap_growth'', ''mib'', ''gt'')]"

definition safety_gate_maximum :: "string \<Rightarrow> real" where
  "safety_gate_maximum metric = 1024 * 1024"

definition safety_gate_fields :: "string set" where
  "safety_gate_fields = {''comparison'', ''limit'', ''metric'', ''observed'', ''unit''}"

definition gate_event_fields :: "string set" where
  "gate_event_fields = {''event'', ''measurement_valid'', ''safety_gate'', ''schema_version'',
     ''scope'', ''timestamp''}"

definition gate_annotation_fields :: "string set" where
  "gate_annotation_fields = {''measurement_valid'', ''safety_gate'', ''scope'', ''timestamp''}"

section \<open>Safety gates\<close>

definition bounded_number :: "pyval \<Rightarrow> real res" where
  "bounded_number v = (case v of
       PInt n \<Rightarrow> (case float_of_int n of Inr (FFin r) \<Rightarrow> Inr r | _ \<Rightarrow> Inl ValueError)
     | PFloat (FFin r) \<Rightarrow> Inr r
     | _ \<Rightarrow> Inl ValueError)"

definition gate_record :: "string \<Rightarrow> real \<Rightarrow> real \<Rightarrow> string \<Rightarrow> string \<Rightarrow> pydict" where
  "gate_record metric observed limit unit comparison = [
     (''metric'', PStr metric),
     (''observed'', PFloat (FFin observed)),
     (''limit'', PFloat (FFin limit)),
     (''unit'', PStr unit),
     (''comparison'', PStr comparison)]"

definition breached :: "string \<Rightarrow> real \<Rightarrow> real \<Rightarrow> bool" where
  "breached comparison observed limit =
     (if comparison = ''lt'' then observed < limit else observed > limit)"

definition normalize_startup_safety_gate :: "pyval \<Rightarrow> pydict res" where
  "normalize_startup_safety_gate v = (case v of PDict d \<Rightarrow>
     if dict_keys d \<noteq> safety_gate_fields then Inl ValueError else
     (case dict_get d ''metric'' of PStr metric \<Rightarrow>
     (case map_of STARTUP_SAFETY_GATE_REGISTRY metric of
        None \<Rightarrow> Inl ValueError
      | Some (expected_unit, expected_comparison) \<Rightarrow>
     if dict_get d ''unit'' \<noteq> PStr expected_unit
       \<or> dict_get d ''comparison'' \<noteq> PStr expected_comparison then Inl ValueError else
     andThen (bounded_number (dict_get d ''observed'')) (\<lambda>observed.
     andThen (bounded_number (dict_get d ''limit'')) (\<lambda>limit.
     if observed < 0 then Inl ValueError else
     if limit \<le> 0 then Inl ValueError else
     if observed > safety_gate_maximum metric \<or> limit > safety_gate_maximum metric
     then Inl ValueError else
     if \<not> breached expected_comparison observed limit then Inl ValueError else
     Inr (gate_record metric observed limit expected_unit expected_comparison))))
       | _ \<Rightarrow> Inl ValueError)
       | _ \<Rightarrow> Inl ValueError)"

definition startup_safety_gate_timestamp :: "(string \<Rightarrow> bool option) \<Rightarrow> pyval \<Rightarrow> string res" where
  "startup_safety_gate_timestamp zone v = (case v of
       PStr s \<Rightarrow> (if s = [] \<or> zone s \<noteq> Some True then Inl ValueError else Inr s)
     | _ \<Rightarrow> Inl ValueError)"

definition gate_annotation :: "string \<Rightarrow> pydict \<Rightarrow> pydict" where
  "gate_annotation timestamp gate = [
     (''timestamp'', PStr timestamp),
     (''scope'', PStr ''startup''),
     (''measurement_valid'', PBool False),
     (''safety_gate'', PDict gate)]"

definition startup_safety_gate_annotation :: "(string \<Rightarrow> bool option) \<Rightarrow> pydict \<Rightarrow> pydict res" where
  "startup_safety_gate_annotation zone event =
     (if dict_keys event \<noteq> gate_event_fields then Inl ValueError else
      if dict_get event ''event'' \<noteq> PStr ANNOTATION_EVENT
        \<or> dict_get event ''schema_version'' \<noteq> PInt STARTUP_SAFETY_GATE_SCHEMA_VERSION
        \<or> dict_get event ''scope'' \<noteq> PStr ''startup''
        \<or> dict_get event ''measurement_valid'' \<noteq> PBool False then Inl ValueError else
      andThen (startup_safety_gate_timestamp zone (dict_get event ''timestamp'')) (\<lambda>timestamp.
      andThen (normalize_startup_safety_gate (dict_get event ''safety_gate'')) (\<lambda>gate.
      Inr (gate_annotation timestamp gate))))"

text \<open>The typed annotations of a list, with the metrics seen so far.\<close>

definition typed_annotation ::
  "(string \<Rightarrow> bool option) \<Rightarrow> pydict list \<times> pyval list \<Rightarrow> pyval \<Rightarrow> (pydict list \<times> pyval list) res" where
  "typed_annotation zone st annotation = (case annotation of PDict a \<Rightarrow>
     if ''safety_gate'' \<notin> dict_keys a then Inr st else
     if dict_keys a \<noteq> gate_annotation_fields then Inl ValueError else
     if dict_get a ''scope'' \<noteq> PStr ''startup'' \<or> dict_get a ''measurement_valid'' \<noteq> PBool False
     then Inl ValueError else
     andThen (startup_safety_gate_timestamp zone (dict_get a ''timestamp'')) (\<lambda>timestamp.
     andThen (normalize_startup_safety_gate (dict_get a ''safety_gate'')) (\<lambda>gate.
     let metric = dict_get gate ''metric'' in
     if metric \<in> set (snd st) then Inl ValueError
     else Inr (fst st @ [gate_annotation timestamp gate], snd st @ [metric])))
       | _ \<Rightarrow> Inl ValueError)"

definition startup_safety_gate_annotations_from_annotations ::
  "(string \<Rightarrow> bool option) \<Rightarrow> pyval list \<Rightarrow> pydict list res" where
  "startup_safety_gate_annotations_from_annotations zone annotations =
     andThen (fold_res (typed_annotation zone) ([], []) annotations) (\<lambda>st. Inr (fst st))"

definition gate_of :: "pydict \<Rightarrow> pydict" where
  "gate_of annotation = (case dict_get annotation ''safety_gate'' of PDict g \<Rightarrow> g | _ \<Rightarrow> [])"

definition metric_of :: "pydict \<Rightarrow> string" where
  "metric_of gate = (case dict_get gate ''metric'' of PStr s \<Rightarrow> s | _ \<Rightarrow> [])"

definition startup_safety_gates_from_annotations ::
  "(string \<Rightarrow> bool option) \<Rightarrow> pyval list \<Rightarrow> pydict list res" where
  "startup_safety_gates_from_annotations zone annotations =
     andThen (startup_safety_gate_annotations_from_annotations zone annotations)
       (\<lambda>typed. Inr (sort_key metric_of (map gate_of typed)))"

section \<open>Reading the annotations of a journal\<close>

definition measurement_annotation :: "pydict \<Rightarrow> pydict" where
  "measurement_annotation event = [
     (''timestamp'', dict_get event ''timestamp''),
     (''scope'', dict_get event ''scope''),
     (''reason'', dict_get event ''reason''),
     (''evidence'', case dict_get event ''evidence'' of PList xs \<Rightarrow> PList xs | _ \<Rightarrow> PList []),
     (''measurement_valid'', PBool False)]
     @ (if dict_get event ''scope'' = PStr ''case'' then [(''case_id'', dict_get event ''case_id'')]
        else [])"

text \<open>One event: \<open>None\<close> for an event that is no annotation.\<close>

definition event_annotation :: "(string \<Rightarrow> bool option) \<Rightarrow> pydict \<Rightarrow> pydict option res" where
  "event_annotation zone event =
     (if dict_get event ''event'' \<noteq> PStr ANNOTATION_EVENT then Inr None
      else case (case map_of event ''schema_version'' of None \<Rightarrow> PInt 1 | Some v \<Rightarrow> v) of
        PInt schema_version \<Rightarrow>
          (if schema_version = STARTUP_SAFETY_GATE_SCHEMA_VERSION
           then andThen (startup_safety_gate_annotation zone event) (\<lambda>a. Inr (Some a))
           else if schema_version \<noteq> 1 then Inl ValueError
           else Inr (Some (measurement_annotation event)))
      | _ \<Rightarrow> Inl ValueError)"

definition measurement_annotations ::
  "(string \<Rightarrow> bool option) \<Rightarrow> pydict list \<Rightarrow> pydict list res" where
  "measurement_annotations zone events =
     andThen (traverse (event_annotation zone) events) (\<lambda>found.
     let annotations = List.map_filter id found in
     andThen (startup_safety_gates_from_annotations zone (map PDict annotations)) (\<lambda>_.
     Inr annotations))"

section \<open>Appending an annotation\<close>

text \<open>The plan file: missing, not readable, or its text.\<close>

datatype plan_file = Plan_missing | Plan_unreadable | Plan_text string

record run_dir =
  plan_of :: plan_file
  events_of :: "journal_file option"

definition planned_case_id :: "pyval \<Rightarrow> string option" where
  "planned_case_id item = (case item of
       PDict d \<Rightarrow> (case dict_get d ''case_id'' of PStr s \<Rightarrow> (if s = [] then None else Some s) | _ \<Rightarrow> None)
     | _ \<Rightarrow> None)"

definition frozen_case_ids :: "(string \<Rightarrow> pyval option) \<Rightarrow> plan_file \<Rightarrow> string set res" where
  "frozen_case_ids load plan = (case plan of
       Plan_missing \<Rightarrow> Inl ValueError
     | Plan_unreadable \<Rightarrow> Inl OSError
     | Plan_text t \<Rightarrow>
     (case load t of
        None \<Rightarrow> Inl ValueError
      | Some v \<Rightarrow>
     (case v of PDict p \<Rightarrow>
     (case (case dict_get p ''suite'' of PDict suite \<Rightarrow> dict_get suite ''cases'' | _ \<Rightarrow> PNone) of
        PList cases \<Rightarrow>
          (let case_ids = set (List.map_filter planned_case_id cases) in
           if card case_ids \<noteq> length cases then Inl ValueError else Inr case_ids)
      | _ \<Rightarrow> Inl ValueError)
      | _ \<Rightarrow> Inl ValueError)))"

definition is_file :: "journal_file option \<Rightarrow> bool" where
  "is_file fl \<longleftrightarrow> (case fl of None \<Rightarrow> False | Some f \<Rightarrow> is_regular f)"

text \<open>\<open>journal.append(event)\<close>, then \<open>journal.events()[-1]\<close>.\<close>

definition append_and_read_back ::
  "(pyval \<Rightarrow> string) \<Rightarrow> (string \<Rightarrow> pyval option) \<Rightarrow> (string \<Rightarrow> nat) \<Rightarrow> string \<Rightarrow> run_dir \<Rightarrow> pydict
     \<Rightarrow> run_dir \<times> pydict res" where
  "append_and_read_back dump load os_write now d event =
     (let (f, outcome) = journal_append dump os_write now (events_of d) event;
          d' = d\<lparr>events_of := Some f\<rparr>;
          records = journal_events load (Some f)
      in (d', andThen outcome (\<lambda>_. if records = [] then Inl IndexError else Inr (last records))))"

definition measurement_event :: "string \<Rightarrow> string \<Rightarrow> string list \<Rightarrow> string option \<Rightarrow> pydict" where
  "measurement_event scope reason evidence case_id = [
     (''event'', PStr ANNOTATION_EVENT),
     (''schema_version'', PInt 1),
     (''scope'', PStr scope),
     (''reason'', PStr reason),
     (''evidence'', PList (map PStr evidence)),
     (''measurement_valid'', PBool False)]
     @ (case case_id of None \<Rightarrow> [] | Some c \<Rightarrow> [(''case_id'', PStr c)])"

definition check_annotation_case :: "string \<Rightarrow> string option \<Rightarrow> string set \<Rightarrow> unit res" where
  "check_annotation_case scope case_id planned =
     (if scope = ''case'' then
        (case case_id of
           None \<Rightarrow> Inl ValueError
         | Some c \<Rightarrow> if c = [] \<or> c \<notin> planned then Inl ValueError else Inr ())
      else check (case_id = None) ValueError)"

text \<open>Everything \<open>append_measurement_annotation\<close> checks before it writes.\<close>

definition checked_annotation ::
  "(string \<Rightarrow> pyval option) \<Rightarrow> run_dir \<Rightarrow> string \<Rightarrow> string \<Rightarrow> string option \<Rightarrow> string list \<Rightarrow> unit res" where
  "checked_annotation load d scope reason case_id evidence =
     (if scope \<notin> ANNOTATION_SCOPES then Inl ValueError else
      if py_strip reason = [] then Inl ValueError else
      if list_ex (\<lambda>item. py_strip item = []) evidence then Inl ValueError else
      andThen (frozen_case_ids load (plan_of d)) (\<lambda>planned.
      andThen (check_annotation_case scope case_id planned) (\<lambda>_.
      check (is_file (events_of d)) ValueError)))"

definition append_measurement_annotation ::
  "(pyval \<Rightarrow> string) \<Rightarrow> (string \<Rightarrow> pyval option) \<Rightarrow> (string \<Rightarrow> nat) \<Rightarrow> string \<Rightarrow> run_dir
     \<Rightarrow> string \<Rightarrow> string \<Rightarrow> string option \<Rightarrow> string list \<Rightarrow> run_dir \<times> pydict res" where
  "append_measurement_annotation dump load os_write now d scope reason case_id evidence =
     (case checked_annotation load d scope reason case_id evidence of
        Inl e \<Rightarrow> (d, Inl e)
      | Inr _ \<Rightarrow> append_and_read_back dump load os_write now d
          (measurement_event scope (py_strip reason) (map py_strip evidence) case_id))"

definition gate_arguments :: "pyval \<Rightarrow> pyval \<Rightarrow> pyval \<Rightarrow> pyval \<Rightarrow> pyval \<Rightarrow> pyval" where
  "gate_arguments metric observed limit unit comparison = PDict [
     (''metric'', metric),
     (''observed'', observed),
     (''limit'', limit),
     (''unit'', unit),
     (''comparison'', comparison)]"

definition gate_event :: "pydict \<Rightarrow> pydict" where
  "gate_event safety_gate = [
     (''event'', PStr ANNOTATION_EVENT),
     (''schema_version'', PInt STARTUP_SAFETY_GATE_SCHEMA_VERSION),
     (''scope'', PStr ''startup''),
     (''measurement_valid'', PBool False),
     (''safety_gate'', PDict safety_gate)]"

text \<open>Everything \<open>append_startup_safety_gate\<close> checks before it writes; the normalized gate.\<close>

definition checked_gate ::
  "(string \<Rightarrow> pyval option) \<Rightarrow> (string \<Rightarrow> bool option) \<Rightarrow> run_dir \<Rightarrow> pyval \<Rightarrow> pydict res" where
  "checked_gate load zone d arguments =
     andThen (frozen_case_ids load (plan_of d)) (\<lambda>_.
     if \<not> is_file (events_of d) then Inl ValueError else
     andThen (normalize_startup_safety_gate arguments) (\<lambda>safety_gate.
     andThen (measurement_annotations zone (journal_events load (events_of d))) (\<lambda>annotations.
     andThen (startup_safety_gates_from_annotations zone (map PDict annotations)) (\<lambda>existing.
     if list_ex (\<lambda>gate. metric_of gate = metric_of safety_gate) existing then Inl ValueError
     else Inr safety_gate))))"

definition append_startup_safety_gate ::
  "(pyval \<Rightarrow> string) \<Rightarrow> (string \<Rightarrow> pyval option) \<Rightarrow> (string \<Rightarrow> nat) \<Rightarrow> (string \<Rightarrow> bool option)
     \<Rightarrow> string \<Rightarrow> run_dir \<Rightarrow> pyval \<Rightarrow> pyval \<Rightarrow> pyval \<Rightarrow> pyval \<Rightarrow> pyval \<Rightarrow> run_dir \<times> pydict res" where
  "append_startup_safety_gate dump load os_write zone now d metric observed limit unit comparison =
     (case checked_gate load zone d (gate_arguments metric observed limit unit comparison) of
        Inl e \<Rightarrow> (d, Inl e)
      | Inr safety_gate \<Rightarrow>
          append_and_read_back dump load os_write now d (gate_event safety_gate))"

end
