(* ===== verification/Annotations_Guarantees.thy ===== *)
theory Annotations_Guarantees
  imports Annotations_Log Mapping_Codec
begin

text \<open>
  What the annotation log establishes: a gate is a real breach of a known limit and is written
  in the form it is read, the journal stays readable through every history of appends, failed
  writes included, and a metric is never recorded twice by one writer.
\<close>

section \<open>Gates\<close>

text \<open>A gate of the registry whose numbers are in range and break the limit.\<close>

definition valid_gate :: "pydict \<Rightarrow> bool" where
  "valid_gate g \<longleftrightarrow> (\<exists>observed limit.
     0 \<le> observed \<and> observed \<le> 2 ^ 20 \<and> 0 < limit \<and> limit \<le> 2 ^ 20 \<and>
     (observed < limit \<and> g = gate_record ''host_memavailable'' observed limit ''gib'' ''lt'' \<or>
      limit < observed \<and> g = gate_record ''startup_swap_growth'' observed limit ''mib'' ''gt''))"

lemma valid_memory_gate:
  "0 \<le> observed \<Longrightarrow> observed < limit \<Longrightarrow> limit \<le> 2 ^ 20 \<Longrightarrow>
     valid_gate (gate_record ''host_memavailable'' observed limit ''gib'' ''lt'')"
  unfolding valid_gate_def by (intro exI [of _ observed] exI [of _ limit]) simp

lemma valid_swap_gate:
  "0 < limit \<Longrightarrow> limit < observed \<Longrightarrow> observed \<le> 2 ^ 20 \<Longrightarrow>
     valid_gate (gate_record ''startup_swap_growth'' observed limit ''mib'' ''gt'')"
  unfolding valid_gate_def by (intro exI [of _ observed] exI [of _ limit]) simp

lemma registry_cases:
  "map_of STARTUP_SAFETY_GATE_REGISTRY metric = Some (unit, comparison) \<longleftrightarrow>
     (metric, unit, comparison) \<in>
       {(''host_memavailable'', ''gib'', ''lt''), (''startup_swap_growth'', ''mib'', ''gt'')}"
  by (auto simp: STARTUP_SAFETY_GATE_REGISTRY_def)

lemma normalize_cases:
  assumes "normalize_startup_safety_gate v = Inr g"
  obtains d metric unit comparison observed limit where "v = PDict d" "dict_keys d = safety_gate_fields"
    "dict_get d ''metric'' = PStr metric" "dict_get d ''unit'' = PStr unit"
    "dict_get d ''comparison'' = PStr comparison"
    "map_of STARTUP_SAFETY_GATE_REGISTRY metric = Some (unit, comparison)"
    "bounded_number (dict_get d ''observed'') = Inr observed"
    "bounded_number (dict_get d ''limit'') = Inr limit"
    "0 \<le> observed" "0 < limit" "observed \<le> 2 ^ 20" "limit \<le> 2 ^ 20"
    "breached comparison observed limit" "g = gate_record metric observed limit unit comparison"
  using assms
  unfolding normalize_startup_safety_gate_def object_Inr text_Inr guard_eq_Inr
  by (auto simp: andThen_eq_Inr safety_gate_maximum_def not_le not_less split: option.split_asm)

lemma normalize_valid: "normalize_startup_safety_gate v = Inr g \<Longrightarrow> valid_gate g"
  by (erule normalize_cases)
    (auto simp: registry_cases breached_def intro: valid_memory_gate valid_swap_gate)

lemma normalize_gate: "valid_gate g \<Longrightarrow> normalize_startup_safety_gate (PDict g) = Inr g"
  by (auto simp: valid_gate_def normalize_startup_safety_gate_def gate_record_def
      safety_gate_fields_def STARTUP_SAFETY_GATE_REGISTRY_def bounded_number_def breached_def
      safety_gate_maximum_def)

interpretation gate_codec: mapping_codec PDict normalize_startup_safety_gate valid_gate
  by unfold_locales (fact normalize_valid, fact normalize_gate)

lemma valid_gate_metric:
  assumes "valid_gate g"
  shows "dict_get g ''metric'' = PStr (metric_of g)"
    and "metric_of g \<in> {''host_memavailable'', ''startup_swap_growth''}"
  using assms by (auto simp: valid_gate_def gate_record_def metric_of_def)

section \<open>Records of the journal, after a write that may be cut short\<close>

text \<open>
  What an append needs of the codec: the record is read back, and no proper prefix of its text
  is a record.
\<close>

definition record_ok :: "(pyval \<Rightarrow> string) \<Rightarrow> (string \<Rightarrow> pyval option) \<Rightarrow> pydict \<Rightarrow> bool" where
  "record_ok dump load entry \<longleftrightarrow> codec_ok dump load entry \<and>
     (\<forall>k < length (dump (PDict entry)). line_event load (take k (dump (PDict entry))) = None)"

lemma record_prefix:
  assumes "record_ok dump load entry"
  shows "text_records load (take k (dump (PDict entry) @ [LF]))
    = (if k < length (dump (PDict entry)) then [] else [entry])"
proof -
  let ?t = "dump (PDict entry)"
  have t: "set ?t \<inter> text_breaks = {}" "load [] = None" "line_event load ?t = Some entry"
    using assms by (auto simp: record_ok_def codec_ok_def line_event_def)
  show ?thesis
  proof (cases "k \<le> length ?t")
    case True
    have "set (take k ?t) \<inter> text_breaks = {}" using t(1) set_take_subset [of k ?t] by blast
    then have "splitlines (take k ?t) = (if take k ?t = [] then [] else [take k ?t])"
      using lines_acc_no_break [of "take k ?t" text_breaks "[]"] by (simp add: splitlines_def)
    moreover have "k < length ?t \<Longrightarrow> line_event load (take k ?t) = None"
      using assms by (simp add: record_ok_def)
    moreover have "?t \<noteq> []" using t(2,3) by (auto simp: line_event_def)
    ultimately show ?thesis
      using True t(3) by (auto simp: text_records_def List.map_filter_def)
  next
    case False
    then show ?thesis using t by (simp add: text_records_line)
  qed
qed

lemma append_records:
  assumes "journal_append dump os_write now (Some f) event = (f', outcome)"
    and "record_ok dump load (stamped now event)"
  shows "journal_events load (Some f') \<in> {journal_events load (Some f),
      journal_events load (Some f) @ [stamped now event]}"
    and "outcome = Inr () \<Longrightarrow>
      journal_events load (Some f') = journal_events load (Some f) @ [stamped now event]"
    and "outcome = Inr () \<or> outcome = Inl OSError"
proof -
  let ?entry = "stamped now event" and ?body = "content f"
  let ?sep = "if needs_separator ?body then [LF] else []"
  have codec: "codec_ok dump load ?entry" and load: "load [] = None"
    using assms(2) by (simp_all add: record_ok_def codec_ok_def)
  show "outcome = Inr () \<Longrightarrow>
      journal_events load (Some f') = journal_events load (Some f) @ [?entry]"
    using journal_append_records [of dump os_write now f event f' load] assms(1) codec by blast
  show "outcome = Inr () \<or> outcome = Inl OSError"
    using journal_append_keeps [OF assms(1) codec] by blast
  show "journal_events load (Some f') \<in> {journal_events load (Some f),
      journal_events load (Some f) @ [?entry]}"
  proof (cases "safe_file f")
    case True
    with journal_append_cases [OF assms(1)] obtain k
      where k: "content f' = ?body @ take k (append_payload dump ?body ?entry)"
      by (auto split: if_splits)
    show ?thesis
    proof (cases "k < length ?sep")
      case True
      then show ?thesis
        using k by (auto simp: append_payload_def journal_events_file split: if_splits)
    next
      case False
      then have "content f' = (?body @ ?sep) @ take (k - length ?sep) (dump (PDict ?entry) @ [LF])"
        using k by (simp add: append_payload_def)
      then have "journal_events load (Some f') = text_records load ?body
          @ text_records load (take (k - length ?sep) (dump (PDict ?entry) @ [LF]))"
        using text_records_append_line [of load ?body, OF load] by (simp add: journal_events_file)
      then show ?thesis unfolding record_prefix [OF assms(2)] by (simp add: journal_events_file)
    qed
  next
    case False
    with assms(1) show ?thesis by (auto simp: journal_append_def Let_def)
  qed
qed

section \<open>Reading what was appended\<close>

definition aware :: "(string \<Rightarrow> bool option) \<Rightarrow> string \<Rightarrow> bool" where
  "aware zone now \<longleftrightarrow> now \<noteq> [] \<and> zone now = Some True"

lemma gate_event_read:
  assumes "valid_gate g" and "aware zone now"
  shows "event_annotation zone (stamped now (gate_event g)) = Inr (Some (gate_annotation now g))"
  using assms normalize_gate [OF assms(1)]
  by (auto simp: event_annotation_def stamped_def gate_event_def ANNOTATION_EVENT_def
      STARTUP_SAFETY_GATE_SCHEMA_VERSION_def startup_safety_gate_annotation_def
      gate_event_fields_def startup_safety_gate_timestamp_def aware_def)

lemma measurement_event_read:
  "event_annotation zone (stamped now (measurement_event scope reason evidence case_id))
     = Inr (Some (measurement_annotation (stamped now
         (measurement_event scope reason evidence case_id))))"
  by (cases case_id) (simp_all add: event_annotation_def stamped_def measurement_event_def
      ANNOTATION_EVENT_def STARTUP_SAFETY_GATE_SCHEMA_VERSION_def)

lemma untyped_annotation:
  "typed_annotation zone st (PDict (measurement_annotation event)) = Inr st"
  by (simp add: typed_annotation_def measurement_annotation_def)

lemma gate_annotation_typed:
  assumes "valid_gate g" and "aware zone now"
  shows "typed_annotation zone st (PDict (gate_annotation now g))
    = (if dict_get g ''metric'' \<in> set (snd st) then Inl ValueError
       else Inr (fst st @ [gate_annotation now g], snd st @ [dict_get g ''metric'']))"
  using assms normalize_gate [OF assms(1)]
  by (auto simp: typed_annotation_def gate_annotation_def gate_annotation_fields_def
      startup_safety_gate_timestamp_def aware_def)

lemma gate_of_annotation [simp]: "gate_of (gate_annotation t g) = g"
  by (simp add: gate_of_def gate_annotation_def)

text \<open>The state of the loop: the typed annotations so far, and their metrics, all different.\<close>

definition typed_ok :: "pydict list \<times> pyval list \<Rightarrow> bool" where
  "typed_ok st \<longleftrightarrow> snd st = map (\<lambda>a. dict_get (gate_of a) ''metric'') (fst st) \<and>
     distinct (snd st) \<and> list_all (\<lambda>a. valid_gate (gate_of a)) (fst st)"

lemma typed_annotation_ok:
  assumes "typed_annotation zone st a = Inr st'" and "typed_ok st"
  shows "typed_ok st'"
  using assms normalize_valid
  unfolding typed_annotation_def object_Inr
  by (auto simp: andThen_eq_Inr Let_def typed_ok_def split: if_splits)

lemma typed_fold_ok:
  "fold_res (typed_annotation zone) ([], []) as = Inr st \<Longrightarrow> typed_ok st"
  by (erule fold_res_inv) (simp add: typed_ok_def, rule typed_annotation_ok)

text \<open>A journal that can be read: its annotations and the typed ones among them.\<close>

definition log_reads ::
  "(string \<Rightarrow> bool option) \<Rightarrow> pydict list \<Rightarrow> pydict list \<Rightarrow> pydict list \<times> pyval list \<Rightarrow> bool" where
  "log_reads zone records annotations st \<longleftrightarrow>
     (\<exists>found. traverse (event_annotation zone) records = Inr found \<and>
        annotations = List.map_filter id found) \<and>
     fold_res (typed_annotation zone) ([], []) (map PDict annotations) = Inr st"

lemma annotations_read:
  "measurement_annotations zone records = Inr annotations \<longleftrightarrow>
     (\<exists>st. log_reads zone records annotations st)"
  by (auto simp: measurement_annotations_def log_reads_def andThen_eq_Inr Let_def
      startup_safety_gates_from_annotations_def
      startup_safety_gate_annotations_from_annotations_def)

lemma gates_read:
  "log_reads zone records annotations st \<Longrightarrow>
     startup_safety_gates_from_annotations zone (map PDict annotations)
       = Inr (sort_key metric_of (map gate_of (fst st)))"
  by (auto simp: log_reads_def startup_safety_gates_from_annotations_def
      startup_safety_gate_annotations_from_annotations_def)

lemma log_reads_snoc:
  assumes "log_reads zone records annotations st" and "event_annotation zone e = Inr (Some a)"
    and "typed_annotation zone st (PDict a) = Inr st'"
  shows "log_reads zone (records @ [e]) (annotations @ [a]) st'"
proof -
  from assms(1) obtain found where "traverse (event_annotation zone) records = Inr found"
    "annotations = List.map_filter id found"
    "fold_res (typed_annotation zone) ([], []) (map PDict annotations) = Inr st"
    by (auto simp: log_reads_def)
  with assms(2,3) show ?thesis
    by (auto simp: log_reads_def traverse_append fold_res_append List.map_filter_def)
qed

text \<open>The metrics a readable log holds: different ones of the registry, so at most two.\<close>

lemma typed_metrics:
  assumes "typed_ok st"
  shows "snd st = map (PStr \<circ> metric_of \<circ> gate_of) (fst st)"
    and "distinct (map (metric_of \<circ> gate_of) (fst st))"
    and "set (map (metric_of \<circ> gate_of) (fst st)) \<subseteq> {''host_memavailable'', ''startup_swap_growth''}"
proof -
  show snd: "snd st = map (PStr \<circ> metric_of \<circ> gate_of) (fst st)"
    using assms by (auto simp: typed_ok_def list_all_iff valid_gate_metric(1))
  have "distinct (snd st)" using assms unfolding typed_ok_def by blast
  then have "distinct (map PStr (map (metric_of \<circ> gate_of) (fst st)))"
    by (simp only: snd map_map comp_assoc)
  then show "distinct (map (metric_of \<circ> gate_of) (fst st))" unfolding distinct_map by blast
  show "set (map (metric_of \<circ> gate_of) (fst st)) \<subseteq> {''host_memavailable'', ''startup_swap_growth''}"
    using assms valid_gate_metric(2) by (fastforce simp: typed_ok_def list_all_iff)
qed

section \<open>Appending\<close>

lemma append_and_read_back_cases:
  assumes "append_and_read_back dump load os_write now d event = (d', outcome)"
    and "events_of d = Some f" and "record_ok dump load (stamped now event)"
  obtains f' where "d' = d\<lparr>events_of := Some f'\<rparr>"
    "journal_events load (Some f') \<in> {journal_events load (Some f),
       journal_events load (Some f) @ [stamped now event]}"
    "outcome \<noteq> Inl OSError \<Longrightarrow> outcome = Inr (stamped now event) \<and>
       journal_events load (Some f') = journal_events load (Some f) @ [stamped now event]"
proof -
  obtain f' res where app: "journal_append dump os_write now (Some f) event = (f', res)"
    by fastforce
  note records = append_records [OF app assms(3)]
  have dir: "d' = d\<lparr>events_of := Some f'\<rparr>"
    and out: "outcome = andThen res (\<lambda>_. if journal_events load (Some f') = [] then Inl IndexError
      else Inr (last (journal_events load (Some f'))))"
    using assms(1,2) app by (simp_all add: append_and_read_back_def Let_def)
  have "outcome = Inr (stamped now event)" if "outcome \<noteq> Inl OSError"
  proof -
    have "res = Inr ()" using records(3) that out by auto
    then show ?thesis using records(2) out by simp
  qed
  moreover have "res = Inr ()" if "outcome \<noteq> Inl OSError"
    using records(3) that out by auto
  ultimately show thesis
    using that [OF dir records(1)] records(2) by blast
qed

lemma is_file_Some: "is_file fl \<Longrightarrow> \<exists>f. fl = Some f"
  by (auto simp: is_file_def split: option.splits)

lemma checked_annotation_Inr:
  assumes "checked_annotation load d scope reason case_id evidence = Inr u"
  obtains f planned where "events_of d = Some f" "scope \<in> ANNOTATION_SCOPES"
    "py_strip reason \<noteq> []" "frozen_case_ids load (plan_of d) = Inr planned"
    "if scope = ''case'' then \<exists>c \<in> planned. case_id = Some c else case_id = None"
proof -
  from assms obtain planned where planned: "frozen_case_ids load (plan_of d) = Inr planned"
    and case_ok: "check_annotation_case scope case_id planned = Inr ()"
    and present: "is_file (events_of d)" and "scope \<in> ANNOTATION_SCOPES" "py_strip reason \<noteq> []"
    by (auto simp: checked_annotation_def andThen_eq_Inr split: if_splits)
  moreover from present obtain f where "events_of d = Some f" using is_file_Some by blast
  moreover have "if scope = ''case'' then \<exists>c \<in> planned. case_id = Some c else case_id = None"
    using case_ok by (auto simp: check_annotation_case_def split: option.splits if_splits)
  ultimately show thesis using that by blast
qed

lemma checked_gate_Inr:
  assumes "checked_gate load zone d arguments = Inr g"
  obtains f annotations st where "events_of d = Some f"
    "normalize_startup_safety_gate arguments = Inr g"
    "log_reads zone (journal_events load (Some f)) annotations st"
    "dict_get g ''metric'' \<notin> set (snd st)"
proof -
  from assms obtain annotations existing where present: "is_file (events_of d)"
    and g: "normalize_startup_safety_gate arguments = Inr g"
    and as: "measurement_annotations zone (journal_events load (events_of d)) = Inr annotations"
    and existing: "startup_safety_gates_from_annotations zone (map PDict annotations) = Inr existing"
    and new: "\<not> list_ex (\<lambda>gate. metric_of gate = metric_of g) existing"
    by (auto simp: checked_gate_def andThen_eq_Inr split: if_splits)
  from present obtain f where f: "events_of d = Some f" using is_file_Some by blast
  from as f obtain st where log: "log_reads zone (journal_events load (Some f)) annotations st"
    by (auto simp: annotations_read)
  have "typed_ok st" using log by (auto simp: log_reads_def intro: typed_fold_ok)
  moreover have "existing = sort_key metric_of (map gate_of (fst st))"
    using existing gates_read [OF log] by simp
  ultimately have "dict_get g ''metric'' \<notin> set (snd st)"
    using new typed_metrics(1) [of st] valid_gate_metric(1) [OF normalize_valid [OF g]]
    by (auto simp: list_ex_iff)
  then show thesis using that f g log by blast
qed

section \<open>Histories of a run directory\<close>

abbreviation records_of :: "(string \<Rightarrow> pyval option) \<Rightarrow> run_dir \<Rightarrow> pydict list" where
  "records_of load d \<equiv> journal_events load (events_of d)"

text \<open>
  One step: a call that appends an annotation or a gate, whatever it returns and however much of
  the record reaches the file, or an append of some other event by the benchmark.
\<close>

inductive annotation_step ::
  "(pyval \<Rightarrow> string) \<Rightarrow> (string \<Rightarrow> pyval option) \<Rightarrow> (string \<Rightarrow> bool option) \<Rightarrow> run_dir \<Rightarrow> run_dir \<Rightarrow> bool"
  for dump load zone where
  annotate: "append_measurement_annotation dump load os_write now d scope reason case_id evidence
      = (d', outcome) \<Longrightarrow>
    record_ok dump load (stamped now
      (measurement_event scope (py_strip reason) (map py_strip evidence) case_id)) \<Longrightarrow>
    annotation_step dump load zone d d'"
| gate: "append_startup_safety_gate dump load os_write zone now d metric observed limit unit comparison
      = (d', outcome) \<Longrightarrow> aware zone now \<Longrightarrow>
    \<forall>g. normalize_startup_safety_gate (gate_arguments metric observed limit unit comparison) = Inr g
      \<longrightarrow> record_ok dump load (stamped now (gate_event g)) \<Longrightarrow>
    annotation_step dump load zone d d'"
| other: "events_of d = Some f \<Longrightarrow> journal_append dump os_write now (Some f) event = (f', outcome) \<Longrightarrow>
    record_ok dump load (stamped now event) \<Longrightarrow>
    dict_get (stamped now event) ''event'' \<noteq> PStr ANNOTATION_EVENT \<Longrightarrow>
    annotation_step dump load zone d (d\<lparr>events_of := Some f'\<rparr>)"

lemma log_reads_unique:
  "log_reads zone records as st \<Longrightarrow> log_reads zone records bs st' \<Longrightarrow> as = bs \<and> st = st'"
  by (auto simp: log_reads_def)

lemma log_reads_other:
  assumes "log_reads zone records annotations st" and "event_annotation zone e = Inr None"
  shows "log_reads zone (records @ [e]) annotations st"
  using assms by (auto simp: log_reads_def traverse_append List.map_filter_def)

lemma gate_written:
  assumes "append_startup_safety_gate dump load os_write zone now d metric observed limit unit comparison
      = (d', outcome)"
    and "log_reads zone (records_of load d) annotations st" and "aware zone now"
    and "\<forall>g. normalize_startup_safety_gate (gate_arguments metric observed limit unit comparison) = Inr g
      \<longrightarrow> record_ok dump load (stamped now (gate_event g))"
  obtains (unchanged) e where "d' = d" "outcome = Inl e"
  | (cut) f' where "d' = d\<lparr>events_of := Some f'\<rparr>" "records_of load d' = records_of load d"
      "outcome = Inl OSError"
  | (added) f' g where "d' = d\<lparr>events_of := Some f'\<rparr>"
      "normalize_startup_safety_gate (gate_arguments metric observed limit unit comparison) = Inr g"
      "records_of load d' = records_of load d @ [stamped now (gate_event g)]"
      "outcome \<in> {Inl OSError, Inr (stamped now (gate_event g))}"
      "dict_get g ''metric'' \<notin> set (snd st)"
      "log_reads zone (records_of load d') (annotations @ [gate_annotation now g])
         (fst st @ [gate_annotation now g], snd st @ [dict_get g ''metric''])"
proof (cases "checked_gate load zone d (gate_arguments metric observed limit unit comparison)")
  case (Inl e)
  with assms(1) have "d' = d" "outcome = Inl e" by (simp_all add: append_startup_safety_gate_def)
  then show thesis by (rule unchanged)
next
  case (Inr g)
  then obtain f annotations' st' where f: "events_of d = Some f"
    and g: "normalize_startup_safety_gate (gate_arguments metric observed limit unit comparison) = Inr g"
    and log: "log_reads zone (journal_events load (Some f)) annotations' st'"
    and new: "dict_get g ''metric'' \<notin> set (snd st')"
    by (rule checked_gate_Inr)
  have "annotations' = annotations" "st' = st"
    using log_reads_unique [OF log] assms(2) f by auto
  have app: "append_and_read_back dump load os_write now d (gate_event g) = (d', outcome)"
    using assms(1) Inr by (simp add: append_startup_safety_gate_def)
  obtain f' where d': "d' = d\<lparr>events_of := Some f'\<rparr>"
    and recs: "journal_events load (Some f') \<in> {journal_events load (Some f),
       journal_events load (Some f) @ [stamped now (gate_event g)]}"
    and out: "outcome \<noteq> Inl OSError \<Longrightarrow> outcome = Inr (stamped now (gate_event g)) \<and>
       journal_events load (Some f') = journal_events load (Some f) @ [stamped now (gate_event g)]"
    using append_and_read_back_cases [OF app f assms(4) [rule_format, OF g]] by metis
  show thesis
  proof (cases "journal_events load (Some f') = journal_events load (Some f) @ [stamped now (gate_event g)]")
    case True
    have "typed_annotation zone st (PDict (gate_annotation now g))
        = Inr (fst st @ [gate_annotation now g], snd st @ [dict_get g ''metric''])"
      using gate_annotation_typed [OF normalize_valid [OF g] assms(3)] new \<open>st' = st\<close> by simp
    then have "log_reads zone (records_of load d') (annotations @ [gate_annotation now g])
         (fst st @ [gate_annotation now g], snd st @ [dict_get g ''metric''])"
      using log_reads_snoc [OF assms(2) gate_event_read [OF normalize_valid [OF g] assms(3)]]
        True d' f by simp
    then show thesis using added [of f' g] d' g True f out new \<open>st' = st\<close> by auto
  next
    case False
    then show thesis using cut [of f'] d' recs f out by auto
  qed
qed

lemma measurement_written:
  assumes "append_measurement_annotation dump load os_write now d scope reason case_id evidence
      = (d', outcome)"
    and "record_ok dump load (stamped now
      (measurement_event scope (py_strip reason) (map py_strip evidence) case_id))"
  shows "records_of load d' \<in> {records_of load d, records_of load d @ [stamped now
    (measurement_event scope (py_strip reason) (map py_strip evidence) case_id)]}"
proof (cases "checked_annotation load d scope reason case_id evidence")
  case (Inl e)
  with assms(1) show ?thesis by (simp add: append_measurement_annotation_def)
next
  case (Inr u)
  then obtain f where f: "events_of d = Some f" by (rule checked_annotation_Inr)
  have "append_and_read_back dump load os_write now d
      (measurement_event scope (py_strip reason) (map py_strip evidence) case_id) = (d', outcome)"
    using assms(1) Inr by (simp add: append_measurement_annotation_def)
  then show ?thesis
    by (rule append_and_read_back_cases [OF _ f assms(2)]) (use f in auto)
qed

lemma step_reads:
  assumes "annotation_step dump load zone d d'" and "log_reads zone (records_of load d) annotations st"
  shows "\<exists>more st'. log_reads zone (records_of load d') (annotations @ more) st' \<and>
    set (snd st) \<subseteq> set (snd st')"
  using assms
proof cases
  case (annotate os_write now scope reason case_id evidence outcome)
  let ?e = "stamped now (measurement_event scope (py_strip reason) (map py_strip evidence) case_id)"
  from measurement_written [OF annotate] consider "records_of load d' = records_of load d"
    | "records_of load d' = records_of load d @ [?e]" by blast
  then show ?thesis
  proof cases
    case 1
    then show ?thesis using assms(2) by (intro exI [of _ "[]"] exI [of _ st]) simp
  next
    case 2
    then show ?thesis
      using log_reads_snoc [OF assms(2) measurement_event_read untyped_annotation]
      by (intro exI exI [of _ st]) auto
  qed
next
  case (gate os_write now metric observed limit unit comparison outcome)
  from gate(1) assms(2) gate(2,3) show ?thesis
  proof (cases rule: gate_written)
    case (unchanged e)
    then show ?thesis using assms(2) by (intro exI [of _ "[]"] exI [of _ st]) simp
  next
    case (cut f')
    then show ?thesis using assms(2) by (intro exI [of _ "[]"] exI [of _ st]) simp
  next
    case (added f' g)
    then show ?thesis by (intro exI conjI) auto
  qed
next
  case (other f os_write now event f' outcome)
  have "event_annotation zone (stamped now event) = Inr None"
    using other(5) by (simp add: event_annotation_def)
  then show ?thesis
    using append_records(1) [OF other(3,4)] log_reads_other [OF assms(2)] assms(2) other(1,2)
    by (intro exI [of _ "[]"] exI [of _ st]) auto
qed

lemma history_reads:
  assumes "(annotation_step dump load zone)\<^sup>*\<^sup>* d d'"
    and "log_reads zone (records_of load d) annotations st"
  shows "\<exists>more st'. log_reads zone (records_of load d') (annotations @ more) st' \<and>
    set (snd st) \<subseteq> set (snd st')"
  using assms
proof (induction rule: rtranclp_induct)
  case base
  then show ?case by (intro exI [of _ "[]"] exI [of _ st]) simp
next
  case (step b c)
  then obtain more st' where "log_reads zone (records_of load b) (annotations @ more) st'"
    and sub: "set (snd st) \<subseteq> set (snd st')" by blast
  from step_reads [OF step.hyps(2) this(1)] obtain more' st'' where
    "log_reads zone (records_of load c) ((annotations @ more) @ more') st''"
    "set (snd st') \<subseteq> set (snd st'')" by blast
  with sub show ?case by (intro exI [of _ "more @ more'"] exI [of _ st'']) auto
qed

section \<open>Properties\<close>

text \<open>
  Normalization accepts exactly the true breaches: a value is accepted when it is an object
  with the five fields, a metric of the registry with its unit and comparison, and two finite
  numbers in range of which the observed one breaks the limit; the result says the same with
  the numbers as floats, and is accepted again unchanged.
\<close>

theorem startup_gate_is_true_breach:
  assumes "normalize_startup_safety_gate v = Inr g"
  shows "valid_gate g \<and> normalize_startup_safety_gate (PDict g) = Inr g \<and>
    (\<exists>d observed limit. v = PDict d \<and> dict_keys d = safety_gate_fields \<and>
       bounded_number (dict_get d ''observed'') = Inr observed \<and>
       bounded_number (dict_get d ''limit'') = Inr limit \<and>
       (dict_get d ''metric'' = PStr ''host_memavailable'' \<and> observed < limit \<or>
        dict_get d ''metric'' = PStr ''startup_swap_growth'' \<and> limit < observed) \<and>
       dict_get g ''observed'' = PFloat (FFin observed) \<and>
       dict_get g ''limit'' = PFloat (FFin limit) \<and>
       dict_get g ''metric'' = dict_get d ''metric'')"
proof -
  from assms have "\<exists>d observed limit. v = PDict d \<and> dict_keys d = safety_gate_fields \<and>
       bounded_number (dict_get d ''observed'') = Inr observed \<and>
       bounded_number (dict_get d ''limit'') = Inr limit \<and>
       (dict_get d ''metric'' = PStr ''host_memavailable'' \<and> observed < limit \<or>
        dict_get d ''metric'' = PStr ''startup_swap_growth'' \<and> limit < observed) \<and>
       dict_get g ''observed'' = PFloat (FFin observed) \<and>
       dict_get g ''limit'' = PFloat (FFin limit) \<and>
       dict_get g ''metric'' = dict_get d ''metric''"
  proof (cases rule: normalize_cases)
    case (1 d metric unit comparison observed limit)
    then show ?thesis
      by (intro exI [of _ d] exI [of _ observed] exI [of _ limit])
        (auto simp: registry_cases breached_def gate_record_def)
  qed
  then show ?thesis
    using normalize_valid [OF assms] gate_codec.reparse [OF assms] by blast
qed

definition example_gate :: pydict where
  "example_gate = gate_record ''host_memavailable'' 3 8 ''gib'' ''lt''"

lemma example_gate_valid: "valid_gate example_gate"
  unfolding example_gate_def by (rule valid_memory_gate) simp_all

lemma example_gate_arguments:
  "normalize_startup_safety_gate (gate_arguments (PStr ''host_memavailable'') (PFloat (FFin 3))
     (PFloat (FFin 8)) (PStr ''gib'') (PStr ''lt'')) = Inr example_gate"
  using normalize_gate [OF example_gate_valid]
  by (simp add: example_gate_def gate_arguments_def gate_record_def)

theorem startup_gate_is_true_breach_witness:
  "valid_gate example_gate \<and> normalize_startup_safety_gate (PDict example_gate) = Inr example_gate"
  using startup_gate_is_true_breach [OF example_gate_arguments] by blast

text \<open>
  C39. The log stays readable: after any history of appends of annotations, gates and other
  events, completed, refused or cut short by a failing write, a log that could be read can still
  be read, the annotations it had are still there in order, and its gates are true breaches of
  different metrics, so at most two.
\<close>

theorem annotation_log_stays_readable:
  assumes "(annotation_step dump load zone)\<^sup>*\<^sup>* d d'"
    and "measurement_annotations zone (records_of load d) = Inr annotations"
  shows "\<exists>more gates. measurement_annotations zone (records_of load d') = Inr (annotations @ more) \<and>
    startup_safety_gates_from_annotations zone (map PDict (annotations @ more)) = Inr gates \<and>
    list_all valid_gate gates \<and> distinct (map metric_of gates) \<and> length gates \<le> 2"
proof -
  from assms(2) obtain st where "log_reads zone (records_of load d) annotations st"
    by (auto simp: annotations_read)
  from history_reads [OF assms(1) this] obtain more st' where
    log: "log_reads zone (records_of load d') (annotations @ more) st'" by blast
  define gates where "gates = sort_key metric_of (map gate_of (fst st'))"
  have ok: "typed_ok st'" using log by (auto simp: log_reads_def intro: typed_fold_ok)
  have "distinct (map metric_of (map gate_of (fst st')))"
    using typed_metrics(2) [OF ok] by (simp only: map_map)
  then have "distinct (map metric_of gates)"
    by (simp only: gates_def distinct_map distinct_sort set_sort)
  moreover have "set (map metric_of gates) \<subseteq> {''host_memavailable'', ''startup_swap_growth''}"
    using typed_metrics(3) [OF ok] by (auto simp: gates_def)
  then have "card (set (map metric_of gates)) \<le> card {''host_memavailable'', ''startup_swap_growth''}"
    by (rule card_mono [rotated]) simp
  moreover have "card {''host_memavailable'', ''startup_swap_growth''} = 2" by simp
  ultimately have "length gates \<le> 2"
    using distinct_card [of "map metric_of gates"] by simp
  moreover have "list_all valid_gate gates"
    using ok by (auto simp: typed_ok_def gates_def list_all_iff)
  moreover have "measurement_annotations zone (records_of load d') = Inr (annotations @ more)"
    unfolding annotations_read using log by blast
  ultimately show ?thesis
    using gates_read [OF log] \<open>distinct (map metric_of gates)\<close> unfolding gates_def by blast
qed

text \<open>The witness: a journal that holds a torn line, and a gate appended one byte at a time.\<close>

definition example_note_dump :: "pyval \<Rightarrow> string" where
  "example_note_dump v = ''r''"

definition example_note_load :: "string \<Rightarrow> pyval option" where
  "example_note_load s =
     (if s = ''r'' then Some (PDict (stamped ''t'' (gate_event example_gate)))
      else if s = ''p'' then Some (PDict [(''suite'', PDict [(''cases'', PList [])])])
      else None)"

definition example_zone :: "string \<Rightarrow> bool option" where
  "example_zone s = Some True"

definition example_dir :: run_dir where
  "example_dir = \<lparr>plan_of = Plan_text ''p'', events_of = Some (new_file\<lparr>content := ''to''\<rparr>)\<rparr>"

definition example_gate_append :: "run_dir \<times> pydict res" where
  "example_gate_append = append_startup_safety_gate example_note_dump example_note_load (\<lambda>_. 1)
     example_zone ''t'' example_dir (PStr ''host_memavailable'') (PFloat (FFin 3))
     (PFloat (FFin 8)) (PStr ''gib'') (PStr ''lt'')"

lemma example_record_ok:
  "record_ok example_note_dump example_note_load (stamped ''t'' (gate_event example_gate))"
  by (simp add: record_ok_def codec_ok_def example_note_dump_def example_note_load_def
      text_breaks_def LF_def CR_def line_event_def)

lemma example_records: "records_of example_note_load example_dir = []"
  by (simp add: example_dir_def journal_events_def splitlines_def line_event_def
      example_note_load_def text_breaks_def LF_def CR_def List.map_filter_def)

lemma nothing_read: "measurement_annotations zone [] = Inr []"
  by (simp add: measurement_annotations_def List.map_filter_def
      startup_safety_gates_from_annotations_def
      startup_safety_gate_annotations_from_annotations_def)

lemma example_checked:
  "checked_gate example_note_load example_zone example_dir (gate_arguments (PStr ''host_memavailable'')
     (PFloat (FFin 3)) (PFloat (FFin 8)) (PStr ''gib'') (PStr ''lt'')) = Inr example_gate"
  using example_records
  by (simp add: checked_gate_def example_gate_arguments nothing_read)
    (simp add: example_dir_def frozen_case_ids_def example_note_load_def is_file_def new_file_def
      List.map_filter_def startup_safety_gates_from_annotations_def
      startup_safety_gate_annotations_from_annotations_def)

lemma example_gate_appended:
  "snd example_gate_append = Inr (stamped ''t'' (gate_event example_gate))"
proof -
  obtain d' outcome where run: "append_and_read_back example_note_dump example_note_load (\<lambda>_. 1) ''t''
      example_dir (gate_event example_gate) = (d', outcome)" by fastforce
  have "snd (journal_append example_note_dump (\<lambda>_. 1) ''t'' (events_of example_dir)
      (gate_event example_gate)) = Inr ()"
    by (simp add: example_dir_def journal_append_def new_file_def safe_file_def Let_def
        write_loop_complete)
  then have "outcome \<noteq> Inl OSError"
    using run by (auto simp: append_and_read_back_def Let_def split: prod.splits if_splits)
  then have "outcome = Inr (stamped ''t'' (gate_event example_gate))"
    using append_and_read_back_cases [OF run _ example_record_ok, of "new_file\<lparr>content := ''to''\<rparr>"]
    by (auto simp: example_dir_def)
  then show ?thesis
    using run by (simp add: example_gate_append_def append_startup_safety_gate_def example_checked)
qed

lemma example_step:
  "annotation_step example_note_dump example_note_load example_zone example_dir (fst example_gate_append)"
  using example_record_ok
  by (intro annotation_step.gate [OF example_gate_append_def [symmetric, THEN trans, OF surjective_pairing]])
    (simp_all add: aware_def example_zone_def example_gate_arguments)

theorem annotation_log_stays_readable_witness:
  "\<exists>more. measurement_annotations example_zone
     (records_of example_note_load (fst example_gate_append)) = Inr more"
  using annotation_log_stays_readable [OF r_into_rtranclp [of "annotation_step example_note_dump
      example_note_load example_zone", OF example_step], of "[]"] example_records nothing_read
  by auto

text \<open>
  C40. A recorded gate is read back, and recorded once: when the append of a gate returns, it
  returns the stamped record, reading the log gives the annotations it had followed by this one,
  and from then on, whatever is appended in between, a second gate of the same metric is refused
  with the directory unchanged.
\<close>

theorem safety_gate_recorded_once:
  assumes "append_startup_safety_gate dump load os_write zone now d metric observed limit unit comparison
      = (d', Inr entry)"
    and "measurement_annotations zone (records_of load d) = Inr annotations" and "aware zone now"
    and "\<forall>g. normalize_startup_safety_gate (gate_arguments metric observed limit unit comparison) = Inr g
      \<longrightarrow> record_ok dump load (stamped now (gate_event g))"
    and "(annotation_step dump load zone)\<^sup>*\<^sup>* d' d''"
  shows "\<exists>g. entry = stamped now (gate_event g) \<and> valid_gate g \<and>
    measurement_annotations zone (records_of load d') = Inr (annotations @ [gate_annotation now g]) \<and>
    (\<exists>e. append_startup_safety_gate dump load os_write' zone now' d'' metric observed' limit' unit'
       comparison' = (d'', Inl e))"
proof -
  from assms(2) obtain st where st: "log_reads zone (records_of load d) annotations st"
    by (auto simp: annotations_read)
  from assms(1) st assms(3,4) obtain g where
    g: "normalize_startup_safety_gate (gate_arguments metric observed limit unit comparison) = Inr g"
    and entry: "entry = stamped now (gate_event g)"
    and log: "log_reads zone (records_of load d') (annotations @ [gate_annotation now g])
       (fst st @ [gate_annotation now g], snd st @ [dict_get g ''metric''])"
    by (cases rule: gate_written) auto
  have metric: "dict_get g ''metric'' = metric"
    using g by (cases rule: normalize_cases) (auto simp: gate_arguments_def gate_record_def)
  from history_reads [OF assms(5) log] obtain more st' where
    later: "log_reads zone (records_of load d'') ((annotations @ [gate_annotation now g]) @ more) st'"
    and seen: "metric \<in> set (snd st')" using metric by auto
  have "\<exists>e. checked_gate load zone d'' (gate_arguments metric observed' limit' unit' comparison') = Inl e"
  proof (cases "checked_gate load zone d'' (gate_arguments metric observed' limit' unit' comparison')")
    case (Inr h)
    then obtain f annotations'' st'' where f: "events_of d'' = Some f"
      and h: "normalize_startup_safety_gate (gate_arguments metric observed' limit' unit' comparison') = Inr h"
      and log'': "log_reads zone (journal_events load (Some f)) annotations'' st''"
      and new: "dict_get h ''metric'' \<notin> set (snd st'')"
      by (rule checked_gate_Inr)
    have "dict_get h ''metric'' = metric"
      using h by (cases rule: normalize_cases) (auto simp: gate_arguments_def gate_record_def)
    moreover have "st'' = st'" using log_reads_unique [OF log''] later f by simp
    ultimately show ?thesis using new seen by simp
  qed simp
  then have "\<exists>e. append_startup_safety_gate dump load os_write' zone now' d'' metric observed' limit' unit'
       comparison' = (d'', Inl e)"
    by (auto simp: append_startup_safety_gate_def)
  moreover have "measurement_annotations zone (records_of load d')
      = Inr (annotations @ [gate_annotation now g])"
    unfolding annotations_read using log by blast
  ultimately show ?thesis
    using entry normalize_valid [OF g] by blast
qed

theorem safety_gate_recorded_once_witness:
  "\<exists>e. append_startup_safety_gate example_note_dump example_note_load (\<lambda>_. 1) example_zone ''t''
     (fst example_gate_append) (PStr ''host_memavailable'') (PInt 1) (PInt 2) (PStr ''gib'') (PStr ''lt'')
   = (fst example_gate_append, Inl e)"
proof -
  have returned: "append_startup_safety_gate example_note_dump example_note_load (\<lambda>_. 1) example_zone
      ''t'' example_dir (PStr ''host_memavailable'') (PFloat (FFin 3)) (PFloat (FFin 8)) (PStr ''gib'')
      (PStr ''lt'') = (fst example_gate_append, Inr (stamped ''t'' (gate_event example_gate)))"
    using example_gate_appended unfolding example_gate_append_def by (simp add: prod_eq_iff)
  have "\<forall>g. normalize_startup_safety_gate (gate_arguments (PStr ''host_memavailable'') (PFloat (FFin 3))
      (PFloat (FFin 8)) (PStr ''gib'') (PStr ''lt'')) = Inr g
    \<longrightarrow> record_ok example_note_dump example_note_load (stamped ''t'' (gate_event g))"
    using example_record_ok by (simp add: example_gate_arguments)
  from safety_gate_recorded_once [OF returned _ _ this rtranclp.rtrancl_refl, of "[]" "\<lambda>_. 1" "''t''"
      "PInt 1" "PInt 2" "PStr ''gib''" "PStr ''lt''"]
  show ?thesis
    using nothing_read [of example_zone] example_records by (auto simp: aware_def example_zone_def)
qed

text \<open>
  A measurement annotation names what it invalidates: the append of one returns only for a
  scope of the two, with a reason, and with the identifier of a case of the frozen plan exactly
  when the scope is a case; the annotation read back last is marked invalid and carries these.
\<close>

theorem measurement_annotation_names_its_case:
  assumes "append_measurement_annotation dump load os_write now d scope reason case_id evidence
      = (d', Inr entry)"
    and "record_ok dump load (stamped now
      (measurement_event scope (py_strip reason) (map py_strip evidence) case_id))"
    and "measurement_annotations zone (records_of load d) = Inr annotations"
  shows "\<exists>a. measurement_annotations zone (records_of load d') = Inr (annotations @ [a]) \<and>
    dict_get a ''measurement_valid'' = PBool False \<and> dict_get a ''scope'' = PStr scope \<and>
    dict_get a ''reason'' = PStr (py_strip reason) \<and> py_strip reason \<noteq> [] \<and>
    (scope = ''startup'' \<and> case_id = None \<or>
     scope = ''case'' \<and> (\<exists>c planned. case_id = Some c \<and> dict_get a ''case_id'' = PStr c \<and>
       frozen_case_ids load (plan_of d) = Inr planned \<and> c \<in> planned))"
proof -
  let ?event = "measurement_event scope (py_strip reason) (map py_strip evidence) case_id"
  have run: "append_and_read_back dump load os_write now d ?event = (d', Inr entry)"
    and ok: "checked_annotation load d scope reason case_id evidence = Inr ()"
    using assms(1) by (auto simp: append_measurement_annotation_def split: sum.splits)
  from ok obtain f planned where f: "events_of d = Some f" and scope: "scope \<in> ANNOTATION_SCOPES"
    "py_strip reason \<noteq> []" and plan: "frozen_case_ids load (plan_of d) = Inr planned"
    and named: "if scope = ''case'' then \<exists>c \<in> planned. case_id = Some c else case_id = None"
    by (rule checked_annotation_Inr)
  from run have recs: "records_of load d' = records_of load d @ [stamped now ?event]"
    by (rule append_and_read_back_cases [OF _ f assms(2)]) (use f in auto)
  from assms(3) obtain st where "log_reads zone (records_of load d) annotations st"
    by (auto simp: annotations_read)
  from log_reads_snoc [OF this measurement_event_read untyped_annotation]
  have "log_reads zone (records_of load d')
      (annotations @ [measurement_annotation (stamped now ?event)]) st" unfolding recs .
  then have "measurement_annotations zone (records_of load d')
      = Inr (annotations @ [measurement_annotation (stamped now ?event)])"
    unfolding annotations_read by blast
  then show ?thesis
    using scope named plan
    by (intro exI [of _ "measurement_annotation (stamped now ?event)"])
      (auto simp: measurement_annotation_def stamped_def measurement_event_def ANNOTATION_SCOPES_def)
qed

definition example_mark :: pydict where
  "example_mark = measurement_event ''startup'' ''why'' [] None"

definition example_mark_load :: "string \<Rightarrow> pyval option" where
  "example_mark_load s = (if s = ''r'' then Some (PDict (stamped ''t'' example_mark))
     else if s = ''p'' then Some (PDict [(''suite'', PDict [(''cases'', PList [])])]) else None)"

definition example_mark_append :: "run_dir \<times> pydict res" where
  "example_mark_append = append_measurement_annotation example_note_dump example_mark_load (\<lambda>_. 1)
     ''t'' example_dir ''startup'' ''why'' None []"

lemma example_why: "py_strip ''why'' = ''why''"
  by (rule py_strip_plain) (simp_all add: is_space_def LF_def CR_def)

lemma example_mark_ok: "record_ok example_note_dump example_mark_load (stamped ''t'' example_mark)"
  by (simp add: record_ok_def codec_ok_def example_note_dump_def example_mark_load_def
      text_breaks_def LF_def CR_def line_event_def)

lemma example_mark_appended: "snd example_mark_append = Inr (stamped ''t'' example_mark)"
proof -
  have checked: "checked_annotation example_mark_load example_dir ''startup'' ''why'' None [] = Inr ()"
    by (simp add: checked_annotation_def example_why ANNOTATION_SCOPES_def example_dir_def
        frozen_case_ids_def example_mark_load_def check_annotation_case_def is_file_def new_file_def
        List.map_filter_def)
  obtain d' outcome where run: "append_and_read_back example_note_dump example_mark_load (\<lambda>_. 1) ''t''
      example_dir example_mark = (d', outcome)" by fastforce
  have "snd (journal_append example_note_dump (\<lambda>_. 1) ''t'' (events_of example_dir) example_mark) = Inr ()"
    by (simp add: example_dir_def journal_append_def new_file_def safe_file_def Let_def
        write_loop_complete)
  then have "outcome \<noteq> Inl OSError"
    using run by (auto simp: append_and_read_back_def Let_def split: prod.splits if_splits)
  then have "outcome = Inr (stamped ''t'' example_mark)"
    using append_and_read_back_cases [OF run _ example_mark_ok, of "new_file\<lparr>content := ''to''\<rparr>"]
    by (auto simp: example_dir_def)
  then show ?thesis
    using run checked
    by (simp add: example_mark_append_def append_measurement_annotation_def example_why
        flip: example_mark_def)
qed

theorem measurement_annotation_names_its_case_witness:
  "\<exists>a. measurement_annotations example_zone (records_of example_mark_load (fst example_mark_append))
      = Inr [a] \<and> dict_get a ''reason'' = PStr ''why''"
proof -
  have returned: "append_measurement_annotation example_note_dump example_mark_load (\<lambda>_. 1) ''t''
      example_dir ''startup'' ''why'' None [] = (fst example_mark_append, Inr (stamped ''t'' example_mark))"
    using example_mark_appended unfolding example_mark_append_def by (simp add: prod_eq_iff)
  have "records_of example_mark_load example_dir = []"
    by (simp add: example_dir_def journal_events_def splitlines_def line_event_def
        example_mark_load_def text_breaks_def LF_def CR_def List.map_filter_def)
  with measurement_annotation_names_its_case [OF returned, of example_zone "[]"] nothing_read
    example_mark_ok show ?thesis
    by (auto simp: example_why example_mark_def)
qed

end
