(* ===== verification/Cache_Records.thy ===== *)
theory Cache_Records
  imports Autoresearch_Policy Py_Text Exposition_Text
begin

text \<open>
  \<open>bench/sglang_sm121_cache_performance.py\<close>: the records of a cache-performance campaign, the
  child that a round of the second controller runs. Two server profiles, arm A with a prefix cache
  and arm B without, are compared over four lifetimes A, B, B, A of three timed turns each. The
  validators here say which attestations, turns and lifetimes may enter the comparison.
\<close>

section \<open>Names and bounds\<close>

definition SM121_CACHE_PERFORMANCE_SUITE_ID :: string where
  "SM121_CACHE_PERFORMANCE_SUITE_ID =
     ''qwen38-flash-next-sm121-triton-storage-cache-policy-performance-v1''"
definition SM121_CACHE_PERFORMANCE_CAMPAIGN_ID :: string where
  "SM121_CACHE_PERFORMANCE_CAMPAIGN_ID = ''qwen38-flash-next-sm121-cache-policy-performance-v1''"
definition SM121_CACHE_PERFORMANCE_CACHE_ON_PROFILE_ID :: string where
  "SM121_CACHE_PERFORMANCE_CACHE_ON_PROFILE_ID =
     ''qwen38-flash-next-nvfp4-sm121-triton-storage-cache-performance-on-sglang''"
definition SM121_CACHE_PERFORMANCE_CACHE_OFF_PROFILE_ID :: string where
  "SM121_CACHE_PERFORMANCE_CACHE_OFF_PROFILE_ID =
     ''qwen38-flash-next-nvfp4-sm121-triton-storage-cache-performance-off-sglang''"
definition SM121_CACHE_PERFORMANCE_CELL_TIMEOUT_S :: int where
  "SM121_CACHE_PERFORMANCE_CELL_TIMEOUT_S = 1200"
definition SM121_CACHE_PERFORMANCE_PREREQUISITE_BUNDLE_SHA256S :: "string list" where
  "SM121_CACHE_PERFORMANCE_PREREQUISITE_BUNDLE_SHA256S = [
     ''3e0238661eb20ddc66c6a32bc2c3ac35f5a3f184017f07364225a0b4cd7083d0'',
     ''b1017ce93f547c4dbba8884bd15b14cd4d65a7224ceaf9cfc1c819c8fd21077f'',
     ''82a6fcc2895212b53f46486bae2edd9d32d154b6813e665c6a994c2b283afa37'',
     ''f40f58fffeaf28a860087bb42e0148ce25f0efdc301a14e2cc83e98b9489aba2'']"
definition SM121_CACHE_PERFORMANCE_EXECUTION_MODE :: string where
  "SM121_CACHE_PERFORMANCE_EXECUTION_MODE = ''sm121_storage_cache_policy_performance_abba_fresh_lifetimes''"
definition SM121_CACHE_PERFORMANCE_PAIR_BINDING_SCHEMA_VERSION :: int where
  "SM121_CACHE_PERFORMANCE_PAIR_BINDING_SCHEMA_VERSION = 1"
definition SM121_CACHE_PERFORMANCE_ARM_ORDER :: "string list" where
  "SM121_CACHE_PERFORMANCE_ARM_ORDER = [''A'', ''B'', ''B'', ''A'']"
definition SM121_CACHE_PERFORMANCE_LIFETIME_ARMS :: "(int \<times> string) list" where
  "SM121_CACHE_PERFORMANCE_LIFETIME_ARMS =
     [(1, ''A''), (2, ''A''), (3, ''B''), (4, ''B''), (5, ''B''), (6, ''B''), (7, ''A''), (8, ''A'')]"
definition SM121_CACHE_PERFORMANCE_TIMED_TURNS :: "string list" where
  "SM121_CACHE_PERFORMANCE_TIMED_TURNS = [''T0'', ''T1'', ''T2'']"
definition SM121_CACHE_PERFORMANCE_QUALITY_CASE_ID :: string where
  "SM121_CACHE_PERFORMANCE_QUALITY_CASE_ID = ''synthetic-exact-answer-v2''"
definition SM121_CACHE_PERFORMANCE_CASE_ID :: string where
  "SM121_CACHE_PERFORMANCE_CASE_ID = ''sm121-cache-policy-shared-prefix-performance-v1''"
definition SM121_CACHE_PERFORMANCE_MAX_MAMBA_CACHE_SIZE :: int where
  "SM121_CACHE_PERFORMANCE_MAX_MAMBA_CACHE_SIZE = 4"
definition SM121_CACHE_PERFORMANCE_COLD_INPUT_MIN_TOKENS :: int where
  "SM121_CACHE_PERFORMANCE_COLD_INPUT_MIN_TOKENS = 32 * 1024"
definition SM121_CACHE_PERFORMANCE_COLD_INPUT_MAX_TOKENS :: int where
  "SM121_CACHE_PERFORMANCE_COLD_INPUT_MAX_TOKENS = 48 * 1024"
definition SM121_CACHE_PERFORMANCE_STATIC_EVENT :: string where
  "SM121_CACHE_PERFORMANCE_STATIC_EVENT = ''sm121_cache_performance_static_attestation''"
definition SM121_CACHE_PERFORMANCE_RUNTIME_EVENT :: string where
  "SM121_CACHE_PERFORMANCE_RUNTIME_EVENT = ''sm121_cache_performance_runtime_attestation''"
definition SM121_CACHE_PERFORMANCE_TURN_EVENT :: string where
  "SM121_CACHE_PERFORMANCE_TURN_EVENT = ''sm121_cache_performance_turn_observation''"
definition SM121_CACHE_PERFORMANCE_SUITE_DESCRIPTION :: string where
  "SM121_CACHE_PERFORMANCE_SUITE_DESCRIPTION =
     ''Frozen fresh-lifetime A/B/B/A wall-time study of the exact SM121 native-NVMe Qwen3.8 Flash-Next cache-policy bundle. Each arm has a separate quality lifetime and a cold T0 plus append-only T1/T2 timing lifetime; only the dedicated controller may execute it.''"

text \<open>The pinned facts of \<open>sglang_sm121_cache_observability.py\<close>, \<open>sglang_sm121_cache_semantic.py\<close> and \<open>sglang_sm121_storage.py\<close>.\<close>

definition SM121_STORAGE_SOURCE_TREE :: string where
  "SM121_STORAGE_SOURCE_TREE = ''274ee330db7ea9653807b868c0fb8693d50ed7b2''"

definition SM121_CACHE_SOURCE_DIGESTS :: "(string \<times> string) list" where
  "SM121_CACHE_SOURCE_DIGESTS = [
     (''arg_overrides_sha256'', ''sha256:d3a1ccc96359d544b124ca9d666e161f2de4cdbfa649b8f0239bcdb6fe3f8692''),
     (''cache_registry_sha256'', ''sha256:b60134d1ba8c6fdad7b30f268b5d96264102bdfe9881e2401264cb7f99fd31cd''),
     (''cache_builder_sha256'', ''sha256:0907673eb3cafe12dd7d84a0f5874f7054b789bf8984fbf7914e0c100673e861''),
     (''runtime_context_sha256'', ''sha256:a41f510571622a89a4549fa62f89fe47f55a9b9a715392564ea731d3cac720ba''),
     (''metrics_collector_sha256'', ''sha256:9b2469b149e58d6e427dfafe82af073e61e04c825ff7d2b5dec138fd77b5c134''),
     (''openai_utils_sha256'', ''sha256:6057816db2a0851dada70399266f4c678b0a56c576e145d3dfd442e2b2300624''),
     (''openai_protocol_sha256'', ''sha256:3f19b264c155f773400ba5a29780d8d28a57c477c9d6c587353821be47da6d01''),
     (''openai_serving_chat_sha256'', ''sha256:652a3b7cdb77e6552df902735f47a5ef87fdb9fb0c05125429e296016b27ccd4''),
     (''openai_usage_processor_sha256'', ''sha256:883c4c3ba95eb52fa57d5bf732d128063bac0b032f484776331220f61b7498a5''),
     (''http_server_sha256'', ''sha256:979a5fd0be624a5f0ddb9ef6d020b4d2f079a558413b5edccb75a02149882412'')]"

definition SM121_CACHE_SEMANTIC_STATIC_ASSERTIONS :: "(string \<times> bool) list" where
  "SM121_CACHE_SEMANTIC_STATIC_ASSERTIONS = [
     (''cache_on_selects_unified_radix_cache'', True),
     (''cache_off_selects_chunk_cache'', True),
     (''cache_off_suppresses_mamba_extra_buffer'', True),
     (''cache_off_suppresses_mamba_extra_buffer_lazy'', True),
     (''cache_on_enables_mamba_extra_buffer'', True),
     (''cache_on_enables_mamba_extra_buffer_lazy'', True),
     (''cache_startup_log_exposes_impl'', True),
     (''prompt_token_ids_available'', True),
     (''cache_detail_extension_available'', True),
     (''native_cache_counters_exposed'', True),
     (''native_residency_gauges_exposed'', True),
     (''native_guardrail_counters_exposed'', True)]"

definition SM121_CACHE_PERFORMANCE_RUNTIME_EXPECTED :: "string \<Rightarrow> pydict" where
  "SM121_CACHE_PERFORMANCE_RUNTIME_EXPECTED arm = (let cached = (arm = ''A'') in [
     (''cache_impl'', PStr (if cached then ''UnifiedRadixCache'' else ''ChunkCache'')),
     (''cache_source'', PStr ''default''),
     (''disable_radix_cache'', PBool (\<not> cached)),
     (''hicache_attached'', PBool False),
     (''hybrid_ssm'', PBool True),
     (''hybrid_swa'', PBool False),
     (''mamba_extra_buffer_enabled'', PBool cached),
     (''mamba_extra_buffer_lazy_enabled'', PBool cached),
     (''streaming_wrapped'', PBool False)])"

definition HIT_METRICS :: "string list" where
  "HIT_METRICS = [''prefill_device_hit_tokens'', ''prefill_host_hit_tokens'',
     ''prefill_storage_hit_tokens'', ''cached_total_tokens'', ''cached_device_tokens'',
     ''cached_host_tokens'', ''cached_storage_tokens'']"

definition POOL_METRICS :: "string list" where
  "POOL_METRICS = [''kv_available_tokens'', ''kv_evictable_tokens'', ''kv_used_tokens'',
     ''mamba_available_tokens'', ''mamba_evictable_tokens'', ''mamba_used_tokens'']"

definition SM121_CACHE_OBSERVABILITY_CACHED_SERIES :: "string list" where
  "SM121_CACHE_OBSERVABILITY_CACHED_SERIES = [''total'', ''device'', ''host'', ''storage'']"

definition SM121_CACHE_PERFORMANCE_METRIC_FIELDS :: "string list" where
  "SM121_CACHE_PERFORMANCE_METRIC_FIELDS =
     (''prefill_input_tokens'' # HIT_METRICS @ POOL_METRICS) @ [''evicted_tokens'', ''retracted_requests'']"

text \<open>\<open>f"{prefix}_{metric}"\<close> and \<open>f"{prefix}_cached_{source}_series_present"\<close>.\<close>

definition metric_field :: "string \<Rightarrow> string \<Rightarrow> string" where
  "metric_field p m = p @ ''_'' @ m"

definition series_field :: "string \<Rightarrow> string \<Rightarrow> string" where
  "series_field p s = p @ ''_cached_'' @ s @ ''_series_present''"

definition turn_scalar_fields :: "string list" where
  "turn_scalar_fields = [''event'', ''arm'', ''lifetime_ordinal'', ''case_id'', ''protocol_case_id'',
     ''turn'', ''cache_details_requested'', ''prompt_token_ids_requested'', ''streaming'',
     ''thinking_disabled'', ''prompt_tokens'', ''completion_tokens'', ''reasoning_tokens'',
     ''shared_prefix_tokens'', ''append_only_prompt_identity_verified'',
     ''cross_lifetime_prompt_identity_verified'', ''response_detail_state'', ''usage_detail_state'',
     ''response_device_cached_tokens'', ''response_host_cached_tokens'',
     ''response_storage_cached_tokens'', ''usage_cached_tokens'', ''metrics_available'',
     ''guardrail_metrics_available'', ''metrics_before_polls'', ''metrics_after_polls'',
     ''metrics_before_settled'', ''metrics_after_settled'', ''request_wall_s'',
     ''timed_turn_admitted'', ''timed_turn_basis'']"

definition METRIC_PREFIXES :: "string list" where
  "METRIC_PREFIXES = [''before'', ''after'', ''delta'']"

definition TURN_EVENT_FIELDS :: "string set" where
  "TURN_EVENT_FIELDS = set (turn_scalar_fields
     @ List.concat (map (\<lambda>p. map (metric_field p) SM121_CACHE_PERFORMANCE_METRIC_FIELDS) METRIC_PREFIXES)
     @ List.concat (map (\<lambda>p. map (series_field p) SM121_CACHE_OBSERVABILITY_CACHED_SERIES)
         [''before'', ''after'']))"

definition PAIR_BINDING_FIELDS :: "string set" where
  "PAIR_BINDING_FIELDS = {''schema_version'', ''suite_id'', ''execution_mode'', ''arm_order'',
     ''profile_ids'', ''quality_case_id'', ''timed_case_id'', ''cell_timeout_s'',
     ''campaign_instance_sha256'', ''plan_fingerprints'', ''pair_binding_sha256''}"

section \<open>Validators of single values\<close>

lemma traverse_total: "(\<And>x. x \<in> set xs \<Longrightarrow> \<exists>y. f x = Inr y) \<Longrightarrow> \<exists>ys. traverse f xs = Inr ys"
  by (induction xs) (auto simp: andThen_eq_Inr)

abbreviation cache_error :: exn where
  "cache_error \<equiv> SM121CachePerformanceError"

definition exact_fields :: "pyval \<Rightarrow> string set \<Rightarrow> pydict res" where
  "exact_fields v expected = (case v of
       PDict d \<Rightarrow> if dict_keys d \<noteq> expected then Inl cache_error else Inr d
     | _ \<Rightarrow> Inl cache_error)"

definition cache_require_bool :: "pyval \<Rightarrow> bool res" where
  "cache_require_bool v = (case v of PBool b \<Rightarrow> Inr b | _ \<Rightarrow> Inl cache_error)"

definition require_count :: "pyval \<Rightarrow> bool \<Rightarrow> int res" where
  "require_count v positive = (case v of
       PInt n \<Rightarrow> if n < 0 \<or> (positive \<and> n = 0) then Inl cache_error else Inr n
     | _ \<Rightarrow> Inl cache_error)"

definition require_optional_count :: "pyval \<Rightarrow> int option res" where
  "require_optional_count v = (case v of PNone \<Rightarrow> Inr None
     | _ \<Rightarrow> andThen (require_count v False) (\<lambda>n. Inr (Some n)))"

text \<open>
  \<open>Decimal(str(value))\<close>: an integer of more digits than \<open>str\<close> converts raises the \<open>ValueError\<close>
  that is caught.
\<close>

definition require_finite_decimal :: "pyval \<Rightarrow> bool \<Rightarrow> real res" where
  "require_finite_decimal v positive = (case v of
       PInt n \<Rightarrow> if \<bar>n\<bar> \<ge> 10 ^ max_str_digits \<or> (positive \<and> n \<le> 0) then Inl cache_error
         else Inr (of_int n)
     | PFloat (FFin r) \<Rightarrow> if positive \<and> r \<le> 0 then Inl cache_error else Inr r
     | _ \<Rightarrow> Inl cache_error)"

definition require_arm :: "pyval \<Rightarrow> string res" where
  "require_arm v = andThen (in_strings v {''A'', ''B''}) (\<lambda>known.
     case v of PStr s \<Rightarrow> (if known then Inr s else Inl cache_error) | _ \<Rightarrow> Inl cache_error)"

definition prefixed_sha256 :: "string \<Rightarrow> bool" where
  "prefixed_sha256 s \<longleftrightarrow> take 7 s = ''sha256:'' \<and> sha256_hex (drop 7 s)"

definition plan_fingerprint :: "string \<Rightarrow> bool" where
  "plan_fingerprint s \<longleftrightarrow> length s = 16 \<and> list_all lower_hex s"

definition event_fields :: "pyval \<Rightarrow> string set \<Rightarrow> pydict res" where
  "event_fields v expected = (case v of
       PDict row \<Rightarrow>
         if dict_keys row \<noteq> expected \<and> dict_keys row \<noteq> insert ''timestamp'' expected then Inl cache_error
         else if ''timestamp'' \<in> dict_keys row \<and> \<not> is_text_that (\<lambda>_. True) (dict_get row ''timestamp'')
         then Inl cache_error else Inr row
     | _ \<Rightarrow> Inl cache_error)"

text \<open>\<open>LIFETIME_ARMS.get(ordinal) != arm\<close>.\<close>

definition ordinal_of_arm :: "int \<Rightarrow> string \<Rightarrow> bool" where
  "ordinal_of_arm ordinal arm \<longleftrightarrow> map_of SM121_CACHE_PERFORMANCE_LIFETIME_ARMS ordinal = Some arm"

section \<open>The pair binding\<close>

text \<open>SHA-256 of the canonical text of a value, with its prefix; \<open>digest\<close> gives the hex digits.\<close>

definition cache_digest :: "(pyval \<Rightarrow> string) \<Rightarrow> pydict \<Rightarrow> string" where
  "cache_digest digest d = ''sha256:'' @ digest (canonical (PDict d))"

definition valid_nonce :: "pyval \<Rightarrow> string res" where
  "valid_nonce v = (case v of
       PStr s \<Rightarrow> if length s = 32 \<and> list_all lower_hex s then Inr s else Inl cache_error
     | _ \<Rightarrow> Inl cache_error)"

definition pair_instance_sha256 :: "(pyval \<Rightarrow> string) \<Rightarrow> pyval list \<Rightarrow> string res" where
  "pair_instance_sha256 digest nonces =
     (if length nonces \<noteq> length SM121_CACHE_PERFORMANCE_ARM_ORDER then Inl cache_error else
      andThen (traverse valid_nonce nonces) (\<lambda>parsed.
      Inr (cache_digest digest [(''domain'', PStr ''sm121-cache-performance-v1''),
        (''nonces'', PList (map PStr parsed))])))"

definition pair_binding_sha256 :: "(pyval \<Rightarrow> string) \<Rightarrow> pydict \<Rightarrow> string" where
  "pair_binding_sha256 digest binding =
     cache_digest digest (filter (\<lambda>(k, v). k \<noteq> ''pair_binding_sha256'') binding)"

definition validate_pair_binding :: "(pyval \<Rightarrow> string) \<Rightarrow> pyval \<Rightarrow> unit res" where
  "validate_pair_binding digest binding =
     andThen (exact_fields binding PAIR_BINDING_FIELDS) (\<lambda>row.
     if \<not> eq_int (dict_get row ''schema_version'') SM121_CACHE_PERFORMANCE_PAIR_BINDING_SCHEMA_VERSION
     then Inl cache_error else
     if dict_get row ''suite_id'' \<noteq> PStr SM121_CACHE_PERFORMANCE_SUITE_ID then Inl cache_error else
     if dict_get row ''execution_mode'' \<noteq> PStr SM121_CACHE_PERFORMANCE_EXECUTION_MODE
     then Inl cache_error else
     if dict_get row ''arm_order'' \<noteq> PList (map PStr SM121_CACHE_PERFORMANCE_ARM_ORDER)
     then Inl cache_error else
     if dict_get row ''profile_ids'' \<noteq> PList [PStr SM121_CACHE_PERFORMANCE_CACHE_ON_PROFILE_ID,
       PStr SM121_CACHE_PERFORMANCE_CACHE_OFF_PROFILE_ID] then Inl cache_error else
     if dict_get row ''quality_case_id'' \<noteq> PStr SM121_CACHE_PERFORMANCE_QUALITY_CASE_ID
       \<or> dict_get row ''timed_case_id'' \<noteq> PStr SM121_CACHE_PERFORMANCE_CASE_ID
       \<or> \<not> eq_int (dict_get row ''cell_timeout_s'') SM121_CACHE_PERFORMANCE_CELL_TIMEOUT_S
     then Inl cache_error else
     if \<not> is_text_that prefixed_sha256 (dict_get row ''campaign_instance_sha256'')
     then Inl cache_error else
     (case dict_get row ''plan_fingerprints'' of PList fingerprints \<Rightarrow>
       if length fingerprints \<noteq> length SM121_CACHE_PERFORMANCE_ARM_ORDER
         \<or> \<not> list_all (is_text_that plan_fingerprint) fingerprints then Inl cache_error
       else check (dict_get row ''pair_binding_sha256'' = PStr (pair_binding_sha256 digest row)) cache_error
       | _ \<Rightarrow> Inl cache_error))"

section \<open>Profiles and the suite\<close>

text \<open>An object of the manifests is read by field, as a dict or by attribute; a missing one is \<open>None\<close>.\<close>

definition value_of :: "pyval \<Rightarrow> string \<Rightarrow> pyval" where
  "value_of item field = (case item of PDict d \<Rightarrow> dict_get d field | _ \<Rightarrow> PNone)"

definition profile_id :: "pyval \<Rightarrow> string option" where
  "profile_id v = (case (case v of PStr s \<Rightarrow> PStr s | _ \<Rightarrow> value_of v ''id'') of
       PStr s \<Rightarrow> Some s | _ \<Rightarrow> None)"

definition cache_performance_arm :: "pyval \<Rightarrow> string res" where
  "cache_performance_arm v =
     (if profile_id v = Some SM121_CACHE_PERFORMANCE_CACHE_ON_PROFILE_ID then Inr ''A''
      else if profile_id v = Some SM121_CACHE_PERFORMANCE_CACHE_OFF_PROFILE_ID then Inr ''B''
      else Inl cache_error)"

definition is_cache_performance_candidate :: "pyval \<Rightarrow> bool" where
  "is_cache_performance_candidate v \<longleftrightarrow> profile_id v \<in> {Some SM121_CACHE_PERFORMANCE_CACHE_ON_PROFILE_ID,
     Some SM121_CACHE_PERFORMANCE_CACHE_OFF_PROFILE_ID}"

definition is_cache_performance_plan :: "pyval \<Rightarrow> pyval \<Rightarrow> bool" where
  "is_cache_performance_plan model suite \<longleftrightarrow> is_cache_performance_candidate model \<and>
     value_of suite ''id'' = PStr SM121_CACHE_PERFORMANCE_SUITE_ID"

definition expected_case :: "string \<Rightarrow> string \<Rightarrow> int \<Rightarrow> pydict" where
  "expected_case case_id kind max_output_tokens = [
     (''id'', PStr case_id), (''kind'', PStr kind), (''requires'', PTuple [PStr ''chat'']),
     (''warmups'', PInt 0), (''repetitions'', PInt 1), (''max_output_tokens'', PInt max_output_tokens),
     (''temperature'', PFloat (FFin 0)), (''concurrency'', PInt 1), (''prompt_repetitions'', PInt 0),
     (''max_turns'', PInt 1)]"

definition expected_cases :: "pydict list" where
  "expected_cases = [expected_case SM121_CACHE_PERFORMANCE_QUALITY_CASE_ID ''quality'' 512,
     expected_case SM121_CACHE_PERFORMANCE_CASE_ID ''capability'' 32]"

definition check_case_field :: "pyval \<Rightarrow> string \<times> pyval \<Rightarrow> unit res" where
  "check_case_field item = (\<lambda>(field, wanted).
     (let found = value_of item field;
          actual = (case found of PList xs \<Rightarrow> if field = ''requires'' then PTuple xs else found | _ \<Rightarrow> found)
      in check (py_equals actual wanted) cache_error))"

definition validate_suite :: "pyval \<Rightarrow> unit res" where
  "validate_suite suite =
     (if value_of suite ''id'' \<noteq> PStr SM121_CACHE_PERFORMANCE_SUITE_ID then Inl cache_error else
      if value_of suite ''description'' \<noteq> PStr SM121_CACHE_PERFORMANCE_SUITE_DESCRIPTION
      then Inl cache_error else
      if value_of suite ''protocol_digest'' \<noteq> PNone then Inl cache_error else
      (case (case value_of suite ''cases'' of PList xs \<Rightarrow> Some xs | PTuple xs \<Rightarrow> Some xs | _ \<Rightarrow> None) of
         None \<Rightarrow> Inl cache_error
       | Some cases \<Rightarrow>
         if length cases \<noteq> 2 then Inl cache_error else
         andThen (traverse (\<lambda>(item, expected). traverse (check_case_field item) expected)
           (zip cases expected_cases)) (\<lambda>_. Inr ())))"

section \<open>Attestations\<close>

definition static_event_fields :: "string set" where
  "static_event_fields = {''event'', ''arm'', ''lifetime_ordinal'', ''candidate_source_tree''}
     \<union> set (map fst SM121_CACHE_SOURCE_DIGESTS) \<union> set (map fst SM121_CACHE_SEMANTIC_STATIC_ASSERTIONS)"

definition validate_static_event :: "pyval \<Rightarrow> unit res" where
  "validate_static_event event =
     andThen (event_fields event static_event_fields) (\<lambda>row.
     if dict_get row ''event'' \<noteq> PStr SM121_CACHE_PERFORMANCE_STATIC_EVENT then Inl cache_error else
     andThen (require_arm (dict_get row ''arm'')) (\<lambda>arm.
     andThen (require_count (dict_get row ''lifetime_ordinal'') True) (\<lambda>ordinal.
     if \<not> ordinal_of_arm ordinal arm then Inl cache_error else
     if dict_get row ''candidate_source_tree'' \<noteq> PStr SM121_STORAGE_SOURCE_TREE then Inl cache_error else
     if \<not> list_all (\<lambda>(field, wanted). dict_get row field = PStr wanted) SM121_CACHE_SOURCE_DIGESTS
     then Inl cache_error else
     check (list_all (\<lambda>(field, wanted). dict_get row field = PBool wanted)
       SM121_CACHE_SEMANTIC_STATIC_ASSERTIONS) cache_error)))"

definition runtime_event_fields :: "string set" where
  "runtime_event_fields = {''event'', ''arm'', ''lifetime_ordinal'', ''mamba_radix_cache_strategy'',
     ''max_mamba_cache_size''} \<union> set (map fst (SM121_CACHE_PERFORMANCE_RUNTIME_EXPECTED ''A''))"

definition validate_runtime_event :: "pyval \<Rightarrow> unit res" where
  "validate_runtime_event event =
     andThen (event_fields event runtime_event_fields) (\<lambda>row.
     if dict_get row ''event'' \<noteq> PStr SM121_CACHE_PERFORMANCE_RUNTIME_EVENT then Inl cache_error else
     andThen (require_arm (dict_get row ''arm'')) (\<lambda>arm.
     andThen (require_count (dict_get row ''lifetime_ordinal'') True) (\<lambda>ordinal.
     if \<not> ordinal_of_arm ordinal arm then Inl cache_error else
     if dict_get row ''mamba_radix_cache_strategy'' \<noteq> PStr ''extra_buffer_lazy'' then Inl cache_error else
     if \<not> eq_int (dict_get row ''max_mamba_cache_size'') SM121_CACHE_PERFORMANCE_MAX_MAMBA_CACHE_SIZE
     then Inl cache_error else
     check (list_all (\<lambda>(field, wanted). py_equals (dict_get row field) wanted)
       (SM121_CACHE_PERFORMANCE_RUNTIME_EXPECTED arm)) cache_error)))"

end
