(* ===== verification/Round_V2.thy ===== *)
theory Round_V2
  imports Cache_Records Journal_Log
begin

text \<open>
  \<open>bench/autoresearch_v2.py\<close>: a round of the second controller. A round is frozen into a
  directory with a hashed \<open>round.json\<close>, run once, and audited afterwards; its journal records
  that it started and how it ended. The child campaign it runs, and the audit of that child, are
  replies of an environment, as are the clock, the file system and the \<open>json\<close> module.
\<close>

section \<open>Names\<close>

definition AUTORESEARCH_V2_SCHEMA_VERSION :: int where
  "AUTORESEARCH_V2_SCHEMA_VERSION = 1"
definition AUTORESEARCH_V2_RUNNER_CACHE_POLICY :: string where
  "AUTORESEARCH_V2_RUNNER_CACHE_POLICY = ''sm121_cache_policy_performance_v1''"
definition AUTORESEARCH_V2_CAMPAIGN_ID :: string where
  "AUTORESEARCH_V2_CAMPAIGN_ID = ''qwen38-flash-next-sm121-autoresearch-v2-cache-policy''"
definition AUTORESEARCH_V2_EXECUTION_MODE :: string where
  "AUTORESEARCH_V2_EXECUTION_MODE = ''sm121_autoresearch_v2_cache_policy_round''"
definition AUTORESEARCH_V2_AXIS :: string where
  "AUTORESEARCH_V2_AXIS = ''cache_policy''"
definition AUTORESEARCH_V2_PRIMARY :: string where
  "AUTORESEARCH_V2_PRIMARY = ''later_turn_request_wall_s''"
definition AUTORESEARCH_V2_PROMOTION_RATIO :: real where
  "AUTORESEARCH_V2_PROMOTION_RATIO = 95 / 100"
definition AUTORESEARCH_V2_FULL_WALL_GUARDRAIL_RATIO :: real where
  "AUTORESEARCH_V2_FULL_WALL_GUARDRAIL_RATIO = 105 / 100"
definition AUTORESEARCH_V2_REQUIRED_LIFETIMES :: int where
  "AUTORESEARCH_V2_REQUIRED_LIFETIMES = 4"
definition AUTORESEARCH_V2_MIN_CUTOFF_REMAINING_S :: int where
  "AUTORESEARCH_V2_MIN_CUTOFF_REMAINING_S =
     AUTORESEARCH_V2_REQUIRED_LIFETIMES * 2 * SM121_CACHE_PERFORMANCE_CELL_TIMEOUT_S + 600"

definition FAILURE_STAGES :: "string set" where
  "FAILURE_STAGES = {''child_execution'', ''child_audit'', ''projection''}"

definition DEFINITION_KEYS :: "string set" where
  "DEFINITION_KEYS = {''schema_version'', ''campaign''}"

definition CAMPAIGN_KEYS :: "string set" where
  "CAMPAIGN_KEYS = {''id'', ''runner'', ''axis'', ''control'', ''candidate'', ''control_arm'',
     ''candidate_arm'', ''models'', ''suite'', ''cell_timeout_s'', ''required_lifetimes'',
     ''primary'', ''promotion_ratio'', ''full_wall_guardrail_ratio'', ''min_cutoff_remaining_s''}"

definition ROUND_FIELDS :: "string set" where
  "ROUND_FIELDS = {''schema_version'', ''campaign_id'', ''created_at'', ''cutoff'',
     ''execution_mode'', ''definition_sha256'', ''runner'', ''axis'', ''control_profile_id'',
     ''candidate_profile_id'', ''control_arm'', ''candidate_arm'', ''suite_id'',
     ''cell_timeout_s'', ''required_lifetimes'', ''primary'', ''promotion_ratio'',
     ''full_wall_guardrail_ratio'', ''min_cutoff_remaining_s'', ''child_campaign_id'',
     ''child_campaign_directory'', ''child_campaign_integrity_hash'',
     ''child_pair_binding_sha256'', ''child_prerequisite_bundle_sha256s'', ''integrity_hash''}"

definition SUMMARY_FIELDS :: "string set" where
  "SUMMARY_FIELDS = {''schema_version'', ''campaign_id'', ''execution_mode'', ''child_campaign_id'',
     ''child_pair_binding_sha256'', ''status'', ''decision'', ''child_status'', ''child_decision'',
     ''audit_ok'', ''completed_arms'', ''score'', ''integrity_hash''}"

definition FAILURE_SUMMARY_FIELDS :: "string set" where
  "FAILURE_SUMMARY_FIELDS = {''schema_version'', ''campaign_id'', ''execution_mode'',
     ''child_campaign_id'', ''child_pair_binding_sha256'', ''status'', ''decision'',
     ''failure_stage'', ''integrity_hash''}"

definition EVENT_FIELDS :: "(string \<times> string set) list" where
  "EVENT_FIELDS = [
     (''autoresearch_v2_round_started'', {''event'', ''campaign_id'', ''execution_mode'',
        ''definition_sha256'', ''child_pair_binding_sha256''}),
     (''autoresearch_v2_round_scored'', {''event'', ''campaign_id'', ''child_pair_binding_sha256'',
        ''status'', ''decision'', ''child_status'', ''child_decision'', ''audit_ok'',
        ''completed_arms''}),
     (''autoresearch_v2_round_complete'', {''event'', ''campaign_id'', ''status'', ''decision''}),
     (''autoresearch_v2_round_failed'', {''event'', ''campaign_id'', ''child_pair_binding_sha256'',
        ''stage''})]"

section \<open>The environment of a call\<close>

datatype text_file = No_file | Unreadable | Undecodable | Contents string

text \<open>A round directory: whether its path resolves into the result root, and its files.\<close>

record round_dir =
  resolves :: bool
  in_result_root :: bool
  round_file :: text_file
  summary_file :: text_file
  round_journal :: "journal_file option"

text \<open>
  The replies to one call: the \<open>json\<close> module, SHA-256 of a canonical text, \<open>fromisoformat\<close>
  (\<open>None\<close> when it raises, \<open>Some None\<close> for a naive time, otherwise microseconds), the clock
  (\<open>None\<close> when it is naive), the writes of the file system, the files of the child, and what
  the child's execution, its audit and the check of its source return.
\<close>

record v2_env =
  json_loads :: "string \<Rightarrow> pyval option"
  strict_loads :: "string \<Rightarrow> pyval option"
  record_text :: "pyval \<Rightarrow> string"
  pretty_text :: "pyval \<Rightarrow> string"
  digest_text :: "pyval \<Rightarrow> string"
  instant_of :: "string \<Rightarrow> int option option"
  current_time :: "int option"
  steady :: bool
  stamps :: "nat \<Rightarrow> string"
  writes :: "nat \<Rightarrow> string \<Rightarrow> nat"
  stores :: "unit res"
  child_present :: bool
  child_campaign_file :: text_file
  child_summary_file :: text_file
  executed :: "pydict res"
  audited :: "pydict res"
  child_source :: "bool res"

datatype v2_call = Execute_child | Audit_child

abbreviation v2_error :: exn where
  "v2_error \<equiv> AutoresearchV2Error"

text \<open>
  Reading a JSON file where \<open>OSError\<close> and \<open>JSONDecodeError\<close> are caught (\<open>None\<close>): a text that is
  not UTF-8 raises \<open>UnicodeDecodeError\<close>, a \<open>ValueError\<close> that is not caught.
\<close>

definition read_json :: "v2_env \<Rightarrow> text_file \<Rightarrow> pyval option res" where
  "read_json e fl = (case fl of
       No_file \<Rightarrow> Inr None
     | Unreadable \<Rightarrow> Inr None
     | Undecodable \<Rightarrow> Inl ValueError
     | Contents t \<Rightarrow> Inr (json_loads e t))"

section \<open>Validators\<close>

definition proposal_keys :: "pydict \<Rightarrow> string set \<Rightarrow> unit res" where
  "proposal_keys d expected = check (dict_keys d = expected) v2_error"

definition proposal_string :: "pyval \<Rightarrow> string res" where
  "proposal_string v = (case v of PStr s \<Rightarrow> (if s = [] then Inl v2_error else Inr s) | _ \<Rightarrow> Inl v2_error)"

definition proposal_id :: "pyval \<Rightarrow> string res" where
  "proposal_id v = andThen (proposal_string v) (\<lambda>s. if \<not> safe_id s then Inl v2_error else Inr s)"

definition proposal_int :: "pyval \<Rightarrow> int \<Rightarrow> int res" where
  "proposal_int v minimum =
     (case v of PInt n \<Rightarrow> (if n < minimum then Inl v2_error else Inr n) | _ \<Rightarrow> Inl v2_error)"

definition proposal_float :: "pyval \<Rightarrow> real res" where
  "proposal_float v = (case v of
       PInt n \<Rightarrow> andThen (float_of_int n) (\<lambda>x. Inr (real_of_pyfloat x))
     | PFloat (FFin r) \<Rightarrow> Inr r
     | _ \<Rightarrow> Inl v2_error)"

text \<open>\<open>_parse_cutoff\<close>: the time in UTC, in microseconds.\<close>

definition parse_cutoff :: "v2_env \<Rightarrow> string \<Rightarrow> int res" where
  "parse_cutoff e s = (case instant_of e s of
       Some (Some t) \<Rightarrow> (if current_time e = None then Inl v2_error else Inr t)
     | _ \<Rightarrow> Inl v2_error)"

definition enough_time :: "v2_env \<Rightarrow> int \<Rightarrow> int \<Rightarrow> bool" where
  "enough_time e cutoff_at minimum_s = (case current_time e of
       None \<Rightarrow> False | Some now \<Rightarrow> minimum_s * 1000000 \<le> cutoff_at - now)"

definition ascii_alnum :: "char \<Rightarrow> bool" where
  "ascii_alnum c \<longleftrightarrow> lower_alnum c \<or> (CHR ''A'' \<le> c \<and> c \<le> CHR ''Z'')"

definition safe_child_directory :: "string \<Rightarrow> bool" where
  "safe_child_directory s = (case s of [] \<Rightarrow> False
     | c # cs \<Rightarrow> ascii_alnum c \<and> length cs \<le> 255 \<and> list_all (\<lambda>c. ascii_alnum c \<or> c \<in> set ''._-'') cs)"

section \<open>The registered proposal\<close>

record v2_definition =
  campaign_id :: string
  runner :: string
  axis :: string
  control_profile_id :: string
  candidate_profile_id :: string
  control_arm :: string
  candidate_arm :: string
  models_path :: string
  suite_path :: string
  cell_timeout_s :: int
  required_lifetimes :: int
  primary :: string
  promotion_ratio :: real
  full_wall_guardrail_ratio :: real
  min_cutoff_remaining_s :: int

definition public_mapping :: "v2_definition \<Rightarrow> pydict" where
  "public_mapping d = [
     (''schema_version'', PInt AUTORESEARCH_V2_SCHEMA_VERSION),
     (''campaign_id'', PStr (campaign_id d)),
     (''runner'', PStr (runner d)),
     (''axis'', PStr (axis d)),
     (''control_profile_id'', PStr (control_profile_id d)),
     (''candidate_profile_id'', PStr (candidate_profile_id d)),
     (''control_arm'', PStr (control_arm d)),
     (''candidate_arm'', PStr (candidate_arm d)),
     (''suite_id'', PStr SM121_CACHE_PERFORMANCE_SUITE_ID),
     (''cell_timeout_s'', PInt (cell_timeout_s d)),
     (''required_lifetimes'', PInt (required_lifetimes d)),
     (''primary'', PStr (primary d)),
     (''promotion_ratio'', PFloat (FFin (promotion_ratio d))),
     (''full_wall_guardrail_ratio'', PFloat (FFin (full_wall_guardrail_ratio d))),
     (''min_cutoff_remaining_s'', PInt (min_cutoff_remaining_s d))]"

definition definition_sha256 :: "v2_env \<Rightarrow> v2_definition \<Rightarrow> string" where
  "definition_sha256 e d = digest_text e (canonical (PDict (public_mapping d)))"

text \<open>\<open>_validate_supported_definition\<close>: every field but the two paths.\<close>

definition supported_definition :: "v2_definition \<Rightarrow> bool" where
  "supported_definition d \<longleftrightarrow>
     campaign_id d = AUTORESEARCH_V2_CAMPAIGN_ID \<and>
     runner d = AUTORESEARCH_V2_RUNNER_CACHE_POLICY \<and>
     axis d = AUTORESEARCH_V2_AXIS \<and>
     control_profile_id d = SM121_CACHE_PERFORMANCE_CACHE_ON_PROFILE_ID \<and>
     candidate_profile_id d = SM121_CACHE_PERFORMANCE_CACHE_OFF_PROFILE_ID \<and>
     control_arm d = ''A'' \<and> candidate_arm d = ''B'' \<and>
     cell_timeout_s d = SM121_CACHE_PERFORMANCE_CELL_TIMEOUT_S \<and>
     required_lifetimes d = AUTORESEARCH_V2_REQUIRED_LIFETIMES \<and>
     primary d = AUTORESEARCH_V2_PRIMARY \<and>
     promotion_ratio d = AUTORESEARCH_V2_PROMOTION_RATIO \<and>
     full_wall_guardrail_ratio d = AUTORESEARCH_V2_FULL_WALL_GUARDRAIL_RATIO \<and>
     min_cutoff_remaining_s d = AUTORESEARCH_V2_MIN_CUTOFF_REMAINING_S"

definition validate_supported_definition :: "v2_definition \<Rightarrow> unit res" where
  "validate_supported_definition d = check (supported_definition d) v2_error"

text \<open>What a manifest path of the declaration resolves to.\<close>

datatype manifest_path = Escapes | Unavailable | Resolved

definition resolve_manifest_path :: "(string \<Rightarrow> manifest_path) \<Rightarrow> string \<Rightarrow> string res" where
  "resolve_manifest_path paths s =
     (if paths s \<noteq> Resolved then Inl v2_error else Inr s)"

text \<open>\<open>load_autoresearch_v2_definition\<close>: \<open>toml\<close> is the parsed file, \<open>None\<close> when it is unreadable.\<close>

definition load_definition ::
  "(string \<Rightarrow> manifest_path) \<Rightarrow> pyval option \<Rightarrow> v2_definition res" where
  "load_definition paths toml =
     (case toml of None \<Rightarrow> Inl v2_error | Some document \<Rightarrow>
     (case document of PDict raw \<Rightarrow>
     andThen (proposal_keys raw DEFINITION_KEYS) (\<lambda>_.
     if \<not> eq_int (dict_get raw ''schema_version'') AUTORESEARCH_V2_SCHEMA_VERSION then Inl v2_error else
     (case dict_get raw ''campaign'' of PDict c \<Rightarrow>
     andThen (proposal_keys c CAMPAIGN_KEYS) (\<lambda>_.
     andThen (proposal_id (dict_get c ''id'')) (\<lambda>i.
     andThen (proposal_id (dict_get c ''runner'')) (\<lambda>r.
     andThen (proposal_id (dict_get c ''axis'')) (\<lambda>a.
     andThen (proposal_id (dict_get c ''control'')) (\<lambda>ctl.
     andThen (proposal_id (dict_get c ''candidate'')) (\<lambda>cnd.
     andThen (proposal_string (dict_get c ''control_arm'')) (\<lambda>ca.
     andThen (proposal_string (dict_get c ''candidate_arm'')) (\<lambda>cb.
     andThen (proposal_string (dict_get c ''models'')) (\<lambda>ms.
     andThen (proposal_string (dict_get c ''suite'')) (\<lambda>su.
     andThen (resolve_manifest_path paths ms) (\<lambda>mp.
     andThen (resolve_manifest_path paths su) (\<lambda>sp.
     andThen (proposal_int (dict_get c ''cell_timeout_s'') 0) (\<lambda>t.
     andThen (proposal_int (dict_get c ''required_lifetimes'') 1) (\<lambda>l.
     andThen (proposal_id (dict_get c ''primary'')) (\<lambda>p.
     andThen (proposal_float (dict_get c ''promotion_ratio'')) (\<lambda>pr.
     andThen (proposal_float (dict_get c ''full_wall_guardrail_ratio'')) (\<lambda>gr.
     andThen (proposal_int (dict_get c ''min_cutoff_remaining_s'') 1) (\<lambda>m.
     let d = \<lparr>campaign_id = i, runner = r, axis = a, control_profile_id = ctl,
       candidate_profile_id = cnd, control_arm = ca, candidate_arm = cb, models_path = mp,
       suite_path = sp, cell_timeout_s = t, required_lifetimes = l, primary = p,
       promotion_ratio = pr, full_wall_guardrail_ratio = gr, min_cutoff_remaining_s = m\<rparr> in
     andThen (validate_supported_definition d) (\<lambda>_. Inr d)))))))))))))))))))
       | _ \<Rightarrow> Inl v2_error))
       | _ \<Rightarrow> Inl v2_error))"

definition preview ::
  "(string \<Rightarrow> manifest_path) \<Rightarrow> pyval option \<Rightarrow> pydict res" where
  "preview paths toml = andThen (load_definition paths toml) (\<lambda>d. Inr (public_mapping d))"

definition registered_proposal :: pydict where
  "registered_proposal = [
     (''schema_version'', PInt AUTORESEARCH_V2_SCHEMA_VERSION),
     (''campaign_id'', PStr AUTORESEARCH_V2_CAMPAIGN_ID),
     (''runner'', PStr AUTORESEARCH_V2_RUNNER_CACHE_POLICY),
     (''axis'', PStr AUTORESEARCH_V2_AXIS),
     (''control_profile_id'', PStr SM121_CACHE_PERFORMANCE_CACHE_ON_PROFILE_ID),
     (''candidate_profile_id'', PStr SM121_CACHE_PERFORMANCE_CACHE_OFF_PROFILE_ID),
     (''control_arm'', PStr ''A''),
     (''candidate_arm'', PStr ''B''),
     (''suite_id'', PStr SM121_CACHE_PERFORMANCE_SUITE_ID),
     (''cell_timeout_s'', PInt SM121_CACHE_PERFORMANCE_CELL_TIMEOUT_S),
     (''required_lifetimes'', PInt AUTORESEARCH_V2_REQUIRED_LIFETIMES),
     (''primary'', PStr AUTORESEARCH_V2_PRIMARY),
     (''promotion_ratio'', PFloat (FFin AUTORESEARCH_V2_PROMOTION_RATIO)),
     (''full_wall_guardrail_ratio'', PFloat (FFin AUTORESEARCH_V2_FULL_WALL_GUARDRAIL_RATIO)),
     (''min_cutoff_remaining_s'', PInt AUTORESEARCH_V2_MIN_CUTOFF_REMAINING_S)]"

definition expected_definition_sha256 :: "v2_env \<Rightarrow> string" where
  "expected_definition_sha256 e = digest_text e (canonical (PDict registered_proposal))"

section \<open>The frozen round\<close>

definition payload_without_hash :: "pydict \<Rightarrow> pydict" where
  "payload_without_hash payload = filter (\<lambda>(k, v). k \<noteq> ''integrity_hash'') payload"

definition content_hash :: "v2_env \<Rightarrow> pydict \<Rightarrow> string" where
  "content_hash e d = digest_text e (canonical (PDict d))"

definition validate_hashed_payload :: "v2_env \<Rightarrow> pyval \<Rightarrow> string set \<Rightarrow> pydict res" where
  "validate_hashed_payload e v expected = (case v of PDict payload \<Rightarrow>
     if dict_keys payload \<noteq> expected then Inl v2_error else
     (case dict_get payload ''integrity_hash'' of PStr integrity_hash \<Rightarrow>
     if \<not> sha256_hex integrity_hash then Inl v2_error else
     if content_hash e (payload_without_hash payload) \<noteq> integrity_hash then Inl v2_error
     else Inr payload
       | _ \<Rightarrow> Inl v2_error)
       | _ \<Rightarrow> Inl v2_error)"

definition load_round :: "v2_env \<Rightarrow> round_dir \<Rightarrow> pydict res" where
  "load_round e d =
     (if \<not> resolves d then Inl v2_error else
      if \<not> in_result_root d then Inl v2_error else
      andThen (read_json e (round_file d)) (\<lambda>found.
      (case found of None \<Rightarrow> Inl v2_error | Some v \<Rightarrow> validate_hashed_payload e v ROUND_FIELDS)))"

definition PREREQUISITES :: pyval where
  "PREREQUISITES = PList (map PStr SM121_CACHE_PERFORMANCE_PREREQUISITE_BUNDLE_SHA256S)"

definition expected_round_fields :: pydict where
  "expected_round_fields = [
     (''schema_version'', PInt AUTORESEARCH_V2_SCHEMA_VERSION),
     (''campaign_id'', PStr AUTORESEARCH_V2_CAMPAIGN_ID),
     (''execution_mode'', PStr AUTORESEARCH_V2_EXECUTION_MODE),
     (''runner'', PStr AUTORESEARCH_V2_RUNNER_CACHE_POLICY),
     (''axis'', PStr AUTORESEARCH_V2_AXIS),
     (''control_profile_id'', PStr SM121_CACHE_PERFORMANCE_CACHE_ON_PROFILE_ID),
     (''candidate_profile_id'', PStr SM121_CACHE_PERFORMANCE_CACHE_OFF_PROFILE_ID),
     (''control_arm'', PStr ''A''),
     (''candidate_arm'', PStr ''B''),
     (''suite_id'', PStr SM121_CACHE_PERFORMANCE_SUITE_ID),
     (''cell_timeout_s'', PInt SM121_CACHE_PERFORMANCE_CELL_TIMEOUT_S),
     (''required_lifetimes'', PInt AUTORESEARCH_V2_REQUIRED_LIFETIMES),
     (''primary'', PStr AUTORESEARCH_V2_PRIMARY),
     (''promotion_ratio'', PFloat (FFin AUTORESEARCH_V2_PROMOTION_RATIO)),
     (''full_wall_guardrail_ratio'', PFloat (FFin AUTORESEARCH_V2_FULL_WALL_GUARDRAIL_RATIO)),
     (''min_cutoff_remaining_s'', PInt AUTORESEARCH_V2_MIN_CUTOFF_REMAINING_S),
     (''child_campaign_id'', PStr SM121_CACHE_PERFORMANCE_CAMPAIGN_ID)]"

definition parse_time_field :: "v2_env \<Rightarrow> pyval \<Rightarrow> int res" where
  "parse_time_field e v = (case v of PStr s \<Rightarrow> parse_cutoff e s | _ \<Rightarrow> Inl v2_error)"

definition validate_round_definition :: "v2_env \<Rightarrow> pydict \<Rightarrow> unit res" where
  "validate_round_definition e payload =
     (if \<not> list_all (\<lambda>(field, expected). py_equals (dict_get payload field) expected)
        expected_round_fields then Inl v2_error else
      andThen (parse_time_field e (dict_get payload ''created_at'')) (\<lambda>_.
      if \<not> is_text_that sha256_hex (dict_get payload ''definition_sha256'') then Inl v2_error else
      if \<not> is_text_that sha256_hex (dict_get payload ''child_campaign_integrity_hash'')
      then Inl v2_error else
      if dict_get payload ''definition_sha256'' \<noteq> PStr (expected_definition_sha256 e)
      then Inl v2_error else
      if \<not> is_text_that prefixed_sha256 (dict_get payload ''child_pair_binding_sha256'')
      then Inl v2_error else
      if dict_get payload ''child_prerequisite_bundle_sha256s'' \<noteq> PREREQUISITES then Inl v2_error else
      if \<not> is_text_that safe_child_directory (dict_get payload ''child_campaign_directory'')
      then Inl v2_error else
      andThen (parse_time_field e (dict_get payload ''cutoff'')) (\<lambda>_. Inr ())))"

text \<open>The child campaign that the round is bound to.\<close>

definition validate_child_binding :: "v2_env \<Rightarrow> pydict \<Rightarrow> unit res" where
  "validate_child_binding e payload =
     (if \<not> is_text_that safe_child_directory (dict_get payload ''child_campaign_directory'')
      then Inl v2_error else
      if \<not> child_present e then Inl v2_error else
      andThen (read_json e (child_campaign_file e)) (\<lambda>found.
      (case (case found of None \<Rightarrow> PNone | Some v \<Rightarrow> v) of PDict campaign \<Rightarrow>
        check (dict_get campaign ''campaign_id'' = dict_get payload ''child_campaign_id'' \<and>
          dict_get campaign ''campaign_id'' = PStr SM121_CACHE_PERFORMANCE_CAMPAIGN_ID \<and>
          dict_get campaign ''integrity_hash'' = dict_get payload ''child_campaign_integrity_hash'' \<and>
          (case dict_get campaign ''pair_binding'' of PDict binding \<Rightarrow>
             dict_get binding ''pair_binding_sha256'' = dict_get payload ''child_pair_binding_sha256''
           | _ \<Rightarrow> False) \<and>
          dict_get campaign ''prerequisite_bundle_sha256s'' = PREREQUISITES \<and>
          dict_get payload ''child_prerequisite_bundle_sha256s'' = PREREQUISITES) v2_error
      | _ \<Rightarrow> Inl v2_error)))"

section \<open>Decisions and summaries\<close>

definition decision_from_child :: "pydict \<Rightarrow> pydict \<Rightarrow> string \<times> string" where
  "decision_from_child child_summary audit =
     (let child_status = dict_get child_summary ''status'';
          child_decision = dict_get child_summary ''decision'' in
      if dict_get audit ''ok'' \<noteq> PBool True \<or> \<not> is_text_that (\<lambda>_. True) child_decision
      then (''partial'', ''inconclusive'')
      else if child_status = PStr ''complete'' \<and> child_decision = PStr ''retain_b''
      then (''complete'', ''retain'')
      else if child_status = PStr ''complete'' \<and> child_decision = PStr ''retain_a''
      then (''complete'', ''reject'')
      else if child_decision \<in> {PStr ''no_retention'', PStr ''guardrail_reject'', PStr ''not_evaluated''}
      then (if child_status = PStr ''complete'' then ''complete'' else ''partial'', ''inconclusive'')
      else (''partial'', ''inconclusive''))"

definition SCORE_FIELDS :: "string set" where
  "SCORE_FIELDS = {''status'', ''decision'', ''a_later_wall_s'', ''b_later_wall_s'',
     ''a_full_wall_s'', ''b_full_wall_s'', ''winner_later_wall_ratio'', ''winner_full_wall_ratio''}"

definition score_item :: "string \<times> pyval \<Rightarrow> (string \<times> pyval) res" where
  "score_item item =
     (if fst item \<in> {''status'', ''decision''} then
        (case snd item of
           PStr s \<Rightarrow> if length s > 64 then Inl v2_error else Inr item
         | _ \<Rightarrow> Inl v2_error)
      else if snd item = PNone then Inr item
      else andThen (proposal_float (snd item)) (\<lambda>_. Inr item))"

definition scalar_score :: "pyval \<Rightarrow> pydict res" where
  "scalar_score v = (case v of PDict value \<Rightarrow>
     (if dict_keys value \<noteq> SCORE_FIELDS then Inl v2_error else traverse score_item value)
       | _ \<Rightarrow> Inl v2_error)"

definition sealed :: "v2_env \<Rightarrow> pydict \<Rightarrow> pydict" where
  "sealed e payload = payload @ [(''integrity_hash'', PStr (content_hash e payload))]"

definition round_binding :: "pydict \<Rightarrow> pydict" where
  "round_binding round_payload = [
     (''schema_version'', PInt AUTORESEARCH_V2_SCHEMA_VERSION),
     (''campaign_id'', dict_get round_payload ''campaign_id''),
     (''execution_mode'', dict_get round_payload ''execution_mode''),
     (''child_campaign_id'', dict_get round_payload ''child_campaign_id''),
     (''child_pair_binding_sha256'', dict_get round_payload ''child_pair_binding_sha256'')]"

definition summary_payload :: "v2_env \<Rightarrow> pydict \<Rightarrow> pydict \<Rightarrow> pydict \<Rightarrow> pydict res" where
  "summary_payload e round_payload child_summary audit =
     (let (status, decision) = decision_from_child child_summary audit in
      (case dict_get child_summary ''completed_arms'' of PInt completed_arms \<Rightarrow>
      if completed_arms < 0 \<or> completed_arms > AUTORESEARCH_V2_REQUIRED_LIFETIMES then Inl v2_error else
      (case dict_get child_summary ''status'' of PStr child_status \<Rightarrow>
      (case dict_get child_summary ''decision'' of PStr child_decision \<Rightarrow>
      andThen (scalar_score (dict_get child_summary ''score'')) (\<lambda>score.
      Inr (sealed e (round_binding round_payload @ [
        (''status'', PStr status),
        (''decision'', PStr decision),
        (''child_status'', PStr child_status),
        (''child_decision'', PStr child_decision),
        (''audit_ok'', PBool (dict_get audit ''ok'' = PBool True)),
        (''completed_arms'', PInt completed_arms),
        (''score'', PDict score)])))
      | _ \<Rightarrow> Inl v2_error)
      | _ \<Rightarrow> Inl v2_error)
      | _ \<Rightarrow> Inl v2_error))"

definition failure_summary_payload :: "v2_env \<Rightarrow> pydict \<Rightarrow> string \<Rightarrow> pydict res" where
  "failure_summary_payload e round_payload stage =
     (if stage \<notin> FAILURE_STAGES then Inl v2_error
      else Inr (sealed e (round_binding round_payload @ [
        (''status'', PStr ''partial''),
        (''decision'', PStr ''inconclusive''),
        (''failure_stage'', PStr stage)])))"

section \<open>The journal of a round\<close>

definition normal_names :: "string list" where
  "normal_names = [''autoresearch_v2_round_started'', ''autoresearch_v2_round_scored'',
     ''autoresearch_v2_round_complete'']"

definition failed_names :: "string list" where
  "failed_names = [''autoresearch_v2_round_started'', ''autoresearch_v2_round_failed'']"

definition started_event :: "pydict \<Rightarrow> pydict" where
  "started_event payload = [
     (''event'', PStr ''autoresearch_v2_round_started''),
     (''campaign_id'', dict_get payload ''campaign_id''),
     (''execution_mode'', dict_get payload ''execution_mode''),
     (''definition_sha256'', dict_get payload ''definition_sha256''),
     (''child_pair_binding_sha256'', dict_get payload ''child_pair_binding_sha256'')]"

definition failed_event :: "pydict \<Rightarrow> string \<Rightarrow> pydict" where
  "failed_event payload stage = [
     (''event'', PStr ''autoresearch_v2_round_failed''),
     (''campaign_id'', dict_get payload ''campaign_id''),
     (''child_pair_binding_sha256'', dict_get payload ''child_pair_binding_sha256''),
     (''stage'', PStr stage)]"

definition scored_event :: "pydict \<Rightarrow> pydict \<Rightarrow> pydict" where
  "scored_event payload summary = [
     (''event'', PStr ''autoresearch_v2_round_scored''),
     (''campaign_id'', dict_get payload ''campaign_id''),
     (''child_pair_binding_sha256'', dict_get payload ''child_pair_binding_sha256''),
     (''status'', dict_get summary ''status''),
     (''decision'', dict_get summary ''decision''),
     (''child_status'', dict_get summary ''child_status''),
     (''child_decision'', dict_get summary ''child_decision''),
     (''audit_ok'', dict_get summary ''audit_ok''),
     (''completed_arms'', dict_get summary ''completed_arms'')]"

definition complete_event :: "pydict \<Rightarrow> pydict \<Rightarrow> pydict" where
  "complete_event payload summary = [
     (''event'', PStr ''autoresearch_v2_round_complete''),
     (''campaign_id'', dict_get payload ''campaign_id''),
     (''status'', dict_get summary ''status''),
     (''decision'', dict_get summary ''decision'')]"

definition STRICT_JOURNAL_MAX_BYTES :: int where
  "STRICT_JOURNAL_MAX_BYTES = 64 * 1024 * 1024"

definition round_events :: "v2_env \<Rightarrow> round_dir \<Rightarrow> pydict list res" where
  "round_events e d =
     strict_events (strict_loads e) (steady e) STRICT_JOURNAL_MAX_BYTES (round_journal d)"

text \<open>Whether the names of the events form a journal, and how far it got.\<close>

definition journal_state :: "pyval list \<Rightarrow> bool \<Rightarrow> string res" where
  "journal_state names terminal =
     (if names = map PStr normal_names then Inr ''complete''
      else if names = map PStr failed_names then Inr ''failed''
      else if \<not> terminal \<and> names = take (length names) (map PStr normal_names)
      then Inr (if length names = 1 then ''started'' else ''scored'')
      else Inl v2_error)"

definition same_field :: "pydict \<Rightarrow> pydict \<Rightarrow> string \<Rightarrow> bool" where
  "same_field scalar payload field \<longleftrightarrow> dict_get scalar field = dict_get payload field"

definition check_event :: "pydict \<Rightarrow> string option \<Rightarrow> pydict \<Rightarrow> unit res" where
  "check_event payload failure_stage event =
     (case dict_get event ''event'' of PStr name \<Rightarrow>
     (let scalar = filter (\<lambda>(k, v). k \<noteq> ''timestamp'') event in
     (case map_of EVENT_FIELDS name of None \<Rightarrow> Inl KeyError | Some expected \<Rightarrow>
     if dict_keys scalar \<noteq> expected then Inl v2_error else
     if \<not> same_field scalar payload ''campaign_id'' then Inl v2_error else
     if name = ''autoresearch_v2_round_started'' then
       check (same_field scalar payload ''execution_mode'' \<and>
         same_field scalar payload ''definition_sha256'' \<and>
         same_field scalar payload ''child_pair_binding_sha256'') v2_error
     else if name = ''autoresearch_v2_round_failed'' then
       andThen (in_strings (dict_get scalar ''stage'') FAILURE_STAGES) (\<lambda>known.
       if \<not> known then Inl v2_error else
       if failure_stage \<noteq> None \<and> dict_get scalar ''stage'' \<noteq> PStr (the failure_stage)
       then Inl v2_error else
       check (same_field scalar payload ''child_pair_binding_sha256'') v2_error)
     else Inr ()))
       | _ \<Rightarrow> Inl v2_error)"

definition validate_events ::
  "v2_env \<Rightarrow> round_dir \<Rightarrow> pydict \<Rightarrow> bool \<Rightarrow> string option \<Rightarrow> string res" where
  "validate_events e d payload terminal failure_stage =
     andThen (reraise (\<lambda>x. x = OSError \<or> is_value_error x) v2_error (round_events e d)) (\<lambda>events.
     if events = [] then (if terminal then Inl v2_error else Inr ''unstarted'') else
     andThen (journal_state (map (\<lambda>ev. dict_get ev ''event'') events) terminal) (\<lambda>state.
     andThen (traverse (check_event payload failure_stage) events) (\<lambda>_. Inr state)))"

section \<open>Running a round\<close>

definition append_event ::
  "v2_env \<Rightarrow> nat \<Rightarrow> round_dir \<Rightarrow> pydict \<Rightarrow> round_dir \<times> unit res" where
  "append_event e i d event =
     (let (f, outcome) = journal_append (record_text e) (writes e i) (stamps e i) (round_journal d) event
      in (d\<lparr>round_journal := Some f\<rparr>, outcome))"

text \<open>\<open>write_json\<close> replaces the file in one step or raises and leaves it.\<close>

definition store_summary :: "v2_env \<Rightarrow> round_dir \<Rightarrow> pydict \<Rightarrow> round_dir \<times> unit res" where
  "store_summary e d summary = (case stores e of
       Inl x \<Rightarrow> (d, Inl x)
     | Inr _ \<Rightarrow> (d\<lparr>summary_file := Contents (pretty_text e (PDict summary))\<rparr>, Inr ()))"

definition validate_failure_child_source :: "v2_env \<Rightarrow> string \<Rightarrow> unit res" where
  "validate_failure_child_source e stage =
     (if stage \<notin> FAILURE_STAGES then Inl v2_error else
      andThen (reraise (\<lambda>x. x \<in> {OSError, KeyError, TypeError, EvidenceError} \<or> is_value_error x)
        v2_error (child_source e)) (\<lambda>terminal.
      if \<not> terminal \<and> stage \<noteq> ''child_execution'' then Inl v2_error else Inr ()))"

definition record_terminal_failure ::
  "v2_env \<Rightarrow> round_dir \<Rightarrow> pydict \<Rightarrow> string \<Rightarrow> round_dir \<times> pydict res" where
  "record_terminal_failure e d payload stage =
     (case andThen (validate_failure_child_source e stage) (\<lambda>_.
         failure_summary_payload e payload stage) of
        Inl x \<Rightarrow> (d, Inl x)
      | Inr summary \<Rightarrow>
        (let (d', appended) = append_event e 1 d (failed_event payload stage) in
         case appended of
           Inl x \<Rightarrow> (d', Inl (if is_exception x then v2_error else x))
         | Inr _ \<Rightarrow>
           (let (d'', stored) = store_summary e d' summary in
            case stored of
              Inl x \<Rightarrow> (d'', Inl (if is_exception x then v2_error else x))
            | Inr _ \<Rightarrow> (d'', Inr summary))))"

text \<open>An exception of a stage: recorded and raised again as the failure of that stage.\<close>

definition fail_stage ::
  "v2_env \<Rightarrow> round_dir \<Rightarrow> pydict \<Rightarrow> string \<Rightarrow> exn \<Rightarrow> round_dir \<times> pydict res" where
  "fail_stage e d payload stage x =
     (if \<not> is_exception x then (d, Inl x)
      else (let (d', recorded) = record_terminal_failure e d payload stage in
        (d', andThen recorded (\<lambda>summary. Inl (AutoresearchV2ExecutionFailure stage summary)))))"

definition finish_round ::
  "v2_env \<Rightarrow> round_dir \<Rightarrow> pydict \<Rightarrow> pydict \<Rightarrow> round_dir \<times> pydict res" where
  "finish_round e d payload summary =
     (let (d', scored) = append_event e 1 d (scored_event payload summary) in
      case scored of Inl x \<Rightarrow> (d', Inl x) | Inr _ \<Rightarrow>
     (let (d'', completed) = append_event e 2 d' (complete_event payload summary) in
      case completed of Inl x \<Rightarrow> (d'', Inl x) | Inr _ \<Rightarrow>
     (let (d''', stored) = store_summary e d'' summary in
      (d''', andThen stored (\<lambda>_. Inr summary)))))"

text \<open>Everything \<open>run_autoresearch_v2\<close> checks before it records that the round started.\<close>

definition admit_round :: "v2_env \<Rightarrow> round_dir \<Rightarrow> pydict res" where
  "admit_round e d =
     andThen (load_round e d) (\<lambda>payload.
     andThen (validate_round_definition e payload) (\<lambda>_.
     if summary_file d \<noteq> No_file then Inl v2_error else
     andThen (validate_events e d payload False None) (\<lambda>_.
     andThen (round_events e d) (\<lambda>events.
     if events \<noteq> [] then Inl v2_error else
     andThen (parse_time_field e (dict_get payload ''cutoff'')) (\<lambda>cutoff_at.
     if \<not> enough_time e cutoff_at AUTORESEARCH_V2_MIN_CUTOFF_REMAINING_S then Inl v2_error else
     andThen (validate_child_binding e payload) (\<lambda>_. Inr payload))))))"

definition run_started ::
  "v2_env \<Rightarrow> round_dir \<Rightarrow> pydict \<Rightarrow> round_dir \<times> v2_call list \<times> pydict res" where
  "run_started e d payload =
     (case executed e of
        Inl x \<Rightarrow> (let (d', out) = fail_stage e d payload ''child_execution'' x in (d', [Execute_child], out))
      | Inr child_summary \<Rightarrow>
     (case audited e of
        Inl x \<Rightarrow> (let (d', out) = fail_stage e d payload ''child_audit'' x
                  in (d', [Execute_child, Audit_child], out))
      | Inr audit \<Rightarrow>
     (let (d', out) = (case summary_payload e payload child_summary audit of
        Inl x \<Rightarrow> fail_stage e d payload ''projection'' x
      | Inr summary \<Rightarrow> finish_round e d payload summary) in (d', [Execute_child, Audit_child], out))))"

definition run_autoresearch_v2 ::
  "v2_env \<Rightarrow> round_dir \<Rightarrow> round_dir \<times> v2_call list \<times> pydict res" where
  "run_autoresearch_v2 e d =
     (case admit_round e d of
        Inl x \<Rightarrow> (d, [], Inl x)
      | Inr payload \<Rightarrow>
        (let (d', started) = append_event e 0 d (started_event payload) in
         case started of
           Inl x \<Rightarrow> (d', [], Inl x)
         | Inr _ \<Rightarrow> run_started e d' payload))"

section \<open>Auditing a round\<close>

definition read_child_summary :: "v2_env \<Rightarrow> pydict res" where
  "read_child_summary e = andThen (read_json e (child_summary_file e)) (\<lambda>found.
     (case (case found of None \<Rightarrow> PNone | Some v \<Rightarrow> v) of PDict raw \<Rightarrow> Inr raw | _ \<Rightarrow> Inl v2_error))"

definition summarize_failed :: "v2_env \<Rightarrow> round_dir \<Rightarrow> pydict \<Rightarrow> pyval \<Rightarrow> pydict res" where
  "summarize_failed e d payload saved =
     andThen (validate_hashed_payload e saved FAILURE_SUMMARY_FIELDS) (\<lambda>saved_payload.
     (case dict_get saved_payload ''failure_stage'' of PStr stage \<Rightarrow>
     andThen (validate_events e d payload True (Some stage)) (\<lambda>_.
     andThen (failure_summary_payload e payload stage) (\<lambda>expected.
     if \<not> same_dict saved_payload expected then Inl v2_error else
     andThen (validate_failure_child_source e stage) (\<lambda>_. Inr saved_payload)))
       | _ \<Rightarrow> Inl v2_error))"

definition summarize_autoresearch_v2 :: "v2_env \<Rightarrow> round_dir \<Rightarrow> pydict res" where
  "summarize_autoresearch_v2 e d =
     andThen (load_round e d) (\<lambda>payload.
     andThen (validate_round_definition e payload) (\<lambda>_.
     andThen (validate_child_binding e payload) (\<lambda>_.
     andThen (read_json e (summary_file d)) (\<lambda>found.
     (case found of None \<Rightarrow> Inl v2_error | Some saved \<Rightarrow>
     andThen (validate_events e d payload True None) (\<lambda>event_state.
     if event_state = ''failed'' then summarize_failed e d payload saved else
     andThen (validate_hashed_payload e saved SUMMARY_FIELDS) (\<lambda>saved_payload.
     andThen (read_child_summary e) (\<lambda>source_summary.
     andThen (audited e) (\<lambda>audit.
     andThen (summary_payload e payload source_summary audit) (\<lambda>expected.
     if \<not> same_dict saved_payload expected then Inl v2_error else Inr saved_payload))))))))))"

section \<open>Freezing a round\<close>

text \<open>
  What freezing asks of the rest of the program: the profiles of the model manifest and the
  identifier of the suite (or the exception that reading them raises), whether the directory
  could be made, and the child the planner created: its directory name and its campaign file.
\<close>

record freeze_env =
  manifest_paths :: "string \<Rightarrow> manifest_path"
  toml_document :: "pyval option"
  inventory :: "(string list \<times> string) res"
  made_directory :: "unit res"
  planned_child :: "(string \<times> text_file) res"

definition load_inventory :: "freeze_env \<Rightarrow> v2_definition \<Rightarrow> string res" where
  "load_inventory fe d =
     reraise (\<lambda>x. x \<in> {ManifestError, KeyError}) v2_error
       (andThen (inventory fe) (\<lambda>(profiles, suite_id).
         if control_profile_id d \<in> set profiles \<and> candidate_profile_id d \<in> set profiles
         then Inr suite_id else Inl KeyError))"

definition frozen_payload ::
  "v2_env \<Rightarrow> v2_definition \<Rightarrow> string \<Rightarrow> string \<Rightarrow> pydict \<Rightarrow> pydict \<Rightarrow> pydict" where
  "frozen_payload e d cutoff child_name campaign binding = sealed e [
     (''schema_version'', PInt AUTORESEARCH_V2_SCHEMA_VERSION),
     (''campaign_id'', PStr (campaign_id d)),
     (''created_at'', PStr (stamps e 0)),
     (''cutoff'', PStr cutoff),
     (''execution_mode'', PStr AUTORESEARCH_V2_EXECUTION_MODE),
     (''definition_sha256'', PStr (definition_sha256 e d)),
     (''runner'', PStr (runner d)),
     (''axis'', PStr (axis d)),
     (''control_profile_id'', PStr (control_profile_id d)),
     (''candidate_profile_id'', PStr (candidate_profile_id d)),
     (''control_arm'', PStr (control_arm d)),
     (''candidate_arm'', PStr (candidate_arm d)),
     (''suite_id'', PStr SM121_CACHE_PERFORMANCE_SUITE_ID),
     (''cell_timeout_s'', PInt (cell_timeout_s d)),
     (''required_lifetimes'', PInt (required_lifetimes d)),
     (''primary'', PStr (primary d)),
     (''promotion_ratio'', PFloat (FFin (promotion_ratio d))),
     (''full_wall_guardrail_ratio'', PFloat (FFin (full_wall_guardrail_ratio d))),
     (''min_cutoff_remaining_s'', PInt (min_cutoff_remaining_s d)),
     (''child_campaign_id'', PStr SM121_CACHE_PERFORMANCE_CAMPAIGN_ID),
     (''child_campaign_directory'', PStr child_name),
     (''child_campaign_integrity_hash'', dict_get campaign ''integrity_hash''),
     (''child_pair_binding_sha256'', dict_get binding ''pair_binding_sha256''),
     (''child_prerequisite_bundle_sha256s'', PREREQUISITES)]"

text \<open>The child campaign as the freeze reads it; its errors are not translated.\<close>

definition child_campaign :: "v2_env \<Rightarrow> string \<Rightarrow> text_file \<Rightarrow> (pydict \<times> pydict) res" where
  "child_campaign e child_name fl = (case fl of
       No_file \<Rightarrow> Inl OSError
     | Unreadable \<Rightarrow> Inl OSError
     | Undecodable \<Rightarrow> Inl ValueError
     | Contents t \<Rightarrow>
     (case json_loads e t of None \<Rightarrow> Inl ValueError | Some v \<Rightarrow>
     (case v of PDict campaign \<Rightarrow>
     (case dict_get campaign ''pair_binding'' of PDict binding \<Rightarrow>
       if \<not> safe_child_directory child_name
         \<or> \<not> is_text_that (\<lambda>_. True) (dict_get campaign ''integrity_hash'')
         \<or> \<not> is_text_that (\<lambda>_. True) (dict_get binding ''pair_binding_sha256'')
       then Inl v2_error else Inr (campaign, binding)
       | _ \<Rightarrow> Inl v2_error)
       | _ \<Rightarrow> Inl v2_error)))"

text \<open>The round directory that is left, if one was made, and its payload.\<close>

definition freeze_autoresearch_v2 ::
  "v2_env \<Rightarrow> freeze_env \<Rightarrow> string \<Rightarrow> round_dir option \<times> pydict res" where
  "freeze_autoresearch_v2 e fe cutoff =
     (case andThen (load_definition (manifest_paths fe) (toml_document fe)) (\<lambda>d.
         andThen (parse_cutoff e cutoff) (\<lambda>cutoff_at.
         if \<not> enough_time e cutoff_at (min_cutoff_remaining_s d) then Inl v2_error else
         andThen (load_inventory fe d) (\<lambda>suite_id.
         if suite_id \<noteq> SM121_CACHE_PERFORMANCE_SUITE_ID then Inl v2_error else
         andThen (made_directory fe) (\<lambda>_. Inr d)))) of
        Inl x \<Rightarrow> (None, Inl x)
      | Inr d \<Rightarrow>
        (let empty = \<lparr>resolves = True, in_result_root = True, round_file = No_file,
           summary_file = No_file, round_journal = None\<rparr> in
         case andThen (planned_child fe) (\<lambda>(child_name, fl).
             andThen (child_campaign e child_name fl) (\<lambda>(campaign, binding).
             Inr (frozen_payload e d cutoff child_name campaign binding))) of
           Inl x \<Rightarrow> (Some empty, Inl x)
         | Inr payload \<Rightarrow>
           (case stores e of
              Inl x \<Rightarrow> (Some empty, Inl x)
            | Inr _ \<Rightarrow> (Some (empty\<lparr>round_file := Contents (pretty_text e (PDict payload))\<rparr>),
                Inr payload))))"

end
