(* ===== verification/Round_V2_Audit.thy ===== *)
theory Round_V2_Audit
  imports Round_V2 Mapping_Codec
begin

text \<open>
  How the operations of a round act on its directory: an append leaves a journal that is not
  empty, the records a run writes are the events the audit accepts, a sealed payload that was
  stored is accepted when it is read back, and a frozen round is admitted.
\<close>

section \<open>A journal that was written is not empty\<close>

lemma lines_acc_nonempty: "s \<noteq> [] \<or> acc \<noteq> [] \<Longrightarrow> lines_acc B acc s \<noteq> []"
  by (induction B acc s rule: lines_acc.induct) auto

lemma strict_events_written:
  assumes "content f \<noteq> []"
  shows "strict_events l u b (Some f) \<noteq> Inr []"
proof -
  have "splitlines_bytes (content f) \<noteq> []"
    using assms lines_acc_nonempty by (simp add: splitlines_bytes_def)
  then show ?thesis
    using assms by (auto simp: strict_events_def traverse_eq_Inr)
qed

definition written :: "round_dir \<Rightarrow> bool" where
  "written d \<longleftrightarrow> (\<exists>f. round_journal d = Some f \<and> content f \<noteq> [])"

lemma append_event_cases:
  assumes "append_event e i d event = (d', outcome)"
  obtains f where "d' = d\<lparr>round_journal := Some f\<rparr>"
    "journal_append (record_text e) (writes e i) (stamps e i) (round_journal d) event = (f, outcome)"
  using assms by (auto simp: append_event_def Let_def split: prod.splits)

lemma append_outcome:
  assumes "journal_append dump os_write now fl event = (f, outcome)"
  shows "outcome = Inr () \<or> outcome = Inl OSError"
proof (cases "safe_file (case fl of Some g \<Rightarrow> g | None \<Rightarrow> new_file)")
  case True
  then show ?thesis using journal_append_cases [OF assms] by (auto split: if_splits)
next
  case False
  then show ?thesis using assms by (auto simp: journal_append_def Let_def)
qed

lemma append_event_written:
  assumes "append_event e i d event = (d', outcome)" and "outcome = Inr () \<or> written d"
  shows "written d'"
proof -
  let ?g = "case round_journal d of Some g \<Rightarrow> g | None \<Rightarrow> new_file"
  from assms(1) obtain f where d': "d' = d\<lparr>round_journal := Some f\<rparr>"
    and app: "journal_append (record_text e) (writes e i) (stamps e i) (round_journal d) event = (f, outcome)"
    by (rule append_event_cases)
  have "content f \<noteq> []"
  proof (cases "safe_file ?g")
    case True
    from journal_append_cases [OF app True] assms(2) show ?thesis
      by (auto simp: written_def append_payload_def split: option.splits)
  next
    case False
    then have "f = ?g" "outcome = Inl OSError"
      using app by (auto simp: journal_append_def Let_def)
    then show ?thesis using assms(2) by (auto simp: written_def)
  qed
  then show ?thesis by (simp add: written_def d')
qed

lemma store_summary_journal:
  "store_summary e d summary = (d', outcome) \<Longrightarrow> round_journal d' = round_journal d"
  by (auto simp: store_summary_def split: sum.splits)

lemma fail_stage_written:
  assumes "fail_stage e d payload stage x = (d', outcome)" and "written d"
  shows "written d'"
  using assms append_event_written store_summary_journal
  by (fastforce simp: fail_stage_def record_terminal_failure_def Let_def written_def
      split: if_splits prod.splits sum.splits)

lemma finish_round_written:
  assumes "finish_round e d payload summary = (d', outcome)" and "written d"
  shows "written d'"
  using assms append_event_written store_summary_journal
  by (fastforce simp: finish_round_def Let_def written_def split: prod.splits sum.splits)

lemma run_started_written:
  assumes "run_started e d payload = (d', calls, outcome)" and "written d"
  shows "written d'"
  using assms fail_stage_written finish_round_written
  by (fastforce simp: run_started_def Let_def split: prod.splits sum.splits)

text \<open>What must hold for the child to be executed.\<close>

lemma run_executes:
  assumes "run_autoresearch_v2 e d = (d', calls, outcome)" and "calls \<noteq> []"
  obtains payload d1 where "admit_round e d = Inr payload"
    "append_event e 0 d (started_event payload) = (d1, Inr ())"
    "run_started e d1 payload = (d', calls, outcome)" "written d1"
  using assms append_event_written
  by (fastforce simp: run_autoresearch_v2_def Let_def split: prod.splits sum.splits)

lemma admit_round_Inr:
  assumes "admit_round e d = Inr payload"
  shows "load_round e d = Inr payload" and "validate_round_definition e payload = Inr ()"
    and "summary_file d = No_file" and "round_events e d = Inr []"
    and "\<exists>cutoff_at. parse_time_field e (dict_get payload ''cutoff'') = Inr cutoff_at \<and>
      enough_time e cutoff_at AUTORESEARCH_V2_MIN_CUTOFF_REMAINING_S"
    and "validate_child_binding e payload = Inr ()"
  using assms by (auto simp: admit_round_def andThen_eq_Inr split: if_splits)

lemma written_not_admitted: "written d \<Longrightarrow> admit_round e d \<noteq> Inr payload"
  using admit_round_Inr(4) strict_events_written by (fastforce simp: written_def round_events_def)

section \<open>Runs repeated in any environments\<close>

fun run_repeatedly :: "v2_env list \<Rightarrow> round_dir \<Rightarrow> round_dir \<times> v2_call list" where
  "run_repeatedly [] d = (d, [])"
| "run_repeatedly (e # es) d =
     (let (d', calls, _) = run_autoresearch_v2 e d; (d'', more) = run_repeatedly es d'
      in (d'', calls @ more))"

lemma run_written_refused:
  assumes "written d"
  shows "\<exists>x. run_autoresearch_v2 e d = (d, [], Inl x)"
  using written_not_admitted [OF assms, of e]
  by (cases "admit_round e d") (auto simp: run_autoresearch_v2_def)

lemma run_repeatedly_written: "written d \<Longrightarrow> run_repeatedly es d = (d, [])"
proof (induction es)
  case (Cons e es)
  then show ?case using run_written_refused [of d e] by auto
qed simp

lemma run_started_calls:
  "run_started e d payload = (d', calls, outcome) \<Longrightarrow> count_list calls Execute_child = 1"
  by (auto simp: run_started_def Let_def split: prod.splits sum.splits)

lemma repeated_executions: "count_list (snd (run_repeatedly es d)) Execute_child \<le> 1"
proof (induction es arbitrary: d)
  case (Cons e es)
  obtain d' calls outcome where run: "run_autoresearch_v2 e d = (d', calls, outcome)"
    by (metis prod_cases3)
  show ?case
  proof (cases "calls = []")
    case True
    then show ?thesis using Cons [of d'] run by (simp add: case_prod_beta Let_def)
  next
    case False
    with run obtain payload d1 where started: "run_started e d1 payload = (d', calls, outcome)"
      and "written d1" by (rule run_executes)
    then have "written d'" by (rule run_started_written)
    then show ?thesis
      using run run_started_calls [OF started] run_repeatedly_written by simp
  qed
qed simp

section \<open>Objects that are the same JSON value\<close>

text \<open>Two dicts with the same canonical form: equal up to the order of their keys.\<close>

definition same_json :: "pydict \<Rightarrow> pydict \<Rightarrow> bool" where
  "same_json a b \<longleftrightarrow> canonical (PDict a) = canonical (PDict b)"

definition canonical_items :: "pydict \<Rightarrow> pydict" where
  "canonical_items d = map (\<lambda>(k, v). (k, canonical v)) d"

lemma canonical_dict: "canonical (PDict d) = PDict (sort_key fst (canonical_items d))"
  by (simp add: canonical_items_def)

lemma canonical_items_keys [simp]: "map fst (canonical_items d) = map fst d"
  by (simp add: canonical_items_def case_prod_beta comp_def)

lemma canonical_plain [simp]:
  "canonical v = PStr s \<longleftrightarrow> v = PStr s" "PStr s = canonical v \<longleftrightarrow> v = PStr s"
  "canonical v = PNone \<longleftrightarrow> v = PNone" "canonical v = PBool b \<longleftrightarrow> v = PBool b"
  "canonical v = PInt n \<longleftrightarrow> v = PInt n"
  by (cases v; auto)+

lemma same_json_sorted:
  assumes "same_json a b"
  shows "sort_key fst (canonical_items a) = sort_key fst (canonical_items b)"
  using assms by (simp add: same_json_def canonical_items_def)

lemma same_json_keys:
  assumes "same_json a b"
  shows "dict_keys a = dict_keys b" and "distinct (map fst b) \<Longrightarrow> distinct (map fst a)"
proof -
  have keys: "set (map fst (sort_key fst (canonical_items d))) = dict_keys d" for d :: pydict
    by (simp add: dict_keys_def canonical_items_def image_image case_prod_beta)
  show "dict_keys a = dict_keys b"
    using same_json_sorted [OF assms] keys [of a] keys [of b] by simp
  have dist: "distinct (map fst (sort_key fst (canonical_items d))) = distinct (map fst d)"
    for d :: pydict
    by (metis canonical_items_keys distinct_map distinct_sort set_sort)
  then show "distinct (map fst b) \<Longrightarrow> distinct (map fst a)"
    using same_json_sorted [OF assms] dist [of a] dist [of b] by simp
qed

lemma same_json_get:
  assumes "same_json a b" and "distinct (map fst b)"
  shows "canonical (dict_get a k) = canonical (dict_get b k)"
proof -
  have get: "canonical (dict_get d k) = dict_get (sort_key fst (canonical_items d)) k"
    if "distinct (map fst d)" for d
    using that
    by (auto simp: dict_get_def map_of_sort_key canonical_items_def map_of_map case_prod_beta
        comp_def split: option.splits)
  show ?thesis
    using get [of a] get [of b] same_json_keys(2) [OF assms] assms(2) same_json_sorted [OF assms(1)]
    by simp
qed

lemma same_json_without:
  assumes "same_json a b"
  shows "same_json (filter (\<lambda>(k, v). k \<noteq> h) a) (filter (\<lambda>(k, v). k \<noteq> h) b)"
proof -
  have without: "(\<lambda>(k, v). k \<noteq> h) = (\<lambda>x :: string \<times> pyval. fst x \<noteq> h)" by auto
  have "canonical (PDict (filter (\<lambda>(k, v). k \<noteq> h) d))
      = PDict (filter (\<lambda>(k, v). k \<noteq> h) (sort_key fst (canonical_items d)))" for d
    by (simp add: canonical_items_def filter_sort filter_map without case_prod_beta comp_def)
  then show ?thesis using same_json_sorted [OF assms] by (simp add: same_json_def)
qed

text \<open>A sealed payload, read back in any order of its keys, is accepted.\<close>

lemma sealed_validated:
  assumes "same_json saved (sealed e p)" and "distinct (map fst p)"
    and "''integrity_hash'' \<notin> dict_keys p" and "insert ''integrity_hash'' (dict_keys p) = names"
    and "sha256_hex (content_hash e p)"
  shows "validate_hashed_payload e (PDict saved) names = Inr saved"
proof -
  have d: "distinct (map fst (sealed e p))"
    using assms(2,3) by (auto simp: sealed_def dict_keys_def)
  have "dict_keys (sealed e p) = names"
    using assms(4) by (auto simp: sealed_def dict_keys_def)
  then have "dict_keys saved = names" using same_json_keys(1) [OF assms(1)] by simp
  moreover have "dict_get (sealed e p) ''integrity_hash'' = PStr (content_hash e p)"
    using assms(3)
    by (auto simp: sealed_def dict_get_def dict_keys_def map_add_def split: option.splits
        dest!: map_of_SomeD intro: rev_image_eqI)
  then have "dict_get saved ''integrity_hash'' = PStr (content_hash e p)"
    using same_json_get [OF assms(1) d, of "''integrity_hash''"] by simp
  moreover have "payload_without_hash (sealed e p) = p"
    using assms(3)
    by (force simp: payload_without_hash_def sealed_def dict_keys_def filter_id_conv)
  then have "content_hash e (payload_without_hash saved) = content_hash e p"
    using same_json_without [OF assms(1)]
    by (simp add: content_hash_def same_json_def payload_without_hash_def)
  ultimately show ?thesis
    using assms(5) by (simp add: validate_hashed_payload_def)
qed

section \<open>Reading the journal of a round\<close>

text \<open>
  What the reader needs of the record that append \<open>i\<close> writes: its text is one line, and it is
  read as the same object \<open>ev\<close>, in whatever order of the keys.
\<close>

definition reads_as :: "v2_env \<Rightarrow> nat \<Rightarrow> pydict \<Rightarrow> pydict \<Rightarrow> bool" where
  "reads_as e i event ev \<longleftrightarrow> same_json ev (stamped (stamps e i) event) \<and>
     (let text = record_text e (PDict (stamped (stamps e i) event)) in
      text \<noteq> [] \<and> set text \<inter> byte_breaks = {} \<and> strict_loads e text = Some (PDict ev))"

definition fits :: "round_dir \<Rightarrow> bool" where
  "fits d \<longleftrightarrow> (case round_journal d of None \<Rightarrow> True
     | Some f \<Rightarrow> int (length (content f)) \<le> STRICT_JOURNAL_MAX_BYTES)"

lemma append_event_grows:
  assumes "append_event e i d event = (d', outcome)" and "fits d'"
  shows "fits d"
proof -
  from assms(1) obtain f where d': "d' = d\<lparr>round_journal := Some f\<rparr>"
    and app: "journal_append (record_text e) (writes e i) (stamps e i) (round_journal d) event = (f, outcome)"
    by (rule append_event_cases)
  show ?thesis
  proof (cases "round_journal d")
    case (Some g)
    have "length (content g) \<le> length (content f)"
    proof (cases "safe_file g")
      case True
      then show ?thesis using journal_append_cases [OF app] Some by auto
    next
      case False
      then show ?thesis using app Some by (auto simp: journal_append_def Let_def)
    qed
    then show ?thesis using assms(2) Some by (auto simp: fits_def d')
  qed (simp add: fits_def)
qed

lemma events_after_append:
  assumes "round_events e d = Inr evs" and "append_event e i d event = (d', Inr ())"
    and "reads_as e i event ev" and "fits d'" and "steady e"
  shows "round_events e d' = Inr (evs @ [ev])"
proof -
  define g where "g = (case round_journal d of Some g \<Rightarrow> g | None \<Rightarrow> new_file)"
  let ?line = "record_text e (PDict (stamped (stamps e i) event))"
  from assms(2) obtain f where d': "d' = d\<lparr>round_journal := Some f\<rparr>"
    and app: "journal_append (record_text e) (writes e i) (stamps e i) (round_journal d) event = (f, Inr ())"
    by (rule append_event_cases)
  have line: "?line \<noteq> []" "set ?line \<inter> byte_breaks = {}" "strict_loads e ?line = Some (PDict ev)"
    using assms(3) by (simp_all add: reads_as_def Let_def)
  have safe: "safe_file g" and safe': "safe_file f"
    using app by (auto simp: journal_append_def Let_def g_def safe_file_content split: if_splits prod.splits)
  have read: "traverse (strict_line (strict_loads e)) (splitlines_bytes (content g)) = Inr evs"
    and ends: "content g = [] \<or> last (content g) = LF"
    using assms(1) by (auto simp: round_events_def strict_events_def g_def new_file_def
        splitlines_bytes_def split: option.splits if_splits)
  have content: "content f = content g @ ?line @ [LF]"
    using journal_append_cases [OF app] safe ends
    by (auto simp: g_def append_payload_def needs_separator_def new_file_def split: option.splits)
  have "splitlines_bytes (content f) = splitlines_bytes (content g) @ [?line]"
    unfolding content using ends line(2) by (rule splitlines_bytes_append)
  then show ?thesis
    using read safe' assms(4,5) line content
    by (simp add: round_events_def strict_events_def d' fits_def traverse_append strict_line_def
        STRICT_JOURNAL_MAX_BYTES_def)
qed

section \<open>The events a run writes are the events the audit accepts\<close>

lemma scalar_of_record:
  assumes "same_json ev (stamped now event)" and "''timestamp'' \<notin> dict_keys event"
  shows "same_json (filter (\<lambda>(k, v). k \<noteq> ''timestamp'') ev) event"
proof -
  have "filter (\<lambda>(k, v). k \<noteq> ''timestamp'') event = event"
    using assms(2) by (force simp: filter_id_conv dict_keys_def)
  then show ?thesis
    using same_json_without [OF assms(1), of "''timestamp''"] assms(2)
    by (auto simp: stamped_def dict_keys_def split: option.splits dest: map_of_SomeD)
qed

text \<open>The fields of a validated round that are strings.\<close>

definition round_strings :: "pydict \<Rightarrow> bool" where
  "round_strings payload \<longleftrightarrow> (\<forall>k \<in> {''campaign_id'', ''execution_mode'', ''definition_sha256'',
     ''child_campaign_id'', ''child_pair_binding_sha256''}. \<exists>s. dict_get payload k = PStr s)"

lemma validated_round:
  assumes "validate_round_definition e payload = Inr u"
  shows "dict_get payload ''campaign_id'' = PStr AUTORESEARCH_V2_CAMPAIGN_ID"
    and "dict_get payload ''execution_mode'' = PStr AUTORESEARCH_V2_EXECUTION_MODE"
    and "dict_get payload ''child_campaign_id'' = PStr SM121_CACHE_PERFORMANCE_CAMPAIGN_ID"
    and "dict_get payload ''definition_sha256'' = PStr (expected_definition_sha256 e)"
    and "is_text_that prefixed_sha256 (dict_get payload ''child_pair_binding_sha256'')"
proof -
  have expected: "list_all (\<lambda>(field, expected). py_equals (dict_get payload field) expected)
      expected_round_fields"
    and proposal: "dict_get payload ''definition_sha256'' = PStr (expected_definition_sha256 e)"
    and binding: "is_text_that prefixed_sha256 (dict_get payload ''child_pair_binding_sha256'')"
    using assms unfolding validate_round_definition_def guard_eq_Inr andThen_eq_Inr by blast+
  from expected show "dict_get payload ''campaign_id'' = PStr AUTORESEARCH_V2_CAMPAIGN_ID"
    "dict_get payload ''execution_mode'' = PStr AUTORESEARCH_V2_EXECUTION_MODE"
    "dict_get payload ''child_campaign_id'' = PStr SM121_CACHE_PERFORMANCE_CAMPAIGN_ID"
    by (simp_all add: expected_round_fields_def)
  from proposal binding show "dict_get payload ''definition_sha256'' = PStr (expected_definition_sha256 e)"
    "is_text_that prefixed_sha256 (dict_get payload ''child_pair_binding_sha256'')" .
qed

lemma round_string:
  assumes "round_strings payload" and "k \<in> {''campaign_id'', ''execution_mode'', ''definition_sha256'',
    ''child_campaign_id'', ''child_pair_binding_sha256''}"
  shows "\<exists>s. dict_get payload k = PStr s"
  by (rule bspec [OF assms(1) [unfolded round_strings_def] assms(2)])

lemma validated_round_strings:
  assumes "validate_round_definition e payload = Inr u"
  shows "round_strings payload"
  using validated_round [OF assms]
  by (cases "dict_get payload ''child_pair_binding_sha256''")
    (simp_all add: round_strings_def is_text_that_def)

lemma no_stamp: "''timestamp'' \<notin> dict_keys event \<Longrightarrow> stamped now event = (''timestamp'', PStr now) # event"
  by (simp add: stamped_def dict_keys_def map_of_eq_None_iff [symmetric])

text \<open>A record is checked like the event it was written from.\<close>

lemma check_event_read:
  assumes "reads_as e i event ev" and "distinct (map fst event)" and "''timestamp'' \<notin> dict_keys event"
    and "dict_get event ''event'' = PStr name" and "round_strings payload"
    and "dict_get event ''stage'' = PNone \<or> dict_get event ''stage'' = PStr stage"
  shows "check_event payload fs ev = check_event payload fs event"
    and "dict_get ev ''event'' = PStr name"
proof -
  let ?sc = "filter (\<lambda>(k, v). k \<noteq> ''timestamp'') ev"
  have ev: "same_json ev (stamped (stamps e i) event)" using assms(1) by (simp add: reads_as_def)
  have "distinct (map fst (stamped (stamps e i) event))"
    using assms(2,3) by (simp add: no_stamp dict_keys_def)
  then show name: "dict_get ev ''event'' = PStr name"
    using same_json_get [OF ev, of "''event''"] assms(3,4) by (simp add: no_stamp)
  have sc: "same_json ?sc event" using ev assms(3) by (rule scalar_of_record)
  note got = same_json_get [OF sc assms(2)]
  have field: "same_field ?sc payload k = same_field event payload k"
    if "\<exists>s. dict_get payload k = PStr s" for k
    using got [of k] that by (auto simp: same_field_def)
  have stage: "dict_get ?sc ''stage'' = dict_get event ''stage''"
    using got [of "''stage''"] assms(6) by auto
  have same: "filter (\<lambda>(k, v). k \<noteq> ''timestamp'') event = event"
    using assms(3) by (force simp: filter_id_conv dict_keys_def)
  show "check_event payload fs ev = check_event payload fs event"
    unfolding check_event_def Let_def
    by (simp add: name assms(4) same stage field round_string [OF assms(5)] same_json_keys(1) [OF sc]
        cong: option.case_cong if_cong)
qed

lemmas event_defs = started_event_def scored_event_def complete_event_def failed_event_def

lemma event_shape:
  "distinct (map fst (started_event payload))" "''timestamp'' \<notin> dict_keys (started_event payload)"
  "distinct (map fst (scored_event payload s))" "''timestamp'' \<notin> dict_keys (scored_event payload s)"
  "distinct (map fst (complete_event payload s))" "''timestamp'' \<notin> dict_keys (complete_event payload s)"
  "distinct (map fst (failed_event payload st))" "''timestamp'' \<notin> dict_keys (failed_event payload st)"
  by (simp_all add: event_defs)

lemma event_names:
  "dict_get (started_event payload) ''event'' = PStr ''autoresearch_v2_round_started''"
  "dict_get (scored_event payload s) ''event'' = PStr ''autoresearch_v2_round_scored''"
  "dict_get (complete_event payload s) ''event'' = PStr ''autoresearch_v2_round_complete''"
  "dict_get (failed_event payload st) ''event'' = PStr ''autoresearch_v2_round_failed''"
  by (simp_all add: event_defs)

lemma event_stages:
  "dict_get (started_event payload) ''stage'' = PNone" "dict_get (scored_event payload s) ''stage'' = PNone"
  "dict_get (complete_event payload s) ''stage'' = PNone"
  "dict_get (failed_event payload st) ''stage'' = PStr st"
  by (simp_all add: event_defs)

lemma events_checked:
  "check_event payload fs (started_event payload) = Inr ()"
  "check_event payload fs (scored_event payload s) = Inr ()"
  "check_event payload fs (complete_event payload s) = Inr ()"
  "st \<in> FAILURE_STAGES \<Longrightarrow> fs \<in> {None, Some st} \<Longrightarrow>
     check_event payload fs (failed_event payload st) = Inr ()"
  by (auto simp: check_event_def EVENT_FIELDS_def event_defs same_field_def)

text \<open>The records of a run, read back: checked, and with their names.\<close>

lemma record_checked:
  assumes "round_strings payload"
  shows "reads_as e i (started_event payload) ev \<Longrightarrow> check_event payload fs ev = Inr () \<and>
      dict_get ev ''event'' = PStr ''autoresearch_v2_round_started''"
    and "reads_as e i (scored_event payload s) ev \<Longrightarrow> check_event payload fs ev = Inr () \<and>
      dict_get ev ''event'' = PStr ''autoresearch_v2_round_scored''"
    and "reads_as e i (complete_event payload s) ev \<Longrightarrow> check_event payload fs ev = Inr () \<and>
      dict_get ev ''event'' = PStr ''autoresearch_v2_round_complete''"
    and "reads_as e i (failed_event payload st) ev \<Longrightarrow> st \<in> FAILURE_STAGES \<Longrightarrow> fs \<in> {None, Some st} \<Longrightarrow>
      check_event payload fs ev = Inr () \<and> dict_get ev ''event'' = PStr ''autoresearch_v2_round_failed''"
proof -
  show "check_event payload fs ev = Inr () \<and> dict_get ev ''event'' = PStr ''autoresearch_v2_round_started''"
    if r: "reads_as e i (started_event payload) ev"
    using check_event_read [OF r event_shape(1,2) event_names(1) assms disjI1 [OF event_stages(1)]]
      events_checked(1) by simp
  show "check_event payload fs ev = Inr () \<and> dict_get ev ''event'' = PStr ''autoresearch_v2_round_scored''"
    if r: "reads_as e i (scored_event payload s) ev"
    using check_event_read [OF r event_shape(3,4) event_names(2) assms disjI1 [OF event_stages(2)]]
      events_checked(2) by simp
  show "check_event payload fs ev = Inr () \<and> dict_get ev ''event'' = PStr ''autoresearch_v2_round_complete''"
    if r: "reads_as e i (complete_event payload s) ev"
    using check_event_read [OF r event_shape(5,6) event_names(3) assms disjI1 [OF event_stages(3)]]
      events_checked(3) by simp
  show "check_event payload fs ev = Inr () \<and> dict_get ev ''event'' = PStr ''autoresearch_v2_round_failed''"
    if r: "reads_as e i (failed_event payload st) ev" and "st \<in> FAILURE_STAGES" "fs \<in> {None, Some st}"
    using check_event_read [OF r event_shape(7,8) event_names(4) assms disjI2 [OF event_stages(4)]]
      events_checked(4) [OF that(2,3)] by simp
qed

section \<open>Comparing payloads\<close>

text \<open>A value without arrays, as every summary is.\<close>

fun flat :: "pyval \<Rightarrow> bool" where
  "flat (PList _) = False"
| "flat (PTuple _) = False"
| "flat (PDict d) = (\<forall>(k, v) \<in> set d. flat v)"
| "flat _ = True"

lemma sort_key_map_fst:
  assumes "\<And>x. fst (g x) = fst x"
  shows "sort_key fst (map g xs) = map g (sort_key fst xs)"
proof -
  have "insort_key fst (g x) (map g ys) = map g (insort_key fst x ys)" for x ys
    by (induction ys) (simp_all add: assms)
  then show ?thesis by (induction xs) simp_all
qed

lemma flat_canonical: "flat (canonical v) = flat v"
proof (induction v)
  case (PDict d)
  then show ?case by fastforce
qed simp_all

lemma by_value_canonical: "flat v \<Longrightarrow> by_value (canonical v) = by_value v"
proof (induction v)
  case (PDict d)
  have same: "map (\<lambda>(k, v). (k, by_value (canonical v))) d = map (\<lambda>(k, v). (k, by_value v)) d"
    using PDict by fastforce
  have "sort_key fst (map (\<lambda>(k, v). (k, f v)) (sort_key fst (map (\<lambda>(k, v). (k, g v)) d)))
      = sort_key fst (map (\<lambda>(k, v). (k, f (g v))) d)" for f g :: "pyval \<Rightarrow> pyval"
    by (subst (1 3) sort_key_map_fst) (simp_all add: case_prod_beta' comp_def sort_key_map_fst sort_key_id_if_sorted)
  then show ?case by (simp only: canonical.simps by_value.simps same)
qed simp_all

lemma same_json_same_dict:
  assumes "same_json a b" and "flat (PDict b)"
  shows "same_dict a b"
proof -
  have "canonical (PDict a) = canonical (PDict b)" using assms(1) by (simp only: same_json_def)
  moreover from this have "flat (PDict a)" using assms(2) by (metis flat_canonical)
  ultimately show ?thesis
    using by_value_canonical assms(2) unfolding same_dict_def by metis
qed

section \<open>Summaries\<close>

lemma score_item_flat: "score_item item = Inr item' \<Longrightarrow> flat (snd item')"
  by (cases item; cases "snd item")
    (auto simp: score_item_def proposal_float_def andThen_eq_Inr split: if_splits)

lemma scalar_score_flat:
  assumes "scalar_score v = Inr score"
  shows "flat (PDict score)"
proof -
  from assms obtain d where "traverse score_item d = Inr score"
    unfolding scalar_score_def object_Inr guard_eq_Inr by blast
  then have "\<forall>y \<in> set score. flat (snd y)" by (rule traverse_prop) (rule score_item_flat)
  then show ?thesis by auto
qed

definition summary_body :: "pydict \<Rightarrow> string \<Rightarrow> string \<Rightarrow> string \<Rightarrow> string \<Rightarrow> bool \<Rightarrow> int \<Rightarrow> pydict \<Rightarrow> pydict" where
  "summary_body payload status decision child_status child_decision ok arms score =
     round_binding payload @ [
        (''status'', PStr status),
        (''decision'', PStr decision),
        (''child_status'', PStr child_status),
        (''child_decision'', PStr child_decision),
        (''audit_ok'', PBool ok),
        (''completed_arms'', PInt arms),
        (''score'', PDict score)]"

lemma summary_payload_cases:
  assumes "summary_payload e payload child_summary audit = Inr summary"
  obtains child_status child_decision arms score where
    "summary = sealed e (summary_body payload (fst (decision_from_child child_summary audit))
       (snd (decision_from_child child_summary audit)) child_status child_decision
       (dict_get audit ''ok'' = PBool True) arms score)"
    "dict_get child_summary ''status'' = PStr child_status"
    "dict_get child_summary ''decision'' = PStr child_decision"
    "dict_get child_summary ''completed_arms'' = PInt arms" "0 \<le> arms" "arms \<le> 4"
    "scalar_score (dict_get child_summary ''score'') = Inr score"
proof -
  have number_Inr: "(case v of PInt n \<Rightarrow> f n | _ \<Rightarrow> Inl x) = Inr y \<longleftrightarrow> (\<exists>n. v = PInt n \<and> f n = Inr y)"
    for v x y and f :: "int \<Rightarrow> pydict res"
    by (cases v) auto
  from assms obtain arms child_status child_decision score where
    parts: "dict_get child_summary ''completed_arms'' = PInt arms"
      "\<not> (arms < 0 \<or> arms > 4)" "dict_get child_summary ''status'' = PStr child_status"
      "dict_get child_summary ''decision'' = PStr child_decision"
      "scalar_score (dict_get child_summary ''score'') = Inr score"
    and "summary = sealed e (summary_body payload (fst (decision_from_child child_summary audit))
       (snd (decision_from_child child_summary audit)) child_status child_decision
       (dict_get audit ''ok'' = PBool True) arms score)"
    unfolding summary_payload_def case_prod_beta Let_def number_Inr text_Inr guard_eq_Inr andThen_eq_Inr
      AUTORESEARCH_V2_REQUIRED_LIFETIMES_def summary_body_def by blast
  moreover from parts(2) have "0 \<le> arms" "arms \<le> 4" by simp_all
  ultimately show thesis using that by blast
qed

definition failure_body :: "pydict \<Rightarrow> string \<Rightarrow> pydict" where
  "failure_body payload stage = round_binding payload @ [
     (''status'', PStr ''partial''),
     (''decision'', PStr ''inconclusive''),
     (''failure_stage'', PStr stage)]"

lemma failure_summary_payload_body:
  "failure_summary_payload e payload stage
     = (if stage \<in> FAILURE_STAGES then Inr (sealed e (failure_body payload stage)) else Inl v2_error)"
  by (simp add: failure_summary_payload_def failure_body_def)

lemma binding_flat:
  assumes "round_strings payload"
  shows "\<forall>(k, v) \<in> set (round_binding payload). flat v"
  using round_string [OF assms, of "''campaign_id''"] round_string [OF assms, of "''execution_mode''"]
    round_string [OF assms, of "''child_campaign_id''"]
    round_string [OF assms, of "''child_pair_binding_sha256''"]
  by (auto simp: round_binding_def)

lemma bodies_flat:
  assumes "round_strings payload"
  shows "flat (PDict (sealed e (failure_body payload stage)))"
    and "flat (PDict score) \<Longrightarrow> flat (PDict (sealed e (summary_body payload a b c d ok n score)))"
  using binding_flat [OF assms] by (auto simp: sealed_def failure_body_def summary_body_def)

lemma bodies_shape:
  "distinct (map fst (failure_body payload stage))"
  "''integrity_hash'' \<notin> dict_keys (failure_body payload stage)"
  "insert ''integrity_hash'' (dict_keys (failure_body payload stage)) = FAILURE_SUMMARY_FIELDS"
  "distinct (map fst (summary_body payload a b c d ok n score))"
  "''integrity_hash'' \<notin> dict_keys (summary_body payload a b c d ok n score)"
  "insert ''integrity_hash'' (dict_keys (summary_body payload a b c d ok n score)) = SUMMARY_FIELDS"
  by (auto simp: failure_body_def summary_body_def round_binding_def FAILURE_SUMMARY_FIELDS_def
      SUMMARY_FIELDS_def dict_keys_def)

lemma summary_payload_sealed:
  assumes "summary_payload e payload child_summary audit = Inr summary" and "round_strings payload"
  obtains body where "summary = sealed e body" "distinct (map fst body)"
    "''integrity_hash'' \<notin> dict_keys body" "insert ''integrity_hash'' (dict_keys body) = SUMMARY_FIELDS"
    "flat (PDict (sealed e body))"
proof -
  from assms(1) obtain child_status child_decision arms score where
    summary: "summary = sealed e (summary_body payload (fst (decision_from_child child_summary audit))
       (snd (decision_from_child child_summary audit)) child_status child_decision
       (dict_get audit ''ok'' = PBool True) arms score)"
    and score: "scalar_score (dict_get child_summary ''score'') = Inr score"
    by (rule summary_payload_cases)
  show thesis
    by (rule that [OF summary bodies_shape(4-6) bodies_flat(2) [OF assms(2) scalar_score_flat [OF score]]])
qed

section \<open>A run that returns\<close>

lemma finished_run:
  assumes "run_autoresearch_v2 e d = (d', calls, Inr summary)"
  obtains payload d1 d2 d3 child_summary audit where "admit_round e d = Inr payload"
    "append_event e 0 d (started_event payload) = (d1, Inr ())"
    "append_event e 1 d1 (scored_event payload summary) = (d2, Inr ())"
    "append_event e 2 d2 (complete_event payload summary) = (d3, Inr ())"
    "d' = d3\<lparr>summary_file := Contents (pretty_text e (PDict summary))\<rparr>"
    "executed e = Inr child_summary" "audited e = Inr audit"
    "summary_payload e payload child_summary audit = Inr summary"
proof -
  have failing: "snd (fail_stage e b p st x) \<noteq> Inr s" for b p st x s
    by (auto simp: fail_stage_def andThen_eq_Inr split: prod.splits)
  from assms obtain payload d1 where run: "admit_round e d = Inr payload"
    "append_event e 0 d (started_event payload) = (d1, Inr ())"
    "run_started e d1 payload = (d', calls, Inr summary)"
    by (auto simp: run_autoresearch_v2_def Let_def split: prod.splits sum.splits)
  have fails: "fail_stage e b p st x \<noteq> (b', Inr s)" for b p st x b' s
    using failing [of b p st x s] by auto
  have finished: "finish_round e b p s = (b', Inr s') \<Longrightarrow> s' = s" for b p s b' s'
    by (auto simp: finish_round_def Let_def andThen_eq_Inr split: prod.splits sum.splits)
  obtain child_summary where child: "executed e = Inr child_summary"
    using run(3) fails by (cases "executed e") (auto simp: run_started_def Let_def split: prod.splits)
  moreover obtain audit where "audited e = Inr audit"
    using run(3) fails child by (cases "audited e") (auto simp: run_started_def Let_def split: prod.splits)
  moreover obtain s where "summary_payload e payload child_summary audit = Inr s"
    using run(3) fails calculation
    by (cases "summary_payload e payload child_summary audit")
      (auto simp: run_started_def Let_def split: prod.splits)
  ultimately have child: "executed e = Inr child_summary" "audited e = Inr audit"
    "summary_payload e payload child_summary audit = Inr summary"
    and fin: "finish_round e d1 payload summary = (d', Inr summary)"
    using run(3) finished [of d1 payload s d' summary]
    by (auto simp: run_started_def Let_def split: prod.splits)
  from fin obtain d2 d3 where "append_event e 1 d1 (scored_event payload summary) = (d2, Inr ())"
    "append_event e 2 d2 (complete_event payload summary) = (d3, Inr ())"
    "store_summary e d3 summary = (d', Inr ())"
    by (auto simp: finish_round_def Let_def andThen_eq_Inr split: prod.splits sum.splits)
  then show thesis
    using that run(1,2) child by (auto simp: store_summary_def split: sum.splits)
qed

lemma load_round_same [simp]:
  "load_round e (d\<lparr>round_journal := j\<rparr>) = load_round e d"
  "load_round e (d\<lparr>summary_file := s\<rparr>) = load_round e d"
  by (simp_all add: load_round_def)

lemma fits_summary [simp]: "fits (d\<lparr>summary_file := s\<rparr>) = fits d"
  by (simp add: fits_def)

lemma events_summary [simp]: "round_events e (d\<lparr>summary_file := s\<rparr>) = round_events e d"
  by (simp add: round_events_def)

lemma append_event_round: "append_event e i d event = (d', outcome) \<Longrightarrow> load_round e' d' = load_round e' d"
  by (auto elim: append_event_cases)

lemma validate_events_read:
  assumes "round_events e d = Inr evs" and "evs \<noteq> []"
    and "map (\<lambda>ev. dict_get ev ''event'') evs = names" and "journal_state names terminal = Inr state"
    and "list_all (\<lambda>ev. check_event payload fs ev = Inr ()) evs"
  shows "validate_events e d payload terminal fs = Inr state"
proof -
  have "traverse (check_event payload fs) evs = Inr (map (\<lambda>_. ()) evs)"
    using assms(5) by (induction evs) auto
  then show ?thesis using assms(1-4) by (simp add: validate_events_def)
qed

text \<open>Reading a stored payload back.\<close>

definition stored_as :: "v2_env \<Rightarrow> pydict \<Rightarrow> pydict \<Rightarrow> bool" where
  "stored_as e summary saved \<longleftrightarrow>
     json_loads e (pretty_text e (PDict summary)) = Some (PDict saved) \<and> same_json saved summary"

lemma stored_read:
  assumes "stored_as e (sealed e body) saved" and "distinct (map fst body)"
    and "''integrity_hash'' \<notin> dict_keys body" and "insert ''integrity_hash'' (dict_keys body) = names"
    and "\<And>v. sha256_hex (digest_text e v)" and "flat (PDict (sealed e body))"
  shows "read_json e (Contents (pretty_text e (PDict (sealed e body)))) = Inr (Some (PDict saved))"
    and "validate_hashed_payload e (PDict saved) names = Inr saved"
    and "same_dict saved (sealed e body)"
  using assms sealed_validated [of saved e body names] same_json_same_dict
  by (simp_all add: read_json_def stored_as_def content_hash_def)

section \<open>A run that fails\<close>

lemma fail_stage_failure:
  assumes "fail_stage e b payload st x = (b', Inl (AutoresearchV2ExecutionFailure stage summary))"
  obtains b1 where "st = stage" "append_event e 1 b (failed_event payload stage) = (b1, Inr ())"
    "b' = b1\<lparr>summary_file := Contents (pretty_text e (PDict summary))\<rparr>"
    "summary = sealed e (failure_body payload stage)" "stage \<in> FAILURE_STAGES"
    "validate_failure_child_source e stage = Inr ()"
proof -
  have no: "validate_failure_child_source e st \<noteq> Inl (AutoresearchV2ExecutionFailure g s)" for g s
    by (auto simp: validate_failure_child_source_def andThen_eq_Inl reraise_def is_value_error_def
        split: sum.splits if_splits)
  have "is_exception x"
    using assms by (auto simp: fail_stage_def is_exception_def split: if_splits)
  with assms have rec: "record_terminal_failure e b payload st = (b', Inr summary)" and st: "st = stage"
    using no by (auto simp: fail_stage_def andThen_eq_Inl record_terminal_failure_def Let_def
        failure_summary_payload_body is_exception_def
        split: prod.splits sum.splits if_splits)
  then show thesis
    using that
    by (auto simp: record_terminal_failure_def Let_def andThen_eq_Inr store_summary_def
        failure_summary_payload_body split: prod.splits sum.splits if_splits)
qed

lemma finish_round_raises:
  assumes "finish_round e b payload s = (b', Inl x)"
  shows "x = OSError \<or> stores e = Inl x"
proof -
  have "outcome = Inr () \<or> outcome = Inl OSError" if "append_event e i b event = (b', outcome)"
    for i b event b' outcome
    using that by (auto elim!: append_event_cases dest: append_outcome)
  then show ?thesis
    using assms by (fastforce simp: finish_round_def Let_def store_summary_def andThen_eq_Inl
        split: prod.splits sum.splits)
qed

lemma failed_run:
  assumes "run_autoresearch_v2 e d = (d', calls, Inl (AutoresearchV2ExecutionFailure stage summary))"
    and "stores e = Inr ()" and "admit_round e d = Inr payload"
  obtains d1 where "append_event e 0 d (started_event payload) = (d1, Inr ())"
    "calls \<noteq> []"
    "\<exists>st x. fail_stage e d1 payload st x = (d', Inl (AutoresearchV2ExecutionFailure stage summary))"
proof -
  obtain d1 started where app: "append_event e 0 d (started_event payload) = (d1, started)" by fastforce
  then have "started = Inr () \<or> started = Inl OSError"
    by (auto elim!: append_event_cases dest: append_outcome)
  then have s: "started = Inr ()"
    and run: "run_started e d1 payload = (d', calls, Inl (AutoresearchV2ExecutionFailure stage summary))"
    using assms(1,3) app by (auto simp: run_autoresearch_v2_def)
  have "finish_round e d1 payload s \<noteq> (d', Inl (AutoresearchV2ExecutionFailure stage summary))" for s
    using finish_round_raises assms(2) by fastforce
  then have "\<exists>st x. fail_stage e d1 payload st x = (d', Inl (AutoresearchV2ExecutionFailure stage summary))"
    using run by (fastforce simp: run_started_def Let_def split: prod.splits sum.splits)
  moreover have "calls \<noteq> []"
    using run by (auto simp: run_started_def Let_def split: prod.splits sum.splits)
  ultimately show thesis using that app s by blast
qed


section \<open>Freezing\<close>

text \<open>What a planned child campaign looks like.\<close>

definition planned_campaign :: "pydict \<Rightarrow> pydict \<Rightarrow> bool" where
  "planned_campaign campaign binding \<longleftrightarrow>
     dict_get campaign ''campaign_id'' = PStr SM121_CACHE_PERFORMANCE_CAMPAIGN_ID \<and>
     is_text_that sha256_hex (dict_get campaign ''integrity_hash'') \<and>
     dict_get campaign ''pair_binding'' = PDict binding \<and>
     is_text_that prefixed_sha256 (dict_get binding ''pair_binding_sha256'') \<and>
     dict_get campaign ''prerequisite_bundle_sha256s'' = PREREQUISITES"

text \<open>JSON arrays are read as lists.\<close>

fun lists_only :: "pyval \<Rightarrow> bool" where
  "lists_only (PTuple _) = False"
| "lists_only (PList xs) = list_all lists_only xs"
| "lists_only (PDict d) = (\<forall>(k, v) \<in> set d. lists_only v)"
| "lists_only _ = True"

lemma canonical_list_of_strings:
  assumes "canonical v = PList (map PStr xs)" and "lists_only v"
  shows "v = PList (map PStr xs)"
proof -
  from assms obtain ys where "v = PList ys" "map canonical ys = map PStr xs" by (cases v) auto
  moreover from this(2) have "ys = map PStr xs" by (induction ys arbitrary: xs) auto
  ultimately show ?thesis by simp
qed

lemma canonical_prerequisites: "canonical PREREQUISITES = PREREQUISITES"
  by (simp add: PREREQUISITES_def comp_def)

lemma frozen_keys:
  "distinct (map fst (frozen_payload e d c n campaign binding))"
  "dict_keys (frozen_payload e d c n campaign binding) = ROUND_FIELDS"
  by (simp_all add: frozen_payload_def sealed_def ROUND_FIELDS_def insert_commute)

lemma frozen_sealed:
  "\<exists>body. frozen_payload e d c n campaign binding = sealed e body \<and> distinct (map fst body) \<and>
     ''integrity_hash'' \<notin> dict_keys body \<and> insert ''integrity_hash'' (dict_keys body) = ROUND_FIELDS"
  unfolding frozen_payload_def
  by (rule exI, rule conjI, rule refl) (simp add: ROUND_FIELDS_def insert_commute)

lemma supported_mapping:
  assumes "supported_definition d"
  shows "public_mapping d = registered_proposal"
  using assms by (simp add: supported_definition_def public_mapping_def registered_proposal_def)


text \<open>What the freeze writes is what a later run accepts.\<close>

lemma frozen_field:
  assumes "same_json saved (frozen_payload e d c n campaign binding)"
  shows "canonical (dict_get saved k) = canonical (dict_get (frozen_payload e d c n campaign binding) k)"
  using same_json_get [OF assms frozen_keys(1)] .

lemma canonical_number [simp]: "canonical v = PFloat f \<longleftrightarrow> v = PFloat f"
  by (cases v) auto

lemma frozen_validated:
  assumes "same_json saved (frozen_payload e d cutoff n campaign binding)" and "lists_only (PDict saved)"
    and "supported_definition d" and "safe_child_directory n" and "planned_campaign campaign binding"
    and "instant_of e (stamps e 0) = Some (Some created)" and "parse_cutoff e cutoff = Inr t"
    and "\<And>v. sha256_hex (digest_text e v)"
  shows "validate_round_definition e saved = Inr ()"
    and "parse_time_field e (dict_get saved ''cutoff'') = Inr t"
    and "dict_get saved ''child_campaign_id'' = PStr SM121_CACHE_PERFORMANCE_CAMPAIGN_ID"
    and "dict_get saved ''child_campaign_directory'' = PStr n"
    and "dict_get saved ''child_campaign_integrity_hash'' = dict_get campaign ''integrity_hash''"
    and "dict_get saved ''child_pair_binding_sha256'' = dict_get binding ''pair_binding_sha256''"
    and "dict_get saved ''child_prerequisite_bundle_sha256s'' = PREREQUISITES"
proof -
  let ?p = "frozen_payload e d cutoff n campaign binding"
  note get = frozen_field [OF assms(1)]
  have p: "dict_get ?p k = (case map_of ?p k of None \<Rightarrow> PNone | Some v \<Rightarrow> v)" for k
    by (simp add: dict_get_def)
  obtain hash pair where strings: "dict_get campaign ''integrity_hash'' = PStr hash" "sha256_hex hash"
    "dict_get binding ''pair_binding_sha256'' = PStr pair" "prefixed_sha256 pair"
    using assms(5) by (auto simp: planned_campaign_def is_text_that_def split: pyval.splits)
  show cut: "parse_time_field e (dict_get saved ''cutoff'') = Inr t"
    using get [of "''cutoff''"] assms(7)
    by (simp add: frozen_payload_def sealed_def parse_time_field_def)
  show id: "dict_get saved ''child_campaign_id'' = PStr SM121_CACHE_PERFORMANCE_CAMPAIGN_ID"
    using get [of "''child_campaign_id''"] by (simp add: frozen_payload_def sealed_def)
  show dir: "dict_get saved ''child_campaign_directory'' = PStr n"
    using get [of "''child_campaign_directory''"] by (simp add: frozen_payload_def sealed_def)
  show hash: "dict_get saved ''child_campaign_integrity_hash'' = dict_get campaign ''integrity_hash''"
    using get [of "''child_campaign_integrity_hash''"] strings by (simp add: frozen_payload_def sealed_def)
  show pair: "dict_get saved ''child_pair_binding_sha256'' = dict_get binding ''pair_binding_sha256''"
    using get [of "''child_pair_binding_sha256''"] strings by (simp add: frozen_payload_def sealed_def)
  have "lists_only (dict_get saved k)" for k
    using assms(2) by (auto simp: dict_get_def split: option.splits dest: map_of_SomeD)
  moreover have "dict_get ?p ''child_prerequisite_bundle_sha256s'' = PREREQUISITES"
    by (simp add: frozen_payload_def sealed_def)
  with get [of "''child_prerequisite_bundle_sha256s''"] have
    "canonical (dict_get saved ''child_prerequisite_bundle_sha256s'') = PREREQUISITES"
    by (simp only: canonical_prerequisites)
  ultimately show pre: "dict_get saved ''child_prerequisite_bundle_sha256s'' = PREREQUISITES"
    using canonical_list_of_strings unfolding PREREQUISITES_def by blast
  have now: "current_time e \<noteq> None"
    using assms(7) by (auto simp: parse_cutoff_def split: option.splits if_splits)
  have made: "parse_time_field e (dict_get saved ''created_at'') = Inr created"
    using get [of "''created_at''"] assms(6) now
    by (simp add: frozen_payload_def sealed_def parse_time_field_def parse_cutoff_def)
  have proposal: "dict_get saved ''definition_sha256'' = PStr (expected_definition_sha256 e)"
    using get [of "''definition_sha256''"] supported_mapping [OF assms(3)]
    by (simp add: frozen_payload_def sealed_def definition_sha256_def expected_definition_sha256_def
        del: canonical.simps(3))
  have "list_all (\<lambda>(field, expected). canonical (dict_get ?p field) = canonical expected)
      expected_round_fields"
    using assms(3)
    by (simp add: expected_round_fields_def frozen_payload_def sealed_def supported_definition_def)
  then have "list_all (\<lambda>(field, expected). canonical (dict_get saved field) = canonical expected)
      expected_round_fields"
    by (simp only: get)
  then have "list_all (\<lambda>(field, expected). py_equals (dict_get saved field) expected)
      expected_round_fields"
    by (simp add: expected_round_fields_def)
  then show "validate_round_definition e saved = Inr ()"
    using made proposal cut dir hash pair pre strings assms(4) assms(8) [of "canonical (PDict registered_proposal)"]
    by (simp add: validate_round_definition_def is_text_that_def expected_definition_sha256_def
        del: canonical.simps(3))
qed


lemma load_definition_supported: "load_definition paths toml = Inr d \<Longrightarrow> supported_definition d"
  by (auto simp: load_definition_def andThen_eq_Inr validate_supported_definition_def Let_def
      split: option.splits pyval.splits if_splits)

lemma frozen_cases:
  assumes "freeze_autoresearch_v2 e fe cutoff = (Some d, Inr payload)"
    and "planned_child fe = Inr (n, Contents t)" and "json_loads e t = Some (PDict campaign)"
    and "planned_campaign campaign binding"
  obtains spec where "supported_definition spec" "safe_child_directory n"
    "payload = frozen_payload e spec cutoff n campaign binding"
    "d = \<lparr>resolves = True, in_result_root = True, round_file = Contents (pretty_text e (PDict payload)),
       summary_file = No_file, round_journal = None\<rparr>"
proof -
  have child: "child_campaign e n (Contents t)
      = (if safe_child_directory n then Inr (campaign, binding) else Inl v2_error)"
    using assms(3,4)
    by (auto simp: child_campaign_def planned_campaign_def is_text_that_def split: pyval.splits)
  show thesis
    using assms(1,2) child that load_definition_supported
    by (fastforce simp: freeze_autoresearch_v2_def Let_def andThen_eq_Inr split: sum.splits if_splits)
qed

lemma planned_child_bound:
  assumes "planned_campaign campaign binding" and "child_present e"
    and "read_json e (child_campaign_file e) = Inr (Some (PDict campaign))" and "safe_child_directory n"
    and "dict_get saved ''child_campaign_id'' = PStr SM121_CACHE_PERFORMANCE_CAMPAIGN_ID"
    and "dict_get saved ''child_campaign_directory'' = PStr n"
    and "dict_get saved ''child_campaign_integrity_hash'' = dict_get campaign ''integrity_hash''"
    and "dict_get saved ''child_pair_binding_sha256'' = dict_get binding ''pair_binding_sha256''"
    and "dict_get saved ''child_prerequisite_bundle_sha256s'' = PREREQUISITES"
  shows "validate_child_binding e saved = Inr ()"
  using assms by (simp add: validate_child_binding_def planned_campaign_def is_text_that_def)

lemma frozen_admitted:
  assumes "freeze_autoresearch_v2 e fe cutoff = (Some d, Inr payload)"
    and "planned_child fe = Inr (n, Contents t)" and "json_loads e t = Some (PDict campaign)"
    and "planned_campaign campaign binding" and "child_campaign_file e = Contents t" and "child_present e"
    and "instant_of e (stamps e 0) = Some (Some created)" and "parse_cutoff e cutoff = Inr cutoff_at"
    and "AUTORESEARCH_V2_MIN_CUTOFF_REMAINING_S * 1000000 \<le> cutoff_at - now"
    and "stored_as e payload saved" and "lists_only (PDict saved)"
    and "\<And>v. sha256_hex (digest_text e v)"
  shows "admit_round (e\<lparr>current_time := Some now\<rparr>) d = Inr saved"
proof -
  let ?e = "e\<lparr>current_time := Some now\<rparr>"
  obtain spec where spec: "supported_definition spec" "safe_child_directory n"
    and payload: "payload = frozen_payload e spec cutoff n campaign binding"
    and d: "d = \<lparr>resolves = True, in_result_root = True, round_file = Contents (pretty_text e (PDict payload)),
       summary_file = No_file, round_journal = None\<rparr>"
    using assms(1-4) by (rule frozen_cases)
  have "content_hash ?e = content_hash e" by (simp add: content_hash_def fun_eq_iff)
  then have p: "payload = frozen_payload ?e spec cutoff n campaign binding"
    by (simp add: payload frozen_payload_def sealed_def definition_sha256_def)
  have same: "same_json saved payload"
    and loads: "json_loads e (pretty_text e (PDict payload)) = Some (PDict saved)"
    using assms(10) by (simp_all add: stored_as_def)
  have "parse_cutoff ?e cutoff = Inr cutoff_at"
    using assms(8) by (auto simp: parse_cutoff_def split: option.splits if_splits)
  note valid = frozen_validated [OF same [unfolded p] assms(11) spec assms(4) _ this]
  have hash: "validate_hashed_payload ?e (PDict saved) ROUND_FIELDS = Inr saved"
    using frozen_sealed [of ?e spec cutoff n campaign binding] sealed_validated [of saved ?e _ ROUND_FIELDS]
      same p assms(12) by (auto simp: content_hash_def)
  then have "load_round ?e d = Inr saved" by (simp add: load_round_def read_json_def d loads)
  moreover have "round_events ?e d = Inr []" by (simp add: round_events_def strict_events_def d STRICT_JOURNAL_MAX_BYTES_def)
  moreover have "read_json ?e (child_campaign_file ?e) = Inr (Some (PDict campaign))"
    using assms(3,5) by (simp add: read_json_def)
  ultimately show ?thesis
    using valid planned_child_bound [of campaign binding ?e n saved] assms spec
    by (simp add: admit_round_def validate_events_def enough_time_def d STRICT_JOURNAL_MAX_BYTES_def)
qed

end
