(* ===== verification/Round_V2_Guarantees.thy ===== *)
theory Round_V2_Guarantees
  imports Round_V2_Audit
begin

text \<open>
  What a round of the second controller establishes: its child is executed at most once, only
  for the registered proposal and with enough time; what a run returns, or the failure it
  raises, is what the audit of the round confirms; and a frozen round can be run.
\<close>

section \<open>A round for the witnesses\<close>

definition round_demo_binding :: pydict where
  "round_demo_binding = [(''pair_binding_sha256'', PStr (''sha256:'' @ replicate 64 CHR ''0''))]"

definition demo_campaign :: pydict where
  "demo_campaign = [
     (''campaign_id'', PStr SM121_CACHE_PERFORMANCE_CAMPAIGN_ID),
     (''integrity_hash'', PStr (replicate 64 CHR ''1'')),
     (''pair_binding'', PDict round_demo_binding),
     (''prerequisite_bundle_sha256s'', PREREQUISITES)]"

definition demo_spec :: v2_definition where
  "demo_spec = \<lparr>campaign_id = AUTORESEARCH_V2_CAMPAIGN_ID, runner = AUTORESEARCH_V2_RUNNER_CACHE_POLICY,
     axis = AUTORESEARCH_V2_AXIS, control_profile_id = SM121_CACHE_PERFORMANCE_CACHE_ON_PROFILE_ID,
     candidate_profile_id = SM121_CACHE_PERFORMANCE_CACHE_OFF_PROFILE_ID, control_arm = ''A'',
     candidate_arm = ''B'', models_path = ''m'', suite_path = ''s'',
     cell_timeout_s = SM121_CACHE_PERFORMANCE_CELL_TIMEOUT_S,
     required_lifetimes = AUTORESEARCH_V2_REQUIRED_LIFETIMES, primary = AUTORESEARCH_V2_PRIMARY,
     promotion_ratio = AUTORESEARCH_V2_PROMOTION_RATIO,
     full_wall_guardrail_ratio = AUTORESEARCH_V2_FULL_WALL_GUARDRAIL_RATIO,
     min_cutoff_remaining_s = AUTORESEARCH_V2_MIN_CUTOFF_REMAINING_S\<rparr>"

definition demo_text :: "pyval \<Rightarrow> string" where
  "demo_text v = (case v of PDict d \<Rightarrow>
     if dict_get d ''failure_stage'' \<noteq> PNone then ''failure''
     else if dict_get d ''audit_ok'' \<noteq> PNone then ''summary'' else ''round'' | _ \<Rightarrow> [])"

definition demo_line :: "pyval \<Rightarrow> string" where
  "demo_line v = (case v of PDict d \<Rightarrow> (case dict_get d ''event'' of PStr s \<Rightarrow> s | _ \<Rightarrow> []) | _ \<Rightarrow> [])"

definition demo_base :: v2_env where
  "demo_base = \<lparr>json_loads = \<lambda>_. None, strict_loads = \<lambda>_. None, record_text = demo_line,
     pretty_text = demo_text, digest_text = \<lambda>_. replicate 64 CHR ''2'',
     instant_of = \<lambda>s. if s = ''cutoff'' then Some (Some 10200000000) else Some (Some 0),
     current_time = Some 0, steady = True, stamps = \<lambda>_. ''now'', writes = \<lambda>_. length, stores = Inr (),
     child_present = True, child_campaign_file = Contents ''child'', child_summary_file = Contents ''score'',
     executed = Inl OSError, audited = Inr [(''ok'', PBool True)], child_source = Inr True\<rparr>"

definition demo_round :: pydict where
  "demo_round = frozen_payload demo_base demo_spec ''cutoff'' ''child'' demo_campaign round_demo_binding"

definition demo_score :: pydict where
  "demo_score = [
     (''status'', PStr ''complete''), (''decision'', PStr ''retain_b''),
     (''a_later_wall_s'', PInt 10), (''b_later_wall_s'', PInt 9),
     (''a_full_wall_s'', PInt 10), (''b_full_wall_s'', PInt 10),
     (''winner_later_wall_ratio'', PFloat (FFin (9 / 10))), (''winner_full_wall_ratio'', PInt 1)]"

definition demo_child :: pydict where
  "demo_child = [(''status'', PStr ''complete''), (''decision'', PStr ''retain_b''),
     (''completed_arms'', PInt 4), (''score'', PDict demo_score)]"

definition demo_summary :: pydict where
  "demo_summary = sealed demo_base
     (summary_body demo_round ''complete'' ''retain'' ''complete'' ''retain_b'' True 4 demo_score)"

definition demo_failure :: pydict where
  "demo_failure = sealed demo_base (failure_body demo_round ''child_execution'')"

definition demo_events :: "(string \<times> pydict) list" where
  "demo_events = [
     (''autoresearch_v2_round_started'', started_event demo_round),
     (''autoresearch_v2_round_scored'', scored_event demo_round demo_summary),
     (''autoresearch_v2_round_complete'', complete_event demo_round demo_summary),
     (''autoresearch_v2_round_failed'', failed_event demo_round ''child_execution'')]"

definition demo_env :: "pydict res \<Rightarrow> v2_env" where
  "demo_env reply = demo_base\<lparr>
     json_loads := map_of [(''round'', PDict demo_round), (''child'', PDict demo_campaign),
       (''score'', PDict demo_child), (''summary'', PDict demo_summary), (''failure'', PDict demo_failure)],
     strict_loads := \<lambda>t. map_option (\<lambda>event. PDict (stamped ''now'' event)) (map_of demo_events t),
     executed := reply\<rparr>"

definition demo_dir :: round_dir where
  "demo_dir = \<lparr>resolves = True, in_result_root = True, round_file = Contents ''round'',
     summary_file = No_file, round_journal = None\<rparr>"

lemma demo_hex [simp]: "sha256_hex (replicate 64 c) \<longleftrightarrow> lower_hex c"
  by (simp add: sha256_hex_def list_all_iff)

lemma demo_planned: "planned_campaign demo_campaign round_demo_binding"
  by (simp add: lower_hex_def planned_campaign_def demo_campaign_def round_demo_binding_def is_text_that_def prefixed_sha256_def)

lemma demo_supported: "supported_definition demo_spec"
  by (simp add: supported_definition_def demo_spec_def)

lemma demo_env_simps [simp]:
  "digest_text (demo_env r) v = replicate 64 CHR ''2''" "stamps (demo_env r) i = ''now''"
  "pretty_text (demo_env r) = demo_text" "record_text (demo_env r) = demo_line"
  "json_loads (demo_env r) ''round'' = Some (PDict demo_round)"
  "json_loads (demo_env r) ''child'' = Some (PDict demo_campaign)"
  "json_loads (demo_env r) ''score'' = Some (PDict demo_child)"
  "json_loads (demo_env r) ''summary'' = Some (PDict demo_summary)"
  "json_loads (demo_env r) ''failure'' = Some (PDict demo_failure)"
  "current_time (demo_env r) = Some 0" "steady (demo_env r)" "writes (demo_env r) i = length"
  "stores (demo_env r) = Inr ()" "child_present (demo_env r)" "executed (demo_env r) = r"
  "child_campaign_file (demo_env r) = Contents ''child''" "child_summary_file (demo_env r) = Contents ''score''"
  "audited (demo_env r) = Inr [(''ok'', PBool True)]" "child_source (demo_env r) = Inr True"
  "instant_of (demo_env r) s = (if s = ''cutoff'' then Some (Some 10200000000) else Some (Some 0))"
  by (simp_all add: demo_env_def demo_base_def)

lemma demo_content_hash [simp]: "content_hash (demo_env r) p = replicate 64 CHR ''2''"
  "content_hash demo_base p = replicate 64 CHR ''2''"
  by (simp_all add: content_hash_def) (simp add: demo_base_def)

lemma demo_sealed: "sealed demo_base = sealed (demo_env r)"
  by (simp add: sealed_def fun_eq_iff)

lemma demo_frozen:
  "frozen_payload (demo_env r) demo_spec ''cutoff'' ''child'' demo_campaign round_demo_binding = demo_round"
  by (simp add: demo_round_def frozen_payload_def definition_sha256_def sealed_def)
    (simp add: demo_base_def)

lemma demo_digest_hex: "sha256_hex (digest_text (demo_env r) v)"
  by (simp add: lower_hex_def)

lemma same_json_refl: "same_json d d"
  by (simp add: same_json_def)

lemma demo_lists_only: "lists_only (PDict demo_round)"
  by (simp add: demo_round_def frozen_payload_def sealed_def demo_campaign_def round_demo_binding_def
      PREREQUISITES_def list_all_iff del: set_replicate)

lemma demo_admitted: "admit_round (demo_env r) demo_dir = Inr demo_round"
proof -
  have same: "same_json demo_round
      (frozen_payload (demo_env r) demo_spec ''cutoff'' ''child'' demo_campaign round_demo_binding)"
    by (simp add: demo_frozen same_json_def)
  have name: "safe_child_directory ''child''"
    by (simp add: safe_child_directory_def ascii_alnum_def lower_alnum_def)
  have made: "instant_of (demo_env r) (stamps (demo_env r) 0) = Some (Some 0)" by simp
  have cut: "parse_cutoff (demo_env r) ''cutoff'' = Inr 10200000000" by (simp add: parse_cutoff_def)
  note valid = frozen_validated [OF same demo_lists_only demo_supported name demo_planned made cut demo_digest_hex]
  have "validate_hashed_payload (demo_env r) (PDict demo_round) ROUND_FIELDS = Inr demo_round"
    using frozen_sealed [of "demo_env r" demo_spec "''cutoff''" "''child''" demo_campaign round_demo_binding]
      sealed_validated [of demo_round "demo_env r" _ ROUND_FIELDS] demo_digest_hex same_json_refl
    by (metis demo_frozen content_hash_def)
  then show ?thesis
    using valid planned_child_bound [OF demo_planned _ _ name valid(3-7)]
    by (simp add: admit_round_def load_round_def read_json_def demo_dir_def round_events_def
        strict_events_def validate_events_def enough_time_def STRICT_JOURNAL_MAX_BYTES_def
        AUTORESEARCH_V2_MIN_CUTOFF_REMAINING_S_def AUTORESEARCH_V2_REQUIRED_LIFETIMES_def
        SM121_CACHE_PERFORMANCE_CELL_TIMEOUT_S_def)
qed

lemma demo_lines:
  "demo_line (PDict (stamped ''now'' (started_event payload))) = ''autoresearch_v2_round_started''"
  "demo_line (PDict (stamped ''now'' (scored_event payload summary))) = ''autoresearch_v2_round_scored''"
  "demo_line (PDict (stamped ''now'' (complete_event payload summary))) = ''autoresearch_v2_round_complete''"
  "demo_line (PDict (stamped ''now'' (failed_event payload stage))) = ''autoresearch_v2_round_failed''"
  by (simp_all add: demo_line_def stamped_def event_defs dict_get_def)

lemma demo_strict:
  "strict_loads (demo_env r) ''autoresearch_v2_round_started'' = Some (PDict (stamped ''now'' (started_event demo_round)))"
  "strict_loads (demo_env r) ''autoresearch_v2_round_scored'' =
     Some (PDict (stamped ''now'' (scored_event demo_round demo_summary)))"
  "strict_loads (demo_env r) ''autoresearch_v2_round_complete'' =
     Some (PDict (stamped ''now'' (complete_event demo_round demo_summary)))"
  "strict_loads (demo_env r) ''autoresearch_v2_round_failed'' =
     Some (PDict (stamped ''now'' (failed_event demo_round ''child_execution'')))"
  by (simp_all add: demo_env_def demo_events_def)

lemma round_texts:
  "demo_text (PDict demo_round) = ''round''" "demo_text (PDict demo_summary) = ''summary''"
  "demo_text (PDict demo_failure) = ''failure''"
  by (simp_all add: demo_text_def demo_round_def frozen_payload_def sealed_def demo_summary_def
      summary_body_def demo_failure_def failure_body_def round_binding_def dict_get_def)

lemma demo_scored: "scalar_score (PDict demo_score) = Inr demo_score"
  by (simp add: scalar_score_def demo_score_def SCORE_FIELDS_def score_item_def proposal_float_def
      float_of_int_def float_overflow_bound_def dict_keys_def insert_commute)

lemma demo_reads:
  "reads_as (demo_env r) 0 (started_event demo_round) (stamped ''now'' (started_event demo_round))"
  "reads_as (demo_env r) 1 (scored_event demo_round demo_summary)
     (stamped ''now'' (scored_event demo_round demo_summary))"
  "reads_as (demo_env r) 2 (complete_event demo_round demo_summary)
     (stamped ''now'' (complete_event demo_round demo_summary))"
  "reads_as (demo_env r) 1 (failed_event demo_round ''child_execution'')
     (stamped ''now'' (failed_event demo_round ''child_execution''))"
  by (simp_all add: reads_as_def same_json_refl demo_lines demo_strict byte_breaks_def LF_def CR_def)

lemma demo_stored:
  "stored_as (demo_env r) demo_round demo_round" "stored_as (demo_env r) demo_summary demo_summary"
  "stored_as (demo_env r) demo_failure demo_failure"
  by (simp_all add: stored_as_def same_json_refl round_texts)

lemma demo_summarized:
  "summary_payload (demo_env r) demo_round demo_child [(''ok'', PBool True)] = Inr demo_summary"
  by (simp add: summary_payload_def decision_from_child_def demo_child_def is_text_that_def
      AUTORESEARCH_V2_REQUIRED_LIFETIMES_def demo_scored demo_summary_def summary_body_def
      demo_sealed [of r] dict_get_def)

lemma demo_read_child: "read_child_summary (demo_env (Inr demo_child)) = Inr demo_child"
  by (simp add: read_child_summary_def read_json_def)

text \<open>The records of a run.\<close>

definition demo_journal :: "string \<Rightarrow> journal_file" where
  "demo_journal body = new_file\<lparr>content := body @ [LF]\<rparr>"

lemma demo_append_first:
  "append_event (demo_env r) i demo_dir event = (demo_dir\<lparr>round_journal :=
     Some (demo_journal (demo_line (PDict (stamped ''now'' event))))\<rparr>, Inr ())"
  by (simp add: append_event_def journal_append_def write_loop_complete demo_dir_def demo_journal_def
      new_file_def safe_file_def append_payload_def needs_separator_def Let_def)

lemma demo_append_next:
  "append_event (demo_env r) i (d\<lparr>round_journal := Some (demo_journal body)\<rparr>) event =
     (d\<lparr>round_journal := Some (demo_journal
        (body @ LF # demo_line (PDict (stamped ''now'' event))))\<rparr>, Inr ())"
  by (simp add: append_event_def journal_append_def write_loop_complete demo_journal_def
      new_file_def safe_file_def append_payload_def needs_separator_def Let_def)

lemma demo_run_returns:
  "run_autoresearch_v2 (demo_env (Inr demo_child)) demo_dir =
     (demo_dir\<lparr>summary_file := Contents ''summary'', round_journal := Some (demo_journal
        (''autoresearch_v2_round_started'' @ LF # ''autoresearch_v2_round_scored'' @
          LF # ''autoresearch_v2_round_complete''))\<rparr>, [Execute_child, Audit_child], Inr demo_summary)"
  by (simp add: run_autoresearch_v2_def demo_admitted demo_append_first demo_append_next demo_lines
      run_started_def demo_summarized finish_round_def store_summary_def round_texts Let_def)

lemma demo_run_raises:
  "run_autoresearch_v2 (demo_env (Inl OSError)) demo_dir =
     (demo_dir\<lparr>summary_file := Contents ''failure'', round_journal := Some (demo_journal
        (''autoresearch_v2_round_started'' @ LF # ''autoresearch_v2_round_failed''))\<rparr>,
      [Execute_child], Inl (AutoresearchV2ExecutionFailure ''child_execution'' demo_failure))"
  by (simp add: run_autoresearch_v2_def demo_admitted demo_append_first demo_append_next demo_lines
      run_started_def fail_stage_def is_exception_def record_terminal_failure_def
      validate_failure_child_source_def FAILURE_STAGES_def failure_summary_payload_body
      demo_failure_def [symmetric] demo_sealed [symmetric] store_summary_def round_texts Let_def)

lemma demo_fits:
  "length body \<le> 1000 \<Longrightarrow> fits (d\<lparr>round_journal := Some (demo_journal body)\<rparr>)"
  by (simp add: fits_def demo_journal_def STRICT_JOURNAL_MAX_BYTES_def)

section \<open>Properties\<close>

text \<open>
  C4. A child is executed at most once: however often a round is run, with whatever clocks,
  files, failing writes and replies, the child campaign is executed in at most one of the runs.
\<close>

theorem round_executes_child_once:
  "count_list (snd (run_repeatedly es d)) Execute_child \<le> 1"
  by (rule repeated_executions)

text \<open>
  C5. What a run returns is what the audit confirms: when a run returns a summary, and the child's
  summary file holds what the execution returned, the audit of the directory reads the journal as
  complete, derives the same summary from the child again and returns the stored one.
\<close>

theorem returned_round_is_confirmed:
  assumes "run_autoresearch_v2 e d = (d', calls, Inr summary)"
    and "read_child_summary e = executed e" and "admit_round e d = Inr payload"
    and "reads_as e 0 (started_event payload) started" and "reads_as e 1 (scored_event payload summary) scored"
    and "reads_as e 2 (complete_event payload summary) completed"
    and "fits d'" and "steady e" and "stored_as e summary saved"
    and "\<And>v. sha256_hex (digest_text e v)"
  shows "summarize_autoresearch_v2 e d' = Inr saved \<and> same_dict saved summary"
proof -
  from assms(1) obtain payload' d1 d2 d3 child_summary audit where adm: "admit_round e d = Inr payload'"
    and a1: "append_event e 0 d (started_event payload') = (d1, Inr ())"
    and a2: "append_event e 1 d1 (scored_event payload' summary) = (d2, Inr ())"
    and a3: "append_event e 2 d2 (complete_event payload' summary) = (d3, Inr ())"
    and d': "d' = d3\<lparr>summary_file := Contents (pretty_text e (PDict summary))\<rparr>"
    and child: "executed e = Inr child_summary" "audited e = Inr audit"
    and sp: "summary_payload e payload' child_summary audit = Inr summary"
    by (rule finished_run)
  have same [simp]: "payload' = payload" using adm assms(3) by simp
  note admitted = admit_round_Inr [OF assms(3)]
  have strings: "round_strings payload" using admitted(2) by (rule validated_round_strings)
  from sp [unfolded same] strings obtain body where body: "summary = sealed e body" and shape: "distinct (map fst body)"
    "''integrity_hash'' \<notin> dict_keys body" "insert ''integrity_hash'' (dict_keys body) = SUMMARY_FIELDS"
    and flat: "flat (PDict (sealed e body))"
    by (rule summary_payload_sealed)
  have fits: "fits d3" "fits d2" "fits d1"
    using assms(7) d' append_event_grows [OF a3] append_event_grows [OF a2] by simp_all
  have "round_events e d3 = Inr ((([] @ [started]) @ [scored]) @ [completed])"
    using admitted(4) a1 a2 a3 assms(4-6,8) fits by (intro events_after_append) simp_all
  then have events: "round_events e d' = Inr [started, scored, completed]" by (simp add: d')
  have state: "validate_events e d' payload True None = Inr ''complete''"
    using record_checked(1) [OF strings assms(4)] record_checked(2) [OF strings assms(5)]
      record_checked(3) [OF strings assms(6)]
    by (intro validate_events_read [OF events]) (auto simp: journal_state_def normal_names_def)
  have "load_round e d' = Inr payload"
    using admitted(1) append_event_round [OF a1] append_event_round [OF a2] append_event_round [OF a3]
    by (simp add: d')
  moreover note stored_read [OF assms(9) [unfolded body] shape assms(10) flat, folded body]
  ultimately show ?thesis
    using admitted(2,6) state child sp assms(2)
    by (simp add: summarize_autoresearch_v2_def d')
qed

theorem returned_round_is_confirmed_witness:
  "summarize_autoresearch_v2 (demo_env (Inr demo_child))
     (fst (run_autoresearch_v2 (demo_env (Inr demo_child)) demo_dir)) = Inr demo_summary \<and>
   dict_get demo_summary ''decision'' = PStr ''retain''"
proof -
  have "fits (fst (run_autoresearch_v2 (demo_env (Inr demo_child)) demo_dir))"
    by (simp add: demo_run_returns demo_fits)
  moreover have "dict_get demo_summary ''decision'' = PStr ''retain''"
    by (simp add: demo_summary_def sealed_def summary_body_def round_binding_def dict_get_def)
  moreover have "read_child_summary (demo_env (Inr demo_child)) = executed (demo_env (Inr demo_child))"
    by (simp add: demo_read_child)
  ultimately show ?thesis
    using returned_round_is_confirmed [OF demo_run_returns _ demo_admitted demo_reads(1-3) _ _
        demo_stored(2) demo_digest_hex] by (simp add: demo_run_returns)
qed

text \<open>
  C6. A failure that was raised is confirmed: when a run raises the failure of a stage, the round
  has been recorded as failed, and the audit of the directory returns the stored failure summary,
  which is partial and inconclusive, names the stage, and holds nothing of the child's timing.
\<close>

theorem raised_failure_is_confirmed:
  assumes "run_autoresearch_v2 e d = (d', calls, Inl (AutoresearchV2ExecutionFailure stage summary))"
    and "stores e = Inr ()" and "admit_round e d = Inr payload"
    and "reads_as e 0 (started_event payload) started" and "reads_as e 1 (failed_event payload stage) failed"
    and "fits d'" and "steady e" and "stored_as e summary saved"
    and "\<And>v. sha256_hex (digest_text e v)"
  shows "summarize_autoresearch_v2 e d' = Inr saved \<and> same_dict saved summary \<and>
    stage \<in> FAILURE_STAGES \<and> summary = sealed e (failure_body payload stage)"
proof -
  from assms(1-3) obtain d1 st x where a1: "append_event e 0 d (started_event payload) = (d1, Inr ())"
    and fs: "fail_stage e d1 payload st x = (d', Inl (AutoresearchV2ExecutionFailure stage summary))"
    by (rule failed_run) blast
  from fs obtain d2 where a2: "append_event e 1 d1 (failed_event payload stage) = (d2, Inr ())"
    and d': "d' = d2\<lparr>summary_file := Contents (pretty_text e (PDict summary))\<rparr>"
    and body: "summary = sealed e (failure_body payload stage)" and stage: "stage \<in> FAILURE_STAGES"
    and source: "validate_failure_child_source e stage = Inr ()"
    by (rule fail_stage_failure)
  note admitted = admit_round_Inr [OF assms(3)]
  have strings: "round_strings payload" using admitted(2) by (rule validated_round_strings)
  have fits: "fits d2" "fits d1" using assms(6) d' append_event_grows [OF a2] by simp_all
  have "round_events e d2 = Inr (([] @ [started]) @ [failed])"
    using admitted(4) a1 a2 assms(4,5,7) fits by (intro events_after_append) simp_all
  then have events: "round_events e d' = Inr [started, failed]" by (simp add: d')
  have state: "validate_events e d' payload True fs = Inr ''failed''" if "fs \<in> {None, Some stage}" for fs
    using record_checked(1) [OF strings assms(4)] record_checked(4) [OF strings assms(5) stage that]
    by (intro validate_events_read [OF events])
      (auto simp: journal_state_def normal_names_def failed_names_def)
  have "load_round e d' = Inr payload"
    using admitted(1) append_event_round [OF a1] append_event_round [OF a2] by (simp add: d')
  moreover note stored = stored_read [OF assms(8) [unfolded body] bodies_shape(1-3) assms(9)
      bodies_flat(1) [OF strings], folded body]
  moreover have "dict_get saved ''failure_stage'' = PStr stage"
  proof -
    have "distinct (map fst summary)"
      using bodies_shape(1,2) by (simp add: body sealed_def dict_keys_def)
    moreover have "dict_get summary ''failure_stage'' = PStr stage"
      by (simp add: body sealed_def failure_body_def round_binding_def)
    ultimately show ?thesis
      using same_json_get [of saved summary "''failure_stage''"] assms(8) by (simp add: stored_as_def)
  qed
  ultimately show ?thesis
    using admitted(2,6) state source stage body
    by (simp add: summarize_autoresearch_v2_def summarize_failed_def failure_summary_payload_body d')
qed

theorem raised_failure_is_confirmed_witness:
  "summarize_autoresearch_v2 (demo_env (Inl OSError))
     (fst (run_autoresearch_v2 (demo_env (Inl OSError)) demo_dir)) = Inr demo_failure \<and>
   dict_get demo_failure ''failure_stage'' = PStr ''child_execution''"
proof -
  have "fits (fst (run_autoresearch_v2 (demo_env (Inl OSError)) demo_dir))"
    by (simp add: demo_run_raises demo_fits)
  moreover have "dict_get demo_failure ''failure_stage'' = PStr ''child_execution''"
    by (simp add: demo_failure_def sealed_def failure_body_def round_binding_def dict_get_def)
  ultimately show ?thesis
    using raised_failure_is_confirmed [OF demo_run_raises _ demo_admitted demo_reads(1,4) _ _
        demo_stored(3) demo_digest_hex] by (simp add: demo_run_raises)
qed



text \<open>
  The decision follows the child: a summary says retain exactly when the audit passed and the
  child completed and retained arm B, reject exactly when it retained arm A, and inconclusive in
  every other case; it never counts more arms than were required.
\<close>

theorem round_decision_exact:
  assumes "summary_payload e payload child_summary audit = Inr summary"
  shows "(dict_get summary ''decision'' = PStr ''retain'' \<longleftrightarrow> dict_get audit ''ok'' = PBool True \<and>
      dict_get child_summary ''status'' = PStr ''complete'' \<and>
      dict_get child_summary ''decision'' = PStr ''retain_b'') \<and>
    (dict_get summary ''decision'' = PStr ''reject'' \<longleftrightarrow> dict_get audit ''ok'' = PBool True \<and>
      dict_get child_summary ''status'' = PStr ''complete'' \<and>
      dict_get child_summary ''decision'' = PStr ''retain_a'') \<and>
    dict_get summary ''decision'' \<in> {PStr ''retain'', PStr ''reject'', PStr ''inconclusive''} \<and>
    (\<exists>n. dict_get summary ''completed_arms'' = PInt n \<and> 0 \<le> n \<and> n \<le> 4)"
proof -
  from assms obtain child_status child_decision arms score where
    s: "summary = sealed e (summary_body payload (fst (decision_from_child child_summary audit))
       (snd (decision_from_child child_summary audit)) child_status child_decision
       (dict_get audit ''ok'' = PBool True) arms score)" and "0 \<le> arms" "arms \<le> 4"
    by (rule summary_payload_cases)
  have "dict_get summary ''decision'' = PStr (snd (decision_from_child child_summary audit))"
    "dict_get summary ''completed_arms'' = PInt arms"
    by (simp_all add: s sealed_def summary_body_def round_binding_def)
  then show ?thesis
    using \<open>0 \<le> arms\<close> \<open>arms \<le> 4\<close>
    by (simp add: decision_from_child_def is_text_that_def Let_def)
qed

theorem round_decision_exact_witness:
  "dict_get demo_summary ''decision'' = PStr ''retain'' \<and>
   dict_get demo_summary ''completed_arms'' \<noteq> PInt 5"
proof -
  have "dict_get [(''ok'', PBool True)] ''ok'' = PBool True" by simp
  moreover have "dict_get demo_child ''status'' = PStr ''complete''"
    "dict_get demo_child ''decision'' = PStr ''retain_b''" by (simp_all add: demo_child_def)
  ultimately show ?thesis using round_decision_exact [OF demo_summarized] by auto
qed

text \<open>
  C36. A frozen round can be run: the directory that a freeze leaves is admitted by any later run
  until ten thousand two hundred seconds before the cutoff, when the planner's child is the one
  on disk, is bound by its hashes and the registered prerequisites, and the stored payload is
  read back as the JSON value that was written.
\<close>

theorem frozen_round_is_admitted:
  assumes "freeze_autoresearch_v2 e fe cutoff = (Some d, Inr payload)"
    and "planned_child fe = Inr (n, Contents t)" and "json_loads e t = Some (PDict campaign)"
    and "planned_campaign campaign binding" and "child_campaign_file e = Contents t" and "child_present e"
    and "instant_of e (stamps e 0) = Some (Some created)" and "parse_cutoff e cutoff = Inr cutoff_at"
    and "AUTORESEARCH_V2_MIN_CUTOFF_REMAINING_S * 1000000 \<le> cutoff_at - now"
    and "stored_as e payload saved" and "lists_only (PDict saved)"
    and "\<And>v. sha256_hex (digest_text e v)"
  shows "admit_round (e\<lparr>current_time := Some now\<rparr>) d = Inr saved"
  using assms by (rule frozen_admitted)

definition demo_toml :: pydict where
  "demo_toml = [(''schema_version'', PInt 1), (''campaign'', PDict [
     (''id'', PStr AUTORESEARCH_V2_CAMPAIGN_ID), (''runner'', PStr AUTORESEARCH_V2_RUNNER_CACHE_POLICY),
     (''axis'', PStr AUTORESEARCH_V2_AXIS), (''control'', PStr SM121_CACHE_PERFORMANCE_CACHE_ON_PROFILE_ID),
     (''candidate'', PStr SM121_CACHE_PERFORMANCE_CACHE_OFF_PROFILE_ID), (''control_arm'', PStr ''A''),
     (''candidate_arm'', PStr ''B''), (''models'', PStr ''m''), (''suite'', PStr ''s''),
     (''cell_timeout_s'', PInt 1200), (''required_lifetimes'', PInt 4),
     (''primary'', PStr AUTORESEARCH_V2_PRIMARY), (''promotion_ratio'', PFloat (FFin (95 / 100))),
     (''full_wall_guardrail_ratio'', PFloat (FFin (105 / 100))), (''min_cutoff_remaining_s'', PInt 10200)])]"

definition demo_freeze :: freeze_env where
  "demo_freeze = \<lparr>manifest_paths = \<lambda>_. Resolved, toml_document = Some (PDict demo_toml),
     inventory = Inr ([SM121_CACHE_PERFORMANCE_CACHE_ON_PROFILE_ID,
       SM121_CACHE_PERFORMANCE_CACHE_OFF_PROFILE_ID], SM121_CACHE_PERFORMANCE_SUITE_ID),
     made_directory = Inr (), planned_child = Inr (''child'', Contents ''child'')\<rparr>"

lemma demo_ids:
  "safe_id AUTORESEARCH_V2_CAMPAIGN_ID" "safe_id AUTORESEARCH_V2_RUNNER_CACHE_POLICY"
  "safe_id AUTORESEARCH_V2_AXIS" "safe_id SM121_CACHE_PERFORMANCE_CACHE_ON_PROFILE_ID"
  "safe_id SM121_CACHE_PERFORMANCE_CACHE_OFF_PROFILE_ID" "safe_id AUTORESEARCH_V2_PRIMARY"
  by (simp_all add: safe_id_def safe_id_char_def lower_alnum_def AUTORESEARCH_V2_CAMPAIGN_ID_def
      AUTORESEARCH_V2_RUNNER_CACHE_POLICY_def AUTORESEARCH_V2_AXIS_def AUTORESEARCH_V2_PRIMARY_def
      SM121_CACHE_PERFORMANCE_CACHE_ON_PROFILE_ID_def SM121_CACHE_PERFORMANCE_CACHE_OFF_PROFILE_ID_def)

lemma demo_definition: "load_definition (\<lambda>_. Resolved) (Some (PDict demo_toml)) = Inr demo_spec"
proof -
  have named: "proposal_id (PStr s) = Inr s" if "safe_id s" for s
    using that by (auto simp: proposal_id_def proposal_string_def safe_id_def)
  show ?thesis
    using demo_supported
    by (simp add: load_definition_def demo_toml_def proposal_keys_def DEFINITION_KEYS_def CAMPAIGN_KEYS_def
        dict_keys_def insert_commute AUTORESEARCH_V2_SCHEMA_VERSION_def named demo_ids proposal_string_def
        resolve_manifest_path_def proposal_int_def proposal_float_def validate_supported_definition_def
        demo_spec_def SM121_CACHE_PERFORMANCE_CELL_TIMEOUT_S_def AUTORESEARCH_V2_REQUIRED_LIFETIMES_def
        AUTORESEARCH_V2_PROMOTION_RATIO_def AUTORESEARCH_V2_FULL_WALL_GUARDRAIL_RATIO_def
        AUTORESEARCH_V2_MIN_CUTOFF_REMAINING_S_def)
qed

lemma demo_frozen_dir:
  "freeze_autoresearch_v2 (demo_env r) demo_freeze ''cutoff'' = (Some demo_dir, Inr demo_round)"
proof -
  have "child_campaign (demo_env r) ''child'' (Contents ''child'') = Inr (demo_campaign, round_demo_binding)"
    by (simp add: child_campaign_def demo_campaign_def round_demo_binding_def is_text_that_def
        safe_child_directory_def ascii_alnum_def lower_alnum_def)
  moreover have "enough_time (demo_env r) 10200000000 (min_cutoff_remaining_s demo_spec)"
    by (simp add: enough_time_def demo_spec_def AUTORESEARCH_V2_MIN_CUTOFF_REMAINING_S_def
        AUTORESEARCH_V2_REQUIRED_LIFETIMES_def SM121_CACHE_PERFORMANCE_CELL_TIMEOUT_S_def)
  moreover have "load_inventory demo_freeze demo_spec = Inr SM121_CACHE_PERFORMANCE_SUITE_ID"
    by (simp add: load_inventory_def demo_freeze_def demo_spec_def reraise_def)
  ultimately show ?thesis
    by (simp add: freeze_autoresearch_v2_def demo_freeze_def demo_definition parse_cutoff_def
        demo_frozen round_texts demo_dir_def Let_def)
qed

theorem frozen_round_is_admitted_witness:
  "freeze_autoresearch_v2 (demo_env (Inl OSError)) demo_freeze ''cutoff'' = (Some demo_dir, Inr demo_round) \<and>
   admit_round (demo_env (Inl OSError)\<lparr>current_time := Some (-5)\<rparr>) demo_dir = Inr demo_round"
proof -
  have "planned_child demo_freeze = Inr (''child'', Contents ''child'')" by (simp add: demo_freeze_def)
  moreover have "instant_of (demo_env (Inl OSError)) (stamps (demo_env (Inl OSError)) 0) = Some (Some 0)"
    by simp
  moreover have "parse_cutoff (demo_env (Inl OSError)) ''cutoff'' = Inr 10200000000"
    by (simp add: parse_cutoff_def)
  moreover have "AUTORESEARCH_V2_MIN_CUTOFF_REMAINING_S * 1000000 \<le> 10200000000 - (- 5)"
    by (simp add: AUTORESEARCH_V2_MIN_CUTOFF_REMAINING_S_def AUTORESEARCH_V2_REQUIRED_LIFETIMES_def
        SM121_CACHE_PERFORMANCE_CELL_TIMEOUT_S_def)
  ultimately show ?thesis
    using frozen_round_is_admitted [OF demo_frozen_dir _ _ demo_planned _ _ _ _ _ demo_stored(1)
        demo_lists_only demo_digest_hex] demo_frozen_dir by simp
qed

end
