(* ===== verification/Cache_Turns.thy ===== *)
theory Cache_Turns
  imports Cache_Records
begin

text \<open>
  \<open>bench/sglang_sm121_cache_performance.py\<close>, continued: when a timed turn is an admitted
  observation of the cache, the validator of its record, and the validator of the four lifetimes.
\<close>

section \<open>Conversions and tests that can raise\<close>

text \<open>\<open>int(value)\<close>.\<close>

fun py_int :: "pyval \<Rightarrow> int res" where
  "py_int (PInt n) = Inr n"
| "py_int (PBool b) = Inr (of_bool b)"
| "py_int (PFloat (FFin r)) = Inr (if r \<ge> 0 then \<lfloor>r\<rfloor> else \<lceil>r\<rceil>)"
| "py_int (PFloat (FInf s)) = Inl OverflowError"
| "py_int (PFloat FNan) = Inl ValueError"
| "py_int (PStr s) = (case parse_int s of Some n \<Rightarrow> Inr n | None \<Rightarrow> Inl ValueError)"
| "py_int _ = Inl TypeError"

text \<open>\<open>a - b\<close> of two values: numbers only.\<close>

fun negated :: "pyfloat \<Rightarrow> pyfloat" where
  "negated (FFin r) = FFin (- r)"
| "negated (FInf s) = FInf (\<not> s)"
| "negated FNan = FNan"

fun json_number :: "pyval \<Rightarrow> (int + pyfloat) option" where
  "json_number (PBool b) = Some (Inl (of_bool b))"
| "json_number (PInt n) = Some (Inl n)"
| "json_number (PFloat x) = Some (Inr x)"
| "json_number _ = None"

definition py_subtract :: "pyval \<Rightarrow> pyval \<Rightarrow> pyval res" where
  "py_subtract a b = (case (json_number a, json_number b) of
       (Some (Inl m), Some (Inl n)) \<Rightarrow> Inr (PInt (m - n))
     | (Some (Inl m), Some (Inr y)) \<Rightarrow> andThen (float_of_int m) (\<lambda>x. Inr (PFloat (fadd x (negated y))))
     | (Some (Inr x), Some (Inl n)) \<Rightarrow> andThen (float_of_int n) (\<lambda>y. Inr (PFloat (fadd x (negated y))))
     | (Some (Inr x), Some (Inr y)) \<Rightarrow> Inr (PFloat (fadd x (negated y)))
     | _ \<Rightarrow> Inl TypeError)"

text \<open>\<open>or\<close> and \<open>any\<close>: the operands are evaluated until one is true.\<close>

definition or_else :: "bool res \<Rightarrow> bool res \<Rightarrow> bool res" where
  "or_else m n = andThen m (\<lambda>b. if b then Inr True else n)"

fun any_res :: "('a \<Rightarrow> bool res) \<Rightarrow> 'a list \<Rightarrow> bool res" where
  "any_res f [] = Inr False"
| "any_res f (x # xs) = or_else (f x) (any_res f xs)"

definition noted :: "bool \<Rightarrow> string \<Rightarrow> string list" where
  "noted b name = (if b then [name] else [])"

section \<open>When a turn is an observation\<close>

definition int_field :: "pydict \<Rightarrow> string \<Rightarrow> int res" where
  "int_field row field = py_int (dict_get row field)"

definition is_not_true :: "pydict \<Rightarrow> string \<Rightarrow> bool" where
  "is_not_true row field \<longleftrightarrow> dict_get row field \<noteq> PBool True"

definition few_polls :: "pydict \<Rightarrow> string \<Rightarrow> bool res" where
  "few_polls row field = andThen (int_field row field) (\<lambda>n. Inr (n < 2))"

definition nonzero_field :: "pydict \<Rightarrow> string \<Rightarrow> bool res" where
  "nonzero_field row field = andThen (int_field row field) (\<lambda>n. Inr (n \<noteq> 0))"

definition guardrail_metrics :: "string list" where
  "guardrail_metrics = [''prefill_host_hit_tokens'', ''prefill_storage_hit_tokens'', ''cached_host_tokens'',
     ''cached_storage_tokens'', ''evicted_tokens'', ''retracted_requests'']"

definition cold_metrics :: "string list" where
  "cold_metrics = [''prefill_input_tokens'', ''prefill_device_hit_tokens'', ''prefill_host_hit_tokens'',
     ''prefill_storage_hit_tokens'', ''cached_device_tokens'', ''cached_host_tokens'',
     ''cached_storage_tokens'', ''cached_total_tokens'']"

definition unsettled :: "pydict \<Rightarrow> bool res" where
  "unsettled row = or_else
     (Inr (is_not_true row ''metrics_before_settled'' \<or> is_not_true row ''metrics_after_settled''))
     (or_else (few_polls row ''metrics_before_polls'') (few_polls row ''metrics_after_polls''))"

definition guardrail_hit :: "pydict \<Rightarrow> bool res" where
  "guardrail_hit row = any_res (\<lambda>metric.
     any_res (\<lambda>p. nonzero_field row (metric_field p metric)) METRIC_PREFIXES) guardrail_metrics"

definition warm_start :: "pydict \<Rightarrow> bool res" where
  "warm_start row = any_res (\<lambda>metric. nonzero_field row (metric_field ''before'' metric)) cold_metrics"

text \<open>\<open>value not in {None, 0}\<close>.\<close>

definition some_tokens :: "pyval \<Rightarrow> bool res" where
  "some_tokens v = (if hashable v then Inr (v \<noteq> PNone \<and> \<not> eq_int v 0) else Inl TypeError)"

definition unexpected_hit :: "pydict \<Rightarrow> int \<Rightarrow> int \<Rightarrow> bool res" where
  "unexpected_hit row native_device native_cached =
     or_else (any_res (\<lambda>field. some_tokens (dict_get row field))
       [''response_device_cached_tokens'', ''response_host_cached_tokens'',
        ''response_storage_cached_tokens'', ''usage_cached_tokens''])
     (or_else (Inr (native_device \<noteq> 0 \<or> native_cached \<noteq> 0))
     (or_else (nonzero_field row ''delta_cached_total_tokens'')
       (nonzero_field row ''after_cached_total_tokens'')))"

definition unreconciled_hit :: "pydict \<Rightarrow> int \<Rightarrow> int \<Rightarrow> bool res" where
  "unreconciled_hit row native_device native_cached =
     (if dict_get row ''response_detail_state'' \<noteq> PStr ''nonzero_details'' then Inr True else
      (case json_number (dict_get row ''response_device_cached_tokens'') of
         Some (Inl device) \<Rightarrow>
           if device \<le> 0 then Inr True else
           andThen (int_field row ''shared_prefix_tokens'') (\<lambda>shared.
           Inr (device > shared \<or> device \<noteq> native_device \<or> device \<noteq> native_cached \<or>
             (dict_get row ''usage_cached_tokens'' \<noteq> PNone \<and>
              \<not> eq_int (dict_get row ''usage_cached_tokens'') device)))
       | _ \<Rightarrow> Inr True))"

definition turn_issues :: "pydict \<Rightarrow> string list res" where
  "turn_issues row =
     (let turn_T0 = (dict_get row ''turn'' = PStr ''T0'');
          zero_required = (dict_get row ''arm'' = PStr ''B'' \<or> turn_T0);
          unavailable = (is_not_true row ''metrics_available'' \<or> is_not_true row ''guardrail_metrics_available'')
      in
      andThen (unsettled row) (\<lambda>unset.
      andThen (int_field row ''delta_prefill_input_tokens'') (\<lambda>prefilled.
      andThen (guardrail_hit row) (\<lambda>guardrail.
      andThen (int_field row ''delta_prefill_device_hit_tokens'') (\<lambda>native_device.
      andThen (int_field row ''delta_cached_device_tokens'') (\<lambda>native_cached.
      andThen (if turn_T0 then warm_start row else Inr False) (\<lambda>warm.
      andThen (if zero_required then unexpected_hit row native_device native_cached
               else unreconciled_hit row native_device native_cached) (\<lambda>mismatch.
      Inr (noted unavailable ''metrics_unavailable'' @ noted unset ''metrics_unsettled''
        @ noted (is_not_true row ''append_only_prompt_identity_verified'') ''append_identity''
        @ noted (is_not_true row ''cross_lifetime_prompt_identity_verified'') ''cross_lifetime_identity''
        @ noted (prefilled \<le> 0) ''input_counter'' @ noted guardrail ''cache_guardrail''
        @ noted warm ''cold_lifetime''
        @ noted mismatch (if zero_required then ''zero_hit'' else ''device_hit_reconciliation''))))))))))"

definition turn_admission :: "pydict \<Rightarrow> (bool \<times> string) res" where
  "turn_admission row = andThen (turn_issues row) (\<lambda>issues.
     Inr (case issues of [] \<Rightarrow> (True, ''admitted'') | issue # _ \<Rightarrow> (False, issue)))"

definition derive_turn_admission :: "pyval \<Rightarrow> (bool \<times> string) res" where
  "derive_turn_admission event = andThen (event_fields event TURN_EVENT_FIELDS) turn_admission"

section \<open>The record of a turn\<close>

definition detail_states :: "string set" where
  "detail_states = {''omitted'', ''null'', ''zero_details'', ''nonzero_details'', ''unexpected''}"

definition absent_states :: "string set" where
  "absent_states = {''omitted'', ''null'', ''unexpected''}"

definition optional_detail_state :: "pyval \<Rightarrow> int option list \<Rightarrow> unit res" where
  "optional_detail_state state values =
     andThen (in_strings state detail_states) (\<lambda>known.
     if \<not> known then Inl cache_error else
     (case state of PStr s \<Rightarrow>
        if s \<in> absent_states then check (list_all (\<lambda>v. v = None) values) cache_error
        else if s = ''zero_details'' then check (values = [Some 0, Some 0, Some 0]) cache_error
        else check (list_all (\<lambda>v. v \<noteq> None) values \<and> (case hd values of Some n \<Rightarrow> n > 0 | None \<Rightarrow> False)
          \<and> tl values = [Some 0, Some 0]) cache_error
      | _ \<Rightarrow> Inl cache_error))"

definition usage_detail_state :: "pyval \<Rightarrow> int option \<Rightarrow> unit res" where
  "usage_detail_state state usage =
     andThen (in_strings state detail_states) (\<lambda>known.
     if \<not> known then Inl cache_error else
     if is_text_that (\<lambda>s. s \<in> absent_states) state \<and> usage \<noteq> None then Inl cache_error else
     if state = PStr ''zero_details'' \<and> usage \<noteq> Some 0 then Inl cache_error else
     check (\<not> (state = PStr ''nonzero_details'' \<and> (case usage of None \<Rightarrow> True | Some n \<Rightarrow> n \<le> 0)))
       cache_error)"

definition turn_case_id :: "string \<Rightarrow> bool" where
  "turn_case_id s \<longleftrightarrow> (let start = SM121_CACHE_PERFORMANCE_CASE_ID @ ''--'' in
     take (length start) s = start \<and> length s = length start + 12 \<and>
     list_all lower_hex (drop (length start) s))"

definition gauge_metric :: "string \<Rightarrow> bool" where
  "gauge_metric metric \<longleftrightarrow> suffix ''available_tokens'' metric \<or> suffix ''evictable_tokens'' metric
     \<or> suffix ''used_tokens'' metric"

definition check_metric :: "pydict \<Rightarrow> string \<times> string \<Rightarrow> unit res" where
  "check_metric row = (\<lambda>(p, metric).
     andThen (if p = ''delta'' \<and> gauge_metric metric
        then (case dict_get row (metric_field p metric) of PInt _ \<Rightarrow> Inr () | _ \<Rightarrow> Inl cache_error)
        else andThen (require_count (dict_get row (metric_field p metric)) False) (\<lambda>_. Inr ())) (\<lambda>_.
     andThen (py_subtract (dict_get row (metric_field ''after'' metric))
        (dict_get row (metric_field ''before'' metric))) (\<lambda>difference.
     check (py_equals (dict_get row (metric_field ''delta'' metric)) difference) cache_error)))"

definition metric_checks :: "(string \<times> string) list" where
  "metric_checks = List.concat (map (\<lambda>p. map (\<lambda>m. (p, m)) SM121_CACHE_PERFORMANCE_METRIC_FIELDS)
     METRIC_PREFIXES)"

definition series_checks :: "string list" where
  "series_checks = List.concat (map (\<lambda>p. map (series_field p) SM121_CACHE_OBSERVABILITY_CACHED_SERIES)
     [''before'', ''after''])"

definition check_shape :: "pydict \<Rightarrow> string \<Rightarrow> unit res" where
  "check_shape row turn =
     andThen (require_count (dict_get row ''prompt_tokens'') True) (\<lambda>prompt.
     andThen (require_count (dict_get row ''completion_tokens'') True) (\<lambda>_.
     andThen (require_count (dict_get row ''reasoning_tokens'') False) (\<lambda>reasoning.
     if reasoning \<noteq> 0 then Inl cache_error else
     andThen (require_count (dict_get row ''shared_prefix_tokens'') False) (\<lambda>shared.
     if turn = ''T0'' then check (shared = 0 \<and> SM121_CACHE_PERFORMANCE_COLD_INPUT_MIN_TOKENS \<le> prompt
         \<and> prompt \<le> SM121_CACHE_PERFORMANCE_COLD_INPUT_MAX_TOKENS) cache_error
     else check (SM121_CACHE_PERFORMANCE_COLD_INPUT_MIN_TOKENS \<le> shared \<and> shared < prompt) cache_error))))"

definition check_details :: "pydict \<Rightarrow> int option list res" where
  "check_details row =
     andThen (traverse (\<lambda>field. require_optional_count (dict_get row field))
       [''response_device_cached_tokens'', ''response_host_cached_tokens'',
        ''response_storage_cached_tokens'']) (\<lambda>details.
     andThen (optional_detail_state (dict_get row ''response_detail_state'') details) (\<lambda>_.
     andThen (require_optional_count (dict_get row ''usage_cached_tokens'')) (\<lambda>usage.
     andThen (usage_detail_state (dict_get row ''usage_detail_state'') usage) (\<lambda>_. Inr details))))"

definition check_metrics :: "pydict \<Rightarrow> unit res" where
  "check_metrics row =
     andThen (traverse (\<lambda>field. cache_require_bool (dict_get row field))
       [''metrics_available'', ''guardrail_metrics_available'', ''metrics_before_settled'',
        ''metrics_after_settled'']) (\<lambda>_.
     andThen (require_count (dict_get row ''metrics_before_polls'') False) (\<lambda>_.
     andThen (require_count (dict_get row ''metrics_after_polls'') False) (\<lambda>_.
     andThen (require_finite_decimal (dict_get row ''request_wall_s'') True) (\<lambda>_.
     andThen (traverse (check_metric row) metric_checks) (\<lambda>_.
     andThen (traverse (\<lambda>field. cache_require_bool (dict_get row field)) series_checks) (\<lambda>_. Inr ()))))))"

definition validate_turn_event :: "pyval \<Rightarrow> pydict res" where
  "validate_turn_event event =
     andThen (event_fields event TURN_EVENT_FIELDS) (\<lambda>row.
     if dict_get row ''event'' \<noteq> PStr SM121_CACHE_PERFORMANCE_TURN_EVENT then Inl cache_error else
     andThen (require_arm (dict_get row ''arm'')) (\<lambda>arm.
     andThen (require_count (dict_get row ''lifetime_ordinal'') True) (\<lambda>ordinal.
     if ordinal \<notin> {2, 4, 6, 8} then Inl cache_error else
     if \<not> ordinal_of_arm ordinal arm then Inl cache_error else
     if dict_get row ''protocol_case_id'' \<noteq> PStr SM121_CACHE_PERFORMANCE_CASE_ID then Inl cache_error else
     if \<not> is_text_that turn_case_id (dict_get row ''case_id'') then Inl cache_error else
     (case dict_get row ''turn'' of PStr turn \<Rightarrow>
     if turn \<notin> set SM121_CACHE_PERFORMANCE_TIMED_TURNS then Inl cache_error else
     if dict_get row ''cache_details_requested'' \<noteq> PBool True
       \<or> dict_get row ''prompt_token_ids_requested'' \<noteq> PBool True
       \<or> dict_get row ''streaming'' \<noteq> PBool False
       \<or> dict_get row ''thinking_disabled'' \<noteq> PBool True then Inl cache_error else
     andThen (check_shape row turn) (\<lambda>_.
     andThen (cache_require_bool (dict_get row ''append_only_prompt_identity_verified'')) (\<lambda>_.
     andThen (cache_require_bool (dict_get row ''cross_lifetime_prompt_identity_verified'')) (\<lambda>_.
     andThen (check_details row) (\<lambda>details.
     andThen (check_metrics row) (\<lambda>_.
     andThen (derive_turn_admission event) (\<lambda>(admitted, basis).
     if dict_get row ''timed_turn_admitted'' \<noteq> PBool admitted \<or> dict_get row ''timed_turn_basis'' \<noteq> PStr basis
     then Inl cache_error else
     if arm = ''A'' \<and> turn \<noteq> ''T0'' \<and> hd details = None then Inl cache_error else Inr row))))))
       | _ \<Rightarrow> Inl cache_error))))"

section \<open>The four lifetimes\<close>

definition lifetime_fields :: "string set" where
  "lifetime_fields = {''ordinal'', ''arm'', ''quality_admitted'', ''timed_admitted'', ''within_timeout'',
     ''turns''}"

text \<open>One turn of a lifetime: the \<open>i\<close>-th of \<open>n\<close>.\<close>

definition check_turn :: "string \<Rightarrow> int \<Rightarrow> nat \<Rightarrow> nat \<times> string \<times> pyval \<Rightarrow> unit res" where
  "check_turn expected_arm ordinal n = (\<lambda>(i, expected_turn, event).
     if (case event of PDict d \<Rightarrow> ''timestamp'' \<in> dict_keys d | _ \<Rightarrow> True) then Inl cache_error else
     andThen (validate_turn_event event) (\<lambda>row.
     if dict_get row ''arm'' \<noteq> PStr expected_arm \<or> dict_get row ''lifetime_ordinal'' \<noteq> PInt (ordinal * 2)
       \<or> dict_get row ''turn'' \<noteq> PStr expected_turn then Inl cache_error else
     check (\<not> (i + 1 < n \<and> is_not_true row ''timed_turn_admitted'')) cache_error))"

definition turn_admitted :: "pyval \<Rightarrow> bool" where
  "turn_admitted event \<longleftrightarrow> (case event of PDict row \<Rightarrow> \<not> is_not_true row ''timed_turn_admitted'' | _ \<Rightarrow> False)"

text \<open>One lifetime; the flag says whether an earlier one already ended the campaign.\<close>

definition check_lifetime :: "bool \<Rightarrow> int \<times> string \<times> pyval \<Rightarrow> bool res" where
  "check_lifetime terminal = (\<lambda>(ordinal, expected_arm, raw).
     andThen (exact_fields raw lifetime_fields) (\<lambda>row.
     if \<not> eq_int (dict_get row ''ordinal'') ordinal \<or> dict_get row ''arm'' \<noteq> PStr expected_arm
     then Inl cache_error else
     andThen (cache_require_bool (dict_get row ''quality_admitted'')) (\<lambda>quality.
     andThen (cache_require_bool (dict_get row ''timed_admitted'')) (\<lambda>timed.
     andThen (cache_require_bool (dict_get row ''within_timeout'')) (\<lambda>in_time.
     (case dict_get row ''turns'' of PList turns \<Rightarrow>
     if length turns > length SM121_CACHE_PERFORMANCE_TIMED_TURNS then Inl cache_error else
     andThen (traverse (check_turn expected_arm ordinal (length turns))
       (zip [0..<length turns] (zip SM121_CACHE_PERFORMANCE_TIMED_TURNS turns))) (\<lambda>_.
     if \<not> quality \<and> (timed \<or> turns \<noteq> []) then Inl cache_error else
     if timed \<and> (\<not> quality \<or> length turns \<noteq> length SM121_CACHE_PERFORMANCE_TIMED_TURNS
        \<or> \<not> list_all turn_admitted turns) then Inl cache_error else
     if terminal \<and> (quality \<or> timed \<or> in_time \<or> turns \<noteq> []) then Inl cache_error else
     Inr (terminal \<or> \<not> (quality \<and> timed \<and> in_time)))
       | _ \<Rightarrow> Inl cache_error))))))"

definition validate_lifetimes :: "pyval \<Rightarrow> pyval list res" where
  "validate_lifetimes v = (case v of PList lifetimes \<Rightarrow>
       if length lifetimes \<noteq> length SM121_CACHE_PERFORMANCE_ARM_ORDER then Inl cache_error else
       andThen (fold_res check_lifetime False
         (zip (map int [1..<5]) (zip SM121_CACHE_PERFORMANCE_ARM_ORDER lifetimes))) (\<lambda>_. Inr lifetimes)
     | _ \<Rightarrow> Inl cache_error)"

end
