(* ===== verification/Py_Decimal.thy ===== *)
theory Py_Decimal
  imports Py_Prelude
begin

text \<open>
  Arithmetic of \<open>decimal.Decimal\<close> in the default context: results are rounded to 28 significant
  digits, a tie to the even digit. A decimal number is the real number it denotes; its limits of
  the exponent are not reached by values of at most 4300 digits.
\<close>

section \<open>Rounding\<close>

definition nearest_even :: "real \<Rightarrow> int" where
  "nearest_even y = (let f = \<lfloor>y\<rfloor>; d = y - of_int f in
     if d < 1 / 2 then f else if d > 1 / 2 then f + 1 else if even f then f else f + 1)"

definition decimal_exponent :: "real \<Rightarrow> int" where
  "decimal_exponent x = \<lfloor>log 10 \<bar>x\<bar>\<rfloor>"

text \<open>The value of one unit in the last of the 28 digits of a number.\<close>

definition last_digit_unit :: "real \<Rightarrow> real" where
  "last_digit_unit x = 10 powi (decimal_exponent x - 27)"

definition decimal_round :: "real \<Rightarrow> real" where
  "decimal_round x = (if x = 0 then 0
     else of_int (nearest_even (x / last_digit_unit x)) * last_digit_unit x)"

definition decimal_add :: "real \<Rightarrow> real \<Rightarrow> real" where
  "decimal_add a b = decimal_round (a + b)"

definition decimal_multiply :: "real \<Rightarrow> real \<Rightarrow> real" where
  "decimal_multiply a b = decimal_round (a * b)"

definition decimal_divide :: "real \<Rightarrow> real \<Rightarrow> real" where
  "decimal_divide a b = decimal_round (a / b)"

text \<open>\<open>sum(values, Decimal(0))\<close>.\<close>

definition decimal_sum :: "real list \<Rightarrow> real" where
  "decimal_sum xs = foldl decimal_add 0 xs"

section \<open>Facts about rounding\<close>

lemma nearest_even_int [simp]: "nearest_even (of_int n) = n"
  by (simp add: nearest_even_def)

lemma nearest_even_mono: "of_int n \<le> y \<Longrightarrow> n \<le> nearest_even y"
  "y \<le> of_int n \<Longrightarrow> nearest_even y \<le> n"
proof -
  assume "of_int n \<le> y"
  then have "n \<le> \<lfloor>y\<rfloor>" by (simp add: le_floor_iff)
  then show "n \<le> nearest_even y" by (simp add: nearest_even_def Let_def)
next
  assume y: "y \<le> of_int n"
  show "nearest_even y \<le> n"
  proof (cases "y = of_int n")
    case False
    then have "\<lfloor>y\<rfloor> < n" using y by (simp add: floor_less_iff)
    then show ?thesis by (simp add: nearest_even_def Let_def)
  qed simp
qed

lemma decimal_exponent_bounds:
  assumes "0 < x"
  shows "10 powi (decimal_exponent x) \<le> x" and "x < 10 powi (decimal_exponent x + 1)"
proof -
  have "of_int (decimal_exponent x) \<le> log 10 x" "log 10 x < of_int (decimal_exponent x + 1)"
    using assms by (simp_all add: decimal_exponent_def)
  then have "10 powr (of_int (decimal_exponent x)) \<le> x" "x < 10 powr (of_int (decimal_exponent x + 1))"
    using assms by (simp_all add: le_log_iff log_less_iff)
  then show "10 powi (decimal_exponent x) \<le> x" "x < 10 powi (decimal_exponent x + 1)"
    by (simp_all add: powr_real_of_int' del: of_int_add)
qed

lemma unit_pos [simp]: "0 < last_digit_unit x"
  by (simp add: last_digit_unit_def)

text \<open>A number of at most 28 digits is not changed.\<close>

lemma ten_powi_le_iff: "(10 :: real) powi m \<le> 10 powi n \<longleftrightarrow> m \<le> n"
  using powr_le_cancel_iff [of 10 "of_int m" "of_int n"] by (simp add: powr_real_of_int')

lemma decimal_round_exact:
  assumes "x = of_int n / 10 ^ k" and "0 < n" and "n < 10 ^ 28"
  shows "decimal_round x = x"
proof -
  have x: "0 < x" using assms by simp
  have "10 powi decimal_exponent x \<le> x" by (rule decimal_exponent_bounds [OF x])
  also have "x < 10 ^ 28 / 10 ^ k"
    using assms(1) of_int_less_iff [where 'a = real, THEN iffD2, OF assms(3)]
    by (simp add: divide_strict_right_mono)
  also have "(10 :: real) ^ 28 / 10 ^ k = 10 powi (28 - int k)"
    by (simp add: power_int_diff)
  finally have "\<not> 28 - int k \<le> decimal_exponent x"
    by (metis leD ten_powi_le_iff)
  then have le: "0 \<le> 27 - int k - decimal_exponent x + 0" by simp
  define j where "j = nat (27 - int k - decimal_exponent x)"
  have e: "decimal_exponent x - 27 = - int k - int j" using le by (simp add: j_def)
  have "x / last_digit_unit x = of_int (n * 10 ^ j)"
    using assms(1)
    by (simp add: last_digit_unit_def e power_int_diff power_int_minus field_simps)
  then have "decimal_round x = x / last_digit_unit x * last_digit_unit x"
    using x by (simp only: decimal_round_def nearest_even_int) simp
  then show ?thesis using unit_pos [of x] by simp
qed

text \<open>Rounding does not cross a number of 28 digits between one and ten.\<close>

lemma exponent_of:
  assumes "10 powi e \<le> x" and "x < 10 powi (e + 1)"
  shows "decimal_exponent x = e"
proof -
  have "0 < x" using assms(1) by (rule less_le_trans [rotated]) simp
  then have "10 powi decimal_exponent x < (10 :: real) powi (e + 1)"
    "10 powi e < (10 :: real) powi (decimal_exponent x + 1)"
    using decimal_exponent_bounds [of x] assms by (meson order_le_less_trans)+
  then show ?thesis using ten_powi_le_iff by (metis leD linorder_not_le zle_add1_eq_le order_antisym)
qed

lemma decimal_round_bounds:
  assumes "0 < x"
  shows "10 powi decimal_exponent x \<le> decimal_round x"
    and "decimal_round x \<le> 10 powi (decimal_exponent x + 1)"
proof -
  let ?u = "last_digit_unit x"
  have whole: "10 powi decimal_exponent x = of_int (10 ^ 27) * ?u"
    "10 powi (decimal_exponent x + 1) = of_int (10 ^ 28) * ?u"
    by (simp_all add: last_digit_unit_def power_int_diff power_int_add)
  then have "of_int (10 ^ 27) \<le> x / ?u" "x / ?u \<le> of_int (10 ^ 28)"
    using decimal_exponent_bounds [OF assms] unit_pos [of x]
    by (simp_all add: pos_le_divide_eq pos_divide_le_eq)
  then have "10 ^ 27 \<le> nearest_even (x / ?u)" "nearest_even (x / ?u) \<le> 10 ^ 28"
    using nearest_even_mono by blast+
  then have "(of_int (10 ^ 27) :: real) \<le> of_int (nearest_even (x / ?u))"
    "of_int (nearest_even (x / ?u)) \<le> (of_int (10 ^ 28) :: real)"
    by (simp_all only: of_int_le_iff)
  then show "10 powi decimal_exponent x \<le> decimal_round x"
    "decimal_round x \<le> 10 powi (decimal_exponent x + 1)"
    using assms unit_pos [of x] by (simp_all add: decimal_round_def whole mult_right_mono)
qed

lemma decimal_round_pos: "0 < x \<Longrightarrow> 0 < decimal_round x"
  using decimal_round_bounds(1) [of x] by (meson less_le_trans zero_less_power_int zero_less_numeral)

lemma decimal_round_near_one:
  assumes "c = of_int m / 10 ^ 27" and "1 \<le> c" and "c < 10" and "0 < x"
  shows "x \<le> c \<Longrightarrow> decimal_round x \<le> c" and "c \<le> x \<Longrightarrow> c \<le> decimal_round x"
proof -
  have unit: "decimal_round x = of_int (nearest_even (x * 10 ^ 27)) / 10 ^ 27"
    if "1 \<le> x" "x < 10"
  proof -
    have "decimal_exponent x = 0" using that by (intro exponent_of) auto
    then show ?thesis using that by (simp add: decimal_round_def last_digit_unit_def power_int_minus field_simps)
  qed
  show "decimal_round x \<le> c" if "x \<le> c"
  proof (cases "1 \<le> x")
    case True
    have "x * 10 ^ 27 \<le> of_int m" using that assms(1) by (simp add: field_simps)
    then have "nearest_even (x * 10 ^ 27) \<le> m" by (rule nearest_even_mono)
    then show ?thesis using unit True that assms(1,3) by (simp add: divide_right_mono)
  next
    case False
    then have "decimal_exponent x + 1 \<le> 0"
      using decimal_exponent_bounds(1) [OF assms(4)] ten_powi_le_iff [of 0 "decimal_exponent x"] by force
    then have "10 powi (decimal_exponent x + 1) \<le> (10 :: real) powi 0" by (simp only: ten_powi_le_iff)
    then show ?thesis using decimal_round_bounds(2) [OF assms(4)] assms(2) by simp
  qed
  show "c \<le> decimal_round x" if "c \<le> x"
  proof (cases "x < 10")
    case True
    have "of_int m \<le> x * 10 ^ 27" using that assms(1) by (simp add: field_simps)
    then have "m \<le> nearest_even (x * 10 ^ 27)" by (rule nearest_even_mono)
    then show ?thesis using unit True that assms(1,2) by (simp add: divide_right_mono)
  next
    case False
    then have "1 < decimal_exponent x + 1"
      using decimal_exponent_bounds(2) [OF assms(4)] ten_powi_le_iff [of "decimal_exponent x + 1" 1] by force
    then have "10 powi 1 \<le> (10 :: real) powi decimal_exponent x" by (simp only: ten_powi_le_iff)
    then show ?thesis using decimal_round_bounds(1) [OF assms(4)] assms(3) by simp
  qed
qed

end
