(* ===== verification/Cache_Scoring.thy ===== *)
theory Cache_Scoring
  imports Cache_Turns Py_Decimal
begin

text \<open>
  The score of a cache-performance campaign (\<open>sglang_sm121_cache_performance.py\<close>), and the record
  that its runner makes of one timed turn from the replies of the server (\<open>runner.py\<close>).
\<close>

section \<open>The score\<close>

definition SM121_CACHE_PERFORMANCE_PROMOTION_RATIO :: real where
  "SM121_CACHE_PERFORMANCE_PROMOTION_RATIO = 95 / 100"
definition SM121_CACHE_PERFORMANCE_FULL_WALL_GUARDRAIL_RATIO :: real where
  "SM121_CACHE_PERFORMANCE_FULL_WALL_GUARDRAIL_RATIO = 105 / 100"

record cache_score =
  score_status :: string
  score_decision :: string
  a_later_wall_s :: "real option"
  b_later_wall_s :: "real option"
  a_full_wall_s :: "real option"
  b_full_wall_s :: "real option"
  winner_later_wall_ratio :: "real option"
  winner_full_wall_ratio :: "real option"

definition optional_float :: "real option \<Rightarrow> pyval" where
  "optional_float v = (case v of None \<Rightarrow> PNone | Some r \<Rightarrow> PFloat (FFin r))"

definition score_to_mapping :: "cache_score \<Rightarrow> pydict" where
  "score_to_mapping s = [
     (''status'', PStr (score_status s)), (''decision'', PStr (score_decision s)),
     (''a_later_wall_s'', optional_float (a_later_wall_s s)),
     (''b_later_wall_s'', optional_float (b_later_wall_s s)),
     (''a_full_wall_s'', optional_float (a_full_wall_s s)),
     (''b_full_wall_s'', optional_float (b_full_wall_s s)),
     (''winner_later_wall_ratio'', optional_float (winner_later_wall_ratio s)),
     (''winner_full_wall_ratio'', optional_float (winner_full_wall_ratio s))]"

definition not_evaluated :: cache_score where
  "not_evaluated = \<lparr>score_status = ''partial'', score_decision = ''not_evaluated'', a_later_wall_s = None,
     b_later_wall_s = None, a_full_wall_s = None, b_full_wall_s = None, winner_later_wall_ratio = None,
     winner_full_wall_ratio = None\<rparr>"

definition lifetime_admitted :: "pydict \<Rightarrow> bool" where
  "lifetime_admitted row \<longleftrightarrow> \<not> is_not_true row ''quality_admitted'' \<and> \<not> is_not_true row ''timed_admitted''
     \<and> \<not> is_not_true row ''within_timeout''"

definition lifetime_turns :: "pydict \<Rightarrow> pyval list" where
  "lifetime_turns row = (case dict_get row ''turns'' of PList turns \<Rightarrow> turns | _ \<Rightarrow> [])"

text \<open>The later and the full wall time of an admitted lifetime.\<close>

definition lifetime_walls :: "pydict \<Rightarrow> (real \<times> real) res" where
  "lifetime_walls row =
     andThen (traverse (\<lambda>(_, event). if turn_admitted event then Inr event else Inl cache_error)
       (zip SM121_CACHE_PERFORMANCE_TIMED_TURNS (lifetime_turns row))) (\<lambda>turns.
     andThen (traverse (\<lambda>event. require_finite_decimal (value_of event ''request_wall_s'') True) turns) (\<lambda>walls.
     Inr (decimal_add (walls ! 1) (walls ! 2), decimal_sum walls)))"

text \<open>The walls per arm, or \<open>None\<close> at the first lifetime that was not admitted.\<close>

fun collect_walls ::
  "(string \<times> pyval) list \<Rightarrow> (string \<times> real \<times> real) list \<Rightarrow> (string \<times> real \<times> real) list option res" where
  "collect_walls [] found = Inr (Some found)"
| "collect_walls ((arm, raw) # rest) found =
     (case raw of PDict row \<Rightarrow>
       if \<not> lifetime_admitted row then Inr None else
       andThen (lifetime_walls row) (\<lambda>walls. collect_walls rest (found @ [(arm, walls)]))
       | _ \<Rightarrow> Inl TypeError)"

definition arm_walls :: "string \<Rightarrow> (string \<times> real \<times> real) list \<Rightarrow> (real \<times> real) list" where
  "arm_walls arm found = map snd (filter (\<lambda>(a, _). a = arm) found)"

definition mean_of_two :: "real list \<Rightarrow> real" where
  "mean_of_two xs = decimal_divide (decimal_sum xs) 2"

text \<open>\<open>float(value)\<close>, refused when it is not finite.\<close>

definition score_number :: "real \<Rightarrow> real res" where
  "score_number v = (if \<bar>v\<bar> < of_int float_overflow_bound then Inr v else Inl cache_error)"

definition optional_score_number :: "real option \<Rightarrow> real option res" where
  "optional_score_number v = (case v of None \<Rightarrow> Inr None
     | Some r \<Rightarrow> andThen (score_number r) (\<lambda>x. Inr (Some x)))"

definition decide_winner :: "real \<Rightarrow> real \<Rightarrow> real \<Rightarrow> real \<Rightarrow> (string \<times> real \<times> real) option" where
  "decide_winner a_later b_later a_full b_full =
     (if a_later \<le> decimal_multiply b_later SM121_CACHE_PERFORMANCE_PROMOTION_RATIO
      then Some (''retain_a'', decimal_divide a_later b_later, decimal_divide a_full b_full)
      else if b_later \<le> decimal_multiply a_later SM121_CACHE_PERFORMANCE_PROMOTION_RATIO
      then Some (''retain_b'', decimal_divide b_later a_later, decimal_divide b_full a_full)
      else None)"

definition decision_of_winner :: "(string \<times> real \<times> real) option \<Rightarrow> string" where
  "decision_of_winner winner = (case winner of None \<Rightarrow> ''no_retention''
     | Some (retained, _, full_ratio) \<Rightarrow>
         if full_ratio \<le> SM121_CACHE_PERFORMANCE_FULL_WALL_GUARDRAIL_RATIO then retained
         else ''guardrail_reject'')"

definition score_walls :: "(string \<times> real \<times> real) list \<Rightarrow> cache_score res" where
  "score_walls found =
     (let a = arm_walls ''A'' found; b = arm_walls ''B'' found in
      if length a \<noteq> 2 \<or> length b \<noteq> 2 then Inl cache_error else
      let a_later = mean_of_two (map fst a); b_later = mean_of_two (map fst b);
          a_full = mean_of_two (map snd a); b_full = mean_of_two (map snd b) in
      if a_later \<le> 0 \<or> b_later \<le> 0 \<or> a_full \<le> 0 \<or> b_full \<le> 0 then Inl cache_error else
      let winner = decide_winner a_later b_later a_full b_full in
      andThen (score_number a_later) (\<lambda>al.
      andThen (score_number b_later) (\<lambda>bl.
      andThen (score_number a_full) (\<lambda>af.
      andThen (score_number b_full) (\<lambda>bf.
      andThen (optional_score_number (map_option (\<lambda>w. fst (snd w)) winner)) (\<lambda>lr.
      andThen (optional_score_number (map_option (\<lambda>w. snd (snd w)) winner)) (\<lambda>fr.
      Inr \<lparr>score_status = ''complete'', score_decision = decision_of_winner winner,
        a_later_wall_s = Some al, b_later_wall_s = Some bl, a_full_wall_s = Some af,
        b_full_wall_s = Some bf, winner_later_wall_ratio = lr, winner_full_wall_ratio = fr\<rparr>)))))))"

definition score_campaign :: "pyval \<Rightarrow> cache_score res" where
  "score_campaign lifetimes =
     andThen (validate_lifetimes lifetimes) (\<lambda>rows.
     andThen (collect_walls (zip SM121_CACHE_PERFORMANCE_ARM_ORDER rows) []) (\<lambda>found.
     case found of None \<Rightarrow> Inr not_evaluated | Some walls \<Rightarrow> score_walls walls))"

section \<open>The record of a timed turn\<close>

text \<open>
  What one timed turn of the runner yields: the request's result without its private token ids,
  the ids, the wall time, the metrics before and after with their polls, and whether the record
  of the turn could be appended to the journal.
\<close>

record turn_reply =
  reply_result :: pydict
  reply_token_ids :: "nat list"
  reply_wall :: pyval
  reply_before :: pydict
  reply_before_polls :: int
  reply_before_settled :: bool
  reply_after :: pydict
  reply_after_polls :: int
  reply_after_settled :: bool
  reply_recorded :: "unit res"

definition snapshot_metrics :: "string \<Rightarrow> pydict \<Rightarrow> pydict res" where
  "snapshot_metrics p snapshot =
     andThen (traverse (\<lambda>m. andThen (getitem snapshot m) (\<lambda>v. Inr (metric_field p m, v)))
       SM121_CACHE_PERFORMANCE_METRIC_FIELDS) (\<lambda>metrics.
     andThen (traverse (\<lambda>s. andThen (getitem snapshot (''cached_'' @ s @ ''_series_present''))
         (\<lambda>v. Inr (series_field p s, v))) SM121_CACHE_OBSERVABILITY_CACHED_SERIES) (\<lambda>series.
     Inr (metrics @ series)))"

definition delta_metrics :: "pydict \<Rightarrow> pydict res" where
  "delta_metrics event = traverse (\<lambda>m.
     andThen (py_subtract (dict_get event (metric_field ''after'' m)) (dict_get event (metric_field ''before'' m)))
       (\<lambda>d. Inr (metric_field ''delta'' m, d))) SM121_CACHE_PERFORMANCE_METRIC_FIELDS"

text \<open>Both snapshots say that the counters are available.\<close>

definition both_true :: "pydict \<Rightarrow> pydict \<Rightarrow> string \<Rightarrow> pyval" where
  "both_true before after field = PBool (\<not> is_not_true before field \<and> \<not> is_not_true after field)"

definition turn_scalars ::
  "string \<Rightarrow> string \<Rightarrow> int \<Rightarrow> string \<Rightarrow> turn_reply \<Rightarrow> bool \<Rightarrow> bool \<Rightarrow> int \<Rightarrow> pydict res" where
  "turn_scalars case_id arm ordinal turn r append_verified cross_verified shared =
     andThen (traverse (\<lambda>k. andThen (getitem (reply_result r) k) (\<lambda>v. Inr (k, v)))
       [''prompt_tokens'', ''completion_tokens'', ''reasoning_tokens'']) (\<lambda>tokens.
     andThen (traverse (\<lambda>k. andThen (getitem (reply_result r) k) (\<lambda>v. Inr (k, v)))
       [''response_detail_state'', ''usage_detail_state'', ''response_device_cached_tokens'',
        ''response_host_cached_tokens'', ''response_storage_cached_tokens'', ''usage_cached_tokens'']) (\<lambda>details.
     Inr ([(''event'', PStr SM121_CACHE_PERFORMANCE_TURN_EVENT), (''arm'', PStr arm),
       (''lifetime_ordinal'', PInt ordinal), (''case_id'', PStr case_id),
       (''protocol_case_id'', PStr SM121_CACHE_PERFORMANCE_CASE_ID), (''turn'', PStr turn),
       (''cache_details_requested'', PBool True), (''prompt_token_ids_requested'', PBool True),
       (''streaming'', PBool False), (''thinking_disabled'', PBool True)] @ tokens @
      [(''shared_prefix_tokens'', PInt shared),
       (''append_only_prompt_identity_verified'', PBool append_verified),
       (''cross_lifetime_prompt_identity_verified'', PBool cross_verified)] @ details @
      [(''metrics_available'', both_true (reply_before r) (reply_after r) ''available''),
       (''guardrail_metrics_available'',
          both_true (reply_before r) (reply_after r) ''guardrail_metrics_available''),
       (''metrics_before_polls'', PInt (reply_before_polls r)),
       (''metrics_after_polls'', PInt (reply_after_polls r)),
       (''metrics_before_settled'', PBool (reply_before_settled r)),
       (''metrics_after_settled'', PBool (reply_after_settled r)),
       (''request_wall_s'', reply_wall r)])))"

definition request_error :: "exn \<Rightarrow> exn" where
  "request_error x = (if x \<in> {KeyError, TypeError} \<or> is_value_error x then SM121CachePerformanceRequestError else x)"

text \<open>An exception replaced by the function \<open>f\<close>.\<close>

definition translate :: "(exn \<Rightarrow> exn) \<Rightarrow> 'a res \<Rightarrow> 'a res" where
  "translate f m = (case m of Inl x \<Rightarrow> Inl (f x) | Inr y \<Rightarrow> Inr y)"

definition turn_event ::
  "string \<Rightarrow> string \<Rightarrow> int \<Rightarrow> string \<Rightarrow> turn_reply \<Rightarrow> bool \<Rightarrow> bool \<Rightarrow> int \<Rightarrow> pydict res" where
  "turn_event case_id arm ordinal turn r append_verified cross_verified shared =
     andThen (turn_scalars case_id arm ordinal turn r append_verified cross_verified shared) (\<lambda>scalars.
     andThen (snapshot_metrics ''before'' (reply_before r)) (\<lambda>before.
     andThen (snapshot_metrics ''after'' (reply_after r)) (\<lambda>after.
     andThen (delta_metrics (before @ after)) (\<lambda>delta.
     let event = (\<lambda>admitted basis. scalars @ [(''timed_turn_admitted'', PBool admitted),
           (''timed_turn_basis'', PStr basis)] @ before @ after @ delta) in
     andThen (translate request_error (derive_turn_admission (PDict (event False ''pending'')))) (\<lambda>(admitted, basis).
     andThen (reraise (\<lambda>x. x = cache_error) SM121CachePerformanceRequestError
       (validate_turn_event (PDict (event admitted basis)))) (\<lambda>_. Inr (event admitted basis)))))))"

end
