(* ===== verification/Cache_Campaign.thy ===== *)
theory Cache_Campaign
  imports Cache_Scoring
begin

text \<open>
  \<open>bench/runner.py\<close>: the execution of a cache-performance campaign. What the server, the host
  watchdog, the clock and the journal do is a record of replies per arm; the control flow, the
  identity checks of the prompts and the lifetimes that are written are the code's. When the
  watchdog trips during a timed lifetime, its exception and the one that stopped the turns are not
  told apart.
\<close>

section \<open>One timed lifetime\<close>

fun common_prefix_tokens :: "nat list \<Rightarrow> nat list \<Rightarrow> int" where
  "common_prefix_tokens (x # xs) (y # ys) = (if x = y then 1 + common_prefix_tokens xs ys else 0)"
| "common_prefix_tokens _ _ = 0"

text \<open>
  The turns of a lifetime: \<open>previous\<close> holds the token ids of the turns so far, \<open>reference\<close> those of
  the first timed lifetime of the campaign.
\<close>

definition timed_turn ::
  "string \<Rightarrow> string \<Rightarrow> int \<Rightarrow> nat list list option \<Rightarrow> nat list list \<Rightarrow> string \<Rightarrow> turn_reply \<Rightarrow> pydict res" where
  "timed_turn case_id arm ordinal reference previous turn r =
     (let ids = reply_token_ids r;
          shared = (if previous = [] then 0 else common_prefix_tokens (last previous) ids);
          append_verified = (previous = [] \<or> shared \<ge> SM121_CACHE_PERFORMANCE_COLD_INPUT_MIN_TOKENS) in
      if ids = [] then Inl SM121CachePerformanceRequestError else
      if (case reference of None \<Rightarrow> ordinal \<noteq> 2 \<or> arm \<noteq> ''A'' | Some turns \<Rightarrow> ids \<noteq> turns ! length previous)
      then Inl SM121CachePerformanceRequestError else
      andThen (turn_event case_id arm ordinal turn r append_verified True shared) (\<lambda>event.
      andThen (reply_recorded r) (\<lambda>_.
      if is_not_true event ''timed_turn_admitted'' then Inl SM121CachePerformanceRequestError
      else Inr event)))"

fun timed_turns ::
  "string \<Rightarrow> string \<Rightarrow> int \<Rightarrow> nat list list option \<Rightarrow> nat list list \<Rightarrow> (string \<times> turn_reply res) list
     \<Rightarrow> (pydict list \<times> nat list list) res" where
  "timed_turns case_id arm ordinal reference previous [] = Inr ([], previous)"
| "timed_turns case_id arm ordinal reference previous ((turn, reply) # rest) =
     andThen reply (\<lambda>r.
     andThen (timed_turn case_id arm ordinal reference previous turn r) (\<lambda>event.
     andThen (timed_turns case_id arm ordinal reference (previous @ [reply_token_ids r]) rest)
       (\<lambda>(events, ids). Inr (event # events, ids))))"

text \<open>
  The replies of one arm: whether it may start, its preflight, its quality lifetime (the elapsed
  seconds), the start, the three turns and the end of its timed lifetime, the time that took, the
  turn events that the journal holds after a failure, and whether the closing records were written.
\<close>

record arm_replies =
  arm_checks :: "unit res"
  preflight :: "unit res"
  quality_lifetime :: "real res"
  timed_case_id :: string
  timed_start :: "unit res"
  turn_replies :: "turn_reply res \<times> turn_reply res \<times> turn_reply res"
  timed_end :: "unit res"
  timed_closed :: "unit res"
  timed_elapsed :: real
  journal_turns :: "pydict list"
  failure_recorded :: "unit res"
  completion_recorded :: "unit res"

definition named_replies :: "arm_replies \<Rightarrow> (string \<times> turn_reply res) list" where
  "named_replies a = (case turn_replies a of (t0, t1, t2) \<Rightarrow>
     zip SM121_CACHE_PERFORMANCE_TIMED_TURNS [t0, t1, t2])"

definition cell_timeout :: real where
  "cell_timeout = of_int SM121_CACHE_PERFORMANCE_CELL_TIMEOUT_S"

definition timed_lifetime ::
  "arm_replies \<Rightarrow> string \<Rightarrow> int \<Rightarrow> nat list list option \<Rightarrow> (pydict list \<times> nat list list \<times> real) res" where
  "timed_lifetime a arm ordinal reference =
     (let ran = andThen (timed_start a) (\<lambda>_.
          andThen (timed_turns (timed_case_id a) arm ordinal reference [] (named_replies a)) (\<lambda>turns.
          andThen (timed_end a) (\<lambda>_. Inr turns))) in
      andThen (timed_closed a) (\<lambda>_.
      (case ran of
         Inl x \<Rightarrow> Inl (if x \<in> {HostSafetyError, SM121CachePerformanceRequestError} then x
           else SM121CachePerformanceRequestError)
       | Inr (events, ids) \<Rightarrow>
           if timed_elapsed a \<le> cell_timeout then Inr (events, ids, timed_elapsed a)
           else Inl SM121CachePerformanceRequestError)))"

section \<open>The turns that a failed lifetime keeps\<close>

definition journal_turn :: "string \<Rightarrow> int \<Rightarrow> nat \<Rightarrow> nat \<times> string \<times> pydict \<Rightarrow> pydict option res" where
  "journal_turn arm campaign_ordinal n = (\<lambda>(i, expected_turn, raw).
     (let scalar = filter (\<lambda>(k, v). k \<noteq> ''timestamp'') raw in
      (case validate_turn_event (PDict scalar) of
         Inl x \<Rightarrow> if x = cache_error then Inr None else Inl x
       | Inr _ \<Rightarrow>
         if dict_get scalar ''arm'' \<noteq> PStr arm \<or> dict_get scalar ''lifetime_ordinal'' \<noteq> PInt (campaign_ordinal * 2)
           \<or> dict_get scalar ''turn'' \<noteq> PStr expected_turn
           \<or> (i + 1 < n \<and> is_not_true scalar ''timed_turn_admitted'')
         then Inr None else Inr (Some scalar))))"

text \<open>All of them, or none when one is not valid.\<close>

fun journal_turns_prefix ::
  "string \<Rightarrow> int \<Rightarrow> nat \<Rightarrow> (nat \<times> string \<times> pydict) list \<Rightarrow> pydict list \<Rightarrow> pydict list res" where
  "journal_turns_prefix arm campaign_ordinal n [] found = Inr found"
| "journal_turns_prefix arm campaign_ordinal n (x # rest) found =
     andThen (journal_turn arm campaign_ordinal n x) (\<lambda>turn.
     case turn of None \<Rightarrow> Inr [] | Some t \<Rightarrow>
       journal_turns_prefix arm campaign_ordinal n rest (found @ [t]))"

definition timed_turn_prefix_from_journal :: "pydict list \<Rightarrow> string \<Rightarrow> int \<Rightarrow> pydict list res" where
  "timed_turn_prefix_from_journal journal arm campaign_ordinal =
     (let events = filter (\<lambda>ev. dict_get ev ''event'' = PStr SM121_CACHE_PERFORMANCE_TURN_EVENT) journal in
      if length events > length SM121_CACHE_PERFORMANCE_TIMED_TURNS then Inr [] else
      journal_turns_prefix arm campaign_ordinal (length events)
        (zip [0..<length events] (zip SM121_CACHE_PERFORMANCE_TIMED_TURNS events)) [])"

section \<open>One arm\<close>

definition lifetime_row :: "int \<Rightarrow> string \<Rightarrow> bool \<Rightarrow> bool \<Rightarrow> bool \<Rightarrow> pydict list \<Rightarrow> pydict" where
  "lifetime_row ordinal arm quality timed in_time turns = [
     (''ordinal'', PInt ordinal), (''arm'', PStr arm), (''quality_admitted'', PBool quality),
     (''timed_admitted'', PBool timed), (''within_timeout'', PBool in_time),
     (''turns'', PList (map PDict turns))]"

definition unstarted_lifetime :: "int \<Rightarrow> string \<Rightarrow> pydict" where
  "unstarted_lifetime ordinal arm = lifetime_row ordinal arm False False False []"

text \<open>
  The body of the \<open>try\<close>: whether the timed lifetime was reached, the reference token ids for the
  next arm, and either the turns or the failure.
\<close>

definition arm_body ::
  "arm_replies \<Rightarrow> string \<Rightarrow> int \<Rightarrow> nat list list option \<Rightarrow> bool \<times> nat list list option \<times> pydict list res" where
  "arm_body a arm ordinal reference =
     (case andThen (preflight a) (\<lambda>_. quality_lifetime a) of
        Inl x \<Rightarrow> (False, reference, Inl x)
      | Inr quality_elapsed \<Rightarrow>
     (case timed_lifetime a arm (ordinal * 2) reference of
        Inl x \<Rightarrow> (True, reference, Inl x)
      | Inr (events, ids, elapsed) \<Rightarrow>
          if \<not> list_all (\<lambda>ev. \<not> is_not_true ev ''timed_turn_admitted'') events
             \<or> length ids \<noteq> length SM121_CACHE_PERFORMANCE_TIMED_TURNS
          then (True, reference, Inl SM121CachePerformanceRequestError) else
          let next_reference = (case reference of None \<Rightarrow> Some ids | Some r \<Rightarrow> Some r) in
          if \<not> (quality_elapsed \<le> cell_timeout \<and> elapsed \<le> cell_timeout)
          then (True, next_reference, Inl SM121CachePerformanceRequestError)
          else (True, next_reference, Inr events)))"

text \<open>The lifetime that is written, the reference ids for the next arm, and whether it completed.\<close>

definition execute_arm ::
  "arm_replies \<Rightarrow> string \<Rightarrow> int \<Rightarrow> nat list list option \<Rightarrow> (pydict \<times> nat list list option \<times> bool) res" where
  "execute_arm a arm ordinal reference =
     andThen (arm_checks a) (\<lambda>_.
     (let (quality, next_reference, outcome) = arm_body a arm ordinal reference in
      case outcome of
        Inl x \<Rightarrow>
          andThen (if quality then timed_turn_prefix_from_journal (journal_turns a) arm ordinal else Inr []) (\<lambda>turns.
          andThen (failure_recorded a) (\<lambda>_.
          Inr (lifetime_row ordinal arm quality False False turns, next_reference, False)))
      | Inr events \<Rightarrow>
          andThen (completion_recorded a) (\<lambda>_.
          Inr (lifetime_row ordinal arm quality True True events, next_reference, True))))"

section \<open>The campaign\<close>

text \<open>The four arms in order; \<open>ran\<close> lists the ordinals of the arms that were executed.\<close>

fun execute_arms ::
  "(int \<times> string \<times> arm_replies) list \<Rightarrow> nat list list option \<Rightarrow> bool \<Rightarrow> int list \<times> pydict list res" where
  "execute_arms [] reference terminal = ([], Inr [])"
| "execute_arms ((ordinal, arm, a) # rest) reference terminal =
     (if terminal then
        (let (ran, lifetimes) = execute_arms rest reference True
         in (ran, andThen lifetimes (\<lambda>ls. Inr (unstarted_lifetime ordinal arm # ls))))
      else (case execute_arm a arm ordinal reference of
          Inl x \<Rightarrow> ([ordinal], Inl x)
        | Inr (lifetime, reference', completed) \<Rightarrow>
           (let (ran, lifetimes) = execute_arms rest reference' (\<not> completed)
            in (ordinal # ran, andThen lifetimes (\<lambda>ls. Inr (lifetime # ls))))))"

definition arms_in_order :: "arm_replies \<Rightarrow> arm_replies \<Rightarrow> arm_replies \<Rightarrow> arm_replies
    \<Rightarrow> (int \<times> string \<times> arm_replies) list" where
  "arms_in_order a1 a2 a3 a4 =
     zip (map int [1..<5]) (zip SM121_CACHE_PERFORMANCE_ARM_ORDER [a1, a2, a3, a4])"

definition campaign_summary :: "(pyval \<Rightarrow> string) \<Rightarrow> pyval \<Rightarrow> cache_score \<Rightarrow> pydict list \<Rightarrow> pydict" where
  "campaign_summary digest binding_sha score lifetimes =
     (let summary = [
        (''schema_version'', PInt 1), (''campaign_id'', PStr SM121_CACHE_PERFORMANCE_CAMPAIGN_ID),
        (''execution_mode'', PStr SM121_CACHE_PERFORMANCE_EXECUTION_MODE),
        (''pair_binding_sha256'', binding_sha),
        (''status'', PStr (score_status score)), (''decision'', PStr (score_decision score)),
        (''completed_arms'', PInt (int (length (filter lifetime_admitted lifetimes)))),
        (''lifetimes'', PList (map PDict lifetimes)), (''score'', PDict (score_to_mapping score))]
      in summary @ [(''integrity_hash'', PStr (digest (canonical (PDict summary))))])"

text \<open>
  \<open>execute_sm121_cache_performance_campaign\<close>: \<open>loaded\<close> is the binding digest of the frozen campaign
  once it was authenticated, unused and locked; \<open>stored\<close> is what writing the summary gives.
\<close>

definition execute_campaign ::
  "(pyval \<Rightarrow> string) \<Rightarrow> pyval res \<Rightarrow> (int \<times> string \<times> arm_replies) list \<Rightarrow> unit res \<Rightarrow> int list \<times> pydict res" where
  "execute_campaign digest loaded arms stored =
     (case loaded of Inl x \<Rightarrow> ([], Inl x) | Inr binding_sha \<Rightarrow>
      (let (ran, executed_lifetimes) = execute_arms arms None False in
       (ran, andThen executed_lifetimes (\<lambda>lifetimes.
        andThen (reraise (\<lambda>x. x = cache_error) PreflightError
          (score_campaign (PList (map PDict lifetimes)))) (\<lambda>score.
        andThen stored (\<lambda>_. Inr (campaign_summary digest binding_sha score lifetimes)))))))"

end
