(* ===== verification/Cache_Audit.thy ===== *)
theory Cache_Audit
  imports Cache_Campaign Event_Machine
begin

text \<open>
  What the validators of a cache-performance campaign accept: an admitted turn shows the contrast of
  the two arms, the lifetimes are completed ones followed by at most one failed lifetime and
  tombstones, and whatever the arms of a campaign do, the lifetimes it writes are accepted.
\<close>

section \<open>Turns\<close>

lemma event_fields_Inr:
  "event_fields v expected = Inr row \<longleftrightarrow> v = PDict row \<and>
     (dict_keys row = expected \<or> dict_keys row = insert ''timestamp'' expected) \<and>
     (''timestamp'' \<in> dict_keys row \<longrightarrow> is_text_that (\<lambda>_. True) (dict_get row ''timestamp''))"
  by (cases v) (auto simp: event_fields_def)

lemma derived_admission:
  assumes "event_fields event TURN_EVENT_FIELDS = Inr row"
  shows "derive_turn_admission event = turn_admission row"
  using assms by (simp add: derive_turn_admission_def)

text \<open>What a valid record says.\<close>

definition turn_record :: "pydict \<Rightarrow> string \<Rightarrow> int \<Rightarrow> string \<Rightarrow> bool" where
  "turn_record row arm ordinal turn \<longleftrightarrow>
     dict_get row ''arm'' = PStr arm \<and> dict_get row ''lifetime_ordinal'' = PInt ordinal \<and>
     dict_get row ''turn'' = PStr turn \<and> ordinal_of_arm ordinal arm \<and>
     (\<exists>admitted basis. turn_admission row = Inr (admitted, basis) \<and>
        dict_get row ''timed_turn_admitted'' = PBool admitted) \<and>
     (\<exists>wall. require_finite_decimal (dict_get row ''request_wall_s'') True = Inr wall \<and> 0 < wall)"

lemma require_arm_Inr: "require_arm v = Inr arm \<longleftrightarrow> v = PStr arm \<and> arm \<in> {''A'', ''B''}"
  by (cases v) (auto simp: require_arm_def andThen_eq_Inr in_strings_def split: if_splits)

lemma require_count_Inr:
  "require_count v p = Inr n \<longleftrightarrow> v = PInt n \<and> 0 \<le> n \<and> (p \<longrightarrow> n \<noteq> 0)"
  by (cases v) (auto simp: require_count_def)

lemma cache_require_bool_Inr [simp]: "cache_require_bool v = Inr b \<longleftrightarrow> v = PBool b"
  by (cases v) (auto simp: cache_require_bool_def)

lemma require_wall_pos: "require_finite_decimal v True = Inr r \<Longrightarrow> 0 < r"
  by (auto simp: require_finite_decimal_def split: pyval.splits pyfloat.splits if_splits)

lemma check_metrics_parts:
  assumes "check_metrics row = Inr u"
  shows "\<exists>wall. require_finite_decimal (dict_get row ''request_wall_s'') True = Inr wall"
    and "\<exists>us. traverse (check_metric row) metric_checks = Inr us"
  using assms by (auto simp: check_metrics_def andThen_eq_Inr simp del: traverse.simps)

lemma valid_turn:
  assumes "validate_turn_event event = Inr row"
  obtains arm ordinal turn where "event = PDict row" "turn_record row arm ordinal turn"
    "turn \<in> set SM121_CACHE_PERFORMANCE_TIMED_TURNS" "check_metrics row = Inr ()"
    "\<exists>details. check_details row = Inr details" "check_shape row turn = Inr ()"
proof -
  from assms have "\<exists>arm ordinal turn admitted basis details.
      event_fields event TURN_EVENT_FIELDS = Inr row \<and>
      dict_get row ''arm'' = PStr arm \<and> dict_get row ''lifetime_ordinal'' = PInt ordinal \<and>
      ordinal_of_arm ordinal arm \<and> dict_get row ''turn'' = PStr turn \<and>
      turn \<in> set SM121_CACHE_PERFORMANCE_TIMED_TURNS \<and> check_metrics row = Inr () \<and>
      check_shape row turn = Inr () \<and>
      check_details row = Inr details \<and> derive_turn_admission event = Inr (admitted, basis) \<and>
      dict_get row ''timed_turn_admitted'' = PBool admitted"
    unfolding validate_turn_event_def andThen_eq_Inr guard_eq_Inr text_Inr require_arm_Inr require_count_Inr
      case_prod_beta by (clarsimp simp: prod_eq_iff)
  then obtain arm ordinal turn admitted basis details where
    row: "event_fields event TURN_EVENT_FIELDS = Inr row"
    and arm: "dict_get row ''arm'' = PStr arm" "dict_get row ''lifetime_ordinal'' = PInt ordinal"
      "ordinal_of_arm ordinal arm"
    and turn: "dict_get row ''turn'' = PStr turn" "turn \<in> set SM121_CACHE_PERFORMANCE_TIMED_TURNS"
    and shape: "check_shape row turn = Inr ()"
    and metrics: "check_metrics row = Inr ()" "check_details row = Inr details"
    and adm: "derive_turn_admission event = Inr (admitted, basis)"
      "dict_get row ''timed_turn_admitted'' = PBool admitted"
    by blast
  have "turn_admission row = Inr (admitted, basis)" using adm(1) derived_admission [OF row] by simp
  moreover obtain wall where "require_finite_decimal (dict_get row ''request_wall_s'') True = Inr wall"
    using check_metrics_parts(1) [OF metrics(1)] by blast
  ultimately have "turn_record row arm ordinal turn"
    using arm turn(1) adm(2) require_wall_pos by (auto simp: turn_record_def)
  moreover have "event = PDict row" using row by (simp add: event_fields_Inr)
  ultimately show thesis using that turn(2) shape metrics by blast
qed

lemma traverse_each: "traverse f xs = Inr ys \<Longrightarrow> x \<in> set xs \<Longrightarrow> \<exists>y. f x = Inr y"
  by (induction xs arbitrary: ys) (auto simp: andThen_eq_Inr)

lemma metric_typed:
  assumes "check_metrics row = Inr ()" and "p \<in> set METRIC_PREFIXES"
    and "m \<in> set SM121_CACHE_PERFORMANCE_METRIC_FIELDS" and "\<not> (p = ''delta'' \<and> gauge_metric m)"
  shows "\<exists>n \<ge> 0. dict_get row (metric_field p m) = PInt n"
proof -
  have member: "(p, m) \<in> set metric_checks" using assms(2,3) unfolding metric_checks_def by auto
  from check_metrics_parts(2) [OF assms(1)] obtain us where
    all: "traverse (check_metric row) metric_checks = Inr us" by (rule exE)
  from traverse_each [OF all member] obtain u where "check_metric row (p, m) = Inr u" by (rule exE)
  then have "\<exists>n. require_count (dict_get row (metric_field p m)) False = Inr n"
    unfolding check_metric_def using assms(4) by (simp add: andThen_eq_Inr split: if_splits)
  then show ?thesis by (auto simp: require_count_Inr)
qed

lemma details_typed:
  assumes "check_details row = Inr details"
    and "f \<in> {''response_device_cached_tokens'', ''response_host_cached_tokens'',
      ''response_storage_cached_tokens'', ''usage_cached_tokens''}"
  shows "dict_get row f = PNone \<or> (\<exists>n \<ge> 0. dict_get row f = PInt n)"
proof -
  have typed: "v = PNone \<or> (\<exists>n \<ge> 0. v = PInt n)" if "require_optional_count v = Inr y" for v y
    using that by (cases v) (auto simp: require_optional_count_def andThen_eq_Inr require_count_def split: if_splits)
  let ?read = "\<lambda>field. require_optional_count (dict_get row field)"
  from assms(1) obtain found usage where read: "traverse ?read
      [''response_device_cached_tokens'', ''response_host_cached_tokens'',
       ''response_storage_cached_tokens''] = Inr found"
    and usage: "?read ''usage_cached_tokens'' = Inr usage"
    unfolding check_details_def andThen_eq_Inr by blast
  from read have "\<exists>y. ?read ''response_device_cached_tokens'' = Inr y"
    "\<exists>y. ?read ''response_host_cached_tokens'' = Inr y" "\<exists>y. ?read ''response_storage_cached_tokens'' = Inr y"
    unfolding traverse.simps andThen_eq_Inr by blast+
  then have "\<exists>y. ?read f = Inr y" using assms(2) usage by blast
  then show ?thesis using typed by blast
qed

section \<open>Admitted turns\<close>

lemma noted_Nil [simp]: "noted b name = [] \<longleftrightarrow> \<not> b"
  by (simp add: noted_def)

lemma or_else_False [simp]: "or_else m n = Inr False \<longleftrightarrow> m = Inr False \<and> n = Inr False"
  by (auto simp: or_else_def andThen_eq_Inr)

lemma any_res_False [simp]: "any_res f xs = Inr False \<longleftrightarrow> (\<forall>x \<in> set xs. f x = Inr False)"
  by (induction xs) auto

lemma admitted_no_issues:
  assumes "turn_admission row = Inr (True, basis)"
  shows "turn_issues row = Inr []"
proof -
  from assms obtain issues where "turn_issues row = Inr issues"
    "(case issues of [] \<Rightarrow> (True, ''admitted'') | issue # _ \<Rightarrow> (False, issue)) = (True, basis)"
    by (auto simp: turn_admission_def andThen_eq_Inr)
  then show ?thesis by (cases issues) simp_all
qed

definition hit_fields :: "string list" where
  "hit_fields = [''response_device_cached_tokens'', ''response_host_cached_tokens'',
     ''response_storage_cached_tokens'', ''usage_cached_tokens'']"

text \<open>No hit of the cache, neither reported nor counted.\<close>

definition cold_turn :: "pydict \<Rightarrow> bool" where
  "cold_turn row \<longleftrightarrow> list_all (\<lambda>f. dict_get row f \<in> {PNone, PInt 0}) hit_fields \<and>
     dict_get row ''delta_prefill_device_hit_tokens'' = PInt 0 \<and>
     dict_get row ''delta_cached_device_tokens'' = PInt 0 \<and>
     dict_get row ''delta_cached_total_tokens'' = PInt 0 \<and>
     dict_get row ''after_cached_total_tokens'' = PInt 0"

text \<open>A hit that the response reports and both counters of the device confirm.\<close>

definition warm_turn :: "pydict \<Rightarrow> bool" where
  "warm_turn row \<longleftrightarrow> (\<exists>n shared. 0 < n \<and> n \<le> shared \<and>
     dict_get row ''shared_prefix_tokens'' = PInt shared \<and>
     dict_get row ''response_device_cached_tokens'' = PInt n \<and>
     dict_get row ''delta_prefill_device_hit_tokens'' = PInt n \<and>
     dict_get row ''delta_cached_device_tokens'' = PInt n)"

lemma metric_delta_counters:
  assumes "m \<in> {''prefill_device_hit_tokens'', ''cached_device_tokens'', ''cached_total_tokens''}"
  shows "''delta'' \<in> set METRIC_PREFIXES" and "m \<in> set SM121_CACHE_PERFORMANCE_METRIC_FIELDS"
    and "\<not> gauge_metric m"
proof -
  show "''delta'' \<in> set METRIC_PREFIXES" by (simp add: METRIC_PREFIXES_def)
  show "m \<in> set SM121_CACHE_PERFORMANCE_METRIC_FIELDS"
    using assms by (auto simp: SM121_CACHE_PERFORMANCE_METRIC_FIELDS_def HIT_METRICS_def)
  show "\<not> gauge_metric m"
    using assms by (elim insertE emptyE) (simp_all add: gauge_metric_def suffix_to_prefix)
qed

lemma device_metrics:
  assumes "check_metrics row = Inr ()"
  shows "\<exists>n. dict_get row ''delta_prefill_device_hit_tokens'' = PInt n"
    and "\<exists>n. dict_get row ''delta_cached_device_tokens'' = PInt n"
    and "\<exists>n. dict_get row ''delta_cached_total_tokens'' = PInt n"
    and "\<exists>n. dict_get row ''after_cached_total_tokens'' = PInt n"
proof -
  have "\<exists>n. dict_get row (metric_field ''delta'' m) = PInt n"
    if "m \<in> {''prefill_device_hit_tokens'', ''cached_device_tokens'', ''cached_total_tokens''}" for m
    using metric_typed [OF assms, of "''delta''" m] metric_delta_counters [OF that] by blast
  from this [of "''prefill_device_hit_tokens''"] this [of "''cached_device_tokens''"]
    this [of "''cached_total_tokens''"]
  show "\<exists>n. dict_get row ''delta_prefill_device_hit_tokens'' = PInt n"
    "\<exists>n. dict_get row ''delta_cached_device_tokens'' = PInt n"
    "\<exists>n. dict_get row ''delta_cached_total_tokens'' = PInt n"
    by (simp_all add: metric_field_def)
  have "''cached_total_tokens'' \<in> set SM121_CACHE_PERFORMANCE_METRIC_FIELDS"
    "''after'' \<in> set METRIC_PREFIXES"
    by (simp_all add: SM121_CACHE_PERFORMANCE_METRIC_FIELDS_def HIT_METRICS_def METRIC_PREFIXES_def)
  then show "\<exists>n. dict_get row ''after_cached_total_tokens'' = PInt n"
    using metric_typed [OF assms, of "''after''" "''cached_total_tokens''"] by (auto simp: metric_field_def)
qed

lemma no_issue:
  assumes "turn_issues row = Inr []"
  shows "dict_get row ''metrics_available'' = PBool True" and "dict_get row ''append_only_prompt_identity_verified'' = PBool True"
    and "\<exists>device cached. int_field row ''delta_prefill_device_hit_tokens'' = Inr device \<and>
      int_field row ''delta_cached_device_tokens'' = Inr cached \<and>
      (if dict_get row ''arm'' = PStr ''B'' \<or> dict_get row ''turn'' = PStr ''T0''
       then unexpected_hit row device cached = Inr False else unreconciled_hit row device cached = Inr False)"
  using assms unfolding turn_issues_def Let_def andThen_eq_Inr
  by (auto simp: is_not_true_def split: if_splits)


lemma token_field_zero:
  assumes "check_details row = Inr details" and "f \<in> set hit_fields"
    and "some_tokens (dict_get row f) = Inr False"
  shows "dict_get row f \<in> {PNone, PInt 0}"
  using details_typed [OF assms(1), of f] assms(2,3)
  by (auto simp: hit_fields_def some_tokens_def split: if_splits)

lemma int_zero:
  assumes "\<exists>n. dict_get row f = PInt n" and "nonzero_field row f = Inr False"
  shows "dict_get row f = PInt 0"
  using assms by (auto simp: nonzero_field_def int_field_def)

lemma cold_when_admitted:
  assumes "turn_issues row = Inr []" and "check_metrics row = Inr ()" and "check_details row = Inr details"
    and "dict_get row ''arm'' = PStr ''B'' \<or> dict_get row ''turn'' = PStr ''T0''"
  shows "cold_turn row"
proof -
  from no_issue(3) [OF assms(1)] assms(4) obtain device cached where
    ints: "int_field row ''delta_prefill_device_hit_tokens'' = Inr device"
      "int_field row ''delta_cached_device_tokens'' = Inr cached"
    and none: "unexpected_hit row device cached = Inr False" by auto
  from none have fields: "\<forall>f \<in> set hit_fields. some_tokens (dict_get row f) = Inr False"
    and zero: "device = 0" "cached = 0"
    and total: "nonzero_field row ''delta_cached_total_tokens'' = Inr False"
      "nonzero_field row ''after_cached_total_tokens'' = Inr False"
    unfolding unexpected_hit_def or_else_False any_res_False hit_fields_def by simp_all
  have "dict_get row ''delta_prefill_device_hit_tokens'' = PInt 0"
    "dict_get row ''delta_cached_device_tokens'' = PInt 0"
    using ints zero device_metrics(1,2) [OF assms(2)] by (auto simp: int_field_def)
  moreover have "\<forall>f \<in> set hit_fields. dict_get row f \<in> {PNone, PInt 0}"
    using fields token_field_zero [OF assms(3)] by blast
  ultimately show ?thesis
    using int_zero [OF device_metrics(3) [OF assms(2)] total(1)] int_zero [OF device_metrics(4) [OF assms(2)] total(2)]
    by (simp add: cold_turn_def list_all_iff)
qed

lemma shared_typed:
  assumes "check_shape row turn = Inr u"
  shows "\<exists>n \<ge> 0. dict_get row ''shared_prefix_tokens'' = PInt n"
  using assms unfolding check_shape_def andThen_eq_Inr
  by (auto simp: andThen_eq_Inr require_count_Inr split: if_splits)

lemma warm_when_admitted:
  assumes "turn_issues row = Inr []" and "check_metrics row = Inr ()" and "check_details row = Inr details"
    and "\<exists>n. dict_get row ''shared_prefix_tokens'' = PInt n"
    and "\<not> (dict_get row ''arm'' = PStr ''B'' \<or> dict_get row ''turn'' = PStr ''T0'')"
  shows "warm_turn row"
proof -
  from no_issue(3) [OF assms(1)] assms(5) obtain native cached where
    ints: "int_field row ''delta_prefill_device_hit_tokens'' = Inr native"
      "int_field row ''delta_cached_device_tokens'' = Inr cached"
    and hit: "unreconciled_hit row native cached = Inr False" by auto
  obtain shared where shared: "dict_get row ''shared_prefix_tokens'' = PInt shared" using assms(4) by blast
  have typed: "dict_get row ''response_device_cached_tokens'' = PNone \<or>
      (\<exists>n \<ge> 0. dict_get row ''response_device_cached_tokens'' = PInt n)"
    using details_typed [OF assms(3)] by blast
  then obtain n where n: "dict_get row ''response_device_cached_tokens'' = PInt n" "0 < n" "n \<le> shared"
    "n = native" "n = cached"
    using hit shared by (auto simp: unreconciled_hit_def int_field_def split: if_splits)
  then show ?thesis
    using ints device_metrics(1,2) [OF assms(2)] shared by (auto simp: warm_turn_def int_field_def)
qed

text \<open>What an admitted turn of an arm shows.\<close>

definition shows_contrast :: "string \<Rightarrow> string \<Rightarrow> pydict \<Rightarrow> bool" where
  "shows_contrast arm turn row \<longleftrightarrow>
     (if arm = ''B'' \<or> turn = ''T0'' then cold_turn row else warm_turn row)"

lemma admitted_turn_shows_contrast:
  assumes "validate_turn_event event = Inr row" and "turn_admitted event"
    and "dict_get row ''arm'' = PStr arm" and "dict_get row ''turn'' = PStr turn"
  shows "shows_contrast arm turn row"
proof -
  from assms(1) obtain arm' ordinal turn' where row: "event = PDict row" "turn_record row arm' ordinal turn'"
    and metrics: "check_metrics row = Inr ()" and details: "\<exists>details. check_details row = Inr details"
    and shape: "check_shape row turn' = Inr ()" by (rule valid_turn)
  from row assms(2) obtain basis where "turn_admission row = Inr (True, basis)"
    by (auto simp: turn_record_def turn_admitted_def is_not_true_def)
  then have none: "turn_issues row = Inr []" by (rule admitted_no_issues)
  obtain ds where ds: "check_details row = Inr ds" using details by blast
  show ?thesis
  proof (cases "arm = ''B'' \<or> turn = ''T0''")
    case True
    then have "dict_get row ''arm'' = PStr ''B'' \<or> dict_get row ''turn'' = PStr ''T0''" using assms(3,4) by auto
    then show ?thesis using cold_when_admitted [OF none metrics ds] True by (simp add: shows_contrast_def)
  next
    case False
    then have "\<not> (dict_get row ''arm'' = PStr ''B'' \<or> dict_get row ''turn'' = PStr ''T0'')"
      using assms(3,4) by auto
    moreover have "\<exists>n. dict_get row ''shared_prefix_tokens'' = PInt n" using shared_typed [OF shape] by blast
    ultimately show ?thesis
      using warm_when_admitted [OF none metrics ds] False by (simp add: shows_contrast_def)
  qed
qed

section \<open>Lifetimes\<close>

lemma fold_res_each:
  assumes "fold_res f s xs = Inr s'" and "x \<in> set xs"
  shows "\<exists>t t'. f t x = Inr t'"
  using assms by (induction xs arbitrary: s) (auto simp: andThen_eq_Inr)

text \<open>A lifetime whose three turns were admitted, each showing what its arm is for.\<close>

definition contrasting_lifetime :: "string \<Rightarrow> pydict \<Rightarrow> bool" where
  "contrasting_lifetime arm row \<longleftrightarrow> (\<exists>turns. dict_get row ''turns'' = PList turns \<and> length turns = 3 \<and>
     list_all (\<lambda>(turn, event). \<exists>fields. event = PDict fields \<and> shows_contrast arm turn fields)
       (zip SM121_CACHE_PERFORMANCE_TIMED_TURNS turns))"

lemma check_turn_Inr:
  assumes "check_turn arm ordinal n (i, turn, event) = Inr u"
  obtains row where "event = PDict row" "validate_turn_event event = Inr row"
    "dict_get row ''arm'' = PStr arm" "dict_get row ''turn'' = PStr turn"
    "dict_get row ''lifetime_ordinal'' = PInt (ordinal * 2)"
proof -
  from assms obtain row where v: "validate_turn_event event = Inr row" and
    eqs: "dict_get row ''arm'' = PStr arm" "dict_get row ''turn'' = PStr turn"
      "dict_get row ''lifetime_ordinal'' = PInt (ordinal * 2)"
    by (auto simp: check_turn_def andThen_eq_Inr split: if_splits)
  from v have "event = PDict row" by (rule valid_turn)
  with v eqs show thesis by (rule that [rotated])
qed

lemma lifetime_parts:
  assumes "check_lifetime ended (ordinal, arm, raw) = Inr t"
  obtains row turns us where "raw = PDict row" "dict_get row ''turns'' = PList turns" "length turns \<le> 3"
    "traverse (check_turn arm ordinal (length turns))
       (zip [0..<length turns] (zip SM121_CACHE_PERFORMANCE_TIMED_TURNS turns)) = Inr us"
    "dict_get row ''timed_admitted'' = PBool True \<longrightarrow> length turns = 3 \<and> list_all turn_admitted turns"
proof -
  from assms obtain row quality timed in_time where row: "exact_fields raw lifetime_fields = Inr row"
    and timed: "dict_get row ''timed_admitted'' = PBool timed"
    and rest: "(case dict_get row ''turns'' of PList turns \<Rightarrow>
       if length turns > length SM121_CACHE_PERFORMANCE_TIMED_TURNS then Inl cache_error else
       andThen (traverse (check_turn arm ordinal (length turns))
         (zip [0..<length turns] (zip SM121_CACHE_PERFORMANCE_TIMED_TURNS turns))) (\<lambda>_.
       if \<not> quality \<and> (timed \<or> turns \<noteq> []) then Inl cache_error else
       if timed \<and> (\<not> quality \<or> length turns \<noteq> length SM121_CACHE_PERFORMANCE_TIMED_TURNS
          \<or> \<not> list_all turn_admitted turns) then Inl cache_error else
       if ended \<and> (quality \<or> timed \<or> in_time \<or> turns \<noteq> []) then Inl cache_error else
       Inr (ended \<or> \<not> (quality \<and> timed \<and> in_time)))
         | _ \<Rightarrow> Inl cache_error) = Inr t"
    unfolding check_lifetime_def prod.case andThen_eq_Inr guard_eq_Inr cache_require_bool_Inr by blast
  have raw: "raw = PDict row" using row by (cases raw) (auto simp: exact_fields_def split: if_splits)
  have three: "length SM121_CACHE_PERFORMANCE_TIMED_TURNS = 3"
    by (simp add: SM121_CACHE_PERFORMANCE_TIMED_TURNS_def)
  from rest obtain turns where turns: "dict_get row ''turns'' = PList turns"
    by (cases "dict_get row ''turns''") simp_all
  from rest show thesis
    unfolding turns pyval.case guard_eq_Inr andThen_eq_Inr three
    using that [OF raw turns] timed by auto
qed

lemma zip_upt_member:
  assumes "z \<in> set zs" and "length zs \<le> n"
  shows "\<exists>i. (i, z) \<in> set (zip [0..<n] zs)"
proof -
  from assms(1) obtain i where i: "i < length zs" "zs ! i = z" by (auto simp: in_set_conv_nth)
  then have "zip [0..<n] zs ! i = (i, z)" "i < length (zip [0..<n] zs)" using assms(2) by simp_all
  then show ?thesis by (metis nth_mem)
qed

lemma admitted_lifetime_contrasts:
  assumes "check_lifetime ended (ordinal, arm, PDict row) = Inr t" and "lifetime_admitted row"
  shows "contrasting_lifetime arm row"
proof -
  from assms(1) obtain row' turns us where parts: "PDict row = PDict row'" "dict_get row' ''turns'' = PList turns"
    and turns: "traverse (check_turn arm ordinal (length turns))
       (zip [0..<length turns] (zip SM121_CACHE_PERFORMANCE_TIMED_TURNS turns)) = Inr us"
    and timed: "dict_get row' ''timed_admitted'' = PBool True \<longrightarrow> length turns = 3 \<and> list_all turn_admitted turns"
    by (rule lifetime_parts)
  have all: "length turns = 3" "list_all turn_admitted turns" and kept: "dict_get row ''turns'' = PList turns"
    using parts timed assms(2) by (simp_all add: lifetime_admitted_def is_not_true_def)
  have "\<exists>fields. event = PDict fields \<and> shows_contrast arm turn fields"
    if member: "(turn, event) \<in> set (zip SM121_CACHE_PERFORMANCE_TIMED_TURNS turns)" for turn event
  proof -
    obtain i where "(i, turn, event) \<in> set (zip [0..<length turns] (zip SM121_CACHE_PERFORMANCE_TIMED_TURNS turns))"
      using zip_upt_member [OF member, of "length turns"] by auto
    from traverse_each [OF turns this] obtain u where "check_turn arm ordinal (length turns) (i, turn, event) = Inr u"
      by (rule exE)
    then obtain fields where "event = PDict fields" "validate_turn_event event = Inr fields"
      "dict_get fields ''arm'' = PStr arm" "dict_get fields ''turn'' = PStr turn" by (rule check_turn_Inr)
    moreover have "turn_admitted event" using all(2) member by (auto simp: list_all_iff dest: set_zip_rightD)
    ultimately show ?thesis using admitted_turn_shows_contrast by blast
  qed
  then show ?thesis using kept all(1) by (auto simp: contrasting_lifetime_def list_all_iff)
qed

text \<open>The validator of the lifetimes never leaves the state in which the campaign has ended.\<close>

lemma ended_stays:
  assumes "check_lifetime True x = Inr t"
  shows "t"
proof -
  obtain ordinal arm raw where x: "x = (ordinal, arm, raw)" by (cases x)
  from assms have checked: "check_lifetime True (ordinal, arm, raw) = Inr t" by (simp only: x)
  then obtain row turns us where "raw = PDict row" "dict_get row ''turns'' = PList turns" by (rule lifetime_parts)
  with checked show ?thesis
    by (auto simp: check_lifetime_def andThen_eq_Inr exact_fields_def split: if_splits)
qed

interpretation lifetimes: absorbing_machine check_lifetime False "\<lambda>_. True" "\<lambda>ended. ended"
  by unfold_locales (use ended_stays in auto)

definition unstarted_row :: "pydict \<Rightarrow> bool" where
  "unstarted_row row \<longleftrightarrow> dict_get row ''quality_admitted'' = PBool False \<and> dict_get row ''timed_admitted'' = PBool False \<and>
     dict_get row ''within_timeout'' = PBool False \<and> dict_get row ''turns'' = PList []"

lemma ended_lifetime:
  assumes "check_lifetime True (ordinal, arm, raw) = Inr t"
  shows "\<exists>row. raw = PDict row \<and> unstarted_row row"
proof -
  from assms obtain row turns us where "raw = PDict row" "dict_get row ''turns'' = PList turns" by (rule lifetime_parts)
  with assms show ?thesis
    by (auto simp: check_lifetime_def andThen_eq_Inr unstarted_row_def exact_fields_def split: if_splits)
qed

text \<open>After the lifetime that ended a campaign, the validator accepts unstarted lifetimes only.\<close>

lemma only_unstarted_follow:
  assumes "fold_res check_lifetime False (xs @ ys) = Inr t" and "fold_res check_lifetime False xs = Inr True"
  shows "t" and "\<forall>(ordinal, arm, raw) \<in> set ys. \<exists>row. raw = PDict row \<and> unstarted_row row"
proof -
  show "t" using lifetimes.final_stays [OF assms(2) _ assms(1)] by simp
  have ys: "fold_res check_lifetime True ys = Inr t" using assms by (simp add: fold_res_append)
  have "\<exists>row. raw = PDict row \<and> unstarted_row row" if "(ordinal, arm, raw) \<in> set ys" for ordinal arm raw
  proof -
    from split_list [OF that] obtain us vs where "ys = us @ (ordinal, arm, raw) # vs" by blast
    with ys obtain u v where "fold_res check_lifetime True us = Inr u" "check_lifetime u (ordinal, arm, raw) = Inr v"
      by (auto simp: fold_res_append andThen_eq_Inr)
    moreover from this(1) have "u" using lifetimes.final_run [of True us u] by simp
    ultimately show ?thesis using ended_lifetime by simp
  qed
  then show "\<forall>(ordinal, arm, raw) \<in> set ys. \<exists>row. raw = PDict row \<and> unstarted_row row" by blast
qed

section \<open>The score\<close>

lemma score_status_of:
  assumes "score_walls found = Inr s"
  shows "score_status s = ''complete''"
  using assms unfolding score_walls_def Let_def guard_eq_Inr andThen_eq_Inr by auto

lemma collected_admitted:
  assumes "collect_walls pairs found = Inr (Some walls)" and "(arm, PDict row) \<in> set pairs"
  shows "lifetime_admitted row"
  using assms
proof (induction pairs arbitrary: found)
  case (Cons pair pairs)
  obtain arm' raw where pair: "pair = (arm', raw)" by (cases pair)
  from Cons.prems(1) obtain d where raw: "raw = PDict d" by (cases raw) (simp_all add: pair)
  from Cons.prems(1) have parts: "lifetime_admitted d" "\<exists>found. collect_walls pairs found = Inr (Some walls)"
    by (auto simp: pair raw andThen_eq_Inr split: if_splits)
  show ?case using Cons.IH Cons.prems(2) parts by (auto simp: pair raw)
qed simp

lemma complete_score:
  assumes "score_campaign lifetimes = Inr s" and "score_status s = ''complete''"
  obtains rows walls where "validate_lifetimes lifetimes = Inr rows"
    "collect_walls (zip SM121_CACHE_PERFORMANCE_ARM_ORDER rows) [] = Inr (Some walls)" "score_walls walls = Inr s"
proof -
  from assms(1) obtain rows found where parts: "validate_lifetimes lifetimes = Inr rows"
    "collect_walls (zip SM121_CACHE_PERFORMANCE_ARM_ORDER rows) [] = Inr found"
    "(case found of None \<Rightarrow> Inr not_evaluated | Some walls \<Rightarrow> score_walls walls) = Inr s"
    by (auto simp: score_campaign_def andThen_eq_Inr)
  with assms(2) obtain walls where "found = Some walls" by (cases found) (auto simp: not_evaluated_def)
  with parts show thesis using that by simp
qed

lemma valid_lifetimes:
  assumes "validate_lifetimes v = Inr rows"
  shows "v = PList rows" and "length rows = 4"
    and "x \<in> set (zip (map int [1..<5]) (zip SM121_CACHE_PERFORMANCE_ARM_ORDER rows))
      \<Longrightarrow> \<exists>ended t. check_lifetime ended x = Inr t"
  using assms fold_res_each
  by (auto simp: validate_lifetimes_def andThen_eq_Inr SM121_CACHE_PERFORMANCE_ARM_ORDER_def split: pyval.splits)

text \<open>A complete score stands on four lifetimes that show the contrast of the two arms.\<close>

lemma complete_score_contrasts:
  assumes "score_campaign lifetimes = Inr s" and "score_status s = ''complete''"
  shows "\<exists>rows. lifetimes = PList (map PDict rows) \<and>
     list_all2 (\<lambda>arm row. lifetime_admitted row \<and> contrasting_lifetime arm row)
       SM121_CACHE_PERFORMANCE_ARM_ORDER rows"
proof -
  from assms obtain raws walls where valid: "validate_lifetimes lifetimes = Inr raws"
    and walls: "collect_walls (zip SM121_CACHE_PERFORMANCE_ARM_ORDER raws) [] = Inr (Some walls)"
    by (rule complete_score)
  let ?arms = SM121_CACHE_PERFORMANCE_ARM_ORDER
  have four: "length raws = 4" "length ?arms = 4"
    using valid_lifetimes(2) [OF valid] by (simp_all add: SM121_CACHE_PERFORMANCE_ARM_ORDER_def)
  have each: "\<exists>row. raws ! i = PDict row \<and> lifetime_admitted row \<and> contrasting_lifetime (?arms ! i) row"
    if i: "i < 4" for i
  proof -
    let ?all = "zip (map int [1..<5]) (zip ?arms raws)"
    have len: "i < length (zip ?arms raws)" "i < length ?all" using i four by simp_all
    have at: "?all ! i = (map int [1..<5] ! i, ?arms ! i, raws ! i)" using i four by simp
    have member: "(map int [1..<5] ! i, ?arms ! i, raws ! i) \<in> set ?all"
      using nth_mem [OF len(2)] by (simp only: at)
    obtain ended t where checked: "check_lifetime ended (map int [1..<5] ! i, ?arms ! i, raws ! i) = Inr t"
      using valid_lifetimes(3) [OF valid member] by blast
    then obtain row where row: "raws ! i = PDict row" by (rule lifetime_parts)
    have "(?arms ! i, PDict row) \<in> set (zip ?arms raws)" using set_zip_rightD [OF member] row by simp
    then have "lifetime_admitted row" by (rule collected_admitted [OF walls])
    then show ?thesis using admitted_lifetime_contrasts checked row by metis
  qed
  then obtain row where row: "\<forall>i < 4. raws ! i = PDict (row i) \<and> lifetime_admitted (row i) \<and>
      contrasting_lifetime (?arms ! i) (row i)" by metis
  have "raws = map PDict (map row [0..<4])"
    by (rule nth_equalityI) (use row four in simp_all)
  moreover have "list_all2 (\<lambda>arm row. lifetime_admitted row \<and> contrasting_lifetime arm row) ?arms (map row [0..<4])"
    using row four by (auto simp: list_all2_conv_all_nth)
  ultimately show ?thesis using valid_lifetimes(1) [OF valid] by blast
qed

section \<open>The lifetimes that a campaign writes\<close>

lemma traverse_keys:
  assumes "traverse (\<lambda>m. andThen (f m) (\<lambda>v. Inr (g m, v))) xs = Inr d"
  shows "map fst d = map g xs"
  using assms by (induction xs arbitrary: d) (auto simp: andThen_eq_Inr)

lemma snapshot_keys:
  "snapshot_metrics p snapshot = Inr d \<Longrightarrow>
     map fst d = map (metric_field p) SM121_CACHE_PERFORMANCE_METRIC_FIELDS
       @ map (series_field p) SM121_CACHE_OBSERVABILITY_CACHED_SERIES"
  by (auto simp: snapshot_metrics_def andThen_eq_Inr dest!: traverse_keys)

lemma delta_keys:
  "delta_metrics event = Inr d \<Longrightarrow> map fst d = map (metric_field ''delta'') SM121_CACHE_PERFORMANCE_METRIC_FIELDS"
  by (auto simp: delta_metrics_def dest!: traverse_keys)

lemma no_timestamp_keys:
  "snapshot_metrics ''before'' snapshot = Inr d \<Longrightarrow> ''timestamp'' \<notin> set (map fst d)"
  "snapshot_metrics ''after'' snapshot = Inr d \<Longrightarrow> ''timestamp'' \<notin> set (map fst d)"
  "delta_metrics event = Inr d \<Longrightarrow> ''timestamp'' \<notin> set (map fst d)"
proof -
  show "''timestamp'' \<notin> set (map fst d)" if "snapshot_metrics ''before'' snapshot = Inr d"
    unfolding snapshot_keys [OF that] by (auto simp: metric_field_def series_field_def)
  show "''timestamp'' \<notin> set (map fst d)" if "snapshot_metrics ''after'' snapshot = Inr d"
    unfolding snapshot_keys [OF that] by (auto simp: metric_field_def series_field_def)
  show "''timestamp'' \<notin> set (map fst d)" if "delta_metrics event = Inr d"
    unfolding delta_keys [OF that] by (auto simp: metric_field_def series_field_def)
qed

lemma scalar_keys:
  assumes "turn_scalars case_id arm ordinal turn r av cv shared = Inr d"
  shows "''timestamp'' \<notin> fst ` set d" and "dict_get (d @ others) ''arm'' = PStr arm"
    and "dict_get (d @ others) ''lifetime_ordinal'' = PInt ordinal" and "dict_get (d @ others) ''turn'' = PStr turn"
proof -
  from assms obtain tokens details where
    tokens: "map fst tokens = [''prompt_tokens'', ''completion_tokens'', ''reasoning_tokens'']"
    and details: "map fst details = [''response_detail_state'', ''usage_detail_state'',
       ''response_device_cached_tokens'', ''response_host_cached_tokens'', ''response_storage_cached_tokens'',
       ''usage_cached_tokens'']"
    and d: "d = [(''event'', PStr SM121_CACHE_PERFORMANCE_TURN_EVENT), (''arm'', PStr arm),
       (''lifetime_ordinal'', PInt ordinal), (''case_id'', PStr case_id),
       (''protocol_case_id'', PStr SM121_CACHE_PERFORMANCE_CASE_ID), (''turn'', PStr turn),
       (''cache_details_requested'', PBool True), (''prompt_token_ids_requested'', PBool True),
       (''streaming'', PBool False), (''thinking_disabled'', PBool True)] @ tokens @
      [(''shared_prefix_tokens'', PInt shared),
       (''append_only_prompt_identity_verified'', PBool av),
       (''cross_lifetime_prompt_identity_verified'', PBool cv)] @ details @
      [(''metrics_available'', both_true (reply_before r) (reply_after r) ''available''),
       (''guardrail_metrics_available'',
          both_true (reply_before r) (reply_after r) ''guardrail_metrics_available''),
       (''metrics_before_polls'', PInt (reply_before_polls r)),
       (''metrics_after_polls'', PInt (reply_after_polls r)),
       (''metrics_before_settled'', PBool (reply_before_settled r)),
       (''metrics_after_settled'', PBool (reply_after_settled r)),
       (''request_wall_s'', reply_wall r)]"
    unfolding turn_scalars_def andThen_eq_Inr
    by (elim exE conjE) (drule traverse_keys, drule traverse_keys, simp only: list.map prod.sel sum.inject)
  have "''timestamp'' \<notin> set (map fst d)" unfolding d map_append set_append tokens details by simp
  then show "''timestamp'' \<notin> fst ` set d" by simp
  show "dict_get (d @ others) ''arm'' = PStr arm" "dict_get (d @ others) ''lifetime_ordinal'' = PInt ordinal"
    "dict_get (d @ others) ''turn'' = PStr turn"
    by (simp_all add: d)
qed

text \<open>A record that \<open>check_turn\<close> accepts at its place.\<close>

definition placed_turn :: "string \<Rightarrow> int \<Rightarrow> string \<Rightarrow> pydict \<Rightarrow> bool" where
  "placed_turn arm ordinal turn row \<longleftrightarrow> validate_turn_event (PDict row) = Inr row \<and>
     ''timestamp'' \<notin> dict_keys row \<and> dict_get row ''arm'' = PStr arm \<and>
     dict_get row ''lifetime_ordinal'' = PInt ordinal \<and> dict_get row ''turn'' = PStr turn"

lemma placed_turn_checked:
  assumes "placed_turn arm (ordinal * 2) turn row"
    and "i + 1 < n \<Longrightarrow> \<not> is_not_true row ''timed_turn_admitted''"
  shows "check_turn arm ordinal n (i, turn, PDict row) = Inr ()"
  using assms by (auto simp: placed_turn_def check_turn_def)

lemma turn_event_placed:
  assumes "turn_event case_id arm ordinal turn r av cv shared = Inr event"
  shows "placed_turn arm ordinal turn event"
proof -
  from assms obtain scalars before after delta admitted basis where
    parts: "turn_scalars case_id arm ordinal turn r av cv shared = Inr scalars"
      "snapshot_metrics ''before'' (reply_before r) = Inr before"
      "snapshot_metrics ''after'' (reply_after r) = Inr after" "delta_metrics (before @ after) = Inr delta"
    and event: "event = scalars @ [(''timed_turn_admitted'', PBool admitted),
           (''timed_turn_basis'', PStr basis)] @ before @ after @ delta"
    and valid: "\<exists>row. reraise (\<lambda>x. x = cache_error) SM121CachePerformanceRequestError
       (validate_turn_event (PDict event)) = Inr row"
    unfolding turn_event_def andThen_eq_Inr Let_def case_prod_beta by blast
  obtain row where "validate_turn_event (PDict event) = Inr row"
    using valid by (auto simp: reraise_def split: sum.splits if_splits)
  moreover from this have "row = event" by (metis pyval.inject(7) valid_turn)
  moreover have "''timestamp'' \<notin> dict_keys event"
    using scalar_keys(1) [OF parts(1)] no_timestamp_keys(1) [OF parts(2)] no_timestamp_keys(2) [OF parts(3)]
      no_timestamp_keys(3) [OF parts(4)]
    by (simp add: event dict_keys_def image_Un)
  ultimately show ?thesis
    using scalar_keys(2-4) [OF parts(1)] by (simp add: placed_turn_def event)
qed

text \<open>Valid turns from the first on, all but the last one admitted.\<close>

definition turn_prefix :: "string \<Rightarrow> int \<Rightarrow> pydict list \<Rightarrow> bool" where
  "turn_prefix arm ordinal turns \<longleftrightarrow> length turns \<le> 3 \<and>
     (\<forall>i < length turns. placed_turn arm ordinal (SM121_CACHE_PERFORMANCE_TIMED_TURNS ! i) (turns ! i) \<and>
        (i + 1 < length turns \<longrightarrow> \<not> is_not_true (turns ! i) ''timed_turn_admitted''))"

lemma turn_prefix_Nil [simp]: "turn_prefix arm ordinal []"
  by (simp add: turn_prefix_def)

lemma three_turns [simp]: "length SM121_CACHE_PERFORMANCE_TIMED_TURNS = 3"
  by (simp add: SM121_CACHE_PERFORMANCE_TIMED_TURNS_def)

lemma turn_prefix_checked:
  assumes "turn_prefix arm (ordinal * 2) turns"
  shows "\<exists>us. traverse (check_turn arm ordinal (length turns))
     (zip [0..<length turns] (zip SM121_CACHE_PERFORMANCE_TIMED_TURNS (map PDict turns))) = Inr us"
proof (rule traverse_total)
  fix x assume "x \<in> set (zip [0..<length turns] (zip SM121_CACHE_PERFORMANCE_TIMED_TURNS (map PDict turns)))"
  then obtain i where i: "i < length turns"
    "x = (i, SM121_CACHE_PERFORMANCE_TIMED_TURNS ! i, PDict (turns ! i))"
    using assms by (auto simp: in_set_conv_nth turn_prefix_def)
  have "check_turn arm ordinal (length turns) x = Inr ()"
    unfolding i(2) by (rule placed_turn_checked) (use assms i(1) in \<open>simp_all add: turn_prefix_def\<close>)
  then show "\<exists>y. check_turn arm ordinal (length turns) x = Inr y" by blast
qed

lemma timed_turns_placed:
  assumes "timed_turns case_id arm ordinal reference previous replies = Inr (events, ids)"
  shows "list_all2 (\<lambda>(turn, _) ev. placed_turn arm ordinal turn ev \<and> \<not> is_not_true ev ''timed_turn_admitted'')
      replies events \<and> length ids = length previous + length replies"
  using assms
proof (induction replies arbitrary: previous events ids)
  case (Cons reply replies)
  obtain turn r where reply: "reply = (turn, r)" by (cases reply)
  from Cons.prems obtain r' ev events' where
    ev: "timed_turn case_id arm ordinal reference previous turn r' = Inr ev"
    and rest: "timed_turns case_id arm ordinal reference (previous @ [reply_token_ids r']) replies = Inr (events', ids)"
    and events: "events = ev # events'"
    by (auto simp: reply andThen_eq_Inr)
  from ev have "placed_turn arm ordinal turn ev" "\<not> is_not_true ev ''timed_turn_admitted''"
    by (auto simp: timed_turn_def Let_def andThen_eq_Inr intro: turn_event_placed split: if_splits)
  then show ?case using Cons.IH [OF rest] by (simp add: reply events)
qed simp

lemma journal_turn_placed:
  assumes "journal_turn arm ordinal n (i, turn, raw) = Inr (Some row)"
  shows "placed_turn arm (ordinal * 2) turn row" and "i + 1 < n \<Longrightarrow> \<not> is_not_true row ''timed_turn_admitted''"
proof -
  from assms obtain row' where row: "row = filter (\<lambda>(k, v). k \<noteq> ''timestamp'') raw"
    "validate_turn_event (PDict row) = Inr row'" "dict_get row ''arm'' = PStr arm"
    "dict_get row ''lifetime_ordinal'' = PInt (ordinal * 2)" "dict_get row ''turn'' = PStr turn"
    "i + 1 < n \<longrightarrow> \<not> is_not_true row ''timed_turn_admitted''"
    by (auto simp: journal_turn_def Let_def split: sum.splits if_splits)
  moreover have "row' = row" using row(2) by (metis pyval.inject(7) valid_turn)
  ultimately show "placed_turn arm (ordinal * 2) turn row" by (auto simp: placed_turn_def dict_keys_def)
  show "i + 1 < n \<Longrightarrow> \<not> is_not_true row ''timed_turn_admitted''" using row(6) by blast
qed

lemma journal_prefix_parts:
  assumes "journal_turns_prefix arm ordinal n xs found = Inr turns"
  shows "turns = [] \<or> (\<exists>later. turns = found @ later \<and>
    list_all2 (\<lambda>x row. journal_turn arm ordinal n x = Inr (Some row)) xs later)"
  using assms
proof (induction xs arbitrary: found)
  case (Cons x xs)
  from Cons.prems obtain turn where turn: "journal_turn arm ordinal n x = Inr turn"
    "(case turn of None \<Rightarrow> Inr [] | Some t \<Rightarrow> journal_turns_prefix arm ordinal n xs (found @ [t])) = Inr turns"
    by (auto simp: andThen_eq_Inr)
  show ?case
  proof (cases turn)
    case (Some t)
    then have "turns = [] \<or> (\<exists>later. turns = (found @ [t]) @ later \<and>
        list_all2 (\<lambda>x row. journal_turn arm ordinal n x = Inr (Some row)) xs later)"
      using turn(2) Cons.IH [of "found @ [t]"] by simp
    then show ?thesis
    proof
      assume "\<exists>later. turns = (found @ [t]) @ later \<and>
        list_all2 (\<lambda>x row. journal_turn arm ordinal n x = Inr (Some row)) xs later"
      then obtain later where "turns = found @ (t # later)"
        "list_all2 (\<lambda>x row. journal_turn arm ordinal n x = Inr (Some row)) (x # xs) (t # later)"
        using turn(1) Some by auto
      then show ?thesis by blast
    qed simp
  qed (use turn(2) in simp)
qed simp

lemma journal_prefix_valid:
  assumes "timed_turn_prefix_from_journal journal arm ordinal = Inr turns"
  shows "turn_prefix arm (ordinal * 2) turns"
proof (cases "turns = []")
  case False
  define events where "events = filter (\<lambda>ev. dict_get ev ''event'' = PStr SM121_CACHE_PERFORMANCE_TURN_EVENT) journal"
  let ?xs = "zip [0..<length events] (zip SM121_CACHE_PERFORMANCE_TIMED_TURNS events)"
  from assms False have few: "length events \<le> 3"
    and run: "journal_turns_prefix arm ordinal (length events) ?xs [] = Inr turns"
    unfolding timed_turn_prefix_from_journal_def Let_def events_def [symmetric] three_turns
    by (simp_all split: if_splits)
  have turns: "list_all2 (\<lambda>x row. journal_turn arm ordinal (length events) x = Inr (Some row)) ?xs turns"
    using journal_prefix_parts [OF run] False by simp
  have n: "length turns = length events" using list_all2_lengthD [OF turns] few by simp
  have each: "journal_turn arm ordinal (length turns) (i, SM121_CACHE_PERFORMANCE_TIMED_TURNS ! i, events ! i)
      = Inr (Some (turns ! i))" if "i < length turns" for i
    using list_all2_nthD [OF turns, of i] that n few by simp
  show ?thesis
    unfolding turn_prefix_def
    using few n journal_turn_placed(1) [OF each] journal_turn_placed(2) [OF each] by simp
qed simp

lemma lifetime_accepted:
  assumes "turn_prefix arm (ordinal * 2) turns" and "\<not> quality \<longrightarrow> \<not> timed \<and> turns = []"
    and "timed \<longrightarrow> quality \<and> length turns = 3 \<and> list_all (\<lambda>ev. \<not> is_not_true ev ''timed_turn_admitted'') turns"
    and "ended \<longrightarrow> \<not> quality \<and> \<not> timed \<and> \<not> in_time \<and> turns = []"
  shows "check_lifetime ended (ordinal, arm, PDict (lifetime_row ordinal arm quality timed in_time turns))
    = Inr (ended \<or> \<not> (quality \<and> timed \<and> in_time))"
proof -
  let ?row = "lifetime_row ordinal arm quality timed in_time turns"
  have fields: "exact_fields (PDict ?row) lifetime_fields = Inr ?row"
    "dict_get ?row ''ordinal'' = PInt ordinal" "dict_get ?row ''arm'' = PStr arm"
    "dict_get ?row ''quality_admitted'' = PBool quality" "dict_get ?row ''timed_admitted'' = PBool timed"
    "dict_get ?row ''within_timeout'' = PBool in_time" "dict_get ?row ''turns'' = PList (map PDict turns)"
    by (auto simp: lifetime_row_def exact_fields_def lifetime_fields_def dict_keys_def)
  obtain us where checked: "traverse (check_turn arm ordinal (length turns))
     (zip [0..<length turns] (zip SM121_CACHE_PERFORMANCE_TIMED_TURNS (map PDict turns))) = Inr us"
    using turn_prefix_checked [OF assms(1)] by blast
  have three: "length turns \<le> 3" using assms(1) by (simp add: turn_prefix_def)
  have admitted: "list_all turn_admitted (map PDict turns) \<longleftrightarrow>
      list_all (\<lambda>ev. \<not> is_not_true ev ''timed_turn_admitted'') turns"
    by (simp add: list_all_iff turn_admitted_def)
  show ?thesis
    unfolding check_lifetime_def prod.case fields cache_require_bool_def pyval.case length_map admitted
    using assms(2-4) three by (auto simp: fields checked admitted)
qed

text \<open>The lifetime that an arm leaves: completed in time, or failed at a known place.\<close>

lemma timed_lifetime_events:
  assumes "timed_lifetime a arm ordinal reference = Inr (events, ids, elapsed)"
  shows "turn_prefix arm ordinal events" and "length events = 3"
    and "list_all (\<lambda>ev. \<not> is_not_true ev ''timed_turn_admitted'') events"
proof -
  obtain t0 t1 t2 where replies: "turn_replies a = (t0, t1, t2)" by (cases "turn_replies a")
  from assms have "timed_turns (timed_case_id a) arm ordinal reference [] (named_replies a) = Inr (events, ids)"
    by (auto simp: timed_lifetime_def Let_def andThen_eq_Inr split: sum.splits prod.splits if_splits)
  then have all: "list_all2 (\<lambda>(turn, _) ev. placed_turn arm ordinal turn ev \<and> \<not> is_not_true ev ''timed_turn_admitted'')
      (named_replies a) events" by (auto dest: timed_turns_placed)
  have named: "named_replies a = zip SM121_CACHE_PERFORMANCE_TIMED_TURNS [t0, t1, t2]"
    by (simp add: named_replies_def replies)
  show three: "length events = 3" using list_all2_lengthD [OF all] by (simp add: named)
  have each: "placed_turn arm ordinal (SM121_CACHE_PERFORMANCE_TIMED_TURNS ! i) (events ! i) \<and>
      \<not> is_not_true (events ! i) ''timed_turn_admitted''" if "i < 3" for i
    using list_all2_nthD [OF all, of i] that by (simp add: named)
  then show "turn_prefix arm ordinal events" "list_all (\<lambda>ev. \<not> is_not_true ev ''timed_turn_admitted'') events"
    using three by (auto simp: turn_prefix_def list_all_length)
qed

lemma arm_body_events:
  assumes "arm_body a arm ordinal reference = (quality, next, Inr events)"
  shows "quality" and "turn_prefix arm (ordinal * 2) events" and "length events = 3"
    and "list_all (\<lambda>ev. \<not> is_not_true ev ''timed_turn_admitted'') events"
  using assms timed_lifetime_events
  by (auto simp: arm_body_def Let_def split: sum.splits prod.splits if_splits)

lemma executed_arm:
  assumes "execute_arm a arm ordinal reference = Inr (row, next, completed)"
  shows "check_lifetime False (ordinal, arm, PDict row) = Inr (\<not> completed)"
    and "lifetime_admitted row \<longleftrightarrow> completed"
proof -
  obtain quality next' outcome where body: "arm_body a arm ordinal reference = (quality, next', outcome)"
    by (cases "arm_body a arm ordinal reference") auto
  have "\<exists>turns quality. row = lifetime_row ordinal arm quality completed completed turns \<and>
      turn_prefix arm (ordinal * 2) turns \<and> (\<not> quality \<longrightarrow> \<not> completed \<and> turns = []) \<and>
      (completed \<longrightarrow> quality \<and> length turns = 3 \<and> list_all (\<lambda>ev. \<not> is_not_true ev ''timed_turn_admitted'') turns)"
  proof (cases outcome)
    case (Inl x)
    with assms body obtain turns where row: "row = lifetime_row ordinal arm quality False False turns" "\<not> completed"
      and turns: "(if quality then timed_turn_prefix_from_journal (journal_turns a) arm ordinal else Inr []) = Inr turns"
      by (auto simp: execute_arm_def andThen_eq_Inr)
    then have "turn_prefix arm (ordinal * 2) turns" "\<not> quality \<longrightarrow> turns = []"
      by (auto intro: journal_prefix_valid split: if_splits)
    then show ?thesis using row by (intro exI [of _ turns] exI [of _ quality]) simp
  next
    case (Inr events)
    then have "row = lifetime_row ordinal arm quality True True events" "completed"
      using assms body by (auto simp: execute_arm_def andThen_eq_Inr)
    with arm_body_events [OF body [unfolded Inr]] show ?thesis by auto
  qed
  then obtain turns quality where row: "row = lifetime_row ordinal arm quality completed completed turns"
    and ok: "turn_prefix arm (ordinal * 2) turns" "\<not> quality \<longrightarrow> \<not> completed \<and> turns = []"
      "completed \<longrightarrow> quality \<and> length turns = 3 \<and> list_all (\<lambda>ev. \<not> is_not_true ev ''timed_turn_admitted'') turns"
    by blast
  show "check_lifetime False (ordinal, arm, PDict row) = Inr (\<not> completed)"
    using lifetime_accepted [OF ok, of False completed] ok(3) by (auto simp: row)
  show "lifetime_admitted row \<longleftrightarrow> completed"
    using ok(3) by (auto simp: row lifetime_admitted_def lifetime_row_def is_not_true_def)
qed

lemma unstarted_accepted:
  "check_lifetime True (ordinal, arm, PDict (unstarted_lifetime ordinal arm)) = Inr True"
  using lifetime_accepted [of arm ordinal "[]" False False True False] by (simp add: unstarted_lifetime_def)

text \<open>
  Arms run from the first on; an arm that does not complete is the last to run, and tombstones stand
  for the others.
\<close>

definition tombstone :: "int \<times> string \<times> arm_replies \<Rightarrow> pydict" where
  "tombstone x = unstarted_lifetime (fst x) (fst (snd x))"

lemma ended_arms: "execute_arms arms reference True = ([], Inr (map tombstone arms))"
  by (induction arms) (auto simp: tombstone_def)

definition stops_at_failure :: "(int \<times> string \<times> arm_replies) list \<Rightarrow> int list \<Rightarrow> pydict list \<Rightarrow> bool" where
  "stops_at_failure arms started lifetimes \<longleftrightarrow>
     (let n = length started in
      started = map fst (take n arms) \<and> length lifetimes = length arms \<and>
      list_all lifetime_admitted (take (n - 1) lifetimes) \<and>
      (n < length arms \<longrightarrow> 0 < n \<and> \<not> lifetime_admitted (lifetimes ! (n - 1))) \<and>
      drop n lifetimes = map tombstone (drop n arms))"

lemma executed_arms_stop:
  assumes "execute_arms arms reference False = (started, Inr lifetimes)"
  shows "stops_at_failure arms started lifetimes"
  using assms
proof (induction arms arbitrary: reference started lifetimes)
  case (Cons x arms)
  obtain ordinal arm a where x: "x = (ordinal, arm, a)" by (cases x)
  from Cons.prems obtain row ref' completed where
    one: "execute_arm a arm ordinal reference = Inr (row, ref', completed)"
    by (auto simp: x split: sum.splits)
  note admitted = executed_arm(2) [OF one]
  obtain started' outcome where run: "execute_arms arms ref' (\<not> completed) = (started', outcome)"
    by (cases "execute_arms arms ref' (\<not> completed)")
  from Cons.prems one run obtain rows where rows: "outcome = Inr rows" "lifetimes = row # rows"
    "started = ordinal # started'"
    by (auto simp: x andThen_eq_Inr)
  show ?case
  proof (cases completed)
    case True
    then have "stops_at_failure arms started' rows" using Cons.IH run rows by simp
    moreover have "list_all lifetime_admitted (take n (row # rows))"
      if "list_all lifetime_admitted (take (n - 1) rows)" for n
      using that True admitted by (cases n) simp_all
    ultimately show ?thesis
      using True by (auto simp: stops_at_failure_def Let_def rows x nth_Cons')
  next
    case False
    then show ?thesis using run rows admitted by (auto simp: ended_arms stops_at_failure_def x)
  qed
qed (simp add: stops_at_failure_def)

definition checked_arms :: "(int \<times> string \<times> arm_replies) list \<Rightarrow> pydict list \<Rightarrow> (int \<times> string \<times> pyval) list" where
  "checked_arms arms rows = map2 (\<lambda>(ordinal, arm, _) row. (ordinal, arm, PDict row)) arms rows"

lemma tombstones_accepted: "fold_res check_lifetime True (checked_arms arms (map tombstone arms)) = Inr True"
  by (induction arms) (auto simp: checked_arms_def tombstone_def unstarted_accepted)

lemma executed_arms_accepted:
  assumes "execute_arms arms reference False = (started, Inr lifetimes)"
  shows "\<exists>t. fold_res check_lifetime False (checked_arms arms lifetimes) = Inr t"
  using assms
proof (induction arms arbitrary: reference started lifetimes)
  case (Cons x arms)
  obtain ordinal arm a where x: "x = (ordinal, arm, a)" by (cases x)
  from Cons.prems obtain row ref' completed where
    one: "execute_arm a arm ordinal reference = Inr (row, ref', completed)"
    by (auto simp: x split: sum.splits)
  obtain started' outcome where run: "execute_arms arms ref' (\<not> completed) = (started', outcome)"
    by (cases "execute_arms arms ref' (\<not> completed)")
  from Cons.prems one run obtain rows where rows: "outcome = Inr rows" "lifetimes = row # rows"
    by (auto simp: x andThen_eq_Inr)
  have "\<exists>t. fold_res check_lifetime (\<not> completed) (checked_arms arms rows) = Inr t"
    using Cons.IH run rows by (cases completed) (auto simp: ended_arms tombstones_accepted)
  then show ?case using executed_arm(1) [OF one] by (simp add: rows x checked_arms_def)
qed (auto simp: checked_arms_def)

lemma campaign_lifetimes_accepted:
  assumes "execute_arms (arms_in_order a1 a2 a3 a4) None False = (started, Inr lifetimes)"
  shows "validate_lifetimes (PList (map PDict lifetimes)) = Inr (map PDict lifetimes)"
proof -
  have arms: "arms_in_order a1 a2 a3 a4 = [(1, ''A'', a1), (2, ''B'', a2), (3, ''B'', a3), (4, ''A'', a4)]"
    by (simp add: arms_in_order_def SM121_CACHE_PERFORMANCE_ARM_ORDER_def upt_rec)
  from executed_arms_stop [OF assms] have "length lifetimes = 4"
    by (simp add: stops_at_failure_def Let_def arms)
  then obtain r1 r2 r3 r4 where rows: "lifetimes = [r1, r2, r3, r4]"
    by (auto simp: length_Suc_conv numeral_eq_Suc)
  obtain t where "fold_res check_lifetime False (checked_arms (arms_in_order a1 a2 a3 a4) lifetimes) = Inr t"
    using executed_arms_accepted [OF assms] by blast
  then have "fold_res check_lifetime False (zip (map int [1..<5]) (zip SM121_CACHE_PERFORMANCE_ARM_ORDER
      (map PDict lifetimes))) = Inr t"
    by (simp only: rows arms) (simp add: checked_arms_def SM121_CACHE_PERFORMANCE_ARM_ORDER_def upt_rec)
  then show ?thesis by (simp add: validate_lifetimes_def rows SM121_CACHE_PERFORMANCE_ARM_ORDER_def)
qed

end
