(* ===== verification/Cache_Sample.thy ===== *)
theory Cache_Sample
  imports Cache_Audit
begin

text \<open>
  A cache-performance campaign that runs to its end: the replies of the server in its twelve timed
  turns, and the records that the runner makes of them. The examples of the properties use it.
\<close>

section \<open>One turn\<close>

definition sample_value :: "string \<Rightarrow> string \<Rightarrow> int \<Rightarrow> pyval" where
  "sample_value p m hits = PInt (if p = ''before'' then 0 else if m = ''prefill_input_tokens'' then 40000 - hits
     else if m \<in> {''prefill_device_hit_tokens'', ''cached_device_tokens'', ''cached_total_tokens''}
     then hits else 0)"

definition sample_turn_snapshot :: "string \<Rightarrow> int \<Rightarrow> pydict" where
  "sample_turn_snapshot p hits = [(''available'', PBool True), (''guardrail_metrics_available'', PBool True)]
     @ map (\<lambda>m. (m, sample_value p m hits)) SM121_CACHE_PERFORMANCE_METRIC_FIELDS
     @ map (\<lambda>s. (''cached_'' @ s @ ''_series_present'', PBool True)) SM121_CACHE_OBSERVABILITY_CACHED_SERIES"

definition sample_ids :: "nat \<Rightarrow> nat list" where
  "sample_ids k = replicate 39999 7 @ [k]"

definition sample_reply :: "int \<Rightarrow> nat \<Rightarrow> real \<Rightarrow> turn_reply" where
  "sample_reply hits k wall =
     (let state = PStr (if hits = 0 then ''zero_details'' else ''nonzero_details'') in
      \<lparr>reply_result = [(''prompt_tokens'', PInt 40000), (''completion_tokens'', PInt 8),
        (''reasoning_tokens'', PInt 0), (''response_detail_state'', state), (''usage_detail_state'', state),
        (''response_device_cached_tokens'', PInt hits), (''response_host_cached_tokens'', PInt 0),
        (''response_storage_cached_tokens'', PInt 0), (''usage_cached_tokens'', PInt hits)],
       reply_token_ids = sample_ids k, reply_wall = PFloat (FFin wall),
       reply_before = sample_turn_snapshot ''before'' hits, reply_before_polls = 2, reply_before_settled = True,
       reply_after = sample_turn_snapshot ''after'' hits, reply_after_polls = 2, reply_after_settled = True,
       reply_recorded = Inr ()\<rparr>)"

definition sample_case_id :: string where
  "sample_case_id = SM121_CACHE_PERFORMANCE_CASE_ID @ ''--0123456789ab''"

definition sample_metrics :: "string \<Rightarrow> int \<Rightarrow> pydict" where
  "sample_metrics p hits = map (\<lambda>m. (metric_field p m, sample_value p m hits)) SM121_CACHE_PERFORMANCE_METRIC_FIELDS"

definition sample_series :: "string \<Rightarrow> pydict" where
  "sample_series p = map (\<lambda>s. (series_field p s, PBool True)) SM121_CACHE_OBSERVABILITY_CACHED_SERIES"

definition sample_event :: "string \<Rightarrow> int \<Rightarrow> string \<Rightarrow> int \<Rightarrow> real \<Rightarrow> int \<Rightarrow> bool \<Rightarrow> string \<Rightarrow> pydict" where
  "sample_event arm ordinal turn hits wall shared admitted basis =
     (let state = PStr (if hits = 0 then ''zero_details'' else ''nonzero_details'') in
     [(''event'', PStr SM121_CACHE_PERFORMANCE_TURN_EVENT), (''arm'', PStr arm),
       (''lifetime_ordinal'', PInt ordinal), (''case_id'', PStr sample_case_id),
       (''protocol_case_id'', PStr SM121_CACHE_PERFORMANCE_CASE_ID), (''turn'', PStr turn),
       (''cache_details_requested'', PBool True), (''prompt_token_ids_requested'', PBool True),
       (''streaming'', PBool False), (''thinking_disabled'', PBool True),
       (''prompt_tokens'', PInt 40000), (''completion_tokens'', PInt 8), (''reasoning_tokens'', PInt 0),
       (''shared_prefix_tokens'', PInt shared), (''append_only_prompt_identity_verified'', PBool True),
       (''cross_lifetime_prompt_identity_verified'', PBool True),
       (''response_detail_state'', state), (''usage_detail_state'', state),
       (''response_device_cached_tokens'', PInt hits), (''response_host_cached_tokens'', PInt 0),
       (''response_storage_cached_tokens'', PInt 0), (''usage_cached_tokens'', PInt hits),
       (''metrics_available'', PBool True), (''guardrail_metrics_available'', PBool True),
       (''metrics_before_polls'', PInt 2), (''metrics_after_polls'', PInt 2),
       (''metrics_before_settled'', PBool True), (''metrics_after_settled'', PBool True),
       (''request_wall_s'', PFloat (FFin wall)), (''timed_turn_admitted'', PBool admitted),
       (''timed_turn_basis'', PStr basis)]
     @ (sample_metrics ''before'' hits @ sample_series ''before'')
     @ (sample_metrics ''after'' hits @ sample_series ''after'') @ sample_metrics ''delta'' hits)"

lemma sample_keys: "dict_keys (sample_event arm ordinal turn hits wall shared admitted basis) = TURN_EVENT_FIELDS"
proof -
  have "map fst (sample_event arm ordinal turn hits wall shared admitted basis) = turn_scalar_fields
     @ map (metric_field ''before'') SM121_CACHE_PERFORMANCE_METRIC_FIELDS
     @ map (series_field ''before'') SM121_CACHE_OBSERVABILITY_CACHED_SERIES
     @ map (metric_field ''after'') SM121_CACHE_PERFORMANCE_METRIC_FIELDS
     @ map (series_field ''after'') SM121_CACHE_OBSERVABILITY_CACHED_SERIES
     @ map (metric_field ''delta'') SM121_CACHE_PERFORMANCE_METRIC_FIELDS"
    by (simp add: sample_event_def Let_def turn_scalar_fields_def sample_metrics_def sample_series_def comp_def)
  then have "set (map fst (sample_event arm ordinal turn hits wall shared admitted basis)) = TURN_EVENT_FIELDS"
    by (simp add: TURN_EVENT_FIELDS_def METRIC_PREFIXES_def Un_ac)
  then show ?thesis by (simp add: dict_keys_def)
qed

lemma sample_scalars:
  fixes arm ordinal turn hits wall shared admitted basis
  defines "ev \<equiv> sample_event arm ordinal turn hits wall shared admitted basis"
  shows "dict_get ev ''event'' = PStr SM121_CACHE_PERFORMANCE_TURN_EVENT" "dict_get ev ''arm'' = PStr arm"
    "dict_get ev ''lifetime_ordinal'' = PInt ordinal" "dict_get ev ''case_id'' = PStr sample_case_id"
    "dict_get ev ''protocol_case_id'' = PStr SM121_CACHE_PERFORMANCE_CASE_ID" "dict_get ev ''turn'' = PStr turn"
    "dict_get ev ''cache_details_requested'' = PBool True" "dict_get ev ''prompt_token_ids_requested'' = PBool True"
    "dict_get ev ''streaming'' = PBool False" "dict_get ev ''thinking_disabled'' = PBool True"
    "dict_get ev ''prompt_tokens'' = PInt 40000" "dict_get ev ''completion_tokens'' = PInt 8"
    "dict_get ev ''reasoning_tokens'' = PInt 0" "dict_get ev ''shared_prefix_tokens'' = PInt shared"
    "dict_get ev ''append_only_prompt_identity_verified'' = PBool True"
    "dict_get ev ''cross_lifetime_prompt_identity_verified'' = PBool True"
    "dict_get ev ''response_detail_state'' = PStr (if hits = 0 then ''zero_details'' else ''nonzero_details'')"
    "dict_get ev ''usage_detail_state'' = PStr (if hits = 0 then ''zero_details'' else ''nonzero_details'')"
    "dict_get ev ''response_device_cached_tokens'' = PInt hits" "dict_get ev ''response_host_cached_tokens'' = PInt 0"
    "dict_get ev ''response_storage_cached_tokens'' = PInt 0" "dict_get ev ''usage_cached_tokens'' = PInt hits"
    "dict_get ev ''metrics_available'' = PBool True" "dict_get ev ''guardrail_metrics_available'' = PBool True"
    "dict_get ev ''metrics_before_polls'' = PInt 2" "dict_get ev ''metrics_after_polls'' = PInt 2"
    "dict_get ev ''metrics_before_settled'' = PBool True" "dict_get ev ''metrics_after_settled'' = PBool True"
    "dict_get ev ''request_wall_s'' = PFloat (FFin wall)" "dict_get ev ''timed_turn_admitted'' = PBool admitted"
    "dict_get ev ''timed_turn_basis'' = PStr basis"
  by (simp_all add: ev_def sample_event_def Let_def)

lemma dict_get_append:
  "dict_get (d @ d') k = (if k \<in> dict_keys d then dict_get d k else dict_get d' k)"
  by (induction d) auto

lemma dict_get_map: "inj f \<Longrightarrow> m \<in> set xs \<Longrightarrow> dict_get (map (\<lambda>m. (f m, g m)) xs) (f m) = g m"
  by (induction xs) (auto simp: inj_eq)

lemma inj_fields: "inj (metric_field p)" "inj (series_field p)"
  by (auto simp: inj_def metric_field_def series_field_def)

lemma series_not_metric:
  assumes "m \<in> set SM121_CACHE_PERFORMANCE_METRIC_FIELDS" and "s \<in> set SM121_CACHE_OBSERVABILITY_CACHED_SERIES"
  shows "m \<noteq> ''cached_'' @ s @ ''_series_present''"
proof -
  have "list_all (\<lambda>m. list_all (\<lambda>s. m \<noteq> ''cached_'' @ s @ ''_series_present'')
      SM121_CACHE_OBSERVABILITY_CACHED_SERIES) SM121_CACHE_PERFORMANCE_METRIC_FIELDS"
    by (simp add: SM121_CACHE_PERFORMANCE_METRIC_FIELDS_def HIT_METRICS_def POOL_METRICS_def
      SM121_CACHE_OBSERVABILITY_CACHED_SERIES_def)
  then show ?thesis using assms by (auto simp: list_all_iff)
qed

definition sample_rest :: "int \<Rightarrow> pydict" where
  "sample_rest hits = (sample_metrics ''before'' hits @ sample_series ''before'')
     @ (sample_metrics ''after'' hits @ sample_series ''after'') @ sample_metrics ''delta'' hits"

lemma rest_keys:
  "dict_keys (sample_metrics p hits) = metric_field p ` set SM121_CACHE_PERFORMANCE_METRIC_FIELDS"
  "dict_keys (sample_series p) = series_field p ` set SM121_CACHE_OBSERVABILITY_CACHED_SERIES"
  "dict_keys (d @ d') = dict_keys d \<union> dict_keys d'"
  by (auto simp: dict_keys_def sample_metrics_def sample_series_def image_image)

lemma fields_differ:
  "metric_field ''after'' m \<noteq> metric_field ''before'' m'" "metric_field ''after'' m \<noteq> series_field ''before'' m'"
  "metric_field ''delta'' m \<noteq> metric_field ''before'' m'" "metric_field ''delta'' m \<noteq> series_field ''before'' m'"
  "metric_field ''delta'' m \<noteq> metric_field ''after'' m'" "metric_field ''delta'' m \<noteq> series_field ''after'' m'"
  "series_field ''after'' m \<noteq> metric_field ''before'' m'" "series_field ''after'' m \<noteq> series_field ''before'' m'"
  by (simp_all add: metric_field_def series_field_def)

lemma series_field_not_metric:
  "m \<in> set SM121_CACHE_PERFORMANCE_METRIC_FIELDS \<Longrightarrow> s \<in> set SM121_CACHE_OBSERVABILITY_CACHED_SERIES \<Longrightarrow>
     series_field p s \<noteq> metric_field p m"
  using series_not_metric [of m s] by (auto simp: metric_field_def series_field_def)

lemma rest_metric:
  assumes "p \<in> set METRIC_PREFIXES" and "m \<in> set SM121_CACHE_PERFORMANCE_METRIC_FIELDS"
  shows "dict_get (sample_rest hits) (metric_field p m) = sample_value p m hits"
proof -
  have found: "dict_get (sample_metrics p hits) (metric_field p m) = sample_value p m hits" for p
    using dict_get_map [OF inj_fields(1) assms(2)] by (simp add: sample_metrics_def)
  consider "p = ''before''" | "p = ''after''" | "p = ''delta''" using assms(1) by (auto simp: METRIC_PREFIXES_def)
  then show ?thesis
    using assms(2)
    by cases (auto simp: sample_rest_def dict_get_append rest_keys image_iff fields_differ found)
qed

lemma rest_series:
  assumes "p \<in> {''before'', ''after''}" and "s \<in> set SM121_CACHE_OBSERVABILITY_CACHED_SERIES"
  shows "dict_get (sample_rest hits) (series_field p s) = PBool True"
proof -
  have found: "dict_get (sample_series p) (series_field p s) = PBool True" for p
    using dict_get_map [OF inj_fields(2) assms(2)] by (simp add: sample_series_def)
  from assms(1) consider "p = ''before''" | "p = ''after''" by auto
  then show ?thesis
    using assms(2) series_field_not_metric [OF _ assms(2)]
    by cases (auto simp: sample_rest_def dict_get_append rest_keys image_iff fields_differ found)
qed

lemma scalar_names:
  "p \<in> set METRIC_PREFIXES \<Longrightarrow> metric_field p m \<notin> set turn_scalar_fields"
  "p \<in> {''before'', ''after''} \<Longrightarrow> series_field p m \<notin> set turn_scalar_fields"
  by (auto simp: METRIC_PREFIXES_def turn_scalar_fields_def metric_field_def series_field_def)

lemma sample_split: "\<exists>scalars. sample_event arm ordinal turn hits wall shared admitted basis = scalars @ sample_rest hits
   \<and> dict_keys scalars = set turn_scalar_fields"
proof (intro exI conjI)
  show "sample_event arm ordinal turn hits wall shared admitted basis
    = take 31 (sample_event arm ordinal turn hits wall shared admitted basis) @ sample_rest hits"
    by (simp add: sample_event_def Let_def sample_rest_def)
  show "dict_keys (take 31 (sample_event arm ordinal turn hits wall shared admitted basis)) = set turn_scalar_fields"
    by (simp add: sample_event_def Let_def turn_scalar_fields_def)
qed

lemma sample_metric_fields:
  "p \<in> set METRIC_PREFIXES \<Longrightarrow> m \<in> set SM121_CACHE_PERFORMANCE_METRIC_FIELDS \<Longrightarrow>
     dict_get (sample_event arm ordinal turn hits wall shared admitted basis) (metric_field p m) = sample_value p m hits"
  "p \<in> {''before'', ''after''} \<Longrightarrow> s \<in> set SM121_CACHE_OBSERVABILITY_CACHED_SERIES \<Longrightarrow>
     dict_get (sample_event arm ordinal turn hits wall shared admitted basis) (series_field p s) = PBool True"
  using sample_split [of arm ordinal turn hits wall shared admitted basis] scalar_names rest_metric rest_series
  by (auto simp: dict_get_append)

lemma sample_value_prefixes:
  "sample_value ''before'' m hits = PInt 0" "sample_value ''delta'' m hits = sample_value ''after'' m hits"
  "sample_value ''after'' ''prefill_input_tokens'' hits = PInt (40000 - hits)"
  "sample_value ''after'' ''prefill_device_hit_tokens'' hits = PInt hits"
  "sample_value ''after'' ''cached_device_tokens'' hits = PInt hits"
  "sample_value ''after'' ''cached_total_tokens'' hits = PInt hits"
  by (simp_all add: sample_value_def)

lemma sample_guardrails:
  assumes "m \<in> set guardrail_metrics"
  shows "sample_value p m hits = PInt 0" and "m \<in> set SM121_CACHE_PERFORMANCE_METRIC_FIELDS"
  using assms by (auto simp: guardrail_metrics_def sample_value_def SM121_CACHE_PERFORMANCE_METRIC_FIELDS_def HIT_METRICS_def)

lemma sample_counters:
  fixes arm ordinal turn hits wall shared admitted basis
  defines "ev \<equiv> sample_event arm ordinal turn hits wall shared admitted basis"
  shows "dict_get ev ''delta_prefill_input_tokens'' = PInt (40000 - hits)"
    "dict_get ev ''delta_prefill_device_hit_tokens'' = PInt hits"
    "dict_get ev ''delta_cached_device_tokens'' = PInt hits"
    "dict_get ev ''delta_cached_total_tokens'' = PInt hits" "dict_get ev ''after_cached_total_tokens'' = PInt hits"
proof -
  have field: "dict_get ev (metric_field p m) = sample_value p m hits"
    if "p \<in> set METRIC_PREFIXES" "m \<in> set SM121_CACHE_PERFORMANCE_METRIC_FIELDS" for p m
    unfolding ev_def using that by (rule sample_metric_fields)
  have names: "''prefill_input_tokens'' \<in> set SM121_CACHE_PERFORMANCE_METRIC_FIELDS"
    "''prefill_device_hit_tokens'' \<in> set SM121_CACHE_PERFORMANCE_METRIC_FIELDS"
    "''cached_device_tokens'' \<in> set SM121_CACHE_PERFORMANCE_METRIC_FIELDS"
    "''cached_total_tokens'' \<in> set SM121_CACHE_PERFORMANCE_METRIC_FIELDS"
    "''delta'' \<in> set METRIC_PREFIXES" "''after'' \<in> set METRIC_PREFIXES"
    by (simp_all add: SM121_CACHE_PERFORMANCE_METRIC_FIELDS_def HIT_METRICS_def METRIC_PREFIXES_def)
  show "dict_get ev ''delta_prefill_input_tokens'' = PInt (40000 - hits)"
    using field [OF names(5,1)] by (simp add: metric_field_def sample_value_prefixes)
  show "dict_get ev ''delta_prefill_device_hit_tokens'' = PInt hits"
    using field [OF names(5,2)] by (simp add: metric_field_def sample_value_prefixes)
  show "dict_get ev ''delta_cached_device_tokens'' = PInt hits"
    using field [OF names(5,3)] by (simp add: metric_field_def sample_value_prefixes)
  show "dict_get ev ''delta_cached_total_tokens'' = PInt hits"
    using field [OF names(5,4)] by (simp add: metric_field_def sample_value_prefixes)
  show "dict_get ev ''after_cached_total_tokens'' = PInt hits"
    using field [OF names(6,4)] by (simp add: metric_field_def sample_value_prefixes)
qed

definition sample_place :: "string \<Rightarrow> int \<Rightarrow> string \<Rightarrow> int \<Rightarrow> int \<Rightarrow> bool" where
  "sample_place arm ordinal turn hits shared \<longleftrightarrow> arm \<in> {''A'', ''B''} \<and> ordinal \<in> {2, 4, 6, 8} \<and>
     ordinal_of_arm ordinal arm \<and> turn \<in> set SM121_CACHE_PERFORMANCE_TIMED_TURNS \<and>
     shared = (if turn = ''T0'' then 0 else 40000 - 1) \<and>
     hits = (if arm = ''B'' \<or> turn = ''T0'' then 0 else 33000)"

lemma sample_issues:
  assumes "sample_place arm ordinal turn hits shared"
  shows "turn_issues (sample_event arm ordinal turn hits wall shared admitted basis) = Inr []"
proof -
  let ?ev = "sample_event arm ordinal turn hits wall shared admitted basis"
  have "nonzero_field ?ev (metric_field p m) = Inr False" if "m \<in> set guardrail_metrics" "p \<in> set METRIC_PREFIXES" for p m
    using sample_metric_fields(1) [OF that(2) sample_guardrails(2) [OF that(1)]] sample_guardrails(1) [OF that(1)]
    by (simp add: nonzero_field_def int_field_def)
  then have guardrail: "guardrail_hit ?ev = Inr False" by (simp add: guardrail_hit_def)
  have "nonzero_field ?ev (metric_field ''before'' m) = Inr False" if "m \<in> set cold_metrics" for m
  proof -
    have "m \<in> set SM121_CACHE_PERFORMANCE_METRIC_FIELDS" "''before'' \<in> set METRIC_PREFIXES"
      using that by (auto simp: cold_metrics_def SM121_CACHE_PERFORMANCE_METRIC_FIELDS_def HIT_METRICS_def METRIC_PREFIXES_def)
    then show ?thesis
      using sample_metric_fields(1) [of "''before''" m] by (simp add: nonzero_field_def int_field_def sample_value_prefixes)
  qed
  then have warm: "warm_start ?ev = Inr False" by (simp add: warm_start_def)
  have settled: "unsettled ?ev = Inr False"
    by (simp add: unsettled_def is_not_true_def few_polls_def int_field_def sample_scalars)
  have zero: "unexpected_hit ?ev 0 0 = Inr False" if "hits = 0"
    by (simp add: unexpected_hit_def some_tokens_def nonzero_field_def int_field_def or_else_def
        sample_scalars sample_counters that)
  have same: "unreconciled_hit ?ev hits hits = Inr False" if "0 < hits" "hits \<le> shared"
    using that by (simp add: unreconciled_hit_def int_field_def sample_scalars)
  have ints: "int_field ?ev ''delta_prefill_input_tokens'' = Inr (40000 - hits)"
    "int_field ?ev ''delta_prefill_device_hit_tokens'' = Inr hits" "int_field ?ev ''delta_cached_device_tokens'' = Inr hits"
    by (simp_all add: int_field_def sample_counters)
  have mismatch: "(if dict_get ?ev ''arm'' = PStr ''B'' \<or> dict_get ?ev ''turn'' = PStr ''T0''
      then unexpected_hit ?ev hits hits else unreconciled_hit ?ev hits hits) = Inr False"
  proof (cases "arm = ''B'' \<or> turn = ''T0''")
    case True
    then have "hits = 0" using assms by (simp add: sample_place_def)
    with True zero show ?thesis by (auto simp: sample_scalars)
  next
    case False
    then have "0 < hits \<and> hits \<le> shared" using assms by (simp add: sample_place_def)
    with False same show ?thesis by (simp add: sample_scalars)
  qed
  have "0 < 40000 - hits" using assms by (simp add: sample_place_def)
  then show ?thesis
    unfolding turn_issues_def Let_def guardrail warm settled ints andThen_simps mismatch
    by (simp add: is_not_true_def sample_scalars noted_def)
qed

lemma sample_admission:
  "sample_place arm ordinal turn hits shared \<Longrightarrow>
     turn_admission (sample_event arm ordinal turn hits wall shared admitted basis) = Inr (True, ''admitted'')"
  by (simp add: turn_admission_def sample_issues)

lemma sample_event_fields:
  "event_fields (PDict (sample_event arm ordinal turn hits wall shared admitted basis)) TURN_EVENT_FIELDS
    = Inr (sample_event arm ordinal turn hits wall shared admitted basis)"
proof -
  have "''timestamp'' \<notin> TURN_EVENT_FIELDS"
    by (simp add: TURN_EVENT_FIELDS_def turn_scalar_fields_def METRIC_PREFIXES_def image_iff metric_field_def series_field_def)
  then show ?thesis by (simp add: event_fields_def sample_keys)
qed

lemma sample_metrics_check:
  assumes "0 \<le> hits" and "hits \<le> 40000" and "0 < wall"
  shows "check_metrics (sample_event arm ordinal turn hits wall shared admitted basis) = Inr ()"
proof -
  let ?ev = "sample_event arm ordinal turn hits wall shared admitted basis"
  have typed: "\<exists>n \<ge> 0. sample_value p m hits = PInt n" for p m using assms(1,2) by (auto simp: sample_value_def)
  have "check_metric ?ev (p, m) = Inr ()" if "(p, m) \<in> set metric_checks" for p m
  proof -
    have pm: "p \<in> set METRIC_PREFIXES" "m \<in> set SM121_CACHE_PERFORMANCE_METRIC_FIELDS"
      using that by (auto simp: metric_checks_def)
    have all: "''before'' \<in> set METRIC_PREFIXES" "''after'' \<in> set METRIC_PREFIXES" "''delta'' \<in> set METRIC_PREFIXES"
      by (simp_all add: METRIC_PREFIXES_def)
    obtain n where n: "sample_value p m hits = PInt n" "0 \<le> n" using typed by blast
    obtain k where k: "sample_value ''after'' m hits = PInt k" using typed by blast
    show ?thesis
      unfolding check_metric_def prod.case sample_metric_fields(1) [OF pm] sample_metric_fields(1) [OF all(1) pm(2)]
        sample_metric_fields(1) [OF all(2) pm(2)] sample_metric_fields(1) [OF all(3) pm(2)] sample_value_prefixes n(1) k
      using n(2) by (simp add: require_count_def py_subtract_def)
  qed
  then obtain us where metrics: "traverse (check_metric ?ev) metric_checks = Inr us"
    using traverse_total [of metric_checks "check_metric ?ev"] by fast
  have "\<exists>y. cache_require_bool (dict_get ?ev f) = Inr y" if "f \<in> set series_checks" for f
    using that sample_metric_fields(2) by (auto simp: series_checks_def cache_require_bool_def)
  then obtain vs where series: "traverse (\<lambda>field. cache_require_bool (dict_get ?ev field)) series_checks = Inr vs"
    using traverse_total [of series_checks "\<lambda>field. cache_require_bool (dict_get ?ev field)"] by fast
  show ?thesis
    unfolding check_metrics_def metrics series
    using assms(3) by (simp add: sample_scalars cache_require_bool_def require_count_def require_finite_decimal_def)
qed

lemma sample_valid:
  assumes "sample_place arm ordinal turn hits shared" and "0 < wall"
  shows "validate_turn_event (PDict (sample_event arm ordinal turn hits wall shared True ''admitted''))
    = Inr (sample_event arm ordinal turn hits wall shared True ''admitted'')"
proof -
  let ?ev = "sample_event arm ordinal turn hits wall shared True ''admitted''"
  have metrics: "check_metrics ?ev = Inr ()" using assms by (intro sample_metrics_check) (auto simp: sample_place_def)
  have adm: "derive_turn_admission (PDict ?ev) = Inr (True, ''admitted'')"
    using assms(1) by (simp add: derive_turn_admission_def sample_event_fields sample_admission)
  have shape: "check_shape ?ev turn = Inr ()"
    using assms(1) by (simp add: check_shape_def sample_scalars require_count_def sample_place_def
      SM121_CACHE_PERFORMANCE_COLD_INPUT_MIN_TOKENS_def SM121_CACHE_PERFORMANCE_COLD_INPUT_MAX_TOKENS_def)
  have "0 \<le> hits" using assms(1) by (simp add: sample_place_def)
  then have details: "check_details ?ev = Inr [Some hits, Some 0, Some 0]"
    by (auto simp: check_details_def sample_scalars require_optional_count_def require_count_def is_text_that_def
      optional_detail_state_def usage_detail_state_def in_strings_def detail_states_def absent_states_def)
  have case_id: "turn_case_id sample_case_id"
    by (simp add: turn_case_id_def sample_case_id_def lower_hex_def SM121_CACHE_PERFORMANCE_CASE_ID_def)
  have place: "arm \<in> {''A'', ''B''}" "ordinal \<in> {2, 4, 6, 8}" "ordinal_of_arm ordinal arm"
    "turn \<in> set SM121_CACHE_PERFORMANCE_TIMED_TURNS"
    using assms(1) by (simp_all add: sample_place_def)
  have arm: "require_arm (PStr arm) = Inr arm" using place(1) by (simp add: require_arm_Inr)
  have ordinal: "require_count (PInt ordinal) True = Inr ordinal" using place(2) by (auto simp: require_count_Inr)
  show ?thesis
    unfolding validate_turn_event_def sample_event_fields andThen_simps sample_scalars arm ordinal pyval.case
      shape details metrics adm prod.case
    using place case_id by (simp add: cache_require_bool_def is_text_that_def)
qed

lemma sample_snapshot_metrics:
  "snapshot_metrics p (sample_turn_snapshot q hits) = Inr (map (\<lambda>m. (metric_field p m, sample_value q m hits))
     SM121_CACHE_PERFORMANCE_METRIC_FIELDS @ sample_series p)"
  by (simp add: snapshot_metrics_def sample_turn_snapshot_def SM121_CACHE_PERFORMANCE_METRIC_FIELDS_def HIT_METRICS_def
    POOL_METRICS_def SM121_CACHE_OBSERVABILITY_CACHED_SERIES_def sample_series_def)

lemma traverse_map: "(\<And>x. x \<in> set xs \<Longrightarrow> f x = Inr (g x)) \<Longrightarrow> traverse f xs = Inr (map g xs)"
  by (induction xs) auto

lemma sample_turn_delta:
  "delta_metrics ((sample_metrics ''before'' hits @ sample_series ''before'')
      @ sample_metrics ''after'' hits @ sample_series ''after'') = Inr (sample_metrics ''delta'' hits)"
proof -
  let ?d = "(sample_metrics ''before'' hits @ sample_series ''before'')
      @ sample_metrics ''after'' hits @ sample_series ''after''"
  have "andThen (py_subtract (dict_get ?d (metric_field ''after'' m)) (dict_get ?d (metric_field ''before'' m)))
      (\<lambda>v. Inr (metric_field ''delta'' m, v)) = Inr (metric_field ''delta'' m, sample_value ''delta'' m hits)"
    if m: "m \<in> set SM121_CACHE_PERFORMANCE_METRIC_FIELDS" for m
  proof -
    have found: "dict_get (sample_metrics p hits) (metric_field p m) = sample_value p m hits" for p
      using dict_get_map [OF inj_fields(1) m] by (simp add: sample_metrics_def)
    have "dict_get ?d (metric_field ''before'' m) = PInt 0"
      "dict_get ?d (metric_field ''after'' m) = sample_value ''after'' m hits"
      using m by (auto simp: dict_get_append rest_keys image_iff fields_differ found sample_value_prefixes)
    moreover obtain n where "sample_value ''after'' m hits = PInt n" by (auto simp: sample_value_def)
    ultimately show ?thesis by (simp add: py_subtract_def sample_value_prefixes)
  qed
  then show ?thesis unfolding delta_metrics_def sample_metrics_def by (rule traverse_map)
qed

lemma sample_turn:
  assumes "sample_place arm ordinal turn hits shared" and "0 < wall"
  shows "turn_event sample_case_id arm ordinal turn (sample_reply hits k wall) True True shared
    = Inr (sample_event arm ordinal turn hits wall shared True ''admitted'')"
proof -
  let ?r = "sample_reply hits k wall"
  define scalars where "scalars = take 29 (sample_event arm ordinal turn hits wall shared True ''admitted'')"
  have built: "scalars @ [(''timed_turn_admitted'', PBool admitted), (''timed_turn_basis'', PStr basis)]
      @ (sample_metrics ''before'' hits @ sample_series ''before'')
      @ (sample_metrics ''after'' hits @ sample_series ''after'') @ sample_metrics ''delta'' hits
    = sample_event arm ordinal turn hits wall shared admitted basis" for admitted basis
    by (simp add: scalars_def sample_event_def Let_def)
  have 1: "turn_scalars sample_case_id arm ordinal turn ?r True True shared = Inr scalars"
    by (simp add: turn_scalars_def scalars_def sample_event_def sample_reply_def Let_def both_true_def
      is_not_true_def sample_turn_snapshot_def)
  have 2: "snapshot_metrics ''before'' (reply_before ?r) = Inr (sample_metrics ''before'' hits @ sample_series ''before'')"
    "snapshot_metrics ''after'' (reply_after ?r) = Inr (sample_metrics ''after'' hits @ sample_series ''after'')"
    by (simp_all add: sample_reply_def Let_def sample_snapshot_metrics sample_metrics_def)
  have 3: "derive_turn_admission (PDict (sample_event arm ordinal turn hits wall shared False ''pending'')) = Inr (True, ''admitted'')"
    using assms(1) by (simp add: derive_turn_admission_def sample_event_fields sample_admission)
  show ?thesis
    unfolding turn_event_def 1 2 andThen_simps sample_turn_delta Let_def built 3 translate_def sum.case prod.case
      sample_valid [OF assms] reraise_value by simp
qed

section \<open>The campaign\<close>

definition sample_hits :: "string \<Rightarrow> int" where
  "sample_hits arm = (if arm = ''B'' then 0 else 33000)"

definition sample_arm :: "string \<Rightarrow> real \<Rightarrow> real \<Rightarrow> real \<Rightarrow> arm_replies" where
  "sample_arm arm w0 w1 w2 = \<lparr>arm_checks = Inr (), preflight = Inr (), quality_lifetime = Inr 60,
     timed_case_id = sample_case_id, timed_start = Inr (),
     turn_replies = (Inr (sample_reply 0 0 w0), Inr (sample_reply (sample_hits arm) 1 w1),
       Inr (sample_reply (sample_hits arm) 2 w2)),
     timed_end = Inr (), timed_closed = Inr (), timed_elapsed = 100, journal_turns = [],
     failure_recorded = Inr (), completion_recorded = Inr ()\<rparr>"

definition sample_events :: "string \<Rightarrow> int \<Rightarrow> real \<Rightarrow> real \<Rightarrow> real \<Rightarrow> pydict list" where
  "sample_events arm ordinal w0 w1 w2 = [sample_event arm ordinal ''T0'' 0 w0 0 True ''admitted'',
     sample_event arm ordinal ''T1'' (sample_hits arm) w1 39999 True ''admitted'',
     sample_event arm ordinal ''T2'' (sample_hits arm) w2 39999 True ''admitted'']"

lemma common_prefix_replicate:
  "common_prefix_tokens (replicate n x @ xs) (replicate n x @ ys) = int n + common_prefix_tokens xs ys"
  by (induction n) simp_all

lemma sample_prefix: "common_prefix_tokens (sample_ids i) (sample_ids j) = 39999 + of_bool (i = j)"
  by (simp add: sample_ids_def common_prefix_replicate)

lemma sample_timed_turn:
  assumes "sample_place arm ordinal turn hits shared" and "0 < wall"
    and "shared = (if previous = [] then 0 else common_prefix_tokens (last previous) (sample_ids k))"
    and "previous = [] \<or> 32768 \<le> shared"
    and "case reference of None \<Rightarrow> ordinal = 2 \<and> arm = ''A'' | Some turns \<Rightarrow> sample_ids k = turns ! length previous"
  shows "timed_turn sample_case_id arm ordinal reference previous turn (sample_reply hits k wall)
    = Inr (sample_event arm ordinal turn hits wall shared True ''admitted'')"
proof -
  let ?r = "sample_reply hits k wall"
  have r: "reply_token_ids ?r = sample_ids k" "reply_recorded ?r = Inr ()" "sample_ids k \<noteq> []"
    by (simp_all add: sample_reply_def Let_def sample_ids_def)
  have verified: "(previous = [] \<or> shared \<ge> SM121_CACHE_PERFORMANCE_COLD_INPUT_MIN_TOKENS) = True"
    using assms(4) by (auto simp: SM121_CACHE_PERFORMANCE_COLD_INPUT_MIN_TOKENS_def)
  have known: "(case reference of None \<Rightarrow> ordinal \<noteq> 2 \<or> arm \<noteq> ''A''
      | Some turns \<Rightarrow> sample_ids k \<noteq> turns ! length previous) = False"
    using assms(5) by (auto split: option.splits)
  show ?thesis
    unfolding timed_turn_def r Let_def assms(3) [symmetric] verified known sample_turn [OF assms(1,2)] andThen_simps
    using r(3) by (simp add: is_not_true_def sample_scalars)
qed

lemma sample_lifetime:
  assumes "ordinal_of_arm ordinal arm" and "arm \<in> {''A'', ''B''}" and "ordinal \<in> {2, 4, 6, 8}"
    and "0 < w0" and "0 < w1" and "0 < w2"
    and "reference = None \<and> ordinal = 2 \<and> arm = ''A'' \<or> reference = Some (map sample_ids [0, 1, 2])"
  shows "timed_lifetime (sample_arm arm w0 w1 w2) arm ordinal reference
    = Inr (sample_events arm ordinal w0 w1 w2, map sample_ids [0, 1, 2], 100)"
proof -
  have place: "sample_place arm ordinal ''T0'' 0 0" "sample_place arm ordinal ''T1'' (sample_hits arm) 39999"
    "sample_place arm ordinal ''T2'' (sample_hits arm) 39999"
    using assms(1-3) by (simp_all add: sample_place_def sample_hits_def SM121_CACHE_PERFORMANCE_TIMED_TURNS_def)
  have ids: "reply_token_ids (sample_reply hits k wall) = sample_ids k" for hits k wall
    by (simp add: sample_reply_def Let_def)
  have "timed_turn sample_case_id arm ordinal reference [] ''T0'' (sample_reply 0 0 w0)
      = Inr (sample_event arm ordinal ''T0'' 0 w0 0 True ''admitted'')"
    by (rule sample_timed_turn [OF place(1) assms(4)]) (use assms(7) in auto)
  moreover have "timed_turn sample_case_id arm ordinal reference [sample_ids 0] ''T1'' (sample_reply (sample_hits arm) 1 w1)
      = Inr (sample_event arm ordinal ''T1'' (sample_hits arm) w1 39999 True ''admitted'')"
    by (rule sample_timed_turn [OF place(2) assms(5)]) (use assms(7) in \<open>auto simp: sample_prefix\<close>)
  moreover have "timed_turn sample_case_id arm ordinal reference [sample_ids 0, sample_ids 1] ''T2''
      (sample_reply (sample_hits arm) 2 w2) = Inr (sample_event arm ordinal ''T2'' (sample_hits arm) w2 39999 True ''admitted'')"
    by (rule sample_timed_turn [OF place(3) assms(6)]) (use assms(7) in \<open>auto simp: sample_prefix\<close>)
  ultimately have "timed_turns sample_case_id arm ordinal reference [] (named_replies (sample_arm arm w0 w1 w2))
      = Inr (sample_events arm ordinal w0 w1 w2, map sample_ids [0, 1, 2])"
    by (simp add: named_replies_def sample_arm_def SM121_CACHE_PERFORMANCE_TIMED_TURNS_def ids sample_events_def)
  then show ?thesis
    by (simp add: timed_lifetime_def sample_arm_def cell_timeout_def SM121_CACHE_PERFORMANCE_CELL_TIMEOUT_S_def)
qed

lemma sample_executed:
  assumes "ordinal_of_arm (ordinal * 2) arm" and "arm \<in> {''A'', ''B''}" and "ordinal \<in> {1, 2, 3, 4}"
    and "0 < w0" and "0 < w1" and "0 < w2"
    and "reference = None \<and> ordinal = 1 \<and> arm = ''A'' \<or> reference = Some (map sample_ids [0, 1, 2])"
  shows "execute_arm (sample_arm arm w0 w1 w2) arm ordinal reference
    = Inr (lifetime_row ordinal arm True True True (sample_events arm (ordinal * 2) w0 w1 w2),
        Some (map sample_ids [0, 1, 2]), True)"
proof -
  have run: "timed_lifetime (sample_arm arm w0 w1 w2) arm (ordinal * 2) reference
    = Inr (sample_events arm (ordinal * 2) w0 w1 w2, map sample_ids [0, 1, 2], 100)"
    by (rule sample_lifetime) (use assms in auto)
  have admitted: "list_all (\<lambda>ev. \<not> is_not_true ev ''timed_turn_admitted'') (sample_events arm (ordinal * 2) w0 w1 w2)"
    by (simp add: sample_events_def is_not_true_def sample_scalars)
  have quality: "andThen (preflight (sample_arm arm w0 w1 w2)) (\<lambda>_. quality_lifetime (sample_arm arm w0 w1 w2)) = Inr 60"
    by (simp add: sample_arm_def)
  have "arm_body (sample_arm arm w0 w1 w2) arm ordinal reference
      = (True, Some (map sample_ids [0, 1, 2]), Inr (sample_events arm (ordinal * 2) w0 w1 w2))"
    unfolding arm_body_def quality run sum.case prod.case Let_def
    using assms(7) admitted by (auto simp: cell_timeout_def SM121_CACHE_PERFORMANCE_CELL_TIMEOUT_S_def)
  then show ?thesis by (simp add: execute_arm_def) (simp add: sample_arm_def)
qed

definition sample_arms :: "(int \<times> string \<times> arm_replies) list" where
  "sample_arms = arms_in_order (sample_arm ''A'' 20 8 8) (sample_arm ''B'' 20 15 16)
     (sample_arm ''B'' 20 16 15) (sample_arm ''A'' 20 8 8)"

definition sample_lifetimes :: "pydict list" where
  "sample_lifetimes = [lifetime_row 1 ''A'' True True True (sample_events ''A'' 2 20 8 8),
     lifetime_row 2 ''B'' True True True (sample_events ''B'' 4 20 15 16),
     lifetime_row 3 ''B'' True True True (sample_events ''B'' 6 20 16 15),
     lifetime_row 4 ''A'' True True True (sample_events ''A'' 8 20 8 8)]"

lemma sample_campaign_runs:
  "execute_arms sample_arms None False = ([1, 2, 3, 4], Inr sample_lifetimes)"
proof -
  have arms: "arms_in_order a1 a2 a3 a4 = [(1, ''A'', a1), (2, ''B'', a2), (3, ''B'', a3), (4, ''A'', a4)]"
    for a1 a2 a3 a4
    by (simp add: arms_in_order_def SM121_CACHE_PERFORMANCE_ARM_ORDER_def upt_rec)
  show ?thesis
    by (simp add: sample_arms_def arms sample_executed ordinal_of_arm_def SM121_CACHE_PERFORMANCE_LIFETIME_ARMS_def
      sample_lifetimes_def)
qed

end
