(* ===== verification/Cache_Guarantees.thy ===== *)
theory Cache_Guarantees
  imports Cache_Sample
begin

text \<open>
  The properties of a cache-performance campaign, and the exactness of its score.
\<close>

section \<open>Decimal numbers that fit\<close>

text \<open>A positive number of \<open>k\<close> decimal places.\<close>

definition decimal_places :: "nat \<Rightarrow> real \<Rightarrow> bool" where
  "decimal_places k x \<longleftrightarrow> (\<exists>n > 0. x = of_int n / 10 ^ k)"

lemma places_pos: "decimal_places k x \<Longrightarrow> 0 < x"
  by (auto simp: decimal_places_def)

lemma places_exact: "decimal_places k x \<Longrightarrow> x < 10 ^ 28 / 10 ^ k \<Longrightarrow> decimal_round x = x"
proof -
  assume "decimal_places k x" "x < 10 ^ 28 / 10 ^ k"
  then obtain n where n: "0 < n" "x = of_int n / 10 ^ k" "(of_int n :: real) < 10 ^ 28"
    by (auto simp: decimal_places_def divide_less_cancel)
  then have "n < 10 ^ 28" using of_int_less_iff [of n "10 ^ 28", where 'a = real] by simp
  then show ?thesis using decimal_round_exact n by blast
qed

lemma places_add: "decimal_places k x \<Longrightarrow> decimal_places k y \<Longrightarrow> decimal_places k (x + y)"
proof -
  assume "decimal_places k x" "decimal_places k y"
  then obtain m n where "0 < m" "x = of_int m / 10 ^ k" "0 < n" "y = of_int n / 10 ^ k"
    by (auto simp: decimal_places_def)
  then show ?thesis by (auto simp: decimal_places_def add_divide_distrib intro!: exI [of _ "m + n"])
qed

lemma places_half: "decimal_places k x \<Longrightarrow> decimal_places (Suc k) (x / 2)"
proof -
  assume "decimal_places k x"
  then obtain n where "0 < n" "x = of_int n / 10 ^ k" by (auto simp: decimal_places_def)
  then show ?thesis by (auto simp: decimal_places_def intro!: exI [of _ "5 * n"])
qed

lemma places_promotion: "decimal_places k x \<Longrightarrow> decimal_places (Suc (Suc k)) (x * (95 / 100))"
proof -
  assume "decimal_places k x"
  then obtain n where "0 < n" "x = of_int n / 10 ^ k" by (auto simp: decimal_places_def)
  then show ?thesis by (auto simp: decimal_places_def intro!: exI [of _ "95 * n"])
qed

text \<open>The wall times that the exact score covers: up to eighteen decimal places and \<open>10 ^ 5\<close> seconds.\<close>

definition measured_wall :: "real \<Rightarrow> bool" where
  "measured_wall w \<longleftrightarrow> decimal_places 18 w \<and> w \<le> 10 ^ 5"

lemma sum_exact:
  assumes "measured_wall x" and "decimal_places 18 y" and "y \<le> 10 ^ 6"
  shows "decimal_add x y = x + y" "decimal_add y x = y + x"
  using assms places_add [of 18 x y] places_exact [of 18 "x + y"]
  by (simp_all add: decimal_add_def measured_wall_def add.commute)

lemma sum_of_three:
  assumes "measured_wall x" and "measured_wall y" and "measured_wall z"
  shows "decimal_sum [x, y, z] = x + y + z" and "decimal_add y z = y + z"
proof -
  have d: "decimal_places 18 x" "decimal_places 18 y" "decimal_places 18 z" "x \<le> 10 ^ 5" "y \<le> 10 ^ 5" "z \<le> 10 ^ 5"
    using assms by (simp_all add: measured_wall_def)
  have "decimal_add 0 x = x" using places_exact [OF d(1)] d(4) by (simp add: decimal_add_def)
  moreover have "decimal_add x y = x + y" by (rule sum_exact) (use assms d in simp_all)
  moreover have "decimal_add (x + y) z = x + y + z"
    by (rule sum_exact(2)) (use assms d places_add in simp_all)
  ultimately show "decimal_sum [x, y, z] = x + y + z" by (simp add: decimal_sum_def)
  show "decimal_add y z = y + z" by (rule sum_exact) (use assms d in simp_all)
qed

text \<open>The mean of two sums of at most three wall times.\<close>

lemma mean_exact:
  assumes "decimal_places 18 x" and "decimal_places 18 y" and "x \<le> 3 * 10 ^ 5" and "y \<le> 3 * 10 ^ 5"
  shows "mean_of_two [x, y] = (x + y) / 2" and "decimal_places 19 ((x + y) / 2)" and "(x + y) / 2 \<le> 3 * 10 ^ 5"
proof -
  have sum: "decimal_places 18 (x + y)" using assms by (intro places_add)
  then show half: "decimal_places 19 ((x + y) / 2)" using places_half [of 18] by simp
  show "(x + y) / 2 \<le> 3 * 10 ^ 5" using assms by simp
  have "decimal_round x = x" "decimal_round (x + y) = x + y" "decimal_round ((x + y) / 2) = (x + y) / 2"
    using assms sum half places_exact [of 18] places_exact [of 19] by simp_all
  then show "mean_of_two [x, y] = (x + y) / 2"
    by (simp add: mean_of_two_def decimal_sum_def decimal_add_def decimal_divide_def)
qed

lemma promotion_exact:
  assumes "decimal_places 19 x" and "x \<le> 3 * 10 ^ 5"
  shows "decimal_multiply x SM121_CACHE_PERFORMANCE_PROMOTION_RATIO = x * (95 / 100)"
  using places_promotion [OF assms(1)] assms(2) places_exact [of 21 "x * (95 / 100)"]
  by (simp add: decimal_multiply_def SM121_CACHE_PERFORMANCE_PROMOTION_RATIO_def)

text \<open>Two such numbers are never so close to the ratio of the guardrail that rounding hides the excess.\<close>

lemma guardrail_exact:
  assumes "decimal_places 19 x" and "decimal_places 19 y" and "y \<le> 3 * 10 ^ 5"
  shows "decimal_divide x y \<le> SM121_CACHE_PERFORMANCE_FULL_WALL_GUARDRAIL_RATIO \<longleftrightarrow> x \<le> 105 / 100 * y"
proof
  have pos: "0 < x" "0 < y" using assms places_pos by auto
  let ?c = "105 / 100 :: real" and ?next = "105 / 100 + 1 / 10 ^ 27 :: real"
  have c: "?c = of_int (105 * 10 ^ 25) / 10 ^ 27" "?next = of_int (105 * 10 ^ 25 + 1) / 10 ^ 27" by simp_all
  show "x \<le> ?c * y" if le: "decimal_divide x y \<le> SM121_CACHE_PERFORMANCE_FULL_WALL_GUARDRAIL_RATIO"
  proof (rule ccontr)
    assume "\<not> x \<le> ?c * y"
    moreover obtain a where a: "x = of_int a / 10 ^ 19" using assms(1) by (auto simp: decimal_places_def)
    moreover obtain b where b: "y = of_int b / 10 ^ 19" using assms(2) by (auto simp: decimal_places_def)
    ultimately have "105 * b < 100 * a" by (simp add: field_simps)
    then have "105 * b + 1 \<le> 100 * a" by simp
    then have "of_int (105 * b + 1) \<le> (of_int (100 * a) :: real)" by (simp only: of_int_le_iff)
    then have "?c * y + 1 / 10 ^ 21 \<le> x" by (simp add: a b field_simps)
    moreover have "y / 10 ^ 27 \<le> 1 / 10 ^ 21" using assms(3) by (simp add: field_simps)
    ultimately have "?next * y \<le> x" by (simp add: algebra_simps)
    then have "?next \<le> x / y" using pos by (simp add: pos_le_divide_eq)
    then have "?next \<le> decimal_divide x y"
      unfolding decimal_divide_def using decimal_round_near_one(2) [OF c(2), of "x / y"] pos by simp
    then show False using le by (simp add: SM121_CACHE_PERFORMANCE_FULL_WALL_GUARDRAIL_RATIO_def)
  qed
  show "decimal_divide x y \<le> SM121_CACHE_PERFORMANCE_FULL_WALL_GUARDRAIL_RATIO" if "x \<le> ?c * y"
  proof -
    have "x / y \<le> ?c" using that pos by (simp add: pos_divide_le_eq)
    then show ?thesis
      unfolding decimal_divide_def SM121_CACHE_PERFORMANCE_FULL_WALL_GUARDRAIL_RATIO_def
      using decimal_round_near_one(1) [OF c(1), of "x / y"] pos by simp
  qed
qed

lemma decimal_round_le: "0 < x \<Longrightarrow> decimal_round x \<le> 10 * x"
  using decimal_round_bounds(2) [of x] decimal_exponent_bounds(1) [of x] by (simp add: power_int_add)

section \<open>The exact score\<close>

definition wall_of :: "pyval \<Rightarrow> real" where
  "wall_of event = (case require_finite_decimal (value_of event ''request_wall_s'') True of Inr w \<Rightarrow> w | Inl _ \<Rightarrow> 0)"

definition measured_turn :: "pyval \<Rightarrow> bool" where
  "measured_turn event \<longleftrightarrow> turn_admitted event \<and>
     (case require_finite_decimal (value_of event ''request_wall_s'') True of Inr w \<Rightarrow> measured_wall w | Inl _ \<Rightarrow> False)"

definition later_wall :: "pydict \<Rightarrow> real" where
  "later_wall row = wall_of (lifetime_turns row ! 1) + wall_of (lifetime_turns row ! 2)"

definition full_wall :: "pydict \<Rightarrow> real" where
  "full_wall row = wall_of (lifetime_turns row ! 0) + wall_of (lifetime_turns row ! 1) + wall_of (lifetime_turns row ! 2)"

definition measured_lifetime :: "pydict \<Rightarrow> bool" where
  "measured_lifetime row \<longleftrightarrow> lifetime_admitted row \<and> length (lifetime_turns row) = 3 \<and>
     list_all measured_turn (lifetime_turns row)"

lemma measured_turn_wall:
  "measured_turn event \<Longrightarrow> require_finite_decimal (value_of event ''request_wall_s'') True = Inr (wall_of event)"
  "measured_turn event \<Longrightarrow> measured_wall (wall_of event)" "measured_turn event \<Longrightarrow> turn_admitted event"
  by (auto simp: measured_turn_def wall_of_def split: sum.splits)

lemma measured_walls:
  assumes "measured_lifetime row"
  shows "lifetime_walls row = Inr (later_wall row, full_wall row)"
    and "decimal_places 18 (later_wall row)" and "decimal_places 18 (full_wall row)"
    and "later_wall row \<le> 3 * 10 ^ 5" and "full_wall row \<le> 3 * 10 ^ 5"
proof -
  from assms obtain t0 t1 t2 where turns: "lifetime_turns row = [t0, t1, t2]"
    and m: "measured_turn t0" "measured_turn t1" "measured_turn t2"
    by (auto simp: measured_lifetime_def length_Suc_conv numeral_eq_Suc)
  note w = m [THEN measured_turn_wall(2)]
  have sums: "later_wall row = wall_of t1 + wall_of t2" "full_wall row = wall_of t0 + wall_of t1 + wall_of t2"
    by (simp_all add: later_wall_def full_wall_def turns)
  show "lifetime_walls row = Inr (later_wall row, full_wall row)"
    using m [THEN measured_turn_wall(1)] m [THEN measured_turn_wall(3)] sum_of_three [OF w]
    by (simp add: lifetime_walls_def turns SM121_CACHE_PERFORMANCE_TIMED_TURNS_def sums)
  show "decimal_places 18 (later_wall row)" "decimal_places 18 (full_wall row)"
    using w places_add unfolding sums measured_wall_def by blast+
  show "later_wall row \<le> 3 * 10 ^ 5" "full_wall row \<le> 3 * 10 ^ 5"
    using w unfolding sums measured_wall_def by auto
qed

text \<open>The comparison on the real numbers that the walls denote.\<close>

definition exact_decision :: "real \<Rightarrow> real \<Rightarrow> real \<Rightarrow> real \<Rightarrow> string" where
  "exact_decision a_later b_later a_full b_full =
     (if a_later \<le> 95 / 100 * b_later
      then if a_full \<le> 105 / 100 * b_full then ''retain_a'' else ''guardrail_reject''
      else if b_later \<le> 95 / 100 * a_later
      then if b_full \<le> 105 / 100 * a_full then ''retain_b'' else ''guardrail_reject''
      else ''no_retention'')"

definition exact_score :: "pydict list \<Rightarrow> cache_score" where
  "exact_score rows =
     (let a_later = (later_wall (rows ! 0) + later_wall (rows ! 3)) / 2;
          b_later = (later_wall (rows ! 1) + later_wall (rows ! 2)) / 2;
          a_full = (full_wall (rows ! 0) + full_wall (rows ! 3)) / 2;
          b_full = (full_wall (rows ! 1) + full_wall (rows ! 2)) / 2;
          ratio = (\<lambda>a b. if a_later \<le> 95 / 100 * b_later then Some (decimal_divide a b)
            else if b_later \<le> 95 / 100 * a_later then Some (decimal_divide b a) else None)
      in \<lparr>score_status = ''complete'', score_decision = exact_decision a_later b_later a_full b_full,
        a_later_wall_s = Some a_later, b_later_wall_s = Some b_later, a_full_wall_s = Some a_full,
        b_full_wall_s = Some b_full, winner_later_wall_ratio = ratio a_later b_later,
        winner_full_wall_ratio = ratio a_full b_full\<rparr>)"

lemma score_number_small:
  assumes "decimal_places 19 x" and "x \<le> 3 * 10 ^ 5"
  shows "score_number x = Inr x"
proof -
  have "(300000 :: real) < of_int float_overflow_bound" by (simp add: float_overflow_bound_def)
  moreover have "0 < x" "x \<le> 300000" using assms places_pos by auto
  ultimately have "\<bar>x\<bar> < of_int float_overflow_bound" by linarith
  then show ?thesis by (simp add: score_number_def)
qed

lemma score_ratio_small:
  assumes "decimal_places 19 x" and "x \<le> 3 * 10 ^ 5" and "decimal_places 19 y"
  shows "score_number (decimal_divide x y) = Inr (decimal_divide x y)"
proof -
  obtain n where n: "0 < n" "y = of_int n / 10 ^ 19" using assms(3) by (auto simp: decimal_places_def)
  have pos: "0 < x" "0 < y" using assms places_pos by auto
  have "1 / 10 ^ 19 \<le> y" using n by (simp add: divide_right_mono)
  then have "x / y \<le> 3 * 10 ^ 5 / (1 / 10 ^ 19)" using assms(2) pos by (intro frac_le) simp_all
  moreover have "decimal_round (x / y) \<le> 10 * (x / y)" by (rule decimal_round_le) (use pos in simp)
  ultimately have "decimal_divide x y \<le> 3 * 10 ^ 25" by (simp add: decimal_divide_def)
  moreover have "0 < decimal_divide x y" using pos by (simp add: decimal_divide_def decimal_round_pos)
  moreover have "(3 * 10 ^ 25 :: real) < of_int float_overflow_bound" by (simp add: float_overflow_bound_def)
  ultimately have "\<bar>decimal_divide x y\<bar> < of_int float_overflow_bound" by linarith
  then show ?thesis by (simp add: score_number_def)
qed

lemma measured_walls_scored:
  assumes "list_all measured_lifetime [r0, r1, r2, r3]"
  shows "score_walls [(''A'', later_wall r0, full_wall r0), (''B'', later_wall r1, full_wall r1),
      (''B'', later_wall r2, full_wall r2), (''A'', later_wall r3, full_wall r3)] = Inr (exact_score [r0, r1, r2, r3])"
proof -
  have r: "measured_lifetime r0" "measured_lifetime r1" "measured_lifetime r2" "measured_lifetime r3"
    using assms by simp_all
  define al bl af bf where "al = (later_wall r0 + later_wall r3) / 2" and "bl = (later_wall r1 + later_wall r2) / 2"
    and "af = (full_wall r0 + full_wall r3) / 2" and "bf = (full_wall r1 + full_wall r2) / 2"
  note defs = al_def bl_def af_def bf_def
  have mean: "mean_of_two [later_wall r0, later_wall r3] = al" "mean_of_two [later_wall r1, later_wall r2] = bl"
    "mean_of_two [full_wall r0, full_wall r3] = af" "mean_of_two [full_wall r1, full_wall r2] = bf"
    using r [THEN measured_walls(2)] r [THEN measured_walls(3)] r [THEN measured_walls(4)] r [THEN measured_walls(5)]
    unfolding defs by (simp_all add: mean_exact(1))
  have places: "decimal_places 19 al" "decimal_places 19 bl" "decimal_places 19 af" "decimal_places 19 bf"
    using r [THEN measured_walls(2)] r [THEN measured_walls(3)] r [THEN measured_walls(4)] r [THEN measured_walls(5)]
    unfolding defs by (blast intro: mean_exact(2))+
  have small: "al \<le> 3 * 10 ^ 5" "bl \<le> 3 * 10 ^ 5" "af \<le> 3 * 10 ^ 5" "bf \<le> 3 * 10 ^ 5"
    using r [THEN measured_walls(4)] r [THEN measured_walls(5)] unfolding defs by auto
  have pos: "\<not> al \<le> 0" "\<not> bl \<le> 0" "\<not> af \<le> 0" "\<not> bf \<le> 0" using places places_pos by (auto simp: not_le)
  have winner: "decide_winner al bl af bf =
      (if al \<le> 95 / 100 * bl then Some (''retain_a'', decimal_divide al bl, decimal_divide af bf)
       else if bl \<le> 95 / 100 * al then Some (''retain_b'', decimal_divide bl al, decimal_divide bf af) else None)"
    by (simp add: decide_winner_def promotion_exact [OF places(1) small(1)] promotion_exact [OF places(2) small(2)]
        mult.commute)
  have walls: "arm_walls ''A'' [(''A'', x), (''B'', y), (''B'', z), (''A'', w)] = [x, w]"
    "arm_walls ''B'' [(''A'', x), (''B'', y), (''B'', z), (''A'', w)] = [y, z]" for x y z w :: "real \<times> real"
    by (simp_all add: arm_walls_def)
  note numbers = score_number_small [OF places(1) small(1)] score_number_small [OF places(2) small(2)]
    score_number_small [OF places(3) small(3)] score_number_small [OF places(4) small(4)]
  note ratios = score_ratio_small [OF places(1) small(1) places(2)] score_ratio_small [OF places(2) small(2) places(1)]
    score_ratio_small [OF places(3) small(3) places(4)] score_ratio_small [OF places(4) small(4) places(3)]
  have score: "exact_score [r0, r1, r2, r3] = \<lparr>score_status = ''complete'',
      score_decision = decision_of_winner (decide_winner al bl af bf), a_later_wall_s = Some al, b_later_wall_s = Some bl,
      a_full_wall_s = Some af, b_full_wall_s = Some bf,
      winner_later_wall_ratio = map_option (\<lambda>w. fst (snd w)) (decide_winner al bl af bf),
      winner_full_wall_ratio = map_option (\<lambda>w. snd (snd w)) (decide_winner al bl af bf)\<rparr>"
    using guardrail_exact [OF places(3,4) small(4)] guardrail_exact [OF places(4,3) small(3)]
    by (simp add: exact_score_def Let_def exact_decision_def winner decision_of_winner_def
        defs [symmetric])
  show ?thesis
    unfolding score_walls_def Let_def walls list.map fst_conv snd_conv mean score
    using pos numbers ratios by (simp add: winner optional_score_number_def)
qed

lemma collected_walls:
  assumes "list_all (\<lambda>(arm, row). lifetime_admitted row \<longrightarrow> measured_lifetime row) pairs"
  shows "collect_walls (map (\<lambda>(arm, row). (arm, PDict row)) pairs) found = Inr
    (if list_all (\<lambda>(arm, row). lifetime_admitted row) pairs
     then Some (found @ map (\<lambda>(arm, row). (arm, later_wall row, full_wall row)) pairs) else None)"
  using assms by (induction pairs arbitrary: found) (auto simp: measured_walls(1))

text \<open>What the score of accepted lifetimes is, whatever their state.\<close>

definition campaign_score :: "pydict list \<Rightarrow> cache_score" where
  "campaign_score rows = (if list_all lifetime_admitted rows then exact_score rows else not_evaluated)"

lemma accepted_score:
  assumes "validate_lifetimes (PList (map PDict rows)) = Inr raws"
    and "list_all (\<lambda>row. lifetime_admitted row \<longrightarrow> measured_lifetime row) rows"
  shows "score_campaign (PList (map PDict rows)) = Inr (campaign_score rows)"
proof -
  have raws: "raws = map PDict rows" and "length rows = 4"
    using valid_lifetimes [OF assms(1)] by auto
  then obtain r0 r1 r2 r3 where rows: "rows = [r0, r1, r2, r3]" by (auto simp: length_Suc_conv numeral_eq_Suc)
  let ?pairs = "zip SM121_CACHE_PERFORMANCE_ARM_ORDER rows"
  have pairs: "?pairs = [(''A'', r0), (''B'', r1), (''B'', r2), (''A'', r3)]"
    by (simp add: rows SM121_CACHE_PERFORMANCE_ARM_ORDER_def)
  have "list_all (\<lambda>(arm, row). lifetime_admitted row \<longrightarrow> measured_lifetime row) ?pairs"
    using assms(2) by (simp add: pairs) (simp add: rows)
  from collected_walls [OF this, of "[]"]
  have found: "collect_walls (zip SM121_CACHE_PERFORMANCE_ARM_ORDER raws) [] = Inr
    (if list_all lifetime_admitted rows then Some (map (\<lambda>(arm, row). (arm, later_wall row, full_wall row)) ?pairs)
     else None)"
    unfolding pairs by (simp add: raws rows SM121_CACHE_PERFORMANCE_ARM_ORDER_def)
  show ?thesis
  proof (cases "list_all lifetime_admitted rows")
    case True
    then have "list_all measured_lifetime [r0, r1, r2, r3]" using assms(2) by (simp add: rows)
    from measured_walls_scored [OF this] show ?thesis
      using True found assms(1) by (simp add: score_campaign_def campaign_score_def rows SM121_CACHE_PERFORMANCE_ARM_ORDER_def)
  next
    case False
    then show ?thesis
      using found assms(1) by (simp only: score_campaign_def campaign_score_def if_False andThen_simps option.case)
  qed
qed

lemma campaign_score_status: "score_status (campaign_score rows) = ''complete'' \<longleftrightarrow> list_all lifetime_admitted rows"
  by (simp add: campaign_score_def exact_score_def not_evaluated_def Let_def)

text \<open>Only the lifetimes that were not admitted leave a score partial.\<close>

lemma collected_all:
  assumes "collect_walls pairs found = Inr None"
  shows "\<exists>arm row. (arm, PDict row) \<in> set pairs \<and> \<not> lifetime_admitted row"
  using assms
proof (induction pairs arbitrary: found)
  case (Cons pair pairs)
  obtain arm raw where pair: "pair = (arm, raw)" by (cases pair)
  from Cons.prems obtain d where raw: "raw = PDict d" by (cases raw) (simp_all add: pair)
  show ?case
  proof (cases "lifetime_admitted d")
    case True
    then obtain found' where "collect_walls pairs found' = Inr None"
      using Cons.prems by (auto simp: pair raw andThen_eq_Inr)
    from Cons.IH [OF this] obtain arm' row where "(arm', PDict row) \<in> set pairs" "\<not> lifetime_admitted row"
      by blast
    then show ?thesis by (intro exI [of _ arm'] exI [of _ row]) simp
  next
    case False
    then show ?thesis by (intro exI [of _ arm] exI [of _ d]) (simp add: pair raw)
  qed
qed simp

lemma score_complete_iff:
  assumes "score_campaign (PList (map PDict rows)) = Inr score"
  shows "score_status score = ''complete'' \<longleftrightarrow> list_all lifetime_admitted rows"
proof
  assume "score_status score = ''complete''"
  from complete_score_contrasts [OF assms this] obtain rows' where "map PDict rows = map PDict rows'"
    and all: "list_all2 (\<lambda>arm row. lifetime_admitted row \<and> contrasting_lifetime arm row)
       SM121_CACHE_PERFORMANCE_ARM_ORDER rows'" by auto
  then have "rows = rows'" by (simp add: inj_map_eq_map inj_def)
  then show "list_all lifetime_admitted rows" using all by (auto simp: list_all2_conv_all_nth list_all_length)
next
  assume all: "list_all lifetime_admitted rows"
  from assms obtain found where
    found: "collect_walls (zip SM121_CACHE_PERFORMANCE_ARM_ORDER (map PDict rows)) [] = Inr found"
    and score: "(case found of None \<Rightarrow> Inr not_evaluated | Some walls \<Rightarrow> score_walls walls) = Inr score"
    by (auto simp: score_campaign_def andThen_eq_Inr dest: valid_lifetimes(1))
  have "found \<noteq> None"
  proof
    assume "found = None"
    from collected_all [OF found [unfolded this]] obtain arm row where
      "(arm, PDict row) \<in> set (zip SM121_CACHE_PERFORMANCE_ARM_ORDER (map PDict rows))" "\<not> lifetime_admitted row"
      by blast
    then show False using all by (auto simp: list_all_iff dest!: set_zip_rightD)
  qed
  then show "score_status score = ''complete''" using score score_status_of by (cases found) auto
qed

section \<open>Properties\<close>

text \<open>
  C8. A campaign that is scored complete compared a cache with no cache. In each of its
  four lifetimes the first turn and every turn without the cache show no hit at all, in the response,
  in its usage and in the counters of the server, and every later turn with the cache shows a hit of
  the shared prefix that the response and both device counters report with the same number of tokens.
\<close>

theorem cache_score_contrasts_caching:
  assumes "score_campaign lifetimes = Inr s" and "score_status s = ''complete''"
  shows "\<exists>rows. lifetimes = PList (map PDict rows) \<and>
     list_all2 (\<lambda>arm row. lifetime_admitted row \<and> contrasting_lifetime arm row)
       SM121_CACHE_PERFORMANCE_ARM_ORDER rows"
  using assms by (rule complete_score_contrasts)

lemma sample_measured: "list_all measured_lifetime sample_lifetimes"
proof -
  have wall: "measured_wall w" if "w = of_int n" "0 < n" "n \<le> 100" for w n
  proof -
    have "of_int n \<le> (100 :: real)" using that(3) by simp
    then have "w \<le> 10 ^ 5" using that(1) by simp
    moreover have "w = of_int (n * 10 ^ 18) / 10 ^ 18" "0 < n * 10 ^ 18" using that by simp_all
    ultimately show ?thesis unfolding measured_wall_def decimal_places_def by blast
  qed
  have turn: "measured_turn (PDict (sample_event arm ordinal turn hits w shared True basis))"
    if "w = of_int n" "0 < n" "n \<le> 100" for arm ordinal turn hits w shared basis n
  proof -
    have "measured_wall w" by (rule wall [OF that])
    then have "0 < w" using places_pos [of 18 w] by (simp add: measured_wall_def)
    with \<open>measured_wall w\<close> show ?thesis
      by (simp add: measured_turn_def turn_admitted_def is_not_true_def sample_scalars value_of_def
        require_finite_decimal_def)
  qed
  have "measured_lifetime (lifetime_row k arm True True True (sample_events arm ordinal w0 w1 w2))"
    if "w0 = of_int n0" "w1 = of_int n1" "w2 = of_int n2" "0 < n0" "0 < n1" "0 < n2" "n0 \<le> 100" "n1 \<le> 100" "n2 \<le> 100"
    for k arm ordinal w0 w1 w2 n0 n1 n2
    using turn [OF that(1,4,7)] turn [OF that(2,5,8)] turn [OF that(3,6,9)]
    by (simp add: measured_lifetime_def lifetime_admitted_def lifetime_row_def is_not_true_def lifetime_turns_def
      sample_events_def)
  note each = this
  have "measured_lifetime (lifetime_row k arm True True True (sample_events arm ordinal 20 8 8))"
    "measured_lifetime (lifetime_row k arm True True True (sample_events arm ordinal 20 15 16))"
    "measured_lifetime (lifetime_row k arm True True True (sample_events arm ordinal 20 16 15))" for k arm ordinal
    by (rule each [of _ 20 _ 8 _ 8] each [of _ 20 _ 15 _ 16] each [of _ 20 _ 16 _ 15]; simp)+
  then show ?thesis by (simp add: sample_lifetimes_def)
qed

lemma sample_accepted: "validate_lifetimes (PList (map PDict sample_lifetimes)) = Inr (map PDict sample_lifetimes)"
  using sample_campaign_runs unfolding sample_arms_def by (rule campaign_lifetimes_accepted)



lemma sample_score: "score_campaign (PList (map PDict sample_lifetimes)) = Inr (exact_score sample_lifetimes)"
proof -
  have all: "list_all lifetime_admitted sample_lifetimes"
    using sample_measured by (auto simp: list_all_iff measured_lifetime_def)
  have "list_all (\<lambda>row. lifetime_admitted row \<longrightarrow> measured_lifetime row) sample_lifetimes"
    using sample_measured by (auto simp: list_all_iff)
  from accepted_score [OF sample_accepted this] show ?thesis by (simp add: campaign_score_def all)
qed

theorem cache_score_contrasts_caching_witness:
  "\<exists>rows. PList (map PDict sample_lifetimes) = PList (map PDict rows) \<and>
     list_all2 (\<lambda>arm row. lifetime_admitted row \<and> contrasting_lifetime arm row)
       SM121_CACHE_PERFORMANCE_ARM_ORDER rows"
  by (rule cache_score_contrasts_caching [OF sample_score]) (simp add: exact_score_def Let_def)



text \<open>
  C11. A campaign that returns a summary ran its arms in order up to the first one that did
  not complete, and no arm after it: tombstones stand for the others. The lifetimes it wrote are ones
  that the validator accepts, the summary counts those that completed, and it is complete exactly
  when all four did.
\<close>

theorem cache_campaign_stops_at_failure:
  assumes "execute_campaign digest loaded (arms_in_order a1 a2 a3 a4) stored = (started, Inr summary)"
  shows "\<exists>lifetimes. dict_get summary ''lifetimes'' = PList (map PDict lifetimes) \<and>
     validate_lifetimes (PList (map PDict lifetimes)) = Inr (map PDict lifetimes) \<and>
     stops_at_failure (arms_in_order a1 a2 a3 a4) started lifetimes \<and>
     dict_get summary ''completed_arms'' = PInt (int (length (filter lifetime_admitted lifetimes))) \<and>
     (dict_get summary ''status'' = PStr ''complete'' \<longleftrightarrow> list_all lifetime_admitted lifetimes)"
proof -
  from assms obtain sha lifetimes score where
    run: "execute_arms (arms_in_order a1 a2 a3 a4) None False = (started, Inr lifetimes)"
    and score: "score_campaign (PList (map PDict lifetimes)) = Inr score"
    and summary: "summary = campaign_summary digest sha score lifetimes"
    by (auto simp: execute_campaign_def andThen_eq_Inr split: sum.splits prod.splits)
  have valid: "validate_lifetimes (PList (map PDict lifetimes)) = Inr (map PDict lifetimes)"
    using run by (rule campaign_lifetimes_accepted)
  have fields: "dict_get summary ''lifetimes'' = PList (map PDict lifetimes)"
    "dict_get summary ''completed_arms'' = PInt (int (length (filter lifetime_admitted lifetimes)))"
    "dict_get summary ''status'' = PStr (score_status score)"
    by (simp_all add: summary campaign_summary_def Let_def)
  show ?thesis
    using fields valid executed_arms_stop [OF run] score_complete_iff [OF score] by auto
qed

theorem cache_campaign_stops_at_failure_witness:
  "\<exists>lifetimes summary. execute_campaign (\<lambda>_. []) (Inr (PStr [])) sample_arms (Inr ()) = ([1, 2, 3, 4], Inr summary) \<and>
     dict_get summary ''lifetimes'' = PList (map PDict lifetimes) \<and> list_all lifetime_admitted lifetimes"
proof -
  have run: "execute_campaign (\<lambda>_. []) (Inr (PStr [])) sample_arms (Inr ()) = ([1, 2, 3, 4],
      Inr (campaign_summary (\<lambda>_. []) (PStr []) (exact_score sample_lifetimes) sample_lifetimes))"
    by (simp add: execute_campaign_def sample_campaign_runs sample_score)
  have "dict_get (campaign_summary (\<lambda>_. []) (PStr []) (exact_score sample_lifetimes) sample_lifetimes) ''status''
      = PStr ''complete''"
    by (simp add: campaign_summary_def Let_def exact_score_def)
  with cache_campaign_stops_at_failure [OF run [unfolded sample_arms_def]] run show ?thesis by blast
qed

text \<open>
  C12. When the arms ran and the wall times of the lifetimes they completed are measured
  ones, the campaign returns its summary, with the exact score when all four lifetimes completed and
  with no evaluation otherwise: its own records never make the scoring fail.
\<close>

theorem cache_campaign_scores:
  assumes "execute_arms (arms_in_order a1 a2 a3 a4) None False = (started, Inr lifetimes)"
    and "list_all (\<lambda>row. lifetime_admitted row \<longrightarrow> measured_lifetime row) lifetimes"
  shows "execute_campaign digest (Inr sha) (arms_in_order a1 a2 a3 a4) (Inr ())
    = (started, Inr (campaign_summary digest sha (campaign_score lifetimes) lifetimes))"
  using assms(1) accepted_score [OF campaign_lifetimes_accepted [OF assms(1)] assms(2)]
  by (simp add: execute_campaign_def)

theorem cache_campaign_scores_witness:
  "execute_campaign (\<lambda>_. []) (Inr (PStr [])) sample_arms (Inr ()) = ([1, 2, 3, 4],
      Inr (campaign_summary (\<lambda>_. []) (PStr []) (campaign_score sample_lifetimes) sample_lifetimes))"
proof -
  have "list_all (\<lambda>row. lifetime_admitted row \<longrightarrow> measured_lifetime row) sample_lifetimes"
    using sample_measured by (auto simp: list_all_iff)
  from cache_campaign_scores [OF sample_campaign_runs [unfolded sample_arms_def] this] show ?thesis
    by (simp add: sample_arms_def)
qed

end
