(* ===== verification/Round_Campaign.thy ===== *)
theory Round_Campaign
  imports Round_V2_Guarantees Cache_Guarantees
begin

text \<open>
  The composition of the second controller with the campaign that a round runs
  (\<open>autoresearch_v2.py\<close>, \<open>runner.py\<close>): the summary that the campaign returns is one that the round
  can project, and what the round decides rests on the lifetimes of the campaign.
\<close>

definition score_decisions :: "string set" where
  "score_decisions = {''retain_a'', ''retain_b'', ''guardrail_reject'', ''no_retention'', ''not_evaluated''}"

lemma decision_of_winner_known: "decision_of_winner (decide_winner a b c d) \<in> score_decisions"
  by (simp add: decide_winner_def decision_of_winner_def score_decisions_def)

lemma score_strings:
  assumes "score_campaign lifetimes = Inr s"
  shows "score_status s \<in> {''complete'', ''partial''}" and "score_decision s \<in> score_decisions"
proof -
  from assms obtain found where
    "(case found of None \<Rightarrow> Inr not_evaluated | Some walls \<Rightarrow> score_walls walls) = Inr s"
    by (auto simp: score_campaign_def andThen_eq_Inr)
  then consider "s = not_evaluated" | walls where "score_walls walls = Inr s" by (cases found) auto
  then have "score_status s \<in> {''complete'', ''partial''} \<and> score_decision s \<in> score_decisions"
  proof cases
    case 2
    then have "score_decision s \<in> score_decisions"
      using decision_of_winner_known unfolding score_walls_def Let_def guard_eq_Inr andThen_eq_Inr by auto
    then show ?thesis using score_status_of [OF 2] by simp
  qed (simp add: not_evaluated_def score_decisions_def)
  then show "score_status s \<in> {''complete'', ''partial''}" "score_decision s \<in> score_decisions" by blast+
qed

lemma score_projects:
  assumes "score_campaign lifetimes = Inr s"
  shows "\<exists>score. scalar_score (PDict (score_to_mapping s)) = Inr score"
proof -
  have keys: "dict_keys (score_to_mapping s) = SCORE_FIELDS"
    by (auto simp: score_to_mapping_def SCORE_FIELDS_def)
  have "length (score_status s) \<le> 64" "length (score_decision s) \<le> 64"
    using score_strings [OF assms] by (auto simp: score_decisions_def)
  then have texts: "score_item (''status'', PStr (score_status s)) = Inr (''status'', PStr (score_status s))"
    "score_item (''decision'', PStr (score_decision s)) = Inr (''decision'', PStr (score_decision s))"
    by (simp_all add: score_item_def)
  have number: "score_item (k, optional_float v) = Inr (k, optional_float v)" if "k \<notin> {''status'', ''decision''}" for k v
    using that by (cases v) (simp_all add: score_item_def optional_float_def proposal_float_def)
  have "\<exists>y. score_item item = Inr y" if "item \<in> set (score_to_mapping s)" for item
    using that texts number unfolding score_to_mapping_def list.set by (elim insertE emptyE) simp_all
  then have "\<exists>ys. traverse score_item (score_to_mapping s) = Inr ys" by (rule traverse_total)
  then show ?thesis by (simp add: scalar_score_def keys)
qed

text \<open>
  C9. A round can always summarize the campaign it ran. The summary that the campaign
  returns is projected whatever its outcome, and a round that retains or rejects the candidate does so
  on a passed audit and on four lifetimes of the campaign that were admitted and contrast the arm with
  the cache and the arm without it.
\<close>

theorem round_rests_on_contrast:
  assumes "execute_campaign digest loaded (arms_in_order a1 a2 a3 a4) stored = (started, Inr child)"
  shows "\<exists>lifetimes summary. dict_get child ''lifetimes'' = PList (map PDict lifetimes) \<and>
     summary_payload e payload child audit = Inr summary \<and>
     (dict_get summary ''decision'' = PStr ''inconclusive'' \<or> dict_get audit ''ok'' = PBool True \<and>
       list_all2 (\<lambda>arm row. lifetime_admitted row \<and> contrasting_lifetime arm row)
         SM121_CACHE_PERFORMANCE_ARM_ORDER lifetimes)"
proof -
  from assms obtain sha lifetimes score where
    run: "execute_arms (arms_in_order a1 a2 a3 a4) None False = (started, Inr lifetimes)"
    and score: "score_campaign (PList (map PDict lifetimes)) = Inr score"
    and child: "child = campaign_summary digest sha score lifetimes"
    by (auto simp: execute_campaign_def andThen_eq_Inr split: sum.splits prod.splits)
  have fields: "dict_get child ''lifetimes'' = PList (map PDict lifetimes)"
    "dict_get child ''completed_arms'' = PInt (int (length (filter lifetime_admitted lifetimes)))"
    "dict_get child ''status'' = PStr (score_status score)" "dict_get child ''decision'' = PStr (score_decision score)"
    "dict_get child ''score'' = PDict (score_to_mapping score)"
    by (simp_all add: child campaign_summary_def Let_def)
  have four: "length lifetimes = 4"
    using valid_lifetimes(2) [OF campaign_lifetimes_accepted [OF run]] by simp
  then have arms: "length (filter lifetime_admitted lifetimes) \<le> 4" by (metis length_filter_le)
  obtain items where items: "scalar_score (PDict (score_to_mapping score)) = Inr items"
    using score_projects [OF score] by blast
  define verdict where "verdict = decision_from_child child audit"
  have bounded: "(int (length (filter lifetime_admitted lifetimes)) < 0 \<or>
      AUTORESEARCH_V2_REQUIRED_LIFETIMES < int (length (filter lifetime_admitted lifetimes))) = False"
    using arms by (simp add: AUTORESEARCH_V2_REQUIRED_LIFETIMES_def)
  obtain summary where summary: "summary_payload e payload child audit = Inr summary"
    "dict_get summary ''decision'' = PStr (snd verdict)"
    unfolding summary_payload_def fields pyval.case bounded if_False items andThen_simps case_prod_beta
      verdict_def [symmetric]
    by (simp add: sealed_def round_binding_def)
  have verdict: "snd verdict = ''inconclusive'' \<or> dict_get audit ''ok'' = PBool True \<and> score_status score = ''complete''"
  proof (cases "dict_get audit ''ok'' = PBool True \<and> score_status score = ''complete''")
    case False
    then show ?thesis unfolding verdict_def decision_from_child_def Let_def fields by auto
  qed simp
  have contrast: "list_all2 (\<lambda>arm row. lifetime_admitted row \<and> contrasting_lifetime arm row)
      SM121_CACHE_PERFORMANCE_ARM_ORDER lifetimes" if whole: "score_status score = ''complete''"
  proof -
    from complete_score_contrasts [OF score whole] obtain rows where "map PDict lifetimes = map PDict rows"
      and all: "list_all2 (\<lambda>arm row. lifetime_admitted row \<and> contrasting_lifetime arm row)
         SM121_CACHE_PERFORMANCE_ARM_ORDER rows" by auto
    then have "lifetimes = rows" by (simp add: inj_map_eq_map inj_def)
    with all show ?thesis by simp
  qed
  show ?thesis
    using verdict contrast by (intro exI [of _ lifetimes] exI [of _ summary]) (auto simp: fields(1) summary)
qed

theorem round_rests_on_contrast_witness:
  "\<exists>child lifetimes summary.
     execute_campaign (\<lambda>_. []) (Inr (PStr [])) sample_arms (Inr ()) = ([1, 2, 3, 4], Inr child) \<and>
     dict_get child ''lifetimes'' = PList (map PDict lifetimes) \<and>
     summary_payload (demo_env (Inr demo_child)) demo_round child [(''ok'', PBool True)] = Inr summary"
proof -
  have run: "execute_campaign (\<lambda>_. []) (Inr (PStr [])) sample_arms (Inr ()) = ([1, 2, 3, 4],
      Inr (campaign_summary (\<lambda>_. []) (PStr []) (exact_score sample_lifetimes) sample_lifetimes))"
    by (simp add: execute_campaign_def sample_campaign_runs sample_score)
  from round_rests_on_contrast [OF run [unfolded sample_arms_def]] run show ?thesis by blast
qed

end
