(* ===== verification/Cache_Profiles.thy ===== *)
theory Cache_Profiles
  imports Cache_Records
begin

text \<open>
  The two profiles of a cache-performance campaign (\<open>sglang_sm121_cache_performance.py\<close>), the
  binding of its four frozen plans, and the authentication of a frozen campaign (\<open>runner.py\<close>). The
  plan files are read by the functions here as the values they parse to.
\<close>

section \<open>The contract of a profile\<close>

definition SM121_STORAGE_CACHE_PAGES :: int where
  "SM121_STORAGE_CACHE_PAGES = 0"
definition SM121_STORAGE_CONTEXT_LENGTH :: int where
  "SM121_STORAGE_CONTEXT_LENGTH = 65536"
definition SM121_STORAGE_LOCAL_IMAGE_ID :: string where
  "SM121_STORAGE_LOCAL_IMAGE_ID = ''sha256:b14c39fb7cb2e0b82f2f8cae1e115a55f2bb69b5ec6fd7ccc4099b219d1096b0''"
definition SM121_STORAGE_LOCAL_IMAGE_TAG :: string where
  "SM121_STORAGE_LOCAL_IMAGE_TAG = ''local/sglang:sm121-storage-274ee330-runtime''"
definition SM121_STORAGE_MAX_BATCH_PAGES :: int where
  "SM121_STORAGE_MAX_BATCH_PAGES = 4096"
definition SM121_STORAGE_MODE :: string where
  "SM121_STORAGE_MODE = ''qwen4_ple_nvme_io_uring''"
definition SM121_STORAGE_NATIVE_CONTEXT :: int where
  "SM121_STORAGE_NATIVE_CONTEXT = 262144"
definition SM121_STORAGE_PLATFORM :: string where
  "SM121_STORAGE_PLATFORM = ''linux/arm64''"
definition SM121_STORAGE_QUEUE_DEPTH :: int where
  "SM121_STORAGE_QUEUE_DEPTH = 512"
definition SM121_STORAGE_REVISION :: string where
  "SM121_STORAGE_REVISION = ''7b719225242aacd3dbd3f9407468c2ee9a9d2594''"
definition SM121_STORAGE_SOURCE :: string where
  "SM121_STORAGE_SOURCE = ''RadixArk/Qwen3.8-Flash-Next-NVFP4''"
definition SM121_STORAGE_WEIGHT_FILE_COUNT :: int where
  "SM121_STORAGE_WEIGHT_FILE_COUNT = 206"
definition SM121_STORAGE_WEIGHT_SIZE_BYTES :: int where
  "SM121_STORAGE_WEIGHT_SIZE_BYTES = 135195303851"
definition SM121_CACHE_PERFORMANCE_SERVED_NAME :: string where
  "SM121_CACHE_PERFORMANCE_SERVED_NAME =
     ''qwen38-flash-next-nvfp4-sm121-storage-cache-policy-performance''"
definition SM121_CACHE_PERFORMANCE_CACHE_ON_DESCRIPTION :: string where
  "SM121_CACHE_PERFORMANCE_CACHE_ON_DESCRIPTION =
     ''SM121 cache-policy performance A: UnifiedRadixCache with lazy Mamba state. Only the dedicated A/B/B/A performance controller may execute it.''"
definition SM121_CACHE_PERFORMANCE_CACHE_OFF_DESCRIPTION :: string where
  "SM121_CACHE_PERFORMANCE_CACHE_OFF_DESCRIPTION =
     ''SM121 cache-policy performance B: ChunkCache cache-off control. Only the dedicated A/B/B/A performance controller may execute it.''"
definition args_before_page_size :: "string list" where
  "args_before_page_size = [
     ''--served-model-name'',
     SM121_CACHE_PERFORMANCE_SERVED_NAME, ''--tp-size'', ''1'',
     ''--attention-backend'', ''triton'', ''--moe-runner-backend'', ''flashinfer_cutlass'',
     ''--quantization'', ''modelopt_fp4'', ''--load-format'', ''auto'',
     ''--no-ple-offload-embedding'', ''--weight-loader-drop-cache-after-load'',
     ''--language-only'', ''--mamba-radix-cache-strategy'', ''extra_buffer_lazy'',
     ''--max-mamba-cache-size'', ''4'']"
definition args_from_page_size :: "string list" where
  "args_from_page_size = [
     ''--page-size'', ''64'', ''--mem-fraction-static'', ''0.85'', ''--max-total-tokens'',
     ''65536'', ''--context-length'', ''65536'', ''--chunked-prefill-size'', ''1024'',
     ''--max-running-requests'', ''1'', ''--cuda-graph-backend-decode'', ''disabled'',
     ''--cuda-graph-backend-prefill'', ''disabled'', ''--enable-metrics'', ''--host'',
     ''0.0.0.0'', ''--port'', ''30000'']"
definition expected_candidate :: pydict where
  "expected_candidate = [
     (''backend'', PStr ''sglang''),
     (''source'', PStr SM121_STORAGE_SOURCE),
     (''revision'', PStr SM121_STORAGE_REVISION),
     (''served_name'', PStr SM121_CACHE_PERFORMANCE_SERVED_NAME),
     (''tasks'', PTuple [PStr ''chat'']),
     (''architecture'', PStr ''moe+qsa+gdn''),
     (''quantization'', PStr ''nvfp4+ple-fp8-nvme-io-uring''),
     (''lifecycle'', PStr ''docker''),
     (''image'', PStr SM121_STORAGE_LOCAL_IMAGE_TAG),
     (''image_digest'', PNone),
     (''local_image_id'', PStr SM121_STORAGE_LOCAL_IMAGE_ID),
     (''cache_dir'', PStr ''user''),
     (''max_context'', PInt SM121_STORAGE_CONTEXT_LENGTH),
     (''native_context'', PInt SM121_STORAGE_NATIVE_CONTEXT),
     (''startup_timeout_s'', PInt SM121_CACHE_PERFORMANCE_CELL_TIMEOUT_S),
     (''estimated_ram_gib'', PFloat (FFin 101)),
     (''host_safety_min_memavailable_gib'', PInt 10),
     (''host_safety_max_swap_growth_mib'', PInt 512),
     (''host_safety_max_starting_swap_mib'', PInt 512),
     (''endpoint'', PStr ''http://127.0.0.1:30000/v1''),
     (''fetch_allow_patterns'', PTuple []),
     (''fetch_ignore_patterns'', PTuple []),
     (''sglang_storage_mode'', PStr SM121_STORAGE_MODE),
     (''sglang_ple_nvme_queue_depth'', PInt SM121_STORAGE_QUEUE_DEPTH),
     (''sglang_ple_nvme_max_batch_pages'', PInt SM121_STORAGE_MAX_BATCH_PAGES),
     (''sglang_ple_nvme_cache_pages'', PInt SM121_STORAGE_CACHE_PAGES),
     (''weight_size_bytes'', PInt SM121_STORAGE_WEIGHT_SIZE_BYTES),
     (''weight_file_count'', PInt SM121_STORAGE_WEIGHT_FILE_COUNT),
     (''draft_source'', PNone),
     (''draft_revision'', PNone),
     (''draft_weight_size_bytes'', PNone),
     (''draft_model_file'', PNone),
     (''draft_model_digest'', PNone),
     (''draft_model_size_bytes'', PNone),
     (''sglang_allow_hf_metadata_probe'', PBool False),
     (''sglang_source_overlays'', PTuple []),
     (''sglang_ple_mmap'', PBool False),
     (''sglang_ple_omitted'', PBool False),
     (''sglang_ple_cache_mode'', PNone),
     (''sglang_ple_cache_marker_digest'', PNone),
     (''sglang_ple_cache_payload_digest'', PNone),
     (''recipe_source'', PNone),
     (''recipe_revision'', PNone),
     (''runtime_python'', PNone),
     (''runtime_binary'', PNone),
     (''runtime_digest'', PNone),
     (''runtime_parallel'', PNone),
     (''runtime_source_dir'', PNone),
     (''runtime_revision'', PNone),
     (''model_file'', PNone),
     (''model_digest'', PNone),
     (''model_size_bytes'', PNone),
     (''model_shards'', PTuple []),
     (''mmproj_file'', PNone),
     (''mmproj_digest'', PNone),
     (''mmproj_size_bytes'', PNone),
     (''prefix_cache_mode'', PNone),
     (''support_status'', PStr ''exploratory'')]"

definition SM121_CACHE_PERFORMANCE_CACHE_ON_ARGS :: "string list" where
  "SM121_CACHE_PERFORMANCE_CACHE_ON_ARGS = args_before_page_size @ args_from_page_size"

definition SM121_CACHE_PERFORMANCE_CACHE_OFF_ARGS :: "string list" where
  "SM121_CACHE_PERFORMANCE_CACHE_OFF_ARGS =
     args_before_page_size @ [''--disable-radix-cache''] @ args_from_page_size"

definition expected_profile :: "string \<Rightarrow> (string \<times> string list) res" where
  "expected_profile i =
     (if i = SM121_CACHE_PERFORMANCE_CACHE_ON_PROFILE_ID
      then Inr (SM121_CACHE_PERFORMANCE_CACHE_ON_DESCRIPTION, SM121_CACHE_PERFORMANCE_CACHE_ON_ARGS)
      else if i = SM121_CACHE_PERFORMANCE_CACHE_OFF_PROFILE_ID
      then Inr (SM121_CACHE_PERFORMANCE_CACHE_OFF_DESCRIPTION, SM121_CACHE_PERFORMANCE_CACHE_OFF_ARGS)
      else Inl cache_error)"

text \<open>\<open>tuple(actual)\<close> of a list or tuple.\<close>

definition as_tuple :: "pyval \<Rightarrow> pyval" where
  "as_tuple v = (case v of PList xs \<Rightarrow> PTuple xs | _ \<Rightarrow> v)"

definition tuple_fields :: "string set" where
  "tuple_fields = {''tasks'', ''fetch_allow_patterns'', ''fetch_ignore_patterns'',
     ''sglang_source_overlays'', ''model_shards''}"

definition check_candidate_field :: "pyval \<Rightarrow> string \<times> pyval \<Rightarrow> unit res" where
  "check_candidate_field model = (\<lambda>(field, wanted).
     (let actual = value_of model field in
      check (py_equals (if field \<in> tuple_fields then as_tuple actual else actual) wanted) cache_error))"

definition no_thinking_request :: pydict where
  "no_thinking_request = [(''chat_template_kwargs'', PDict [(''enable_thinking'', PBool False)])]"

definition validate_candidate :: "(string \<Rightarrow> pyval option) \<Rightarrow> pyval \<Rightarrow> unit res" where
  "validate_candidate loads model =
     (case profile_id model of None \<Rightarrow> Inr () | Some i \<Rightarrow>
     if \<not> is_cache_performance_candidate model then Inr () else
     andThen (traverse (check_candidate_field model) expected_candidate) (\<lambda>_.
     andThen (case value_of model ''request_body_json'' of
         PStr request \<Rightarrow> (case loads request of None \<Rightarrow> Inl cache_error | Some v \<Rightarrow> Inr v)
       | _ \<Rightarrow> Inr PNone) (\<lambda>parsed.
     if by_value parsed \<noteq> by_value (PDict no_thinking_request) then Inl cache_error else
     andThen (expected_profile i) (\<lambda>(description, args).
     if value_of model ''description'' \<noteq> PStr description then Inl cache_error else
     check (as_tuple (value_of model ''args'') = PTuple (map PStr args)) cache_error))))"

definition validate_pair :: "(string \<Rightarrow> pyval option) \<Rightarrow> pyval \<Rightarrow> pyval \<Rightarrow> unit res" where
  "validate_pair loads cache_on cache_off =
     (if profile_id cache_on \<noteq> Some SM121_CACHE_PERFORMANCE_CACHE_ON_PROFILE_ID then Inl cache_error else
      if profile_id cache_off \<noteq> Some SM121_CACHE_PERFORMANCE_CACHE_OFF_PROFILE_ID then Inl cache_error else
      andThen (validate_candidate loads cache_on) (\<lambda>_. validate_candidate loads cache_off))"

section \<open>Binding the four plans\<close>

text \<open>The checks of one plan, with its ordinal written into it.\<close>

definition bindable_plan :: "(string \<Rightarrow> pyval option) \<Rightarrow> int \<times> string \<times> pyval option \<Rightarrow> pydict res" where
  "bindable_plan loads = (\<lambda>(ordinal, arm, found).
     (case found of Some (PDict plan) \<Rightarrow>
     (case dict_get plan ''model'' of PDict model \<Rightarrow>
     (case dict_get plan ''suite'' of PDict suite \<Rightarrow>
     andThen (reraise (\<lambda>x. x = cache_error) RuntimeError
       (andThen (cache_performance_arm (PDict model)) (\<lambda>found_arm.
        if found_arm \<noteq> arm then Inl cache_error else
        andThen (validate_candidate loads (PDict model)) (\<lambda>_. validate_suite (PDict suite))))) (\<lambda>_.
     if \<not> is_text_that plan_fingerprint (dict_get plan ''fingerprint'') then Inl RuntimeError
     else Inr (filter (\<lambda>(k, v). k \<noteq> ''cache_performance_ordinal'') plan
       @ [(''cache_performance_ordinal'', PInt ordinal)]))
       | _ \<Rightarrow> Inl RuntimeError)
       | _ \<Rightarrow> Inl RuntimeError)
       | _ \<Rightarrow> Inl RuntimeError))"

definition unsigned_binding :: "string \<Rightarrow> pyval list \<Rightarrow> pydict" where
  "unsigned_binding instance_sha fingerprints = [
     (''schema_version'', PInt SM121_CACHE_PERFORMANCE_PAIR_BINDING_SCHEMA_VERSION),
     (''suite_id'', PStr SM121_CACHE_PERFORMANCE_SUITE_ID),
     (''execution_mode'', PStr SM121_CACHE_PERFORMANCE_EXECUTION_MODE),
     (''arm_order'', PList (map PStr SM121_CACHE_PERFORMANCE_ARM_ORDER)),
     (''profile_ids'', PList [PStr SM121_CACHE_PERFORMANCE_CACHE_ON_PROFILE_ID,
        PStr SM121_CACHE_PERFORMANCE_CACHE_OFF_PROFILE_ID]),
     (''quality_case_id'', PStr SM121_CACHE_PERFORMANCE_QUALITY_CASE_ID),
     (''timed_case_id'', PStr SM121_CACHE_PERFORMANCE_CASE_ID),
     (''cell_timeout_s'', PInt SM121_CACHE_PERFORMANCE_CELL_TIMEOUT_S),
     (''campaign_instance_sha256'', PStr instance_sha),
     (''plan_fingerprints'', PList fingerprints)]"

definition signed_binding :: "(pyval \<Rightarrow> string) \<Rightarrow> pydict \<Rightarrow> pydict" where
  "signed_binding digest binding =
     binding @ [(''pair_binding_sha256'', PStr (pair_binding_sha256 digest binding))]"

definition without_hash :: "pydict \<Rightarrow> pydict" where
  "without_hash d = filter (\<lambda>(k, v). k \<noteq> ''integrity_hash'') d"

definition hashed :: "(pyval \<Rightarrow> string) \<Rightarrow> pydict \<Rightarrow> pydict" where
  "hashed digest d = without_hash d @ [(''integrity_hash'', PStr (digest (canonical (PDict (without_hash d)))))]"

definition bound_plan :: "(pyval \<Rightarrow> string) \<Rightarrow> pydict \<Rightarrow> pydict \<Rightarrow> pydict" where
  "bound_plan digest binding plan = hashed digest
     (filter (\<lambda>(k, v). k \<noteq> ''cache_performance_pair'') plan @ [(''cache_performance_pair'', PDict binding)])"

text \<open>The binding and the plans as they are written back.\<close>

definition bind_campaign_plans ::
  "(pyval \<Rightarrow> string) \<Rightarrow> (string \<Rightarrow> pyval option) \<Rightarrow> pyval option list \<Rightarrow> (pydict \<times> pydict list) res" where
  "bind_campaign_plans digest loads found =
     (if length found \<noteq> length SM121_CACHE_PERFORMANCE_ARM_ORDER then Inl RuntimeError else
      andThen (traverse (bindable_plan loads)
        (zip (map int [1..<5]) (zip SM121_CACHE_PERFORMANCE_ARM_ORDER found))) (\<lambda>plans.
      andThen (reraise (\<lambda>x. x = cache_error) RuntimeError
        (pair_instance_sha256 digest (map (\<lambda>plan. dict_get plan ''run_nonce'') plans))) (\<lambda>instance_sha.
      let binding = signed_binding digest
            (unsigned_binding instance_sha (map (\<lambda>plan. dict_get plan ''fingerprint'') plans)) in
      andThen (reraise (\<lambda>x. x = cache_error) RuntimeError (validate_pair_binding digest (PDict binding))) (\<lambda>_.
      Inr (binding, map (bound_plan digest binding) plans)))))"

section \<open>Freezing a campaign\<close>

definition campaign_body :: "pyval \<Rightarrow> pydict \<Rightarrow> pyval list \<Rightarrow> pydict" where
  "campaign_body created_at binding names = [
     (''schema_version'', PInt 1), (''campaign_id'', PStr SM121_CACHE_PERFORMANCE_CAMPAIGN_ID),
     (''created_at'', created_at), (''execution_mode'', PStr SM121_CACHE_PERFORMANCE_EXECUTION_MODE),
     (''prerequisite_bundle_sha256s'', PList (map PStr SM121_CACHE_PERFORMANCE_PREREQUISITE_BUNDLE_SHA256S)),
     (''pair_binding'', PDict binding), (''run_directories'', PList names)]"

text \<open>
  \<open>planned\<close> are the four plan files that \<open>create_plan\<close> wrote with the names of their directories,
  \<open>prerequisites\<close>, \<open>made\<close> and \<open>written\<close> what checking the evidence, making the directory and
  writing the files give. The campaign and the bound plans are what is written.
\<close>

definition create_campaign ::
  "(pyval \<Rightarrow> string) \<Rightarrow> (string \<Rightarrow> pyval option) \<Rightarrow> pyval \<Rightarrow> pyval \<Rightarrow> pyval \<Rightarrow> unit res \<Rightarrow> unit res
     \<Rightarrow> (pyval option list \<times> pyval list) res \<Rightarrow> pyval \<Rightarrow> unit res \<Rightarrow> (pydict \<times> pydict list) res" where
  "create_campaign digest loads cache_on cache_off suite prerequisites made planned created_at written =
     andThen (reraise (\<lambda>x. x = cache_error) RuntimeError
       (andThen (validate_pair loads cache_on cache_off) (\<lambda>_.
        andThen (validate_suite suite) (\<lambda>_. prerequisites)))) (\<lambda>_.
     andThen made (\<lambda>_.
     andThen planned (\<lambda>(found, names).
     andThen (bind_campaign_plans digest loads found) (\<lambda>(binding, plans).
     andThen written (\<lambda>_. Inr (hashed digest (campaign_body created_at binding names), plans))))))"

section \<open>Authenticating a frozen plan\<close>

text \<open>\<open>content_hash(d, len(h)) == h\<close>: the length is that of the hash found in the file.\<close>

definition integrity_holds :: "(pyval \<Rightarrow> string) \<Rightarrow> pydict \<Rightarrow> bool" where
  "integrity_holds digest d = is_text_that
     (\<lambda>h. take (length h) (digest (canonical (PDict (without_hash d)))) = h) (dict_get d ''integrity_hash'')"

definition content_hash_of :: "(pyval \<Rightarrow> string) \<Rightarrow> nat \<Rightarrow> pydict \<Rightarrow> string" where
  "content_hash_of digest n d = take n (digest (canonical (PDict d)))"

text \<open>The \<open>case_id\<close> that \<open>_canonical_case\<close> gives.\<close>

definition canonical_case_id :: "(pyval \<Rightarrow> string) \<Rightarrow> pydict \<Rightarrow> pyval \<Rightarrow> pydict \<Rightarrow> string \<Rightarrow> string" where
  "canonical_case_id digest model protocol_digest item case_name =
     case_name @ ''--'' @ content_hash_of digest 12 ([(''model'', PDict model), (''case'', PDict item)]
       @ (if protocol_digest \<noteq> PNone then [(''protocol_digest'', protocol_digest)] else []))"

definition without_case_id :: "pydict \<Rightarrow> pydict" where
  "without_case_id item = filter (\<lambda>(k, v). k \<noteq> ''case_id'') item"

text \<open>An identifier that is no text is refused here; the code refuses it here or in the suite's contract.\<close>

definition check_case_id :: "(pyval \<Rightarrow> string) \<Rightarrow> pydict \<Rightarrow> pyval \<Rightarrow> pyval \<Rightarrow> unit res" where
  "check_case_id digest model protocol_digest v = (case v of
       PDict item \<Rightarrow> andThen (getitem (without_case_id item) ''id'') (\<lambda>i.
         check (is_text_that (\<lambda>name. dict_get item ''case_id''
           = PStr (canonical_case_id digest model protocol_digest (without_case_id item) name)) i) PreflightError)
     | _ \<Rightarrow> Inl PreflightError)"

definition plan_core :: "pydict \<Rightarrow> (pydict \<times> pydict \<times> pydict) res" where
  "plan_core plan =
     (if \<not> eq_int (dict_get plan ''schema_version'') 2 then Inl PreflightError else
      (case (dict_get plan ''model'', dict_get plan ''suite'', dict_get plan ''resolved'') of
         (PDict model, PDict suite, PDict resolved) \<Rightarrow> Inr (model, suite, resolved)
       | _ \<Rightarrow> Inl PreflightError))"

text \<open>The suite with its cases stripped of their identifiers, in its place.\<close>

definition suite_without_case_ids :: "pydict \<Rightarrow> pyval list \<Rightarrow> pydict" where
  "suite_without_case_ids suite items = filter (\<lambda>(k, v). k \<noteq> ''cases'') suite
     @ [(''cases'', PList (map (\<lambda>v. case v of PDict item \<Rightarrow> PDict (without_case_id item) | _ \<Rightarrow> v) items))]"

definition local_image_holds :: "pyval \<Rightarrow> bool" where
  "local_image_holds v = (case v of
       PDict img \<Rightarrow> dict_keys img = {''docker_image_id'', ''platform'', ''source_tree''} \<and>
         dict_get img ''docker_image_id'' = PStr SM121_STORAGE_LOCAL_IMAGE_ID \<and>
         dict_get img ''platform'' = PStr SM121_STORAGE_PLATFORM \<and>
         dict_get img ''source_tree'' = PStr SM121_STORAGE_SOURCE_TREE
     | _ \<Rightarrow> False)"

definition plan_contract ::
  "(pyval \<Rightarrow> string) \<Rightarrow> (string \<Rightarrow> pyval option) \<Rightarrow> pydict \<Rightarrow> pydict \<times> pydict \<times> pydict \<Rightarrow> unit res" where
  "plan_contract digest loads plan = (\<lambda>(model, suite, resolved).
     (case dict_get suite ''cases'' of PList items \<Rightarrow>
      if \<not> list_all (\<lambda>v. case v of PDict _ \<Rightarrow> True | _ \<Rightarrow> False) items then Inl PreflightError else
      if dict_get plan ''fingerprint'' \<noteq> PStr (content_hash_of digest 16 [(''model'', PDict model),
          (''suite'', PDict (suite_without_case_ids suite items)), (''resolved'', PDict resolved)])
      then Inl PreflightError else
      andThen (traverse (check_case_id digest model (dict_get suite ''protocol_digest'')) items) (\<lambda>_.
      andThen (reraise (\<lambda>x. x = cache_error) PreflightError
        (if \<not> is_cache_performance_plan (PDict model) (PDict suite) then Inl cache_error else
         andThen (validate_candidate loads (PDict model)) (\<lambda>_. validate_suite (PDict suite)))) (\<lambda>_.
      check (local_image_holds (dict_get resolved ''local_image'')) PreflightError))
      | _ \<Rightarrow> Inl PreflightError))"

definition plan_binding :: "(pyval \<Rightarrow> string) \<Rightarrow> pydict \<Rightarrow> pydict \<Rightarrow> unit res" where
  "plan_binding digest plan model =
     andThen (reraise (\<lambda>x. x = cache_error) PreflightError
       (validate_pair_binding digest (dict_get plan ''cache_performance_pair''))) (\<lambda>_.
     (case dict_get plan ''cache_performance_ordinal'' of PInt ordinal \<Rightarrow>
      if \<not> (1 \<le> ordinal \<and> ordinal \<le> int (length SM121_CACHE_PERFORMANCE_ARM_ORDER)) then Inl PreflightError else
      andThen (cache_performance_arm (PDict model)) (\<lambda>arm.
      if arm \<noteq> SM121_CACHE_PERFORMANCE_ARM_ORDER ! nat (ordinal - 1) then Inl PreflightError else
      (case value_of (dict_get plan ''cache_performance_pair'') ''plan_fingerprints'' of PList fingerprints \<Rightarrow>
        if fingerprints ! nat (ordinal - 1) \<noteq> dict_get plan ''fingerprint'' then Inl PreflightError else
        andThen (reraise (\<lambda>_. True) PreflightError (valid_nonce (dict_get plan ''run_nonce''))) (\<lambda>_. Inr ())
      | _ \<Rightarrow> Inl PreflightError))
      | _ \<Rightarrow> Inl PreflightError))"

definition load_plan ::
  "(pyval \<Rightarrow> string) \<Rightarrow> (string \<Rightarrow> pyval option) \<Rightarrow> pyval option \<Rightarrow> (pydict \<times> pyval) res" where
  "load_plan digest loads found = (case found of Some (PDict plan) \<Rightarrow>
       andThen (plan_core plan) (\<lambda>core.
       if \<not> integrity_holds digest plan then Inl PreflightError else
       andThen (plan_contract digest loads plan core) (\<lambda>_.
       andThen (plan_binding digest plan (fst core)) (\<lambda>_. Inr (plan, PDict (fst core)))))
     | _ \<Rightarrow> Inl PreflightError)"

section \<open>Authenticating a frozen campaign\<close>

definition campaign_fields :: "string set" where
  "campaign_fields = {''schema_version'', ''campaign_id'', ''created_at'', ''execution_mode'',
     ''prerequisite_bundle_sha256s'', ''pair_binding'', ''run_directories'', ''integrity_hash''}"

definition run_directory_name :: "string \<Rightarrow> bool" where
  "run_directory_name s = (case s of [] \<Rightarrow> False
     | c # cs \<Rightarrow> (lower_alnum c \<or> (CHR ''A'' \<le> c \<and> c \<le> CHR ''Z'')) \<and> length cs \<le> 255
         \<and> list_all (\<lambda>c. lower_alnum c \<or> (CHR ''A'' \<le> c \<and> c \<le> CHR ''Z'') \<or> c \<in> set ''._-'') cs)"

definition check_run_names :: "pyval \<Rightarrow> pyval list res" where
  "check_run_names v = (case v of PList names \<Rightarrow>
       if length names \<noteq> length SM121_CACHE_PERFORMANCE_ARM_ORDER then Inl PreflightError else
       if \<not> list_all hashable names then Inl TypeError else
       if \<not> distinct names \<or> \<not> list_all (is_text_that run_directory_name) names then Inl PreflightError
       else Inr names
     | _ \<Rightarrow> Inl PreflightError)"

text \<open>One plan of the campaign: the reply says whether its directory is one of the campaign, and its file.\<close>

definition check_loaded_plan ::
  "(pyval \<Rightarrow> string) \<Rightarrow> (string \<Rightarrow> pyval option) \<Rightarrow> pydict \<Rightarrow> int \<times> string \<times> pyval option res \<Rightarrow> pydict res" where
  "check_loaded_plan digest loads binding = (\<lambda>(ordinal, expected_arm, reply).
     andThen reply (\<lambda>found.
     andThen (load_plan digest loads found) (\<lambda>(plan, model).
     if \<not> eq_int (dict_get plan ''cache_performance_ordinal'') ordinal then Inl PreflightError else
     andThen (cache_performance_arm model) (\<lambda>arm.
     if arm \<noteq> expected_arm \<or> by_value (dict_get plan ''cache_performance_pair'') \<noteq> by_value (PDict binding)
     then Inl PreflightError else Inr plan))))"

definition load_campaign ::
  "(pyval \<Rightarrow> string) \<Rightarrow> (string \<Rightarrow> pyval option) \<Rightarrow> unit res \<Rightarrow> pyval option \<Rightarrow> pyval option res list
     \<Rightarrow> (pydict \<times> pydict list) res" where
  "load_campaign digest loads prerequisites found plans =
     (case found of Some (PDict campaign) \<Rightarrow>
       if dict_keys campaign \<noteq> campaign_fields then Inl PreflightError else
       if \<not> integrity_holds digest campaign then Inl PreflightError else
       if \<not> eq_int (dict_get campaign ''schema_version'') 1
         \<or> dict_get campaign ''campaign_id'' \<noteq> PStr SM121_CACHE_PERFORMANCE_CAMPAIGN_ID
         \<or> dict_get campaign ''execution_mode'' \<noteq> PStr SM121_CACHE_PERFORMANCE_EXECUTION_MODE
         \<or> \<not> is_text_that (\<lambda>_. True) (dict_get campaign ''created_at'')
         \<or> dict_get campaign ''prerequisite_bundle_sha256s''
             \<noteq> PList (map PStr SM121_CACHE_PERFORMANCE_PREREQUISITE_BUNDLE_SHA256S)
       then Inl PreflightError else
       andThen (reraise (\<lambda>x. x = cache_error) PreflightError
         (andThen (validate_pair_binding digest (dict_get campaign ''pair_binding'')) (\<lambda>_. prerequisites))) (\<lambda>_.
       (case dict_get campaign ''pair_binding'' of PDict binding \<Rightarrow>
       andThen (check_run_names (dict_get campaign ''run_directories'')) (\<lambda>_.
       andThen (traverse (check_loaded_plan digest loads binding)
         (zip (map int [1..<5]) (zip SM121_CACHE_PERFORMANCE_ARM_ORDER plans))) (\<lambda>loaded.
       andThen (traverse (\<lambda>plan. getitem plan ''fingerprint'') loaded) (\<lambda>fingerprints.
       andThen (traverse (\<lambda>plan. getitem plan ''run_nonce'') loaded) (\<lambda>nonces.
       andThen (reraise (\<lambda>x. x = cache_error) PreflightError (pair_instance_sha256 digest nonces)) (\<lambda>instance_sha.
       if dict_get binding ''campaign_instance_sha256'' \<noteq> PStr instance_sha
         \<or> dict_get binding ''plan_fingerprints'' \<noteq> PList fingerprints
         \<or> dict_get binding ''pair_binding_sha256'' \<noteq> PStr (pair_binding_sha256 digest binding)
       then Inl PreflightError else Inr (campaign, loaded))))))
       | _ \<Rightarrow> Inl PreflightError))
     | _ \<Rightarrow> Inl PreflightError)"

end
