(* ===== verification/Cache_Binding.thy ===== *)
theory Cache_Binding
  imports Cache_Profiles
begin

text \<open>
  The frozen plans of a cache-performance campaign (\<open>runner.py\<close>): what
  \<open>_bind_sm121_cache_performance_campaign_plans\<close> writes is accepted by
  \<open>_load_sm121_cache_performance_campaign\<close>.
\<close>

section \<open>Lookups\<close>

lemma dict_get_without: "k \<noteq> x \<Longrightarrow> dict_get (filter (\<lambda>(k, v). k \<noteq> x) d) k = dict_get d k"
  by (induction d) auto

lemma dict_get_removed: "dict_get (filter (\<lambda>(k, v). k \<noteq> x) d) x = PNone"
  by (induction d) auto

lemma dict_get_put:
  "dict_get (filter (\<lambda>(k, v). k \<noteq> x) d @ [(x, v)]) k = (if k = x then v else dict_get d k)"
  by (induction d) auto

lemma getitem_dict_get: "dict_get d k \<noteq> PNone \<Longrightarrow> getitem d k = Inr (dict_get d k)"
  by (simp add: getitem_def dict_get_def split: option.splits)

lemma hashed_lookup: "k \<noteq> ''integrity_hash'' \<Longrightarrow> dict_get (hashed digest d) k = dict_get d k"
  unfolding hashed_def without_hash_def dict_get_put by simp

lemma bound_plan_lookup:
  "dict_get (bound_plan digest binding plan) ''cache_performance_pair'' = PDict binding"
  "k \<notin> {''integrity_hash'', ''cache_performance_pair''} \<Longrightarrow>
     dict_get (bound_plan digest binding plan) k = dict_get plan k"
  by (simp_all add: bound_plan_def hashed_lookup dict_get_put)

section \<open>What binding checks\<close>

lemma bindable_plan_Inr:
  assumes "bindable_plan loads (ordinal, arm, found) = Inr plan"
  shows "dict_get plan ''cache_performance_ordinal'' = PInt ordinal"
    and "cache_performance_arm (dict_get plan ''model'') = Inr arm"
    and "is_text_that plan_fingerprint (dict_get plan ''fingerprint'')"
proof -
  from assms obtain plan0 model where "found = Some (PDict plan0)" "dict_get plan0 ''model'' = PDict model"
    "cache_performance_arm (PDict model) = Inr arm"
    "is_text_that plan_fingerprint (dict_get plan0 ''fingerprint'')"
    "plan = filter (\<lambda>(k, v). k \<noteq> ''cache_performance_ordinal'') plan0
       @ [(''cache_performance_ordinal'', PInt ordinal)]"
    by (auto simp: bindable_plan_def andThen_eq_Inr split: option.splits pyval.splits if_splits)
  then show "dict_get plan ''cache_performance_ordinal'' = PInt ordinal"
    "cache_performance_arm (dict_get plan ''model'') = Inr arm"
    "is_text_that plan_fingerprint (dict_get plan ''fingerprint'')"
    by (simp_all add: dict_get_put)
qed

section \<open>One plan\<close>

text \<open>A plan file that fulfils the contract of a plan but for its binding.\<close>

definition planned_cell :: "(pyval \<Rightarrow> string) \<Rightarrow> (string \<Rightarrow> pyval option) \<Rightarrow> pyval option \<Rightarrow> bool" where
  "planned_cell digest loads found \<longleftrightarrow> (case found of
       Some (PDict plan) \<Rightarrow> andThen (plan_core plan) (plan_contract digest loads plan) = Inr ()
     | _ \<Rightarrow> False)"

lemma integrity_of_hashed: "integrity_holds digest (hashed digest d)"
proof -
  have "without_hash (hashed digest d) = without_hash d"
    by (simp add: hashed_def without_hash_def)
  then show ?thesis
    unfolding integrity_holds_def
    by (simp add: hashed_def without_hash_def dict_get_put is_text_that_def)
qed

lemma bindable_plan_source:
  assumes "bindable_plan loads (ordinal, arm, found) = Inr plan"
  obtains plan0 where "found = Some (PDict plan0)"
    "\<And>k. k \<noteq> ''cache_performance_ordinal'' \<Longrightarrow> dict_get plan k = dict_get plan0 k"
proof -
  from assms obtain plan0 where "found = Some (PDict plan0)"
    "plan = filter (\<lambda>(k, v). k \<noteq> ''cache_performance_ordinal'') plan0
       @ [(''cache_performance_ordinal'', PInt ordinal)]"
    by (auto simp: bindable_plan_def andThen_eq_Inr split: option.splits pyval.splits if_splits)
  then show thesis using that by (simp add: dict_get_put)
qed

lemma plan_core_Inr:
  "plan_core plan = Inr core \<longleftrightarrow> eq_int (dict_get plan ''schema_version'') 2 \<and>
     dict_get plan ''model'' = PDict (fst core) \<and> dict_get plan ''suite'' = PDict (fst (snd core)) \<and>
     dict_get plan ''resolved'' = PDict (snd (snd core))"
  by (cases core) (auto simp: plan_core_def split: pyval.splits)

lemma plan_contract_fingerprint:
  "dict_get plan ''fingerprint'' = dict_get plan' ''fingerprint'' \<Longrightarrow>
     plan_contract digest loads plan = plan_contract digest loads plan'"
  by (simp only: plan_contract_def)

lemma four_arms [simp]: "length SM121_CACHE_PERFORMANCE_ARM_ORDER = 4"
  by (simp add: SM121_CACHE_PERFORMANCE_ARM_ORDER_def)

lemma bound_plan_loads:
  assumes "bindable_plan loads (ordinal, arm, found) = Inr plan" and "planned_cell digest loads found"
    and "validate_pair_binding digest (PDict binding) = Inr ()"
    and "1 \<le> ordinal" "ordinal \<le> 4" and "SM121_CACHE_PERFORMANCE_ARM_ORDER ! nat (ordinal - 1) = arm"
    and "dict_get binding ''plan_fingerprints'' = PList fingerprints"
    and "fingerprints ! nat (ordinal - 1) = dict_get plan ''fingerprint''"
    and "valid_nonce (dict_get plan ''run_nonce'') = Inr nonce"
  shows "check_loaded_plan digest loads binding (ordinal, arm, Inr (Some (PDict (bound_plan digest binding plan))))
    = Inr (bound_plan digest binding plan)"
proof -
  let ?b = "bound_plan digest binding plan"
  from assms(1) obtain plan0 where found: "found = Some (PDict plan0)"
    and same: "\<And>k. k \<noteq> ''cache_performance_ordinal'' \<Longrightarrow> dict_get plan k = dict_get plan0 k"
    by (rule bindable_plan_source) blast
  note checked = bindable_plan_Inr [OF assms(1)]
  have bound: "dict_get ?b k = dict_get plan0 k"
    if "k \<in> {''schema_version'', ''model'', ''suite'', ''resolved'', ''fingerprint'', ''run_nonce''}" for k
    using that same by (auto simp: bound_plan_lookup)
  from assms(2) obtain core where core: "plan_core plan0 = Inr core" "plan_contract digest loads plan0 core = Inr ()"
    by (auto simp: planned_cell_def found andThen_eq_Inr)
  have "plan_core ?b = Inr core" using core(1) by (simp add: plan_core_Inr bound)
  moreover have "plan_contract digest loads ?b core = Inr ()"
    using core(2) plan_contract_fingerprint [of ?b plan0] bound by simp
  moreover have "integrity_holds digest ?b" unfolding bound_plan_def by (rule integrity_of_hashed)
  moreover have arm: "cache_performance_arm (PDict (fst core)) = Inr arm"
    using checked(2) core(1) same by (simp add: plan_core_Inr)
  moreover have "plan_binding digest ?b (fst core) = Inr ()"
    using assms(3-9) checked(1) arm
    by (simp add: plan_binding_def bound_plan_lookup value_of_def four_arms)
  ultimately show ?thesis
    using checked(1) by (simp add: check_loaded_plan_def load_plan_def bound_plan_lookup)
qed

section \<open>The campaign\<close>

lemma bind_parts:
  assumes "bind_campaign_plans digest loads found = Inr (binding, plans)"
  obtains plans0 inst where
    "length found = 4" "traverse (bindable_plan loads)
       (zip (map int [1..<5]) (zip SM121_CACHE_PERFORMANCE_ARM_ORDER found)) = Inr plans0"
    "pair_instance_sha256 digest (map (\<lambda>plan. dict_get plan ''run_nonce'') plans0) = Inr inst"
    "binding = signed_binding digest (unsigned_binding inst (map (\<lambda>plan. dict_get plan ''fingerprint'') plans0))"
    "validate_pair_binding digest (PDict binding) = Inr ()" "plans = map (bound_plan digest binding) plans0"
  using assms by (auto simp: bind_campaign_plans_def andThen_eq_Inr Let_def)

lemma binding_lookup:
  "dict_get (signed_binding digest (unsigned_binding inst fps)) ''plan_fingerprints'' = PList fps"
  "dict_get (signed_binding digest (unsigned_binding inst fps)) ''campaign_instance_sha256'' = PStr inst"
  "dict_get (signed_binding digest (unsigned_binding inst fps)) ''pair_binding_sha256''
    = PStr (pair_binding_sha256 digest (signed_binding digest (unsigned_binding inst fps)))"
  by (simp_all add: signed_binding_def unsigned_binding_def pair_binding_sha256_def)

lemma bound_getitem:
  assumes "k \<notin> {''integrity_hash'', ''cache_performance_pair''}" and "\<forall>plan \<in> set plans. dict_get plan k \<noteq> PNone"
  shows "traverse (\<lambda>plan. getitem plan k) (map (bound_plan digest binding) plans) = Inr (map (\<lambda>plan. dict_get plan k) plans)"
  using assms by (induction plans) (auto simp: getitem_dict_get bound_plan_lookup)

lemma nonces_valid:
  assumes "pair_instance_sha256 digest nonces = Inr s" and "n \<in> set nonces"
  shows "\<exists>t. valid_nonce n = Inr t"
proof -
  from assms(1) obtain parsed where "traverse valid_nonce nonces = Inr parsed"
    by (auto simp: pair_instance_sha256_def andThen_eq_Inr)
  then have "list_all2 (\<lambda>x y. valid_nonce x = Inr y) nonces parsed" by (simp add: traverse_eq_Inr)
  with assms(2) show ?thesis by (auto simp: list_all2_conv_all_nth in_set_conv_nth)
qed

lemma loaded_plans:
  assumes "traverse (bindable_plan loads) (zip (map int [1..<5]) (zip SM121_CACHE_PERFORMANCE_ARM_ORDER found)) = Inr plans"
    and "length found = 4" and "list_all (planned_cell digest loads) found"
    and "validate_pair_binding digest (PDict binding) = Inr ()"
    and "dict_get binding ''plan_fingerprints'' = PList (map (\<lambda>plan. dict_get plan ''fingerprint'') plans)"
    and "\<forall>plan \<in> set plans. \<exists>t. valid_nonce (dict_get plan ''run_nonce'') = Inr t"
  shows "traverse (check_loaded_plan digest loads binding) (zip (map int [1..<5]) (zip SM121_CACHE_PERFORMANCE_ARM_ORDER
      (map (\<lambda>plan. Inr (Some (PDict plan))) (map (bound_plan digest binding) plans))))
    = Inr (map (bound_plan digest binding) plans)"
    and "\<forall>plan \<in> set plans. is_text_that plan_fingerprint (dict_get plan ''fingerprint'')"
proof -
  have arms: "zip (map int [1..<5]) (zip SM121_CACHE_PERFORMANCE_ARM_ORDER [w, x, y, z])
      = [(1, ''A'', w), (2, ''B'', x), (3, ''B'', y), (4, ''A'', z)]" for w x y z :: "pyval option"
    by (simp add: SM121_CACHE_PERFORMANCE_ARM_ORDER_def upt_rec)
  from assms(2) obtain f1 f2 f3 f4 where found: "found = [f1, f2, f3, f4]"
    by (auto simp: length_Suc_conv numeral_eq_Suc)
  from assms(1) obtain p1 p2 p3 p4 where plans: "plans = [p1, p2, p3, p4]"
    and bindable: "bindable_plan loads (1, ''A'', f1) = Inr p1" "bindable_plan loads (2, ''B'', f2) = Inr p2"
      "bindable_plan loads (3, ''B'', f3) = Inr p3" "bindable_plan loads (4, ''A'', f4) = Inr p4"
    unfolding found arms by (auto simp: andThen_eq_Inr)
  have planned: "planned_cell digest loads f1" "planned_cell digest loads f2" "planned_cell digest loads f3"
    "planned_cell digest loads f4" using assms(3) by (simp_all add: found)
  have order: "SM121_CACHE_PERFORMANCE_ARM_ORDER ! nat (1 - 1) = ''A''" "SM121_CACHE_PERFORMANCE_ARM_ORDER ! nat (2 - 1) = ''B''"
    "SM121_CACHE_PERFORMANCE_ARM_ORDER ! nat (3 - 1) = ''B''" "SM121_CACHE_PERFORMANCE_ARM_ORDER ! nat (4 - 1) = ''A''"
    by (simp_all add: SM121_CACHE_PERFORMANCE_ARM_ORDER_def)
  obtain n1 n2 n3 n4 where nonces: "valid_nonce (dict_get p1 ''run_nonce'') = Inr n1"
    "valid_nonce (dict_get p2 ''run_nonce'') = Inr n2" "valid_nonce (dict_get p3 ''run_nonce'') = Inr n3"
    "valid_nonce (dict_get p4 ''run_nonce'') = Inr n4"
    using assms(6) by (auto simp: plans)
  note fps = assms(5) [unfolded plans]
  show "traverse (check_loaded_plan digest loads binding) (zip (map int [1..<5]) (zip SM121_CACHE_PERFORMANCE_ARM_ORDER
      (map (\<lambda>plan. Inr (Some (PDict plan))) (map (bound_plan digest binding) plans))))
    = Inr (map (bound_plan digest binding) plans)"
    using bound_plan_loads [OF bindable(1) planned(1) assms(4) _ _ order(1) fps _ nonces(1)]
      bound_plan_loads [OF bindable(2) planned(2) assms(4) _ _ order(2) fps _ nonces(2)]
      bound_plan_loads [OF bindable(3) planned(3) assms(4) _ _ order(3) fps _ nonces(3)]
      bound_plan_loads [OF bindable(4) planned(4) assms(4) _ _ order(4) fps _ nonces(4)]
    by (simp add: plans SM121_CACHE_PERFORMANCE_ARM_ORDER_def upt_rec)
  show "\<forall>plan \<in> set plans. is_text_that plan_fingerprint (dict_get plan ''fingerprint'')"
    using bindable [THEN bindable_plan_Inr(3)] by (simp add: plans)
qed

section \<open>A sample campaign\<close>

definition zeros :: "pyval \<Rightarrow> string" where
  "zeros v = replicate 64 CHR ''0''"

definition sample_loads :: "string \<Rightarrow> pyval option" where
  "sample_loads s = Some (PDict no_thinking_request)"

text \<open>A value as it is read back from a file, where tuples are lists.\<close>

definition as_list :: "pyval \<Rightarrow> pyval" where
  "as_list v = (case v of PTuple xs \<Rightarrow> PList xs | _ \<Rightarrow> v)"

definition read_back :: "pydict \<Rightarrow> pydict" where
  "read_back d = map (\<lambda>(k, v). (k, as_list v)) d"

definition sample_model :: "string \<Rightarrow> string \<Rightarrow> string list \<Rightarrow> pydict" where
  "sample_model i description args = [(''id'', PStr i), (''description'', PStr description),
     (''args'', PList (map PStr args)), (''request_body_json'', PStr ''{}'')] @ read_back expected_candidate"

definition model_A :: pydict where
  "model_A = sample_model SM121_CACHE_PERFORMANCE_CACHE_ON_PROFILE_ID SM121_CACHE_PERFORMANCE_CACHE_ON_DESCRIPTION
     SM121_CACHE_PERFORMANCE_CACHE_ON_ARGS"

definition model_B :: pydict where
  "model_B = sample_model SM121_CACHE_PERFORMANCE_CACHE_OFF_PROFILE_ID SM121_CACHE_PERFORMANCE_CACHE_OFF_DESCRIPTION
     SM121_CACHE_PERFORMANCE_CACHE_OFF_ARGS"

definition sample_items :: "pyval list" where
  "sample_items = map (\<lambda>item. PDict (read_back item @ [(''case_id'', PStr (
     (case dict_get item ''id'' of PStr s \<Rightarrow> s | _ \<Rightarrow> []) @ ''--000000000000''))])) expected_cases"

definition sample_suite :: pydict where
  "sample_suite = [(''id'', PStr SM121_CACHE_PERFORMANCE_SUITE_ID),
     (''description'', PStr SM121_CACHE_PERFORMANCE_SUITE_DESCRIPTION),
     (''cases'', PList sample_items)]"

definition sample_image :: pydict where
  "sample_image = [(''docker_image_id'', PStr SM121_STORAGE_LOCAL_IMAGE_ID), (''platform'', PStr SM121_STORAGE_PLATFORM),
     (''source_tree'', PStr SM121_STORAGE_SOURCE_TREE)]"

definition sample_plan :: "pydict \<Rightarrow> pyval option" where
  "sample_plan model = Some (PDict [(''schema_version'', PInt 2), (''model'', PDict model),
     (''suite'', PDict sample_suite), (''resolved'', PDict [(''local_image'', PDict sample_image)]),
     (''fingerprint'', PStr (replicate 16 CHR ''0'')), (''run_nonce'', PStr (replicate 32 CHR ''a''))])"

lemma candidate_fields_distinct: "distinct (map fst expected_candidate)"
  by (simp add: expected_candidate_def)

lemma candidate_fields_equal:
  "list_all (\<lambda>(field, wanted). py_equals (if field \<in> tuple_fields then as_tuple (as_list wanted) else as_list wanted) wanted)
     expected_candidate"
  by (simp add: expected_candidate_def tuple_fields_def as_tuple_def as_list_def)

lemma candidate_new_fields:
  "dict_keys (read_back expected_candidate) \<inter> {''id'', ''description'', ''args'', ''request_body_json''} = {}"
  by (simp add: expected_candidate_def read_back_def)

lemma read_back_get: "distinct (map fst d) \<Longrightarrow> (k, v) \<in> set d \<Longrightarrow> dict_get (read_back d) k = as_list v"
  by (induction d) (auto simp: read_back_def rev_image_eqI)

lemma sample_model_fields:
  assumes "(field, wanted) \<in> set expected_candidate"
  shows "dict_get (sample_model i description args) field = as_list wanted"
proof -
  have "field \<in> dict_keys (read_back expected_candidate)" using assms by (force simp: read_back_def dict_keys_def)
  then have "field \<notin> {''id'', ''description'', ''args'', ''request_body_json''}" using candidate_new_fields by blast
  then show ?thesis using read_back_get [OF candidate_fields_distinct assms] by (auto simp: sample_model_def)
qed

lemma sample_model_valid:
  assumes "expected_profile i = Inr (description, args)"
    and "is_cache_performance_candidate (PDict (sample_model i description args))"
  shows "validate_candidate sample_loads (PDict (sample_model i description args)) = Inr ()"
proof -
  let ?m = "sample_model i description args"
  have "check_candidate_field (PDict ?m) item = Inr ()" if member: "item \<in> set expected_candidate" for item
  proof -
    obtain field wanted where item: "item = (field, wanted)" by (cases item)
    have "py_equals (if field \<in> tuple_fields then as_tuple (as_list wanted) else as_list wanted) wanted"
      using candidate_fields_equal member by (auto simp: list_all_iff item)
    then show ?thesis
      using sample_model_fields member
      by (auto simp: check_candidate_field_def item value_of_def Let_def split: if_splits)
  qed
  then obtain us where fields: "traverse (check_candidate_field (PDict ?m)) expected_candidate = Inr us"
    using traverse_total [of expected_candidate "check_candidate_field (PDict ?m)"] by fast
  have i: "profile_id (PDict ?m) = Some i" by (simp add: profile_id_def value_of_def sample_model_def)
  have own: "value_of (PDict ?m) ''request_body_json'' = PStr ''{}''" "value_of (PDict ?m) ''description'' = PStr description"
    "value_of (PDict ?m) ''args'' = PList (map PStr args)"
    by (simp_all add: value_of_def sample_model_def)
  show ?thesis
    using assms by (simp add: validate_candidate_def i fields own sample_loads_def as_tuple_def)
qed

lemma sample_models_valid:
  "validate_candidate sample_loads (PDict model_A) = Inr ()" "validate_candidate sample_loads (PDict model_B) = Inr ()"
  "cache_performance_arm (PDict model_A) = Inr ''A''" "cache_performance_arm (PDict model_B) = Inr ''B''"
proof -
  have differ: "SM121_CACHE_PERFORMANCE_CACHE_OFF_PROFILE_ID \<noteq> SM121_CACHE_PERFORMANCE_CACHE_ON_PROFILE_ID"
    by (simp add: SM121_CACHE_PERFORMANCE_CACHE_OFF_PROFILE_ID_def SM121_CACHE_PERFORMANCE_CACHE_ON_PROFILE_ID_def)
  have i: "profile_id (PDict (sample_model i d a)) = Some i" for i d a
    by (simp add: profile_id_def value_of_def sample_model_def)
  show "validate_candidate sample_loads (PDict model_A) = Inr ()" "validate_candidate sample_loads (PDict model_B) = Inr ()"
    unfolding model_A_def model_B_def
    by (rule sample_model_valid; simp add: expected_profile_def is_cache_performance_candidate_def i differ)+
  show "cache_performance_arm (PDict model_A) = Inr ''A''" "cache_performance_arm (PDict model_B) = Inr ''B''"
    by (simp_all add: cache_performance_arm_def model_A_def model_B_def i differ)
qed

lemma sample_suite_fields:
  "dict_get sample_suite ''cases'' = PList sample_items" "dict_get sample_suite ''protocol_digest'' = PNone"
  "dict_get sample_suite ''id'' = PStr SM121_CACHE_PERFORMANCE_SUITE_ID"
  "dict_get sample_suite ''description'' = PStr SM121_CACHE_PERFORMANCE_SUITE_DESCRIPTION"
  by (simp_all add: sample_suite_def)

lemma sample_suite_valid: "validate_suite (PDict sample_suite) = Inr ()"
  by (simp add: validate_suite_def sample_suite_fields sample_items_def value_of_def expected_cases_def expected_case_def
    check_case_field_def read_back_def as_list_def)

lemma zeros_text: "take 12 (zeros v) = ''000000000000''" "take 16 (zeros v) = replicate 16 CHR ''0''" "length (zeros v) = 64"
  by (simp_all add: zeros_def) (simp add: numeral_eq_Suc)

lemma sample_cells:
  assumes "validate_candidate sample_loads (PDict model) = Inr ()"
    and "is_cache_performance_candidate (PDict model)"
  shows "planned_cell zeros sample_loads (sample_plan model)"
proof -
  have "traverse (check_case_id zeros model PNone) sample_items = Inr [(), ()]"
    by (simp add: sample_items_def expected_cases_def expected_case_def read_back_def check_case_id_def without_case_id_def
      canonical_case_id_def content_hash_of_def zeros_text is_text_that_def as_list_def)
  moreover have "list_all (\<lambda>v. case v of PDict _ \<Rightarrow> True | _ \<Rightarrow> False) sample_items"
    by (simp add: sample_items_def list_all_iff)
  moreover have "is_cache_performance_plan (PDict model) (PDict sample_suite)"
    using assms(2) by (simp add: is_cache_performance_plan_def value_of_def sample_suite_fields)
  ultimately show ?thesis
    using assms(1) sample_suite_valid
    by (simp add: planned_cell_def sample_plan_def plan_core_def plan_contract_def content_hash_of_def zeros_text
      local_image_holds_def sample_image_def sample_suite_fields)
qed

lemma all_replicate [simp]: "P c \<Longrightarrow> list_all P (replicate n c)"
  by (simp add: list_all_iff)

lemma sample_bindable:
  assumes "cache_performance_arm (PDict model) = Inr arm" and "validate_candidate sample_loads (PDict model) = Inr ()"
  shows "\<exists>plan. bindable_plan sample_loads (ordinal, arm, sample_plan model) = Inr plan \<and>
     dict_get plan ''fingerprint'' = PStr (replicate 16 CHR ''0'') \<and> dict_get plan ''run_nonce'' = PStr (replicate 32 CHR ''a'')"
  using assms sample_suite_valid
  by (simp add: bindable_plan_def sample_plan_def is_text_that_def plan_fingerprint_def lower_hex_def)

definition sample_found :: "pyval option list" where
  "sample_found = [sample_plan model_A, sample_plan model_B, sample_plan model_B, sample_plan model_A]"

definition sample_names :: "pyval list" where
  "sample_names = map PStr [''a'', ''b'', ''c'', ''d'']"

lemma sample_binding_valid:
  "validate_pair_binding zeros (PDict (signed_binding zeros (unsigned_binding (cache_digest zeros d)
     (replicate 4 (PStr (replicate 16 CHR ''0'')))))) = Inr ()"
proof -
  have "prefixed_sha256 (cache_digest zeros d)"
    by (simp add: prefixed_sha256_def cache_digest_def zeros_def sha256_hex_def lower_hex_def)
  moreover have "plan_fingerprint (replicate 16 CHR ''0'')" by (simp add: plan_fingerprint_def lower_hex_def)
  ultimately show ?thesis
    by (simp add: validate_pair_binding_def exact_fields_def signed_binding_def unsigned_binding_def PAIR_BINDING_FIELDS_def
      is_text_that_def pair_binding_sha256_def insert_commute SM121_CACHE_PERFORMANCE_PAIR_BINDING_SCHEMA_VERSION_def
      SM121_CACHE_PERFORMANCE_CELL_TIMEOUT_S_def)
qed

lemma sample_frozen: "\<exists>campaign plans. create_campaign zeros sample_loads (PDict model_A) (PDict model_B) (PDict sample_suite)
    (Inr ()) (Inr ()) (Inr (sample_found, sample_names)) (PStr []) (Inr ()) = Inr (campaign, plans)"
proof -
  obtain p1 where p1: "bindable_plan sample_loads (1, ''A'', sample_plan model_A) = Inr p1"
    "dict_get p1 ''fingerprint'' = PStr (replicate 16 CHR ''0'')" "dict_get p1 ''run_nonce'' = PStr (replicate 32 CHR ''a'')"
    using sample_bindable [OF sample_models_valid(3,1)] by blast
  obtain p2 where p2: "bindable_plan sample_loads (2, ''B'', sample_plan model_B) = Inr p2"
    "dict_get p2 ''fingerprint'' = PStr (replicate 16 CHR ''0'')" "dict_get p2 ''run_nonce'' = PStr (replicate 32 CHR ''a'')"
    using sample_bindable [OF sample_models_valid(4,2)] by blast
  obtain p3 where p3: "bindable_plan sample_loads (3, ''B'', sample_plan model_B) = Inr p3"
    "dict_get p3 ''fingerprint'' = PStr (replicate 16 CHR ''0'')" "dict_get p3 ''run_nonce'' = PStr (replicate 32 CHR ''a'')"
    using sample_bindable [OF sample_models_valid(4,2)] by blast
  obtain p4 where p4: "bindable_plan sample_loads (4, ''A'', sample_plan model_A) = Inr p4"
    "dict_get p4 ''fingerprint'' = PStr (replicate 16 CHR ''0'')" "dict_get p4 ''run_nonce'' = PStr (replicate 32 CHR ''a'')"
    using sample_bindable [OF sample_models_valid(3,1)] by blast
  have "zip (map int [1..<5]) (zip SM121_CACHE_PERFORMANCE_ARM_ORDER sample_found)
      = [(1, ''A'', sample_plan model_A), (2, ''B'', sample_plan model_B), (3, ''B'', sample_plan model_B),
         (4, ''A'', sample_plan model_A)]"
    by (simp add: sample_found_def SM121_CACHE_PERFORMANCE_ARM_ORDER_def upt_rec)
  then have "traverse (bindable_plan sample_loads) (zip (map int [1..<5]) (zip SM121_CACHE_PERFORMANCE_ARM_ORDER sample_found))
      = Inr [p1, p2, p3, p4]"
    using p1(1) p2(1) p3(1) p4(1) by simp
  moreover have "\<exists>d. pair_instance_sha256 zeros (map (\<lambda>plan. dict_get plan ''run_nonce'') [p1, p2, p3, p4])
      = Inr (cache_digest zeros d)"
    using p1(3) p2(3) p3(3) p4(3) by (simp add: pair_instance_sha256_def valid_nonce_def lower_hex_def) blast
  then obtain d where "pair_instance_sha256 zeros (map (\<lambda>plan. dict_get plan ''run_nonce'') [p1, p2, p3, p4])
      = Inr (cache_digest zeros d)" by blast
  moreover have "map (\<lambda>plan. dict_get plan ''fingerprint'') [p1, p2, p3, p4] = replicate 4 (PStr (replicate 16 CHR ''0''))"
    using p1(2) p2(2) p3(2) p4(2) by (simp add: numeral_eq_Suc)
  moreover have "length sample_found = 4" by (simp add: sample_found_def)
  ultimately have "\<exists>binding plans. bind_campaign_plans zeros sample_loads sample_found = Inr (binding, plans)"
    using sample_binding_valid [of d] by (simp add: bind_campaign_plans_def Let_def)
  moreover have "validate_pair sample_loads (PDict model_A) (PDict model_B) = Inr ()"
    using sample_models_valid by (simp add: validate_pair_def profile_id_def value_of_def model_A_def model_B_def sample_model_def)
  ultimately show ?thesis by (auto simp: create_campaign_def sample_suite_valid)
qed

text \<open>
  C13. A campaign that was frozen can be loaded: when the four plan files fulfil the contract of a plan
  but for their binding, the directory names are four different valid ones and the evidence is still
  there, loading gives back the campaign and the four plans that freezing wrote, bound to each other.
\<close>

theorem frozen_campaign_loads:
  assumes "create_campaign digest loads cache_on cache_off suite prerequisites made (Inr (found, names))
      (PStr created_at) written = Inr (campaign, plans)"
    and "list_all (planned_cell digest loads) found" and "check_run_names (PList names) = Inr names"
  shows "load_campaign digest loads (Inr ()) (Some (PDict campaign)) (map (\<lambda>plan. Inr (Some (PDict plan))) plans)
    = Inr (campaign, plans)"
proof -
  from assms(1) obtain binding where bind: "bind_campaign_plans digest loads found = Inr (binding, plans)"
    and campaign: "campaign = hashed digest (campaign_body (PStr created_at) binding names)"
    by (auto simp: create_campaign_def andThen_eq_Inr)
  from bind obtain plans0 inst where "length found = 4"
    "traverse (bindable_plan loads) (zip (map int [1..<5]) (zip SM121_CACHE_PERFORMANCE_ARM_ORDER found)) = Inr plans0"
    and inst: "pair_instance_sha256 digest (map (\<lambda>plan. dict_get plan ''run_nonce'') plans0) = Inr inst"
    and binding: "binding = signed_binding digest (unsigned_binding inst (map (\<lambda>plan. dict_get plan ''fingerprint'') plans0))"
    and valid: "validate_pair_binding digest (PDict binding) = Inr ()"
    and plans: "plans = map (bound_plan digest binding) plans0"
    by (rule bind_parts)
  have nonces: "\<forall>plan \<in> set plans0. \<exists>t. valid_nonce (dict_get plan ''run_nonce'') = Inr t"
    using nonces_valid [OF inst] by auto
  have fps: "dict_get binding ''plan_fingerprints'' = PList (map (\<lambda>plan. dict_get plan ''fingerprint'') plans0)"
    unfolding binding by (rule binding_lookup)
  note loaded = loaded_plans [OF \<open>traverse _ _ = Inr plans0\<close> \<open>length found = 4\<close> assms(2) valid fps nonces]
  have "\<forall>plan \<in> set plans0. dict_get plan ''run_nonce'' \<noteq> PNone" "\<forall>plan \<in> set plans0. dict_get plan ''fingerprint'' \<noteq> PNone"
    using nonces loaded(2) by (auto simp: valid_nonce_def is_text_that_def)
  then have items: "traverse (\<lambda>plan. getitem plan ''fingerprint'') plans = Inr (map (\<lambda>plan. dict_get plan ''fingerprint'') plans0)"
    "traverse (\<lambda>plan. getitem plan ''run_nonce'') plans = Inr (map (\<lambda>plan. dict_get plan ''run_nonce'') plans0)"
    unfolding plans by (intro bound_getitem; simp)+
  have keys: "dict_keys campaign = campaign_fields"
    by (simp add: campaign hashed_def without_hash_def campaign_body_def campaign_fields_def)
  have whole: "integrity_holds digest campaign" unfolding campaign by (rule integrity_of_hashed)
  have body: "dict_get campaign ''schema_version'' = PInt 1"
    "dict_get campaign ''campaign_id'' = PStr SM121_CACHE_PERFORMANCE_CAMPAIGN_ID"
    "dict_get campaign ''execution_mode'' = PStr SM121_CACHE_PERFORMANCE_EXECUTION_MODE"
    "dict_get campaign ''created_at'' = PStr created_at" "dict_get campaign ''pair_binding'' = PDict binding"
    "dict_get campaign ''prerequisite_bundle_sha256s'' = PList (map PStr SM121_CACHE_PERFORMANCE_PREREQUISITE_BUNDLE_SHA256S)"
    "dict_get campaign ''run_directories'' = PList names"
    by (simp_all add: campaign hashed_lookup campaign_body_def)
  have bound: "dict_get binding ''campaign_instance_sha256'' = PStr inst"
    "dict_get binding ''pair_binding_sha256'' = PStr (pair_binding_sha256 digest binding)"
    unfolding binding by (rule binding_lookup)+
  show ?thesis
    using keys whole loaded(1) inst assms(3)
    by (simp add: load_campaign_def body bound fps items valid is_text_that_def plans [symmetric])
qed

theorem frozen_campaign_loads_witness:
  "\<exists>campaign plans. load_campaign zeros sample_loads (Inr ()) (Some (PDict campaign))
     (map (\<lambda>plan. Inr (Some (PDict plan))) plans) = Inr (campaign, plans)"
proof -
  obtain campaign plans where frozen: "create_campaign zeros sample_loads (PDict model_A) (PDict model_B)
    (PDict sample_suite) (Inr ()) (Inr ()) (Inr (sample_found, sample_names)) (PStr []) (Inr ()) = Inr (campaign, plans)"
    using sample_frozen by blast
  have "is_cache_performance_candidate (PDict model_A)" "is_cache_performance_candidate (PDict model_B)"
    by (simp_all add: is_cache_performance_candidate_def profile_id_def value_of_def model_A_def model_B_def sample_model_def)
  then have "list_all (planned_cell zeros sample_loads) sample_found"
    using sample_models_valid by (simp add: sample_found_def sample_cells)
  moreover have "check_run_names (PList sample_names) = Inr sample_names"
    by (simp add: check_run_names_def sample_names_def is_text_that_def run_directory_name_def lower_alnum_def)
  ultimately show ?thesis using frozen_campaign_loads [OF frozen] by blast
qed

end
