(* ===== verification/Spec2Isabelle.thy ===== *)
theory Spec2Isabelle
  imports Autoresearch_Gates Host_Watchdog Checkpoint_Gate Vllm_Counters Llama_Counters
    Worker_Guarantees Agentic_Guarantees Admission_Guarantees Sglang_Guarantees
    Annotations_Guarantees Round_Campaign Cache_Binding
begin

text \<open>
  The control core of the benchmark harness in \<open>src/bench\<close>. The harness runs language models on
  a local server, measures them, and decides automatically which settings to keep. This library
  models the modules that decide, record, guard and recover: what they accept, what they write, and
  what may be concluded from a record that they accept.

  \<^bold>\<open>The program's parts and how they interact\<close>

  \<^item> The first controller (\<open>autoresearch.py\<close>) keeps a journal of transitions. A policy, a candidate
    that changes one setting, pair observations and gates are its data; \<open>replay_transitions\<close>
    rebuilds the state of a campaign from the journal and \<open>append_transition\<close> extends it. The
    journal itself is \<open>journal.py\<close>.
  \<^item> Around a campaign stand the watchdog of the host's memory (\<open>host_safety.py\<close>), the worker that
    owns the process group of a cell and can be recovered after a crash (\<open>autoresearch_worker.py\<close>),
    the admission records of a launch (\<open>autoresearch_admission.py\<close>), the acknowledgements by which an
    operator opens the next pair (\<open>autoresearch_checkpoint.py\<close>), and the annotations that take a
    finished measurement out of the results (\<open>annotations.py\<close>).
  \<^item> The readers of measurements: counters of speculative decoding from vLLM and llama.cpp
    (\<open>vllm_metrics.py\<close>, \<open>llamacpp_metrics.py\<close>), the audit of an SGLang server
    (\<open>sglang_metrics.py\<close>), and the tool-use episodes (\<open>agentic_tools.py\<close>).
  \<^item> The second controller (\<open>autoresearch_v2.py\<close>) freezes one round, runs a child campaign once, and
    audits it. The child is the cache-performance campaign: the records, validators and the score of
    \<open>sglang_sm121_cache_performance.py\<close>, executed by functions of \<open>runner.py\<close>.

  \<^bold>\<open>Theories and the code they model\<close>

  \<^item> \<open>Py_Prelude\<close>, \<open>Py_Text\<close>, \<open>Py_Decimal\<close>, \<open>Exposition_Text\<close>: Python values (\<open>pyval\<close>), dicts as
    association lists in insertion order (\<open>pydict\<close>), exceptions as the left side of a sum
    (\<open>res\<close>), loops that stop at the first exception (\<open>traverse\<close>, \<open>fold_res\<close>), the string methods,
    \<open>decimal.Decimal\<close>, and the two line patterns of the metrics readers.
  \<^item> \<open>Event_Machine\<close> and \<open>Mapping_Codec\<close>: the interfaces. Components that fold a step over records
    (the replay, the meminfo reader, the validator of lifetimes, the watchdog) interpret
    \<open>event_machine\<close> and its extensions \<open>absorbing_machine\<close>, \<open>idempotent_machine\<close>,
    \<open>refining_machine\<close>, and \<open>stepping_system\<close>; every class with \<open>to_mapping\<close> and
    \<open>from_mapping\<close> interprets \<open>mapping_codec\<close> or \<open>digest_codec\<close>. \<open>worker_log\<close> in
    \<open>Worker_Safety\<close> is the interface by which a property of the single calls holds of every log.
  \<^item> \<open>Journal_Log\<close> is \<open>journal.py\<close>: \<open>journal_append\<close> (\<open>Journal.append\<close>), \<open>journal_events\<close>,
    \<open>strict_events\<close> and the case queries, on the bytes of the file.
  \<^item> \<open>Autoresearch_Policy\<close>, \<open>Autoresearch_Inputs\<close>, \<open>Autoresearch_Scoring\<close>, \<open>Autoresearch_Replay\<close>
    and \<open>Autoresearch_Gates\<close> are \<open>autoresearch.py\<close>: the dataclasses with their checks, the gates,
    one definition per transition of \<open>replay_transitions\<close>, and the promises of the gates.
  \<^item> \<open>Host_Meminfo\<close> and \<open>Host_Watchdog\<close> are \<open>host_safety.py\<close>: the fields of
    \<open>HostSafetyWatchdog\<close> are the record \<open>watchdog\<close>, each block under its lock is a function
    (\<open>evaluate_lock\<close>, \<open>trip_lock\<close>, \<open>register_lock\<close>), and \<open>watchdog_step\<close> interleaves the blocks
    of concurrent calls.
  \<^item> \<open>Checkpoint_State\<close> and \<open>Checkpoint_Gate\<close> are \<open>autoresearch_checkpoint.py\<close>: the proofs an
    acknowledgement consists of, \<open>acknowledge_checkpoint\<close> and \<open>checkpoint_gate\<close>.
  \<^item> \<open>Speculation_Counters\<close> with \<open>Vllm_Counters\<close> is \<open>vllm_metrics.py\<close>, with \<open>Llama_Counters\<close>
    \<open>llamacpp_metrics.py\<close>.
  \<^item> \<open>Worker_Identity\<close>, \<open>Worker_System\<close>, \<open>Worker_Lifecycle\<close>, \<open>Worker_Safety\<close>, \<open>Worker_Ownership\<close>
    and \<open>Worker_Guarantees\<close> are \<open>autoresearch_worker.py\<close>: the durable \<open>worker.json\<close>, the calls
    on an unknown environment, \<open>run_owned_worker\<close> and \<open>recover_owned_worker\<close>.
  \<^item> \<open>Agentic_Tools\<close>, \<open>Agentic_Episode\<close> and \<open>Agentic_Guarantees\<close> are \<open>agentic_tools.py\<close>; the
    local variables of \<open>run_agentic_scenario\<close> are the record \<open>episode\<close>.
  \<^item> \<open>Admission_Record\<close>, \<open>Admission_Journal\<close>, \<open>Admission_Chain\<close>, \<open>Admission_Disk\<close> and
    \<open>Admission_Guarantees\<close> are \<open>autoresearch_admission.py\<close>: the hash chain of records and the
    locked append with its system calls.
  \<^item> \<open>Sglang_Audit\<close> and \<open>Sglang_Guarantees\<close> are \<open>sglang_metrics.py\<close>; \<open>Annotations_Log\<close> and
    \<open>Annotations_Guarantees\<close> are \<open>annotations.py\<close>.
  \<^item> \<open>Round_V2\<close>, \<open>Round_V2_Audit\<close> and \<open>Round_V2_Guarantees\<close> are \<open>autoresearch_v2.py\<close>: freezing,
    \<open>run_autoresearch_v2\<close> and \<open>summarize_autoresearch_v2\<close>.
  \<^item> \<open>Cache_Records\<close>, \<open>Cache_Turns\<close>, \<open>Cache_Scoring\<close> and the first part of \<open>Cache_Profiles\<close> are
    \<open>sglang_sm121_cache_performance.py\<close>; the record of a turn in \<open>Cache_Scoring\<close>, \<open>Cache_Campaign\<close>
    and the rest of \<open>Cache_Profiles\<close> are the functions of \<open>runner.py\<close>
    that freeze, authenticate and execute such a campaign.
    \<open>Cache_Audit\<close>, \<open>Cache_Sample\<close>, \<open>Cache_Guarantees\<close> and \<open>Cache_Binding\<close> hold what is proved.
  \<^item> \<open>Round_Campaign\<close> composes the two: the summary that the modelled campaign returns is one that a
    round projects.

  \<^bold>\<open>What the lemmas show\<close>

  \<^item> State: the state a replay rebuilds is consistent, replaying a transition again changes nothing,
    an append extends the journal by what a replay accepts, and a candidate is promoted only after two
    passing pairs in opposite order. Only the documented exceptions leave the replay.
  \<^item> Gates and scores: promotion and screening test exactly the thresholds they name; the decision of
    a cache-performance campaign is the one of exact arithmetic; a complete score stands on four
    admitted lifetimes in which arm A used its prefix cache and arm B did not.
  \<^item> Histories on disk: what is appended is read back; the last digest of an admission chain fixes
    its history; a failed append is refused by the next reader; the annotation log stays readable
    through every history of appends, failed writes included; a frozen campaign loads; a frozen round
    is admitted, executes its child at most once, and what it returned or raised is what the audit
    confirms.
  \<^item> Guarding processes: only a process group just compared with the record is signalled, the record
    is removed only after the group was seen gone, recovery ends, and a timeout is reported only after
    a deadline has passed. The watchdog trips at most once for each callback, in every
    interleaving, and its monitor ends after a stop.
  \<^item> Readers of measurements: deltas of requests add up to the delta of the case; the snapshot of an
    SGLang audit describes a run of the verifier; draft evidence covers every measured case; the
    verdict of a tool-use episode is decided by a plan of calls, and that plan passes.

  \<^bold>\<open>Parameters\<close>

  What is not under \<open>src/\<close> or belongs to the environment is an argument of the definitions:
  \<open>json.dumps\<close> and \<open>json.loads\<close> (\<open>dump\<close>, \<open>load\<close>), SHA-256 (\<open>sha\<close>, \<open>digest\<close>),
  \<open>datetime.fromisoformat\<close> (\<open>aware\<close>, \<open>instant\<close>, \<open>zone\<close>), the clock, Git, the HTTP clients and the
  system calls. Replies come from functions over an unknown environment, one call at a time, so other
  processes may act between two calls. Each hypothesis about a parameter is stated in the theorem that
  uses it (that reading back what was dumped gives the value, that two texts with the same digest are
  equal) and has a witness with a concrete function.

  \<^bold>\<open>Bounds and termination\<close>

  Loops over data are structural. The loops of \<open>os.write\<close> and \<open>os.pread\<close> end because every round
  moves at least a byte (\<open>function\<close> with a measure). The polling loops of the worker are \<open>wloop\<close>, a
  \<open>partial_function\<close> whose value \<open>None\<close> means that the loop never returns; \<open>recovery_ends\<close> proves that
  the recovery returns. An episode takes at most \<open>MAX_TURNS\<close>
  turns, which is the code's own bound. The score of a cache-performance campaign
  is exact for wall times of at most eighteen decimal places and a hundred thousand seconds; the
  runner stores a float of at most seventeen significant digits, so this covers every turn of at
  least a hundredth of a second, and a lifetime of this length is far beyond its timeout.

  \<^bold>\<open>Reading the numbers\<close>

  Python's integers are \<open>int\<close>. A finite \<open>float\<close> is the real number it denotes (\<open>PFloat (FFin r)\<close>),
  infinities and NaN are values of their own, and arithmetic on floats is exact up to its overflow to
  infinity: rounding of single operations is not modelled. \<open>Decimal\<close> is rounded to 28 digits as the
  default context does it.

  \<^bold>\<open>Not modelled\<close>

  \<^item> In the modelled modules: the texts of messages, rounding of floats, a failing \<open>fsync\<close> in the
    journal's append, exceptions delivered between two calls (\<open>KeyboardInterrupt\<close>), NaN as a bound of
    time, recursion limits, the closing of descriptors, which exception is reported when the
    watchdog trips during a timed lifetime, and the thin wrappers of \<open>json\<close>, \<open>hashlib\<close> and HTTP fetches.
  \<^item> \<open>runner.py\<close> beyond the cache-performance campaign, \<open>runtime.py\<close>, \<open>client.py\<close>, \<open>telemetry.py\<close>,
    \<open>docker_bridge.py\<close>, the Harbor and loop campaigns, the SM121 runners and clients and the direct
    engines: drivers of containers, servers and sockets, whose behaviour is mostly that of what they
    call.
  \<^item> \<open>evidence.py\<close>, \<open>manifest.py\<close>, \<open>inventory.py\<close>, \<open>report.py\<close>, \<open>audit.py\<close>, the planner
    \<open>autoresearch_campaign.py\<close> and the contracts of the SM121 lanes: comparisons of large documents
    with pinned literals; of \<open>sglang_sm121_cache_observability.py\<close>, \<open>sglang_sm121_cache_semantic.py\<close>
    and \<open>sglang_sm121_storage.py\<close> only the constants the campaign compares with are here.
  \<^item> \<open>llamacpp_cache_metrics.py\<close>, the two protocol modules, \<open>execution_admission.py\<close>,
    \<open>memory_ops.py\<close>, \<open>content_battery.py\<close>, the acquisition modules, the command-line entry points
    and the patches of SGLang: further readers, fixed schedules and tasks, downloads and glue.
\<close>

end
